(* ===== verification/Py_Prelude.thy ===== *)
theory Py_Prelude
  imports Complex_Main "HOL-Library.AList" "HOL-Library.List_Lexorder" "HOL-Library.Char_ord"
begin

text \<open>
  The part of Python that the modelled modules use, and the lemmas their theories share.

  \<^item> Exceptions are values of \<open>exn\<close>; a method that mutates its object is a
    \<open>('s, 'e, 'a) routine\<close>: a function from the object's state to a result or an exception
    (\<open>exn\<close> for most, when it is an \<open>('s, 'a) eff\<close>) together with the state at that moment. Raising does not roll the state back, as in
    Python. \<open>wp\<close> is the weakest precondition of such a method, with one postcondition
    for the normal return and one for the exception.
  \<^item> \<open>str\<close> is a list of characters; a character stands for the code point of the same
    number (0 to 255). \<open>strip\<close> removes the characters for which \<open>str.isspace\<close> holds
    in that range.
  \<^item> An aware \<open>datetime\<close> is its UTC instant in microseconds; a \<open>datetime\<close> that a
    caller passes in may also be naive (\<open>pydatetime\<close>).
  \<^item> A \<open>dict\<close> whose order is observable is an association list under
    \<open>AList.update\<close> (an existing key keeps its place, a new key goes to the end) and
    \<open>AList.delete\<close>; any other \<open>dict\<close> is a map.
  \<^item> A \<open>deque\<close> with a maximal length is a list under \<open>deque_append\<close>.
\<close>

section \<open>Exceptions and effects\<close>

datatype exn =
    ValueError string
  | RuntimeError string
  | KeyError string
  | TypeError string
  | PermissionError string
  | OverflowError string
  | ZeroDivisionError string
  | IndexError string
  | TimeoutError string
  | OSError string
  | AssertionError string
  | StopIteration
  | SpecValidationError string
  | CancelledError
  | AttributeError string
  | InvalidOperation string

type_synonym ('s, 'e, 'a) routine = "'s \<Rightarrow> ('e + 'a) \<times> 's"

type_synonym ('s, 'a) eff = "('s, exn, 'a) routine"

definition ret :: "'a \<Rightarrow> ('s, 'e, 'a) routine" where
  "ret a = (\<lambda>s. (Inr a, s))"

definition raise :: "'e \<Rightarrow> ('s, 'e, 'a) routine" where
  "raise e = (\<lambda>s. (Inl e, s))"

definition bindE :: "('s, 'e, 'a) routine \<Rightarrow> ('a \<Rightarrow> ('s, 'e, 'b) routine) \<Rightarrow> ('s, 'e, 'b) routine" where
  "bindE m f = (\<lambda>s. case m s of (Inl e, s') \<Rightarrow> (Inl e, s') | (Inr a, s') \<Rightarrow> f a s')"

definition thenE :: "('s, 'e, 'a) routine \<Rightarrow> ('s, 'e, 'b) routine \<Rightarrow> ('s, 'e, 'b) routine" where
  "thenE m k = bindE m (\<lambda>_. k)"

definition getE :: "('s \<Rightarrow> 'a) \<Rightarrow> ('s, 'e, 'a) routine" where
  "getE f = (\<lambda>s. (Inr (f s), s))"

definition modifyE :: "('s \<Rightarrow> 's) \<Rightarrow> ('s, 'e, unit) routine" where
  "modifyE f = (\<lambda>s. (Inr (), f s))"

definition guardE :: "bool \<Rightarrow> 'e \<Rightarrow> ('s, 'e, unit) routine" where
  "guardE ok e = (if ok then ret () else raise e)"

fun mapE :: "('a \<Rightarrow> ('s, 'e, unit) routine) \<Rightarrow> 'a list \<Rightarrow> ('s, 'e, unit) routine" where
  "mapE f [] = ret ()"
| "mapE f (x # xs) = thenE (f x) (mapE f xs)"

text \<open>\<open>try: m except \<dots>\<close>: what \<open>m\<close> does as a value, its exception included.\<close>

definition tryE :: "('s, 'e, 'a) routine \<Rightarrow> ('s, 'e, 'e + 'a) routine" where
  "tryE m = (\<lambda>s. case m s of (r, s') \<Rightarrow> (Inr r, s'))"

lemmas eff_defs = ret_def raise_def bindE_def thenE_def getE_def modifyE_def guardE_def

definition wp :: "('s, 'e, 'a) routine \<Rightarrow> ('a \<Rightarrow> 's \<Rightarrow> bool) \<Rightarrow> ('e \<Rightarrow> 's \<Rightarrow> bool) \<Rightarrow> 's \<Rightarrow> bool" where
  "wp m Q E s = (case m s of (Inl e, s') \<Rightarrow> E e s' | (Inr a, s') \<Rightarrow> Q a s')"

named_theorems wp_rules

lemma wp_ret [wp_rules]: "wp (ret a) Q E = Q a"
  by (simp add: wp_def ret_def fun_eq_iff)

lemma wp_raise [wp_rules]: "wp (raise e) Q E = E e"
  by (simp add: wp_def raise_def fun_eq_iff)

lemma wp_bindE [wp_rules]: "wp (bindE m f) Q E = wp m (\<lambda>a. wp (f a) Q E) E"
  by (auto simp: wp_def bindE_def fun_eq_iff split: prod.splits sum.splits)

lemma wp_thenE [wp_rules]: "wp (thenE m k) Q E = wp m (\<lambda>_. wp k Q E) E"
  by (simp add: thenE_def wp_bindE)

lemma wp_getE [wp_rules]: "wp (getE f) Q E s = Q (f s) s"
  by (simp add: wp_def getE_def)

lemma wp_modifyE [wp_rules]: "wp (modifyE f) Q E s = Q () (f s)"
  by (simp add: wp_def modifyE_def)

lemma wp_guardE [wp_rules]: "wp (guardE b e) Q E s = (if b then Q () s else E e s)"
  by (simp add: guardE_def wp_ret wp_raise)

lemma wp_if [wp_rules]:
  "wp (if b then m else k) Q E s = (if b then wp m Q E s else wp k Q E s)"
  by simp

lemma wp_let [wp_rules]: "wp (let x = v in f x) Q E s = wp (f v) Q E s"
  by simp

lemma wp_case_option [wp_rules]:
  "wp (case x of None \<Rightarrow> m | Some y \<Rightarrow> f y) Q E s =
     (case x of None \<Rightarrow> wp m Q E s | Some y \<Rightarrow> wp (f y) Q E s)"
  by (cases x) simp_all

lemma wp_case_sum [wp_rules]:
  "wp (case x of Inl a \<Rightarrow> f a | Inr b \<Rightarrow> g b) Q E s =
     (case x of Inl a \<Rightarrow> wp (f a) Q E s | Inr b \<Rightarrow> wp (g b) Q E s)"
  by (cases x) simp_all

lemma wp_case_prod [wp_rules]:
  "wp (case x of (a, b) \<Rightarrow> f a b) Q E s = (case x of (a, b) \<Rightarrow> wp (f a b) Q E s)"
  by (cases x) simp_all

lemma wp_tryE [wp_rules]: "wp (tryE m) Q E s = wp m (\<lambda>a. Q (Inr a)) (\<lambda>e. Q (Inl e)) s"
  by (auto simp: wp_def tryE_def split: prod.splits sum.splits)

lemma wp_mapE_modifyE: "wp (mapE (\<lambda>x. modifyE (f x)) xs) Q E s = Q () (fold f xs s)"
  by (induction xs arbitrary: s) (simp_all add: wp_rules)

lemma wp_mono:
  assumes "wp m Q E s"
    and "\<And>a s'. Q a s' \<Longrightarrow> Q' a s'" and "\<And>e s'. E e s' \<Longrightarrow> E' e s'"
  shows "wp m Q' E' s"
  using assms by (auto simp: wp_def split: prod.splits sum.splits)

lemma wp_conj:
  "wp m Q E s \<Longrightarrow> wp m Q' E' s \<Longrightarrow> wp m (\<lambda>a t. Q a t \<and> Q' a t) (\<lambda>e t. E e t \<and> E' e t) s"
  by (auto simp: wp_def split: prod.splits sum.splits)

lemma wp_returnD: "wp m Q E s \<Longrightarrow> m s = (Inr a, t) \<Longrightarrow> Q a t"
  by (simp add: wp_def)

lemma wp_raiseD: "wp m Q E s \<Longrightarrow> m s = (Inl e, t) \<Longrightarrow> E e t"
  by (simp add: wp_def)

text \<open>\<open>keeps I m\<close>: the method keeps \<open>I\<close>, whether it returns or raises.\<close>

definition keeps :: "('s \<Rightarrow> bool) \<Rightarrow> ('s, 'e, 'a) routine \<Rightarrow> bool" where
  "keeps I m \<longleftrightarrow> (\<forall>s. I s \<longrightarrow> I (snd (m s)))"

lemma keeps_wp: "keeps I m \<longleftrightarrow> (\<forall>s. I s \<longrightarrow> wp m (\<lambda>_. I) (\<lambda>_. I) s)"
proof -
  have "I (snd (m s)) \<longleftrightarrow> wp m (\<lambda>_. I) (\<lambda>_. I) s" for s
    by (auto simp: wp_def split: prod.splits sum.splits)
  then show ?thesis by (simp add: keeps_def)
qed

lemma keepsD: "keeps I m \<Longrightarrow> I s \<Longrightarrow> m s = (r, t) \<Longrightarrow> I t"
  by (force simp: keeps_def)

named_theorems keeps_rules

lemma keeps_ret [keeps_rules]: "keeps I (ret a)"
  by (simp add: keeps_def ret_def)

lemma keeps_raise [keeps_rules]: "keeps I (raise e)"
  by (simp add: keeps_def raise_def)

lemma keeps_getE [keeps_rules]: "keeps I (getE f)"
  by (simp add: keeps_def getE_def)

lemma keeps_guardE [keeps_rules]: "keeps I (guardE b e)"
  by (simp add: keeps_def guardE_def ret_def raise_def)

lemma keeps_bindE [keeps_rules]: "keeps I m \<Longrightarrow> (\<And>a. keeps I (f a)) \<Longrightarrow> keeps I (bindE m f)"
  by (fastforce simp: keeps_wp wp_bindE elim!: wp_mono)

lemma keeps_thenE [keeps_rules]: "keeps I m \<Longrightarrow> keeps I k \<Longrightarrow> keeps I (thenE m k)"
  by (simp add: thenE_def keeps_bindE)

lemma keeps_mapE [keeps_rules]: "(\<And>x. x \<in> set xs \<Longrightarrow> keeps I (f x)) \<Longrightarrow> keeps I (mapE f xs)"
  by (induction xs) (auto intro: keeps_rules)

lemma keeps_tryE [keeps_rules]: "keeps I m \<Longrightarrow> keeps I (tryE m)"
  by (auto simp: keeps_def tryE_def split: prod.splits)

lemma keeps_modifyE: "(\<And>s. I s \<Longrightarrow> I (f s)) \<Longrightarrow> keeps I (modifyE f)"
  by (simp add: keeps_def modifyE_def)

lemma keeps_if [keeps_rules]: "keeps I m \<Longrightarrow> keeps I k \<Longrightarrow> keeps I (if b then m else k)"
  by simp

lemma keeps_case_option [keeps_rules]:
  "keeps I m \<Longrightarrow> (\<And>y. keeps I (f y)) \<Longrightarrow> keeps I (case x of None \<Rightarrow> m | Some y \<Rightarrow> f y)"
  by (cases x) simp_all

lemma keeps_case_sum [keeps_rules]:
  "(\<And>a. keeps I (f a)) \<Longrightarrow> (\<And>b. keeps I (g b)) \<Longrightarrow>
     keeps I (case x of Inl a \<Rightarrow> f a | Inr b \<Rightarrow> g b)"
  by (cases x) simp_all

lemma keeps_case_prod [keeps_rules]:
  "(\<And>a b. keeps I (f a b)) \<Longrightarrow> keeps I (case x of (a, b) \<Rightarrow> f a b)"
  by (cases x) simp

lemma keeps_case_list [keeps_rules]:
  "keeps I m \<Longrightarrow> (\<And>y ys. keeps I (f y ys)) \<Longrightarrow> keeps I (case x of [] \<Rightarrow> m | y # ys \<Rightarrow> f y ys)"
  by (cases x) simp_all

lemma keeps_conj: "keeps I m \<Longrightarrow> keeps J m \<Longrightarrow> keeps (\<lambda>s. I s \<and> J s) m"
  by (simp add: keeps_def)

text \<open>\<open>gives I P m\<close>: the method keeps \<open>I\<close>, and what it returns satisfies \<open>P\<close>.\<close>

definition gives :: "('s \<Rightarrow> bool) \<Rightarrow> ('a \<Rightarrow> bool) \<Rightarrow> ('s, 'e, 'a) routine \<Rightarrow> bool" where
  "gives I P m \<longleftrightarrow> (\<forall>s. I s \<longrightarrow> wp m (\<lambda>a t. P a \<and> I t) (\<lambda>_. I) s)"

lemma gives_keeps: "gives I (\<lambda>_. True) m \<longleftrightarrow> keeps I m"
  by (simp add: gives_def keeps_wp)

lemma gives_ret: "P a \<Longrightarrow> gives I P (ret a)"
  by (simp add: gives_def wp_ret)

lemma gives_raise: "gives I P (raise e)"
  by (simp add: gives_def wp_raise)

lemma gives_bindE: "gives I P m \<Longrightarrow> (\<And>a. P a \<Longrightarrow> gives I Q (f a)) \<Longrightarrow> gives I Q (bindE m f)"
  by (fastforce simp: gives_def wp_bindE elim!: wp_mono)

lemma gives_bind_keeps: "keeps I m \<Longrightarrow> (\<And>a. gives I Q (f a)) \<Longrightarrow> gives I Q (bindE m f)"
  by (rule gives_bindE [where P = "\<lambda>_. True"]) (simp_all add: gives_keeps)

lemma keeps_bind_gives: "gives I P m \<Longrightarrow> (\<And>a. P a \<Longrightarrow> keeps I (f a)) \<Longrightarrow> keeps I (bindE m f)"
  unfolding gives_keeps [symmetric] by (rule gives_bindE)

lemma gives_tryE: "gives I P m \<Longrightarrow> gives I (\<lambda>r. \<forall>a. r = Inr a \<longrightarrow> P a) (tryE m)"
  by (auto simp: gives_def wp_tryE elim!: wp_mono)

text \<open>A comprehension whose element expression is a method.\<close>

fun collectE :: "('a \<Rightarrow> ('s, 'e, 'b) routine) \<Rightarrow> 'a list \<Rightarrow> ('s, 'e, 'b list) routine" where
  "collectE f [] = ret []"
| "collectE f (x # xs) = bindE (f x) (\<lambda>y. bindE (collectE f xs) (\<lambda>ys. ret (y # ys)))"

lemma gives_collectE:
  "(\<And>x. x \<in> set xs \<Longrightarrow> gives I P (f x)) \<Longrightarrow> gives I (\<lambda>ys. \<forall>y \<in> set ys. P y) (collectE f xs)"
proof (induction xs)
  case (Cons x xs)
  then have "gives I P (f x)" and "gives I (\<lambda>ys. \<forall>y \<in> set ys. P y) (collectE f xs)" by simp_all
  then show ?case by (auto intro!: gives_bindE gives_ret)
qed (simp add: gives_ret)

lemma keeps_collectE [keeps_rules]: "(\<And>x. x \<in> set xs \<Longrightarrow> keeps I (f x)) \<Longrightarrow> keeps I (collectE f xs)"
  by (induction xs) (auto intro: keeps_rules)

text \<open>A comprehension whose element expression may raise: the first exception wins.\<close>

fun traverse :: "('a \<Rightarrow> exn + 'b) \<Rightarrow> 'a list \<Rightarrow> exn + 'b list" where
  "traverse f [] = Inr []"
| "traverse f (x # xs) = (case f x of
       Inl e \<Rightarrow> Inl e
     | Inr y \<Rightarrow> (case traverse f xs of Inl e \<Rightarrow> Inl e | Inr ys \<Rightarrow> Inr (y # ys)))"

lemma traverse_Inr: "traverse f xs = Inr ys \<longleftrightarrow> list_all2 (\<lambda>x y. f x = Inr y) xs ys"
proof (induction xs arbitrary: ys)
  case (Cons x xs)
  show ?case
  proof (cases "f x")
    case (Inr y)
    show ?thesis
    proof (cases "traverse f xs")
      case (Inl e)
      then have "\<not> list_all2 (\<lambda>x y. f x = Inr y) xs zs" for zs using Cons.IH [of zs] by simp
      with Inl Inr show ?thesis by (auto simp: list_all2_Cons1)
    next
      case trav: (Inr zs)
      then have "list_all2 (\<lambda>x y. f x = Inr y) xs ws \<longleftrightarrow> zs = ws" for ws using Cons.IH [of ws] by simp
      with Inr trav show ?thesis by (auto simp: list_all2_Cons1)
    qed
  qed (auto simp: list_all2_Cons1)
qed auto

lemma traverse_map: "traverse (\<lambda>x. Inr (f x)) xs = Inr (map f xs)"
  by (induction xs) auto

lemma traverse_cong [fundef_cong]:
  assumes "xs = ys" and "\<And>x. x \<in> set ys \<Longrightarrow> f x = g x"
  shows "traverse f xs = traverse g ys"
proof -
  have "traverse f ys = traverse g ys" using assms(2) by (induction ys) (simp_all split: sum.split)
  with assms(1) show ?thesis by simp
qed

section \<open>Strings\<close>

definition py_isspace :: "char \<Rightarrow> bool" where
  "py_isspace c = (let n = (of_char c :: nat) in
     9 \<le> n \<and> n \<le> 13 \<or> 28 \<le> n \<and> n \<le> 32 \<or> n = 133 \<or> n = 160)"

definition lstrip :: "string \<Rightarrow> string" where
  "lstrip s = dropWhile py_isspace s"

definition rstrip :: "string \<Rightarrow> string" where
  "rstrip s = rev (dropWhile py_isspace (rev s))"

definition strip :: "string \<Rightarrow> string" where
  "strip s = rstrip (lstrip s)"

text \<open>\<open>not s.strip()\<close>: the string is empty or all white space.\<close>

definition blank :: "string \<Rightarrow> bool" where
  "blank s \<longleftrightarrow> strip s = []"

lemma dropWhile_empty_iff: "dropWhile P xs = [] \<longleftrightarrow> (\<forall>x \<in> set xs. P x)"
  by (induction xs) auto

lemma rstrip_empty_iff: "rstrip s = [] \<longleftrightarrow> (\<forall>c \<in> set s. py_isspace c)"
  by (simp add: rstrip_def dropWhile_empty_iff)

lemma blank_iff: "blank s \<longleftrightarrow> (\<forall>c \<in> set s. py_isspace c)"
proof -
  have "(\<forall>c \<in> set (lstrip s). py_isspace c) \<longleftrightarrow> (\<forall>c \<in> set s. py_isspace c)"
    by (metis dropWhile_empty_iff empty_iff empty_set hd_dropWhile hd_in_set lstrip_def)
  then show ?thesis
    by (simp add: blank_def strip_def rstrip_empty_iff)
qed

lemma lstrip_idem: "lstrip (lstrip s) = lstrip s"
  by (simp add: lstrip_def)

lemma rstrip_idem: "rstrip (rstrip s) = rstrip s"
  by (simp add: rstrip_def)

lemma rstrip_lstrip_comm: "lstrip (rstrip (lstrip s)) = rstrip (lstrip s)"
proof (cases "lstrip s")
  case Nil
  then show ?thesis by (simp add: rstrip_def) (simp add: lstrip_def)
next
  case (Cons c cs)
  then have c: "\<not> py_isspace c"
    by (metis dropWhile_eq_Cons_conv lstrip_def)
  then have "rstrip (c # cs) = c # rstrip cs"
    by (auto simp: rstrip_def dropWhile_append dropWhile_empty_iff)
  with Cons c show ?thesis by (simp add: lstrip_def)
qed

lemma strip_idem: "strip (strip s) = strip s"
  by (simp add: strip_def rstrip_lstrip_comm rstrip_idem)

text \<open>\<open>str(n)\<close> of an integer, for the messages that interpolate one.\<close>

fun str_of_nat :: "nat \<Rightarrow> string" where
  "str_of_nat n =
     (if n < 10 then [char_of (48 + n)] else str_of_nat (n div 10) @ [char_of (48 + n mod 10)])"

declare str_of_nat.simps [simp del]

definition str_of_int :: "int \<Rightarrow> string" where
  "str_of_int i = (if i < 0 then ''-'' @ str_of_nat (nat (- i)) else str_of_nat (nat i))"

definition str_startswith :: "string \<Rightarrow> string \<Rightarrow> bool" where
  "str_startswith s p \<longleftrightarrow> take (length p) s = p"

definition str_endswith :: "string \<Rightarrow> string \<Rightarrow> bool" where
  "str_endswith s p \<longleftrightarrow> length p \<le> length s \<and> drop (length s - length p) s = p"

fun str_join :: "string \<Rightarrow> string list \<Rightarrow> string" where
  "str_join sep [] = []"
| "str_join sep [x] = x"
| "str_join sep (x # y # xs) = x @ sep @ str_join sep (y # xs)"

fun str_split :: "char \<Rightarrow> string \<Rightarrow> string list" where
  "str_split d [] = [[]]"
| "str_split d (c # cs) =
     (if c = d then [] # str_split d cs
      else (case str_split d cs of [] \<Rightarrow> [[c]] | w # ws \<Rightarrow> (c # w) # ws))"

lemma str_split_plain: "d \<notin> set s \<Longrightarrow> str_split d s = [s]"
  by (induction s) auto

lemma str_split_nonempty: "str_split d s \<noteq> []"
  by (induction s) (auto split: list.splits)

lemma str_split_join: "d \<notin> set a \<Longrightarrow> str_split d (a @ d # b) = a # str_split d b"
  by (induction a) (auto split: list.splits)

lemma str_split_parts:
  "ps \<noteq> [] \<Longrightarrow> \<forall>p \<in> set ps. d \<notin> set p \<Longrightarrow> str_split d (str_join [d] ps) = ps"
  by (induction "[d]" ps rule: str_join.induct) (simp_all add: str_split_plain str_split_join)

definition is_lower_ascii :: "char \<Rightarrow> bool" where
  "is_lower_ascii c = (let n = (of_char c :: nat) in 97 \<le> n \<and> n \<le> 122)"

definition is_upper_ascii :: "char \<Rightarrow> bool" where
  "is_upper_ascii c = (let n = (of_char c :: nat) in 65 \<le> n \<and> n \<le> 90)"

definition is_digit_ascii :: "char \<Rightarrow> bool" where
  "is_digit_ascii c = (let n = (of_char c :: nat) in 48 \<le> n \<and> n \<le> 57)"

text \<open>\<open>str.lower\<close> on the code points 0 to 255 (A-Z, and U+00C0 to U+00DE but U+00D7).\<close>

definition char_lower :: "char \<Rightarrow> char" where
  "char_lower c = (let n = (of_char c :: nat) in
     if 65 \<le> n \<and> n \<le> 90 \<or> 192 \<le> n \<and> n \<le> 222 \<and> n \<noteq> 215 then char_of (n + 32) else c)"

definition str_lower :: "string \<Rightarrow> string" where
  "str_lower s = map char_lower s"

text \<open>\<open>x or d\<close> and \<open>x and \<dots>\<close> on an optional string: \<open>None\<close> and the empty string are false.\<close>

definition str_truthy :: "string option \<Rightarrow> bool" where
  "str_truthy x = (case x of None \<Rightarrow> False | Some s \<Rightarrow> s \<noteq> [])"

section \<open>Instants\<close>

datatype datetime = Datetime (us: int)

instantiation datetime :: linorder
begin

definition less_eq_datetime :: "datetime \<Rightarrow> datetime \<Rightarrow> bool" where
  "less_eq_datetime a b \<longleftrightarrow> us a \<le> us b"

definition less_datetime :: "datetime \<Rightarrow> datetime \<Rightarrow> bool" where
  "less_datetime a b \<longleftrightarrow> us a < us b"

instance
  by standard (auto simp: less_eq_datetime_def less_datetime_def datetime.expand)

end

lemmas datetime_order = less_eq_datetime_def less_datetime_def

text \<open>A \<open>timedelta\<close> is its number of microseconds.\<close>

type_synonym timedelta = int

definition dt_add :: "datetime \<Rightarrow> timedelta \<Rightarrow> datetime" where
  "dt_add t d = Datetime (us t + d)"

definition dt_diff :: "datetime \<Rightarrow> datetime \<Rightarrow> timedelta" where
  "dt_diff a b = us a - us b"

definition seconds :: "int \<Rightarrow> timedelta" where
  "seconds n = n * 1000000"

definition total_seconds :: "timedelta \<Rightarrow> rat" where
  "total_seconds d = of_int d / 1000000"

lemma us_dt_add [simp]: "us (dt_add t d) = us t + d"
  by (simp add: dt_add_def)

lemma dt_diff_add [simp]: "dt_diff (dt_add t d) t = d"
  by (simp add: dt_diff_def)

lemma total_seconds_mono: "d \<le> d' \<Longrightarrow> total_seconds d \<le> total_seconds d'"
  by (simp add: total_seconds_def divide_right_mono)

lemma total_seconds_le_iff [simp]: "total_seconds d \<le> total_seconds d' \<longleftrightarrow> d \<le> d'"
  by (simp add: total_seconds_def divide_le_cancel)

text \<open>What a caller may pass where an aware \<open>datetime\<close> is wanted.\<close>

datatype pydatetime = Naive int | Aware datetime

definition require_aware :: "string \<Rightarrow> pydatetime \<Rightarrow> exn + datetime" where
  "require_aware field v = (case v of
       Aware t \<Rightarrow> Inr t
     | Naive _ \<Rightarrow> Inl (ValueError (field @ '' must be timezone-aware'')))"

section \<open>Containers\<close>

definition deque_append :: "nat \<Rightarrow> 'a list \<Rightarrow> 'a \<Rightarrow> 'a list" where
  "deque_append maxlen xs x = (let ys = xs @ [x] in drop (length ys - maxlen) ys)"

lemma deque_append_length: "length (deque_append n xs x) \<le> n"
  by (simp add: deque_append_def Let_def)

lemma deque_append_last: "0 < n \<Longrightarrow> last (deque_append n xs x) = x"
  by (simp add: deque_append_def Let_def last_drop)

lemma deque_append_set: "set (deque_append n xs x) \<subseteq> insert x (set xs)"
  using set_drop_subset [of _ "xs @ [x]"] by (fastforce simp: deque_append_def Let_def)

lemma deque_append_sorted_wrt:
  "sorted_wrt R xs \<Longrightarrow> (\<forall>y \<in> set xs. R y x) \<Longrightarrow> sorted_wrt R (deque_append n xs x)"
  unfolding deque_append_def Let_def
  by (rule sorted_wrt_drop) (simp add: sorted_wrt_append)

text \<open>Association lists as Python dictionaries.\<close>

lemma alist_keys_update:
  "map fst (AList.update k v al) = (if k \<in> fst ` set al then map fst al else map fst al @ [k])"
  by (induction al) auto

lemma alist_update_image: "fst ` set (AList.update k v al) = insert k (fst ` set al)"
  by (induction al) auto

lemma alist_distinct_update:
  "distinct (map fst al) \<Longrightarrow> distinct (map fst (AList.update k v al))"
  by (simp add: alist_keys_update)

lemma alist_set_update:
  "distinct (map fst al) \<Longrightarrow>
     set (AList.update k v al) = insert (k, v) {p \<in> set al. fst p \<noteq> k}"
  by (induction al) (auto simp: image_iff)

lemma alist_update_values:
  "\<forall>(k, v) \<in> set al. P v \<Longrightarrow> P v' \<Longrightarrow> \<forall>(k, v) \<in> set (AList.update k' v' al). P v"
  by (induction al) auto

lemma alist_fold_values:
  "\<forall>x \<in> set xs. P (g x) \<Longrightarrow> \<forall>(k, v) \<in> set al. P v \<Longrightarrow>
     \<forall>(k, v) \<in> set (fold (\<lambda>x. AList.update (f x) (g x)) xs al). P v"
proof (induction xs arbitrary: al)
  case (Cons x xs)
  have "\<forall>(k, v) \<in> set (AList.update (f x) (g x) al). P v"
    by (rule alist_update_values) (use Cons.prems in auto)
  with Cons show ?case by simp
qed simp

end
