(* ===== verification/Py_Values.thy ===== *)
theory Py_Values
  imports Py_Prelude
begin

text \<open>
  Dynamic Python values (what \<open>json.loads\<close> returns and what the \<open>as_dict\<close> methods
  build), \<open>float(...)\<close> of such a value, and the recursive check of a back-test's evidence
  in src/src/quant_signal_agent/backtesting/performance.py.

  A float is a rational, an infinity or a not-a-number; \<open>float\<close> of a string is CPython's
  parser, a parameter \<open>fs\<close> here (\<open>None\<close> where it raises \<open>ValueError\<close>). A dict is an
  association list in insertion order.
\<close>

datatype pyfloat = Fin rat | PInf | NInf | NaN

datatype pyval =
    PNone
  | PBool bool
  | PInt int
  | PFloat pyfloat
  | PStr string
  | PList "pyval list"
  | PDict "(string \<times> pyval) list"

definition float_eq :: "pyfloat \<Rightarrow> pyfloat \<Rightarrow> bool" where
  "float_eq a b = (a \<noteq> NaN \<and> a = b)"

text \<open>An \<open>int\<close> that rounds to 2^1024 or more does not fit a float.\<close>

definition float_overflows :: "int \<Rightarrow> bool" where
  "float_overflows i \<longleftrightarrow> 2 ^ 1024 - 2 ^ 970 \<le> \<bar>i\<bar>"

definition py_float :: "(string \<Rightarrow> pyfloat option) \<Rightarrow> pyval \<Rightarrow> exn + pyfloat" where
  "py_float fs v = (case v of
       PFloat f \<Rightarrow> Inr f
     | PInt i \<Rightarrow> if float_overflows i then Inl (OverflowError ''int too large to convert to float'')
                 else Inr (Fin (of_int i))
     | PBool b \<Rightarrow> Inr (Fin (if b then 1 else 0))
     | PStr s \<Rightarrow> (case fs s of
           None \<Rightarrow> Inl (ValueError ''could not convert string to float'')
         | Some f \<Rightarrow> Inr f)
     | _ \<Rightarrow> Inl (TypeError ''float() argument must be a string or a real number''))"

definition opt_str :: "string option \<Rightarrow> pyval" where
  "opt_str x = (case x of None \<Rightarrow> PNone | Some s \<Rightarrow> PStr s)"

section \<open>Evidence of a trading back-test\<close>

definition REQUIRED_TRADING_CHARTS :: "string list" where
  "REQUIRED_TRADING_CHARTS =
     [''cagr_roi'', ''max_drawdown'', ''sharpe_ratio'', ''win_rate_payoff_ratio'', ''trade_count'']"

definition REQUIRED_TRADING_METRICS :: "string list" where
  "REQUIRED_TRADING_METRICS =
     [''initial_equity_usd'', ''cagr'', ''roi'', ''max_drawdown'', ''sharpe_ratio'', ''win_rate'',
      ''payoff_ratio'', ''trade_count'']"

definition TRADING_STRATEGY_INITIAL_EQUITY_USD :: pyfloat where
  "TRADING_STRATEGY_INITIAL_EQUITY_USD = Fin 10000"

text \<open>\<open>d.get(k)\<close>, and \<open>key in d\<close>.\<close>

definition dict_get :: "(string \<times> pyval) list \<Rightarrow> string \<Rightarrow> pyval" where
  "dict_get d k = (case map_of d k of None \<Rightarrow> PNone | Some v \<Rightarrow> v)"

definition dict_has :: "(string \<times> 'v) list \<Rightarrow> string \<Rightarrow> bool" where
  "dict_has d k \<longleftrightarrow> k \<in> set (map fst d)"

text \<open>The direct bundle: every required metric is a key of \<open>metrics\<close>.\<close>

definition validate_direct ::
  "(string \<Rightarrow> pyfloat option) \<Rightarrow> (string \<times> pyval) list \<Rightarrow> (string \<times> pyval) list \<Rightarrow> exn + (bool \<times> string)"
where
  "validate_direct fs metrics charts =
     (case py_float fs (dict_get metrics ''initial_equity_usd'') of
        Inl (OverflowError e) \<Rightarrow> Inl (OverflowError e)
      | Inl _ \<Rightarrow> Inr (False, ''initial_equity_usd must be numeric'')
      | Inr initial_equity \<Rightarrow>
          if \<not> float_eq initial_equity TRADING_STRATEGY_INITIAL_EQUITY_USD
          then Inr (False, ''initial_equity_usd must be exactly 10000'')
          else (let missing = filter (\<lambda>key. \<not> dict_has charts key) REQUIRED_TRADING_CHARTS in
            if missing \<noteq> []
            then Inr (False, ''missing required performance charts: '' @ str_join '', '' missing)
            else Inr (True, ''valid'')))"

fun validate_trading_performance_evidence ::
  "(string \<Rightarrow> pyfloat option) \<Rightarrow> pyval \<Rightarrow> pyval \<Rightarrow> exn + (bool \<times> string)"
and validate_variants ::
  "(string \<Rightarrow> pyfloat option) \<Rightarrow> (string \<times> pyval) list \<Rightarrow> (string \<times> pyval) list \<Rightarrow> exn + (bool \<times> string)"
where
  "validate_trading_performance_evidence fs (PDict metrics) (PDict charts) =
     (if \<forall>key \<in> set REQUIRED_TRADING_METRICS. dict_has metrics key
      then validate_direct fs metrics charts
      else if metrics = [] then Inr (False, ''performance_standard is empty'')
      else validate_variants fs metrics charts)"
| "validate_trading_performance_evidence fs _ _ =
     Inr (False, ''performance_standard and charts must be objects'')"
| "validate_variants fs [] charts = Inr (True, ''valid'')"
| "validate_variants fs ((name, nested_metrics) # rest) charts =
     (case validate_trading_performance_evidence fs nested_metrics (dict_get charts name) of
        Inl e \<Rightarrow> Inl e
      | Inr (valid, reason) \<Rightarrow>
          if \<not> valid then Inr (False, ''variant '' @ name @ '': '' @ reason)
          else validate_variants fs rest charts)"

text \<open>What the check promises: a tree of variants whose leaves are complete bundles.\<close>

definition complete_bundle ::
  "(string \<Rightarrow> pyfloat option) \<Rightarrow> (string \<times> pyval) list \<Rightarrow> (string \<times> pyval) list \<Rightarrow> bool"
where
  "complete_bundle fs metrics charts \<longleftrightarrow>
     (\<forall>key \<in> set REQUIRED_TRADING_METRICS. dict_has metrics key) \<and>
     py_float fs (dict_get metrics ''initial_equity_usd'') = Inr (Fin 10000) \<and>
     (\<forall>key \<in> set REQUIRED_TRADING_CHARTS. dict_has charts key)"

inductive evidence_complete :: "(string \<Rightarrow> pyfloat option) \<Rightarrow> pyval \<Rightarrow> pyval \<Rightarrow> bool"
  for fs :: "string \<Rightarrow> pyfloat option"
where
  direct: "complete_bundle fs metrics charts \<Longrightarrow> evidence_complete fs (PDict metrics) (PDict charts)"
| variants: "metrics \<noteq> [] \<Longrightarrow> \<not> (\<forall>key \<in> set REQUIRED_TRADING_METRICS. dict_has metrics key) \<Longrightarrow>
     (\<And>name nested. (name, nested) \<in> set metrics \<Longrightarrow>
        evidence_complete fs nested (dict_get charts name)) \<Longrightarrow>
     evidence_complete fs (PDict metrics) (PDict charts)"

lemma float_eq_iff [simp]: "float_eq a (Fin r) \<longleftrightarrow> a = Fin r"
  by (auto simp: float_eq_def)

lemma validate_direct_valid_iff:
  assumes "\<forall>key \<in> set REQUIRED_TRADING_METRICS. dict_has metrics key"
  shows "validate_direct fs metrics charts = Inr (True, r) \<longleftrightarrow>
    complete_bundle fs metrics charts \<and> r = ''valid''"
  using assms
  by (auto simp: validate_direct_def complete_bundle_def TRADING_STRATEGY_INITIAL_EQUITY_USD_def
      filter_empty_conv Let_def split: sum.splits exn.splits if_splits)

lemma validate_variants_complete:
  "validate_trading_performance_evidence fs m c = Inr (True, r) \<Longrightarrow> evidence_complete fs m c"
  "validate_variants fs ms cs = Inr (True, r) \<Longrightarrow>
     \<forall>(name, nested) \<in> set ms. evidence_complete fs nested (dict_get cs name)"
proof (induction fs m c and fs ms cs arbitrary: r and r
    rule: validate_trading_performance_evidence_validate_variants.induct)
  case (1 fs metrics charts)
  show ?case
  proof (cases "\<forall>key \<in> set REQUIRED_TRADING_METRICS. dict_has metrics key")
    case True
    with 1 show ?thesis by (auto simp: validate_direct_valid_iff intro: evidence_complete.direct)
  next
    case False
    with 1 show ?thesis by (force split: if_splits intro: evidence_complete.variants)
  qed
qed (fastforce split: sum.splits if_splits)+

lemma validate_variants_accepts:
  "(\<And>name nested. (name, nested) \<in> set ms \<Longrightarrow>
      validate_trading_performance_evidence fs nested (dict_get cs name) = Inr (True, ''valid'')) \<Longrightarrow>
   validate_variants fs ms cs = Inr (True, ''valid'')"
  by (induction ms) auto

lemma evidence_complete_accepted:
  "evidence_complete fs m c \<Longrightarrow>
     validate_trading_performance_evidence fs m c = Inr (True, ''valid'')"
proof (induction rule: evidence_complete.induct)
  case (direct metrics charts)
  then have "\<forall>key \<in> set REQUIRED_TRADING_METRICS. dict_has metrics key"
    by (simp add: complete_bundle_def)
  with direct show ?case by (simp add: validate_direct_valid_iff)
next
  case (variants metrics charts)
  then show ?case by (auto simp: validate_variants_accepts)
qed

text \<open>
  The check accepts exactly the complete evidence, and its reason is then always
  \<open>valid\<close>.
\<close>

lemma validate_evidence_iff:
  "validate_trading_performance_evidence fs m c = Inr (True, r) \<longleftrightarrow>
     evidence_complete fs m c \<and> r = ''valid''"
  using validate_variants_complete(1) evidence_complete_accepted by fastforce

text \<open>A summary without nested objects can only be a direct bundle.\<close>

definition is_dict :: "pyval \<Rightarrow> bool" where
  "is_dict v = (case v of PDict _ \<Rightarrow> True | _ \<Rightarrow> False)"

lemma evidence_complete_flat:
  assumes "evidence_complete fs (PDict ms) (PDict cs)" and "\<forall>(k, v) \<in> set ms. \<not> is_dict v"
  shows "complete_bundle fs ms cs"
  using assms(1)
proof cases
  case direct
  then show ?thesis by simp
next
  case variants
  from variants(1) obtain k v where kv: "(k, v) \<in> set ms" by (cases ms) auto
  with variants(3) have "evidence_complete fs v (dict_get cs k)" by blast
  then have "is_dict v" by (cases) (simp_all add: is_dict_def)
  with kv assms(2) show ?thesis by auto
qed

end
