(* ===== verification/Studio_Models.thy ===== *)
theory Studio_Models
  imports Py_Values
begin

text \<open>
  src/src/quant_signal_agent/studio/models.py: the enumerations and data classes shared by the
  studio's agents, and the \<open>as_dict\<close> views of them.

  The user-visible texts are f-strings in Chinese. A text is represented by its template
  (one constructor of \<open>studio_text\<close> for each f-string of workflow.py) applied to the values
  the template interpolates; the wording itself is the parameter \<open>render\<close> of the
  \<open>as_dict\<close> functions.
\<close>

section \<open>Enumerations\<close>

datatype agent_role =
    MANAGER | STRATEGY | BACKTEST | REVIEW | OPTIMIZE | SIGNAL | MAINTENANCE_AGENT | TRADING | SYSTEM

datatype manager_capability = ADD_SIGNAL | ADD_STRATEGY | REQUEST_AGENT_DATA | MANAGE_WORKFLOW

datatype agent_activity = IDLE | WORKING | WAITING_USER | RUNNING | STOPPED | STANDBY

datatype workflow_stage =
    SIGNAL_IMPLEMENTATION
  | STRATEGY_IMPLEMENTATION
  | REVIEWING_IMPLEMENTATION
  | AWAITING_IMPLEMENTATION_APPROVAL
  | BACKTESTING
  | REVIEWING_BACKTEST
  | OPTIMIZING
  | AWAITING_OPTIMIZATION_APPROVAL
  | AWAITING_BACKTEST_APPROVAL
  | AWAITING_LIVE_APPROVAL
  | READY_FOR_SIGNAL
  | READY_FOR_TRADING
  | SIGNAL_RUNNING
  | MAINTENANCE
  | SIGNAL_STOPPED
  | REJECTED

datatype message_level = INFO | SUCCESS | WARNING | ERROR

datatype artifact_kind = SIGNAL_ARTIFACT | STRATEGY_ARTIFACT

fun role_value :: "agent_role \<Rightarrow> string" where
  "role_value MANAGER = ''manager''"
| "role_value STRATEGY = ''strategy''"
| "role_value BACKTEST = ''backtest''"
| "role_value REVIEW = ''review''"
| "role_value OPTIMIZE = ''optimize''"
| "role_value SIGNAL = ''signal''"
| "role_value MAINTENANCE_AGENT = ''maintenance''"
| "role_value TRADING = ''trading''"
| "role_value SYSTEM = ''system''"

fun capability_value :: "manager_capability \<Rightarrow> string" where
  "capability_value ADD_SIGNAL = ''add_signal''"
| "capability_value ADD_STRATEGY = ''add_strategy''"
| "capability_value REQUEST_AGENT_DATA = ''request_agent_data''"
| "capability_value MANAGE_WORKFLOW = ''manage_workflow''"

fun activity_value :: "agent_activity \<Rightarrow> string" where
  "activity_value IDLE = ''idle''"
| "activity_value WORKING = ''working''"
| "activity_value WAITING_USER = ''waiting_user''"
| "activity_value RUNNING = ''running''"
| "activity_value STOPPED = ''stopped''"
| "activity_value STANDBY = ''standby''"

fun stage_value :: "workflow_stage \<Rightarrow> string" where
  "stage_value SIGNAL_IMPLEMENTATION = ''signal_implementation''"
| "stage_value STRATEGY_IMPLEMENTATION = ''strategy_implementation''"
| "stage_value REVIEWING_IMPLEMENTATION = ''reviewing_implementation''"
| "stage_value AWAITING_IMPLEMENTATION_APPROVAL = ''awaiting_implementation_approval''"
| "stage_value BACKTESTING = ''backtesting''"
| "stage_value REVIEWING_BACKTEST = ''reviewing_backtest''"
| "stage_value OPTIMIZING = ''optimizing''"
| "stage_value AWAITING_OPTIMIZATION_APPROVAL = ''awaiting_optimization_approval''"
| "stage_value AWAITING_BACKTEST_APPROVAL = ''awaiting_backtest_approval''"
| "stage_value AWAITING_LIVE_APPROVAL = ''awaiting_live_approval''"
| "stage_value READY_FOR_SIGNAL = ''ready_for_signal''"
| "stage_value READY_FOR_TRADING = ''ready_for_trading''"
| "stage_value SIGNAL_RUNNING = ''signal_running''"
| "stage_value MAINTENANCE = ''maintenance''"
| "stage_value SIGNAL_STOPPED = ''signal_stopped''"
| "stage_value REJECTED = ''rejected''"

fun level_value :: "message_level \<Rightarrow> string" where
  "level_value INFO = ''info''"
| "level_value SUCCESS = ''success''"
| "level_value WARNING = ''warning''"
| "level_value ERROR = ''error''"

fun kind_value :: "artifact_kind \<Rightarrow> string" where
  "kind_value SIGNAL_ARTIFACT = ''signal''"
| "kind_value STRATEGY_ARTIFACT = ''strategy''"

text \<open>\<open>StrEnum(value)\<close> looks a member up by its value: \<open>ManagerCapability(capability)\<close>.\<close>

definition manager_capability_of :: "string \<Rightarrow> manager_capability option" where
  "manager_capability_of s =
     find (\<lambda>c. capability_value c = s) [ADD_SIGNAL, ADD_STRATEGY, REQUEST_AGENT_DATA, MANAGE_WORKFLOW]"

lemma capability_roundtrip: "manager_capability_of (capability_value c) = Some c"
  by (cases c) (simp_all add: manager_capability_of_def)

lemma manager_capability_of_Some:
  "manager_capability_of s = Some c \<longleftrightarrow> s = capability_value c"
  by (cases c) (auto simp: manager_capability_of_def split: if_splits)

section \<open>Texts\<close>

text \<open>What the user told the Manager, as \<open>_manager_received\<close> gets it.\<close>

datatype instruction =
    Instruction string
  | ReviewBacktestInstr bool string
  | ApproveOptimizationInstr bool string
  | ApproveImplementationInstr string
  | ApproveLiveInstr string
  | StartSignalInstr
  | StopSignalInstr string
  | RequestReportInstr

text \<open>
  Every template but the first starts with a visible prefix, so it is never blank, and
  stripping it only removes white space at the end of the text it interpolates last.
\<close>

fun instruction_blank :: "instruction \<Rightarrow> bool" where
  "instruction_blank (Instruction s) = blank s"
| "instruction_blank _ = False"

fun instruction_strip :: "instruction \<Rightarrow> instruction" where
  "instruction_strip (Instruction s) = Instruction (strip s)"
| "instruction_strip (ReviewBacktestInstr b s) = ReviewBacktestInstr b (rstrip s)"
| "instruction_strip (ApproveOptimizationInstr b s) = ApproveOptimizationInstr b (rstrip s)"
| "instruction_strip (ApproveImplementationInstr s) = ApproveImplementationInstr (rstrip s)"
| "instruction_strip (ApproveLiveInstr s) = ApproveLiveInstr (rstrip s)"
| "instruction_strip StartSignalInstr = StartSignalInstr"
| "instruction_strip (StopSignalInstr s) = StopSignalInstr (rstrip s)"
| "instruction_strip RequestReportInstr = RequestReportInstr"

datatype approval_target = ToBacktestAgent | ToLiveGate | ToStrategyAgent

datatype studio_text =
    StudioReady
  | ArtifactAccepted artifact_kind
  | StrategyImplemented string string
  | ImplementationReviewStarted
  | ImplementationReviewed bool
  | ImplementationDecided bool approval_target string
  | BacktestCompleted string
  | BacktestReviewed bool artifact_kind
  | OptimizationCompleted
  | OptimizationDecided bool string
  | BacktestDecided bool string
  | LiveDecided bool artifact_kind string
  | SignalStarted
  | SignalStopped "string option"
  | SignalPublished string
  | TradingStandby
  | RuntimeErrorTaken string
  | RuntimeErrorResolved bool string
  | ManagerReceived instruction
  | ManagerDelegated agent_role
  | ManagerReported
  | ManagerRefused "string option"

section \<open>Data classes\<close>

record strategy_implementation =
  strategy_id :: string
  si_version :: string
  si_spec_path :: "string option"
  module_path :: string
  test_paths :: "string list"

record backtest_evidence =
  run_id :: string
  manifest_path :: string
  chart_paths :: "string list"
  summary :: "(string \<times> pyval) list"

text \<open>
  \<open>BacktestEvidence.create\<close> copies the summary dictionary; the values are immutable.
\<close>

definition backtest_evidence_create ::
  "string \<Rightarrow> string \<Rightarrow> string list \<Rightarrow> (string \<times> pyval) list \<Rightarrow> backtest_evidence"
where
  "backtest_evidence_create rid mpath charts summ =
     \<lparr>run_id = rid, manifest_path = mpath, chart_paths = charts, summary = summ\<rparr>"

record studio_message =
  sequence :: int
  emitted_at :: datetime
  msg_agent :: agent_role
  msg_level :: message_level
  msg_text :: studio_text
  msg_project :: "string option"

record studio_project =
  project_id :: string
  title :: string
  idea :: "string option"
  source_spec_path :: "string option"
  stage :: workflow_stage
  implementation :: "strategy_implementation option"
  backtest :: "backtest_evidence option"
  backtest_required :: bool
  implementation_review :: "string option"
  backtest_review :: "string option"
  optimization_proposal :: "string option"
  optimization_approved :: "bool option"
  implementation_approved :: bool
  backtest_approved :: bool
  live_approved :: bool
  user_approved :: bool
  runtime_error :: "string option"
  signal_count :: int
  artifact_kind :: artifact_kind

text \<open>\<open>trading_enabled\<close> is a field with \<open>init=False\<close> and default \<open>False\<close>.\<close>

record studio_snapshot =
  generated_at :: datetime
  agents :: "(agent_role \<times> agent_activity) list"
  snap_projects :: "studio_project list"
  snap_messages :: "studio_message list"
  trading_enabled :: bool

text \<open>
  The headline and the facts of a report are again templates: the overview of all
  projects, or one project.
\<close>

datatype headline = Overview int int | ProjectHeadline string workflow_stage

datatype backtest_verdict = BacktestYes | BacktestSkipped | BacktestNo

datatype optimization_verdict =
  OptNotApplicable | OptYes | OptSkipped | OptPending

datatype fact =
    SignalsRunning int
  | MaintenanceActive int
  | TradingLocked
  | UserApproved bool
  | Gates bool optimization_verdict backtest_verdict bool
  | SignalsPublished int
  | RuntimeProblem "string option"

record manager_report =
  rep_generated_at :: datetime
  scope_project_id :: "string option"
  headline :: headline
  responsible_agent :: agent_role
  rep_stage :: "workflow_stage option"
  facts :: "fact list"
  rep_messages :: "studio_message list"

section \<open>Views\<close>

definition message_as_dict ::
  "(datetime \<Rightarrow> string) \<Rightarrow> (studio_text \<Rightarrow> string) \<Rightarrow> studio_message \<Rightarrow> pyval"
where
  "message_as_dict isoformat render m = PDict
     [(''sequence'', PInt (sequence m)),
      (''emitted_at'', PStr (isoformat (emitted_at m))),
      (''agent'', PStr (role_value (msg_agent m))),
      (''level'', PStr (level_value (msg_level m))),
      (''text'', PStr (render (msg_text m))),
      (''project_id'', opt_str (msg_project m))]"

definition project_as_dict :: "studio_project \<Rightarrow> pyval" where
  "project_as_dict p = PDict
     [(''project_id'', PStr (project_id p)),
      (''title'', PStr (title p)),
      (''artifact_kind'', PStr (kind_value (artifact_kind p))),
      (''stage'', PStr (stage_value (stage p))),
      (''strategy_id'', opt_str (map_option strategy_id (implementation p))),
      (''strategy_version'', opt_str (map_option si_version (implementation p))),
      (''backtest_run_id'', opt_str (map_option run_id (backtest p))),
      (''backtest_required'', PBool (backtest_required p)),
      (''approvals'', PDict
         [(''implementation'', PBool (implementation_approved p)),
          (''optimization'', (case optimization_approved p of None \<Rightarrow> PNone | Some b \<Rightarrow> PBool b)),
          (''backtest'', PBool (backtest_approved p)),
          (''live'', PBool (live_approved p))]),
      (''user_approved'', PBool (user_approved p)),
      (''runtime_error'', opt_str (runtime_error p)),
      (''signal_count'', PInt (signal_count p))]"

definition snapshot_as_dict ::
  "(datetime \<Rightarrow> string) \<Rightarrow> (studio_text \<Rightarrow> string) \<Rightarrow> studio_snapshot \<Rightarrow> pyval"
where
  "snapshot_as_dict isoformat render s = PDict
     [(''generated_at'', PStr (isoformat (generated_at s))),
      (''trading_enabled'', PBool (trading_enabled s)),
      (''agents'', PDict (map (\<lambda>(r, a). (role_value r, PStr (activity_value a))) (agents s))),
      (''projects'', PList (map project_as_dict (snap_projects s))),
      (''messages'', PList (map (message_as_dict isoformat render) (snap_messages s)))]"

definition report_as_dict ::
  "(datetime \<Rightarrow> string) \<Rightarrow> (studio_text \<Rightarrow> string) \<Rightarrow> (headline \<Rightarrow> string) \<Rightarrow> (fact \<Rightarrow> string) \<Rightarrow>
     manager_report \<Rightarrow> pyval"
where
  "report_as_dict isoformat render render_headline render_fact r = PDict
     [(''generated_at'', PStr (isoformat (rep_generated_at r))),
      (''scope_project_id'', opt_str (scope_project_id r)),
      (''headline'', PStr (render_headline (headline r))),
      (''responsible_agent'', PStr (role_value (responsible_agent r))),
      (''stage'', opt_str (map_option stage_value (rep_stage r))),
      (''facts'', PList (map (PStr \<circ> render_fact) (facts r))),
      (''messages'', PList (map (message_as_dict isoformat render) (rep_messages r)))]"

end
