(* ===== verification/Studio_Workflow.thy ===== *)
theory Studio_Workflow
  imports Studio_Models
begin

text \<open>
  \<open>QuantStudio\<close> of src/src/quant_signal_agent/studio/workflow.py: the state machine that
  carries a project from its submission through implementation, review, back-test,
  optimization and the approval gates to the signal runtime.

  The object's state is the record \<open>studio\<close>. The clock the constructor takes is a field:
  the value of its n-th call is \<open>clock s n\<close>. A method reads and writes the state as the
  code does, in the code's order, so what has been stored before an exception stays stored.
\<close>

section \<open>State\<close>

record studio =
  projects :: "(string \<times> studio_project) list"
  messages :: "studio_message list"
  next_sequence :: int
  clock :: "nat \<Rightarrow> pydatetime"
  clock_calls :: nat

definition safe_id_first :: "char \<Rightarrow> bool" where
  "safe_id_first c \<longleftrightarrow> is_lower_ascii c \<or> is_digit_ascii c"

definition safe_id_rest :: "char \<Rightarrow> bool" where
  "safe_id_rest c \<longleftrightarrow> safe_id_first c \<or> c \<in> set ''._-''"

text \<open>\<open>SAFE_PROJECT_ID.fullmatch\<close>: one character, then 1 to 63 more.\<close>

definition safe_project_id :: "string \<Rightarrow> bool" where
  "safe_project_id s = (case s of
       [] \<Rightarrow> False
     | c # cs \<Rightarrow> safe_id_first c \<and> 1 \<le> length cs \<and> length cs \<le> 63 \<and> (\<forall>d \<in> set cs. safe_id_rest d))"

definition now :: "(studio, datetime) eff" where
  "now = (\<lambda>s.
     let s' = s\<lparr>clock_calls := Suc (clock_calls s)\<rparr> in
     case clock s (clock_calls s) of
       Aware t \<Rightarrow> (Inr t, s')
     | Naive _ \<Rightarrow> (Inl (ValueError ''studio clock must return a timezone-aware datetime''), s'))"

definition emit ::
  "agent_role \<Rightarrow> message_level \<Rightarrow> studio_text \<Rightarrow> string option \<Rightarrow> (studio, unit) eff"
where
  "emit agent level text pid =
     bindE now (\<lambda>t. modifyE (\<lambda>s. s\<lparr>
       messages := messages s @
         [\<lparr>sequence = next_sequence s, emitted_at = t, msg_agent = agent, msg_level = level,
           msg_text = text, msg_project = pid\<rparr>],
       next_sequence := next_sequence s + 1\<rparr>))"

definition get_project :: "string \<Rightarrow> (studio, studio_project) eff" where
  "get_project pid = (\<lambda>s. case map_of (projects s) pid of
       None \<Rightarrow> (Inl (KeyError (''unknown studio project: '' @ pid)), s)
     | Some p \<Rightarrow> (Inr p, s))"

text \<open>The project object is mutated in place: the new value is stored under its key.\<close>

definition put_project :: "string \<Rightarrow> studio_project \<Rightarrow> (studio, unit) eff" where
  "put_project pid p = modifyE (\<lambda>s. s\<lparr>projects := AList.update pid p (projects s)\<rparr>)"

definition require_stage :: "studio_project \<Rightarrow> workflow_stage \<Rightarrow> (studio, unit) eff" where
  "require_stage p expected =
     guardE (stage p = expected)
       (RuntimeError (''project '' @ project_id p @ '' must be '' @ stage_value expected @
          '', got '' @ stage_value (stage p)))"

definition implementation_stage :: "studio_project \<Rightarrow> workflow_stage" where
  "implementation_stage p =
     (if artifact_kind p = SIGNAL_ARTIFACT then SIGNAL_IMPLEMENTATION else STRATEGY_IMPLEMENTATION)"

text \<open>The constructor: an empty studio that emits one message.\<close>

definition studio_init :: "(nat \<Rightarrow> pydatetime) \<Rightarrow> (exn + unit) \<times> studio" where
  "studio_init clk =
     emit SYSTEM INFO StudioReady None
       \<lparr>projects = [], messages = [], next_sequence = 1, clock = clk, clock_calls = 0\<rparr>"

section \<open>Submission\<close>

definition new_project ::
  "string \<Rightarrow> string \<Rightarrow> string option \<Rightarrow> string option \<Rightarrow> artifact_kind \<Rightarrow> bool \<Rightarrow> studio_project"
where
  "new_project pid ttl idea_opt spec_path kind bt_required =
     \<lparr>project_id = pid, title = strip ttl,
      idea = (if str_truthy idea_opt then map_option strip idea_opt else None),
      source_spec_path = (if str_truthy spec_path then map_option strip spec_path else None),
      stage = (if kind = SIGNAL_ARTIFACT then SIGNAL_IMPLEMENTATION else STRATEGY_IMPLEMENTATION),
      implementation = None, backtest = None, backtest_required = bt_required,
      implementation_review = None, backtest_review = None, optimization_proposal = None,
      optimization_approved = None, implementation_approved = False, backtest_approved = False,
      live_approved = False, user_approved = False, runtime_error = None, signal_count = 0,
      artifact_kind = kind\<rparr>"

text \<open>\<open>x and x.strip()\<close> as a condition.\<close>

definition has_content :: "string option \<Rightarrow> bool" where
  "has_content x = (case x of None \<Rightarrow> False | Some s \<Rightarrow> \<not> blank s)"

definition submit_artifact ::
  "string \<Rightarrow> string \<Rightarrow> string option \<Rightarrow> string option \<Rightarrow> artifact_kind \<Rightarrow> bool \<Rightarrow>
     (studio, studio_project) eff"
where
  "submit_artifact pid ttl idea_opt spec_path kind bt_required =
     thenE (guardE (safe_project_id pid) (ValueError ''project_id must be a safe stable identifier''))
     (bindE (getE (\<lambda>s. map_of (projects s) pid)) (\<lambda>existing.
      thenE (guardE (existing = None) (ValueError (''studio project already exists: '' @ pid)))
     (thenE (guardE (\<not> blank ttl) (ValueError ''project title is required''))
     (thenE (guardE (has_content idea_opt \<or> has_content spec_path)
               (ValueError ''an artifact idea or spec path is required''))
     (let project = new_project pid ttl idea_opt spec_path kind bt_required in
      thenE (put_project pid project)
     (thenE (emit STRATEGY INFO (ArtifactAccepted kind) (Some pid))
     (ret project)))))))"

definition submit_strategy ::
  "string \<Rightarrow> string \<Rightarrow> string option \<Rightarrow> string option \<Rightarrow> bool \<Rightarrow> (studio, studio_project) eff"
where
  "submit_strategy pid ttl idea_opt spec_path bt_required =
     submit_artifact pid ttl idea_opt spec_path STRATEGY_ARTIFACT bt_required"

definition submit_signal ::
  "string \<Rightarrow> string \<Rightarrow> string option \<Rightarrow> string option \<Rightarrow> bool \<Rightarrow> (studio, studio_project) eff"
where
  "submit_signal pid ttl idea_opt spec_path bt_required =
     submit_artifact pid ttl idea_opt spec_path SIGNAL_ARTIFACT bt_required"

section \<open>Implementation and its review\<close>

definition strategy_implemented :: "string \<Rightarrow> strategy_implementation \<Rightarrow> (studio, unit) eff" where
  "strategy_implemented pid impl =
     bindE (get_project pid) (\<lambda>p.
     thenE (guardE (stage p \<in> {SIGNAL_IMPLEMENTATION, STRATEGY_IMPLEMENTATION})
              (RuntimeError (''expected implementation stage, got '' @ stage_value (stage p))))
    (thenE (guardE (test_paths impl \<noteq> [])
              (ValueError ''strategy implementation requires deterministic tests''))
    (thenE (put_project pid (p\<lparr>implementation := Some impl, stage := REVIEWING_IMPLEMENTATION\<rparr>))
    (thenE (emit STRATEGY SUCCESS (StrategyImplemented (strategy_id impl) (si_version impl)) (Some pid))
           (emit REVIEW INFO ImplementationReviewStarted (Some pid))))))"

definition review_implementation :: "string \<Rightarrow> bool \<Rightarrow> string \<Rightarrow> (studio, unit) eff" where
  "review_implementation pid approved evidence =
     bindE (get_project pid) (\<lambda>p.
     thenE (require_stage p REVIEWING_IMPLEMENTATION)
    (thenE (guardE (\<not> blank evidence) (ValueError ''implementation review evidence is required''))
    (thenE (put_project pid (p\<lparr>implementation_review := Some (strip evidence),
              stage := (if approved then AWAITING_IMPLEMENTATION_APPROVAL else implementation_stage p)\<rparr>))
           (emit REVIEW (if approved then SUCCESS else WARNING)
              (ImplementationReviewed approved) (Some pid)))))"

definition approve_implementation :: "string \<Rightarrow> bool \<Rightarrow> string \<Rightarrow> (studio, unit) eff" where
  "approve_implementation pid approved note =
     bindE (get_project pid) (\<lambda>p.
     thenE (require_stage p AWAITING_IMPLEMENTATION_APPROVAL)
    (thenE (guardE (\<not> blank note) (ValueError ''implementation approval note is required''))
    (let p1 = p\<lparr>implementation_approved := approved\<rparr>;
         (p2, target) =
           (if approved \<and> backtest_required p then (p1\<lparr>stage := BACKTESTING\<rparr>, ToBacktestAgent)
            else if approved then (p1\<lparr>stage := AWAITING_LIVE_APPROVAL\<rparr>, ToLiveGate)
            else (p1\<lparr>stage := implementation_stage p, implementation := None,
                     implementation_review := None\<rparr>, ToStrategyAgent))
     in thenE (put_project pid p2)
              (emit SYSTEM (if approved then SUCCESS else WARNING)
                 (ImplementationDecided approved target (strip note)) (Some pid)))))"

section \<open>Back-test, its review and its optimization\<close>

text \<open>\<open>Path(path).stem\<close> of a POSIX path.\<close>

definition path_name :: "string \<Rightarrow> string" where
  "path_name path =
     (case rev (filter (\<lambda>part. part \<noteq> [] \<and> part \<noteq> ''.'') (str_split CHR ''/'' path)) of
        [] \<Rightarrow> [] | name # _ \<Rightarrow> name)"

definition path_stem :: "string \<Rightarrow> string" where
  "path_stem path = (let name = path_name path;
       suffix = takeWhile (\<lambda>c. c \<noteq> CHR ''.'') (rev name);
       i = length name - length suffix
     in if CHR ''.'' \<in> set name \<and> 0 < i - 1 \<and> suffix \<noteq> [] then take (i - 1) name else name)"

definition chart_names :: "string list \<Rightarrow> (string \<times> pyval) list" where
  "chart_names paths =
     fold (\<lambda>(key, path) d. AList.update key (PStr path) d)
       [(key, path). path \<leftarrow> paths, key \<leftarrow> REQUIRED_TRADING_CHARTS, str_endswith (path_stem path) key] []"

lemma dict_has_fold_update:
  "dict_has (fold (\<lambda>(key, path) d. AList.update key (f path) d) kps d) k \<Longrightarrow>
     dict_has d k \<or> k \<in> fst ` set kps"
proof (induction kps arbitrary: d)
  case (Cons kp kps)
  obtain key path where kp: "kp = (key, path)" by (cases kp)
  from Cons.IH [of "AList.update key (f path) d"] Cons.prems kp show ?case
    by (auto simp: dict_has_def alist_update_image)
qed simp

lemma chart_names_has:
  assumes "dict_has (chart_names paths) key"
  shows "\<exists>path \<in> set paths. str_endswith (path_stem path) key"
  using dict_has_fold_update [OF assms [unfolded chart_names_def]]
  by (auto simp: dict_has_def)

definition backtest_completed ::
  "(string \<Rightarrow> pyfloat option) \<Rightarrow> string \<Rightarrow> backtest_evidence \<Rightarrow> (studio, unit) eff"
where
  "backtest_completed fs pid evidence =
     bindE (get_project pid) (\<lambda>p.
     thenE (require_stage p BACKTESTING)
    (thenE (guardE (chart_paths evidence \<noteq> [])
              (ValueError ''backtest evidence requires at least one chart''))
    (thenE (if artifact_kind p = STRATEGY_ARTIFACT then
              (case validate_trading_performance_evidence fs (PDict (summary evidence))
                      (PDict (chart_names (chart_paths evidence))) of
                 Inl e \<Rightarrow> raise e
               | Inr (valid, reason) \<Rightarrow>
                   guardE valid
                     (ValueError (''trading-strategy backtest evidence invalid: '' @ reason)))
            else ret ())
    (thenE (put_project pid (p\<lparr>backtest := Some evidence, stage := REVIEWING_BACKTEST\<rparr>))
           (emit BACKTEST SUCCESS (BacktestCompleted (run_id evidence)) (Some pid))))))"

definition review_backtest_evidence :: "string \<Rightarrow> bool \<Rightarrow> string \<Rightarrow> (studio, unit) eff" where
  "review_backtest_evidence pid approved evidence =
     bindE (get_project pid) (\<lambda>p.
     thenE (require_stage p REVIEWING_BACKTEST)
    (thenE (guardE (\<not> blank evidence) (ValueError ''backtest review evidence is required''))
    (thenE (put_project pid (p\<lparr>backtest_review := Some (strip evidence),
              stage := (if approved \<and> artifact_kind p = STRATEGY_ARTIFACT then OPTIMIZING
                        else if approved then AWAITING_BACKTEST_APPROVAL else BACKTESTING)\<rparr>))
           (emit REVIEW (if approved then SUCCESS else WARNING)
              (BacktestReviewed approved (artifact_kind p)) (Some pid)))))"

definition optimization_completed :: "string \<Rightarrow> string \<Rightarrow> (studio, unit) eff" where
  "optimization_completed pid proposal =
     bindE (get_project pid) (\<lambda>p.
     thenE (require_stage p OPTIMIZING)
    (thenE (guardE (\<not> blank proposal) (ValueError ''optimization proposal is required''))
    (thenE (put_project pid (p\<lparr>optimization_proposal := Some (strip proposal),
              stage := AWAITING_OPTIMIZATION_APPROVAL\<rparr>))
           (emit OPTIMIZE SUCCESS OptimizationCompleted (Some pid)))))"

definition approve_optimization :: "string \<Rightarrow> bool \<Rightarrow> string \<Rightarrow> (studio, unit) eff" where
  "approve_optimization pid approved note =
     bindE (get_project pid) (\<lambda>p.
     thenE (require_stage p AWAITING_OPTIMIZATION_APPROVAL)
    (thenE (guardE (\<not> blank note) (ValueError ''optimization approval note is required''))
    (let p1 = p\<lparr>optimization_approved := Some approved\<rparr>;
         p2 = (if approved
               then p1\<lparr>stage := STRATEGY_IMPLEMENTATION, implementation_review := None,
                       implementation_approved := False, backtest := None, backtest_review := None,
                       backtest_approved := False, live_approved := False\<rparr>
               else p1\<lparr>stage := AWAITING_BACKTEST_APPROVAL\<rparr>)
     in thenE (put_project pid p2)
              (emit SYSTEM (if approved then SUCCESS else INFO)
                 (OptimizationDecided approved (strip note)) (Some pid)))))"

definition review_backtest :: "string \<Rightarrow> bool \<Rightarrow> string \<Rightarrow> (studio, unit) eff" where
  "review_backtest pid approved note =
     bindE (get_project pid) (\<lambda>p.
     thenE (require_stage p AWAITING_BACKTEST_APPROVAL)
    (thenE (guardE (\<not> blank note) (ValueError ''backtest review note is required''))
    (let p1 = p\<lparr>backtest_approved := approved, user_approved := approved\<rparr>;
         p2 = (if approved then p1\<lparr>stage := AWAITING_LIVE_APPROVAL\<rparr>
               else p1\<lparr>stage := BACKTESTING, backtest := None, backtest_review := None\<rparr>)
     in thenE (put_project pid p2)
              (emit SYSTEM (if approved then SUCCESS else WARNING)
                 (BacktestDecided approved (strip note)) (Some pid)))))"

section \<open>Live approval and the signal runtime\<close>

definition approve_live :: "string \<Rightarrow> bool \<Rightarrow> string \<Rightarrow> (studio, unit) eff" where
  "approve_live pid approved note =
     bindE (get_project pid) (\<lambda>p.
     thenE (require_stage p AWAITING_LIVE_APPROVAL)
    (thenE (guardE (\<not> blank note) (ValueError ''live approval note is required''))
    (let p1 = p\<lparr>live_approved := approved\<rparr>;
         p2 = (if approved
               then p1\<lparr>stage := (if artifact_kind p = SIGNAL_ARTIFACT then READY_FOR_SIGNAL
                                else READY_FOR_TRADING)\<rparr>
               else p1\<lparr>stage := AWAITING_IMPLEMENTATION_APPROVAL\<rparr>)
     in thenE (put_project pid p2)
              (emit SYSTEM (if approved then SUCCESS else WARNING)
                 (LiveDecided approved (artifact_kind p) (strip note)) (Some pid)))))"

definition start_signal_runtime :: "string \<Rightarrow> (studio, unit) eff" where
  "start_signal_runtime pid =
     bindE (get_project pid) (\<lambda>p.
     thenE (guardE (artifact_kind p = SIGNAL_ARTIFACT)
              (RuntimeError ''signal runtime accepts Signal Definitions, not Trading Strategies''))
    (thenE (guardE (\<not> (\<not> implementation_approved p \<or> \<not> live_approved p \<or> implementation p = None \<or>
                      backtest_required p \<and> (\<not> backtest_approved p \<or> backtest p = None)))
              (RuntimeError ''signal runtime requires all applicable approval gates''))
    (thenE (guardE (stage p \<in> {READY_FOR_SIGNAL, SIGNAL_STOPPED})
              (RuntimeError (''cannot start signal runtime from '' @ stage_value (stage p))))
    (thenE (put_project pid (p\<lparr>stage := SIGNAL_RUNNING, runtime_error := None\<rparr>))
           (emit SIGNAL SUCCESS SignalStarted (Some pid))))))"

definition stop_signal_runtime :: "string \<Rightarrow> string \<Rightarrow> (studio, unit) eff" where
  "stop_signal_runtime pid reason =
     bindE (get_project pid) (\<lambda>p.
     thenE (guardE (stage p \<in> {SIGNAL_RUNNING, MAINTENANCE})
              (RuntimeError ''signal runtime is not running''))
    (thenE (put_project pid (p\<lparr>stage := SIGNAL_STOPPED\<rparr>))
           (emit SIGNAL INFO
              (SignalStopped (if blank reason then None else Some (strip reason))) (Some pid))))"

definition publish_signal :: "string \<Rightarrow> string \<Rightarrow> (studio, unit) eff" where
  "publish_signal pid fingerprint =
     bindE (get_project pid) (\<lambda>p.
     thenE (require_stage p SIGNAL_RUNNING)
    (thenE (guardE (\<not> blank fingerprint) (ValueError ''signal fingerprint is required''))
    (thenE (put_project pid (p\<lparr>signal_count := signal_count p + 1\<rparr>))
    (thenE (emit SIGNAL SUCCESS (SignalPublished (strip fingerprint)) (Some pid))
           (emit TRADING WARNING TradingStandby (Some pid))))))"

definition report_runtime_error :: "string \<Rightarrow> string \<Rightarrow> (studio, unit) eff" where
  "report_runtime_error pid error =
     bindE (get_project pid) (\<lambda>p.
     thenE (require_stage p SIGNAL_RUNNING)
    (thenE (guardE (\<not> blank error) (ValueError ''runtime error is required''))
    (thenE (put_project pid (p\<lparr>runtime_error := Some (strip error), stage := MAINTENANCE\<rparr>))
           (emit MAINTENANCE_AGENT ERROR (RuntimeErrorTaken (strip error)) (Some pid)))))"

definition resolve_runtime_error :: "string \<Rightarrow> string \<Rightarrow> bool \<Rightarrow> (studio, unit) eff" where
  "resolve_runtime_error pid evidence resume =
     bindE (get_project pid) (\<lambda>p.
     thenE (require_stage p MAINTENANCE)
    (thenE (guardE (\<not> blank evidence) (ValueError ''maintenance evidence is required''))
    (thenE (put_project pid (p\<lparr>runtime_error := None,
              stage := (if resume then SIGNAL_RUNNING else SIGNAL_STOPPED)\<rparr>))
           (emit MAINTENANCE_AGENT SUCCESS (RuntimeErrorResolved resume (strip evidence)) (Some pid)))))"

section \<open>Snapshot and the Manager's messages\<close>

definition agent_activities :: "studio \<Rightarrow> (agent_role \<times> agent_activity) list" where
  "agent_activities s = (let stages = stage ` snd ` set (projects s) in
     [(MANAGER, RUNNING),
      (STRATEGY, if stages \<inter> {SIGNAL_IMPLEMENTATION, STRATEGY_IMPLEMENTATION} \<noteq> {}
                 then WORKING else IDLE),
      (REVIEW, if stages \<inter> {REVIEWING_IMPLEMENTATION, REVIEWING_BACKTEST} \<noteq> {}
               then WORKING else IDLE),
      (OPTIMIZE, if OPTIMIZING \<in> stages then WORKING
                 else if AWAITING_OPTIMIZATION_APPROVAL \<in> stages then WAITING_USER else IDLE),
      (BACKTEST, if BACKTESTING \<in> stages then WORKING
                 else if AWAITING_BACKTEST_APPROVAL \<in> stages then WAITING_USER else IDLE),
      (SIGNAL, if SIGNAL_RUNNING \<in> stages then RUNNING else STOPPED),
      (MAINTENANCE_AGENT, if MAINTENANCE \<in> stages then WORKING else IDLE),
      (TRADING, STANDBY)])"

definition snapshot :: "(studio, studio_snapshot) eff" where
  "snapshot =
     bindE now (\<lambda>t. getE (\<lambda>s.
       \<lparr>generated_at = t, agents = agent_activities s, snap_projects = map snd (projects s),
        snap_messages = messages s, trading_enabled = False\<rparr>))"

definition manager_received :: "instruction \<Rightarrow> string option \<Rightarrow> (studio, unit) eff" where
  "manager_received instr pid =
     thenE (guardE (\<not> instruction_blank instr) (ValueError ''manager instruction is required''))
           (emit MANAGER INFO (ManagerReceived (instruction_strip instr)) pid)"

definition manager_delegated :: "agent_role \<Rightarrow> string \<Rightarrow> (studio, unit) eff" where
  "manager_delegated target pid = emit MANAGER SUCCESS (ManagerDelegated target) (Some pid)"

definition manager_reported :: "string option \<Rightarrow> (studio, unit) eff" where
  "manager_reported pid = emit MANAGER SUCCESS ManagerReported pid"

definition manager_refused :: "string \<Rightarrow> (studio, unit) eff" where
  "manager_refused request =
     emit MANAGER WARNING (ManagerRefused (if blank request then None else Some (strip request))) None"

end
