(* ===== verification/Studio_Gates.thy ===== *)
theory Studio_Gates
  imports Studio_Workflow
begin

text \<open>
  What the operations of \<open>QuantStudio\<close> keep: the shape of the project store and the
  approval gates (\<open>studio_ok\<close>), the numbering of the message log (\<open>log_ok\<close>), and the
  stage automaton every project walks in (\<open>stage_edge\<close>).
\<close>

section \<open>The gates of one project\<close>

definition signal_stages :: "workflow_stage set" where
  "signal_stages = {READY_FOR_SIGNAL, SIGNAL_RUNNING, MAINTENANCE, SIGNAL_STOPPED}"

definition implementing_stages :: "workflow_stage set" where
  "implementing_stages = {SIGNAL_IMPLEMENTATION, STRATEGY_IMPLEMENTATION}"

definition backtest_evidence_stages :: "workflow_stage set" where
  "backtest_evidence_stages =
     {REVIEWING_BACKTEST, OPTIMIZING, AWAITING_OPTIMIZATION_APPROVAL, AWAITING_BACKTEST_APPROVAL}"

text \<open>
  The gates: what must be on record for a project to be in a stage. The live stages need
  every approval that applies and the evidence it was given for; no approval is recorded
  as live anywhere else.
\<close>

definition gates_ok :: "studio_project \<Rightarrow> bool" where
  "gates_ok p \<longleftrightarrow>
     (stage p \<notin> implementing_stages \<longrightarrow> implementation p \<noteq> None) \<and>
     (stage p \<notin> implementing_stages \<union> {REVIEWING_IMPLEMENTATION} \<longrightarrow> implementation_review p \<noteq> None) \<and>
     (stage p \<in> insert BACKTESTING backtest_evidence_stages \<longrightarrow>
        backtest_required p \<and> implementation_approved p) \<and>
     (stage p \<in> backtest_evidence_stages \<longrightarrow> backtest p \<noteq> None) \<and>
     (stage p \<in> backtest_evidence_stages - {REVIEWING_BACKTEST} \<longrightarrow> backtest_review p \<noteq> None) \<and>
     (stage p \<in> insert AWAITING_LIVE_APPROVAL (insert READY_FOR_TRADING signal_stages) \<longrightarrow>
        implementation_approved p \<and>
        (backtest_required p \<longrightarrow>
           backtest_approved p \<and> backtest p \<noteq> None \<and> backtest_review p \<noteq> None)) \<and>
     (live_approved p \<longleftrightarrow> stage p \<in> insert READY_FOR_TRADING signal_stages)"

text \<open>Which artifact may be in which stage; \<open>REJECTED\<close> is never entered.\<close>

definition stage_fits_kind :: "studio_project \<Rightarrow> bool" where
  "stage_fits_kind p \<longleftrightarrow>
     stage p \<noteq> REJECTED \<and>
     (stage p \<in> insert SIGNAL_IMPLEMENTATION signal_stages \<longrightarrow> artifact_kind p = SIGNAL_ARTIFACT) \<and>
     (stage p \<in> {STRATEGY_IMPLEMENTATION, OPTIMIZING, AWAITING_OPTIMIZATION_APPROVAL,
                  READY_FOR_TRADING} \<longrightarrow> artifact_kind p = STRATEGY_ARTIFACT)"

text \<open>Tests accompany every implementation, charts every back-test; counts and errors.\<close>

definition evidence_ok :: "studio_project \<Rightarrow> bool" where
  "evidence_ok p \<longleftrightarrow>
     (\<forall>impl. implementation p = Some impl \<longrightarrow> test_paths impl \<noteq> []) \<and>
     (\<forall>ev. backtest p = Some ev \<longrightarrow> chart_paths ev \<noteq> []) \<and>
     (runtime_error p \<noteq> None \<longrightarrow> stage p \<in> {MAINTENANCE, SIGNAL_STOPPED}) \<and>
     (stage p = MAINTENANCE \<longrightarrow> runtime_error p \<noteq> None) \<and>
     0 \<le> signal_count p \<and>
     (signal_count p \<noteq> 0 \<longrightarrow> stage p \<in> signal_stages)"

definition project_ok :: "studio_project \<Rightarrow> bool" where
  "project_ok p \<longleftrightarrow> gates_ok p \<and> stage_fits_kind p \<and> evidence_ok p \<and> safe_project_id (project_id p)"

definition studio_ok :: "studio \<Rightarrow> bool" where
  "studio_ok s \<longleftrightarrow> distinct (map fst (projects s)) \<and>
     (\<forall>(k, p) \<in> set (projects s). project_id p = k \<and> project_ok p)"

lemmas stage_sets = signal_stages_def implementing_stages_def backtest_evidence_stages_def

lemmas project_ok_defs = project_ok_def gates_ok_def stage_fits_kind_def evidence_ok_def stage_sets

section \<open>The message log\<close>

definition log_ok :: "studio \<Rightarrow> bool" where
  "log_ok s \<longleftrightarrow>
     map sequence (messages s) = map int [1..<Suc (length (messages s))] \<and>
     next_sequence s = int (length (messages s)) + 1"

section \<open>Framing of the helpers\<close>

lemma now_frame: "now s = (r, t) \<Longrightarrow> projects t = projects s \<and> messages t = messages s
    \<and> next_sequence t = next_sequence s"
  by (auto simp: now_def Let_def split: pydatetime.splits)

lemma emit_projects: "emit a l txt pid s = (r, t) \<Longrightarrow> projects t = projects s"
  by (auto simp: emit_def bindE_def modifyE_def split: prod.splits sum.splits dest: now_frame)

lemma wp_emit_projects:
  "(\<And>r t. projects t = projects s \<Longrightarrow> Q r t) \<Longrightarrow> (\<And>e t. projects t = projects s \<Longrightarrow> E e t) \<Longrightarrow>
     wp (emit a l txt pid) Q E s"
  by (auto simp: wp_def split: prod.splits sum.splits dest: emit_projects)

lemma studio_ok_frame: "projects t = projects s \<Longrightarrow> studio_ok t = studio_ok s"
  by (simp add: studio_ok_def)

lemma wp_emit_studio_ok [wp_rules]:
  "wp (emit a l txt pid) (\<lambda>_. studio_ok) (\<lambda>_. studio_ok) = studio_ok"
proof
  fix s
  show "wp (emit a l txt pid) (\<lambda>_. studio_ok) (\<lambda>_. studio_ok) s = studio_ok s"
    by (auto simp: wp_def split: prod.splits sum.splits dest: emit_projects studio_ok_frame)
qed

lemma keeps_emit_studio_ok: "keeps studio_ok (emit a l txt pid)"
  by (simp add: keeps_wp wp_emit_studio_ok)

lemma keeps_now_studio_ok: "keeps studio_ok now"
  by (auto simp: keeps_def now_def Let_def studio_ok_def split: pydatetime.splits)

lemma wp_get_project [wp_rules]:
  "wp (get_project pid) Q E s = (case map_of (projects s) pid of
       None \<Rightarrow> E (KeyError (''unknown studio project: '' @ pid)) s | Some p \<Rightarrow> Q p s)"
  by (simp add: wp_def get_project_def split: option.splits)

lemma wp_put_project [wp_rules]:
  "wp (put_project pid p) Q E s = Q () (s\<lparr>projects := AList.update pid p (projects s)\<rparr>)"
  by (simp add: put_project_def wp_modifyE)

lemma wp_require_stage [wp_rules]:
  "wp (require_stage p st) Q E s =
     (if stage p = st then Q () s
      else E (RuntimeError (''project '' @ project_id p @ '' must be '' @ stage_value st @
          '', got '' @ stage_value (stage p))) s)"
  by (simp add: require_stage_def wp_guardE)

lemma studio_ok_lookup:
  "studio_ok s \<Longrightarrow> map_of (projects s) pid = Some p \<Longrightarrow> project_id p = pid \<and> project_ok p"
  by (auto simp: studio_ok_def dest!: map_of_SomeD)

lemma studio_ok_update:
  "studio_ok s \<Longrightarrow> project_id p = pid \<Longrightarrow> project_ok p \<Longrightarrow>
     studio_ok (s\<lparr>projects := AList.update pid p (projects s)\<rparr>)"
  by (auto simp: studio_ok_def alist_distinct_update alist_set_update)

section \<open>The invariant\<close>

text \<open>
  One shape covers every operation on an existing project: look it up, check, store, emit.
  The store is the only step that matters for \<open>studio_ok\<close>.
\<close>

lemma keeps_project_op:
  assumes "\<And>p s. project_ok p \<Longrightarrow> project_id p = pid \<Longrightarrow> studio_ok s \<Longrightarrow>
           wp (f p) (\<lambda>_. studio_ok) (\<lambda>_. studio_ok) s"
  shows "keeps studio_ok (bindE (get_project pid) f)"
  unfolding keeps_wp wp_bindE wp_get_project
proof (intro allI impI)
  fix s
  assume ok: "studio_ok s"
  show "case map_of (projects s) pid of
      None \<Rightarrow> studio_ok s | Some p \<Rightarrow> wp (f p) (\<lambda>_. studio_ok) (\<lambda>_. studio_ok) s"
  proof (cases "map_of (projects s) pid")
    case None
    with ok show ?thesis by simp
  next
    case (Some p)
    with ok have "project_id p = pid" "project_ok p" by (auto dest: studio_ok_lookup)
    with ok Some show ?thesis by (simp add: assms)
  qed
qed

lemma kind_not_signal: "k \<noteq> SIGNAL_ARTIFACT \<longleftrightarrow> k = STRATEGY_ARTIFACT"
  by (cases k) simp_all

lemma kind_not_strategy: "k \<noteq> STRATEGY_ARTIFACT \<longleftrightarrow> k = SIGNAL_ARTIFACT"
  by (cases k) simp_all

lemmas project_op_simps = project_ok_defs implementation_stage_def kind_not_signal

lemma keeps_strategy_implemented: "keeps studio_ok (strategy_implemented pid impl)"
  unfolding strategy_implemented_def
  by (rule keeps_project_op, auto simp: wp_rules Let_def intro!: studio_ok_update)
     (simp_all add: project_op_simps)

lemma keeps_review_implementation: "keeps studio_ok (review_implementation pid b ev)"
  unfolding review_implementation_def
  by (rule keeps_project_op, auto simp: wp_rules Let_def intro!: studio_ok_update)
     (simp_all add: project_op_simps)

lemma keeps_approve_implementation: "keeps studio_ok (approve_implementation pid b note)"
  unfolding approve_implementation_def
  by (rule keeps_project_op, auto simp: wp_rules Let_def intro!: studio_ok_update)
     (simp_all add: project_op_simps)

lemma keeps_backtest_completed: "keeps studio_ok (backtest_completed fs pid ev)"
  unfolding backtest_completed_def
  by (rule keeps_project_op, auto simp: wp_rules Let_def simp del: validate_trading_performance_evidence.simps
        intro!: studio_ok_update split: sum.splits prod.splits)
     (simp_all add: project_op_simps)

lemma keeps_review_backtest_evidence: "keeps studio_ok (review_backtest_evidence pid b ev)"
  unfolding review_backtest_evidence_def
  by (rule keeps_project_op, auto simp: wp_rules Let_def intro!: studio_ok_update)
     (simp_all add: project_op_simps)

lemma keeps_optimization_completed: "keeps studio_ok (optimization_completed pid prop)"
  unfolding optimization_completed_def
  by (rule keeps_project_op, auto simp: wp_rules Let_def intro!: studio_ok_update)
     (simp_all add: project_op_simps)

lemma keeps_approve_optimization: "keeps studio_ok (approve_optimization pid b note)"
  unfolding approve_optimization_def
  by (rule keeps_project_op, auto simp: wp_rules Let_def intro!: studio_ok_update)
     (simp_all add: project_op_simps)

lemma keeps_review_backtest: "keeps studio_ok (review_backtest pid b note)"
  unfolding review_backtest_def
  by (rule keeps_project_op, auto simp: wp_rules Let_def intro!: studio_ok_update)
     (simp_all add: project_op_simps)

lemma keeps_approve_live: "keeps studio_ok (approve_live pid b note)"
  unfolding approve_live_def
  by (rule keeps_project_op, auto simp: wp_rules Let_def intro!: studio_ok_update)
     (simp_all add: project_op_simps)

lemma keeps_start_signal_runtime: "keeps studio_ok (start_signal_runtime pid)"
  unfolding start_signal_runtime_def
  by (rule keeps_project_op, auto simp: wp_rules Let_def intro!: studio_ok_update)
     (simp_all add: project_op_simps)

lemma keeps_stop_signal_runtime: "keeps studio_ok (stop_signal_runtime pid reason)"
  unfolding stop_signal_runtime_def
  by (rule keeps_project_op, auto simp: wp_rules Let_def intro!: studio_ok_update)
     (simp_all add: project_op_simps)

lemma keeps_publish_signal: "keeps studio_ok (publish_signal pid fp)"
  unfolding publish_signal_def
  by (rule keeps_project_op, auto simp: wp_rules Let_def intro!: studio_ok_update)
     (simp_all add: project_op_simps)

lemma keeps_report_runtime_error: "keeps studio_ok (report_runtime_error pid err)"
  unfolding report_runtime_error_def
  by (rule keeps_project_op, auto simp: wp_rules Let_def intro!: studio_ok_update)
     (simp_all add: project_op_simps)

lemma keeps_resolve_runtime_error: "keeps studio_ok (resolve_runtime_error pid ev resume)"
  unfolding resolve_runtime_error_def
  by (rule keeps_project_op, auto simp: wp_rules Let_def intro!: studio_ok_update)
     (simp_all add: project_op_simps)

lemma keeps_submit_artifact: "keeps studio_ok (submit_artifact pid ttl i sp k b)"
  unfolding submit_artifact_def keeps_wp
  by (auto simp: wp_rules Let_def new_project_def intro!: studio_ok_update)
     (simp_all add: project_op_simps)

lemma keeps_studio_snapshot: "keeps studio_ok snapshot"
  unfolding snapshot_def by (intro keeps_rules keeps_now_studio_ok)

lemma keeps_manager_received: "keeps studio_ok (manager_received instr pid)"
  unfolding manager_received_def by (intro keeps_rules keeps_emit_studio_ok)

lemmas keeps_studio_ok =
  keeps_strategy_implemented keeps_review_implementation keeps_approve_implementation
  keeps_backtest_completed keeps_review_backtest_evidence keeps_optimization_completed
  keeps_approve_optimization keeps_review_backtest keeps_approve_live keeps_start_signal_runtime
  keeps_stop_signal_runtime keeps_publish_signal keeps_report_runtime_error
  keeps_resolve_runtime_error keeps_submit_artifact keeps_studio_snapshot keeps_manager_received
  keeps_emit_studio_ok keeps_now_studio_ok

section \<open>What the operations leave alone\<close>

text \<open>
  An operation on the project \<open>pid\<close> is built from reads, checks, messages and stores under
  \<open>pid\<close>. Whatever a message and such a store keep, the operation keeps.
\<close>

locale studio_frame =
  fixes I :: "studio \<Rightarrow> bool" and pid :: string
  assumes keeps_now: "keeps I now"
    and keeps_emit: "keeps I (emit a l txt q)"
    and keeps_put: "keeps I (put_project pid p)"
begin

lemma keeps_get: "keeps I (get_project q)"
  by (simp add: keeps_def get_project_def split: option.split)

lemma keeps_require: "keeps I (require_stage p st)"
  by (simp add: require_stage_def keeps_guardE)

lemmas frame_rules = keeps_rules keeps_now keeps_emit keeps_put keeps_get keeps_require

lemma frame_submit: "keeps I (submit_artifact pid ttl i sp k b)"
  unfolding submit_artifact_def Let_def by (intro frame_rules)

lemma frame_strategy_implemented: "keeps I (strategy_implemented pid impl)"
  unfolding strategy_implemented_def by (intro frame_rules)

lemma frame_review_implementation: "keeps I (review_implementation pid b ev)"
  unfolding review_implementation_def by (intro frame_rules)

lemma frame_approve_implementation: "keeps I (approve_implementation pid b note)"
  unfolding approve_implementation_def Let_def by (intro frame_rules)

lemma frame_backtest_completed: "keeps I (backtest_completed fs pid ev)"
  unfolding backtest_completed_def by (intro frame_rules)

lemma frame_review_backtest_evidence: "keeps I (review_backtest_evidence pid b ev)"
  unfolding review_backtest_evidence_def by (intro frame_rules)

lemma frame_optimization_completed: "keeps I (optimization_completed pid prop)"
  unfolding optimization_completed_def by (intro frame_rules)

lemma frame_approve_optimization: "keeps I (approve_optimization pid b note)"
  unfolding approve_optimization_def Let_def by (intro frame_rules)

lemma frame_review_backtest: "keeps I (review_backtest pid b note)"
  unfolding review_backtest_def Let_def by (intro frame_rules)

lemma frame_approve_live: "keeps I (approve_live pid b note)"
  unfolding approve_live_def Let_def by (intro frame_rules)

lemma frame_start_signal_runtime: "keeps I (start_signal_runtime pid)"
  unfolding start_signal_runtime_def by (intro frame_rules)

lemma frame_stop_signal_runtime: "keeps I (stop_signal_runtime pid reason)"
  unfolding stop_signal_runtime_def by (intro frame_rules)

lemma frame_publish_signal: "keeps I (publish_signal pid fp)"
  unfolding publish_signal_def by (intro frame_rules)

lemma frame_report_runtime_error: "keeps I (report_runtime_error pid err)"
  unfolding report_runtime_error_def by (intro frame_rules)

lemma frame_resolve_runtime_error: "keeps I (resolve_runtime_error pid ev resume)"
  unfolding resolve_runtime_error_def by (intro frame_rules)

lemma frame_snapshot: "keeps I snapshot"
  unfolding snapshot_def by (intro frame_rules)

lemma frame_manager_received: "keeps I (manager_received instr q)"
  unfolding manager_received_def by (intro frame_rules)

lemmas frame_ops = frame_submit frame_strategy_implemented frame_review_implementation
  frame_approve_implementation frame_backtest_completed frame_review_backtest_evidence
  frame_optimization_completed frame_approve_optimization frame_review_backtest
  frame_approve_live frame_start_signal_runtime frame_stop_signal_runtime frame_publish_signal
  frame_report_runtime_error frame_resolve_runtime_error frame_snapshot frame_manager_received

end

text \<open>The log only grows, and its numbers are 1, 2, 3, \<open>\<dots>\<close> in order.\<close>

definition extends_log :: "studio_message list \<Rightarrow> studio \<Rightarrow> bool" where
  "extends_log ms s \<longleftrightarrow> (\<exists>new. messages s = ms @ new)"

text \<open>The stored value of another project.\<close>

definition stores :: "string \<Rightarrow> studio_project option \<Rightarrow> studio \<Rightarrow> bool" where
  "stores q v s \<longleftrightarrow> map_of (projects s) q = v"

lemma log_ok_now: "keeps log_ok now"
  by (auto simp: keeps_def now_def log_ok_def Let_def split: pydatetime.splits)

lemma log_ok_emit: "keeps log_ok (emit a l txt q)"
  by (auto simp: keeps_def emit_def bindE_def modifyE_def now_def log_ok_def Let_def
      split: pydatetime.splits)

lemma log_ok_put: "keeps log_ok (put_project pid p)"
  by (simp add: keeps_def put_project_def modifyE_def log_ok_def)

interpretation log: studio_frame log_ok pid for pid
  by unfold_locales (rule log_ok_now log_ok_emit log_ok_put)+

lemma extends_log_now: "keeps (extends_log ms) now"
  by (auto simp: keeps_def now_def extends_log_def Let_def split: pydatetime.splits)

lemma extends_log_emit: "keeps (extends_log ms) (emit a l txt q)"
  by (auto simp: keeps_def emit_def bindE_def modifyE_def now_def extends_log_def Let_def
      split: pydatetime.splits)

lemma extends_log_put: "keeps (extends_log ms) (put_project pid p)"
  by (simp add: keeps_def put_project_def modifyE_def extends_log_def)

interpretation grow: studio_frame "extends_log ms" pid for ms pid
  by unfold_locales (rule extends_log_now extends_log_emit extends_log_put)+

text \<open>
  The other projects: with \<open>q \<noteq> pid\<close> as a premise of the invariant the frame applies to
  every \<open>q\<close>.
\<close>

definition other_stores :: "string \<Rightarrow> string \<Rightarrow> studio_project option \<Rightarrow> studio \<Rightarrow> bool" where
  "other_stores pid q v s \<longleftrightarrow> q \<noteq> pid \<longrightarrow> stores q v s"

lemma other_stores_now: "keeps (other_stores pid q v) now"
  by (auto simp: keeps_def now_def other_stores_def stores_def Let_def split: pydatetime.splits)

lemma other_stores_emit: "keeps (other_stores pid q v) (emit a l txt q')"
proof -
  have "projects (snd (emit a l txt q' s)) = projects s" for s
    by (metis emit_projects prod.collapse)
  then show ?thesis by (simp add: keeps_def other_stores_def stores_def)
qed

lemma other_stores_put: "keeps (other_stores pid q v) (put_project pid p)"
  by (simp add: keeps_def put_project_def modifyE_def other_stores_def stores_def update_conv)

interpretation other: studio_frame "other_stores pid q v" pid for q v pid
  by unfold_locales (rule other_stores_now other_stores_emit other_stores_put)+

text \<open>The clock is never replaced.\<close>

definition has_clock :: "(nat \<Rightarrow> pydatetime) \<Rightarrow> studio \<Rightarrow> bool" where
  "has_clock clk s \<longleftrightarrow> clock s = clk"

lemma has_clock_now: "keeps (has_clock clk) now"
  by (auto simp: keeps_def now_def has_clock_def Let_def split: pydatetime.splits)

lemma has_clock_emit: "keeps (has_clock clk) (emit a l txt q)"
  by (auto simp: keeps_def emit_def bindE_def modifyE_def now_def has_clock_def Let_def
      split: pydatetime.splits)

lemma has_clock_put: "keeps (has_clock clk) (put_project pid p)"
  by (simp add: keeps_def put_project_def modifyE_def has_clock_def)

interpretation clk: studio_frame "has_clock clk" pid for clk pid
  by unfold_locales (rule has_clock_now has_clock_emit has_clock_put)+

end
