(* ===== verification/Studio_Manager.thy ===== *)
theory Studio_Manager
  imports Studio_Gates
begin

text \<open>
  src/src/quant_signal_agent/studio/manager.py: the \<open>ManagerAgent\<close> facade (an allow-list,
  a message for each instruction, the delegated workflow call, a message for the delegate)
  and the reports it assembles. \<open>studio_call\<close> collects every public entry point of the
  studio, the staff's callbacks and the Manager's commands; \<open>run_calls\<close> runs a history of
  them, exceptions included, and \<open>reachable\<close> is what such a history can reach.
\<close>

fun stage_owner :: "workflow_stage \<Rightarrow> agent_role" where
  "stage_owner SIGNAL_IMPLEMENTATION = STRATEGY"
| "stage_owner STRATEGY_IMPLEMENTATION = STRATEGY"
| "stage_owner REVIEWING_IMPLEMENTATION = REVIEW"
| "stage_owner AWAITING_IMPLEMENTATION_APPROVAL = MANAGER"
| "stage_owner BACKTESTING = BACKTEST"
| "stage_owner REVIEWING_BACKTEST = REVIEW"
| "stage_owner OPTIMIZING = OPTIMIZE"
| "stage_owner AWAITING_OPTIMIZATION_APPROVAL = MANAGER"
| "stage_owner AWAITING_BACKTEST_APPROVAL = MANAGER"
| "stage_owner AWAITING_LIVE_APPROVAL = MANAGER"
| "stage_owner READY_FOR_SIGNAL = MANAGER"
| "stage_owner READY_FOR_TRADING = MANAGER"
| "stage_owner SIGNAL_RUNNING = SIGNAL"
| "stage_owner MAINTENANCE = MAINTENANCE_AGENT"
| "stage_owner SIGNAL_STOPPED = SIGNAL"
| "stage_owner REJECTED = STRATEGY"

definition authorize_request :: "string \<Rightarrow> (studio, manager_capability) eff" where
  "authorize_request capability =
     (case manager_capability_of capability of
        Some c \<Rightarrow> ret c
      | None \<Rightarrow> thenE (manager_refused capability)
          (raise (PermissionError (''Manager Agent only accepts add_signal, add_strategy, '' @
             ''request_agent_data, or manage_workflow requests''))))"

definition m_submit_signal ::
  "string \<Rightarrow> string \<Rightarrow> string \<Rightarrow> string option \<Rightarrow> string option \<Rightarrow> bool \<Rightarrow> (studio, studio_project) eff"
where
  "m_submit_signal pid ttl instr idea_opt spec_path bt_required =
     thenE (authorize_request (capability_value ADD_SIGNAL))
    (thenE (manager_received (Instruction instr) (Some pid))
    (bindE (submit_signal pid ttl idea_opt spec_path bt_required) (\<lambda>project.
     thenE (manager_delegated STRATEGY pid) (ret project))))"

definition m_submit_strategy ::
  "string \<Rightarrow> string \<Rightarrow> string \<Rightarrow> string option \<Rightarrow> string option \<Rightarrow> bool \<Rightarrow> (studio, studio_project) eff"
where
  "m_submit_strategy pid ttl instr idea_opt spec_path bt_required =
     thenE (authorize_request (capability_value ADD_STRATEGY))
    (thenE (manager_received (Instruction instr) (Some pid))
    (bindE (submit_strategy pid ttl idea_opt spec_path bt_required) (\<lambda>project.
     thenE (manager_delegated STRATEGY pid) (ret project))))"

definition m_review_backtest :: "string \<Rightarrow> bool \<Rightarrow> string \<Rightarrow> (studio, unit) eff" where
  "m_review_backtest pid approved note =
     thenE (authorize_request (capability_value MANAGE_WORKFLOW))
    (thenE (manager_received (ReviewBacktestInstr approved note) (Some pid))
    (thenE (review_backtest pid approved note)
           (manager_delegated (if approved then SIGNAL else STRATEGY) pid)))"

definition m_approve_optimization :: "string \<Rightarrow> bool \<Rightarrow> string \<Rightarrow> (studio, unit) eff" where
  "m_approve_optimization pid approved note =
     thenE (authorize_request (capability_value MANAGE_WORKFLOW))
    (thenE (manager_received (ApproveOptimizationInstr approved note) (Some pid))
    (thenE (approve_optimization pid approved note)
           (manager_delegated (if approved then STRATEGY else MANAGER) pid)))"

definition m_approve_implementation :: "string \<Rightarrow> bool \<Rightarrow> string \<Rightarrow> (studio, unit) eff" where
  "m_approve_implementation pid approved note =
     thenE (authorize_request (capability_value MANAGE_WORKFLOW))
    (thenE (manager_received (ApproveImplementationInstr note) (Some pid))
    (thenE (approve_implementation pid approved note)
           (manager_delegated (if approved then BACKTEST else STRATEGY) pid)))"

definition m_approve_live :: "string \<Rightarrow> bool \<Rightarrow> string \<Rightarrow> (studio, unit) eff" where
  "m_approve_live pid approved note =
     thenE (authorize_request (capability_value MANAGE_WORKFLOW))
    (thenE (manager_received (ApproveLiveInstr note) (Some pid))
    (thenE (approve_live pid approved note)
           (manager_delegated (if approved then SIGNAL else STRATEGY) pid)))"

definition m_start_signal_runtime :: "string \<Rightarrow> (studio, unit) eff" where
  "m_start_signal_runtime pid =
     thenE (authorize_request (capability_value MANAGE_WORKFLOW))
    (thenE (manager_received StartSignalInstr (Some pid))
    (thenE (start_signal_runtime pid)
           (manager_delegated SIGNAL pid)))"

definition m_stop_signal_runtime :: "string \<Rightarrow> string \<Rightarrow> (studio, unit) eff" where
  "m_stop_signal_runtime pid reason =
     thenE (authorize_request (capability_value MANAGE_WORKFLOW))
    (thenE (manager_received (StopSignalInstr reason) (Some pid))
    (thenE (stop_signal_runtime pid reason)
           (manager_delegated SIGNAL pid)))"

section \<open>Reports\<close>

definition last_n :: "nat \<Rightarrow> 'a list \<Rightarrow> 'a list" where
  "last_n n xs = drop (length xs - n) xs"

definition latest_messages :: "string option \<Rightarrow> studio_snapshot \<Rightarrow> studio_message list" where
  "latest_messages pid snap =
     last_n 10 (filter (\<lambda>m. pid = None \<or> msg_project m = None \<or> msg_project m = pid) (snap_messages snap))"

definition count_stages :: "workflow_stage set \<Rightarrow> studio_project list \<Rightarrow> int" where
  "count_stages ss ps = int (length (filter (\<lambda>p. stage p \<in> ss) ps))"

definition overview_report :: "studio_snapshot \<Rightarrow> manager_report" where
  "overview_report snap =
     (let ps = snap_projects snap;
          active = count_stages {SIGNAL_IMPLEMENTATION, STRATEGY_IMPLEMENTATION,
            REVIEWING_IMPLEMENTATION, REVIEWING_BACKTEST, OPTIMIZING, BACKTESTING,
            SIGNAL_RUNNING, MAINTENANCE} ps
      in \<lparr>rep_generated_at = generated_at snap, scope_project_id = None,
          headline = Overview (int (length ps)) active, responsible_agent = MANAGER,
          rep_stage = None,
          facts = [SignalsRunning (count_stages {SIGNAL_RUNNING} ps),
                   MaintenanceActive (count_stages {MAINTENANCE} ps), TradingLocked],
          rep_messages = latest_messages None snap\<rparr>)"

definition backtest_verdict :: "studio_project \<Rightarrow> backtest_verdict" where
  "backtest_verdict p =
     (if backtest_approved p then BacktestYes
      else if \<not> backtest_required p then BacktestSkipped else BacktestNo)"

definition optimization_verdict :: "studio_project \<Rightarrow> optimization_verdict" where
  "optimization_verdict p =
     (if artifact_kind p = SIGNAL_ARTIFACT \<or> \<not> backtest_required p then OptNotApplicable
      else (case optimization_approved p of
              Some True \<Rightarrow> OptYes | Some False \<Rightarrow> OptSkipped | None \<Rightarrow> OptPending))"

definition project_report :: "string \<Rightarrow> studio_project \<Rightarrow> studio_snapshot \<Rightarrow> manager_report" where
  "project_report pid p snap =
     \<lparr>rep_generated_at = generated_at snap, scope_project_id = Some pid,
      headline = ProjectHeadline (title p) (stage p), responsible_agent = stage_owner (stage p),
      rep_stage = Some (stage p),
      facts = [UserApproved (user_approved p),
               Gates (implementation_approved p) (optimization_verdict p) (backtest_verdict p)
                 (live_approved p),
               SignalsPublished (signal_count p),
               RuntimeProblem (if str_truthy (runtime_error p) then runtime_error p else None)],
      rep_messages = latest_messages (Some pid) snap\<rparr>"

definition request_report :: "string option \<Rightarrow> (studio, manager_report) eff" where
  "request_report pid =
     thenE (authorize_request (capability_value REQUEST_AGENT_DATA))
    (thenE (manager_received RequestReportInstr pid)
    (bindE snapshot (\<lambda>snap.
     bindE (case pid of
              None \<Rightarrow> ret (overview_report snap)
            | Some q \<Rightarrow> bindE (getE (\<lambda>s. map_of (projects s) q)) (\<lambda>found.
                (case found of
                   None \<Rightarrow> raise (KeyError (''unknown studio project: '' @ q))
                 | Some p \<Rightarrow> ret (project_report q p snap))))
       (\<lambda>report. thenE (manager_reported pid) (ret report)))))"

section \<open>Every entry point\<close>

datatype studio_call =
    SubmitStrategy string string "string option" "string option" bool
  | SubmitSignal string string "string option" "string option" bool
  | StrategyImplementedCall string strategy_implementation
  | ReviewImplementation string bool string
  | ApproveImplementation string bool string
  | BacktestCompletedCall string backtest_evidence
  | ReviewBacktestEvidence string bool string
  | OptimizationCompletedCall string string
  | ApproveOptimization string bool string
  | ReviewBacktest string bool string
  | ApproveLive string bool string
  | StartSignalRuntime string
  | StopSignalRuntime string string
  | PublishSignal string string
  | ReportRuntimeError string string
  | ResolveRuntimeError string string bool
  | Snapshot
  | MAuthorize string
  | MSubmitSignal string string string "string option" "string option" bool
  | MSubmitStrategy string string string "string option" "string option" bool
  | MReviewBacktest string bool string
  | MApproveOptimization string bool string
  | MApproveImplementation string bool string
  | MApproveLive string bool string
  | MStartSignalRuntime string
  | MStopSignalRuntime string string
  | MRequestReport "string option"

definition ignore :: "('s, 'a) eff \<Rightarrow> ('s, unit) eff" where
  "ignore m = thenE m (ret ())"

fun exec_call :: "(string \<Rightarrow> pyfloat option) \<Rightarrow> studio_call \<Rightarrow> (studio, unit) eff" where
  "exec_call fs (SubmitStrategy pid t i sp b) = ignore (submit_strategy pid t i sp b)"
| "exec_call fs (SubmitSignal pid t i sp b) = ignore (submit_signal pid t i sp b)"
| "exec_call fs (StrategyImplementedCall pid impl) = strategy_implemented pid impl"
| "exec_call fs (ReviewImplementation pid b ev) = review_implementation pid b ev"
| "exec_call fs (ApproveImplementation pid b note) = approve_implementation pid b note"
| "exec_call fs (BacktestCompletedCall pid ev) = backtest_completed fs pid ev"
| "exec_call fs (ReviewBacktestEvidence pid b ev) = review_backtest_evidence pid b ev"
| "exec_call fs (OptimizationCompletedCall pid pr) = optimization_completed pid pr"
| "exec_call fs (ApproveOptimization pid b note) = approve_optimization pid b note"
| "exec_call fs (ReviewBacktest pid b note) = review_backtest pid b note"
| "exec_call fs (ApproveLive pid b note) = approve_live pid b note"
| "exec_call fs (StartSignalRuntime pid) = start_signal_runtime pid"
| "exec_call fs (StopSignalRuntime pid r) = stop_signal_runtime pid r"
| "exec_call fs (PublishSignal pid fp) = publish_signal pid fp"
| "exec_call fs (ReportRuntimeError pid e) = report_runtime_error pid e"
| "exec_call fs (ResolveRuntimeError pid ev r) = resolve_runtime_error pid ev r"
| "exec_call fs Snapshot = ignore snapshot"
| "exec_call fs (MAuthorize c) = ignore (authorize_request c)"
| "exec_call fs (MSubmitSignal pid t ins i sp b) = ignore (m_submit_signal pid t ins i sp b)"
| "exec_call fs (MSubmitStrategy pid t ins i sp b) = ignore (m_submit_strategy pid t ins i sp b)"
| "exec_call fs (MReviewBacktest pid b note) = m_review_backtest pid b note"
| "exec_call fs (MApproveOptimization pid b note) = m_approve_optimization pid b note"
| "exec_call fs (MApproveImplementation pid b note) = m_approve_implementation pid b note"
| "exec_call fs (MApproveLive pid b note) = m_approve_live pid b note"
| "exec_call fs (MStartSignalRuntime pid) = m_start_signal_runtime pid"
| "exec_call fs (MStopSignalRuntime pid r) = m_stop_signal_runtime pid r"
| "exec_call fs (MRequestReport pid) = ignore (request_report pid)"

text \<open>The state after a call, whether it returned or raised, and after a history of calls.\<close>

definition after_call :: "(string \<Rightarrow> pyfloat option) \<Rightarrow> studio_call \<Rightarrow> studio \<Rightarrow> studio" where
  "after_call fs c s = snd (exec_call fs c s)"

fun run_calls :: "(string \<Rightarrow> pyfloat option) \<Rightarrow> studio_call list \<Rightarrow> studio \<Rightarrow> studio" where
  "run_calls fs [] s = s"
| "run_calls fs (c # cs) s = run_calls fs cs (after_call fs c s)"

inductive reachable :: "(string \<Rightarrow> pyfloat option) \<Rightarrow> studio \<Rightarrow> bool"
  for fs :: "string \<Rightarrow> pyfloat option"
where
  start: "studio_init clk = (r, s) \<Longrightarrow> reachable fs s"
| call: "reachable fs s \<Longrightarrow> reachable fs (after_call fs c s)"

section \<open>Lifting the operations' facts to calls\<close>

text \<open>The project a call is about; \<open>None\<close> for the calls that store no project.\<close>

fun call_project :: "studio_call \<Rightarrow> string option" where
  "call_project (SubmitStrategy pid t i sp b) = Some pid"
| "call_project (SubmitSignal pid t i sp b) = Some pid"
| "call_project (StrategyImplementedCall pid impl) = Some pid"
| "call_project (ReviewImplementation pid b ev) = Some pid"
| "call_project (ApproveImplementation pid b note) = Some pid"
| "call_project (BacktestCompletedCall pid ev) = Some pid"
| "call_project (ReviewBacktestEvidence pid b ev) = Some pid"
| "call_project (OptimizationCompletedCall pid pr) = Some pid"
| "call_project (ApproveOptimization pid b note) = Some pid"
| "call_project (ReviewBacktest pid b note) = Some pid"
| "call_project (ApproveLive pid b note) = Some pid"
| "call_project (StartSignalRuntime pid) = Some pid"
| "call_project (StopSignalRuntime pid r) = Some pid"
| "call_project (PublishSignal pid fp) = Some pid"
| "call_project (ReportRuntimeError pid e) = Some pid"
| "call_project (ResolveRuntimeError pid ev r) = Some pid"
| "call_project Snapshot = None"
| "call_project (MAuthorize c) = None"
| "call_project (MSubmitSignal pid t ins i sp b) = Some pid"
| "call_project (MSubmitStrategy pid t ins i sp b) = Some pid"
| "call_project (MReviewBacktest pid b note) = Some pid"
| "call_project (MApproveOptimization pid b note) = Some pid"
| "call_project (MApproveImplementation pid b note) = Some pid"
| "call_project (MApproveLive pid b note) = Some pid"
| "call_project (MStartSignalRuntime pid) = Some pid"
| "call_project (MStopSignalRuntime pid r) = Some pid"
| "call_project (MRequestReport pid) = None"

lemma authorize_capability [simp]: "authorize_request (capability_value c) = ret c"
  by (simp add: authorize_request_def capability_roundtrip)

lemma authorize_literals [simp]:
  "authorize_request ''add_signal'' = ret ADD_SIGNAL"
  "authorize_request ''add_strategy'' = ret ADD_STRATEGY"
  "authorize_request ''request_agent_data'' = ret REQUEST_AGENT_DATA"
  "authorize_request ''manage_workflow'' = ret MANAGE_WORKFLOW"
  by (simp_all flip: capability_value.simps)

lemmas manager_call_defs =
  m_submit_signal_def m_submit_strategy_def m_review_backtest_def m_approve_optimization_def
  m_approve_implementation_def m_approve_live_def m_start_signal_runtime_def
  m_stop_signal_runtime_def request_report_def submit_signal_def
  submit_strategy_def ignore_def manager_delegated_def manager_reported_def manager_refused_def

text \<open>
  A predicate every workflow operation keeps is kept by every call: the Manager only adds
  reads, checks and messages of its own.
\<close>

lemma keeps_exec_call:
  assumes "\<And>pid. call_project c = Some pid \<or> call_project c = None \<Longrightarrow> studio_frame I pid"
  shows "keeps I (exec_call fs c)"
proof -
  have frame: "studio_frame I pid" if "call_project c = None \<or> call_project c = Some pid" for pid
    using assms that by blast
  show ?thesis
  proof (cases c)
    case (MAuthorize x)
    with frame [of "[]"] show ?thesis
      by (auto simp: manager_call_defs authorize_request_def split: option.split
          intro!: keeps_rules studio_frame.keeps_emit)
  next
    case (MRequestReport x)
    with frame [of "[]"] show ?thesis
      by (auto simp: manager_call_defs split: option.split
          intro!: keeps_rules studio_frame.keeps_emit studio_frame.frame_ops)
  next
    case Snapshot
    with frame [of "[]"] show ?thesis
      by (auto simp: manager_call_defs intro!: keeps_rules studio_frame.frame_ops)
  qed (use frame in \<open>auto simp: manager_call_defs
         intro!: keeps_rules studio_frame.keeps_emit studio_frame.frame_ops\<close>)
qed

end
