(* ===== verification/Studio_Automaton.thy ===== *)
theory Studio_Automaton
  imports Studio_Manager
begin

text \<open>
  The abstract machine of one project: the stages and the edges between them
  (\<open>stage_edge\<close>). Every call of the studio, whatever its outcome, leaves a project in its
  stage or moves it along one edge, and what the abstract machine cannot do no history of
  calls can do.
\<close>

inductive stage_edge :: "artifact_kind \<Rightarrow> bool \<Rightarrow> workflow_stage \<Rightarrow> workflow_stage \<Rightarrow> bool"
  for k :: artifact_kind and bt :: bool
where
  implemented: "st \<in> implementing_stages \<Longrightarrow> stage_edge k bt st REVIEWING_IMPLEMENTATION"
| review_passed: "stage_edge k bt REVIEWING_IMPLEMENTATION AWAITING_IMPLEMENTATION_APPROVAL"
| review_failed_signal: "k = SIGNAL_ARTIFACT \<Longrightarrow>
    stage_edge k bt REVIEWING_IMPLEMENTATION SIGNAL_IMPLEMENTATION"
| review_failed_strategy: "k = STRATEGY_ARTIFACT \<Longrightarrow>
    stage_edge k bt REVIEWING_IMPLEMENTATION STRATEGY_IMPLEMENTATION"
| approved_for_backtest: "bt \<Longrightarrow> stage_edge k bt AWAITING_IMPLEMENTATION_APPROVAL BACKTESTING"
| approved_for_live: "\<not> bt \<Longrightarrow>
    stage_edge k bt AWAITING_IMPLEMENTATION_APPROVAL AWAITING_LIVE_APPROVAL"
| returned_signal: "k = SIGNAL_ARTIFACT \<Longrightarrow>
    stage_edge k bt AWAITING_IMPLEMENTATION_APPROVAL SIGNAL_IMPLEMENTATION"
| returned_strategy: "k = STRATEGY_ARTIFACT \<Longrightarrow>
    stage_edge k bt AWAITING_IMPLEMENTATION_APPROVAL STRATEGY_IMPLEMENTATION"
| backtested: "stage_edge k bt BACKTESTING REVIEWING_BACKTEST"
| evidence_to_optimizer: "k = STRATEGY_ARTIFACT \<Longrightarrow> stage_edge k bt REVIEWING_BACKTEST OPTIMIZING"
| evidence_to_user: "k = SIGNAL_ARTIFACT \<Longrightarrow>
    stage_edge k bt REVIEWING_BACKTEST AWAITING_BACKTEST_APPROVAL"
| evidence_rejected: "stage_edge k bt REVIEWING_BACKTEST BACKTESTING"
| optimized: "stage_edge k bt OPTIMIZING AWAITING_OPTIMIZATION_APPROVAL"
| optimization_taken: "stage_edge k bt AWAITING_OPTIMIZATION_APPROVAL STRATEGY_IMPLEMENTATION"
| optimization_skipped: "stage_edge k bt AWAITING_OPTIMIZATION_APPROVAL AWAITING_BACKTEST_APPROVAL"
| backtest_approved: "stage_edge k bt AWAITING_BACKTEST_APPROVAL AWAITING_LIVE_APPROVAL"
| backtest_returned: "stage_edge k bt AWAITING_BACKTEST_APPROVAL BACKTESTING"
| live_signal: "k = SIGNAL_ARTIFACT \<Longrightarrow> stage_edge k bt AWAITING_LIVE_APPROVAL READY_FOR_SIGNAL"
| live_strategy: "k = STRATEGY_ARTIFACT \<Longrightarrow> stage_edge k bt AWAITING_LIVE_APPROVAL READY_FOR_TRADING"
| live_refused: "stage_edge k bt AWAITING_LIVE_APPROVAL AWAITING_IMPLEMENTATION_APPROVAL"
| started: "k = SIGNAL_ARTIFACT \<Longrightarrow> st \<in> {READY_FOR_SIGNAL, SIGNAL_STOPPED} \<Longrightarrow>
    stage_edge k bt st SIGNAL_RUNNING"
| stopped: "st \<in> {SIGNAL_RUNNING, MAINTENANCE} \<Longrightarrow> stage_edge k bt st SIGNAL_STOPPED"
| failed: "stage_edge k bt SIGNAL_RUNNING MAINTENANCE"
| repaired: "stage_edge k bt MAINTENANCE SIGNAL_RUNNING"

inductive_simps edge_from_trading [simp]: "stage_edge k bt READY_FOR_TRADING st"
inductive_simps edge_to_live [simp]: "stage_edge k bt st AWAITING_LIVE_APPROVAL"
inductive_simps edge_to_ready [simp]: "stage_edge k bt st READY_FOR_SIGNAL"
inductive_simps edge_to_running [simp]: "stage_edge k bt st SIGNAL_RUNNING"
inductive_simps edge_to_stopped [simp]: "stage_edge k bt st SIGNAL_STOPPED"
inductive_simps edge_to_maintenance [simp]: "stage_edge k bt st MAINTENANCE"
inductive_simps edge_to_trading [simp]: "stage_edge k bt st READY_FOR_TRADING"
inductive_simps edge_to_rejected [simp]: "stage_edge k bt st REJECTED"

section \<open>How a call moves a project\<close>

definition leads :: "('s \<Rightarrow> bool) \<Rightarrow> ('s \<Rightarrow> bool) \<Rightarrow> ('s, 'a) eff \<Rightarrow> bool" where
  "leads P Q m \<longleftrightarrow> (\<forall>s. P s \<longrightarrow> wp m (\<lambda>_. Q) (\<lambda>_. Q) s)"

lemma leads_after_keeps:
  "keeps P m \<Longrightarrow> (\<And>s. P s \<Longrightarrow> Q s) \<Longrightarrow> leads P Q k \<Longrightarrow> leads P Q (thenE m k)"
  by (auto simp: leads_def keeps_wp wp_thenE intro: wp_mono)

lemma leads_bind_keeps:
  "leads P Q m \<Longrightarrow> (\<And>a. keeps Q (f a)) \<Longrightarrow> leads P Q (bindE m f)"
  by (auto simp: leads_def keeps_wp wp_bindE intro: wp_mono)

lemma leads_then_keeps: "leads P Q m \<Longrightarrow> keeps Q k \<Longrightarrow> leads P Q (thenE m k)"
  by (simp add: thenE_def leads_bind_keeps)

lemma leads_keeps: "keeps P m \<Longrightarrow> (\<And>s. P s \<Longrightarrow> Q s) \<Longrightarrow> leads P Q m"
  by (auto simp: leads_def keeps_wp intro: wp_mono)

definition moved ::
  "(studio_project \<Rightarrow> studio_project \<Rightarrow> bool) \<Rightarrow> string \<Rightarrow> studio_project \<Rightarrow> studio \<Rightarrow> bool"
where
  "moved R pid p s \<longleftrightarrow> (\<exists>p'. map_of (projects s) pid = Some p' \<and> R p p')"

lemma wp_emit_moved [wp_rules]:
  "wp (emit a l txt q) (\<lambda>_. moved R pid p) (\<lambda>_. moved R pid p) = moved R pid p"
proof (rule ext)
  fix s
  show "wp (emit a l txt q) (\<lambda>_. moved R pid p) (\<lambda>_. moved R pid p) s = moved R pid p s"
    by (auto simp: wp_def moved_def split: prod.splits sum.splits dest: emit_projects)
qed

lemma keeps_emit_moved: "keeps (moved R pid p) (emit a l txt q)"
  by (simp add: keeps_wp wp_emit_moved)

lemma moved_put [simp]:
  "moved R pid p (s\<lparr>projects := AList.update pid p' al\<rparr>) = R p p'"
  by (simp add: moved_def update_conv)

lemma keeps_stores_emit: "keeps (stores pid v) (emit a l txt q)"
proof -
  have "projects (snd (emit a l txt q s)) = projects s" for s
    by (metis emit_projects prod.collapse)
  then show ?thesis by (simp add: keeps_def stores_def)
qed

lemma keeps_stores_now: "keeps (stores pid v) now"
  by (auto simp: keeps_def now_def stores_def Let_def split: pydatetime.splits)

lemma keeps_stores_received: "keeps (stores pid v) (manager_received instr q)"
  unfolding manager_received_def by (intro keeps_rules keeps_stores_emit)

lemma stores_moved: "(\<And>p. R p p) \<Longrightarrow> stores pid (Some p) s \<Longrightarrow> moved R pid p s"
  by (auto simp: stores_def moved_def)

text \<open>An existing project is never resubmitted.\<close>

lemma keeps_stores_submit:
  "keeps (stores q (Some p)) (submit_artifact pid ttl i sp k b)"
proof -
  have emit: "wp (emit a l tx r) (\<lambda>_. stores q (Some p)) (\<lambda>_. stores q (Some p)) s =
      stores q (Some p) s" for a l tx r s
    by (auto simp: wp_def stores_def split: prod.splits sum.splits dest: emit_projects)
  then have emit': "wp (emit a l tx r) (\<lambda>_. stores q (Some p)) (\<lambda>_. stores q (Some p)) =
      stores q (Some p)" for a l tx r
    by (simp add: fun_eq_iff)
  show ?thesis
    unfolding keeps_wp submit_artifact_def
    by (auto simp: wp_rules emit' Let_def) (auto simp: stores_def update_conv)
qed

text \<open>
  The exact rule for one operation: the relation \<open>R\<close> is reflexive and relates the project
  to what the operation stores.
\<close>

lemma leads_project_op:
  assumes "\<And>s. stores pid (Some p) s \<Longrightarrow> wp (f p) (\<lambda>_. moved R pid p) (\<lambda>_. moved R pid p) s"
  shows "leads (stores pid (Some p)) (moved R pid p) (bindE (get_project pid) f)"
  using assms by (simp add: leads_def wp_rules stores_def)

definition along_edge :: "studio_project \<Rightarrow> studio_project \<Rightarrow> bool" where
  "along_edge p p' \<longleftrightarrow>
     artifact_kind p' = artifact_kind p \<and> backtest_required p' = backtest_required p \<and>
     (stage p' = stage p \<or> stage_edge (artifact_kind p) (backtest_required p) (stage p) (stage p'))"

lemma along_edge_refl [simp]: "along_edge p p"
  by (simp add: along_edge_def)

definition approvals :: "studio_project \<Rightarrow> bool \<times> bool option \<times> bool \<times> bool \<times> bool" where
  "approvals p = (implementation_approved p, optimization_approved p, backtest_approved p,
     live_approved p, user_approved p)"

definition same_approvals :: "studio_project \<Rightarrow> studio_project \<Rightarrow> bool" where
  "same_approvals p p' \<longleftrightarrow> approvals p' = approvals p"

lemma same_approvals_refl [simp]: "same_approvals p p"
  by (simp add: same_approvals_def)

lemmas op_move_simps = along_edge_def same_approvals_def approvals_def implementation_stage_def
  stage_edge.intros stage_sets kind_not_signal kind_not_strategy

lemma edge_strategy_implemented: "leads (stores pid (Some p)) (moved along_edge pid p) (strategy_implemented pid impl)"
  unfolding strategy_implemented_def
  by (rule leads_project_op, auto simp: wp_rules Let_def stores_moved
        simp del: validate_trading_performance_evidence.simps)
     (auto simp: op_move_simps)

lemma edge_review_implementation: "leads (stores pid (Some p)) (moved along_edge pid p) (review_implementation pid b ev)"
  unfolding review_implementation_def
  by (rule leads_project_op, auto simp: wp_rules Let_def stores_moved
        simp del: validate_trading_performance_evidence.simps)
     (auto simp: op_move_simps)

lemma edge_approve_implementation: "leads (stores pid (Some p)) (moved along_edge pid p) (approve_implementation pid b note)"
  unfolding approve_implementation_def
  by (rule leads_project_op, auto simp: wp_rules Let_def stores_moved
        simp del: validate_trading_performance_evidence.simps)
     (auto simp: op_move_simps)

lemma edge_backtest_completed: "leads (stores pid (Some p)) (moved along_edge pid p) (backtest_completed fs pid ev)"
  unfolding backtest_completed_def
  by (rule leads_project_op, auto simp: wp_rules Let_def stores_moved
        simp del: validate_trading_performance_evidence.simps split: sum.splits prod.splits)
     (auto simp: op_move_simps)

lemma edge_review_backtest_evidence: "leads (stores pid (Some p)) (moved along_edge pid p) (review_backtest_evidence pid b ev)"
  unfolding review_backtest_evidence_def
  by (rule leads_project_op, auto simp: wp_rules Let_def stores_moved
        simp del: validate_trading_performance_evidence.simps)
     (auto simp: op_move_simps)

lemma edge_optimization_completed: "leads (stores pid (Some p)) (moved along_edge pid p) (optimization_completed pid prop)"
  unfolding optimization_completed_def
  by (rule leads_project_op, auto simp: wp_rules Let_def stores_moved
        simp del: validate_trading_performance_evidence.simps)
     (auto simp: op_move_simps)

lemma edge_approve_optimization: "leads (stores pid (Some p)) (moved along_edge pid p) (approve_optimization pid b note)"
  unfolding approve_optimization_def
  by (rule leads_project_op, auto simp: wp_rules Let_def stores_moved
        simp del: validate_trading_performance_evidence.simps)
     (auto simp: op_move_simps)

lemma edge_review_backtest: "leads (stores pid (Some p)) (moved along_edge pid p) (review_backtest pid b note)"
  unfolding review_backtest_def
  by (rule leads_project_op, auto simp: wp_rules Let_def stores_moved
        simp del: validate_trading_performance_evidence.simps)
     (auto simp: op_move_simps)

lemma edge_approve_live: "leads (stores pid (Some p)) (moved along_edge pid p) (approve_live pid b note)"
  unfolding approve_live_def
  by (rule leads_project_op, auto simp: wp_rules Let_def stores_moved
        simp del: validate_trading_performance_evidence.simps)
     (auto simp: op_move_simps)

lemma edge_start_signal_runtime: "leads (stores pid (Some p)) (moved along_edge pid p) (start_signal_runtime pid)"
  unfolding start_signal_runtime_def
  by (rule leads_project_op, auto simp: wp_rules Let_def stores_moved
        simp del: validate_trading_performance_evidence.simps)
     (auto simp: op_move_simps)

lemma edge_stop_signal_runtime: "leads (stores pid (Some p)) (moved along_edge pid p) (stop_signal_runtime pid reason)"
  unfolding stop_signal_runtime_def
  by (rule leads_project_op, auto simp: wp_rules Let_def stores_moved
        simp del: validate_trading_performance_evidence.simps)
     (auto simp: op_move_simps)

lemma edge_publish_signal: "leads (stores pid (Some p)) (moved along_edge pid p) (publish_signal pid fp)"
  unfolding publish_signal_def
  by (rule leads_project_op, auto simp: wp_rules Let_def stores_moved
        simp del: validate_trading_performance_evidence.simps)
     (auto simp: op_move_simps)

lemma edge_report_runtime_error: "leads (stores pid (Some p)) (moved along_edge pid p) (report_runtime_error pid err)"
  unfolding report_runtime_error_def
  by (rule leads_project_op, auto simp: wp_rules Let_def stores_moved
        simp del: validate_trading_performance_evidence.simps)
     (auto simp: op_move_simps)

lemma edge_resolve_runtime_error: "leads (stores pid (Some p)) (moved along_edge pid p) (resolve_runtime_error pid ev resume)"
  unfolding resolve_runtime_error_def
  by (rule leads_project_op, auto simp: wp_rules Let_def stores_moved
        simp del: validate_trading_performance_evidence.simps)
     (auto simp: op_move_simps)

lemmas edge_ops =
  edge_strategy_implemented
  edge_review_implementation
  edge_approve_implementation
  edge_backtest_completed
  edge_review_backtest_evidence
  edge_optimization_completed
  edge_approve_optimization
  edge_review_backtest
  edge_approve_live
  edge_start_signal_runtime
  edge_stop_signal_runtime
  edge_publish_signal
  edge_report_runtime_error
  edge_resolve_runtime_error

lemma appr_strategy_implemented: "leads (stores pid (Some p)) (moved same_approvals pid p) (strategy_implemented pid impl)"
  unfolding strategy_implemented_def
  by (rule leads_project_op, auto simp: wp_rules Let_def stores_moved
        simp del: validate_trading_performance_evidence.simps)
     (auto simp: op_move_simps)

lemma appr_review_implementation: "leads (stores pid (Some p)) (moved same_approvals pid p) (review_implementation pid b ev)"
  unfolding review_implementation_def
  by (rule leads_project_op, auto simp: wp_rules Let_def stores_moved
        simp del: validate_trading_performance_evidence.simps)
     (auto simp: op_move_simps)

lemma appr_backtest_completed: "leads (stores pid (Some p)) (moved same_approvals pid p) (backtest_completed fs pid ev)"
  unfolding backtest_completed_def
  by (rule leads_project_op, auto simp: wp_rules Let_def stores_moved
        simp del: validate_trading_performance_evidence.simps split: sum.splits prod.splits)
     (auto simp: op_move_simps)

lemma appr_review_backtest_evidence: "leads (stores pid (Some p)) (moved same_approvals pid p) (review_backtest_evidence pid b ev)"
  unfolding review_backtest_evidence_def
  by (rule leads_project_op, auto simp: wp_rules Let_def stores_moved
        simp del: validate_trading_performance_evidence.simps)
     (auto simp: op_move_simps)

lemma appr_optimization_completed: "leads (stores pid (Some p)) (moved same_approvals pid p) (optimization_completed pid prop)"
  unfolding optimization_completed_def
  by (rule leads_project_op, auto simp: wp_rules Let_def stores_moved
        simp del: validate_trading_performance_evidence.simps)
     (auto simp: op_move_simps)

lemma appr_start_signal_runtime: "leads (stores pid (Some p)) (moved same_approvals pid p) (start_signal_runtime pid)"
  unfolding start_signal_runtime_def
  by (rule leads_project_op, auto simp: wp_rules Let_def stores_moved
        simp del: validate_trading_performance_evidence.simps)
     (auto simp: op_move_simps)

lemma appr_stop_signal_runtime: "leads (stores pid (Some p)) (moved same_approvals pid p) (stop_signal_runtime pid reason)"
  unfolding stop_signal_runtime_def
  by (rule leads_project_op, auto simp: wp_rules Let_def stores_moved
        simp del: validate_trading_performance_evidence.simps)
     (auto simp: op_move_simps)

lemma appr_publish_signal: "leads (stores pid (Some p)) (moved same_approvals pid p) (publish_signal pid fp)"
  unfolding publish_signal_def
  by (rule leads_project_op, auto simp: wp_rules Let_def stores_moved
        simp del: validate_trading_performance_evidence.simps)
     (auto simp: op_move_simps)

lemma appr_report_runtime_error: "leads (stores pid (Some p)) (moved same_approvals pid p) (report_runtime_error pid err)"
  unfolding report_runtime_error_def
  by (rule leads_project_op, auto simp: wp_rules Let_def stores_moved
        simp del: validate_trading_performance_evidence.simps)
     (auto simp: op_move_simps)

lemma appr_resolve_runtime_error: "leads (stores pid (Some p)) (moved same_approvals pid p) (resolve_runtime_error pid ev resume)"
  unfolding resolve_runtime_error_def
  by (rule leads_project_op, auto simp: wp_rules Let_def stores_moved
        simp del: validate_trading_performance_evidence.simps)
     (auto simp: op_move_simps)

lemmas appr_ops =
  appr_strategy_implemented
  appr_review_implementation
  appr_backtest_completed
  appr_review_backtest_evidence
  appr_optimization_completed
  appr_start_signal_runtime
  appr_stop_signal_runtime
  appr_publish_signal
  appr_report_runtime_error
  appr_resolve_runtime_error

section \<open>Lifting to calls\<close>

lemma thenE_ret [simp]: "thenE (ret a) k = k"
  by (simp add: thenE_def bindE_def ret_def fun_eq_iff)

lemma leads_manager:
  assumes "leads (stores pid (Some p)) (moved R pid p) m" and "\<And>p. R p p"
  shows "leads (stores pid (Some p)) (moved R pid p)
    (thenE (manager_received instr (Some pid)) (thenE m (manager_delegated target pid)))"
  unfolding manager_delegated_def
  by (rule leads_after_keeps [OF keeps_stores_received])
     (auto intro: stores_moved assms leads_then_keeps keeps_emit_moved)

lemma leads_stores:
  "keeps (stores pid (Some p)) m \<Longrightarrow> (\<And>p. R p p) \<Longrightarrow> leads (stores pid (Some p)) (moved R pid p) m"
  by (rule leads_keeps) (auto intro: stores_moved)

text \<open>Calls that store no project, and calls about another project.\<close>

lemma keeps_stores_quiet_call:
  assumes "call_project c = None"
  shows "keeps (stores pid v) (exec_call fs c)"
  using assms
  by (cases c) (auto simp: manager_call_defs authorize_request_def snapshot_def manager_received_def
      split: option.split intro!: keeps_rules keeps_stores_emit keeps_stores_now)

lemma keeps_stores_other_call:
  assumes "call_project c = Some q" and "q \<noteq> pid"
  shows "keeps (stores pid v) (exec_call fs c)"
proof -
  have "keeps (other_stores q pid v) (exec_call fs c)"
    by (rule keeps_exec_call) (use assms other.studio_frame_axioms in auto)
  moreover have "other_stores q pid v = stores pid v"
    using assms(2) by (simp add: other_stores_def fun_eq_iff)
  ultimately show ?thesis by simp
qed

fun is_submission :: "studio_call \<Rightarrow> bool" where
  "is_submission (SubmitStrategy pid t i sp b) = True"
| "is_submission (SubmitSignal pid t i sp b) = True"
| "is_submission (MSubmitSignal pid t ins i sp b) = True"
| "is_submission (MSubmitStrategy pid t ins i sp b) = True"
| "is_submission _ = False"

lemma keeps_stores_submission:
  assumes "is_submission c"
  shows "keeps (stores pid (Some p)) (exec_call fs c)"
  using assms
  by (cases c) (auto simp: manager_call_defs
      intro!: keeps_rules keeps_stores_emit keeps_stores_submit keeps_stores_received)

lemma leads_exec_edge:
  "leads (stores pid (Some p)) (moved along_edge pid p) (exec_call fs c)"
proof (cases "call_project c = Some pid \<and> \<not> is_submission c")
  case False
  then have "keeps (stores pid (Some p)) (exec_call fs c)"
    by (cases "call_project c")
       (auto intro: keeps_stores_quiet_call keeps_stores_other_call keeps_stores_submission)
  then show ?thesis by (rule leads_stores) simp
next
  case True
  then show ?thesis
    by (cases c) (auto simp: manager_call_defs simp flip: manager_delegated_def
        intro!: edge_ops leads_manager)
qed

text \<open>The user's decisions; every other call leaves a project's approvals as they are.\<close>

fun is_decision :: "studio_call \<Rightarrow> bool" where
  "is_decision (ApproveImplementation pid b note) = True"
| "is_decision (ApproveOptimization pid b note) = True"
| "is_decision (ReviewBacktest pid b note) = True"
| "is_decision (ApproveLive pid b note) = True"
| "is_decision (MApproveImplementation pid b note) = True"
| "is_decision (MApproveOptimization pid b note) = True"
| "is_decision (MReviewBacktest pid b note) = True"
| "is_decision (MApproveLive pid b note) = True"
| "is_decision _ = False"

lemma leads_exec_approvals:
  assumes "\<not> is_decision c"
  shows "leads (stores pid (Some p)) (moved same_approvals pid p) (exec_call fs c)"
proof (cases "call_project c = Some pid \<and> \<not> is_submission c")
  case False
  then have "keeps (stores pid (Some p)) (exec_call fs c)"
    by (cases "call_project c")
       (auto intro: keeps_stores_quiet_call keeps_stores_other_call keeps_stores_submission)
  then show ?thesis by (rule leads_stores) simp
next
  case True
  with assms show ?thesis
    by (cases c) (auto simp: manager_call_defs simp flip: manager_delegated_def
        intro!: appr_ops leads_manager)
qed

lemma leads_after_call:
  assumes "leads (stores pid (Some p)) (moved R pid p) (exec_call fs c)"
    and "map_of (projects s) pid = Some p"
  obtains p' where "map_of (projects (after_call fs c s)) pid = Some p'" and "R p p'"
proof -
  have "wp (exec_call fs c) (\<lambda>_. moved R pid p) (\<lambda>_. moved R pid p) s"
    using assms by (simp add: leads_def stores_def)
  then have "moved R pid p (after_call fs c s)"
    by (auto simp: wp_def after_call_def split: prod.splits sum.splits)
  with that show ?thesis by (auto simp: moved_def)
qed

lemmas call_along_edge = leads_after_call [OF leads_exec_edge]

section \<open>Reachable states\<close>

lemma keeps_studio_ok_call: "keeps studio_ok (exec_call fs c)"
  by (cases c) (auto simp: manager_call_defs authorize_request_def split: option.split
      intro!: keeps_rules keeps_studio_ok)

lemma studio_ok_init: "studio_init clk = (r, s) \<Longrightarrow> studio_ok s"
  unfolding studio_init_def by (drule emit_projects) (simp add: studio_ok_def)

lemma reachable_ok: "reachable fs s \<Longrightarrow> studio_ok s"
proof (induction rule: reachable.induct)
  case (start clk r s)
  then show ?case by (rule studio_ok_init)
next
  case (call s c)
  then show ?case
    using keeps_studio_ok_call [of fs c] by (simp add: keeps_def after_call_def)
qed

lemma reachable_project_ok:
  "reachable fs s \<Longrightarrow> map_of (projects s) pid = Some p \<Longrightarrow> project_ok p \<and> project_id p = pid"
  using reachable_ok studio_ok_lookup by blast

lemma log_ok_init: "studio_init clk = (r, s) \<Longrightarrow> log_ok s"
  unfolding studio_init_def
  by (auto simp: emit_def bindE_def modifyE_def now_def Let_def log_ok_def split: pydatetime.splits)

lemma keeps_log_call: "keeps log_ok (exec_call fs c)"
  by (rule keeps_exec_call) (rule log.studio_frame_axioms)

lemma keeps_grow_call: "keeps (extends_log ms) (exec_call fs c)"
  by (rule keeps_exec_call) (rule grow.studio_frame_axioms)

lemma reachable_log_ok: "reachable fs s \<Longrightarrow> log_ok s"
proof (induction rule: reachable.induct)
  case (start clk r s)
  then show ?case by (rule log_ok_init)
next
  case (call s c)
  then show ?case
    using keeps_log_call [of fs c] by (simp add: keeps_def after_call_def)
qed

lemma reachable_run: "reachable fs s \<Longrightarrow> reachable fs (run_calls fs cs s)"
  by (induction cs arbitrary: s) (auto intro: reachable.call)

lemma run_calls_append: "run_calls fs (cs @ ds) s = run_calls fs ds (run_calls fs cs s)"
  by (induction cs arbitrary: s) auto

lemma run_calls_clock [simp]: "clock (run_calls fs cs s) = clock s"
proof -
  have "keeps (has_clock clk) (exec_call fs c)" for clk c
    by (rule keeps_exec_call) (rule clk.studio_frame_axioms)
  then have "has_clock clk s \<Longrightarrow> has_clock clk (run_calls fs cs s)" for clk
    by (induction cs arbitrary: s) (auto simp: keeps_def after_call_def)
  then show ?thesis by (simp add: has_clock_def)
qed

lemma studio_init_clock: "clock (snd (studio_init clk)) = clk"
  by (auto simp: studio_init_def emit_def bindE_def modifyE_def now_def Let_def
      split: pydatetime.splits)

section \<open>No way round the live gate\<close>

text \<open>The stages a project can only be in once it has waited for the user's live approval.\<close>

definition live_stages :: "workflow_stage set" where
  "live_stages = insert READY_FOR_TRADING signal_stages"

lemma edge_into_live:
  "stage_edge k bt st st' \<Longrightarrow> st' \<in> live_stages \<Longrightarrow> st \<in> insert AWAITING_LIVE_APPROVAL live_stages"
  by (auto simp: live_stages_def stage_sets)

definition in_stage :: "string \<Rightarrow> workflow_stage set \<Rightarrow> studio \<Rightarrow> bool" where
  "in_stage pid ss s \<longleftrightarrow> (\<exists>p. map_of (projects s) pid = Some p \<and> stage p \<in> ss)"

text \<open>
  A step that enters a set of stages from outside does so along an edge; by induction the
  history has visited the set's entrance.
\<close>

lemma run_visits:
  assumes entrance: "\<And>k bt st st'. stage_edge k bt st st' \<Longrightarrow> st' \<in> target \<Longrightarrow> st \<in> gate \<union> target"
    and "map_of (projects s) pid = Some p" and "stage p \<notin> target"
    and "in_stage pid target (run_calls fs cs s)"
  shows "\<exists>ds es. cs = ds @ es \<and> in_stage pid gate (run_calls fs ds s)"
  using assms(2-)
proof (induction cs arbitrary: s p)
  case Nil
  then show ?case by (simp add: in_stage_def)
next
  case (Cons c cs)
  obtain p' where p': "map_of (projects (after_call fs c s)) pid = Some p'" "along_edge p p'"
    using call_along_edge [OF Cons.prems(1)] by blast
  show ?case
  proof (cases "stage p' \<in> target")
    case True
    with Cons.prems(2) p'(2) have "stage_edge (artifact_kind p) (backtest_required p) (stage p) (stage p')"
      by (auto simp: along_edge_def)
    with True Cons.prems(2) entrance have "stage p \<in> gate" by blast
    with Cons.prems(1) have "in_stage pid gate (run_calls fs [] s)" by (simp add: in_stage_def)
    then show ?thesis by blast
  next
    case False
    from Cons.prems(3) have "in_stage pid target (run_calls fs cs (after_call fs c s))" by simp
    with Cons.IH [OF p'(1) False] obtain ds es where
      "cs = ds @ es" "in_stage pid gate (run_calls fs ds (after_call fs c s))" by blast
    then have "c # cs = (c # ds) @ es" "in_stage pid gate (run_calls fs (c # ds) s)" by simp_all
    then show ?thesis by blast
  qed
qed

end
