(* ===== verification/Studio_Properties.thy ===== *)
theory Studio_Properties
  imports Studio_Automaton
begin

text \<open>
  The properties of the studio's workflow and of its Manager facade, each with a witness on
  a concrete history (\<open>demo_calls\<close>: a Signal Definition without a back-test, from its
  submission to the running signal runtime).
\<close>

section \<open>A concrete history\<close>

definition demo_clock :: "nat \<Rightarrow> pydatetime" where
  "demo_clock n = Aware (Datetime (int n))"

definition no_floats :: "string \<Rightarrow> pyfloat option" where
  "no_floats s = None"

definition demo_impl :: strategy_implementation where
  "demo_impl = \<lparr>strategy_id = ''ema'', si_version = ''1'', si_spec_path = None,
     module_path = ''ema.py'', test_paths = [''test_ema.py'']\<rparr>"

definition demo_calls :: "studio_call list" where
  "demo_calls =
     [MSubmitSignal ''ema'' ''EMA'' ''add it'' (Some ''cross'') None False,
      StrategyImplementedCall ''ema'' demo_impl,
      ReviewImplementation ''ema'' True ''ok'',
      MApproveImplementation ''ema'' True ''ok'',
      MApproveLive ''ema'' True ''ok'',
      MStartSignalRuntime ''ema'']"

definition demo_start :: studio where
  "demo_start = snd (studio_init demo_clock)"

definition demo_submitted :: studio where
  "demo_submitted = run_calls no_floats (take 1 demo_calls) demo_start"

definition demo_ready :: studio where
  "demo_ready = run_calls no_floats (take 5 demo_calls) demo_start"

definition demo_running :: studio where
  "demo_running = run_calls no_floats demo_calls demo_start"

lemma demo_reachable:
  "reachable no_floats demo_start" "reachable no_floats demo_submitted"
  "reachable no_floats demo_ready" "reachable no_floats demo_running"
proof -
  show start: "reachable no_floats demo_start"
    unfolding demo_start_def by (rule reachable.start [where clk = demo_clock and r = "fst (studio_init demo_clock)"]) simp
  show "reachable no_floats demo_submitted" "reachable no_floats demo_ready"
    "reachable no_floats demo_running"
    unfolding demo_submitted_def demo_ready_def demo_running_def
    by (rule reachable_run [OF start])+
qed

lemma demo_running_stage:
  "map_option stage (map_of (projects demo_running) ''ema'') = Some SIGNAL_RUNNING"
  by code_simp

lemma demo_submitted_stage:
  "map_option stage (map_of (projects demo_submitted) ''ema'') = Some SIGNAL_IMPLEMENTATION"
  by code_simp

lemma demo_ready_stage:
  "map_option stage (map_of (projects demo_ready) ''ema'') = Some READY_FOR_SIGNAL"
  by code_simp

lemma demo_project:
  obtains p where "map_of (projects demo_running) ''ema'' = Some p" and "stage p = SIGNAL_RUNNING"
  using demo_running_stage by auto

section \<open>Gates\<close>

text \<open>
  C1. In every reachable state, a project whose signal runtime is ready, running, in
  maintenance or stopped is a Signal Definition with a tested implementation, a review of
  it, the user's implementation and live approvals, and, when a back-test is required, the
  back-test, its review and the user's approval of it.
\<close>

theorem signal_runtime_gated:
  assumes "reachable fs s" and "map_of (projects s) pid = Some p"
    and "stage p \<in> {READY_FOR_SIGNAL, SIGNAL_RUNNING, MAINTENANCE, SIGNAL_STOPPED}"
  shows "artifact_kind p = SIGNAL_ARTIFACT \<and> implementation_approved p \<and> live_approved p \<and>
    (\<exists>impl. implementation p = Some impl \<and> test_paths impl \<noteq> []) \<and> implementation_review p \<noteq> None \<and>
    (backtest_required p \<longrightarrow>
       backtest_approved p \<and> backtest p \<noteq> None \<and> backtest_review p \<noteq> None)"
proof -
  from assms(1,2) have "project_ok p" by (simp add: reachable_project_ok)
  with assms(3) show ?thesis by (elim insertE emptyE; clarsimp simp: project_ok_defs)
qed

theorem signal_runtime_gated_witness:
  "\<exists>p. map_of (projects demo_running) ''ema'' = Some p \<and> stage p = SIGNAL_RUNNING \<and> live_approved p"
proof -
  obtain p where p: "map_of (projects demo_running) ''ema'' = Some p" "stage p = SIGNAL_RUNNING"
    by (rule demo_project)
  with signal_runtime_gated [OF demo_reachable(4) p(1)] show ?thesis by simp
qed

text \<open>
  C2. Refinement: whatever call is made and however it ends, a stored project stays stored,
  keeps its kind and its back-test requirement, and its stage stays or moves along one edge
  of the stage automaton.
\<close>

theorem workflow_refines_automaton:
  assumes "map_of (projects s) pid = Some p"
  shows "\<exists>p'. map_of (projects (after_call fs c s)) pid = Some p' \<and>
    artifact_kind p' = artifact_kind p \<and> backtest_required p' = backtest_required p \<and>
    (stage p' = stage p \<or> stage_edge (artifact_kind p) (backtest_required p) (stage p) (stage p'))"
  by (rule call_along_edge [OF assms, of fs c]) (auto simp: along_edge_def)

theorem workflow_refines_automaton_witness:
  "\<exists>p'. map_of (projects (after_call no_floats (StopSignalRuntime ''ema'' []) demo_running)) ''ema''
     = Some p' \<and> artifact_kind p' = SIGNAL_ARTIFACT"
proof -
  obtain p where p: "map_of (projects demo_running) ''ema'' = Some p" "stage p = SIGNAL_RUNNING"
    by (rule demo_project)
  have "artifact_kind p = SIGNAL_ARTIFACT"
    using reachable_project_ok [OF demo_reachable(4) p(1)] p(2) by (simp add: project_ok_defs)
  with workflow_refines_automaton [OF p(1), of no_floats "StopSignalRuntime ''ema'' []"]
  show ?thesis by auto
qed

text \<open>
  C3. No history of calls brings a project from its implementation to a live stage without
  a moment in which it waited for the user's implementation approval and a later or equal
  history in which it waited for the live approval.
\<close>

theorem live_gates_unavoidable:
  assumes "map_of (projects s) pid = Some p"
    and "stage p \<in> {SIGNAL_IMPLEMENTATION, STRATEGY_IMPLEMENTATION, REVIEWING_IMPLEMENTATION}"
    and "in_stage pid {READY_FOR_SIGNAL, READY_FOR_TRADING, SIGNAL_RUNNING, MAINTENANCE, SIGNAL_STOPPED}
           (run_calls fs cs s)"
  shows "\<exists>ds es gs. cs = ds @ es @ gs \<and>
    in_stage pid {AWAITING_IMPLEMENTATION_APPROVAL} (run_calls fs ds s) \<and>
    in_stage pid {AWAITING_LIVE_APPROVAL} (run_calls fs (ds @ es) s)"
proof -
  let ?approved = "insert AWAITING_LIVE_APPROVAL (insert BACKTESTING backtest_evidence_stages)"
  have live: "\<exists>ds es. cs = ds @ es \<and> in_stage pid {AWAITING_LIVE_APPROVAL} (run_calls fs ds s)"
    by (rule run_visits [where target = live_stages and p = p])
       (use assms edge_into_live in \<open>auto simp: live_stages_def stage_sets insert_commute\<close>)
  then obtain ds es where ds: "cs = ds @ es"
    and at: "in_stage pid {AWAITING_LIVE_APPROVAL} (run_calls fs ds s)" by blast
  have "\<exists>as bs. ds = as @ bs \<and> in_stage pid {AWAITING_IMPLEMENTATION_APPROVAL} (run_calls fs as s)"
    by (rule run_visits [where target = ?approved and p = p])
       (use assms at in \<open>auto simp: stage_sets in_stage_def elim!: stage_edge.cases\<close>)
  then obtain as bs where as: "ds = as @ bs"
    and "in_stage pid {AWAITING_IMPLEMENTATION_APPROVAL} (run_calls fs as s)" by blast
  with ds at have "cs = as @ bs @ es \<and>
      in_stage pid {AWAITING_IMPLEMENTATION_APPROVAL} (run_calls fs as s) \<and>
      in_stage pid {AWAITING_LIVE_APPROVAL} (run_calls fs (as @ bs) s)" by simp
  then show ?thesis by blast
qed

theorem live_gates_unavoidable_witness:
  "\<exists>ds es gs. drop 1 demo_calls = ds @ es @ gs \<and>
    in_stage ''ema'' {AWAITING_IMPLEMENTATION_APPROVAL} (run_calls no_floats ds demo_submitted) \<and>
    in_stage ''ema'' {AWAITING_LIVE_APPROVAL} (run_calls no_floats (ds @ es) demo_submitted)"
proof -
  obtain p where p: "map_of (projects demo_submitted) ''ema'' = Some p"
    "stage p = SIGNAL_IMPLEMENTATION"
    using demo_submitted_stage by auto
  have "run_calls no_floats (drop 1 demo_calls) demo_submitted = demo_running"
    unfolding demo_submitted_def demo_running_def by (simp flip: run_calls_append)
  moreover obtain q where "map_of (projects demo_running) ''ema'' = Some q" "stage q = SIGNAL_RUNNING"
    by (rule demo_project)
  ultimately show ?thesis
    by (intro live_gates_unavoidable [OF p(1)]) (simp_all add: p(2) in_stage_def)
qed

text \<open>
  Authority: a call that is not one of the user's four decisions (approving the
  implementation, the optimization, the back-test or going live, directly or through the
  Manager) changes no approval of any stored project.
\<close>

theorem approvals_only_by_decision:
  assumes "map_of (projects s) pid = Some p" and "\<not> is_decision c"
  shows "\<exists>p'. map_of (projects (after_call fs c s)) pid = Some p' \<and>
    implementation_approved p' = implementation_approved p \<and>
    optimization_approved p' = optimization_approved p \<and>
    backtest_approved p' = backtest_approved p \<and> live_approved p' = live_approved p \<and>
    user_approved p' = user_approved p"
  by (rule leads_after_call [OF leads_exec_approvals [OF assms(2)] assms(1)])
     (auto simp: same_approvals_def approvals_def)

theorem approvals_only_by_decision_witness:
  "\<exists>p'. map_of (projects (after_call no_floats (StartSignalRuntime ''ema'') demo_ready)) ''ema'' = Some p'
     \<and> live_approved p'"
proof -
  obtain p where p: "map_of (projects demo_ready) ''ema'' = Some p" "stage p = READY_FOR_SIGNAL"
    using demo_ready_stage by auto
  have "live_approved p"
    using reachable_project_ok [OF demo_reachable(3) p(1)] p(2) by (simp add: project_ok_defs)
  with approvals_only_by_decision [OF p(1), of "StartSignalRuntime ''ema''" no_floats]
  show ?thesis by auto
qed

text \<open>
  C4. Trading stays locked: from any reachable state on, a Trading Strategy never gets into
  a stage of the signal runtime and never publishes a signal, and once its results are
  accepted (\<open>READY_FOR_TRADING\<close>) no call moves it any further.
\<close>

theorem trading_locked:
  assumes "reachable fs s" and "map_of (projects s) pid = Some p"
    and "artifact_kind p = STRATEGY_ARTIFACT"
  shows "\<exists>p'. map_of (projects (run_calls fs cs s)) pid = Some p' \<and>
    stage p' \<notin> {READY_FOR_SIGNAL, SIGNAL_RUNNING, MAINTENANCE, SIGNAL_STOPPED} \<and>
    signal_count p' = 0 \<and> (stage p = READY_FOR_TRADING \<longrightarrow> stage p' = READY_FOR_TRADING)"
  using assms
proof (induction cs arbitrary: s p)
  case Nil
  then have "project_ok p" by (simp add: reachable_project_ok)
  with Nil show ?case by (auto simp: project_ok_defs)
next
  case (Cons c cs)
  obtain p' where p': "map_of (projects (after_call fs c s)) pid = Some p'" "along_edge p p'"
    using call_along_edge [OF Cons.prems(2)] by blast
  with Cons.prems(3) have "artifact_kind p' = STRATEGY_ARTIFACT"
    and "stage p = READY_FOR_TRADING \<longrightarrow> stage p' = READY_FOR_TRADING"
    by (auto simp: along_edge_def stage_sets)
  with Cons.IH [OF reachable.call [OF Cons.prems(1)] p'(1)] show ?case by auto
qed

definition trading_demo :: studio where
  "trading_demo = run_calls no_floats [SubmitStrategy ''trend'' ''Trend'' (Some ''x'') None True] demo_start"

theorem trading_locked_witness:
  "\<exists>p'. map_of (projects (run_calls no_floats [StartSignalRuntime ''trend''] trading_demo)) ''trend''
     = Some p' \<and> signal_count p' = 0"
proof -
  have r: "reachable no_floats trading_demo"
    unfolding trading_demo_def by (rule reachable_run [OF demo_reachable(1)])
  have "map_option artifact_kind (map_of (projects trading_demo) ''trend'') = Some STRATEGY_ARTIFACT"
    by code_simp
  then obtain p where p: "map_of (projects trading_demo) ''trend'' = Some p"
    "artifact_kind p = STRATEGY_ARTIFACT" by auto
  from trading_locked [OF r p, of "[StartSignalRuntime ''trend'']"] show ?thesis by blast
qed

text \<open>
  Availability: in a reachable state under an aware clock, starting a signal runtime
  succeeds exactly for a project that is ready or stopped. The approval checks of
  \<open>start_signal_runtime\<close> never refuse such a project, and the start leaves it running with
  no recorded error.
\<close>

theorem start_succeeds_iff:
  assumes "reachable fs s" and "\<And>n. \<exists>t. clock s n = Aware t"
  shows "if in_stage pid {READY_FOR_SIGNAL, SIGNAL_STOPPED} s
    then \<exists>t p. start_signal_runtime pid s = (Inr (), t) \<and> map_of (projects t) pid = Some p \<and>
           stage p = SIGNAL_RUNNING \<and> runtime_error p = None
    else \<exists>e. start_signal_runtime pid s = (Inl e, s)"
proof -
  obtain t where t: "clock s (clock_calls s) = Aware t" using assms(2) by blast
  show ?thesis
  proof (cases "map_of (projects s) pid")
    case None
    then show ?thesis
      by (simp add: start_signal_runtime_def get_project_def bindE_def in_stage_def)
  next
    case (Some p)
    then have ok: "project_ok p" using reachable_project_ok [OF assms(1)] by simp
    show ?thesis
    proof (cases "stage p \<in> {READY_FOR_SIGNAL, SIGNAL_STOPPED}")
      case True
      then have "artifact_kind p = SIGNAL_ARTIFACT \<and> implementation_approved p \<and> live_approved p \<and>
          implementation p \<noteq> None \<and> (backtest_required p \<longrightarrow> backtest_approved p \<and> backtest p \<noteq> None)"
        using ok by (elim insertE emptyE; simp add: project_ok_defs)
      with True Some t show ?thesis
        by (auto simp: start_signal_runtime_def get_project_def eff_defs in_stage_def put_project_def
            emit_def now_def Let_def update_conv)
    next
      case False
      with Some show ?thesis
        by (auto simp: start_signal_runtime_def get_project_def eff_defs in_stage_def)
    qed
  qed
qed

theorem start_succeeds_iff_witness:
  "\<exists>t. start_signal_runtime ''ema'' demo_ready = (Inr (), t)"
proof -
  have "clock demo_ready n = Aware (Datetime (int n))" for n
  proof -
    have "clock (run_calls no_floats (take 5 demo_calls) demo_start) = demo_clock"
      by (simp add: run_calls_clock demo_start_def studio_init_clock)
    then show ?thesis by (simp add: demo_ready_def demo_clock_def)
  qed
  then have aware: "\<And>n. \<exists>t. clock demo_ready n = Aware t" by simp
  have "in_stage ''ema'' {READY_FOR_SIGNAL, SIGNAL_STOPPED} demo_ready"
    using demo_ready_stage by (auto simp: in_stage_def)
  with start_succeeds_iff [OF demo_reachable(3) aware, of "''ema''"] show ?thesis by auto
qed

text \<open>
  The message log is append-only and numbered without gaps: after any history its
  messages carry the numbers 1, 2, 3, \<open>\<dots>\<close> and extend the messages there were before.
\<close>

theorem message_log_append_only:
  assumes "reachable fs s"
  shows "(\<exists>new. messages (run_calls fs cs s) = messages s @ new) \<and>
    map sequence (messages (run_calls fs cs s)) =
      map int [1..<Suc (length (messages (run_calls fs cs s)))]"
proof -
  have "extends_log (messages s) (run_calls fs cs s)"
  proof -
    have "extends_log ms s \<Longrightarrow> extends_log ms (run_calls fs cs s)" for ms s
      using keeps_grow_call by (induction cs arbitrary: s) (auto simp: keeps_def after_call_def)
    then show ?thesis by (simp add: extends_log_def)
  qed
  moreover have "log_ok (run_calls fs cs s)"
    by (rule reachable_log_ok [OF reachable_run [OF assms]])
  ultimately show ?thesis by (simp add: extends_log_def log_ok_def)
qed

theorem message_log_append_only_witness:
  "\<exists>new. messages (run_calls no_floats (drop 5 demo_calls) demo_ready) = messages demo_ready @ new"
  using message_log_append_only [OF demo_reachable(3)] by blast

text \<open>
  The allow-list: a request is accepted exactly when it is one of the four
  capabilities, and then changes nothing; any other request ends in a
  \<open>PermissionError\<close> (or in the clock's error) and stores no project.
\<close>

theorem manager_allow_list:
  "(capability \<in> {''add_signal'', ''add_strategy'', ''request_agent_data'', ''manage_workflow''} \<and>
      (\<exists>c. authorize_request capability s = (Inr c, s))) \<or>
   (capability \<notin> {''add_signal'', ''add_strategy'', ''request_agent_data'', ''manage_workflow''} \<and>
      (\<exists>e t. authorize_request capability s = (Inl e, t) \<and> projects t = projects s \<and>
         (\<forall>m. e = PermissionError m \<longrightarrow>
            length (messages t) = Suc (length (messages s)) \<and> msg_level (last (messages t)) = WARNING)))"
proof (cases "manager_capability_of capability")
  case None
  then have "capability \<noteq> capability_value c" for c
    using manager_capability_of_Some [of capability c] by simp
  from this [of ADD_SIGNAL] this [of ADD_STRATEGY] this [of REQUEST_AGENT_DATA]
    this [of MANAGE_WORKFLOW] None
  show ?thesis
    by (auto simp: authorize_request_def manager_refused_def emit_def now_def eff_defs Let_def
        split: pydatetime.splits)
next
  case (Some c)
  then have "capability = capability_value c" by (simp add: manager_capability_of_Some)
  with Some show ?thesis by (cases c) (simp_all add: authorize_request_def ret_def)
qed

theorem manager_allow_list_witness:
  "\<exists>e t. authorize_request ''place_order'' demo_start = (Inl e, t) \<and> projects t = projects demo_start"
  using manager_allow_list [of "''place_order''" demo_start] by auto

text \<open>
  A finding: when the user returns a back-test, the Manager logs that it delegated to
  the Strategy Agent, but the project is back in the stage the Backtest Agent owns.
\<close>

theorem returned_backtest_misdelegated:
  assumes "m_review_backtest pid False note s = (Inr (), t)"
  shows "\<exists>p. map_of (projects t) pid = Some p \<and> stage_owner (stage p) = BACKTEST \<and>
    msg_text (last (messages t)) = ManagerDelegated STRATEGY"
  using assms
  by (auto simp: m_review_backtest_def manager_received_def manager_delegated_def review_backtest_def
      get_project_def put_project_def require_stage_def eff_defs emit_def now_def Let_def update_conv
      split: if_splits option.splits pydatetime.splits)

definition returned_calls :: "studio_call list" where
  "returned_calls =
     [SubmitSignal ''sig'' ''S'' (Some ''x'') None True,
      StrategyImplementedCall ''sig'' demo_impl,
      ReviewImplementation ''sig'' True ''ok'',
      ApproveImplementation ''sig'' True ''ok'',
      BacktestCompletedCall ''sig'' (backtest_evidence_create ''r1'' ''m'' [''c.svg''] []),
      ReviewBacktestEvidence ''sig'' True ''ok'']"

theorem returned_backtest_misdelegated_witness:
  "msg_text (last (messages (snd (m_review_backtest ''sig'' False ''redo''
     (run_calls no_floats returned_calls demo_start))))) = ManagerDelegated STRATEGY"
proof -
  let ?s = "run_calls no_floats returned_calls demo_start"
  have "fst (m_review_backtest ''sig'' False ''redo'' ?s) = Inr ()" by code_simp
  then have "m_review_backtest ''sig'' False ''redo'' ?s
      = (Inr (), snd (m_review_backtest ''sig'' False ''redo'' ?s))"
    by (metis prod.collapse)
  from returned_backtest_misdelegated [OF this] show ?thesis by blast
qed

text \<open>
  A Trading Strategy's back-test is only accepted with complete evidence: when
  \<open>backtest_completed\<close> returns for a strategy and the summary holds no nested object, the
  summary has every required metric, its initial equity reads as 10000, and each required
  chart is among the chart paths by the end of its file stem.
\<close>

theorem strategy_backtest_complete:
  assumes "backtest_completed fs pid ev s = (Inr (), t)"
    and "map_of (projects s) pid = Some p" and "artifact_kind p = STRATEGY_ARTIFACT"
    and "\<forall>(k, v) \<in> set (summary ev). \<not> is_dict v"
  shows "(\<forall>key \<in> set REQUIRED_TRADING_METRICS. dict_has (summary ev) key) \<and>
    py_float fs (dict_get (summary ev) ''initial_equity_usd'') = Inr (Fin 10000) \<and>
    (\<forall>key \<in> set REQUIRED_TRADING_CHARTS.
       \<exists>path \<in> set (chart_paths ev). str_endswith (path_stem path) key)"
proof -
  have "\<exists>r. validate_trading_performance_evidence fs (PDict (summary ev))
      (PDict (chart_names (chart_paths ev))) = Inr (True, r)"
    using assms(1-3)
    by (auto simp: backtest_completed_def get_project_def require_stage_def eff_defs
        simp del: validate_trading_performance_evidence.simps
        split: if_splits sum.splits prod.splits)
  then have "evidence_complete fs (PDict (summary ev)) (PDict (chart_names (chart_paths ev)))"
    by (auto simp only: validate_evidence_iff)
  then have complete: "complete_bundle fs (summary ev) (chart_names (chart_paths ev))"
    using assms(4) by (rule evidence_complete_flat)
  have "\<exists>path \<in> set (chart_paths ev). str_endswith (path_stem path) key"
    if "dict_has (chart_names (chart_paths ev)) key" for key
    using that by (rule chart_names_has)
  with complete show ?thesis by (simp add: complete_bundle_def)
qed

definition strategy_calls :: "studio_call list" where
  "strategy_calls =
     [SubmitStrategy ''trend'' ''Trend'' (Some ''x'') None True,
      StrategyImplementedCall ''trend'' demo_impl,
      ReviewImplementation ''trend'' True ''ok'',
      ApproveImplementation ''trend'' True ''ok'']"

definition full_evidence :: backtest_evidence where
  "full_evidence = backtest_evidence_create ''r1'' ''m''
     (map (\<lambda>c. c @ ''.svg'') REQUIRED_TRADING_CHARTS)
     (map (\<lambda>k. (k, PInt 10000)) REQUIRED_TRADING_METRICS)"

theorem strategy_backtest_complete_witness:
  "list_all (dict_has (summary full_evidence)) REQUIRED_TRADING_METRICS"
proof -
  let ?s = "run_calls no_floats strategy_calls demo_start"
  have "fst (backtest_completed no_floats ''trend'' full_evidence ?s) = Inr ()" by code_simp
  then have run: "backtest_completed no_floats ''trend'' full_evidence ?s
      = (Inr (), snd (backtest_completed no_floats ''trend'' full_evidence ?s))"
    by (metis prod.collapse)
  have "map_option artifact_kind (map_of (projects ?s) ''trend'') = Some STRATEGY_ARTIFACT" by code_simp
  then obtain p where p: "map_of (projects ?s) ''trend'' = Some p" "artifact_kind p = STRATEGY_ARTIFACT" by auto
  have "\<forall>(k, v) \<in> set (summary full_evidence). \<not> is_dict v"
    by (auto simp: full_evidence_def backtest_evidence_create_def is_dict_def)
  from strategy_backtest_complete [OF run p this] show ?thesis unfolding list_all_iff by blast
qed

end
