(* ===== verification/Py_Decimal.thy ===== *)
theory Py_Decimal
  imports Py_Prelude
begin

text \<open>
  Finite \<open>decimal.Decimal\<close> values as rationals. Comparisons and dictionary keys are exact;
  every arithmetic operation rounds its exact result to the default context's 28 significant
  digits, half to even (\<open>dround\<close>). The exponent limits of the context are not modelled.
\<close>

type_synonym decimal = rat

fun ndigits :: "nat \<Rightarrow> nat" where
  "ndigits n = (if n < 10 then 1 else Suc (ndigits (n div 10)))"

declare ndigits.simps [simp del]

definition pow10 :: "int \<Rightarrow> rat" where
  "pow10 k = (if 0 \<le> k then 10 ^ nat k else 1 / 10 ^ nat (- k))"

text \<open>The exponent of the leading digit of a positive rational.\<close>

definition adjusted :: "rat \<Rightarrow> int" where
  "adjusted x = (let (p, q) = quotient_of x;
       k = int (ndigits (nat p)) - int (ndigits (nat q))
     in if pow10 k \<le> x then k else k - 1)"

definition round_half_even :: "rat \<Rightarrow> int" where
  "round_half_even x = (let f = \<lfloor>x\<rfloor>; d = x - of_int f in
     if d < 1 / 2 then f else if 1 / 2 < d then f + 1 else if even f then f else f + 1)"

definition dround :: "rat \<Rightarrow> decimal" where
  "dround x = (if x = 0 then 0 else
     let scale = pow10 (27 - adjusted \<bar>x\<bar>) in
       sgn x * of_int (round_half_even (\<bar>x\<bar> * scale)) / scale)"

definition dadd :: "decimal \<Rightarrow> decimal \<Rightarrow> decimal" where
  "dadd a b = dround (a + b)"

definition dsub :: "decimal \<Rightarrow> decimal \<Rightarrow> decimal" where
  "dsub a b = dround (a - b)"

definition dmul :: "decimal \<Rightarrow> decimal \<Rightarrow> decimal" where
  "dmul a b = dround (a * b)"

text \<open>Used with a non-zero divisor only; the code never divides by an unchecked zero here.\<close>

definition ddiv :: "decimal \<Rightarrow> decimal \<Rightarrow> decimal" where
  "ddiv a b = dround (a / b)"

text \<open>\<open>sum(xs, start=Decimal("0"))\<close>.\<close>

definition dsum :: "decimal list \<Rightarrow> decimal" where
  "dsum xs = foldl dadd 0 xs"

lemma pow10_pos [simp]: "0 < pow10 k"
  by (simp add: pow10_def)

lemma pow10_nonneg [simp]: "0 \<le> pow10 k"
  by (rule less_imp_le [OF pow10_pos])

lemma dround_0 [simp]: "dround 0 = 0"
  by (simp add: dround_def)

lemma round_half_even_nonneg: "0 \<le> x \<Longrightarrow> 0 \<le> round_half_even x"
  by (auto simp: round_half_even_def Let_def)

lemma round_half_even_of_int [simp]: "round_half_even (of_int n) = n"
  by (simp add: round_half_even_def)

lemma round_half_even_error: "\<bar>of_int (round_half_even x) - x\<bar> \<le> 1 / 2"
  using floor_correct [of x]
  by (auto simp: round_half_even_def Let_def abs_le_iff field_simps)

lemma dround_nonneg: "0 \<le> x \<Longrightarrow> 0 \<le> dround x"
  by (auto simp: dround_def Let_def intro!: divide_nonneg_nonneg mult_nonneg_nonneg
      round_half_even_nonneg)

lemma dround_minus: "dround (- x) = - dround x"
  by (simp add: dround_def Let_def)

lemma dround_exact:
  assumes "\<bar>x\<bar> * pow10 (27 - adjusted \<bar>x\<bar>) = of_int n"
  shows "dround x = x"
proof (cases "x = 0")
  case False
  let ?p = "pow10 (27 - adjusted \<bar>x\<bar>)"
  have "dround x = sgn x * (\<bar>x\<bar> * ?p) / ?p"
    using False assms by (simp add: dround_def Let_def)
  also have "\<dots> = sgn x * \<bar>x\<bar>"
    using less_imp_neq [OF pow10_pos [of "27 - adjusted \<bar>x\<bar>"]] by simp
  finally show ?thesis by (simp add: sgn_mult_abs)
qed simp

lemma dadd_nonneg: "0 \<le> a \<Longrightarrow> 0 \<le> b \<Longrightarrow> 0 \<le> dadd a b"
  by (simp add: dadd_def dround_nonneg)

lemma dmul_nonneg: "0 \<le> a \<Longrightarrow> 0 \<le> b \<Longrightarrow> 0 \<le> dmul a b"
  by (simp add: dmul_def dround_nonneg)

lemma dsum_nonneg: "(\<And>x. x \<in> set xs \<Longrightarrow> 0 \<le> x) \<Longrightarrow> 0 \<le> dsum xs"
proof -
  have "0 \<le> a \<Longrightarrow> (\<And>x. x \<in> set xs \<Longrightarrow> 0 \<le> x) \<Longrightarrow> 0 \<le> foldl dadd a xs" for a
    by (induction xs arbitrary: a) (auto simp: dadd_nonneg)
  then show "(\<And>x. x \<in> set xs \<Longrightarrow> 0 \<le> x) \<Longrightarrow> 0 \<le> dsum xs"
    by (simp add: dsum_def)
qed

text \<open>The digit count, and with it the place of the leading digit, is right.\<close>

lemma ndigits_bounds: "0 < n \<Longrightarrow> 10 ^ (ndigits n - 1) \<le> n \<and> n < 10 ^ ndigits n"
proof (induction n rule: ndigits.induct)
  case (1 n)
  show ?case
  proof (cases "n < 10")
    case True
    with 1 show ?thesis by (simp add: ndigits.simps [of n])
  next
    case False
    then have IH: "10 ^ (ndigits (n div 10) - 1) \<le> n div 10" "n div 10 < 10 ^ ndigits (n div 10)"
      using 1 by auto
    have pos: "0 < ndigits (n div 10)" by (subst ndigits.simps) simp
    have "10 * 10 ^ (ndigits (n div 10) - 1) \<le> n" using IH(1) by linarith
    then have "10 ^ ndigits (n div 10) \<le> n"
      using pos by (metis Suc_diff_1 power_Suc)
    moreover have "n < 10 * 10 ^ ndigits (n div 10)" using IH(2) by linarith
    ultimately show ?thesis using False by (simp add: ndigits.simps [of n])
  qed
qed

text \<open>For evaluation the digits are counted on integers, which the kernel keeps in binary.\<close>

function int_digits :: "int \<Rightarrow> int" where
  "int_digits n = (if n < 10 then 1 else 1 + int_digits (n div 10))"
  by pat_completeness auto
termination by (relation "measure nat") auto

declare int_digits.simps [simp del, code]

lemma int_digits_ndigits: "int (ndigits (nat n)) = int_digits n"
proof (induction n rule: int_digits.induct)
  case (1 n)
  show ?case
    using 1 by (subst int_digits.simps, subst ndigits.simps) (auto simp: nat_div_distrib)
qed

lemma adjusted_code [code]:
  "adjusted x = (let (p, q) = quotient_of x; k = int_digits p - int_digits q
     in if pow10 k \<le> x then k else k - 1)"
  by (simp add: adjusted_def int_digits_ndigits)

end
