(* ===== verification/Market_Data.thy ===== *)
theory Market_Data
  imports Py_Decimal
begin

text \<open>
  src/src/quant_signal_agent/data/models.py and data/timeframes.py: the normalized market
  events, the checks their constructors make, and the candle intervals.

  A data class is a record; the constructor that runs a \<open>__post_init__\<close> check is the
  function \<open>mk_\<dots>\<close>, which raises or returns the record. Instants inside the records are
  aware, since every constructor that takes one checks it.
\<close>

section \<open>Enumerations\<close>

datatype exchange = BINANCE | BYBIT | HYPERLIQUID | OKX

datatype market_type = SPOT | LINEAR_PERPETUAL

datatype side = BUY | SELL

datatype quantity_unit = BASE_UNIT | QUOTE_UNIT | CONTRACTS_UNIT

datatype timestamp_quality = EXCHANGE_TIME | ESTIMATED | RECEIVE_ONLY

section \<open>Records\<close>

record instrument =
  exchange :: exchange
  market_type :: market_type
  exchange_symbol :: string
  canonical_symbol :: string
  base_asset :: string
  quote_asset :: string
  settlement_asset :: string

record event_metadata =
  md_instrument :: instrument
  exchange_timestamp :: datetime
  received_at :: datetime
  md_sequence_id :: "int option"
  timestamp_quality :: timestamp_quality

definition mk_event_metadata ::
  "instrument \<Rightarrow> pydatetime \<Rightarrow> pydatetime \<Rightarrow> int option \<Rightarrow> timestamp_quality \<Rightarrow> exn + event_metadata"
where
  "mk_event_metadata ins ex_ts recv seq q =
     (case require_aware ''exchange_timestamp'' ex_ts of
        Inl e \<Rightarrow> Inl e
      | Inr t \<Rightarrow>
          (case require_aware ''received_at'' recv of
             Inl e \<Rightarrow> Inl e
           | Inr r \<Rightarrow> Inr \<lparr>md_instrument = ins, exchange_timestamp = t, received_at = r,
               md_sequence_id = seq, timestamp_quality = q\<rparr>))"

record book_level =
  price :: decimal
  quantity :: decimal

definition mk_book_level :: "decimal \<Rightarrow> decimal \<Rightarrow> exn + book_level" where
  "mk_book_level p q =
     (if p \<le> 0 \<or> q < 0
      then Inl (ValueError ''Book price must be positive and quantity cannot be negative'')
      else Inr \<lparr>price = p, quantity = q\<rparr>)"

record ticker =
  tk_metadata :: event_metadata
  last_price :: "decimal option"
  mark_price :: "decimal option"
  index_price :: "decimal option"
  tk_mid_price :: "decimal option"
  tk_best_bid :: "decimal option"
  tk_best_ask :: "decimal option"
  base_volume_24h :: "decimal option"
  quote_volume_24h :: "decimal option"

record candle =
  cd_metadata :: event_metadata
  interval :: string
  open_time :: datetime
  close_time :: datetime
  c_open :: decimal
  high :: decimal
  low :: decimal
  close :: decimal
  base_volume :: decimal
  quote_volume :: "decimal option"
  is_closed :: bool
  taker_buy_base_volume :: "decimal option"
  taker_buy_quote_volume :: "decimal option"

text \<open>\<open>Candle.__post_init__\<close>, on a candle whose times have been checked already.\<close>

definition negative :: "decimal option \<Rightarrow> bool" where
  "negative v = (case v of None \<Rightarrow> False | Some x \<Rightarrow> x < 0)"

definition check_candle :: "candle \<Rightarrow> exn + candle" where
  "check_candle c =
     (if high c < max (c_open c) (close c) \<or> min (c_open c) (close c) < low c
      then Inl (ValueError ''Candle high/low does not contain open and close'')
      else if negative (taker_buy_base_volume c)
      then Inl (ValueError ''Taker-buy base volume cannot be negative'')
      else if negative (taker_buy_quote_volume c)
      then Inl (ValueError ''Taker-buy quote volume cannot be negative'')
      else Inr c)"

text \<open>The whole constructor: both times first, then the prices and volumes.\<close>

definition mk_candle :: "pydatetime \<Rightarrow> pydatetime \<Rightarrow> (datetime \<Rightarrow> datetime \<Rightarrow> candle) \<Rightarrow> exn + candle" where
  "mk_candle opened_at closed_at build =
     (case require_aware ''open_time'' opened_at of
        Inl e \<Rightarrow> Inl e
      | Inr a \<Rightarrow>
          (case require_aware ''close_time'' closed_at of
             Inl e \<Rightarrow> Inl e
           | Inr b \<Rightarrow> check_candle (build a b)))"

record trade =
  tr_metadata :: event_metadata
  trade_id :: string
  tr_price :: decimal
  tr_quantity :: decimal
  tr_side :: side
  quantity_unit :: quantity_unit

record order_book_snapshot =
  sn_metadata :: event_metadata
  sn_bids :: "book_level list"
  sn_asks :: "book_level list"
  sn_depth :: int

record order_book_delta =
  dl_metadata :: event_metadata
  dl_bids :: "book_level list"
  dl_asks :: "book_level list"
  first_sequence_id :: "int option"
  previous_sequence_id :: "int option"

record funding_rate =
  fr_metadata :: event_metadata
  rate :: decimal
  next_funding_at :: "datetime option"

record open_interest =
  oi_metadata :: event_metadata
  contracts :: decimal
  base_quantity :: "decimal option"
  quote_notional :: "decimal option"

datatype market_event =
    TickerEvent ticker
  | CandleEvent candle
  | TradeEvent trade
  | SnapshotEvent order_book_snapshot
  | DeltaEvent order_book_delta
  | FundingEvent funding_rate
  | OpenInterestEvent open_interest

fun event_meta :: "market_event \<Rightarrow> event_metadata" where
  "event_meta (TickerEvent e) = tk_metadata e"
| "event_meta (CandleEvent e) = cd_metadata e"
| "event_meta (TradeEvent e) = tr_metadata e"
| "event_meta (SnapshotEvent e) = sn_metadata e"
| "event_meta (DeltaEvent e) = dl_metadata e"
| "event_meta (FundingEvent e) = fr_metadata e"
| "event_meta (OpenInterestEvent e) = oi_metadata e"

definition event_instrument :: "market_event \<Rightarrow> instrument" where
  "event_instrument e = md_instrument (event_meta e)"

text \<open>What \<open>check_candle\<close> establishes.\<close>

definition candle_ok :: "candle \<Rightarrow> bool" where
  "candle_ok c \<longleftrightarrow> low c \<le> c_open c \<and> c_open c \<le> high c \<and> low c \<le> close c \<and> close c \<le> high c \<and>
     \<not> negative (taker_buy_base_volume c) \<and> \<not> negative (taker_buy_quote_volume c)"

lemma check_candle_iff: "check_candle c = Inr d \<longleftrightarrow> d = c \<and> candle_ok c"
  by (auto simp: check_candle_def candle_ok_def)

definition level_ok :: "book_level \<Rightarrow> bool" where
  "level_ok l \<longleftrightarrow> 0 < price l \<and> 0 \<le> quantity l"

lemma mk_book_level_iff:
  "mk_book_level p q = Inr l \<longleftrightarrow> l = \<lparr>price = p, quantity = q\<rparr> \<and> level_ok l"
  by (auto simp: mk_book_level_def level_ok_def)

section \<open>Candle intervals\<close>

definition CANDLE_INTERVAL_DURATIONS :: "(string \<times> timedelta) list" where
  "CANDLE_INTERVAL_DURATIONS =
     [(''5m'', seconds 300), (''15m'', seconds 900), (''1h'', seconds 3600), (''2h'', seconds 7200),
      (''4h'', seconds 14400), (''1d'', seconds 86400), (''1w'', seconds 604800)]"

definition interval_duration :: "string \<Rightarrow> exn + timedelta" where
  "interval_duration i = (case map_of CANDLE_INTERVAL_DURATIONS i of
       None \<Rightarrow> Inl (ValueError (''Unsupported candle interval: '' @ i))
     | Some d \<Rightarrow> Inr d)"

lemma interval_duration_pos: "interval_duration i = Inr d \<Longrightarrow> 0 < d"
  by (auto simp: interval_duration_def CANDLE_INTERVAL_DURATIONS_def seconds_def split: if_splits)

definition candle_close_boundary :: "candle \<Rightarrow> exn + datetime" where
  "candle_close_boundary c = (case interval_duration (interval c) of
       Inl e \<Rightarrow> Inl e | Inr d \<Rightarrow> Inr (dt_add (open_time c) d))"

text \<open>
  The generator inside \<open>sorted(...)\<close> evaluates \<open>candle_close_boundary\<close> only for closed
  candles of the interval asked for, for which \<open>interval_duration\<close> has already succeeded
  with \<open>duration\<close>; so it cannot raise there.
\<close>

definition eligible_candle :: "string \<Rightarrow> timedelta \<Rightarrow> datetime option \<Rightarrow> candle \<Rightarrow> bool" where
  "eligible_candle i duration ending c \<longleftrightarrow>
     is_closed c \<and> interval c = i \<and>
     (case ending of None \<Rightarrow> True | Some t \<Rightarrow> dt_add (open_time c) duration \<le> t)"

lemma eligible_boundary:
  "interval_duration i = Inr d \<Longrightarrow> interval c = i \<Longrightarrow>
     candle_close_boundary c = Inr (dt_add (open_time c) d)"
  by (simp add: candle_close_boundary_def)

fun contiguous :: "timedelta \<Rightarrow> candle list \<Rightarrow> bool" where
  "contiguous d (p # c # cs) = (dt_diff (open_time c) (open_time p) = d \<and> contiguous d (c # cs))"
| "contiguous d _ = True"

definition contiguous_closed_window ::
  "candle list \<Rightarrow> string \<Rightarrow> int \<Rightarrow> datetime option \<Rightarrow> exn + candle list"
where
  "contiguous_closed_window candles i sz ending =
     (if sz < 1 then Inl (ValueError ''Candle window size must be positive'')
      else case interval_duration i of
        Inl e \<Rightarrow> Inl e
      | Inr duration \<Rightarrow>
          (let eligible = sort_key open_time (filter (eligible_candle i duration ending) candles) in
           if int (length eligible) < sz then Inr []
           else let window = drop (length eligible - nat sz) eligible in
             if \<not> contiguous duration window then Inr [] else Inr window))"

text \<open>A contiguous list is determined by its first opening time.\<close>

lemma contiguous_nth:
  "contiguous d cs \<Longrightarrow> n < length cs \<Longrightarrow> us (open_time (cs ! n)) = us (open_time (hd cs)) + int n * d"
proof (induction d cs arbitrary: n rule: contiguous.induct)
  case (1 d p c cs)
  show ?case
  proof (cases n)
    case 0
    then show ?thesis by simp
  next
    case (Suc m)
    with 1 have "us (open_time ((c # cs) ! m)) = us (open_time c) + int m * d" by simp
    with 1 Suc show ?thesis by (simp add: dt_diff_def algebra_simps)
  qed
qed (auto simp: less_Suc_eq)

lemma window_members:
  assumes "contiguous_closed_window candles i sz ending = Inr w" and "c \<in> set w"
  shows "c \<in> set candles \<and> is_closed c \<and> interval c = i \<and>
    (\<forall>t d. ending = Some t \<and> interval_duration i = Inr d \<longrightarrow> dt_add (open_time c) d \<le> t)"
proof -
  have "c \<in> set (sort_key open_time (filter (eligible_candle i d ending) candles))"
    if "interval_duration i = Inr d" for d
    using assms that
    by (auto simp: contiguous_closed_window_def Let_def dest: in_set_dropD split: if_splits)
  moreover obtain d where "interval_duration i = Inr d"
    using assms(1) by (auto simp: contiguous_closed_window_def split: if_splits sum.splits)
  ultimately show ?thesis by (auto simp: eligible_candle_def split: option.splits)
qed

lemma window_shape:
  assumes "contiguous_closed_window candles i sz ending = Inr w" and "w \<noteq> []"
    and "interval_duration i = Inr d"
  shows "int (length w) = sz \<and> contiguous d w"
  using assms by (auto simp: contiguous_closed_window_def Let_def split: if_splits)

text \<open>
  The window returned is the most recent one: no eligible candle opens after its last.
\<close>

lemma window_latest:
  assumes "contiguous_closed_window candles i sz ending = Inr w" and "w \<noteq> []"
    and "interval_duration i = Inr d" and "c \<in> set candles" and "eligible_candle i d ending c"
  shows "open_time c \<le> open_time (last w)"
proof -
  let ?e = "sort_key open_time (filter (eligible_candle i d ending) candles)"
  have w: "w = drop (length ?e - nat sz) ?e" "nat sz \<le> length ?e" "0 < nat sz"
    using assms(1-3) by (auto simp: contiguous_closed_window_def Let_def split: if_splits)
  have "c \<in> set ?e" using assms(4,5) by simp
  then obtain n where n: "n < length ?e" "?e ! n = c" by (metis in_set_conv_nth)
  have ne: "?e \<noteq> []" using \<open>c \<in> set ?e\<close> by (metis empty_iff list.set(1))
  have "last w = last ?e" using w n by (simp add: last_drop del: sort_key_simps)
  also have "\<dots> = ?e ! (length ?e - 1)" using ne by (simp add: last_conv_nth)
  finally have l: "last w = ?e ! (length ?e - 1)" .
  have "sorted (map open_time ?e)" by simp
  then have "map open_time ?e ! n \<le> map open_time ?e ! (length ?e - 1)"
    using n by (intro sorted_nth_mono) auto
  with n l show ?thesis by (simp add: nth_map)
qed

end
