(* ===== verification/Order_Book.thy ===== *)
theory Order_Book
  imports Market_Data "HOL-Library.Product_Lexorder"
begin

text \<open>
  src/src/quant_signal_agent/state/order_book.py: the local order book that is rebuilt from
  a snapshot and the deltas that follow it, with the sequence rules of each venue, and the
  notional within a price range of its view.

  \<open>_bids\<close> and \<open>_asks\<close> are dictionaries from price to quantity. A method of the book is an
  \<open>eff\<close> on \<open>local_order_book\<close>; \<open>OrderBookOutOfSync\<close> is a \<open>RuntimeError\<close> whose message
  starts with \<open>out_of_sync_tag\<close> (the class itself, by which \<open>MarketState\<close> catches it).
\<close>

section \<open>State\<close>

record local_order_book =
  ob_instrument :: instrument
  depth :: nat
  bids :: "(decimal \<times> decimal) list"
  asks :: "(decimal \<times> decimal) list"
  sequence_id :: "int option"
  ob_exchange_timestamp :: "datetime option"
  updated_at :: "datetime option"
  is_synchronized :: bool
  generation :: int
  first_delta_after_snapshot :: bool

definition out_of_sync_tag :: string where
  "out_of_sync_tag = ''OrderBookOutOfSync: ''"

definition OrderBookOutOfSync :: "string \<Rightarrow> exn" where
  "OrderBookOutOfSync m = RuntimeError (out_of_sync_tag @ m)"

definition is_out_of_sync :: "exn \<Rightarrow> bool" where
  "is_out_of_sync e = (case e of RuntimeError m \<Rightarrow> str_startswith m out_of_sync_tag | _ \<Rightarrow> False)"

definition new_order_book :: "instrument \<Rightarrow> int \<Rightarrow> exn + local_order_book" where
  "new_order_book ins d =
     (if d < 1 then Inl (ValueError ''Order book depth must be positive'')
      else Inr \<lparr>ob_instrument = ins, depth = nat d, bids = [], asks = [], sequence_id = None,
        ob_exchange_timestamp = None, updated_at = None, is_synchronized = False, generation = 0,
        first_delta_after_snapshot = True\<rparr>)"

section \<open>Operations\<close>

definition require_instrument :: "instrument \<Rightarrow> (local_order_book, unit) eff" where
  "require_instrument ins =
     bindE (getE ob_instrument) (\<lambda>own.
       guardE (ins = own) (ValueError ''Order-book event belongs to a different instrument''))"

definition invalidate_book :: "(local_order_book, unit) eff" where
  "invalidate_book = modifyE (\<lambda>b.
     (if is_synchronized b then b\<lparr>generation := generation b + 1\<rparr> else b)\<lparr>is_synchronized := False\<rparr>)"

definition gap :: "string \<Rightarrow> (local_order_book, unit) eff" where
  "gap message = thenE invalidate_book (raise (OrderBookOutOfSync message))"

text \<open>\<open>{level.price: level.quantity for level in levels if level.quantity > 0}\<close>\<close>

definition levels_dict :: "book_level list \<Rightarrow> (decimal \<times> decimal) list" where
  "levels_dict ls = fold (\<lambda>l d. if 0 < quantity l then AList.update (price l) (quantity l) d else d) ls []"

fun apply_levels :: "(decimal \<times> decimal) list \<Rightarrow> book_level list \<Rightarrow> (decimal \<times> decimal) list" where
  "apply_levels target [] = target"
| "apply_levels target (l # ls) =
     apply_levels
       (if quantity l = 0 then AList.delete (price l) target
        else AList.update (price l) (quantity l) target) ls"

definition stale_snapshot :: "order_book_snapshot \<Rightarrow> local_order_book \<Rightarrow> bool" where
  "stale_snapshot snap b \<longleftrightarrow>
     is_synchronized b \<and>
     (case ob_exchange_timestamp b of
        None \<Rightarrow> False
      | Some t \<Rightarrow>
          exchange_timestamp (sn_metadata snap) < t \<or>
          exchange_timestamp (sn_metadata snap) = t \<and>
          md_sequence_id (sn_metadata snap) = sequence_id b)"

definition apply_snapshot :: "order_book_snapshot \<Rightarrow> bool \<Rightarrow> (local_order_book, bool) eff" where
  "apply_snapshot snap require_delta_bridge =
     thenE (require_instrument (md_instrument (sn_metadata snap)))
    (bindE (getE (stale_snapshot snap)) (\<lambda>stale.
     if stale then ret False
     else thenE (modifyE (\<lambda>b. b\<lparr>
         bids := levels_dict (sn_bids snap),
         asks := levels_dict (sn_asks snap),
         sequence_id := md_sequence_id (sn_metadata snap),
         ob_exchange_timestamp := Some (exchange_timestamp (sn_metadata snap)),
         updated_at := Some (received_at (sn_metadata snap)),
         is_synchronized := (md_sequence_id (sn_metadata snap) \<noteq> None \<and> \<not> require_delta_bridge),
         first_delta_after_snapshot := True\<rparr>))
       (ret True)))"

definition str_of_opt_int :: "int option \<Rightarrow> string" where
  "str_of_opt_int x = (case x of None \<Rightarrow> ''None'' | Some i \<Rightarrow> str_of_int i)"

definition require_previous_sequence :: "order_book_delta \<Rightarrow> (local_order_book, unit) eff" where
  "require_previous_sequence delta =
     bindE (getE sequence_id) (\<lambda>seq.
       if previous_sequence_id delta \<noteq> seq
       then gap (''Expected previous sequence '' @ str_of_opt_int seq @ '', received '' @
              str_of_opt_int (previous_sequence_id delta))
       else ret ())"

text \<open>\<open>delta.first_sequence_id or final_sequence\<close>: an identifier 0 is false as well.\<close>

definition first_or_final :: "order_book_delta \<Rightarrow> int \<Rightarrow> int" where
  "first_or_final delta final =
     (case first_sequence_id delta of None \<Rightarrow> final | Some f \<Rightarrow> if f = 0 then final else f)"

text \<open>The book's sequence \<open>seq\<close> is known here (\<open>assert self.sequence_id is not None\<close>).\<close>

definition validate_binance :: "order_book_delta \<Rightarrow> int \<Rightarrow> int \<Rightarrow> (local_order_book, bool) eff" where
  "validate_binance delta final seq =
     bindE (getE (\<lambda>b. (first_delta_after_snapshot b, market_type (ob_instrument b)))) (\<lambda>(first, mt).
     let first_sequence = first_or_final delta final in
     if first then
       (if mt = LINEAR_PERPETUAL \<and> final < seq \<or> mt = SPOT \<and> final \<le> seq then ret False
        else
          (let bridge = (if mt = LINEAR_PERPETUAL then seq else seq + 1) in
           if first_sequence \<le> bridge \<and> bridge \<le> final then ret True
           else thenE (gap (''Binance first delta '' @ str_of_int first_sequence @ ''-'' @
                  str_of_int final @ '' does not bridge snapshot '' @ str_of_int seq)) (ret True)))
     else if final \<le> seq then ret False
     else if previous_sequence_id delta \<noteq> None then
       thenE (require_previous_sequence delta) (ret True)
     else if first_sequence \<le> seq + 1 \<and> seq + 1 \<le> final then ret True
     else thenE (gap (''Binance delta '' @ str_of_int first_sequence @ ''-'' @ str_of_int final @
            '' does not follow sequence '' @ str_of_int seq)) (ret True))"

text \<open>The venue's rule: \<open>False\<close> for a delta to skip, an exception for a gap.\<close>

definition venue_accepts :: "order_book_delta \<Rightarrow> int \<Rightarrow> int \<Rightarrow> (local_order_book, bool) eff" where
  "venue_accepts delta final seq =
     bindE (getE (\<lambda>b. exchange (ob_instrument b))) (\<lambda>venue.
       if venue = BINANCE then validate_binance delta final seq
       else if venue = OKX then
         (if final = seq then ret False
          else thenE (require_previous_sequence delta) (ret True))
       else if final \<le> seq then ret False
       else ret True)"

definition apply_delta :: "order_book_delta \<Rightarrow> (local_order_book, bool) eff" where
  "apply_delta delta =
     thenE (require_instrument (md_instrument (dl_metadata delta)))
    (bindE (getE (\<lambda>b. b)) (\<lambda>b.
     case sequence_id b of
       None \<Rightarrow> raise (OrderBookOutOfSync
         (''No synchronized snapshot for '' @ exchange_symbol (ob_instrument b)))
     | Some seq \<Rightarrow>
        if \<not> is_synchronized b \<and> \<not> first_delta_after_snapshot b
        then raise (OrderBookOutOfSync
          (''No synchronized snapshot for '' @ exchange_symbol (ob_instrument b)))
        else (case md_sequence_id (dl_metadata delta) of
          None \<Rightarrow> thenE invalidate_book
            (raise (OrderBookOutOfSync ''Order-book delta has no final sequence ID''))
        | Some final \<Rightarrow>
          bindE (venue_accepts delta final seq) (\<lambda>accepted.
          if \<not> accepted then ret False
          else thenE (modifyE (\<lambda>b. b\<lparr>
              bids := apply_levels (bids b) (dl_bids delta),
              asks := apply_levels (asks b) (dl_asks delta),
              sequence_id := Some final,
              ob_exchange_timestamp := Some (exchange_timestamp (dl_metadata delta)),
              updated_at := Some (received_at (dl_metadata delta)),
              is_synchronized := True,
              first_delta_after_snapshot := False\<rparr>))
            (ret True)))))"

section \<open>Views\<close>

record order_book_view =
  ov_instrument :: instrument
  ov_bids :: "book_level list"
  ov_asks :: "book_level list"
  ov_sequence_id :: "int option"
  ov_exchange_timestamp :: "datetime option"
  ov_updated_at :: "datetime option"
  ov_is_synchronized :: bool
  ov_generation :: int

text \<open>
  \<open>BookLevel(price, quantity)\<close> re-checks a level that was a \<open>BookLevel\<close> when it was
  stored; \<open>book_ok_levels\<close> below shows that the check cannot fail.
\<close>

definition level_of :: "decimal \<times> decimal \<Rightarrow> book_level" where
  "level_of pq = \<lparr>price = fst pq, quantity = snd pq\<rparr>"

definition view :: "local_order_book \<Rightarrow> order_book_view" where
  "view b = \<lparr>ov_instrument = ob_instrument b,
     ov_bids = map level_of (take (depth b) (rev (sort (bids b)))),
     ov_asks = map level_of (take (depth b) (sort (asks b))),
     ov_sequence_id = sequence_id b, ov_exchange_timestamp = ob_exchange_timestamp b,
     ov_updated_at = updated_at b, ov_is_synchronized = is_synchronized b,
     ov_generation = generation b\<rparr>"

definition best_bid :: "order_book_view \<Rightarrow> book_level option" where
  "best_bid v = (case ov_bids v of [] \<Rightarrow> None | l # _ \<Rightarrow> Some l)"

definition best_ask :: "order_book_view \<Rightarrow> book_level option" where
  "best_ask v = (case ov_asks v of [] \<Rightarrow> None | l # _ \<Rightarrow> Some l)"

record order_book_range_notional =
  range_percent :: decimal
  mid_price :: "decimal option"
  bid_notional :: decimal
  ask_notional :: decimal
  is_fully_covered :: bool

definition unavailable :: "decimal \<Rightarrow> order_book_range_notional" where
  "unavailable pct = \<lparr>range_percent = pct, mid_price = None, bid_notional = 0, ask_notional = 0,
     is_fully_covered = False\<rparr>"

definition total_notional :: "order_book_range_notional \<Rightarrow> decimal" where
  "total_notional r = dadd (bid_notional r) (ask_notional r)"

definition level_notional :: "book_level \<Rightarrow> decimal" where
  "level_notional l = dmul (price l) (quantity l)"

definition notional_within_range ::
  "order_book_view \<Rightarrow> decimal \<Rightarrow> exn + order_book_range_notional"
where
  "notional_within_range v pct =
     (if pct \<le> 0 \<or> 100 \<le> pct
      then Inl (ValueError ''Order-book range percent must be between 0 and 100'')
      else case (best_bid v, best_ask v) of
        (Some bid, Some ask) \<Rightarrow>
          (let mid = ddiv (dadd (price bid) (price ask)) 2;
               fraction = ddiv pct 100;
               bid_floor = dmul mid (dsub 1 fraction);
               ask_ceiling = dmul mid (dadd 1 fraction)
           in Inr \<lparr>range_percent = pct, mid_price = Some mid,
                bid_notional = dsum (map level_notional
                  (filter (\<lambda>l. bid_floor \<le> price l) (ov_bids v))),
                ask_notional = dsum (map level_notional
                  (filter (\<lambda>l. price l \<le> ask_ceiling) (ov_asks v))),
                is_fully_covered = (ov_is_synchronized v \<and> price (last (ov_bids v)) \<le> bid_floor \<and>
                  ask_ceiling \<le> price (last (ov_asks v)))\<rparr>)
      | _ \<Rightarrow> Inr (unavailable pct))"

section \<open>What the book's dictionaries hold\<close>

text \<open>
  The book holds one positive quantity for each price it knows: at most one entry per
  price, positive prices, and no zero quantity once zero levels have been removed.
\<close>

definition side_ok :: "(decimal \<times> decimal) list \<Rightarrow> bool" where
  "side_ok d \<longleftrightarrow> distinct (map fst d) \<and> (\<forall>(p, q) \<in> set d. 0 < p \<and> 0 < q)"

definition book_ok :: "local_order_book \<Rightarrow> bool" where
  "book_ok b \<longleftrightarrow> side_ok (bids b) \<and> side_ok (asks b) \<and> 0 < depth b \<and>
     (is_synchronized b \<longrightarrow> sequence_id b \<noteq> None) \<and> 0 \<le> generation b"

lemma side_ok_update: "side_ok d \<Longrightarrow> level_ok l \<Longrightarrow> quantity l \<noteq> 0 \<Longrightarrow>
    side_ok (AList.update (price l) (quantity l) d)"
  by (auto simp: side_ok_def level_ok_def alist_distinct_update alist_set_update)

lemma alist_set_delete: "set (AList.delete k d) = {p \<in> set d. fst p \<noteq> k}"
  by (induction d) auto

lemma side_ok_delete: "side_ok d \<Longrightarrow> side_ok (AList.delete p d)"
  by (auto simp: side_ok_def alist_set_delete distinct_delete)

lemma side_ok_levels_dict: "\<forall>l \<in> set ls. level_ok l \<Longrightarrow> side_ok (levels_dict ls)"
proof -
  have "side_ok d \<Longrightarrow> \<forall>l \<in> set ls. level_ok l \<Longrightarrow>
      side_ok (fold (\<lambda>l d. if 0 < quantity l then AList.update (price l) (quantity l) d else d) ls d)" for d
    by (induction ls arbitrary: d) (auto simp: side_ok_update)
  moreover have "side_ok []" by (simp add: side_ok_def)
  ultimately show "\<forall>l \<in> set ls. level_ok l \<Longrightarrow> side_ok (levels_dict ls)"
    by (simp add: levels_dict_def)
qed

lemma side_ok_apply_levels:
  "side_ok d \<Longrightarrow> \<forall>l \<in> set ls. level_ok l \<Longrightarrow> side_ok (apply_levels d ls)"
  by (induction ls arbitrary: d) (auto simp: side_ok_update side_ok_delete)

text \<open>The dictionaries as maps: absolute quantities, the last level for a price decides.\<close>

fun net :: "book_level list \<Rightarrow> decimal \<Rightarrow> decimal option" where
  "net [] p = None"
| "net (l # ls) p = (case net ls p of Some q \<Rightarrow> Some q
     | None \<Rightarrow> if price l = p then Some (quantity l) else None)"

lemma apply_levels_map:
  "map_of (apply_levels d ls) p = (case net ls p of
       None \<Rightarrow> map_of d p | Some q \<Rightarrow> if q = 0 then None else Some q)"
  by (induction ls arbitrary: d) (auto simp: update_conv delete_conv split: option.splits)

section \<open>The invariant\<close>

definition delta_ok :: "order_book_delta \<Rightarrow> bool" where
  "delta_ok d \<longleftrightarrow> (\<forall>l \<in> set (dl_bids d) \<union> set (dl_asks d). level_ok l)"

definition snapshot_ok :: "order_book_snapshot \<Rightarrow> bool" where
  "snapshot_ok d \<longleftrightarrow> (\<forall>l \<in> set (sn_bids d) \<union> set (sn_asks d). level_ok l)"

lemma new_order_book_ok: "new_order_book ins d = Inr b \<Longrightarrow> book_ok b"
  by (auto simp: new_order_book_def book_ok_def side_ok_def split: if_splits)

lemma invalidate_book_run:
  "invalidate_book b = (Inr (), b\<lparr>generation := (if is_synchronized b then generation b + 1 else generation b),
     is_synchronized := False\<rparr>)"
  by (simp add: invalidate_book_def modifyE_def)

lemma wp_invalidate [wp_rules]:
  "wp invalidate_book Q E b = Q () (b\<lparr>generation := (if is_synchronized b then generation b + 1
     else generation b), is_synchronized := False\<rparr>)"
  by (simp add: wp_def invalidate_book_run)

lemma keeps_invalidate_book: "keeps book_ok invalidate_book"
  by (simp add: keeps_def invalidate_book_run book_ok_def)

lemma keeps_apply_snapshot: "snapshot_ok snap \<Longrightarrow> keeps book_ok (apply_snapshot snap bridge)"
  unfolding apply_snapshot_def require_instrument_def keeps_wp
  by (auto simp: wp_rules book_ok_def snapshot_ok_def intro!: side_ok_levels_dict)

lemma keeps_gap: "keeps book_ok (gap m)"
  unfolding gap_def by (intro keeps_rules keeps_invalidate_book)

lemma keeps_require_previous: "keeps book_ok (require_previous_sequence d)"
  unfolding require_previous_sequence_def by (intro keeps_rules keeps_gap)

lemma keeps_validate_binance: "keeps book_ok (validate_binance d final seq)"
  unfolding validate_binance_def Let_def
  by (intro keeps_rules keeps_gap keeps_require_previous)

lemma keeps_venue_accepts: "keeps book_ok (venue_accepts d final seq)"
  unfolding venue_accepts_def
  by (intro keeps_rules keeps_gap keeps_require_previous keeps_validate_binance)

lemma keeps_store_delta:
  "delta_ok delta \<Longrightarrow> keeps book_ok (modifyE (\<lambda>b. b\<lparr>
     bids := apply_levels (bids b) (dl_bids delta), asks := apply_levels (asks b) (dl_asks delta),
     sequence_id := Some final, ob_exchange_timestamp := ts, updated_at := u,
     is_synchronized := True, first_delta_after_snapshot := False\<rparr>))"
  by (auto simp: keeps_wp wp_rules book_ok_def delta_ok_def intro!: side_ok_apply_levels)

lemma keeps_apply_delta: "delta_ok delta \<Longrightarrow> keeps book_ok (apply_delta delta)"
  unfolding apply_delta_def require_instrument_def
  by (intro keeps_rules keeps_invalidate_book keeps_venue_accepts keeps_store_delta)

section \<open>Views of a well-formed book\<close>

lemma sort_items_strict:
  "distinct (map fst d) \<Longrightarrow> sorted_wrt (<) (map fst (sort (d :: (decimal \<times> decimal) list)))"
proof -
  assume d: "distinct (map fst d)"
  have "distinct (map fst (sort d))" using d by (simp add: distinct_map)
  moreover have "sorted (map fst (sort d))"
  proof -
    have "sorted (sort d)" by simp
    then have "sorted_wrt (\<lambda>x y. fst x \<le> fst y) (sort d)"
      by (rule sorted_wrt_mono_rel [rotated]) (auto simp: less_eq_prod_def)
    then show ?thesis by (simp add: sorted_map)
  qed
  ultimately show ?thesis by (simp add: strict_sorted_iff)
qed

lemma take_sorted_wrt: "sorted_wrt R xs \<Longrightarrow> sorted_wrt R (take n xs)"
  by (rule sorted_wrt_take)

lemma price_level_of [simp]: "price (level_of pq) = fst pq" "quantity (level_of pq) = snd pq"
  by (simp_all add: level_of_def)

lemma view_bids_sorted: "book_ok b \<Longrightarrow> sorted_wrt (\<lambda>k l. price l < price k) (ov_bids (view b))"
proof -
  assume "book_ok b"
  then have "sorted_wrt (<) (map fst (sort (bids b)))"
    by (intro sort_items_strict) (simp add: book_ok_def side_ok_def)
  then have "sorted_wrt (\<lambda>x y. fst y < fst x) (rev (sort (bids b)))"
    by (simp add: sorted_wrt_rev sorted_wrt_map)
  then show ?thesis by (simp add: view_def sorted_wrt_map take_sorted_wrt)
qed

lemma view_asks_sorted: "book_ok b \<Longrightarrow> sorted_wrt (\<lambda>k l. price k < price l) (ov_asks (view b))"
proof -
  assume "book_ok b"
  then have "sorted_wrt (<) (map fst (sort (asks b)))"
    by (intro sort_items_strict) (simp add: book_ok_def side_ok_def)
  then have "sorted_wrt (\<lambda>x y. fst x < fst y) (sort (asks b))" by (simp add: sorted_wrt_map)
  then show ?thesis by (simp add: view_def sorted_wrt_map take_sorted_wrt)
qed

lemma view_levels:
  "l \<in> set (ov_bids (view b)) \<Longrightarrow> (price l, quantity l) \<in> set (bids b)"
  "l \<in> set (ov_asks (view b)) \<Longrightarrow> (price l, quantity l) \<in> set (asks b)"
  by (auto simp: view_def dest!: in_set_takeD)

lemma book_ok_levels:
  "book_ok b \<Longrightarrow> l \<in> set (ov_bids (view b)) \<union> set (ov_asks (view b)) \<Longrightarrow>
     mk_book_level (price l) (quantity l) = Inr l"
  by (cases l) (auto simp: mk_book_level_iff level_ok_def book_ok_def side_ok_def less_imp_le
      dest!: view_levels)

text \<open>
  The best \<open>depth\<close> levels: whatever the view leaves out is worse than what it shows.
\<close>

lemma sorted_take_drop:
  "sorted_wrt R xs \<Longrightarrow> x \<in> set (take n xs) \<Longrightarrow> y \<in> set xs \<Longrightarrow> y \<notin> set (take n xs) \<Longrightarrow> R x y"
  by (metis Un_iff append_take_drop_id set_append sorted_wrt_append)

lemma view_best_bids:
  assumes "book_ok b" and "(p, q) \<in> set (bids b)" and "level_of (p, q) \<notin> set (ov_bids (view b))"
    and "l \<in> set (ov_bids (view b))"
  shows "p < price l"
proof -
  let ?xs = "rev (sort (bids b))"
  have "sorted_wrt (<) (map fst (sort (bids b)))"
    using assms(1) by (intro sort_items_strict) (simp add: book_ok_def side_ok_def)
  then have srt: "sorted_wrt (\<lambda>x y. fst y < fst x) ?xs"
    by (simp add: sorted_wrt_rev sorted_wrt_map)
  obtain x where x: "x \<in> set (take (depth b) ?xs)" "l = level_of x"
    using assms(4) by (auto simp: view_def)
  have "(p, q) \<notin> set (take (depth b) ?xs)" using assms(3) by (auto simp: view_def)
  with sorted_take_drop [OF srt x(1), of "(p, q)"] assms(2) x(2) show ?thesis by simp
qed

lemma view_best_asks:
  assumes "book_ok b" and "(p, q) \<in> set (asks b)" and "level_of (p, q) \<notin> set (ov_asks (view b))"
    and "l \<in> set (ov_asks (view b))"
  shows "price l < p"
proof -
  let ?xs = "sort (asks b)"
  have "sorted_wrt (<) (map fst ?xs)"
    using assms(1) by (intro sort_items_strict) (simp add: book_ok_def side_ok_def)
  then have srt: "sorted_wrt (\<lambda>x y. fst x < fst y) ?xs" by (simp add: sorted_wrt_map)
  obtain x where x: "x \<in> set (take (depth b) ?xs)" "l = level_of x"
    using assms(4) by (auto simp: view_def)
  have "(p, q) \<notin> set (take (depth b) ?xs)" using assms(3) by (auto simp: view_def)
  with sorted_take_drop [OF srt x(1), of "(p, q)"] assms(2) x(2) show ?thesis by simp
qed

section \<open>Exact outcomes of the sequence checks\<close>

text \<open>
  A pure description of the venue's rule: the delta is skipped, applied, or a gap.
\<close>

datatype verdict = Skip | Accept | Gap

definition previous_matches :: "order_book_delta \<Rightarrow> int \<Rightarrow> bool" where
  "previous_matches delta seq \<longleftrightarrow> previous_sequence_id delta = Some seq"

definition verdict_of :: "exchange \<Rightarrow> market_type \<Rightarrow> bool \<Rightarrow> order_book_delta \<Rightarrow> int \<Rightarrow> int \<Rightarrow> verdict" where
  "verdict_of venue mt first delta final seq =
     (let first_sequence = first_or_final delta final in
      case venue of
        BINANCE \<Rightarrow>
          if first then
            (let bridge = (if mt = LINEAR_PERPETUAL then seq else seq + 1) in
             if final < bridge then Skip
             else if first_sequence \<le> bridge then Accept else Gap)
          else if final \<le> seq then Skip
          else if previous_sequence_id delta \<noteq> None
            then (if previous_matches delta seq then Accept else Gap)
          else if first_sequence \<le> seq + 1 then Accept else Gap
      | OKX \<Rightarrow> if final = seq then Skip else if previous_matches delta seq then Accept else Gap
      | _ \<Rightarrow> if final \<le> seq then Skip else Accept)"

lemma wp_gap [wp_rules]:
  "wp (gap m) Q E b = E (OrderBookOutOfSync m) (b\<lparr>generation := (if is_synchronized b
     then generation b + 1 else generation b), is_synchronized := False\<rparr>)"
  by (simp add: gap_def wp_rules)

definition desync :: "local_order_book \<Rightarrow> local_order_book" where
  "desync b = b\<lparr>generation := (if is_synchronized b then generation b + 1 else generation b),
     is_synchronized := False\<rparr>"

definition store_delta :: "order_book_delta \<Rightarrow> int \<Rightarrow> local_order_book \<Rightarrow> local_order_book" where
  "store_delta delta final b = b\<lparr>
     bids := apply_levels (bids b) (dl_bids delta), asks := apply_levels (asks b) (dl_asks delta),
     sequence_id := Some final,
     ob_exchange_timestamp := Some (exchange_timestamp (dl_metadata delta)),
     updated_at := Some (received_at (dl_metadata delta)),
     is_synchronized := True, first_delta_after_snapshot := False\<rparr>"

lemma gap_run: "gap m b = (Inl (OrderBookOutOfSync m), desync b)"
  by (simp add: gap_def thenE_def bindE_def raise_def invalidate_book_run desync_def)

lemma venue_accepts_verdict:
  assumes "sequence_id b = Some seq"
  shows "case verdict_of (exchange (ob_instrument b)) (market_type (ob_instrument b))
      (first_delta_after_snapshot b) delta final seq of
    Skip \<Rightarrow> venue_accepts delta final seq b = (Inr False, b)
  | Accept \<Rightarrow> venue_accepts delta final seq b = (Inr True, b)
  | Gap \<Rightarrow> \<exists>m. venue_accepts delta final seq b = (Inl (OrderBookOutOfSync m), desync b)"
  using assms
  by (cases "market_type (ob_instrument b)")
     (auto simp: verdict_of_def venue_accepts_def validate_binance_def require_previous_sequence_def
        previous_matches_def Let_def bindE_def thenE_def getE_def ret_def gap_run
        split: exchange.split)

text \<open>
  The outcome of \<open>apply_delta\<close> on every branch, over the book's state.
\<close>

lemma apply_delta_cases:
  assumes "md_instrument (dl_metadata delta) = ob_instrument b"
  shows "case sequence_id b of
      None \<Rightarrow> \<exists>m. apply_delta delta b = (Inl (OrderBookOutOfSync m), b)
    | Some seq \<Rightarrow>
        if \<not> is_synchronized b \<and> \<not> first_delta_after_snapshot b
        then \<exists>m. apply_delta delta b = (Inl (OrderBookOutOfSync m), b)
        else (case md_sequence_id (dl_metadata delta) of
          None \<Rightarrow> \<exists>m. apply_delta delta b = (Inl (OrderBookOutOfSync m), desync b)
        | Some final \<Rightarrow>
            (case verdict_of (exchange (ob_instrument b)) (market_type (ob_instrument b))
                (first_delta_after_snapshot b) delta final seq of
              Skip \<Rightarrow> apply_delta delta b = (Inr False, b)
            | Accept \<Rightarrow> apply_delta delta b = (Inr True, store_delta delta final b)
            | Gap \<Rightarrow> \<exists>m. apply_delta delta b = (Inl (OrderBookOutOfSync m), desync b)))"
proof (cases "sequence_id b")
  case None
  with assms show ?thesis
    by (auto simp: apply_delta_def require_instrument_def eff_defs)
next
  case (Some seq)
  show ?thesis
  proof (cases "md_sequence_id (dl_metadata delta)")
    case None
    with assms Some show ?thesis
      by (auto simp: apply_delta_def require_instrument_def bindE_def thenE_def getE_def guardE_def
          ret_def raise_def invalidate_book_run desync_def)
  next
    case (Some final)
    with assms \<open>sequence_id b = Some seq\<close> venue_accepts_verdict [OF \<open>sequence_id b = Some seq\<close>, of delta final]
    show ?thesis
      by (auto simp: apply_delta_def require_instrument_def bindE_def thenE_def getE_def guardE_def
          ret_def raise_def modifyE_def store_delta_def split: verdict.splits)
  qed
qed

end
