(* ===== verification/Order_Book_Tracking.thy ===== *)
theory Order_Book_Tracking
  imports Order_Book
begin

text \<open>
  The local book against the venue's own book. The venue's book is a function from a
  sequence number to the levels at that number (\<open>Sb\<close> the bids, \<open>Sa\<close> the asks). A message
  is faithful when it says about the venue's book what the venues document: a snapshot is
  the book at its number, and a delta, applied anywhere in the range it covers, gives the
  book at its final number. Messages may arrive in any order, twice or not at all.
\<close>

type_synonym book_map = "decimal \<Rightarrow> decimal option"

definition covers :: "(int \<Rightarrow> book_map) \<Rightarrow> book_level list \<Rightarrow> int \<Rightarrow> int \<Rightarrow> bool" where
  "covers S ls base final \<longleftrightarrow> (\<forall>p. S final p = (case net ls p of
       None \<Rightarrow> S base p | Some q \<Rightarrow> if q = 0 then None else Some q))"

definition faithful_delta :: "(int \<Rightarrow> book_map) \<Rightarrow> (int \<Rightarrow> book_map) \<Rightarrow> order_book_delta \<Rightarrow> bool" where
  "faithful_delta Sb Sa d \<longleftrightarrow>
     (\<forall>final. md_sequence_id (dl_metadata d) = Some final \<longrightarrow>
        (\<forall>base. first_or_final d final - 1 \<le> base \<and> base \<le> final \<longrightarrow>
           covers Sb (dl_bids d) base final \<and> covers Sa (dl_asks d) base final) \<and>
        (\<forall>prev. previous_sequence_id d = Some prev \<longrightarrow>
           covers Sb (dl_bids d) prev final \<and> covers Sa (dl_asks d) prev final))"

definition faithful_snapshot ::
  "(int \<Rightarrow> book_map) \<Rightarrow> (int \<Rightarrow> book_map) \<Rightarrow> order_book_snapshot \<Rightarrow> bool"
where
  "faithful_snapshot Sb Sa s \<longleftrightarrow>
     (\<forall>q. md_sequence_id (sn_metadata s) = Some q \<longrightarrow>
        map_of (levels_dict (sn_bids s)) = Sb q \<and> map_of (levels_dict (sn_asks s)) = Sa q)"

text \<open>
  The messages a book may be given: a snapshot, a delta, and the invalidation that
  \<open>MarketState\<close> adds when a delta raised or a stream is replaced.
\<close>

datatype book_message = BookSnapshot order_book_snapshot bool | BookDelta order_book_delta | BookInvalidate

fun deliver :: "book_message \<Rightarrow> local_order_book \<Rightarrow> local_order_book" where
  "deliver (BookSnapshot s bridge) b = snd (apply_snapshot s bridge b)"
| "deliver (BookDelta d) b = snd (apply_delta d b)"
| "deliver BookInvalidate b = snd (invalidate_book b)"

fun faithful :: "(int \<Rightarrow> book_map) \<Rightarrow> (int \<Rightarrow> book_map) \<Rightarrow> book_message \<Rightarrow> bool" where
  "faithful Sb Sa (BookSnapshot s bridge) = faithful_snapshot Sb Sa s"
| "faithful Sb Sa (BookDelta d) = faithful_delta Sb Sa d"
| "faithful Sb Sa BookInvalidate = True"

definition at_sequence :: "(int \<Rightarrow> book_map) \<Rightarrow> (int \<Rightarrow> book_map) \<Rightarrow> local_order_book \<Rightarrow> int \<Rightarrow> bool" where
  "at_sequence Sb Sa b seq \<longleftrightarrow> map_of (bids b) = Sb seq \<and> map_of (asks b) = Sa seq"

text \<open>A synchronized book, or one that still waits for its first delta, is at its number.\<close>

definition tracks :: "(int \<Rightarrow> book_map) \<Rightarrow> (int \<Rightarrow> book_map) \<Rightarrow> local_order_book \<Rightarrow> bool" where
  "tracks Sb Sa b \<longleftrightarrow>
     (is_synchronized b \<longrightarrow> sequence_id b \<noteq> None) \<and>
     (\<forall>seq. sequence_id b = Some seq \<and> (is_synchronized b \<or> first_delta_after_snapshot b) \<longrightarrow>
        at_sequence Sb Sa b seq)"

definition checked_venue :: "instrument \<Rightarrow> bool" where
  "checked_venue ins \<longleftrightarrow> exchange ins \<in> {BINANCE, OKX}"

lemma store_delta_at:
  assumes "at_sequence Sb Sa b seq" and "covers Sb (dl_bids d) seq final" and "covers Sa (dl_asks d) seq final"
  shows "at_sequence Sb Sa (store_delta d final b) final"
  using assms
  by (simp add: at_sequence_def store_delta_def covers_def apply_levels_map fun_eq_iff
      cong: option.case_cong)

lemma accept_covers:
  assumes "faithful_delta Sb Sa d" and "md_sequence_id (dl_metadata d) = Some final"
    and "checked_venue ins" and "verdict_of (exchange ins) mt first d final seq = Accept"
  shows "covers Sb (dl_bids d) seq final \<and> covers Sa (dl_asks d) seq final"
  using assms
  by (auto simp: faithful_delta_def checked_venue_def verdict_of_def previous_matches_def Let_def
      split: if_splits)

lemma tracks_desync: "tracks Sb Sa b \<Longrightarrow> tracks Sb Sa (desync b)"
  by (auto simp: tracks_def desync_def at_sequence_def)

lemma tracks_delta:
  assumes "tracks Sb Sa b" and "checked_venue (ob_instrument b)" and "faithful_delta Sb Sa d"
  shows "tracks Sb Sa (snd (apply_delta d b))"
proof (cases "md_instrument (dl_metadata d) = ob_instrument b")
  case False
  then have "snd (apply_delta d b) = b"
    by (simp add: apply_delta_def require_instrument_def eff_defs)
  with assms(1) show ?thesis by simp
next
  case same: True
  show ?thesis
  proof (cases "sequence_id b")
    case None
    with apply_delta_cases [OF same] assms(1) show ?thesis by auto
  next
    case (Some seq)
    show ?thesis
    proof (cases "\<not> is_synchronized b \<and> \<not> first_delta_after_snapshot b")
      case True
      with apply_delta_cases [OF same] assms(1) Some show ?thesis by auto
    next
      case live: False
      then have at: "at_sequence Sb Sa b seq" using assms(1) Some by (auto simp: tracks_def)
      show ?thesis
      proof (cases "md_sequence_id (dl_metadata d)")
        case None
        with apply_delta_cases [OF same] Some live tracks_desync [OF assms(1)] show ?thesis by auto
      next
        case final: (Some final)
        let ?v = "verdict_of (exchange (ob_instrument b)) (market_type (ob_instrument b))
          (first_delta_after_snapshot b) d final seq"
        show ?thesis
        proof (cases ?v)
          case Accept
          with accept_covers [OF assms(3) final assms(2)]
          have "at_sequence Sb Sa (store_delta d final b) final"
            using store_delta_at [OF at] by blast
          then have "tracks Sb Sa (store_delta d final b)" by (simp add: tracks_def store_delta_def)
          with apply_delta_cases [OF same] Some live final Accept show ?thesis by auto
        qed (use apply_delta_cases [OF same] Some live final tracks_desync [OF assms(1)] assms(1)
            in \<open>auto\<close>)
      qed
    qed
  qed
qed

lemma tracks_snapshot:
  assumes "tracks Sb Sa b" and "faithful_snapshot Sb Sa s"
  shows "tracks Sb Sa (snd (apply_snapshot s bridge b))"
  using assms
  by (auto simp: apply_snapshot_def require_instrument_def eff_defs tracks_def faithful_snapshot_def
      at_sequence_def)

lemma tracks_deliver:
  assumes "tracks Sb Sa b" and "checked_venue (ob_instrument b)" and "faithful Sb Sa m"
  shows "tracks Sb Sa (deliver m b)"
proof (cases m)
  case BookInvalidate
  with tracks_desync [OF assms(1)] show ?thesis by (simp add: invalidate_book_run desync_def)
qed (use assms in \<open>simp_all add: tracks_snapshot tracks_delta\<close>)

text \<open>No operation replaces the instrument.\<close>

definition of_instrument :: "instrument \<Rightarrow> local_order_book \<Rightarrow> bool" where
  "of_instrument ins b \<longleftrightarrow> ob_instrument b = ins"

lemma of_instrument_invalidate: "keeps (of_instrument ins) invalidate_book"
  by (simp add: keeps_def invalidate_book_run of_instrument_def)

lemma of_instrument_gap: "keeps (of_instrument ins) (gap m)"
  unfolding gap_def by (intro keeps_rules of_instrument_invalidate)

lemma of_instrument_store:
  "(\<And>b. ob_instrument (f b) = ob_instrument b) \<Longrightarrow> keeps (of_instrument ins) (modifyE f)"
  by (simp add: keeps_def modifyE_def of_instrument_def)

lemma of_instrument_deliver: "of_instrument ins b \<Longrightarrow> of_instrument ins (deliver m b)"
proof -
  have delta: "keeps (of_instrument ins) (apply_delta d)" for d
    unfolding apply_delta_def require_instrument_def venue_accepts_def validate_binance_def
      require_previous_sequence_def Let_def
    by (intro keeps_rules of_instrument_invalidate of_instrument_gap of_instrument_store) simp_all
  have snap: "keeps (of_instrument ins) (apply_snapshot s bridge)" for s bridge
    unfolding apply_snapshot_def require_instrument_def
    by (intro keeps_rules of_instrument_store) simp_all
  show "of_instrument ins b \<Longrightarrow> of_instrument ins (deliver m b)"
    using delta snap of_instrument_invalidate by (cases m) (auto simp: keeps_def)
qed

lemma tracks_run:
  assumes "tracks Sb Sa b" and "of_instrument ins b" and "checked_venue ins"
    and "\<forall>m \<in> set ms. faithful Sb Sa m"
  shows "tracks Sb Sa (fold deliver ms b)"
  using assms
proof (induction ms arbitrary: b)
  case (Cons m ms)
  have "tracks Sb Sa (deliver m b)"
    by (rule tracks_deliver) (use Cons.prems in \<open>auto simp: of_instrument_def\<close>)
  moreover have "of_instrument ins (deliver m b)"
    by (rule of_instrument_deliver) (rule Cons.prems)
  ultimately show ?case using Cons by simp
qed simp

end
