(* ===== verification/Bounded_Window.thy ===== *)
theory Bounded_Window
  imports Py_Prelude
begin

text \<open>
  The interface of a rolling window: what the candle store and the market state's histories
  rely on when they append to a \<open>deque(maxlen=n)\<close>. The laws are those of the deque; the
  clients' facts about a run of appends are proved once, from the laws.
\<close>

locale rolling_window =
  fixes push :: "'a list \<Rightarrow> 'a \<Rightarrow> 'a list" and cap :: nat
  assumes push_bounded: "length (push xs x) \<le> cap"
    and push_newest: "0 < cap \<Longrightarrow> push xs x \<noteq> [] \<and> last (push xs x) = x"
    and push_elements: "set (push xs x) \<subseteq> insert x (set xs)"
    and push_sorted: "sorted_wrt R xs \<Longrightarrow> \<forall>y \<in> set xs. R y x \<Longrightarrow> sorted_wrt R (push xs x)"
    and push_suffix: "\<exists>n. push xs x = drop n (xs @ [x])"
begin

lemma pushes_bounded: "length xs \<le> cap \<Longrightarrow> length (foldl push xs ys) \<le> cap"
  by (induction ys arbitrary: xs) (auto simp: push_bounded)

lemma pushes_elements: "set (foldl push xs ys) \<subseteq> set xs \<union> set ys"
proof (induction ys arbitrary: xs)
  case (Cons y ys)
  show ?case using Cons [of "push xs y"] push_elements [of xs y] by auto
qed simp

lemma push_all: "\<forall>y \<in> set xs. P y \<Longrightarrow> P x \<Longrightarrow> \<forall>y \<in> set (push xs x). P y"
  using push_elements [of xs x] by blast

lemma push_distinct:
  assumes "distinct (map f xs)" and "f x \<notin> f ` set xs"
  shows "distinct (map f (push xs x))"
proof -
  obtain n where n: "push xs x = drop n (xs @ [x])" using push_suffix by blast
  have "distinct (map f (xs @ [x]))" using assms by auto
  then have "distinct (drop n (map f (xs @ [x])))" by (rule distinct_drop)
  then show ?thesis by (simp only: n drop_map)
qed

end

lemma deque_append_suffix: "\<exists>m. deque_append n xs x = drop m (xs @ [x])"
  unfolding deque_append_def Let_def by (rule exI) (rule refl)

lemma deque_append_nonempty: "0 < n \<Longrightarrow> deque_append n xs x \<noteq> []"
  by (simp add: deque_append_def Let_def)

interpretation deque: rolling_window "deque_append n" n for n
proof unfold_locales
  show "\<exists>m. deque_append n xs x = drop m (xs @ [x])" for xs and x :: 'a
    by (rule deque_append_suffix)
qed (auto simp: deque_append_length deque_append_last deque_append_nonempty
       intro: deque_append_sorted_wrt dest: subsetD [OF deque_append_set])

end
