(* ===== verification/Candle_Store.thy ===== *)
theory Candle_Store
  imports Market_Data Bounded_Window
begin

text \<open>
  src/src/quant_signal_agent/state/candles.py: \<open>CandleWindowStore\<close>, one bounded window of
  candles for each instrument and interval, in the order of their opening times.
\<close>

type_synonym window_key = "instrument \<times> string"

record candle_window_store =
  max_size :: nat
  windows :: "(window_key \<times> candle list) list"

definition new_candle_store :: "int \<Rightarrow> exn + candle_window_store" where
  "new_candle_store n =
     (if n < 1 then Inl (ValueError ''Candle window size must be positive'')
      else Inr \<lparr>max_size = nat n, windows = []\<rparr>)"

definition candle_key :: "candle \<Rightarrow> window_key" where
  "candle_key c = (md_instrument (cd_metadata c), interval c)"

definition is_duplicate_closed_candle :: "candle \<Rightarrow> candle \<Rightarrow> bool" where
  "is_duplicate_closed_candle existing current \<longleftrightarrow>
     is_closed existing \<and> is_closed current \<and>
     (interval existing, open_time existing, close_time existing, c_open existing, high existing,
      low existing, close existing, base_volume existing, quote_volume existing) =
     (interval current, open_time current, close_time current, c_open current, high current,
      low current, close current, base_volume current, quote_volume current)"

text \<open>May \<open>current\<close> replace the \<open>existing\<close> candle of the same opening time?\<close>

definition replaceable :: "candle \<Rightarrow> candle \<Rightarrow> bool" where
  "replaceable existing current \<longleftrightarrow>
     \<not> (is_closed existing \<and> \<not> is_closed current) \<and> \<not> is_duplicate_closed_candle existing current"

text \<open>
  The search loop: the first candle with this opening time decides; \<open>None\<close> stands for
  \<open>return False\<close>.
\<close>

fun replace_existing :: "candle list \<Rightarrow> candle \<Rightarrow> candle list option" where
  "replace_existing [] c = None"
| "replace_existing (e # es) c =
     (if open_time e = open_time c
      then (if replaceable e c then Some (c # es) else None)
      else map_option ((#) e) (replace_existing es c))"

definition upsert_window :: "nat \<Rightarrow> candle list \<Rightarrow> candle \<Rightarrow> candle list option" where
  "upsert_window n window c =
     (if window = [] \<or> open_time (last window) < open_time c then Some (deque_append n window c)
      else if open_time c = open_time (last window) then
        (if replaceable (last window) c then Some (window[length window - 1 := c]) else None)
      else replace_existing window c)"

text \<open>\<open>self._windows.setdefault(key, deque(maxlen=self._max_size))\<close>, then the update.\<close>

definition window_of :: "candle_window_store \<Rightarrow> window_key \<Rightarrow> candle list" where
  "window_of s k = (case map_of (windows s) k of None \<Rightarrow> [] | Some w \<Rightarrow> w)"

definition upsert :: "candle \<Rightarrow> candle_window_store \<Rightarrow> bool \<times> candle_window_store" where
  "upsert c s =
     (let key = candle_key c;
          window = window_of s key;
          s' = s\<lparr>windows := AList.update key window (windows s)\<rparr>
      in case upsert_window (max_size s) window c of
           None \<Rightarrow> (False, s')
         | Some w \<Rightarrow> (True, s'\<lparr>windows := AList.update key w (windows s')\<rparr>))"

definition extend :: "candle list \<Rightarrow> candle_window_store \<Rightarrow> candle_window_store" where
  "extend cs s = fold (\<lambda>c s. snd (upsert c s)) (sort_key open_time cs) s"

definition get_window :: "candle_window_store \<Rightarrow> instrument \<Rightarrow> string \<Rightarrow> candle list" where
  "get_window s ins i = window_of s (ins, i)"

definition latest :: "candle_window_store \<Rightarrow> instrument \<Rightarrow> string \<Rightarrow> candle option" where
  "latest s ins i = (case map_of (windows s) (ins, i) of
       None \<Rightarrow> None | Some w \<Rightarrow> if w = [] then None else Some (last w))"

definition intervals_for :: "candle_window_store \<Rightarrow> instrument \<Rightarrow> string list" where
  "intervals_for s ins = sort (map (snd \<circ> fst) (filter (\<lambda>(k, w). fst k = ins) (windows s)))"

definition invalidate_candles :: "instrument \<Rightarrow> candle_window_store \<Rightarrow> candle_window_store" where
  "invalidate_candles ins s = s\<lparr>windows := filter (\<lambda>(k, w). fst k \<noteq> ins) (windows s)\<rparr>"

section \<open>The invariant\<close>

definition window_ok :: "nat \<Rightarrow> window_key \<Rightarrow> candle list \<Rightarrow> bool" where
  "window_ok n k w \<longleftrightarrow> length w \<le> n \<and> sorted_wrt (\<lambda>c d. open_time c < open_time d) w \<and>
     (\<forall>c \<in> set w. candle_key c = k)"

definition candle_store_ok :: "candle_window_store \<Rightarrow> bool" where
  "candle_store_ok s \<longleftrightarrow> 0 < max_size s \<and> distinct (map fst (windows s)) \<and>
     (\<forall>(k, w) \<in> set (windows s). window_ok (max_size s) k w)"

lemma window_ok_window_of: "candle_store_ok s \<Longrightarrow> window_ok (max_size s) k (window_of s k)"
  by (auto simp: candle_store_ok_def window_of_def window_ok_def split: option.split dest!: map_of_SomeD)

lemma sorted_open_last:
  "sorted_wrt (\<lambda>c d. open_time c < open_time d) w \<Longrightarrow> c \<in> set w \<Longrightarrow> open_time c \<le> open_time (last w)"
  by (induction w) (auto simp: less_imp_le)

lemma replace_existing_shape:
  "replace_existing w c = Some w' \<Longrightarrow> length w' = length w \<and>
     map open_time w' = map open_time w \<and> set w' \<subseteq> insert c (set w)"
  by (induction w arbitrary: w') (auto split: if_splits)

lemma sorted_open_map:
  "sorted_wrt (\<lambda>c d. open_time c < open_time d) w = sorted_wrt (<) (map open_time w)"
  by (simp add: sorted_wrt_map)

lemma map_update_last: "xs \<noteq> [] \<Longrightarrow> f x = f (last xs) \<Longrightarrow> map f (xs[length xs - 1 := x]) = map f xs"
  by (induction xs rule: rev_induct) simp_all

lemma window_ok_same_times:
  assumes "window_ok n k w" and "candle_key c = k" and "map open_time w' = map open_time w"
    and "set w' \<subseteq> insert c (set w)"
  shows "window_ok n k w'"
proof -
  have "length w' = length w" using assms(3) by (metis length_map)
  moreover have "sorted_wrt (\<lambda>c d. open_time c < open_time d) w'"
    using assms(1,3) by (simp add: window_ok_def sorted_open_map)
  ultimately show ?thesis using assms(1,2,4) by (auto simp: window_ok_def)
qed

lemma upsert_window_ok:
  assumes "window_ok n k w" and "candle_key c = k" and "upsert_window n w c = Some w'" and "0 < n"
  shows "window_ok n k w'"
proof -
  consider (append) "w = [] \<or> open_time (last w) < open_time c" "w' = deque_append n w c"
    | (last) "w \<noteq> []" "open_time c = open_time (last w)" "w' = w[length w - 1 := c]"
    | (middle) "replace_existing w c = Some w'"
    using assms(3) unfolding upsert_window_def
    by (metis (no_types, lifting) option.distinct(1) option.inject)
  then show ?thesis
  proof cases
    case append
    have "\<forall>y \<in> set w. open_time y < open_time c"
    proof
      fix y assume "y \<in> set w"
      with append(1) sorted_open_last [of w y] assms(1) show "open_time y < open_time c"
        by (auto simp: window_ok_def)
    qed
    with assms(1,2) append(2) show ?thesis
      using deque.push_all [of w "\<lambda>d. candle_key d = k" c n]
      by (auto simp: window_ok_def deque.push_bounded intro!: deque.push_sorted)
  next
    case last
    have "map open_time w' = map open_time w"
      unfolding last(3) by (rule map_update_last) (rule last)+
    moreover have "set w' \<subseteq> insert c (set w)" using last(3) by (simp add: set_update_subset_insert)
    ultimately show ?thesis by (rule window_ok_same_times [OF assms(1,2)])
  next
    case middle
    from replace_existing_shape [OF this] show ?thesis
      using window_ok_same_times [OF assms(1,2)] by blast
  qed
qed

lemma store_window_ok:
  "candle_store_ok s \<Longrightarrow> window_ok (max_size s) k w \<Longrightarrow>
     candle_store_ok (s\<lparr>windows := AList.update k w (windows s)\<rparr>)"
  by (auto simp: candle_store_ok_def alist_distinct_update alist_set_update)

lemma upsert_ok: "candle_store_ok s \<Longrightarrow> candle_store_ok (snd (upsert c s))"
proof -
  assume s: "candle_store_ok s"
  let ?k = "candle_key c"
  have w: "window_ok (max_size s) ?k (window_of s ?k)" by (rule window_ok_window_of [OF s])
  have s': "candle_store_ok (s\<lparr>windows := AList.update ?k (window_of s ?k) (windows s)\<rparr>)"
    by (rule store_window_ok [OF s w])
  show ?thesis
  proof (cases "upsert_window (max_size s) (window_of s ?k) c")
    case None
    with s' show ?thesis by (simp add: upsert_def Let_def)
  next
    case (Some w')
    have "window_ok (max_size s) ?k w'"
      by (rule upsert_window_ok [OF w refl Some]) (use s in \<open>simp add: candle_store_ok_def\<close>)
    with store_window_ok [OF s', of ?k w'] Some show ?thesis by (simp add: upsert_def Let_def)
  qed
qed

lemma extend_ok: "candle_store_ok s \<Longrightarrow> candle_store_ok (extend cs s)"
proof -
  have "candle_store_ok s \<Longrightarrow> candle_store_ok (fold (\<lambda>c s. snd (upsert c s)) xs s)" for xs
    by (induction xs arbitrary: s) (auto simp: upsert_ok)
  then show "candle_store_ok s \<Longrightarrow> candle_store_ok (extend cs s)" by (simp add: extend_def)
qed

lemma invalidate_candles_ok: "candle_store_ok s \<Longrightarrow> candle_store_ok (invalidate_candles ins s)"
  by (auto simp: candle_store_ok_def invalidate_candles_def distinct_map_filter)

section \<open>What an upsert does to the windows\<close>

lemma window_of_update [simp]:
  "window_of (s\<lparr>windows := AList.update k w al\<rparr>) q = (if q = k then w
     else window_of (s\<lparr>windows := al\<rparr>) q)"
  by (simp add: window_of_def update_conv)

lemma window_of_upsert:
  "window_of (snd (upsert c s)) k =
     (if k = candle_key c
      then (case upsert_window (max_size s) (window_of s k) c of None \<Rightarrow> window_of s k | Some w \<Rightarrow> w)
      else window_of s k)"
  by (auto simp: upsert_def Let_def window_of_def update_conv split: option.split)

lemma fst_upsert: "fst (upsert c s) \<longleftrightarrow> upsert_window (max_size s) (window_of s (candle_key c)) c \<noteq> None"
  by (auto simp: upsert_def Let_def split: option.split)

lemma max_size_upsert [simp]: "max_size (snd (upsert c s)) = max_size s"
  by (auto simp: upsert_def Let_def split: option.split)

text \<open>A closed candle is never replaced by an open one of the same opening time.\<close>

lemma replace_existing_closed:
  assumes "replace_existing w c = Some w'" and "e \<in> set w" and "is_closed e"
  shows "\<exists>e' \<in> set w'. open_time e' = open_time e \<and> is_closed e'"
  using assms
proof (induction w arbitrary: w')
  case (Cons d w)
  show ?case
  proof (cases "open_time d = open_time c")
    case True
    with Cons.prems have "replaceable d c" and w': "w' = c # w" by (auto split: if_splits)
    with True Cons.prems(2,3) show ?thesis by (auto simp: replaceable_def)
  next
    case False
    with Cons.prems(1) obtain v where v: "replace_existing w c = Some v" "w' = d # v" by auto
    show ?thesis
    proof (cases "e = d")
      case True
      with v Cons.prems(3) show ?thesis by auto
    next
      case False
      with Cons.prems Cons.IH [OF v(1)] v(2) show ?thesis by auto
    qed
  qed
qed simp

end
