(* ===== verification/Freshness.thy ===== *)
theory Freshness
  imports Market_Data
begin

text \<open>
  src/src/quant_signal_agent/state/freshness.py and state/ingestion.py: when each kind of data of
  an instrument was last received, and which events are too old or too far in the future
  to enter the state at all. Float thresholds are exact rationals.
\<close>

section \<open>Freshness\<close>

datatype data_kind = TICKER | CANDLE | TRADE | ORDER_BOOK | FUNDING | OPEN_INTEREST

definition all_kinds :: "data_kind list" where
  "all_kinds = [TICKER, CANDLE, TRADE, ORDER_BOOK, FUNDING, OPEN_INTEREST]"

record freshness_policy =
  ticker_seconds :: rat
  candle_seconds :: rat
  trade_seconds :: rat
  order_book_seconds :: rat
  funding_seconds :: rat
  open_interest_seconds :: rat

definition default_policy :: freshness_policy where
  "default_policy = \<lparr>ticker_seconds = 5, candle_seconds = 90, trade_seconds = 30,
     order_book_seconds = 5, funding_seconds = 30, open_interest_seconds = 30\<rparr>"

fun threshold :: "freshness_policy \<Rightarrow> data_kind \<Rightarrow> rat" where
  "threshold p TICKER = ticker_seconds p"
| "threshold p CANDLE = candle_seconds p"
| "threshold p TRADE = trade_seconds p"
| "threshold p ORDER_BOOK = order_book_seconds p"
| "threshold p FUNDING = funding_seconds p"
| "threshold p OPEN_INTEREST = open_interest_seconds p"

fun event_kind :: "market_event \<Rightarrow> data_kind" where
  "event_kind (TickerEvent e) = TICKER"
| "event_kind (CandleEvent e) = CANDLE"
| "event_kind (TradeEvent e) = TRADE"
| "event_kind (SnapshotEvent e) = ORDER_BOOK"
| "event_kind (DeltaEvent e) = ORDER_BOOK"
| "event_kind (FundingEvent e) = FUNDING"
| "event_kind (OpenInterestEvent e) = OPEN_INTEREST"

record freshness_tracker =
  policy :: freshness_policy
  marked_at :: "instrument \<times> data_kind \<Rightarrow> datetime option"

definition new_freshness_tracker :: "freshness_policy option \<Rightarrow> freshness_tracker" where
  "new_freshness_tracker p =
     \<lparr>policy = (case p of None \<Rightarrow> default_policy | Some q \<Rightarrow> q), marked_at = (\<lambda>_. None)\<rparr>"

definition mark :: "market_event \<Rightarrow> freshness_tracker \<Rightarrow> freshness_tracker" where
  "mark e t = t\<lparr>marked_at := (marked_at t)
     ((event_instrument e, event_kind e) \<mapsto> received_at (event_meta e))\<rparr>"

definition forget :: "instrument \<Rightarrow> data_kind \<Rightarrow> freshness_tracker \<Rightarrow> freshness_tracker" where
  "forget ins k t = t\<lparr>marked_at := (marked_at t)((ins, k) := None)\<rparr>"

definition tracker_is_fresh :: "freshness_tracker \<Rightarrow> instrument \<Rightarrow> data_kind \<Rightarrow> datetime \<Rightarrow> bool" where
  "tracker_is_fresh t ins k t_now = (case marked_at t (ins, k) of
       None \<Rightarrow> False
     | Some u \<Rightarrow> total_seconds (dt_diff t_now u) \<le> threshold (policy t) k)"

definition tracker_updated_at :: "freshness_tracker \<Rightarrow> instrument \<Rightarrow> data_kind \<Rightarrow> datetime option" where
  "tracker_updated_at t ins k = marked_at t (ins, k)"

lemma policy_mark [simp]: "policy (mark e t) = policy t"
  by (simp add: mark_def)

lemma policy_forget [simp]: "policy (forget ins k t) = policy t"
  by (simp add: forget_def)

text \<open>Fresh at one moment, fresh at every earlier one.\<close>

lemma tracker_is_fresh_antimono:
  "tracker_is_fresh t ins k t_now \<Longrightarrow> t_prev \<le> t_now \<Longrightarrow> tracker_is_fresh t ins k t_prev"
proof -
  assume fresh: "tracker_is_fresh t ins k t_now" and le: "t_prev \<le> t_now"
  then obtain u where u: "marked_at t (ins, k) = Some u"
    "total_seconds (dt_diff t_now u) \<le> threshold (policy t) k"
    by (auto simp: tracker_is_fresh_def split: option.splits)
  have "total_seconds (dt_diff t_prev u) \<le> total_seconds (dt_diff t_now u)"
    using le by (simp add: dt_diff_def datetime_order)
  with u have "total_seconds (dt_diff t_prev u) \<le> threshold (policy t) k" using order_trans by blast
  with u show ?thesis by (simp add: tracker_is_fresh_def)
qed

lemma not_fresh_after_forget: "\<not> tracker_is_fresh (forget ins k t) ins k t_now"
  by (simp add: tracker_is_fresh_def forget_def)

section \<open>Ingestion\<close>

datatype ingestion_rejection = SOURCE_TOO_OLD | SOURCE_IN_FUTURE

record ingestion_policy =
  max_source_age_seconds :: rat
  max_future_skew_seconds :: rat

definition mk_ingestion_policy :: "rat \<Rightarrow> rat \<Rightarrow> exn + ingestion_policy" where
  "mk_ingestion_policy age skew =
     (if age \<le> 0 then Inl (ValueError ''Maximum source age must be positive'')
      else if skew < 0 then Inl (ValueError ''Maximum future skew cannot be negative'')
      else Inr \<lparr>max_source_age_seconds = age, max_future_skew_seconds = skew\<rparr>)"

text \<open>The age allowed: a candle's interval is added, and an estimated time doubles it.\<close>

definition allowed_age :: "ingestion_policy \<Rightarrow> market_event \<Rightarrow> exn + rat" where
  "allowed_age p e =
     (let base = (case e of
          CandleEvent c \<Rightarrow> (case interval_duration (interval c) of
              Inl x \<Rightarrow> Inl x | Inr d \<Rightarrow> Inr (max_source_age_seconds p + total_seconds d))
        | _ \<Rightarrow> Inr (max_source_age_seconds p))
      in case base of
           Inl x \<Rightarrow> Inl x
         | Inr a \<Rightarrow> Inr (if timestamp_quality (event_meta e) = ESTIMATED then a * 2 else a))"

definition source_age :: "market_event \<Rightarrow> rat" where
  "source_age e = total_seconds (dt_diff (received_at (event_meta e)) (exchange_timestamp (event_meta e)))"

definition rejection_reason :: "ingestion_policy \<Rightarrow> market_event \<Rightarrow> exn + ingestion_rejection option" where
  "rejection_reason p e =
     (if timestamp_quality (event_meta e) = RECEIVE_ONLY then Inr None
      else case allowed_age p e of
        Inl x \<Rightarrow> Inl x
      | Inr a \<Rightarrow>
          if a < source_age e then Inr (Some SOURCE_TOO_OLD)
          else if source_age e < - max_future_skew_seconds p then Inr (Some SOURCE_IN_FUTURE)
          else Inr None)"

definition ingestion_ok :: "ingestion_policy \<Rightarrow> bool" where
  "ingestion_ok p \<longleftrightarrow> 0 < max_source_age_seconds p \<and> 0 \<le> max_future_skew_seconds p"

lemma mk_ingestion_policy_ok: "mk_ingestion_policy a k = Inr p \<Longrightarrow> ingestion_ok p"
  by (auto simp: mk_ingestion_policy_def ingestion_ok_def split: if_splits)

lemma allowed_age_ge:
  assumes "ingestion_ok p" and "allowed_age p e = Inr a"
  shows "max_source_age_seconds p \<le> a"
proof -
  have nonneg: "0 \<le> total_seconds d" if "interval_duration i = Inr d" for i d
    using interval_duration_pos [OF that] by (simp add: total_seconds_def)
  have "\<exists>b. max_source_age_seconds p \<le> b \<and>
      a = (if timestamp_quality (event_meta e) = ESTIMATED then b * 2 else b)"
  proof (cases e)
    case (CandleEvent c)
    with assms(2) obtain d where d: "interval_duration (interval c) = Inr d"
      and a: "a = (let b = max_source_age_seconds p + total_seconds d in
        if timestamp_quality (event_meta e) = ESTIMATED then b * 2 else b)"
      by (auto simp: allowed_age_def Let_def split: sum.splits)
    from nonneg [OF d] a show ?thesis
      by (intro exI [of _ "max_source_age_seconds p + total_seconds d"]) (simp add: Let_def)
  qed (use assms(2) in \<open>auto simp: allowed_age_def Let_def\<close>)
  with assms(1) show ?thesis by (auto simp: ingestion_ok_def)
qed

end
