(* ===== verification/Market_State.thy ===== *)
theory Market_State
  imports Order_Book_Tracking Candle_Store Freshness
begin

text \<open>
  src/src/quant_signal_agent/state/market.py: the single-writer market state that dispatches each
  normalized event to the candle store, the order books, the trade log and the latest
  ticker, funding and open interest, and that marks freshness.

  \<open>_instruments\<close> is a set whose iteration order is arbitrary; it is a list without
  duplicates whose order is that iteration order.
\<close>

section \<open>State\<close>

record order_book_observation =
  obs_instrument :: instrument
  observed_at :: datetime
  obs_bid_notional :: decimal
  obs_ask_notional :: decimal
  obs_range_percent :: decimal
  obs_mid_price :: "decimal option"
  spread_bps :: "decimal option"
  obs_generation :: int

definition observation_total :: "order_book_observation \<Rightarrow> decimal" where
  "observation_total o' = dadd (obs_bid_notional o') (obs_ask_notional o')"

record best_level_observation =
  bl_observed_at :: datetime
  bl_bid_notional :: decimal
  bl_ask_notional :: decimal
  bl_generation :: int

record market_state =
  candles :: candle_window_store
  freshness :: freshness_tracker
  order_book_depth :: int
  order_book_range_percent :: decimal
  recent_trade_limit :: nat
  open_interest_history_size :: nat
  order_book_history_size :: nat
  order_book_sample_seconds :: rat
  instruments :: "instrument list"
  tickers :: "instrument \<Rightarrow> ticker option"
  funding_rates :: "instrument \<Rightarrow> funding_rate option"
  open_interests :: "instrument \<Rightarrow> open_interest option"
  open_interest_history :: "instrument \<Rightarrow> open_interest list option"
  order_books :: "instrument \<Rightarrow> local_order_book option"
  order_book_history :: "instrument \<Rightarrow> order_book_observation list option"
  best_level_history :: "instrument \<Rightarrow> best_level_observation list option"
  trades :: "instrument \<Rightarrow> trade list option"
  trade_ids :: "instrument \<Rightarrow> string set option"

record market_config =
  cfg_candle_window_size :: int
  cfg_order_book_depth :: int
  cfg_order_book_range_percent :: decimal
  cfg_recent_trade_limit :: int
  cfg_open_interest_history_size :: int
  cfg_order_book_history_size :: int
  cfg_order_book_sample_seconds :: rat
  cfg_freshness_policy :: "freshness_policy option"

definition new_market_state :: "market_config \<Rightarrow> exn + market_state" where
  "new_market_state c =
     (if cfg_recent_trade_limit c < 1 then Inl (ValueError ''Recent trade limit must be positive'')
      else if cfg_open_interest_history_size c < 2
      then Inl (ValueError ''Open-interest history size must be at least 2'')
      else if cfg_order_book_history_size c < 2 \<or> cfg_order_book_sample_seconds c \<le> 0
      then Inl (ValueError ''Order-book history settings must be positive'')
      else if cfg_order_book_range_percent c \<le> 0 \<or> 100 \<le> cfg_order_book_range_percent c
      then Inl (ValueError ''Order-book range percent must be between 0 and 100'')
      else case new_candle_store (cfg_candle_window_size c) of
        Inl e \<Rightarrow> Inl e
      | Inr store \<Rightarrow> Inr \<lparr>candles = store,
          freshness = new_freshness_tracker (cfg_freshness_policy c),
          order_book_depth = cfg_order_book_depth c,
          order_book_range_percent = cfg_order_book_range_percent c,
          recent_trade_limit = nat (cfg_recent_trade_limit c),
          open_interest_history_size = nat (cfg_open_interest_history_size c),
          order_book_history_size = nat (cfg_order_book_history_size c),
          order_book_sample_seconds = cfg_order_book_sample_seconds c,
          instruments = [], tickers = (\<lambda>_. None), funding_rates = (\<lambda>_. None),
          open_interests = (\<lambda>_. None), open_interest_history = (\<lambda>_. None),
          order_books = (\<lambda>_. None), order_book_history = (\<lambda>_. None),
          best_level_history = (\<lambda>_. None), trades = (\<lambda>_. None), trade_ids = (\<lambda>_. None)\<rparr>)"

definition register_instruments :: "instrument list \<Rightarrow> market_state \<Rightarrow> market_state" where
  "register_instruments ins s = s\<lparr>instruments := fold List.insert ins (instruments s)\<rparr>"

section \<open>Comparing events of one instrument\<close>

definition is_older :: "event_metadata \<Rightarrow> event_metadata option \<Rightarrow> bool" where
  "is_older cur previous = (case previous of
       None \<Rightarrow> False
     | Some prev \<Rightarrow>
         if exchange_timestamp cur \<noteq> exchange_timestamp prev
         then exchange_timestamp cur < exchange_timestamp prev
         else (case (md_sequence_id cur, md_sequence_id prev) of
             (Some a, Some b) \<Rightarrow> a < b | _ \<Rightarrow> False))"

definition is_same_source :: "event_metadata \<Rightarrow> event_metadata \<Rightarrow> bool" where
  "is_same_source cur prev \<longleftrightarrow>
     exchange_timestamp cur = exchange_timestamp prev \<and>
     (md_sequence_id cur = md_sequence_id prev \<or> md_sequence_id cur = None \<or> md_sequence_id prev = None)"

definition ticker_values :: "ticker \<Rightarrow> decimal option list" where
  "ticker_values t = [last_price t, mark_price t, index_price t, tk_mid_price t, tk_best_bid t,
     tk_best_ask t, base_volume_24h t, quote_volume_24h t]"

definition open_interest_values :: "open_interest \<Rightarrow> decimal \<times> decimal option \<times> decimal option" where
  "open_interest_values e = (contracts e, base_quantity e, quote_notional e)"

definition latest_value :: "'a option \<Rightarrow> 'a option \<Rightarrow> 'a option" where
  "latest_value v fallback = (if v \<noteq> None then v else fallback)"

definition merge_ticker :: "ticker option \<Rightarrow> ticker \<Rightarrow> ticker" where
  "merge_ticker previous cur = (case previous of
       None \<Rightarrow> cur
     | Some prev \<Rightarrow> \<lparr>tk_metadata = tk_metadata cur,
         last_price = latest_value (last_price cur) (last_price prev),
         mark_price = latest_value (mark_price cur) (mark_price prev),
         index_price = latest_value (index_price cur) (index_price prev),
         tk_mid_price = latest_value (tk_mid_price cur) (tk_mid_price prev),
         tk_best_bid = latest_value (tk_best_bid cur) (tk_best_bid prev),
         tk_best_ask = latest_value (tk_best_ask cur) (tk_best_ask prev),
         base_volume_24h = latest_value (base_volume_24h cur) (base_volume_24h prev),
         quote_volume_24h = latest_value (quote_volume_24h cur) (quote_volume_24h prev)\<rparr>)"

section \<open>Order books inside the state\<close>

definition get_order_book :: "market_state \<Rightarrow> instrument \<Rightarrow> order_book_view option" where
  "get_order_book s ins = map_option view (order_books s ins)"

definition invalidate_order_book :: "instrument \<Rightarrow> market_state \<Rightarrow> market_state" where
  "invalidate_order_book ins s = s\<lparr>
     order_books := (case order_books s ins of
         None \<Rightarrow> order_books s
       | Some b \<Rightarrow> (order_books s)(ins \<mapsto> snd (invalidate_book b))),
     order_book_history := (order_book_history s)(ins := None),
     best_level_history := (best_level_history s)(ins := None),
     freshness := forget ins ORDER_BOOK (freshness s)\<rparr>"

text \<open>\<open>for kind in DataKind: if kind is not DataKind.CANDLE: \<dots>\<close>\<close>

definition forget_stream_kinds :: "instrument \<Rightarrow> freshness_tracker \<Rightarrow> freshness_tracker" where
  "forget_stream_kinds ins t = fold (forget ins) (filter (\<lambda>k. k \<noteq> CANDLE) all_kinds) t"

definition invalidate_realtime_state :: "instrument \<Rightarrow> market_state \<Rightarrow> market_state" where
  "invalidate_realtime_state ins s = (let s' = invalidate_order_book ins s in
     s'\<lparr>tickers := (tickers s')(ins := None),
        funding_rates := (funding_rates s')(ins := None),
        open_interests := (open_interests s')(ins := None),
        open_interest_history := (open_interest_history s')(ins := None),
        trades := (trades s')(ins := None),
        trade_ids := (trade_ids s')(ins := None),
        freshness := forget_stream_kinds ins (freshness s')\<rparr>)"

definition invalidate_stream_state :: "instrument \<Rightarrow> market_state \<Rightarrow> market_state" where
  "invalidate_stream_state ins s = (let s' = invalidate_realtime_state ins s in
     s'\<lparr>candles := invalidate_candles ins (candles s'),
        freshness := forget ins CANDLE (freshness s')\<rparr>)"

section \<open>Applying one event\<close>

definition or_empty :: "'a list option \<Rightarrow> 'a list" where
  "or_empty x = (case x of None \<Rightarrow> [] | Some xs \<Rightarrow> xs)"

definition add_instrument :: "instrument \<Rightarrow> (market_state, unit) eff" where
  "add_instrument ins = modifyE (\<lambda>s. s\<lparr>instruments := List.insert ins (instruments s)\<rparr>)"

text \<open>\<open>setdefault(instrument, LocalOrderBook(\<dots>))\<close>: the default is built, and may raise, each time.\<close>

definition ensure_book :: "instrument \<Rightarrow> (market_state, unit) eff" where
  "ensure_book ins = bindE (getE order_book_depth) (\<lambda>d.
     case new_order_book ins d of
       Inl e \<Rightarrow> raise e
     | Inr fresh \<Rightarrow> modifyE (\<lambda>s. case order_books s ins of
           None \<Rightarrow> s\<lparr>order_books := (order_books s)(ins \<mapsto> fresh)\<rparr>
         | Some _ \<Rightarrow> s))"

text \<open>A method of the book stored for an instrument, which \<open>ensure_book\<close> has put there.\<close>

definition on_book :: "instrument \<Rightarrow> (local_order_book, 'a) eff \<Rightarrow> (market_state, 'a) eff" where
  "on_book ins m = (\<lambda>s. case order_books s ins of
       None \<Rightarrow> (Inl (KeyError ''order book''), s)
     | Some b \<Rightarrow> (case m b of (r, b') \<Rightarrow> (r, s\<lparr>order_books := (order_books s)(ins \<mapsto> b')\<rparr>)))"

definition record_best_levels :: "instrument \<Rightarrow> datetime \<Rightarrow> market_state \<Rightarrow> market_state" where
  "record_best_levels ins t s = (case get_order_book s ins of
       None \<Rightarrow> s
     | Some v \<Rightarrow>
        (case (ov_is_synchronized v, best_bid v, best_ask v) of
           (True, Some bid, Some ask) \<Rightarrow>
             (let history = or_empty (best_level_history s ins);
                  kept = (if history \<noteq> [] \<and> bl_generation (last history) \<noteq> ov_generation v
                          then [] else history);
                  entry = \<lparr>bl_observed_at = t, bl_bid_notional = dmul (price bid) (quantity bid),
                    bl_ask_notional = dmul (price ask) (quantity ask), bl_generation = ov_generation v\<rparr>
              in s\<lparr>best_level_history := (best_level_history s)
                     (ins \<mapsto> deque_append (order_book_history_size s) kept entry)\<rparr>)
         | _ \<Rightarrow> s))"

definition spread_of :: "order_book_view \<Rightarrow> decimal option \<Rightarrow> decimal option" where
  "spread_of v mid = (case (best_bid v, best_ask v, mid) of
       (Some bid, Some ask, Some m) \<Rightarrow>
         if 0 < m then Some (dmul (ddiv (dsub (price ask) (price bid)) m) 10000) else None
     | _ \<Rightarrow> None)"

definition sampled_recently :: "market_state \<Rightarrow> instrument \<Rightarrow> datetime \<Rightarrow> bool" where
  "sampled_recently s ins t = (let history = or_empty (order_book_history s ins) in
     history \<noteq> [] \<and>
     total_seconds (dt_diff t (observed_at (last history))) < order_book_sample_seconds s)"

definition observation_of ::
  "instrument \<Rightarrow> datetime \<Rightarrow> order_book_view \<Rightarrow> order_book_range_notional \<Rightarrow> order_book_observation"
where
  "observation_of ins t v r = \<lparr>obs_instrument = ins, observed_at = t,
     obs_bid_notional = bid_notional r, obs_ask_notional = ask_notional r,
     obs_range_percent = range_percent r, obs_mid_price = mid_price r,
     spread_bps = spread_of v (mid_price r), obs_generation = ov_generation v\<rparr>"

definition record_order_book :: "instrument \<Rightarrow> datetime \<Rightarrow> (market_state, unit) eff" where
  "record_order_book ins t =
     thenE (modifyE (record_best_levels ins t))
    (thenE (modifyE (\<lambda>s. s\<lparr>order_book_history :=
         (order_book_history s)(ins \<mapsto> or_empty (order_book_history s ins))\<rparr>))
    (bindE (getE (\<lambda>s. (sampled_recently s ins t, get_order_book s ins, order_book_range_percent s)))
    (\<lambda>(recent, book_view, pct).
     if recent then ret ()
     else case book_view of
       None \<Rightarrow> ret ()
     | Some v \<Rightarrow>
         if \<not> ov_is_synchronized v then ret ()
         else (case notional_within_range v pct of
           Inl e \<Rightarrow> raise e
         | Inr ranged \<Rightarrow>
             if \<not> is_fully_covered ranged
             then modifyE (\<lambda>s. s\<lparr>order_book_history := (order_book_history s)(ins := None)\<rparr>)
             else modifyE (\<lambda>s. s\<lparr>order_book_history := (order_book_history s)(ins \<mapsto>
                 deque_append (order_book_history_size s) (or_empty (order_book_history s ins))
                   (observation_of ins t v ranged))\<rparr>)))))"

definition mark_event :: "market_event \<Rightarrow> (market_state, unit) eff" where
  "mark_event e = modifyE (\<lambda>s. s\<lparr>freshness := mark e (freshness s)\<rparr>)"

definition market_apply_snapshot :: "order_book_snapshot \<Rightarrow> bool \<Rightarrow> (market_state, bool) eff" where
  "market_apply_snapshot snap bridge = (let ins = md_instrument (sn_metadata snap) in
     thenE (add_instrument ins)
    (thenE (ensure_book ins)
    (bindE (on_book ins (apply_snapshot snap bridge)) (\<lambda>applied.
     if applied then
       thenE (record_order_book ins (received_at (sn_metadata snap)))
      (thenE (mark_event (SnapshotEvent snap)) (ret True))
     else ret False))))"

text \<open>\<open>try: book.apply_delta(event) except OrderBookOutOfSync: invalidate; raise\<close>\<close>

definition delta_on_book :: "order_book_delta \<Rightarrow> (market_state, bool) eff" where
  "delta_on_book d = (let ins = md_instrument (dl_metadata d) in
     (\<lambda>s. case on_book ins (apply_delta d) s of
        (Inr a, s') \<Rightarrow> (Inr a, s')
      | (Inl e, s') \<Rightarrow> (Inl e, if is_out_of_sync e then invalidate_order_book ins s' else s')))"

definition apply_ticker :: "ticker \<Rightarrow> (market_state, bool) eff" where
  "apply_ticker e = (let ins = md_instrument (tk_metadata e) in
     bindE (getE (\<lambda>s. tickers s ins)) (\<lambda>previous.
     if is_older (tk_metadata e) (map_option tk_metadata previous) then ret False
     else (let merged = merge_ticker previous e;
               applied = (case previous of None \<Rightarrow> True
                 | Some p \<Rightarrow> is_same_source (tk_metadata e) (tk_metadata p) \<longrightarrow>
                     ticker_values merged \<noteq> ticker_values p)
           in if applied
              then thenE (modifyE (\<lambda>s. s\<lparr>tickers := (tickers s)(ins \<mapsto> merged)\<rparr>)) (ret True)
              else ret False)))"

definition apply_trade :: "trade \<Rightarrow> (market_state, bool) eff" where
  "apply_trade e = (let ins = md_instrument (tr_metadata e) in
     bindE (getE (\<lambda>s. case trade_ids s ins of None \<Rightarrow> {} | Some ids \<Rightarrow> ids)) (\<lambda>ids.
     thenE (modifyE (\<lambda>s. s\<lparr>trade_ids := (trade_ids s)(ins \<mapsto> ids)\<rparr>))
     (if trade_id e \<in> ids then ret False
      else bindE (getE (\<lambda>s. (or_empty (trades s ins), recent_trade_limit s))) (\<lambda>(ts, limit).
        thenE (modifyE (\<lambda>s. s\<lparr>trades := (trades s)(ins \<mapsto> ts)\<rparr>))
        (if ts \<noteq> [] \<and> is_older (tr_metadata e) (Some (tr_metadata (last ts))) then ret False
         else if length ts = limit then
           (case ts of
              [] \<Rightarrow> raise (IndexError ''pop from an empty deque'')
            | expired # rest \<Rightarrow>
                if trade_id expired \<notin> ids
                then thenE (modifyE (\<lambda>s. s\<lparr>trades := (trades s)(ins \<mapsto> rest)\<rparr>))
                       (raise (KeyError (trade_id expired)))
                else thenE (modifyE (\<lambda>s. s\<lparr>trades := (trades s)(ins \<mapsto> rest @ [e]),
                       trade_ids := (trade_ids s)(ins \<mapsto> insert (trade_id e) (ids - {trade_id expired}))\<rparr>))
                       (ret True))
         else thenE (modifyE (\<lambda>s. s\<lparr>trades := (trades s)(ins \<mapsto> ts @ [e]),
                trade_ids := (trade_ids s)(ins \<mapsto> insert (trade_id e) ids)\<rparr>))
                (ret True))))))"

definition apply_funding :: "funding_rate \<Rightarrow> (market_state, bool) eff" where
  "apply_funding e = (let ins = md_instrument (fr_metadata e) in
     bindE (getE (\<lambda>s. funding_rates s ins)) (\<lambda>previous.
     if \<not> is_older (fr_metadata e) (map_option fr_metadata previous) \<and>
        \<not> (case previous of None \<Rightarrow> False
           | Some p \<Rightarrow> is_same_source (fr_metadata e) (fr_metadata p) \<and>
               (rate e, next_funding_at e) = (rate p, next_funding_at p))
     then thenE (modifyE (\<lambda>s. s\<lparr>funding_rates := (funding_rates s)(ins \<mapsto> e)\<rparr>)) (ret True)
     else ret False))"

definition record_open_interest :: "open_interest \<Rightarrow> open_interest option \<Rightarrow> market_state \<Rightarrow> market_state" where
  "record_open_interest e previous s = (let ins = md_instrument (oi_metadata e);
       history = or_empty (open_interest_history s ins);
       same = (case previous of None \<Rightarrow> False
         | Some p \<Rightarrow> is_same_source (oi_metadata e) (oi_metadata p))
     in s\<lparr>open_interest_history := (open_interest_history s)(ins \<mapsto>
          (if same \<and> history \<noteq> [] then history[length history - 1 := e]
           else deque_append (open_interest_history_size s) history e))\<rparr>)"

definition apply_open_interest :: "open_interest \<Rightarrow> (market_state, bool) eff" where
  "apply_open_interest e = (let ins = md_instrument (oi_metadata e) in
     bindE (getE (\<lambda>s. open_interests s ins)) (\<lambda>previous.
     if \<not> is_older (oi_metadata e) (map_option oi_metadata previous) \<and>
        \<not> (case previous of None \<Rightarrow> False
           | Some p \<Rightarrow> is_same_source (oi_metadata e) (oi_metadata p) \<and>
               open_interest_values e = open_interest_values p)
     then thenE (modifyE (\<lambda>s. record_open_interest e previous
            (s\<lparr>open_interests := (open_interests s)(ins \<mapsto> e)\<rparr>))) (ret True)
     else ret False))"

definition apply_candle :: "candle \<Rightarrow> (market_state, bool) eff" where
  "apply_candle e = (\<lambda>s. case upsert e (candles s) of (b, c) \<Rightarrow> (Inr b, s\<lparr>candles := c\<rparr>))"

definition apply_order_book_delta :: "order_book_delta \<Rightarrow> (market_state, bool) eff" where
  "apply_order_book_delta d = (let ins = md_instrument (dl_metadata d) in
     thenE (ensure_book ins)
    (bindE (delta_on_book d) (\<lambda>applied.
     if applied then thenE (record_order_book ins (received_at (dl_metadata d))) (ret True)
     else ret False)))"

text \<open>\<open>MarketState.apply\<close>; the snapshot branch returns before the common mark.\<close>

definition apply_event :: "market_event \<Rightarrow> (market_state, bool) eff" where
  "apply_event e =
     (let marked = (\<lambda>m. bindE m (\<lambda>applied.
            if applied then thenE (mark_event e) (ret True) else ret False))
      in thenE (add_instrument (event_instrument e))
      (case e of
         TickerEvent t \<Rightarrow> marked (apply_ticker t)
       | CandleEvent c \<Rightarrow> marked (apply_candle c)
       | TradeEvent t \<Rightarrow> marked (apply_trade t)
       | SnapshotEvent sn \<Rightarrow> market_apply_snapshot sn False
       | DeltaEvent d \<Rightarrow> marked (apply_order_book_delta d)
       | FundingEvent f \<Rightarrow> marked (apply_funding f)
       | OpenInterestEvent oi \<Rightarrow> marked (apply_open_interest oi)))"

definition apply_many :: "market_event list \<Rightarrow> (market_state, unit) eff" where
  "apply_many es = mapE (\<lambda>e. bindE (apply_event e) (\<lambda>_. ret ())) es"

section \<open>Reading the state\<close>

definition get_open_interest_history :: "market_state \<Rightarrow> instrument \<Rightarrow> open_interest list" where
  "get_open_interest_history s ins = or_empty (open_interest_history s ins)"

definition get_order_book_history :: "market_state \<Rightarrow> instrument \<Rightarrow> order_book_observation list" where
  "get_order_book_history s ins = (case order_books s ins of
       None \<Rightarrow> []
     | Some b \<Rightarrow> filter (\<lambda>o'. obs_generation o' = generation b) (or_empty (order_book_history s ins)))"

fun best_level_search ::
  "int \<Rightarrow> datetime \<Rightarrow> rat \<Rightarrow> best_level_observation list \<Rightarrow> best_level_observation option"
where
  "best_level_search g t limit [] = None"
| "best_level_search g t limit (o' # os) =
     (if bl_generation o' \<noteq> g then None
      else if bl_observed_at o' \<le> t
      then (if total_seconds (dt_diff t (bl_observed_at o')) \<le> limit then Some o' else None)
      else best_level_search g t limit os)"

definition best_level_at :: "market_state \<Rightarrow> instrument \<Rightarrow> datetime \<Rightarrow> best_level_observation option" where
  "best_level_at s ins t = (case order_books s ins of
       None \<Rightarrow> None
     | Some b \<Rightarrow>
         if \<not> is_synchronized b then None
         else best_level_search (generation b) t (order_book_seconds (policy (freshness s)))
                (rev (or_empty (best_level_history s ins))))"

definition is_fresh :: "market_state \<Rightarrow> instrument \<Rightarrow> data_kind \<Rightarrow> datetime \<Rightarrow> bool" where
  "is_fresh s ins k now \<longleftrightarrow>
     (k = ORDER_BOOK \<longrightarrow> (case order_books s ins of None \<Rightarrow> False | Some b \<Rightarrow> is_synchronized b)) \<and>
     tracker_is_fresh (freshness s) ins k now"

text \<open>A closed candle of an unsupported interval makes \<open>interval_duration\<close> raise.\<close>

definition is_candle_fresh :: "market_state \<Rightarrow> instrument \<Rightarrow> string \<Rightarrow> datetime \<Rightarrow> exn + bool" where
  "is_candle_fresh s ins i now =
     (case find is_closed (rev (get_window (candles s) ins i)) of
        None \<Rightarrow> Inr False
      | Some c \<Rightarrow> (case interval_duration i of
          Inl e \<Rightarrow> Inl e
        | Inr d \<Rightarrow> Inr (total_seconds (dt_diff now (dt_add (close_time c) d))
                     \<le> candle_seconds (policy (freshness s)))))"

record venue_snapshot =
  vs_instrument :: instrument
  vs_ticker :: "ticker option"
  vs_funding_rate :: "funding_rate option"
  vs_open_interest :: "open_interest option"
  vs_order_book :: "order_book_view option"
  recent_trades :: "trade list"
  latest_candles :: "(string \<times> candle) list"
  candle_freshness :: "(string \<times> bool) list"
  kind_freshness :: "(data_kind \<times> bool) list"

definition take_venue_snapshot :: "market_state \<Rightarrow> instrument \<Rightarrow> datetime \<Rightarrow> exn + venue_snapshot" where
  "take_venue_snapshot s ins now =
     (let latest_of = List.map_filter (\<lambda>i. map_option (Pair i) (latest (candles s) ins i))
            (intervals_for (candles s) ins)
      in case traverse (\<lambda>(i, c). case is_candle_fresh s ins i now of
             Inl e \<Rightarrow> Inl e | Inr b \<Rightarrow> Inr (i, b)) latest_of of
        Inl e \<Rightarrow> Inl e
      | Inr candle_fresh \<Rightarrow> Inr \<lparr>vs_instrument = ins, vs_ticker = tickers s ins,
          vs_funding_rate = funding_rates s ins, vs_open_interest = open_interests s ins,
          vs_order_book = get_order_book s ins, recent_trades = or_empty (trades s ins),
          latest_candles = latest_of, candle_freshness = candle_fresh,
          kind_freshness = map (\<lambda>k. (k, is_fresh s ins k now)) all_kinds\<rparr>)"

record cross_exchange_snapshot =
  snapshot_symbol :: string
  snapshot_generated_at :: datetime
  venues :: "(exchange \<times> venue_snapshot) list"
  markets :: "(instrument \<times> venue_snapshot) list"

definition market_snapshot :: "market_state \<Rightarrow> string \<Rightarrow> datetime \<Rightarrow> exn + cross_exchange_snapshot" where
  "market_snapshot s symbol now =
     (case traverse (\<lambda>ins. case take_venue_snapshot s ins now of
          Inl e \<Rightarrow> Inl e | Inr v \<Rightarrow> Inr (ins, v))
        (filter (\<lambda>ins. canonical_symbol ins = symbol) (instruments s)) of
       Inl e \<Rightarrow> Inl e
     | Inr ms \<Rightarrow> Inr \<lparr>snapshot_symbol = symbol, snapshot_generated_at = now,
         venues = fold (\<lambda>(ins, v) d. AList.update (exchange ins) v d)
           (filter (\<lambda>(ins, v). market_type ins = LINEAR_PERPETUAL) ms) [],
         markets = ms\<rparr>)"

end
