(* ===== verification/Market_Invariant.thy ===== *)
theory Market_Invariant
  imports Market_State
begin

text \<open>
  The invariant of \<open>MarketState\<close>: windows and histories bounded, each book stored under its
  own instrument and well formed, the trade identifiers exactly those of the trades kept, and
  every observation of a book of that book's current generation. Every operation keeps it, and
  the only exception an event can raise is the sequence gap of a book.
\<close>

definition trades_inv :: "nat \<Rightarrow> trade list option \<Rightarrow> string set option \<Rightarrow> bool" where
  "trades_inv limit ts ids \<longleftrightarrow>
     length (or_empty ts) \<le> limit \<and> distinct (map trade_id (or_empty ts)) \<and>
     (case ids of None \<Rightarrow> {} | Some i \<Rightarrow> i) = trade_id ` set (or_empty ts)"

definition book_inv ::
  "nat \<Rightarrow> instrument \<Rightarrow> local_order_book option \<Rightarrow> order_book_observation list option \<Rightarrow>
     best_level_observation list option \<Rightarrow> bool"
where
  "book_inv n ins ob oh bh \<longleftrightarrow> (case ob of
       None \<Rightarrow> or_empty oh = [] \<and> or_empty bh = []
     | Some b \<Rightarrow> book_ok b \<and> ob_instrument b = ins \<and>
         length (or_empty oh) \<le> n \<and> length (or_empty bh) \<le> n \<and>
         (\<forall>o' \<in> set (or_empty oh). obs_generation o' = generation b) \<and>
         (\<forall>o' \<in> set (or_empty bh). bl_generation o' = generation b))"

definition settings_ok :: "market_state \<Rightarrow> bool" where
  "settings_ok s \<longleftrightarrow> 0 < recent_trade_limit s \<and> 0 < open_interest_history_size s \<and>
     0 < order_book_history_size s \<and> 0 < order_book_range_percent s \<and>
     order_book_range_percent s < 100 \<and> 1 \<le> order_book_depth s"

definition market_ok :: "market_state \<Rightarrow> bool" where
  "market_ok s \<longleftrightarrow> settings_ok s \<and> candle_store_ok (candles s) \<and>
     (\<forall>ins. trades_inv (recent_trade_limit s) (trades s ins) (trade_ids s ins)) \<and>
     (\<forall>ins. length (or_empty (open_interest_history s ins)) \<le> open_interest_history_size s) \<and>
     (\<forall>ins. book_inv (order_book_history_size s) ins (order_books s ins)
        (order_book_history s ins) (best_level_history s ins))"

fun event_ok :: "market_event \<Rightarrow> bool" where
  "event_ok (SnapshotEvent e) = snapshot_ok e"
| "event_ok (DeltaEvent e) = delta_ok e"
| "event_ok _ = True"

lemma or_empty_simps [simp]: "or_empty None = []" "or_empty (Some xs) = xs"
  by (simp_all add: or_empty_def)

section \<open>Steps of the book inside the state\<close>

lemma out_of_sync_raised [simp]: "is_out_of_sync (OrderBookOutOfSync m)"
  by (simp add: is_out_of_sync_def OrderBookOutOfSync_def str_startswith_def)

lemma book_snapshot_step:
  assumes "book_ok b" and "md_instrument (sn_metadata snap) = ob_instrument b" and "snapshot_ok snap"
  shows "\<exists>a b'. apply_snapshot snap bridge b = (Inr a, b') \<and> book_ok b' \<and>
    ob_instrument b' = ob_instrument b \<and> generation b' = generation b"
proof -
  have "wp (apply_snapshot snap bridge) (\<lambda>_ b'. book_ok b' \<and> ob_instrument b' = ob_instrument b \<and>
      generation b' = generation b) (\<lambda>_ _. False) b"
    using assms unfolding apply_snapshot_def require_instrument_def
    by (auto simp: wp_rules book_ok_def snapshot_ok_def intro!: side_ok_levels_dict)
  then show ?thesis by (auto simp: wp_def split: prod.splits sum.splits)
qed

lemma book_delta_step:
  assumes "book_ok b" and "md_instrument (dl_metadata d) = ob_instrument b" and "delta_ok d"
  shows "\<exists>r b'. apply_delta d b = (r, b') \<and> book_ok b' \<and> ob_instrument b' = ob_instrument b \<and>
    (case r of Inr a \<Rightarrow> generation b' = generation b | Inl e \<Rightarrow> is_out_of_sync e)"
proof -
  obtain r b' where run: "apply_delta d b = (r, b')" by force
  have "book_ok b'" using keepsD [OF keeps_apply_delta [OF assms(3)] assms(1) run] .
  moreover have "ob_instrument b' = ob_instrument b"
    using of_instrument_deliver [of "ob_instrument b" b "BookDelta d"] run
    by (simp add: of_instrument_def)
  moreover have "case r of Inr a \<Rightarrow> generation b' = generation b | Inl e \<Rightarrow> is_out_of_sync e"
    using apply_delta_cases [OF assms(2)] run
    by (auto simp: store_delta_def split: option.splits if_splits verdict.splits)
  ultimately show ?thesis using run by blast
qed

section \<open>Every operation keeps the invariant\<close>

text \<open>The order-book data of an instrument once a gap has withdrawn it.\<close>

definition withdrawn :: "market_state \<Rightarrow> instrument \<Rightarrow> bool" where
  "withdrawn s ins \<longleftrightarrow> (\<exists>b. order_books s ins = Some b \<and> \<not> is_synchronized b) \<and>
     order_book_history s ins = None \<and> best_level_history s ins = None \<and>
     marked_at (freshness s) (ins, ORDER_BOOK) = None"

abbreviation gap_only :: "instrument \<Rightarrow> exn \<Rightarrow> market_state \<Rightarrow> bool" where
  "gap_only ins e s \<equiv> is_out_of_sync e \<and> market_ok s \<and> withdrawn s ins"

lemma wp_add_instrument [wp_rules]:
  "wp (add_instrument ins) Q E s = Q () (s\<lparr>instruments := List.insert ins (instruments s)\<rparr>)"
  by (simp add: add_instrument_def wp_rules)

lemma wp_mark_event [wp_rules]:
  "wp (mark_event e) Q E s = Q () (s\<lparr>freshness := mark e (freshness s)\<rparr>)"
  by (simp add: mark_event_def wp_rules)

lemma market_ok_frame [simp]:
  "market_ok (s\<lparr>instruments := i\<rparr>) = market_ok s"
  "market_ok (s\<lparr>freshness := f\<rparr>) = market_ok s"
  "market_ok (s\<lparr>tickers := t\<rparr>) = market_ok s"
  "market_ok (s\<lparr>funding_rates := fr\<rparr>) = market_ok s"
  "market_ok (s\<lparr>open_interests := oi\<rparr>) = market_ok s"
  by (simp_all add: market_ok_def settings_ok_def)

lemma new_market_state_ok:
  "new_market_state c = Inr s \<Longrightarrow> 1 \<le> cfg_order_book_depth c \<Longrightarrow> market_ok s"
  by (auto simp: new_market_state_def market_ok_def settings_ok_def new_candle_store_def
      candle_store_ok_def trades_inv_def book_inv_def split: if_splits)

lemma new_order_book_outcome:
  "1 \<le> d \<Longrightarrow> \<exists>b. new_order_book ins d = Inr b \<and> book_ok b \<and> ob_instrument b = ins"
  by (auto simp: new_order_book_def book_ok_def side_ok_def)

text \<open>The invariant after an update of one instrument's part.\<close>

abbreviation books_at :: "market_state \<Rightarrow> instrument \<Rightarrow> bool" where
  "books_at s ins \<equiv> book_inv (order_book_history_size s) ins (order_books s ins)
     (order_book_history s ins) (best_level_history s ins)"

lemma market_ok_books_at: "market_ok s \<Longrightarrow> books_at s ins"
  by (simp add: market_ok_def)

lemma market_ok_set_book:
  "market_ok s \<Longrightarrow> book_inv (order_book_history_size s) ins b (order_book_history s ins)
       (best_level_history s ins) \<Longrightarrow>
     market_ok (s\<lparr>order_books := (order_books s)(ins := b)\<rparr>)"
  by (simp add: market_ok_def settings_ok_def)

lemma market_ok_set_history:
  "market_ok s \<Longrightarrow> book_inv (order_book_history_size s) ins (order_books s ins) h
       (best_level_history s ins) \<Longrightarrow>
     market_ok (s\<lparr>order_book_history := (order_book_history s)(ins := h)\<rparr>)"
  by (simp add: market_ok_def settings_ok_def)

lemma market_ok_set_best:
  "market_ok s \<Longrightarrow> book_inv (order_book_history_size s) ins (order_books s ins)
       (order_book_history s ins) h \<Longrightarrow>
     market_ok (s\<lparr>best_level_history := (best_level_history s)(ins := h)\<rparr>)"
  by (simp add: market_ok_def settings_ok_def)

lemma market_ok_set_all:
  "market_ok s \<Longrightarrow> book_inv (order_book_history_size s) ins b h g \<Longrightarrow>
     market_ok (s\<lparr>order_books := (order_books s)(ins := b),
        order_book_history := (order_book_history s)(ins := h),
        best_level_history := (best_level_history s)(ins := g), freshness := f\<rparr>)"
  by (simp add: market_ok_def settings_ok_def)

lemma market_ok_set_trades:
  "market_ok s \<Longrightarrow> trades_inv (recent_trade_limit s) ts ids \<Longrightarrow>
     market_ok (s\<lparr>trades := (trades s)(ins := ts), trade_ids := (trade_ids s)(ins := ids)\<rparr>)"
  by (simp add: market_ok_def settings_ok_def)

lemma book_inv_fresh: "book_inv n ins None oh bh \<Longrightarrow> book_ok b \<Longrightarrow> ob_instrument b = ins \<Longrightarrow>
    book_inv n ins (Some b) oh bh"
  by (simp add: book_inv_def)

lemma book_inv_same_generation:
  "book_inv n ins (Some b) oh bh \<Longrightarrow> book_ok b' \<Longrightarrow> ob_instrument b' = ob_instrument b \<Longrightarrow>
     generation b' = generation b \<Longrightarrow> book_inv n ins (Some b') oh bh"
  by (simp add: book_inv_def)

lemma book_inv_push:
  "book_inv n ins (Some b) oh bh \<Longrightarrow> obs_generation x = generation b \<Longrightarrow>
     book_inv n ins (Some b) (Some (deque_append n (or_empty oh) x)) bh"
  "book_inv n ins (Some b) oh bh \<Longrightarrow> bl_generation y = generation b \<Longrightarrow> h = [] \<or> h = or_empty bh \<Longrightarrow>
     book_inv n ins (Some b) oh (Some (deque_append n h y))"
  using deque_append_length deque_append_set by (fastforce simp: book_inv_def)+

lemma wp_ensure_book:
  assumes "market_ok s"
  shows "wp (ensure_book ins) (\<lambda>_ t. market_ok t \<and> order_books t ins \<noteq> None) (\<lambda>_ _. False) s"
proof -
  obtain b where b: "new_order_book ins (order_book_depth s) = Inr b" "book_ok b" "ob_instrument b = ins"
    using new_order_book_outcome [of "order_book_depth s"] assms unfolding market_ok_def settings_ok_def by blast
  show ?thesis
  proof (cases "order_books s ins")
    case None
    then have "market_ok (s\<lparr>order_books := (order_books s)(ins := Some b)\<rparr>)"
      using assms b market_ok_books_at [OF assms, of ins]
      by (intro market_ok_set_book book_inv_fresh) simp_all
    with None b show ?thesis by (simp add: ensure_book_def wp_rules)
  qed (use assms b in \<open>simp add: ensure_book_def wp_rules\<close>)
qed

lemma ov_view [simp]: "ov_generation (view b) = generation b" "ov_is_synchronized (view b) = is_synchronized b"
  by (simp_all add: view_def)

lemma best_levels_ok: "market_ok s \<Longrightarrow> market_ok (record_best_levels ins t s)"
proof -
  assume ok: "market_ok s"
  show ?thesis
  proof (cases "order_books s ins")
    case None
    with ok show ?thesis by (simp add: record_best_levels_def get_order_book_def)
  next
    case (Some b)
    note at = market_ok_books_at [OF ok, of ins, unfolded Some]
    have "market_ok (s\<lparr>best_level_history := (best_level_history s)
        (ins := Some (deque_append (order_book_history_size s) h x))\<rparr>)"
      if "bl_generation x = generation b" "h = [] \<or> h = or_empty (best_level_history s ins)" for x h
      using that at Some by (intro market_ok_set_best [OF ok]) (simp add: book_inv_push(2))
    with ok Some show ?thesis
      by (simp add: record_best_levels_def get_order_book_def Let_def split: option.split bool.split)
  qed
qed

lemma best_levels_frame [simp]:
  "order_books (record_best_levels ins t s) = order_books s"
  "order_book_history (record_best_levels ins t s) = order_book_history s"
  "order_book_history_size (record_best_levels ins t s) = order_book_history_size s"
  "freshness (record_best_levels ins t s) = freshness s"
  by (auto simp: record_best_levels_def Let_def split: option.splits bool.splits)

lemma notional_total:
  "0 < pct \<Longrightarrow> pct < 100 \<Longrightarrow> \<exists>r. notional_within_range v pct = Inr r"
  by (auto simp: notional_within_range_def Let_def split: option.split)

lemma wp_record_order_book:
  assumes ok: "market_ok s" and b: "order_books s ins = Some b"
  shows "wp (record_order_book ins t) (\<lambda>_. market_ok) (\<lambda>_ _. False) s"
proof -
  let ?s1 = "record_best_levels ins t s"
  let ?s2 = "?s1\<lparr>order_book_history := (order_book_history ?s1)
    (ins \<mapsto> or_empty (order_book_history ?s1 ins))\<rparr>"
  have ok1: "market_ok ?s1" by (rule best_levels_ok [OF ok])
  have at1: "books_at ?s1 ins" by (rule market_ok_books_at [OF ok1])
  have ok2: "market_ok ?s2"
    by (rule market_ok_set_history [OF ok1]) (use at1 in \<open>simp add: book_inv_def split: option.splits\<close>)
  have at2: "books_at ?s2 ins" by (rule market_ok_books_at [OF ok2])
  have b2: "order_books ?s2 ins = Some b" using b by simp
  have pct: "0 < order_book_range_percent ?s2" "order_book_range_percent ?s2 < 100"
    using ok2 by (auto simp: market_ok_def settings_ok_def)
  obtain r where r: "notional_within_range (view b) (order_book_range_percent ?s2) = Inr r"
    using notional_total [OF pct] by blast
  have drop_ok: "market_ok (?s2\<lparr>order_book_history := (order_book_history ?s2)(ins := None)\<rparr>)"
    by (rule market_ok_set_history [OF ok2]) (use at2 b2 in \<open>simp add: book_inv_def\<close>)
  have push_ok: "market_ok (?s2\<lparr>order_book_history := (order_book_history ?s2)
      (ins \<mapsto> deque_append (order_book_history_size ?s2) (or_empty (order_book_history ?s2 ins))
         (observation_of ins t (view b) r))\<rparr>)"
    by (rule market_ok_set_history [OF ok2])
       (use book_inv_push(1) [OF at2 [unfolded b2], of "observation_of ins t (view b) r"] b2
        in \<open>simp add: observation_of_def\<close>)
  show ?thesis
    using ok2 drop_ok push_ok r b
    by (simp add: record_order_book_def wp_rules get_order_book_def)
qed

lemma wp_on_book:
  assumes "order_books s ins = Some b" and "m b = (r, b')"
  shows "wp (on_book ins m) Q E s = (case r of
      Inr a \<Rightarrow> Q a (s\<lparr>order_books := (order_books s)(ins \<mapsto> b')\<rparr>)
    | Inl e \<Rightarrow> E e (s\<lparr>order_books := (order_books s)(ins \<mapsto> b')\<rparr>))"
  using assms by (simp add: wp_def on_book_def split: sum.split)

lemma wp_market_apply_snapshot:
  assumes "market_ok s" and "snapshot_ok snap"
  shows "wp (market_apply_snapshot snap bridge) (\<lambda>_. market_ok) (\<lambda>_ _. False) s"
proof -
  let ?ins = "md_instrument (sn_metadata snap)"
  have step: "wp (on_book ?ins (apply_snapshot snap bridge))
      (\<lambda>_ t. market_ok t \<and> order_books t ?ins \<noteq> None) (\<lambda>_ _. False) t"
    if ok: "market_ok t" and some: "order_books t ?ins \<noteq> None" for t
  proof -
    from some obtain b where b: "order_books t ?ins = Some b" by blast
    note at = market_ok_books_at [OF ok, of ?ins, unfolded b]
    then have "book_ok b" "ob_instrument b = ?ins" by (simp_all add: book_inv_def)
    with book_snapshot_step [of b snap bridge] assms(2) obtain a b' where
      run: "apply_snapshot snap bridge b = (Inr a, b')" and b': "book_ok b'"
      "ob_instrument b' = ob_instrument b" "generation b' = generation b" by auto
    have "market_ok (t\<lparr>order_books := (order_books t)(?ins \<mapsto> b')\<rparr>)"
      by (rule market_ok_set_book [OF ok]) (rule book_inv_same_generation [OF at b'])
    with wp_on_book [of t ?ins b "apply_snapshot snap bridge", OF b run] show ?thesis by simp
  qed
  have rest: "wp (record_order_book ?ins x) (\<lambda>_. market_ok) (\<lambda>_ _. False) t"
    if "market_ok t" "order_books t ?ins \<noteq> None" for t x
    using that by (auto intro: wp_mono [OF wp_record_order_book])
  show ?thesis
    unfolding market_apply_snapshot_def Let_def wp_thenE wp_bindE wp_add_instrument
    by (rule wp_mono [OF wp_ensure_book])
       (use assms in \<open>auto simp: wp_rules intro!: wp_mono [OF step] wp_mono [OF rest]\<close>)
qed

lemma forget_frame [simp]: "policy (fold (forget ins) ks t) = policy t"
  by (induction ks arbitrary: t) simp_all

lemma invalidate_order_book_ok:
  assumes ok: "market_ok s"
  shows "market_ok (invalidate_order_book ins s)"
proof (cases "order_books s ins")
  case None
  have "market_ok (s\<lparr>order_books := (order_books s)(ins := None),
      order_book_history := (order_book_history s)(ins := None),
      best_level_history := (best_level_history s)(ins := None),
      freshness := forget ins ORDER_BOOK (freshness s)\<rparr>)"
    by (rule market_ok_set_all [OF ok]) (simp add: book_inv_def)
  moreover have "(order_books s)(ins := None) = order_books s" using None by (simp add: fun_upd_idem)
  ultimately show ?thesis using None by (simp add: invalidate_order_book_def)
next
  case (Some b)
  have "book_ok (snd (invalidate_book b))"
    using keeps_invalidate_book market_ok_books_at [OF ok, of ins] Some
    by (auto simp: keeps_def book_inv_def)
  moreover have "ob_instrument (snd (invalidate_book b)) = ins"
    using market_ok_books_at [OF ok, of ins] Some by (simp add: book_inv_def invalidate_book_run)
  ultimately have "market_ok (s\<lparr>order_books := (order_books s)(ins := Some (snd (invalidate_book b))),
      order_book_history := (order_book_history s)(ins := None),
      best_level_history := (best_level_history s)(ins := None),
      freshness := forget ins ORDER_BOOK (freshness s)\<rparr>)"
    by (intro market_ok_set_all [OF ok]) (simp add: book_inv_def)
  with Some show ?thesis by (simp add: invalidate_order_book_def)
qed

text \<open>
  The branch that raises: the book is stored as the gap left it, then invalidated; the
  invariant is restored by the invalidation, not before.
\<close>

lemma invalidate_after_store:
  assumes ok: "market_ok s" and "book_ok b'" and "ob_instrument b' = ins"
  shows "market_ok (invalidate_order_book ins (s\<lparr>order_books := (order_books s)(ins \<mapsto> b')\<rparr>))"
proof -
  have "book_ok (snd (invalidate_book b'))" using keeps_invalidate_book assms(2) by (simp add: keeps_def)
  moreover have "ob_instrument (snd (invalidate_book b')) = ins"
    using assms(3) by (simp add: invalidate_book_run)
  ultimately have "market_ok (s\<lparr>order_books := (order_books s)(ins := Some (snd (invalidate_book b'))),
      order_book_history := (order_book_history s)(ins := None),
      best_level_history := (best_level_history s)(ins := None),
      freshness := forget ins ORDER_BOOK (freshness s)\<rparr>)"
    by (intro market_ok_set_all [OF ok]) (simp add: book_inv_def)
  then show ?thesis by (simp add: invalidate_order_book_def)
qed

lemma withdrawn_after_invalidate:
  "withdrawn (invalidate_order_book ins (s\<lparr>order_books := (order_books s)(ins \<mapsto> b)\<rparr>)) ins"
  by (simp add: withdrawn_def invalidate_order_book_def invalidate_book_run forget_def)

lemma wp_delta_on_book:
  assumes ok: "market_ok s" and some: "order_books s (md_instrument (dl_metadata d)) \<noteq> None"
    and "delta_ok d"
  shows "wp (delta_on_book d) (\<lambda>_ t. market_ok t \<and> order_books t (md_instrument (dl_metadata d)) \<noteq> None)
    (gap_only (md_instrument (dl_metadata d))) s"
proof -
  let ?ins = "md_instrument (dl_metadata d)"
  from some obtain b where b: "order_books s ?ins = Some b" by blast
  note at = market_ok_books_at [OF ok, of ?ins, unfolded b]
  then have bok: "book_ok b" "?ins = ob_instrument b" by (simp_all add: book_inv_def)
  from book_delta_step [OF bok assms(3)] obtain r b' where run: "apply_delta d b = (r, b')"
    and b': "book_ok b'" "ob_instrument b' = ob_instrument b"
    and out: "case r of Inr a \<Rightarrow> generation b' = generation b | Inl e \<Rightarrow> is_out_of_sync e" by blast
  show ?thesis
  proof (cases r)
    case (Inl e)
    with run b out show ?thesis
      using invalidate_after_store [OF ok b'(1), of ?ins] withdrawn_after_invalidate [of ?ins s b'] b'(2) bok(2)
      by (simp add: wp_def delta_on_book_def on_book_def Let_def)
  next
    case (Inr a)
    with out have "market_ok (s\<lparr>order_books := (order_books s)(?ins \<mapsto> b')\<rparr>)"
      by (intro market_ok_set_book [OF ok] book_inv_same_generation [OF at b']) simp
    with run b Inr show ?thesis by (simp add: wp_def delta_on_book_def on_book_def Let_def)
  qed
qed

lemma wp_apply_order_book_delta:
  assumes "market_ok s" and "delta_ok d"
  shows "wp (apply_order_book_delta d) (\<lambda>_. market_ok) (gap_only (md_instrument (dl_metadata d))) s"
proof -
  let ?ins = "md_instrument (dl_metadata d)"
  have rest: "wp (record_order_book ?ins x) (\<lambda>_. market_ok) (gap_only ?ins) t"
    if "market_ok t" "order_books t ?ins \<noteq> None" for t x
    using that by (auto intro: wp_mono [OF wp_record_order_book])
  show ?thesis
    unfolding apply_order_book_delta_def Let_def wp_thenE wp_bindE
    by (rule wp_mono [OF wp_ensure_book])
       (use assms in \<open>auto simp: wp_rules intro!: wp_mono [OF wp_delta_on_book] wp_mono [OF rest]\<close>)
qed

lemma wp_apply_ticker: "market_ok s \<Longrightarrow> wp (apply_ticker e) (\<lambda>_. market_ok) (\<lambda>_ _. False) s"
  by (simp add: apply_ticker_def Let_def wp_rules)

lemma wp_apply_funding: "market_ok s \<Longrightarrow> wp (apply_funding e) (\<lambda>_. market_ok) (\<lambda>_ _. False) s"
  by (simp add: apply_funding_def Let_def wp_rules)

lemma wp_apply_candle: "market_ok s \<Longrightarrow> wp (apply_candle e) (\<lambda>_. market_ok) (\<lambda>_ _. False) s"
  using upsert_ok [of "candles s" e]
  by (auto simp: wp_def apply_candle_def market_ok_def settings_ok_def split: prod.split)

lemma record_open_interest_ok: "market_ok s \<Longrightarrow> market_ok (record_open_interest e previous s)"
  using deque_append_length
  by (auto simp: record_open_interest_def Let_def market_ok_def settings_ok_def)

lemma wp_apply_open_interest:
  "market_ok s \<Longrightarrow> wp (apply_open_interest e) (\<lambda>_. market_ok) (\<lambda>_ _. False) s"
  by (simp add: apply_open_interest_def Let_def wp_rules record_open_interest_ok)

text \<open>
  A trade: the identifier of the trade that leaves the deque is always in the set, so
  \<open>set.remove\<close> cannot raise.
\<close>

lemma trades_inv_push:
  "trades_inv n (Some ts) (Some ids) \<Longrightarrow> length ts < n \<Longrightarrow> trade_id e \<notin> ids \<Longrightarrow>
     trades_inv n (Some (ts @ [e])) (Some (insert (trade_id e) ids))"
  by (auto simp: trades_inv_def)

lemma trades_inv_rotate:
  "trades_inv n (Some (x # rest)) (Some ids) \<Longrightarrow> trade_id e \<notin> ids \<Longrightarrow>
     trades_inv n (Some (rest @ [e])) (Some (insert (trade_id e) (ids - {trade_id x})))"
  by (auto simp: trades_inv_def)

lemma wp_apply_trade:
  assumes ok: "market_ok s"
  shows "wp (apply_trade e) (\<lambda>_. market_ok) (\<lambda>_ _. False) s"
proof -
  define ins where "ins = md_instrument (tr_metadata e)"
  define ids where "ids = (case trade_ids s ins of None \<Rightarrow> {} | Some ids \<Rightarrow> ids)"
  define ts where "ts = or_empty (trades s ins)"
  have inv: "trades_inv (recent_trade_limit s) (Some ts) (Some ids)"
    using ok by (simp add: market_ok_def trades_inv_def ids_def ts_def)
  have limit: "0 < recent_trade_limit s" using ok by (simp add: market_ok_def settings_ok_def)
  have store: "trades_inv (recent_trade_limit s) us is \<Longrightarrow>
      market_ok (s\<lparr>trades := (trades s)(ins := us), trade_ids := (trade_ids s)(ins := is)\<rparr>)" for us "is"
    using ok by (simp add: market_ok_def settings_ok_def)
  have swap: "s\<lparr>trade_ids := a, trades := b\<rparr> = s\<lparr>trades := b, trade_ids := a\<rparr>" for a b by simp
  have only_ids: "market_ok (s\<lparr>trade_ids := (trade_ids s)(ins \<mapsto> ids)\<rparr>)"
    using ok inv by (simp add: market_ok_def settings_ok_def trades_inv_def ts_def)
  have push: "market_ok (s\<lparr>trades := (trades s)(ins \<mapsto> ts @ [e]),
      trade_ids := (trade_ids s)(ins \<mapsto> insert (trade_id e) ids)\<rparr>)"
    if "trade_id e \<notin> ids" "length ts \<noteq> recent_trade_limit s"
    using that inv by (intro store trades_inv_push) (auto simp: trades_inv_def)
  have rotate: "market_ok (s\<lparr>trades := (trades s)(ins \<mapsto> rest @ [e]),
      trade_ids := (trade_ids s)(ins \<mapsto> insert (trade_id e) (ids - {trade_id x}))\<rparr>)"
    if "trade_id e \<notin> ids" "ts = x # rest" for x rest
    using that inv by (intro store trades_inv_rotate) auto
  have head: "ts = x # rest \<Longrightarrow> trade_id x \<in> ids" for x rest
    using inv by (simp add: trades_inv_def)
  show ?thesis
    unfolding apply_trade_def Let_def ins_def [symmetric] wp_bindE wp_thenE wp_getE wp_modifyE
      ids_def [symmetric]
    using only_ids store [OF inv] limit push rotate head
    by (auto simp: wp_rules ts_def [symmetric] swap split: list.splits)
qed

theorem wp_apply_event:
  assumes "market_ok s" and "event_ok e"
  shows "wp (apply_event e) (\<lambda>_. market_ok) (gap_only (event_instrument e)) s"
proof -
  let ?s = "s\<lparr>instruments := List.insert (event_instrument e) (instruments s)\<rparr>"
  have ok: "market_ok ?s" using assms(1) by simp
  show ?thesis
    using assms(2) ok
    by (cases e)
       (auto simp: apply_event_def Let_def wp_rules wp_add_instrument
         intro!: wp_mono [OF wp_apply_ticker] wp_mono [OF wp_apply_candle] wp_mono [OF wp_apply_trade]
           wp_mono [OF wp_apply_funding] wp_mono [OF wp_apply_open_interest]
           wp_mono [OF wp_apply_order_book_delta] wp_mono [OF wp_market_apply_snapshot]
         simp: event_instrument_def)
qed

lemma keeps_apply_event: "event_ok e \<Longrightarrow> keeps market_ok (apply_event e)"
  by (auto simp: keeps_wp intro: wp_mono [OF wp_apply_event])

lemma market_ok_realtime: "market_ok s \<Longrightarrow> market_ok (invalidate_realtime_state ins s)"
  using invalidate_order_book_ok [of s ins]
  by (auto simp: invalidate_realtime_state_def Let_def market_ok_def settings_ok_def trades_inv_def)

lemma market_ok_stream: "market_ok s \<Longrightarrow> market_ok (invalidate_stream_state ins s)"
  using market_ok_realtime [of s ins] invalidate_candles_ok
  by (auto simp: invalidate_stream_state_def Let_def market_ok_def settings_ok_def)

section \<open>Everything a client can do with the state\<close>

datatype market_step = Receive market_event | BridgeSnapshot order_book_snapshot bool
  | InvalidateBook instrument | InvalidateRealtime instrument | InvalidateStream instrument
  | Register "instrument list"

fun take_step :: "market_step \<Rightarrow> market_state \<Rightarrow> market_state" where
  "take_step (Receive e) s = snd (apply_event e s)"
| "take_step (BridgeSnapshot sn bridge) s = snd (market_apply_snapshot sn bridge s)"
| "take_step (InvalidateBook ins) s = invalidate_order_book ins s"
| "take_step (InvalidateRealtime ins) s = invalidate_realtime_state ins s"
| "take_step (InvalidateStream ins) s = invalidate_stream_state ins s"
| "take_step (Register inss) s = register_instruments inss s"

fun step_ok :: "market_step \<Rightarrow> bool" where
  "step_ok (Receive e) = event_ok e"
| "step_ok (BridgeSnapshot sn bridge) = snapshot_ok sn"
| "step_ok _ = True"

lemma market_ok_step: "market_ok s \<Longrightarrow> step_ok x \<Longrightarrow> market_ok (take_step x s)"
proof (cases x)
  case (Receive e)
  then show "market_ok s \<Longrightarrow> step_ok x \<Longrightarrow> market_ok (take_step x s)"
    using keeps_apply_event [of e] by (simp add: keeps_def)
next
  case (BridgeSnapshot sn bridge)
  then show "market_ok s \<Longrightarrow> step_ok x \<Longrightarrow> market_ok (take_step x s)"
    using wp_market_apply_snapshot [of s sn bridge] by (auto simp: wp_def split: prod.splits sum.splits)
qed (simp_all add: invalidate_order_book_ok market_ok_realtime market_ok_stream register_instruments_def)

lemma market_ok_run: "market_ok s \<Longrightarrow> \<forall>x \<in> set xs. step_ok x \<Longrightarrow> market_ok (fold take_step xs s)"
  by (induction xs arbitrary: s) (simp_all add: market_ok_step)

end
