(* ===== verification/Market_Properties.thy ===== *)
theory Market_Properties
  imports Market_Invariant
begin

text \<open>
  The properties of the market data and market state layer: order books, candle windows,
  freshness, ingestion and the dispatch of events.
\<close>

section \<open>Sample data\<close>

definition sample_instrument :: instrument where
  "sample_instrument = \<lparr>exchange = BINANCE, market_type = SPOT, exchange_symbol = ''BTCUSDT'',
     canonical_symbol = ''BTC-USDT'', base_asset = ''BTC'', quote_asset = ''USDT'', settlement_asset = ''USDT''\<rparr>"

definition sample_metadata :: "int \<Rightarrow> int option \<Rightarrow> event_metadata" where
  "sample_metadata t seq = \<lparr>md_instrument = sample_instrument, exchange_timestamp = Datetime (seconds t),
     received_at = Datetime (seconds t), md_sequence_id = seq, timestamp_quality = EXCHANGE_TIME\<rparr>"

definition sample_level :: "decimal \<Rightarrow> decimal \<Rightarrow> book_level" where
  "sample_level p q = \<lparr>price = p, quantity = q\<rparr>"

definition sample_snapshot :: order_book_snapshot where
  "sample_snapshot = \<lparr>sn_metadata = sample_metadata 10 (Some 100),
     sn_bids = [sample_level 99 2, sample_level 98 3], sn_asks = [sample_level 101 1], sn_depth = 10\<rparr>"

text \<open>A delta that covers 101 and 102, and one that leaves a gap.\<close>

definition sample_delta :: order_book_delta where
  "sample_delta = \<lparr>dl_metadata = sample_metadata 11 (Some 102), dl_bids = [sample_level 98 0],
     dl_asks = [], first_sequence_id = Some 101, previous_sequence_id = None\<rparr>"

definition gapped_delta :: order_book_delta where
  "gapped_delta = \<lparr>dl_metadata = sample_metadata 12 (Some 110), dl_bids = [],
     dl_asks = [], first_sequence_id = Some 108, previous_sequence_id = None\<rparr>"

definition sample_book :: local_order_book where
  "sample_book = \<lparr>ob_instrument = sample_instrument, depth = 10, bids = [], asks = [],
     sequence_id = None, ob_exchange_timestamp = None, updated_at = None, is_synchronized = False,
     generation = 0, first_delta_after_snapshot = True\<rparr>"

definition sample_config :: market_config where
  "sample_config = \<lparr>cfg_candle_window_size = 3, cfg_order_book_depth = 10,
     cfg_order_book_range_percent = 1, cfg_recent_trade_limit = 2, cfg_open_interest_history_size = 2,
     cfg_order_book_history_size = 2, cfg_order_book_sample_seconds = 5, cfg_freshness_policy = None\<rparr>"

definition sample_market :: market_state where
  "sample_market = (case new_market_state sample_config of Inr s \<Rightarrow> s)"

lemmas sample_defs = sample_instrument_def sample_metadata_def sample_level_def sample_snapshot_def
  sample_delta_def gapped_delta_def sample_book_def seconds_def

lemma sample_market_new: "new_market_state sample_config = Inr sample_market"
  by (simp add: sample_market_def sample_config_def new_market_state_def new_candle_store_def)

section \<open>Order books\<close>

text \<open>
  C15. Whatever the order, loss or repetition of snapshots, deltas and invalidations, a
  synchronized Binance or OKX book is the venue's book at the sequence number it reports, for
  every price of both sides, provided each message is faithful to the venue's book.
\<close>

theorem synchronized_book_is_venue_book:
  assumes "new_order_book ins d = Inr b" and "checked_venue ins"
    and "\<forall>m \<in> set ms. faithful Sb Sa m"
    and "is_synchronized (fold deliver ms b)"
  shows "\<exists>seq. sequence_id (fold deliver ms b) = Some seq \<and>
    map_of (bids (fold deliver ms b)) = Sb seq \<and> map_of (asks (fold deliver ms b)) = Sa seq"
proof -
  have "tracks Sb Sa b" and "of_instrument ins b"
    using assms(1) by (auto simp: new_order_book_def tracks_def of_instrument_def split: if_splits)
  from tracks_run [OF this assms(2,3)] assms(4) show ?thesis
    by (auto simp: tracks_def at_sequence_def)
qed

text \<open>The venue of the witness: one bid is removed by the delta that ends at 102.\<close>

definition venue_bids :: "int \<Rightarrow> book_map" where
  "venue_bids n = (if n < 102 then [99 \<mapsto> 2, 98 \<mapsto> 3] else [99 \<mapsto> 2])"

definition venue_asks :: "int \<Rightarrow> book_map" where
  "venue_asks n = [101 \<mapsto> 1]"

definition sample_messages :: "book_message list" where
  "sample_messages = [BookDelta sample_delta, BookSnapshot sample_snapshot False, BookDelta sample_delta,
     BookDelta sample_delta]"

lemma sample_run: "is_synchronized (fold deliver sample_messages sample_book)"
  "sequence_id (fold deliver sample_messages sample_book) = Some 102"
  by (simp_all add: sample_messages_def sample_defs apply_delta_def apply_snapshot_def
      require_instrument_def eff_defs stale_snapshot_def venue_accepts_def validate_binance_def
      first_or_final_def Let_def)

lemma sample_faithful: "\<forall>m \<in> set sample_messages. faithful venue_bids venue_asks m"
proof -
  have "faithful_delta venue_bids venue_asks sample_delta"
    by (auto simp: faithful_delta_def covers_def venue_bids_def venue_asks_def sample_defs first_or_final_def)
  moreover have "faithful_snapshot venue_bids venue_asks sample_snapshot"
    by (auto simp: faithful_snapshot_def venue_bids_def venue_asks_def sample_defs levels_dict_def)
  ultimately show ?thesis by (simp add: sample_messages_def)
qed

lemma sample_new_book: "new_order_book sample_instrument 10 = Inr sample_book"
  by (simp add: new_order_book_def sample_book_def)

lemma sample_checked: "checked_venue sample_instrument"
  by (simp add: checked_venue_def sample_instrument_def)

lemma synchronized_book_is_venue_book_witness:
  "\<exists>seq. sequence_id (fold deliver sample_messages sample_book) = Some seq \<and>
     map_of (bids (fold deliver sample_messages sample_book)) = venue_bids seq \<and>
     map_of (asks (fold deliver sample_messages sample_book)) = venue_asks seq"
  by (rule synchronized_book_is_venue_book [OF sample_new_book sample_checked sample_faithful sample_run(1)])


text \<open>
  A gap is never bridged silently: when a live book receives a delta that the venue's
  sequence rule places after a missing one, \<open>apply_delta\<close> raises \<open>OrderBookOutOfSync\<close>, keeps
  the levels it had, and leaves the book unsynchronized, in a new generation if it was
  synchronized; every later delta then raises too, until a snapshot is applied.
\<close>

theorem gap_desynchronizes:
  assumes "md_instrument (dl_metadata d) = ob_instrument b"
    and "sequence_id b = Some seq" and "is_synchronized b \<or> first_delta_after_snapshot b"
    and "md_sequence_id (dl_metadata d) = Some final"
    and "verdict_of (exchange (ob_instrument b)) (market_type (ob_instrument b))
           (first_delta_after_snapshot b) d final seq = Gap"
  shows "\<exists>m. apply_delta d b = (Inl (OrderBookOutOfSync m), desync b) \<and>
    \<not> is_synchronized (desync b) \<and> bids (desync b) = bids b \<and> asks (desync b) = asks b \<and>
    generation (desync b) = (if is_synchronized b then generation b + 1 else generation b) \<and>
    (\<not> first_delta_after_snapshot b \<longrightarrow>
       (\<forall>d'. md_instrument (dl_metadata d') = ob_instrument b \<longrightarrow>
          (\<exists>m'. apply_delta d' (desync b) = (Inl (OrderBookOutOfSync m'), desync b))))"
proof -
  have later: "\<exists>m'. apply_delta d' (desync b) = (Inl (OrderBookOutOfSync m'), desync b)"
    if "\<not> first_delta_after_snapshot b" "md_instrument (dl_metadata d') = ob_instrument b" for d'
    using apply_delta_cases [of d' "desync b"] that assms(2) by (auto simp: desync_def)
  obtain m where "apply_delta d b = (Inl (OrderBookOutOfSync m), desync b)"
    using apply_delta_cases [OF assms(1)] assms(2-5) by auto
  with later show ?thesis by (auto simp: desync_def)
qed

definition live_book :: local_order_book where
  "live_book = sample_book\<lparr>bids := [(99, 2)], asks := [(101, 1)], sequence_id := Some 102,
     is_synchronized := True, first_delta_after_snapshot := False\<rparr>"

lemma live_book_shape:
  "md_instrument (dl_metadata gapped_delta) = ob_instrument live_book"
  "sequence_id live_book = Some 102" "is_synchronized live_book \<or> first_delta_after_snapshot live_book"
  "md_sequence_id (dl_metadata gapped_delta) = Some 110"
  "verdict_of (exchange (ob_instrument live_book)) (market_type (ob_instrument live_book))
     (first_delta_after_snapshot live_book) gapped_delta 110 102 = Gap"
  by (simp_all add: live_book_def sample_defs verdict_of_def first_or_final_def)

lemma gap_desynchronizes_witness:
  "\<exists>m. apply_delta gapped_delta live_book = (Inl (OrderBookOutOfSync m), desync live_book)"
  using gap_desynchronizes [OF live_book_shape] by blast

text \<open>
  The view of a well-formed book shows at most \<open>depth\<close> levels a side, bids strictly
  falling and asks strictly rising, all of them levels of the book; every level it leaves out
  is worse than every level it shows; and its best bid and best ask are the best prices the
  book holds.
\<close>

theorem view_shows_best_levels:
  assumes "book_ok b"
  shows "length (ov_bids (view b)) \<le> depth b \<and> length (ov_asks (view b)) \<le> depth b \<and>
    sorted_wrt (\<lambda>k l. price l < price k) (ov_bids (view b)) \<and>
    sorted_wrt (\<lambda>k l. price k < price l) (ov_asks (view b)) \<and>
    (\<forall>l \<in> set (ov_bids (view b)). (price l, quantity l) \<in> set (bids b)) \<and>
    (\<forall>l \<in> set (ov_asks (view b)). (price l, quantity l) \<in> set (asks b)) \<and>
    (\<forall>l. best_bid (view b) = Some l \<longrightarrow> (\<forall>(p, q) \<in> set (bids b). p \<le> price l)) \<and>
    (\<forall>l. best_ask (view b) = Some l \<longrightarrow> (\<forall>(p, q) \<in> set (asks b). price l \<le> p))"
proof -
  have bid: "p \<le> price l" if "best_bid (view b) = Some l" "(p, q) \<in> set (bids b)" for l p q
  proof (cases "level_of (p, q) \<in> set (ov_bids (view b))")
    case True
    with that(1) view_bids_sorted [OF assms] show ?thesis
      by (auto simp: best_bid_def split: list.splits)
  next
    case False
    from that(1) have "l \<in> set (ov_bids (view b))" by (auto simp: best_bid_def split: list.splits)
    then show ?thesis by (rule less_imp_le [OF view_best_bids [OF assms that(2) False]])
  qed
  have ask: "price l \<le> p" if "best_ask (view b) = Some l" "(p, q) \<in> set (asks b)" for l p q
  proof (cases "level_of (p, q) \<in> set (ov_asks (view b))")
    case True
    with that(1) view_asks_sorted [OF assms] show ?thesis
      by (auto simp: best_ask_def split: list.splits)
  next
    case False
    from that(1) have "l \<in> set (ov_asks (view b))" by (auto simp: best_ask_def split: list.splits)
    then show ?thesis by (rule less_imp_le [OF view_best_asks [OF assms that(2) False]])
  qed
  have "length (ov_bids (view b)) \<le> depth b" "length (ov_asks (view b)) \<le> depth b"
    by (simp_all add: view_def)
  with bid ask view_levels view_bids_sorted [OF assms] view_asks_sorted [OF assms]
  show ?thesis by (intro conjI) blast+
qed

lemma live_book_ok: "book_ok live_book"
  by (simp add: live_book_def sample_book_def book_ok_def side_ok_def)

lemma view_shows_best_levels_witness:
  "length (ov_bids (view live_book)) \<le> depth live_book \<and>
    sorted_wrt (\<lambda>k l. price l < price k) (ov_bids (view live_book)) \<and>
    sorted_wrt (\<lambda>k l. price k < price l) (ov_asks (view live_book))"
  using view_shows_best_levels [OF live_book_ok] by simp

section \<open>Market state\<close>

text \<open>
  C16. From a new market state on, whatever events, snapshots and invalidations it receives,
  every window and history stays bounded, the trade identifiers are exactly those of the trades
  kept, every book is well formed and every observation belongs to its book's current
  generation; and the only exception the next event can raise is a book's sequence gap.
\<close>

theorem market_state_invariant:
  assumes "new_market_state c = Inr s0" and "1 \<le> cfg_order_book_depth c"
    and "\<forall>x \<in> set xs. step_ok x" and "event_ok e"
  shows "market_ok (fold take_step xs s0) \<and>
    (\<forall>ex t. apply_event e (fold take_step xs s0) = (Inl ex, t) \<longrightarrow> is_out_of_sync ex \<and> market_ok t)"
proof -
  have ok: "market_ok (fold take_step xs s0)"
    by (rule market_ok_run [OF new_market_state_ok [OF assms(1,2)] assms(3)])
  with wp_raiseD [OF wp_apply_event [OF ok assms(4)]] show ?thesis by blast
qed

lemma sample_events_ok: "snapshot_ok sample_snapshot" "delta_ok gapped_delta" "delta_ok sample_delta"
  by (auto simp: snapshot_ok_def delta_ok_def sample_defs level_ok_def)

lemma market_state_invariant_witness:
  "market_ok (fold take_step [Receive (SnapshotEvent sample_snapshot)] sample_market)"
  using market_state_invariant [OF sample_market_new, of "[Receive (SnapshotEvent sample_snapshot)]"
      "DeltaEvent gapped_delta"] sample_events_ok
  by (simp add: sample_config_def)

text \<open>
  After a delta that raised a gap, no order-book data of the instrument can be used: the
  book is not synchronized, it is not fresh at any moment, both histories are empty and no best
  level is returned for any boundary.
\<close>

theorem gap_withdraws_order_book:
  assumes "market_ok s" and "delta_ok d" and "apply_event (DeltaEvent d) s = (Inl ex, t)"
    and "ins = md_instrument (dl_metadata d)"
  shows "\<not> is_fresh t ins ORDER_BOOK now \<and> get_order_book_history t ins = [] \<and>
    best_level_at t ins boundary = None \<and>
    (\<exists>v. get_order_book t ins = Some v \<and> \<not> ov_is_synchronized v)"
proof -
  have "withdrawn t ins"
    using wp_raiseD [OF wp_apply_event [OF assms(1), of "DeltaEvent d"] assms(3)] assms(2,4)
    by (simp add: event_instrument_def)
  then show ?thesis
    by (auto simp: withdrawn_def is_fresh_def get_order_book_history_def best_level_at_def
        get_order_book_def tracker_is_fresh_def)
qed

definition live_market :: market_state where
  "live_market = sample_market\<lparr>order_books := (order_books sample_market)(sample_instrument \<mapsto> live_book)\<rparr>"

lemma sample_market_ok: "market_ok sample_market"
  by (rule new_market_state_ok [OF sample_market_new]) (simp add: sample_config_def)

lemma sample_market_empty: "order_book_history sample_market ins = None"
  "best_level_history sample_market ins = None"
  by (simp_all add: sample_market_def sample_config_def new_market_state_def new_candle_store_def)

lemma live_market_ok: "market_ok live_market"
  unfolding live_market_def
  by (rule market_ok_set_book [OF sample_market_ok])
     (simp add: book_inv_def live_book_ok sample_market_empty,
      simp add: live_book_def sample_book_def)

lemma live_market_gap:
  "\<exists>ex t. apply_event (DeltaEvent gapped_delta) live_market = (Inl ex, t)"
proof -
  let ?ins = "sample_instrument"
  have ins: "md_instrument (dl_metadata gapped_delta) = ?ins" by (simp add: sample_defs)
  have depth: "order_book_depth live_market = 10" "order_books live_market ?ins = Some live_book"
    by (simp_all add: live_market_def sample_market_def sample_config_def new_market_state_def
        new_candle_store_def)
  obtain m where "apply_delta gapped_delta live_book = (Inl (OrderBookOutOfSync m), desync live_book)"
    using apply_delta_cases [OF live_book_shape(1)] live_book_shape(2-5) by auto
  with depth ins show ?thesis
    by (auto simp: apply_event_def Let_def thenE_def bindE_def add_instrument_def modifyE_def
        apply_order_book_delta_def ensure_book_def getE_def new_order_book_def delta_on_book_def
        on_book_def event_instrument_def)
qed

lemma gap_withdraws_order_book_witness:
  "\<exists>t. \<not> is_fresh t sample_instrument ORDER_BOOK (Datetime 0)"
proof -
  obtain ex t where "apply_event (DeltaEvent gapped_delta) live_market = (Inl ex, t)"
    using live_market_gap by blast
  from gap_withdraws_order_book [OF live_market_ok sample_events_ok(2) this refl] show ?thesis
    by (auto simp: sample_defs)
qed

text \<open>
  An accepted best level is current: \<open>best_level_at\<close> only returns an observation of the
  history that belongs to the book's current generation, was observed at or before the boundary
  and within the order-book freshness limit of it, while the book is synchronized; and it is
  the last one observed by the boundary, since every later entry of the history lies after it.
\<close>

theorem best_level_is_current:
  assumes "best_level_at s ins t = Some o'"
  shows "\<exists>b older newer. order_books s ins = Some b \<and> is_synchronized b \<and>
    or_empty (best_level_history s ins) = older @ [o'] @ newer \<and>
    bl_generation o' = generation b \<and> bl_observed_at o' \<le> t \<and>
    total_seconds (dt_diff t (bl_observed_at o')) \<le> order_book_seconds (policy (freshness s)) \<and>
    (\<forall>n \<in> set newer. t < bl_observed_at n)"
proof -
  have search: "\<exists>newer older. xs = newer @ [o'] @ older \<and> bl_generation o' = g \<and> bl_observed_at o' \<le> t \<and>
      total_seconds (dt_diff t (bl_observed_at o')) \<le> limit \<and> (\<forall>n \<in> set newer. t < bl_observed_at n)"
    if "best_level_search g t limit xs = Some o'" for g limit xs
    using that
  proof (induction xs)
    case (Cons x xs)
    show ?case
    proof (cases "bl_observed_at x \<le> t")
      case True
      with Cons.prems show ?thesis by (intro exI [of _ "[]"] exI [of _ xs]) (auto split: if_splits)
    next
      case False
      with Cons obtain newer older where "xs = newer @ [o'] @ older" "bl_generation o' = g"
        "bl_observed_at o' \<le> t" "total_seconds (dt_diff t (bl_observed_at o')) \<le> limit"
        "\<forall>n \<in> set newer. t < bl_observed_at n" by (auto split: if_splits)
      with False show ?thesis by (intro exI [of _ "x # newer"] exI [of _ older]) auto
    qed
  qed simp
  obtain b where b: "order_books s ins = Some b" "is_synchronized b"
    "best_level_search (generation b) t (order_book_seconds (policy (freshness s)))
       (rev (or_empty (best_level_history s ins))) = Some o'"
    using assms by (auto simp: best_level_at_def split: option.splits if_splits)
  from search [OF b(3)] obtain newer older where
    "rev (or_empty (best_level_history s ins)) = newer @ [o'] @ older" and rest:
    "bl_generation o' = generation b" "bl_observed_at o' \<le> t"
    "total_seconds (dt_diff t (bl_observed_at o')) \<le> order_book_seconds (policy (freshness s))"
    "\<forall>n \<in> set newer. t < bl_observed_at n" by blast
  then have "or_empty (best_level_history s ins) = rev older @ [o'] @ rev newer"
    by (metis append.assoc rev_append rev_rev_ident rev_singleton_conv)
  with b rest show ?thesis by (metis set_rev)
qed

definition sample_best :: best_level_observation where
  "sample_best = \<lparr>bl_observed_at = Datetime (seconds 11), bl_bid_notional = 198, bl_ask_notional = 101,
     bl_generation = 0\<rparr>"

definition sampled_market :: market_state where
  "sampled_market = live_market\<lparr>best_level_history := [sample_instrument \<mapsto> [sample_best]]\<rparr>"

lemma sampled_market_best: "best_level_at sampled_market sample_instrument (Datetime (seconds 12)) = Some sample_best"
  by (simp add: best_level_at_def sampled_market_def live_market_def sample_market_def sample_config_def
      new_market_state_def new_candle_store_def sample_best_def live_book_def sample_book_def
      datetime_order seconds_def dt_diff_def total_seconds_def new_freshness_tracker_def default_policy_def)

lemma best_level_is_current_witness:
  "total_seconds (dt_diff (Datetime (seconds 12)) (bl_observed_at sample_best)) \<le>
     order_book_seconds (policy (freshness sampled_market))"
  using best_level_is_current [OF sampled_market_best] by blast

section \<open>Candles\<close>

text \<open>
  The window after an update, as one would specify it: a candle that opens later than all is
  appended; a candle that opens with a stored one replaces it when the stored one may be
  replaced (never a closed candle by an open one, never a closed duplicate); any other is
  refused.
\<close>

definition appends :: "candle list \<Rightarrow> candle \<Rightarrow> bool" where
  "appends w c \<longleftrightarrow> (\<forall>e \<in> set w. open_time e < open_time c)"

definition replaces :: "candle list \<Rightarrow> candle \<Rightarrow> bool" where
  "replaces w c \<longleftrightarrow> (\<exists>e \<in> set w. open_time e = open_time c \<and> replaceable e c)"

definition reference_window :: "nat \<Rightarrow> candle list \<Rightarrow> candle \<Rightarrow> candle list" where
  "reference_window n w c =
     (if appends w c then deque_append n w c
      else if replaces w c then map (\<lambda>e. if open_time e = open_time c then c else e) w
      else w)"

abbreviation strictly_opened :: "candle list \<Rightarrow> bool" where
  "strictly_opened w \<equiv> sorted_wrt (\<lambda>c d. open_time c < open_time d) w"

lemma replace_existing_reference:
  "strictly_opened w \<Longrightarrow> replace_existing w c = (if replaces w c
     then Some (map (\<lambda>e. if open_time e = open_time c then c else e) w) else None)"
proof (induction w)
  case (Cons e w)
  show ?case
  proof (cases "open_time e = open_time c")
    case True
    then have "\<forall>d \<in> set w. open_time d \<noteq> open_time c" using Cons.prems by auto
    then have "map (\<lambda>e. if open_time e = open_time c then c else e) w = w" by (induction w) auto
    with True \<open>\<forall>d \<in> set w. open_time d \<noteq> open_time c\<close> show ?thesis by (auto simp: replaces_def)
  next
    case False
    with Cons show ?thesis by (auto simp: replaces_def)
  qed
qed (simp add: replaces_def)

lemma replace_last:
  assumes "strictly_opened w" and "w \<noteq> []" and "open_time c = open_time (last w)"
  shows "w[length w - 1 := c] = map (\<lambda>e. if open_time e = open_time c then c else e) w"
    and "replaces w c \<longleftrightarrow> replaceable (last w) c"
proof -
  from assms(2) obtain v x where w: "w = v @ [x]" by (metis append_butlast_last_id)
  with assms(1,3) have ne: "\<forall>d \<in> set v. open_time d \<noteq> open_time c"
    by (auto simp: sorted_wrt_append)
  then have "map (\<lambda>e. if open_time e = open_time c then c else e) v = v" by (induction v) auto
  with w assms(3) show "w[length w - 1 := c] = map (\<lambda>e. if open_time e = open_time c then c else e) w" by simp
  from w ne assms(3) show "replaces w c \<longleftrightarrow> replaceable (last w) c" by (auto simp: replaces_def)
qed

lemma upsert_window_reference:
  assumes "strictly_opened w"
  shows "(case upsert_window n w c of None \<Rightarrow> w | Some w' \<Rightarrow> w') = reference_window n w c"
    and "upsert_window n w c \<noteq> None \<longleftrightarrow> appends w c \<or> replaces w c"
proof -
  have app: "appends w c \<longleftrightarrow> w = [] \<or> open_time (last w) < open_time c"
    unfolding appends_def by (metis assms empty_iff last_in_set list.set(1) order_le_less_trans sorted_open_last)
  show "(case upsert_window n w c of None \<Rightarrow> w | Some w' \<Rightarrow> w') = reference_window n w c"
    using app replace_last [OF assms, of c] replace_existing_reference [OF assms, of c]
    by (auto simp: upsert_window_def reference_window_def)
  show "upsert_window n w c \<noteq> None \<longleftrightarrow> appends w c \<or> replaces w c"
    using app replace_last [OF assms, of c] replace_existing_reference [OF assms, of c]
    by (auto simp: upsert_window_def)
qed

text \<open>
  C17. The candle store does what its specification says: on a well-formed store, \<open>upsert\<close>
  leaves every other window alone, turns the candle's own window into the reference window,
  reports whether it changed it, and the store stays well formed (bounded windows, strictly
  rising opening times); a closed candle can only be replaced by a closed one.
\<close>

theorem upsert_meets_reference:
  assumes "candle_store_ok s"
  shows "window_of (snd (upsert c s)) k =
      (if k = candle_key c then reference_window (max_size s) (window_of s k) c else window_of s k) \<and>
    (fst (upsert c s) \<longleftrightarrow> appends (window_of s (candle_key c)) c \<or> replaces (window_of s (candle_key c)) c) \<and>
    candle_store_ok (snd (upsert c s)) \<and>
    (replaces (window_of s (candle_key c)) c \<longrightarrow>
       (\<forall>e \<in> set (window_of s (candle_key c)). open_time e = open_time c \<and> is_closed e \<longrightarrow> is_closed c))"
proof -
  have sorted: "strictly_opened (window_of s q)" for q
    using window_ok_window_of [OF assms, of q] by (simp add: window_ok_def)
  have same: "e = e'" if "e \<in> set w" "e' \<in> set w" "open_time e = open_time e'" "strictly_opened w" for e e' w
    using that by (induction w) auto
  have "is_closed c" if "replaces (window_of s (candle_key c)) c" "e \<in> set (window_of s (candle_key c))"
    "open_time e = open_time c" "is_closed e" for e
  proof -
    from that(1) obtain e' where e': "e' \<in> set (window_of s (candle_key c))"
      "open_time e' = open_time c" "replaceable e' c" by (auto simp: replaces_def)
    with same [OF that(2) e'(1) _ sorted] that(3) have "e = e'" by simp
    with e'(3) that(4) show ?thesis by (simp add: replaceable_def)
  qed
  with upsert_window_reference [OF sorted [of "candle_key c"], of "max_size s" c] upsert_ok [OF assms]
  show ?thesis by (auto simp: window_of_upsert fst_upsert)
qed

definition sample_store :: candle_window_store where
  "sample_store = \<lparr>max_size = 2, windows = []\<rparr>"

definition sample_candle :: "int \<Rightarrow> bool \<Rightarrow> candle" where
  "sample_candle t cl = \<lparr>cd_metadata = sample_metadata t None, interval = ''5m'',
     open_time = Datetime (seconds t), close_time = Datetime (seconds (t + 300)), c_open = 1, high = 2, low = 1,
     close = 2, base_volume = 1, quote_volume = None, is_closed = cl, taker_buy_base_volume = None,
     taker_buy_quote_volume = None\<rparr>"

lemma upsert_meets_reference_witness:
  "window_of (snd (upsert (sample_candle 0 True) sample_store)) (sample_instrument, ''5m'') = [sample_candle 0 True]"
proof -
  have ok: "candle_store_ok sample_store" by (simp add: sample_store_def candle_store_ok_def)
  have key: "candle_key (sample_candle 0 True) = (sample_instrument, ''5m'')"
    by (simp add: candle_key_def sample_candle_def sample_metadata_def)
  show ?thesis
    using upsert_meets_reference [OF ok, of "sample_candle 0 True" "(sample_instrument, ''5m'')"] key
    by (simp add: reference_window_def appends_def sample_store_def window_of_def deque_append_def)
qed

text \<open>
  \<open>contiguous_closed_window\<close> returns the newest gap-free run: a non-empty result has
  exactly the size asked for; its candles are closed, of the interval, taken from the input and
  complete by \<open>ending_at\<close>; the n-th opens exactly n intervals after the first; and no
  admissible candle of the input opens after its last.
\<close>

theorem contiguous_window_is_newest_run:
  assumes "contiguous_closed_window cs i sz ending = Inr w" and "w \<noteq> []"
    and "interval_duration i = Inr d"
  shows "int (length w) = sz \<and>
    (\<forall>c \<in> set w. c \<in> set cs \<and> eligible_candle i d ending c) \<and>
    (\<forall>n < length w. us (open_time (w ! n)) = us (open_time (hd w)) + int n * d) \<and>
    (\<forall>c \<in> set cs. eligible_candle i d ending c \<longrightarrow> open_time c \<le> open_time (last w))"
proof -
  have "c \<in> set cs \<and> eligible_candle i d ending c" if "c \<in> set w" for c
    using window_members [OF assms(1) that] assms(3)
    by (auto simp: eligible_candle_def split: option.splits)
  with window_shape [OF assms] contiguous_nth window_latest [OF assms] show ?thesis by blast
qed

lemma sample_window:
  "contiguous_closed_window [sample_candle 300 True, sample_candle 600 False, sample_candle 0 True] ''5m'' 2 None =
     Inr [sample_candle 0 True, sample_candle 300 True]"
  by (simp add: contiguous_closed_window_def interval_duration_def CANDLE_INTERVAL_DURATIONS_def
      eligible_candle_def sample_candle_def datetime_order seconds_def dt_diff_def Let_def)

lemma contiguous_window_is_newest_run_witness:
  "us (open_time ([sample_candle 0 True, sample_candle 300 True] ! 1)) = seconds 300"
  using contiguous_window_is_newest_run [OF sample_window, of "seconds 300"]
  by (simp add: interval_duration_def CANDLE_INTERVAL_DURATIONS_def sample_candle_def seconds_def)

section \<open>Ingestion\<close>

text \<open>
  Ingestion admits an event exactly when its time can be trusted or lies in the allowed
  range: an event whose timestamp is only the receive time is always admitted; any other is
  rejected as too old exactly when its age exceeds the allowed age, and as future exactly when
  it is stamped more than the allowed skew after its receipt; the two exclude each other, and
  the allowed age is never below the configured one.
\<close>

theorem ingestion_decision:
  assumes "ingestion_ok p" and "allowed_age p e = Inr a"
  shows "max_source_age_seconds p \<le> a \<and>
    rejection_reason p e = Inr (
      if timestamp_quality (event_meta e) = RECEIVE_ONLY then None
      else if a < source_age e then Some SOURCE_TOO_OLD
      else if source_age e < - max_future_skew_seconds p then Some SOURCE_IN_FUTURE else None) \<and>
    \<not> (a < source_age e \<and> source_age e < - max_future_skew_seconds p)"
  using allowed_age_ge [OF assms] assms
  by (auto simp: rejection_reason_def ingestion_ok_def)

definition sample_policy :: ingestion_policy where
  "sample_policy = \<lparr>max_source_age_seconds = 60, max_future_skew_seconds = 5\<rparr>"

lemma ingestion_decision_witness:
  "rejection_reason sample_policy (CandleEvent (sample_candle 0 True)) = Inr None"
proof -
  have a: "allowed_age sample_policy (CandleEvent (sample_candle 0 True)) = Inr 360"
    by (simp add: allowed_age_def sample_policy_def sample_candle_def interval_duration_def
        CANDLE_INTERVAL_DURATIONS_def total_seconds_def sample_metadata_def seconds_def)
  have p: "ingestion_ok sample_policy" by (simp add: ingestion_ok_def sample_policy_def)
  show ?thesis
    using ingestion_decision [OF p a]
    by (simp add: sample_candle_def sample_metadata_def source_age_def dt_diff_def total_seconds_def
        sample_policy_def)
qed

end
