(* ===== verification/Signal_Policy.thy ===== *)
theory Signal_Policy
  imports Market_Data
begin

text \<open>
  src/src/quant_signal_agent/signals/models.py and signals/policy.py: the advisory signal and
  its constructor checks, the signal policy, and the deduplicator that refuses a repeated
  occurrence and spaces the signals of one fingerprint by a cooldown.

  The two dictionaries of the deduplicator are association lists in insertion order, since
  the oldest occurrence is the one evicted.
\<close>

section \<open>Signals\<close>

datatype signal_direction = BULLISH | BEARISH | NEUTRAL

datatype signal_level = WATCH | SIGNAL

record signal =
  strategy_name :: string
  strategy_version :: string
  sg_canonical_symbol :: string
  direction :: signal_direction
  reason :: string
  occurred_at :: datetime
  fingerprint :: string
  strength :: "decimal option"
  exchanges :: "exchange list"
  expires_at :: "datetime option"
  attributes :: "(string \<times> string) list"
  level :: signal_level

definition check_strength :: "signal \<Rightarrow> exn + signal" where
  "check_strength g = (case strength g of
       None \<Rightarrow> Inr g
     | Some x \<Rightarrow> if 0 \<le> x \<and> x \<le> 1 then Inr g
         else Inl (ValueError ''Signal strength must be between 0 and 1''))"

text \<open>
  \<open>Signal.__post_init__\<close>: \<open>build\<close> is the record as a function of its two times, which are
  checked to be aware in the order of the code.
\<close>

definition mk_signal ::
  "pydatetime \<Rightarrow> pydatetime option \<Rightarrow> (datetime \<Rightarrow> datetime option \<Rightarrow> signal) \<Rightarrow> exn + signal"
where
  "mk_signal occurred expires build =
     (case require_aware ''occurred_at'' occurred of
        Inl e \<Rightarrow> Inl e
      | Inr t \<Rightarrow>
         (let g = build t None in
          if strategy_name g = [] \<or> strategy_version g = []
          then Inl (ValueError ''Signal strategy name and version are required'')
          else if sg_canonical_symbol g = [] \<or> reason g = [] \<or> fingerprint g = []
          then Inl (ValueError ''Signal symbol, reason, and fingerprint are required'')
          else (case expires of
              None \<Rightarrow> check_strength g
            | Some x \<Rightarrow> (case require_aware ''expires_at'' x of
                Inl e \<Rightarrow> Inl e
              | Inr u \<Rightarrow> if u \<le> t then Inl (ValueError ''expires_at must be later than occurred_at'')
                         else check_strength (build t (Some u))))))"

definition signal_ok :: "signal \<Rightarrow> bool" where
  "signal_ok g \<longleftrightarrow> strategy_name g \<noteq> [] \<and> strategy_version g \<noteq> [] \<and> sg_canonical_symbol g \<noteq> [] \<and>
     reason g \<noteq> [] \<and> fingerprint g \<noteq> [] \<and>
     (case expires_at g of None \<Rightarrow> True | Some u \<Rightarrow> occurred_at g < u) \<and>
     (case strength g of None \<Rightarrow> True | Some x \<Rightarrow> 0 \<le> x \<and> x \<le> 1)"

section \<open>Policy\<close>

record signal_policy =
  cooldown_seconds :: rat
  max_signal_age_seconds :: rat
  evaluation_timeout_seconds :: rat
  history_size :: int

definition default_signal_policy :: signal_policy where
  "default_signal_policy = \<lparr>cooldown_seconds = 0, max_signal_age_seconds = 30,
     evaluation_timeout_seconds = 1, history_size = 1000\<rparr>"

definition mk_signal_policy :: "signal_policy \<Rightarrow> exn + signal_policy" where
  "mk_signal_policy p =
     (if cooldown_seconds p < 0 then Inl (ValueError ''Signal cooldown cannot be negative'')
      else if min (max_signal_age_seconds p) (evaluation_timeout_seconds p) \<le> 0
      then Inl (ValueError ''Signal timing policy values must be positive'')
      else if history_size p < 1 then Inl (ValueError ''Signal history size must be positive'')
      else Inr p)"

definition signal_policy_ok :: "signal_policy \<Rightarrow> bool" where
  "signal_policy_ok p \<longleftrightarrow> 0 \<le> cooldown_seconds p \<and> 0 < max_signal_age_seconds p \<and>
     0 < evaluation_timeout_seconds p \<and> 1 \<le> history_size p"

lemma mk_signal_policy_ok: "mk_signal_policy p = Inr q \<longleftrightarrow> q = p \<and> signal_policy_ok p"
  by (auto simp: mk_signal_policy_def signal_policy_ok_def min_def split: if_splits)

section \<open>The deduplicator\<close>

type_synonym occurrence = "string \<times> string \<times> string \<times> string \<times> datetime"

type_synonym emission_key = "string \<times> string"

record deduplicator =
  dd_cooldown :: rat
  occurrence_capacity :: nat
  last_emitted :: "(emission_key \<times> datetime) list"
  seen_occurrences :: "occurrence list"

definition new_deduplicator :: "rat \<Rightarrow> int \<Rightarrow> exn + deduplicator" where
  "new_deduplicator cooldown capacity =
     (if cooldown < 0 then Inl (ValueError ''Signal cooldown cannot be negative'')
      else if capacity < 1 then Inl (ValueError ''Signal occurrence capacity must be positive'')
      else Inr \<lparr>dd_cooldown = cooldown, occurrence_capacity = nat capacity, last_emitted = [],
             seen_occurrences = []\<rparr>)"

definition occurrence_key :: "signal \<Rightarrow> occurrence" where
  "occurrence_key g = (strategy_name g, strategy_version g, sg_canonical_symbol g, fingerprint g, occurred_at g)"

definition emission_key :: "signal \<Rightarrow> emission_key" where
  "emission_key g = (strategy_name g, fingerprint g)"

text \<open>\<open>while len(seen) > capacity: del seen[next(iter(seen))]\<close>\<close>

fun evict :: "nat \<Rightarrow> occurrence list \<Rightarrow> occurrence list" where
  "evict cap [] = []"
| "evict cap (k # ks) = (if cap < length (k # ks) then evict cap ks else k # ks)"

definition cooled_down :: "deduplicator \<Rightarrow> datetime \<Rightarrow> datetime \<Rightarrow> bool" where
  "cooled_down d now emitted_at \<longleftrightarrow> dd_cooldown d \<le> total_seconds (dt_diff now emitted_at)"

definition forget_expired :: "datetime \<Rightarrow> deduplicator \<Rightarrow> deduplicator" where
  "forget_expired now d = d\<lparr>last_emitted :=
     filter (\<lambda>(k, t). \<not> cooled_down d now t) (last_emitted d)\<rparr>"

definition accept :: "signal \<Rightarrow> datetime \<Rightarrow> deduplicator \<Rightarrow> bool \<times> deduplicator" where
  "accept g now d =
     (if occurrence_key g \<in> set (seen_occurrences d) then (False, d)
      else
        let d1 = d\<lparr>seen_occurrences :=
              evict (occurrence_capacity d) (seen_occurrences d @ [occurrence_key g])\<rparr> in
        if dd_cooldown d = 0 then (True, d1)
        else
          let d2 = forget_expired now d1 in
          case map_of (last_emitted d2) (emission_key g) of
            Some previous \<Rightarrow>
              if total_seconds (dt_diff now previous) < dd_cooldown d then (False, d2)
              else (True, d2\<lparr>last_emitted := AList.update (emission_key g) now (last_emitted d2)\<rparr>)
          | None \<Rightarrow> (True, d2\<lparr>last_emitted := AList.update (emission_key g) now (last_emitted d2)\<rparr>))"

section \<open>The deduplicator's invariant\<close>

definition dedup_ok :: "deduplicator \<Rightarrow> bool" where
  "dedup_ok d \<longleftrightarrow> 0 \<le> dd_cooldown d \<and> 0 < occurrence_capacity d \<and>
     distinct (map fst (last_emitted d)) \<and> distinct (seen_occurrences d) \<and>
     length (seen_occurrences d) \<le> occurrence_capacity d"

lemma new_deduplicator_ok: "new_deduplicator c n = Inr d \<Longrightarrow> dedup_ok d"
  by (auto simp: new_deduplicator_def dedup_ok_def split: if_splits)

lemma evict_drop: "evict cap ks = drop (length ks - cap) ks"
proof (induction ks)
  case (Cons k ks)
  then show ?case by (cases "cap < length (k # ks)") (auto simp: Suc_diff_le)
qed simp

lemma distinct_keys_filter: "distinct (map fst al) \<Longrightarrow> distinct (map fst (filter P al))"
  by (rule distinct_map_filter)

lemma map_of_filter_values:
  "distinct (map fst al) \<Longrightarrow> map_of (filter (\<lambda>(k, v). P v) al) q =
     (case map_of al q of None \<Rightarrow> None | Some v \<Rightarrow> if P v then Some v else None)"
proof (induction al)
  case (Cons kv al)
  have "map_of al (fst kv) = None" using Cons.prems by (simp add: map_of_eq_None_iff)
  with Cons show ?case by (cases kv) (auto split: option.splits)
qed simp

lemma forget_expired_frame [simp]:
  "dd_cooldown (forget_expired now d) = dd_cooldown d"
  "occurrence_capacity (forget_expired now d) = occurrence_capacity d"
  "seen_occurrences (forget_expired now d) = seen_occurrences d"
  by (simp_all add: forget_expired_def)

lemma accept_frame [simp]:
  "dd_cooldown (snd (accept g now d)) = dd_cooldown d"
  "occurrence_capacity (snd (accept g now d)) = occurrence_capacity d"
  by (auto simp: accept_def Let_def split: option.split)

lemma seen_after_accept:
  "seen_occurrences (snd (accept g now d)) =
     (if occurrence_key g \<in> set (seen_occurrences d) then seen_occurrences d
      else evict (occurrence_capacity d) (seen_occurrences d @ [occurrence_key g]))"
  by (auto simp: accept_def Let_def split: option.split)

lemma emitted_after_accept:
  assumes "dedup_ok d" and "dd_cooldown d \<noteq> 0" and "occurrence_key g \<notin> set (seen_occurrences d)"
  shows "fst (accept g now d) \<longleftrightarrow>
      (case map_of (last_emitted d) (emission_key g) of None \<Rightarrow> True | Some t \<Rightarrow> cooled_down d now t)"
    and "map_of (last_emitted (snd (accept g now d))) k =
      (if fst (accept g now d) \<and> k = emission_key g then Some now
       else case map_of (last_emitted d) k of
         None \<Rightarrow> None | Some t \<Rightarrow> if cooled_down d now t then None else Some t)"
proof -
  have dist: "distinct (map fst (last_emitted d))" using assms(1) by (simp add: dedup_ok_def)
  have old: "map_of (last_emitted (forget_expired now (d\<lparr>seen_occurrences := so\<rparr>))) q =
      (case map_of (last_emitted d) q of
         None \<Rightarrow> None | Some t \<Rightarrow> if cooled_down d now t then None else Some t)" for q so
    using map_of_filter_values [OF dist, of "\<lambda>t. \<not> cooled_down d now t" q]
    by (simp add: forget_expired_def cooled_down_def split: option.splits)
  show "fst (accept g now d) \<longleftrightarrow>
      (case map_of (last_emitted d) (emission_key g) of None \<Rightarrow> True | Some t \<Rightarrow> cooled_down d now t)"
    using assms(2,3) by (auto simp: accept_def Let_def old cooled_down_def split: option.splits)
  then show "map_of (last_emitted (snd (accept g now d))) k =
      (if fst (accept g now d) \<and> k = emission_key g then Some now
       else case map_of (last_emitted d) k of
         None \<Rightarrow> None | Some t \<Rightarrow> if cooled_down d now t then None else Some t)"
    using assms(2,3) by (auto simp: accept_def Let_def old cooled_down_def update_conv split: option.splits)
qed

lemma accept_ok: "dedup_ok d \<Longrightarrow> dedup_ok (snd (accept g now d))"
proof -
  assume d: "dedup_ok d"
  have keys: "distinct (map fst (last_emitted (snd (accept g now d))))"
    using d by (auto simp: accept_def Let_def dedup_ok_def forget_expired_def distinct_keys_filter
        alist_distinct_update split: option.split)
  have "distinct (seen_occurrences (snd (accept g now d)))"
    using d by (auto simp: seen_after_accept dedup_ok_def evict_drop dest: in_set_dropD)
  moreover have "length (seen_occurrences (snd (accept g now d))) \<le> occurrence_capacity d"
    using d by (auto simp: seen_after_accept dedup_ok_def evict_drop)
  ultimately show ?thesis using d keys by (simp add: dedup_ok_def)
qed

section \<open>A run of decisions\<close>

text \<open>The decisions, in order, for a sequence of signals and the times they are offered at.\<close>

fun decide :: "(signal \<times> datetime) list \<Rightarrow> deduplicator \<Rightarrow> (signal \<times> datetime) list \<times> deduplicator" where
  "decide [] d = ([], d)"
| "decide ((g, now) # rest) d =
     (case accept g now d of (ok, d') \<Rightarrow>
       (case decide rest d' of (out, d'') \<Rightarrow> ((if ok then (g, now) # out else out), d'')))"

text \<open>
  What the deduplicator remembers of a past emission: its time, or a later one, unless
  the cooldown has passed since.
\<close>

definition remembers :: "datetime \<Rightarrow> deduplicator \<Rightarrow> (signal \<times> datetime) \<Rightarrow> bool" where
  "remembers now d p \<longleftrightarrow> cooled_down d now (snd p) \<or>
     (\<exists>t. map_of (last_emitted d) (emission_key (fst p)) = Some t \<and> snd p \<le> t)"

lemma cooled_down_later: "cooled_down d now t \<Longrightarrow> now \<le> now' \<Longrightarrow> cooled_down d now' t"
proof -
  assume a: "cooled_down d now t" and le: "now \<le> now'"
  have "total_seconds (dt_diff now t) \<le> total_seconds (dt_diff now' t)"
    using le by (simp only: total_seconds_le_iff) (simp add: dt_diff_def datetime_order)
  with a show ?thesis by (simp only: cooled_down_def)
qed

lemma cooled_down_earlier: "cooled_down d now t \<Longrightarrow> t' \<le> t \<Longrightarrow> cooled_down d now t'"
proof -
  assume a: "cooled_down d now t" and le: "t' \<le> t"
  have "total_seconds (dt_diff now t) \<le> total_seconds (dt_diff now t')"
    using le by (simp only: total_seconds_le_iff) (simp add: dt_diff_def datetime_order)
  with a show ?thesis by (simp only: cooled_down_def)
qed

lemma cooled_down_frame: "dd_cooldown d' = dd_cooldown d \<Longrightarrow> cooled_down d' = cooled_down d"
  by (simp add: cooled_down_def fun_eq_iff)

lemma remembers_accept:
  assumes "dedup_ok d" and "dd_cooldown d \<noteq> 0" and "remembers before d p" and "before \<le> now"
    and "snd p \<le> now"
  shows "remembers now (snd (accept g now d)) p"
proof (cases "cooled_down d now (snd p)")
  case True
  then show ?thesis by (simp add: remembers_def cooled_down_frame [of "snd (accept g now d)" d])
next
  case False
  with assms(3,4) cooled_down_later obtain t where
    t: "map_of (last_emitted d) (emission_key (fst p)) = Some t" "snd p \<le> t"
    unfolding remembers_def by blast
  with False cooled_down_earlier have live: "\<not> cooled_down d now t" by blast
  show ?thesis
  proof (cases "occurrence_key g \<in> set (seen_occurrences d)")
    case True
    with t show ?thesis by (auto simp: remembers_def accept_def)
  next
    case seen: False
    with emitted_after_accept(2) [OF assms(1,2) seen, of now "emission_key (fst p)"] t live assms(5)
    show ?thesis by (auto simp: remembers_def)
  qed
qed

lemma accepted_is_spaced:
  assumes "dedup_ok d" and "dd_cooldown d \<noteq> 0" and "remembers before d p" and "before \<le> now"
    and "fst (accept g now d)" and "emission_key (fst p) = emission_key g"
  shows "dd_cooldown d \<le> total_seconds (dt_diff now (snd p))"
proof -
  have "occurrence_key g \<notin> set (seen_occurrences d)" using assms(5) by (auto simp: accept_def)
  with emitted_after_accept(1) [OF assms(1,2), of g now] assms(5)
  have free: "case map_of (last_emitted d) (emission_key g) of None \<Rightarrow> True | Some t \<Rightarrow> cooled_down d now t"
    by simp
  have "cooled_down d now (snd p)"
  proof (cases "cooled_down d before (snd p)")
    case True
    then show ?thesis by (rule cooled_down_later [OF _ assms(4)])
  next
    case False
    with assms(3,6) obtain t where "map_of (last_emitted d) (emission_key g) = Some t" "snd p \<le> t"
      by (auto simp: remembers_def)
    with free show ?thesis using cooled_down_earlier [of d now t "snd p"] by simp
  qed
  then show ?thesis by (simp only: cooled_down_def)
qed

lemma remembers_new:
  "dedup_ok d \<Longrightarrow> dd_cooldown d \<noteq> 0 \<Longrightarrow> fst (accept g now d) \<Longrightarrow> remembers now (snd (accept g now d)) (g, now)"
proof -
  assume a: "dedup_ok d" "dd_cooldown d \<noteq> 0" "fst (accept g now d)"
  then have "occurrence_key g \<notin> set (seen_occurrences d)" by (auto simp: accept_def)
  from emitted_after_accept(2) [OF a(1,2) this, of now "emission_key g"] a(3) show ?thesis
    by (simp add: remembers_def)
qed

lemma remembers_later: "remembers t d p \<Longrightarrow> t \<le> t' \<Longrightarrow> remembers t' d p"
  using cooled_down_later unfolding remembers_def by blast

abbreviation spaced :: "rat \<Rightarrow> (signal \<times> datetime) list \<Rightarrow> bool" where
  "spaced c \<equiv> sorted_wrt (\<lambda>p q. emission_key (fst p) = emission_key (fst q) \<longrightarrow>
     c \<le> total_seconds (dt_diff (snd q) (snd p)))"

lemma decide_spaced:
  assumes "dedup_ok d" and "dd_cooldown d \<noteq> 0" and "sorted (before # map snd offers)"
    and "\<forall>p \<in> set past. remembers before d p \<and> snd p \<le> before"
  shows "spaced (dd_cooldown d) (fst (decide offers d)) \<and>
    (\<forall>p \<in> set past. \<forall>q \<in> set (fst (decide offers d)). emission_key (fst p) = emission_key (fst q) \<longrightarrow>
       dd_cooldown d \<le> total_seconds (dt_diff (snd q) (snd p)))"
  using assms
proof (induction offers arbitrary: d before past)
  case (Cons p offers)
  obtain g now where p: "p = (g, now)" by force
  let ?d = "snd (accept g now d)" and ?ok = "fst (accept g now d)"
  let ?past = "if ?ok then (g, now) # past else past"
  have le: "before \<le> now" using Cons.prems(3) p by simp
  have kept: "remembers now ?d q \<and> snd q \<le> now" if "q \<in> set past" for q
    using that Cons.prems(4) le remembers_accept [OF Cons.prems(1,2) _ le, of q] by fastforce
  have "\<forall>q \<in> set ?past. remembers now ?d q \<and> snd q \<le> now"
    using kept remembers_new [OF Cons.prems(1,2), of g now] by auto
  with Cons.IH [of ?d now ?past] accept_ok [OF Cons.prems(1)] Cons.prems(2,3) p
  have IH: "spaced (dd_cooldown d) (fst (decide offers ?d))"
    "\<forall>q \<in> set ?past. \<forall>r \<in> set (fst (decide offers ?d)). emission_key (fst q) = emission_key (fst r) \<longrightarrow>
       dd_cooldown d \<le> total_seconds (dt_diff (snd r) (snd q))" by auto
  have first: "dd_cooldown d \<le> total_seconds (dt_diff now (snd q))"
    if "?ok" "q \<in> set past" "emission_key (fst q) = emission_key g" for q
    using accepted_is_spaced [OF Cons.prems(1,2) _ le that(1,3)] Cons.prems(4) that(2) by blast
  have out: "fst (decide (p # offers) d) =
      (if ?ok then (g, now) # fst (decide offers ?d) else fst (decide offers ?d))"
    by (simp add: p split: prod.split)
  show ?case
  proof (cases ?ok)
    case True
    with IH first show ?thesis unfolding out by auto
  next
    case False
    with IH show ?thesis unfolding out by auto
  qed
qed simp

text \<open>Within the capacity no occurrence is evicted, so none is accepted twice.\<close>

lemma decide_distinct:
  assumes "dedup_ok d" and "length (seen_occurrences d) + length offers \<le> occurrence_capacity d"
  shows "distinct (map (occurrence_key \<circ> fst) (fst (decide offers d))) \<and>
    set (map (occurrence_key \<circ> fst) (fst (decide offers d))) \<inter> set (seen_occurrences d) = {}"
  using assms
proof (induction offers arbitrary: d)
  case (Cons p offers)
  obtain g now where p: "p = (g, now)" by force
  let ?d = "snd (accept g now d)" and ?ok = "fst (accept g now d)"
  have cap: "length (seen_occurrences d) < occurrence_capacity d" using Cons.prems(2) by simp
  have seen: "seen_occurrences ?d = (if occurrence_key g \<in> set (seen_occurrences d) then seen_occurrences d
      else seen_occurrences d @ [occurrence_key g])"
    using cap by (simp add: seen_after_accept evict_drop)
  have ok: "?ok \<Longrightarrow> occurrence_key g \<notin> set (seen_occurrences d)" by (auto simp: accept_def)
  have IH: "distinct (map (occurrence_key \<circ> fst) (fst (decide offers ?d))) \<and>
    set (map (occurrence_key \<circ> fst) (fst (decide offers ?d))) \<inter> set (seen_occurrences ?d) = {}"
  proof (rule Cons.IH [OF accept_ok [OF Cons.prems(1)]])
    show "length (seen_occurrences ?d) + length offers \<le> occurrence_capacity ?d"
      using Cons.prems(2) by (simp add: seen)
  qed
  have out: "fst (decide (p # offers) d) =
      (if ?ok then (g, now) # fst (decide offers ?d) else fst (decide offers ?d))"
    by (simp add: p split: prod.split)
  show ?case using IH ok unfolding out seen comp_def by (auto split: if_splits)
qed simp

end
