(* ===== verification/Signal_Engine.thy ===== *)
theory Signal_Engine
  imports Signal_Policy Market_State
begin

text \<open>
  src/src/quant_signal_agent/signals/definitions.py, registry.py, engine.py and replay.py: signal
  definitions, their registry, the engine that evaluates them on an event, and the replay of a
  list of events.

  A definition's \<open>evaluate\<close> is user code: what it does on an event is a parameter, the function
  \<open>run\<close> from the definition to an \<open>evaluation\<close>, which may be anything the engine can
  observe: a sequence of candidates (\<open>None\<close> for a value that is not a \<open>Signal\<close>), a result
  that is not a sequence, a timeout or an exception. The signal handler is a function that
  says whether it raised.
\<close>

section \<open>Definitions and registry\<close>

datatype signal_horizon = SHORT_TERM | MEDIUM_TERM | LONG_TERM

record signal_requirements =
  trigger_kinds :: "data_kind list"
  fresh_data :: "data_kind list"
  candle_history :: "(string \<times> int) list"
  minimum_venues :: int
  trigger_candle_intervals :: "string list"

definition mk_signal_requirements :: "signal_requirements \<Rightarrow> exn + signal_requirements" where
  "mk_signal_requirements r =
     (if trigger_kinds r = [] then Inl (ValueError ''At least one trigger kind is required'')
      else if minimum_venues r < 1 then Inl (ValueError ''Minimum venues must be positive'')
      else if list_ex (\<lambda>(i, n). n < 1) (candle_history r)
      then Inl (ValueError ''Candle history requirements must be positive'')
      else Inr r)"

record signal_definition =
  df_name :: string
  df_version :: string
  horizon :: signal_horizon
  requirements :: signal_requirements

text \<open>The registry's dictionary from name to definition, in insertion order.\<close>

type_synonym signal_registry = "signal_definition list"

definition register :: "signal_definition \<Rightarrow> signal_registry \<Rightarrow> exn + signal_registry" where
  "register d reg =
     (if df_name d = [] \<or> df_version d = []
      then Inl (ValueError ''Signal definition name and version are required'')
      else if df_name d \<in> set (map df_name reg)
      then Inl (ValueError (''Signal definition already registered: '' @ df_name d))
      else Inr (reg @ [d]))"

fun register_all :: "signal_definition list \<Rightarrow> signal_registry \<Rightarrow> exn + signal_registry" where
  "register_all [] reg = Inr reg"
| "register_all (d # ds) reg = (case register d reg of
       Inl e \<Rightarrow> Inl e | Inr reg' \<Rightarrow> register_all ds reg')"

definition new_registry :: "signal_definition list \<Rightarrow> exn + signal_registry" where
  "new_registry ds = register_all ds []"

definition for_horizon :: "signal_horizon \<Rightarrow> signal_registry \<Rightarrow> signal_registry" where
  "for_horizon h reg = filter (\<lambda>d. horizon d = h) reg"

definition registry_ok :: "signal_registry \<Rightarrow> bool" where
  "registry_ok reg \<longleftrightarrow> distinct (map df_name reg) \<and> (\<forall>d \<in> set reg. df_name d \<noteq> [] \<and> df_version d \<noteq> [])"

lemma register_ok: "registry_ok reg \<Longrightarrow> register d reg = Inr reg' \<Longrightarrow> registry_ok reg'"
  by (auto simp: register_def registry_ok_def split: if_splits)

lemma new_registry_ok: "new_registry ds = Inr reg \<Longrightarrow> registry_ok reg \<and> reg = ds"
proof -
  have "register_all ds acc = Inr reg \<Longrightarrow> registry_ok acc \<Longrightarrow> registry_ok reg \<and> reg = acc @ ds" for acc
  proof (induction ds arbitrary: acc)
    case (Cons d ds)
    then obtain acc' where a: "register d acc = Inr acc'" "register_all ds acc' = Inr reg"
      by (auto split: sum.splits)
    have "acc' = acc @ [d]" using a(1) by (simp add: register_def split: if_splits)
    moreover from Cons.IH [OF a(2) register_ok [OF Cons.prems(2) a(1)]]
    have "registry_ok reg" "reg = acc' @ ds" by blast+
    ultimately show ?case by (metis append_Cons append_Nil append_assoc)
  qed simp
  moreover have "registry_ok []" by (simp add: registry_ok_def)
  ultimately show "new_registry ds = Inr reg \<Longrightarrow> registry_ok reg \<and> reg = ds"
    unfolding new_registry_def by (metis append_Nil)
qed

section \<open>The engine's state\<close>

datatype evaluation_outcome = NOT_READY | NO_SIGNAL | EMITTED | SUPPRESSED | INVALID | ERROR | TIMEOUT

record signal_audit_record =
  evaluated_at :: datetime
  au_strategy_name :: string
  au_symbol :: string
  au_event_kind :: data_kind
  outcome :: evaluation_outcome
  detail :: "string option"

record strategy_stats =
  evaluations :: nat
  skipped_not_ready :: nat
  errors :: nat
  timeouts :: nat
  emitted :: nat
  suppressed :: nat
  handler_errors :: nat

definition no_stats :: strategy_stats where
  "no_stats = \<lparr>evaluations = 0, skipped_not_ready = 0, errors = 0, timeouts = 0, emitted = 0,
     suppressed = 0, handler_errors = 0\<rparr>"

record signal_engine =
  en_policy :: signal_policy
  dedup :: deduplicator
  en_history :: "signal list"
  audit :: "signal_audit_record list"
  stats :: "string \<Rightarrow> strategy_stats option"
  strategies_by_kind :: "data_kind \<Rightarrow> signal_definition list"

definition new_signal_engine :: "signal_registry \<Rightarrow> signal_policy option \<Rightarrow> exn + signal_engine" where
  "new_signal_engine reg pol =
     (let p = (case pol of None \<Rightarrow> default_signal_policy | Some p \<Rightarrow> p) in
      case new_deduplicator (cooldown_seconds p) (history_size p) of
        Inl e \<Rightarrow> Inl e
      | Inr d \<Rightarrow> Inr \<lparr>en_policy = p, dedup = d, en_history = [], audit = [],
          stats = (\<lambda>n. if n \<in> set (map df_name reg) then Some no_stats else None),
          strategies_by_kind = (\<lambda>k. filter (\<lambda>d. k \<in> set (trigger_kinds (requirements d))) reg)\<rparr>)"

definition en_capacity :: "signal_engine \<Rightarrow> nat" where
  "en_capacity en = nat (history_size (en_policy en))"

section \<open>Readiness and validation\<close>

fun all_sum :: "('a \<Rightarrow> exn + bool) \<Rightarrow> 'a list \<Rightarrow> exn + bool" where
  "all_sum f [] = Inr True"
| "all_sum f (x # xs) = (case f x of
       Inl e \<Rightarrow> Inl e | Inr b \<Rightarrow> if b then all_sum f xs else Inr False)"

definition history_ready :: "market_state \<Rightarrow> datetime \<Rightarrow> venue_snapshot \<Rightarrow> string \<times> int \<Rightarrow> exn + bool" where
  "history_ready ms now v req =
     (if int (length (get_window (candles ms) (vs_instrument v) (fst req))) < snd req then Inr False
      else is_candle_fresh ms (vs_instrument v) (fst req) now)"

definition venue_ready ::
  "signal_requirements \<Rightarrow> market_state \<Rightarrow> datetime \<Rightarrow> venue_snapshot \<Rightarrow> exn + bool"
where
  "venue_ready req ms now v =
     (if \<not> list_all (\<lambda>k. map_of (kind_freshness v) k = Some True) (fresh_data req) then Inr False
      else all_sum (history_ready ms now v) (candle_history req))"

fun ready_exchanges ::
  "signal_requirements \<Rightarrow> market_state \<Rightarrow> datetime \<Rightarrow> venue_snapshot list \<Rightarrow> exn + exchange list"
where
  "ready_exchanges req ms now [] = Inr []"
| "ready_exchanges req ms now (v # vs) = (case venue_ready req ms now v of
       Inl e \<Rightarrow> Inl e
     | Inr b \<Rightarrow> (case ready_exchanges req ms now vs of
         Inl e \<Rightarrow> Inl e
       | Inr xs \<Rightarrow> Inr (if b then List.insert (exchange (vs_instrument v)) xs else xs)))"

definition is_ready ::
  "signal_definition \<Rightarrow> market_event \<Rightarrow> market_state \<Rightarrow> datetime \<Rightarrow> exn + bool"
where
  "is_ready st e ms now =
     (let req = requirements st; ins = event_instrument e in
      if event_kind e \<notin> set (trigger_kinds req) then Inr False
      else if \<not> is_fresh ms ins (event_kind e) now then Inr False
      else case market_snapshot ms (canonical_symbol ins) now of
        Inl x \<Rightarrow> Inl x
      | Inr snap \<Rightarrow> (case ready_exchanges req ms now (map snd (markets snap)) of
          Inl x \<Rightarrow> Inl x
        | Inr ready \<Rightarrow> Inr (minimum_venues req \<le> int (length ready))))"

text \<open>\<open>_validate_signal\<close>: the message of the \<open>SignalValidationError\<close>, or \<open>None\<close>.\<close>

definition validate_signal ::
  "signal_policy \<Rightarrow> signal_definition \<Rightarrow> market_event \<Rightarrow> signal option \<Rightarrow> datetime \<Rightarrow> string option"
where
  "validate_signal p st e candidate now = (case candidate of
       None \<Rightarrow> Some ''Strategy returned a non-Signal value''
     | Some g \<Rightarrow>
        (let age = total_seconds (dt_diff now (occurred_at g)) in
         if strategy_name g \<noteq> df_name st \<or> strategy_version g \<noteq> df_version st
         then Some ''Signal strategy identity does not match evaluator''
         else if sg_canonical_symbol g \<noteq> canonical_symbol (event_instrument e)
         then Some ''Signal symbol does not match triggering event''
         else if max_signal_age_seconds p < age
         then Some ''Signal is older than the maximum allowed age''
         else if age < - 5 then Some ''Signal occurrence time is too far in the future''
         else if (case expires_at g of None \<Rightarrow> False | Some u \<Rightarrow> u \<le> now)
         then Some ''Signal has expired''
         else None))"

section \<open>Evaluating one event\<close>

datatype evaluation = Candidates "signal option list" | NonSequence | TimedOut | Raised string

definition count :: "string \<Rightarrow> (strategy_stats \<Rightarrow> strategy_stats) \<Rightarrow> signal_engine \<Rightarrow> signal_engine" where
  "count n f en = en\<lparr>stats := (stats en)(n \<mapsto>
     f (case stats en n of None \<Rightarrow> no_stats | Some s \<Rightarrow> s))\<rparr>"

definition record_audit ::
  "signal_definition \<Rightarrow> market_event \<Rightarrow> datetime \<Rightarrow> evaluation_outcome \<Rightarrow> string option \<Rightarrow>
     signal_engine \<Rightarrow> signal_engine"
where
  "record_audit st e now oc d en = en\<lparr>audit := deque_append (en_capacity en) (audit en)
     \<lparr>evaluated_at = now, au_strategy_name = df_name st,
      au_symbol = canonical_symbol (event_instrument e), au_event_kind = event_kind e,
      outcome = oc, detail = d\<rparr>\<rparr>"

definition emit_signal ::
  "(signal \<Rightarrow> bool) option \<Rightarrow> signal_definition \<Rightarrow> market_event \<Rightarrow> datetime \<Rightarrow> signal \<Rightarrow>
     signal_engine \<Rightarrow> signal_engine"
where
  "emit_signal handler st e now g en =
     (let en1 = en\<lparr>en_history := deque_append (en_capacity en) (en_history en) g\<rparr>;
          en2 = count (df_name st) (\<lambda>s. s\<lparr>emitted := emitted s + 1\<rparr>) en1;
          en3 = record_audit st e now EMITTED (Some (fingerprint g)) en2
      in (case handler of
            None \<Rightarrow> en3
          | Some raises \<Rightarrow>
              if raises g then count (df_name st) (\<lambda>s. s\<lparr>handler_errors := handler_errors s + 1\<rparr>) en3
              else en3))"

text \<open>One candidate: the signals it adds to \<open>accepted\<close>, and the engine after it.\<close>

definition offer ::
  "(signal \<Rightarrow> bool) option \<Rightarrow> signal_definition \<Rightarrow> market_event \<Rightarrow> datetime \<Rightarrow> signal option \<Rightarrow>
     signal_engine \<Rightarrow> signal list \<times> signal_engine"
where
  "offer handler st e now candidate en =
     (case validate_signal (en_policy en) st e candidate now of
        Some message \<Rightarrow> ([], record_audit st e now INVALID (Some message)
          (count (df_name st) (\<lambda>s. s\<lparr>errors := errors s + 1\<rparr>) en))
      | None \<Rightarrow> (case candidate of
          None \<Rightarrow> ([], en)
        | Some g \<Rightarrow>
           (case accept g now (dedup en) of (ok, d) \<Rightarrow>
              if \<not> ok then ([], record_audit st e now SUPPRESSED (Some (fingerprint g))
                (count (df_name st) (\<lambda>s. s\<lparr>suppressed := suppressed s + 1\<rparr>) (en\<lparr>dedup := d\<rparr>)))
              else ([g], emit_signal handler st e now g (en\<lparr>dedup := d\<rparr>)))))"

fun offer_all ::
  "(signal \<Rightarrow> bool) option \<Rightarrow> signal_definition \<Rightarrow> market_event \<Rightarrow> datetime \<Rightarrow> signal option list \<Rightarrow>
     signal_engine \<Rightarrow> signal list \<times> signal_engine"
where
  "offer_all handler st e now [] en = ([], en)"
| "offer_all handler st e now (c # cs) en =
     (case offer handler st e now c en of (out, en1) \<Rightarrow>
       (case offer_all handler st e now cs en1 of (outs, en2) \<Rightarrow> (out @ outs, en2)))"

text \<open>A definition that is ready.\<close>

definition evaluate_ready ::
  "(signal \<Rightarrow> bool) option \<Rightarrow> market_event \<Rightarrow> datetime \<Rightarrow> (signal_definition \<Rightarrow> evaluation) \<Rightarrow>
     signal_definition \<Rightarrow> signal_engine \<Rightarrow> signal list \<times> signal_engine"
where
  "evaluate_ready handler e now run st en0 =
     (let n = df_name st; en = count n (\<lambda>s. s\<lparr>evaluations := evaluations s + 1\<rparr>) en0 in
      case run st of
        TimedOut \<Rightarrow> ([], record_audit st e now TIMEOUT None
          (count n (\<lambda>s. s\<lparr>timeouts := timeouts s + 1\<rparr>) en))
      | Raised name \<Rightarrow> ([], record_audit st e now ERROR (Some name)
          (count n (\<lambda>s. s\<lparr>errors := errors s + 1\<rparr>) en))
      | NonSequence \<Rightarrow> ([], record_audit st e now INVALID (Some ''non-sequence result'')
          (count n (\<lambda>s. s\<lparr>errors := errors s + 1\<rparr>) en))
      | Candidates cs \<Rightarrow> (case offer_all handler st e now cs en of (out, en') \<Rightarrow>
          (out, if cs = [] then record_audit st e now NO_SIGNAL None en' else en')))"

definition evaluate_one ::
  "(signal \<Rightarrow> bool) option \<Rightarrow> market_event \<Rightarrow> market_state \<Rightarrow> datetime \<Rightarrow> (signal_definition \<Rightarrow> evaluation) \<Rightarrow>
     signal_definition \<Rightarrow> (signal_engine, signal list) eff"
where
  "evaluate_one handler e ms now run st = (\<lambda>en0.
     let n = df_name st; en = count n (\<lambda>s. s) en0 in
     case is_ready st e ms now of
       Inl x \<Rightarrow> (Inl x, en)
     | Inr ready \<Rightarrow>
         if \<not> ready then (Inr [], record_audit st e now NOT_READY None
            (count n (\<lambda>s. s\<lparr>skipped_not_ready := skipped_not_ready s + 1\<rparr>) en))
         else (case evaluate_ready handler e now run st en of (out, en') \<Rightarrow> (Inr out, en')))"

fun evaluate_each ::
  "(signal \<Rightarrow> bool) option \<Rightarrow> market_event \<Rightarrow> market_state \<Rightarrow> datetime \<Rightarrow> (signal_definition \<Rightarrow> evaluation) \<Rightarrow>
     signal_definition list \<Rightarrow> signal list \<Rightarrow> (signal_engine, signal list) eff"
where
  "evaluate_each handler e ms now run [] accepted = ret accepted"
| "evaluate_each handler e ms now run (st # sts) accepted =
     bindE (evaluate_one handler e ms now run st) (\<lambda>out.
       evaluate_each handler e ms now run sts (accepted @ out))"

definition strategies_for :: "signal_engine \<Rightarrow> market_event \<Rightarrow> signal_definition list" where
  "strategies_for en e = (case e of
       CandleEvent c \<Rightarrow>
         if \<not> is_closed c then []
         else filter (\<lambda>st. trigger_candle_intervals (requirements st) = [] \<or>
                interval c \<in> set (trigger_candle_intervals (requirements st)))
              (strategies_by_kind en (event_kind e))
     | _ \<Rightarrow> strategies_by_kind en (event_kind e))"

text \<open>\<open>evaluate_event\<close>; the clock is read, and may raise, only when a definition is triggered.\<close>

definition evaluate_event ::
  "(signal \<Rightarrow> bool) option \<Rightarrow> market_event \<Rightarrow> market_state \<Rightarrow> exn + datetime \<Rightarrow>
     (signal_definition \<Rightarrow> evaluation) \<Rightarrow> (signal_engine, signal list) eff"
where
  "evaluate_event handler e ms clock run =
     bindE (getE (\<lambda>en. strategies_for en e)) (\<lambda>sts.
     if sts = [] then ret []
     else case clock of
         Inl x \<Rightarrow> raise x
       | Inr now \<Rightarrow> evaluate_each handler e ms now run sts [])"

section \<open>Replay\<close>

record replay =
  rp_state :: market_state
  rp_engine :: signal_engine
  rp_clock :: "datetime option"

record replay_result =
  events_seen :: nat
  events_applied :: nat
  events_ignored :: nat
  signals :: "signal list"

definition advance_to :: "datetime \<Rightarrow> (replay, unit) eff" where
  "advance_to t = bindE (getE rp_clock) (\<lambda>now.
     if (case now of None \<Rightarrow> False | Some u \<Rightarrow> t < u)
     then raise (ValueError ''Replay clock cannot move backwards'')
     else modifyE (\<lambda>r. r\<lparr>rp_clock := Some t\<rparr>))"

definition read_clock :: "replay \<Rightarrow> exn + datetime" where
  "read_clock r = (case rp_clock r of
       None \<Rightarrow> Inl (RuntimeError ''Replay clock has not received an event'')
     | Some t \<Rightarrow> Inr t)"

definition on_state :: "(market_state, 'a) eff \<Rightarrow> (replay, 'a) eff" where
  "on_state m = (\<lambda>r. case m (rp_state r) of (x, s) \<Rightarrow> (x, r\<lparr>rp_state := s\<rparr>))"

definition on_engine :: "(replay \<Rightarrow> (signal_engine, 'a) eff) \<Rightarrow> (replay, 'a) eff" where
  "on_engine m = (\<lambda>r. case m r (rp_engine r) of (x, en) \<Rightarrow> (x, r\<lparr>rp_engine := en\<rparr>))"

text \<open>The engine of a replay reads the replay's own state and clock.\<close>

definition replay_event ::
  "(signal \<Rightarrow> bool) option \<Rightarrow> (market_event \<Rightarrow> market_state \<Rightarrow> signal_definition \<Rightarrow> evaluation) \<Rightarrow>
     market_event \<Rightarrow> (replay, signal list option) eff"
where
  "replay_event handler run e =
     thenE (advance_to (received_at (event_meta e)))
    (bindE (on_state (apply_event e)) (\<lambda>applied.
     if \<not> applied then ret None
     else bindE (on_engine (\<lambda>r. evaluate_event handler e (rp_state r) (read_clock r) (run e (rp_state r))))
            (\<lambda>out. ret (Some out))))"

fun replay_run ::
  "(signal \<Rightarrow> bool) option \<Rightarrow> (market_event \<Rightarrow> market_state \<Rightarrow> signal_definition \<Rightarrow> evaluation) \<Rightarrow>
     market_event list \<Rightarrow> replay_result \<Rightarrow> (replay, replay_result) eff"
where
  "replay_run handler run [] res = ret res"
| "replay_run handler run (e # es) res =
     bindE (replay_event handler run e) (\<lambda>out.
       replay_run handler run es (case out of
          None \<Rightarrow> res\<lparr>events_seen := events_seen res + 1, events_ignored := events_ignored res + 1\<rparr>
        | Some gs \<Rightarrow> res\<lparr>events_seen := events_seen res + 1, events_applied := events_applied res + 1,
            signals := signals res @ gs\<rparr>))"

definition no_result :: replay_result where
  "no_result = \<lparr>events_seen = 0, events_applied = 0, events_ignored = 0, signals = []\<rparr>"

end
