(* ===== verification/Signal_Invariant.thy ===== *)
theory Signal_Invariant
  imports Signal_Engine
begin

text \<open>
  Facts about the engine: what an offer changes, the validity of every emitted signal, the
  history as a rolling window, the emission past with its spacing, and the counters.
\<close>

section \<open>Frame facts\<close>

lemma count_frame [simp]:
  "en_policy (count n f en) = en_policy en" "dedup (count n f en) = dedup en"
  "en_history (count n f en) = en_history en" "audit (count n f en) = audit en"
  "strategies_by_kind (count n f en) = strategies_by_kind en" "en_capacity (count n f en) = en_capacity en"
  by (simp_all add: count_def en_capacity_def)

lemma record_audit_frame [simp]:
  "en_policy (record_audit st e now oc d en) = en_policy en"
  "dedup (record_audit st e now oc d en) = dedup en"
  "en_history (record_audit st e now oc d en) = en_history en"
  "stats (record_audit st e now oc d en) = stats en"
  "strategies_by_kind (record_audit st e now oc d en) = strategies_by_kind en"
  "en_capacity (record_audit st e now oc d en) = en_capacity en"
  by (simp_all add: record_audit_def en_capacity_def)

lemma emit_signal_frame [simp]:
  "en_policy (emit_signal h st e now g en) = en_policy en"
  "dedup (emit_signal h st e now g en) = dedup en"
  "en_history (emit_signal h st e now g en) = deque_append (en_capacity en) (en_history en) g"
  "strategies_by_kind (emit_signal h st e now g en) = strategies_by_kind en"
  by (auto simp: emit_signal_def Let_def split: option.split)

lemma en_capacity_update [simp]:
  "en_capacity (en\<lparr>dedup := d\<rparr>) = en_capacity en" "en_capacity (en\<lparr>en_history := hs\<rparr>) = en_capacity en"
  "en_capacity (en\<lparr>audit := a\<rparr>) = en_capacity en" "en_capacity (en\<lparr>stats := c\<rparr>) = en_capacity en"
  by (simp_all add: en_capacity_def)

text \<open>
  What the decisions depend on: the deduplicator and the policy. The counters, the audit
  trail and the history do not feed back.
\<close>

definition offer_spec ::
  "signal_policy \<Rightarrow> signal_definition \<Rightarrow> market_event \<Rightarrow> datetime \<Rightarrow> signal option \<Rightarrow> deduplicator \<Rightarrow>
     signal list \<times> deduplicator"
where
  "offer_spec p st e now c d =
     (case (validate_signal p st e c now, c) of
        (None, Some g) \<Rightarrow> (case accept g now d of (ok, d') \<Rightarrow> (if ok then [g] else [], d'))
      | _ \<Rightarrow> ([], d))"

lemma offer_meets_spec:
  assumes "offer h st e now c en = (out, en')"
  shows "(out, dedup en') = offer_spec (en_policy en) st e now c (dedup en)"
    and "en_policy en' = en_policy en" and "strategies_by_kind en' = strategies_by_kind en"
    and "en_history en' = foldl (deque_append (en_capacity en)) (en_history en) out"
  using assms
  by (auto simp: offer_def offer_spec_def split: option.splits prod.splits if_splits)

fun offers_spec ::
  "signal_policy \<Rightarrow> signal_definition \<Rightarrow> market_event \<Rightarrow> datetime \<Rightarrow> signal option list \<Rightarrow> deduplicator \<Rightarrow>
     signal list \<times> deduplicator"
where
  "offers_spec p st e now [] d = ([], d)"
| "offers_spec p st e now (c # cs) d = (case offer_spec p st e now c d of (out, d1) \<Rightarrow>
     (case offers_spec p st e now cs d1 of (outs, d2) \<Rightarrow> (out @ outs, d2)))"

lemma same_capacity: "en_policy en' = en_policy en \<Longrightarrow> en_capacity en' = en_capacity en"
  by (simp add: en_capacity_def)

lemma offer_all_meets_spec:
  "offer_all h st e now cs en = (out, en') \<Longrightarrow>
     (out, dedup en') = offers_spec (en_policy en) st e now cs (dedup en) \<and>
     en_policy en' = en_policy en \<and> strategies_by_kind en' = strategies_by_kind en \<and>
     en_history en' = foldl (deque_append (en_capacity en)) (en_history en) out"
proof (induction cs arbitrary: en out en')
  case (Cons c cs)
  obtain o1 en1 where one: "offer h st e now c en = (o1, en1)" by force
  obtain o2 en2 where rest: "offer_all h st e now cs en1 = (o2, en2)" by force
  have res: "out = o1 @ o2" "en' = en2" using Cons.prems one rest by auto
  note step = offer_meets_spec [OF one]
  note IH = Cons.IH [OF rest]
  have cap: "en_capacity en1 = en_capacity en" by (rule same_capacity [OF step(2)])
  from step(1) IH step(2) have "(out, dedup en') = offers_spec (en_policy en) st e now (c # cs) (dedup en)"
    by (auto simp: res split: prod.split)
  with IH step cap show ?case by (simp add: res)
qed simp

text \<open>One definition, seen from outside.\<close>

definition contribution_spec ::
  "signal_policy \<Rightarrow> market_event \<Rightarrow> datetime \<Rightarrow> (signal_definition \<Rightarrow> evaluation) \<Rightarrow> bool \<Rightarrow>
     signal_definition \<Rightarrow> deduplicator \<Rightarrow> signal list \<times> deduplicator"
where
  "contribution_spec p e now run ready st d =
     (if \<not> ready then ([], d)
      else case run st of Candidates cs \<Rightarrow> offers_spec p st e now cs d | _ \<Rightarrow> ([], d))"

lemma evaluate_one_meets_spec:
  assumes "is_ready st e ms now = Inr ready" and "evaluate_one h e ms now run st en = (r, en')"
  shows "\<exists>out. r = Inr out \<and>
     (out, dedup en') = contribution_spec (en_policy en) e now run ready st (dedup en) \<and>
     en_policy en' = en_policy en \<and> strategies_by_kind en' = strategies_by_kind en \<and>
     en_history en' = foldl (deque_append (en_capacity en)) (en_history en) out"
proof (cases "ready \<and> (\<exists>cs. run st = Candidates cs)")
  case True
  then obtain cs where cs: "run st = Candidates cs" by blast
  let ?en = "count (df_name st) (\<lambda>s. s\<lparr>evaluations := evaluations s + 1\<rparr>) (count (df_name st) (\<lambda>s. s) en)"
  obtain out en1 where run: "offer_all h st e now cs ?en = (out, en1)" by force
  from offer_all_meets_spec [OF run] assms True cs run show ?thesis
    by (auto simp: evaluate_one_def Let_def evaluate_ready_def contribution_spec_def split: if_splits)
next
  case False
  with assms show ?thesis
    by (auto simp: evaluate_one_def Let_def evaluate_ready_def contribution_spec_def
        split: evaluation.splits if_splits)
qed

lemma evaluate_one_unready:
  "is_ready st e ms now = Inl x \<Longrightarrow> evaluate_one h e ms now run st en = (Inl x, count (df_name st) (\<lambda>s. s) en)"
  by (simp add: evaluate_one_def Let_def)

fun contributions_spec ::
  "signal_policy \<Rightarrow> market_event \<Rightarrow> datetime \<Rightarrow> (signal_definition \<Rightarrow> evaluation) \<Rightarrow>
     (signal_definition \<Rightarrow> bool) \<Rightarrow> signal_definition list \<Rightarrow> deduplicator \<Rightarrow> signal list \<times> deduplicator"
where
  "contributions_spec p e now run ready [] d = ([], d)"
| "contributions_spec p e now run ready (st # sts) d =
     (case contribution_spec p e now run (ready st) st d of (out, d1) \<Rightarrow>
       (case contributions_spec p e now run ready sts d1 of (outs, d2) \<Rightarrow> (out @ outs, d2)))"

definition readiness :: "market_event \<Rightarrow> market_state \<Rightarrow> datetime \<Rightarrow> signal_definition \<Rightarrow> bool" where
  "readiness e ms now st = (case is_ready st e ms now of Inr b \<Rightarrow> b | Inl x \<Rightarrow> False)"

lemma evaluate_each_meets_spec:
  assumes "\<forall>st \<in> set sts. \<exists>b. is_ready st e ms now = Inr b"
    and "evaluate_each h e ms now run sts acc en = (r, en')"
  shows "\<exists>out. r = Inr (acc @ out) \<and>
     (out, dedup en') = contributions_spec (en_policy en) e now run (readiness e ms now) sts (dedup en) \<and>
     en_policy en' = en_policy en \<and> strategies_by_kind en' = strategies_by_kind en \<and>
     en_history en' = foldl (deque_append (en_capacity en)) (en_history en) out"
  using assms
proof (induction sts arbitrary: acc en r en')
  case (Cons st sts)
  obtain b where b: "is_ready st e ms now = Inr b" using Cons.prems(1) by auto
  obtain r1 en1 where one: "evaluate_one h e ms now run st en = (r1, en1)" by force
  from evaluate_one_meets_spec [OF b one] obtain o1 where o1: "r1 = Inr o1"
    "(o1, dedup en1) = contribution_spec (en_policy en) e now run b st (dedup en)"
    "en_policy en1 = en_policy en" "strategies_by_kind en1 = strategies_by_kind en"
    "en_history en1 = foldl (deque_append (en_capacity en)) (en_history en) o1" by blast
  have rest: "evaluate_each h e ms now run sts (acc @ o1) en1 = (r, en')"
    using Cons.prems(2) one o1(1) by (simp add: bindE_def)
  have "\<forall>st \<in> set sts. \<exists>b. is_ready st e ms now = Inr b" using Cons.prems(1) by simp
  from Cons.IH [OF this rest] obtain o2 where o2: "r = Inr ((acc @ o1) @ o2)"
    "(o2, dedup en') = contributions_spec (en_policy en1) e now run (readiness e ms now) sts (dedup en1)"
    "en_policy en' = en_policy en1" "strategies_by_kind en' = strategies_by_kind en1"
    "en_history en' = foldl (deque_append (en_capacity en1)) (en_history en1) o2" by blast
  have rd: "readiness e ms now st = b" by (simp add: readiness_def b)
  have "(o1 @ o2, dedup en') =
      contributions_spec (en_policy en) e now run (readiness e ms now) (st # sts) (dedup en)"
    using o1(2,3) o2(2) by (auto simp: rd split: prod.split)
  with o1 o2 same_capacity [OF o1(3)] show ?case by (intro exI [of _ "o1 @ o2"]) simp
qed (simp add: ret_def)

section \<open>Validity\<close>

definition valid_emission :: "signal_policy \<Rightarrow> signal_definition \<Rightarrow> market_event \<Rightarrow> datetime \<Rightarrow> signal \<Rightarrow> bool" where
  "valid_emission p st e now g \<longleftrightarrow>
     strategy_name g = df_name st \<and> strategy_version g = df_version st \<and>
     sg_canonical_symbol g = canonical_symbol (event_instrument e) \<and>
     total_seconds (dt_diff now (occurred_at g)) \<le> max_signal_age_seconds p \<and>
     - 5 \<le> total_seconds (dt_diff now (occurred_at g)) \<and>
     (case expires_at g of None \<Rightarrow> True | Some u \<Rightarrow> now < u)"

lemma validate_signal_iff:
  "validate_signal p st e (Some g) now = None \<longleftrightarrow> valid_emission p st e now g"
  by (auto simp: validate_signal_def valid_emission_def Let_def split: option.splits)

lemma offers_spec_valid:
  "g \<in> set (fst (offers_spec p st e now cs d)) \<Longrightarrow> valid_emission p st e now g \<and> Some g \<in> set cs"
proof (induction cs arbitrary: d)
  case (Cons c cs)
  obtain o1 d1 where one: "offer_spec p st e now c d = (o1, d1)" by force
  have "valid_emission p st e now g \<and> Some g = c" if "g \<in> set o1"
    using that one
    by (auto simp: offer_spec_def validate_signal_iff split: option.splits prod.splits if_splits)
  with Cons.IH [of d1] Cons.prems one show ?case by (auto split: prod.splits)
qed simp

lemma contributions_spec_valid:
  "g \<in> set (fst (contributions_spec p e now run ready sts d)) \<Longrightarrow>
     \<exists>st \<in> set sts. ready st \<and> valid_emission p st e now g"
proof (induction sts arbitrary: d)
  case (Cons st sts)
  obtain o1 d1 where one: "contribution_spec p e now run (ready st) st d = (o1, d1)" by force
  have "ready st \<and> valid_emission p st e now g" if "g \<in> set o1"
    using that one offers_spec_valid [of g p st e now]
    by (auto simp: contribution_spec_def split: if_splits evaluation.splits) (metis fst_conv)+
  with Cons.IH [of d1] Cons.prems one show ?case by (auto split: prod.splits)
qed simp

text \<open>A definition that fails contributes nothing and leaves the deduplicator alone.\<close>

definition fails :: "(signal_definition \<Rightarrow> evaluation) \<Rightarrow> signal_definition \<Rightarrow> bool" where
  "fails run st \<longleftrightarrow> (\<forall>cs. run st \<noteq> Candidates cs)"

lemma contribution_fails: "fails run st \<Longrightarrow> contribution_spec p e now run b st d = ([], d)"
  by (auto simp: contribution_spec_def fails_def split: evaluation.splits)

lemma contributions_without_failures:
  "contributions_spec p e now run ready (filter (\<lambda>st. \<not> fails run st) sts) d =
     contributions_spec p e now run ready sts d"
  by (induction sts arbitrary: d) (auto simp: contribution_fails)

section \<open>Spacing of the emissions\<close>

text \<open>
  The emissions of one evaluation time, with the past emissions \<open>past\<close>: the deduplicator
  remembers all of them afterwards, and any two of one key are the cooldown apart.
\<close>

definition log_spaced :: "datetime \<Rightarrow> deduplicator \<Rightarrow> (signal \<times> datetime) list \<Rightarrow> bool" where
  "log_spaced now d past \<longleftrightarrow> dedup_ok d \<and> spaced (dd_cooldown d) past \<and>
     (\<forall>p \<in> set past. remembers now d p \<and> snd p \<le> now)"

lemma log_spaced_accept:
  assumes "log_spaced before d past" and "dd_cooldown d \<noteq> 0" and "before \<le> now" and "accept g now d = (ok, d')"
  shows "log_spaced now d' (if ok then past @ [(g, now)] else past)"
proof -
  have d: "dedup_ok d" using assms(1) by (simp add: log_spaced_def)
  have d': "d' = snd (accept g now d)" and ok: "ok = fst (accept g now d)" using assms(4) by simp_all
  have past: "remembers before d p" "snd p \<le> now" if "p \<in> set past" for p
    using that assms(1,3) by (auto simp: log_spaced_def)
  then have old: "remembers now d' p \<and> snd p \<le> now" if "p \<in> set past" for p
    using that remembers_accept [OF d assms(2) _ assms(3), of p g] by (simp add: d')
  have before_spaced: "spaced (dd_cooldown d) past" using assms(1) by (simp only: log_spaced_def)
  have new_spaced: "spaced (dd_cooldown d) (past @ [(g, now)])" if acc: "fst (accept g now d)"
  proof -
    have "dd_cooldown d \<le> total_seconds (dt_diff now (snd p))"
      if "p \<in> set past" "emission_key (fst p) = emission_key g" for p
      by (rule accepted_is_spaced [OF d assms(2) past(1) [OF that(1)] assms(3) acc that(2)])
    with before_spaced show ?thesis by (simp only: sorted_wrt_append) auto
  qed
  have new: "remembers now d' (g, now)" if "fst (accept g now d)"
    unfolding d' by (rule remembers_new [OF d assms(2) that])
  have kept: "dedup_ok d'" "dd_cooldown d' = dd_cooldown d"
    unfolding d' by (rule accept_ok [OF d]) (rule accept_frame)
  show ?thesis
  proof (cases "fst (accept g now d)")
    case True
    with new_spaced new old kept show ?thesis by (simp only: ok log_spaced_def if_True) auto
  next
    case False
    with before_spaced old kept show ?thesis by (simp only: ok log_spaced_def if_False) auto
  qed
qed

lemma accept_cooldown: "accept g now d = (ok, d') \<Longrightarrow> dd_cooldown d' = dd_cooldown d"
  by (metis accept_frame(1) snd_conv)

lemma log_spaced_offer:
  assumes "log_spaced before d past" and "dd_cooldown d \<noteq> 0" and "before \<le> now"
    and "offer_spec p st e now c d = (out, d')"
  shows "log_spaced now d' (past @ map (\<lambda>g. (g, now)) out) \<and> dd_cooldown d' = dd_cooldown d"
proof -
  have "remembers now d p \<and> snd p \<le> now" if "p \<in> set past" for p
    using that assms(1) remembers_later [OF _ assms(3), of d p] order_trans [OF _ assms(3), of "snd p"]
    by (simp add: log_spaced_def)
  with assms(1) have keep: "log_spaced now d past" by (simp add: log_spaced_def)
  show ?thesis
  proof (cases "\<exists>g. c = Some g \<and> validate_signal p st e c now = None")
    case True
    then obtain g ok where "accept g now d = (ok, d')" "out = (if ok then [g] else [])"
      using assms(4) by (auto simp: offer_spec_def split: prod.splits)
    with log_spaced_accept [OF assms(1-3) this(1)] accept_cooldown [OF this(1)] show ?thesis
      by (cases ok) simp_all
  next
    case False
    with assms(4) have "out = [] \<and> d' = d"
      by (auto simp: offer_spec_def split: option.splits prod.splits)
    with keep show ?thesis by simp
  qed
qed

lemma log_spaced_offers:
  "log_spaced now d past \<Longrightarrow> dd_cooldown d \<noteq> 0 \<Longrightarrow> offers_spec p st e now cs d = (out, d') \<Longrightarrow>
     log_spaced now d' (past @ map (\<lambda>g. (g, now)) out) \<and> dd_cooldown d' = dd_cooldown d"
proof (induction cs arbitrary: d past out d')
  case (Cons c cs)
  obtain o1 d1 where one: "offer_spec p st e now c d = (o1, d1)" by force
  obtain o2 d2 where rest: "offers_spec p st e now cs d1 = (o2, d2)" by force
  have eq: "out = o1 @ o2" "d' = d2" using Cons.prems(3) one rest by auto
  from log_spaced_offer [OF Cons.prems(1,2) order_refl one]
  have "log_spaced now d1 (past @ map (\<lambda>g. (g, now)) o1)" "dd_cooldown d1 = dd_cooldown d" by auto
  with Cons.IH [OF this(1) _ rest] Cons.prems(2) show ?case by (simp add: eq)
qed simp

lemma log_spaced_contributions:
  "log_spaced now d past \<Longrightarrow> dd_cooldown d \<noteq> 0 \<Longrightarrow>
     contributions_spec p e now run ready sts d = (out, d') \<Longrightarrow>
     log_spaced now d' (past @ map (\<lambda>g. (g, now)) out) \<and> dd_cooldown d' = dd_cooldown d"
proof (induction sts arbitrary: d past out d')
  case (Cons st sts)
  obtain o1 d1 where one: "contribution_spec p e now run (ready st) st d = (o1, d1)" by force
  obtain o2 d2 where rest: "contributions_spec p e now run ready sts d1 = (o2, d2)" by force
  have eq: "out = o1 @ o2" "d' = d2" using Cons.prems(3) one rest by auto
  have "log_spaced now d1 (past @ map (\<lambda>g. (g, now)) o1) \<and> dd_cooldown d1 = dd_cooldown d"
    using one Cons.prems(1) log_spaced_offers [OF Cons.prems(1,2)]
    by (auto simp: contribution_spec_def split: if_splits evaluation.splits)
  with Cons.IH [of d1 "past @ map (\<lambda>g. (g, now)) o1" o2] Cons.prems(2) rest show ?case
    by (simp add: eq)
qed simp

end
