(* ===== verification/Signal_Properties.thy ===== *)
theory Signal_Properties
  imports Signal_Invariant Market_Properties
begin

text \<open>
  The properties of the signal layer: what the engine may emit, how emissions are spaced, how
  a failing definition is isolated, and what a replay reports.
\<close>

section \<open>Runs of the engine\<close>

record round =
  rd_event :: market_event
  rd_state :: market_state
  rd_now :: datetime
  rd_run :: "signal_definition \<Rightarrow> evaluation"
  rd_handler :: "(signal \<Rightarrow> bool) option"

definition play :: "round \<Rightarrow> (signal_engine, signal list) eff" where
  "play r = evaluate_event (rd_handler r) (rd_event r) (rd_state r) (Inr (rd_now r)) (rd_run r)"

text \<open>The emissions of a sequence of rounds, each with the time of its round.\<close>

fun play_all :: "round list \<Rightarrow> signal_engine \<Rightarrow> (signal \<times> datetime) list \<times> signal_engine" where
  "play_all [] en = ([], en)"
| "play_all (r # rs) en = (case play r en of (res, en1) \<Rightarrow>
     (case play_all rs en1 of (out, en2) \<Rightarrow>
       ((case res of Inl _ \<Rightarrow> [] | Inr gs \<Rightarrow> map (\<lambda>g. (g, rd_now r)) gs) @ out, en2)))"

text \<open>No readiness check of a registered definition raises in this round.\<close>

definition round_ready :: "signal_registry \<Rightarrow> round \<Rightarrow> bool" where
  "round_ready reg r \<longleftrightarrow> (\<forall>st \<in> set reg. \<exists>b. is_ready st (rd_event r) (rd_state r) (rd_now r) = Inr b)"

definition indexes :: "signal_registry \<Rightarrow> signal_engine \<Rightarrow> bool" where
  "indexes reg en \<longleftrightarrow> (\<forall>k. set (strategies_by_kind en k) \<subseteq> set reg)"

lemma strategies_for_subset: "indexes reg en \<Longrightarrow> set (strategies_for en e) \<subseteq> set reg"
  by (cases e) (auto simp: indexes_def strategies_for_def)

lemma new_engine_indexes: "new_signal_engine reg pol = Inr en \<Longrightarrow> indexes reg en"
  by (auto simp: new_signal_engine_def Let_def indexes_def split: sum.splits)

lemma play_meets_spec:
  assumes "\<forall>st \<in> set (strategies_for en (rd_event r)). \<exists>b. is_ready st (rd_event r) (rd_state r) (rd_now r) = Inr b"
    and "play r en = (res, en')"
  shows "\<exists>out. res = Inr out \<and>
     (out, dedup en') = contributions_spec (en_policy en) (rd_event r) (rd_now r) (rd_run r)
        (readiness (rd_event r) (rd_state r) (rd_now r)) (strategies_for en (rd_event r)) (dedup en) \<and>
     en_policy en' = en_policy en \<and> strategies_by_kind en' = strategies_by_kind en \<and>
     en_history en' = foldl (deque_append (en_capacity en)) (en_history en) out"
proof (cases "strategies_for en (rd_event r) = []")
  case True
  with assms(2) show ?thesis by (simp add: play_def evaluate_event_def bindE_def getE_def ret_def)
next
  case False
  then have "evaluate_each (rd_handler r) (rd_event r) (rd_state r) (rd_now r) (rd_run r)
      (strategies_for en (rd_event r)) [] en = (res, en')"
    using assms(2) by (simp add: play_def evaluate_event_def bindE_def getE_def)
  from evaluate_each_meets_spec [OF assms(1) this] show ?thesis by simp
qed

lemma evaluate_each_returned:
  "evaluate_each h e ms now run sts acc en = (Inr out, en') \<Longrightarrow>
     \<forall>st \<in> set sts. \<exists>b. is_ready st e ms now = Inr b"
proof (induction sts arbitrary: acc en)
  case (Cons st sts)
  show ?case
  proof (cases "is_ready st e ms now")
    case (Inl x)
    with Cons.prems show ?thesis by (simp add: bindE_def evaluate_one_unready)
  next
    case (Inr b)
    obtain r1 en1 where "evaluate_one h e ms now run st en = (r1, en1)" by force
    with Cons Inr show ?thesis by (auto simp: bindE_def split: sum.splits)
  qed
qed simp

lemma play_returned:
  "play r en = (Inr out, en') \<Longrightarrow>
     \<forall>st \<in> set (strategies_for en (rd_event r)). \<exists>b. is_ready st (rd_event r) (rd_state r) (rd_now r) = Inr b"
  using evaluate_each_returned
  by (fastforce simp: play_def evaluate_event_def bindE_def getE_def ret_def split: if_splits)

lemma log_spaced_play:
  assumes "log_spaced before (dedup en) past" and "dd_cooldown (dedup en) \<noteq> 0" and "before \<le> rd_now r"
    and "round_ready reg r" and "indexes reg en" and "play r en = (res, en')"
  shows "\<exists>out. res = Inr out \<and> log_spaced (rd_now r) (dedup en') (past @ map (\<lambda>g. (g, rd_now r)) out) \<and>
    dd_cooldown (dedup en') = dd_cooldown (dedup en) \<and> indexes reg en'"
proof -
  have "\<forall>st \<in> set (strategies_for en (rd_event r)). \<exists>b. is_ready st (rd_event r) (rd_state r) (rd_now r) = Inr b"
    using assms(4) strategies_for_subset [OF assms(5)] by (auto simp: round_ready_def)
  from play_meets_spec [OF this assms(6)] obtain out where out: "res = Inr out"
    "contributions_spec (en_policy en) (rd_event r) (rd_now r) (rd_run r)
        (readiness (rd_event r) (rd_state r) (rd_now r)) (strategies_for en (rd_event r)) (dedup en) =
     (out, dedup en')" "strategies_by_kind en' = strategies_by_kind en" by metis
  have "remembers (rd_now r) (dedup en) p \<and> snd p \<le> rd_now r" if "p \<in> set past" for p
    using that assms(1) remembers_later [OF _ assms(3)] order_trans [OF _ assms(3), of "snd p"]
    by (simp add: log_spaced_def)
  with assms(1) have "log_spaced (rd_now r) (dedup en) past" by (simp add: log_spaced_def)
  from log_spaced_contributions [OF this assms(2) out(2)] out(1,3) assms(5) show ?thesis
    by (simp add: indexes_def)
qed

lemma log_spaced_play_all:
  assumes "log_spaced before (dedup en) past" and "dd_cooldown (dedup en) \<noteq> 0"
    and "sorted (before # map rd_now rs)" and "\<forall>r \<in> set rs. round_ready reg r"
    and "indexes reg en"
  shows "spaced (dd_cooldown (dedup en)) (past @ fst (play_all rs en))"
  using assms
proof (induction rs arbitrary: en before past)
  case Nil
  then show ?case by (simp add: log_spaced_def)
next
  case (Cons r rs)
  obtain res en1 where one: "play r en = (res, en1)" by force
  have le: "before \<le> rd_now r" and ready: "round_ready reg r" using Cons.prems(3,4) by auto
  from log_spaced_play [OF Cons.prems(1,2) le ready Cons.prems(5) one] obtain out where out: "res = Inr out"
    "log_spaced (rd_now r) (dedup en1) (past @ map (\<lambda>g. (g, rd_now r)) out)"
    "dd_cooldown (dedup en1) = dd_cooldown (dedup en)" "indexes reg en1" by blast
  have "spaced (dd_cooldown (dedup en1)) ((past @ map (\<lambda>g. (g, rd_now r)) out) @ fst (play_all rs en1))"
    by (rule Cons.IH [OF out(2)]) (use Cons.prems out(3,4) in auto)
  moreover have "fst (play_all (r # rs) en) = map (\<lambda>g. (g, rd_now r)) out @ fst (play_all rs en1)"
    by (simp add: one out(1) split: prod.split)
  ultimately show ?case by (simp only: out(3) append_assoc)
qed

section \<open>Sample data\<close>

definition sample_signal :: "int \<Rightarrow> signal" where
  "sample_signal t = \<lparr>strategy_name = ''breakout'', strategy_version = ''1'',
     sg_canonical_symbol = ''BTC-USDT'', direction = BULLISH, reason = ''r'',
     occurred_at = Datetime (seconds t), fingerprint = ''f'', strength = None, exchanges = [], expires_at = None,
     attributes = [], level = WATCH\<rparr>"

definition sample_definition :: signal_definition where
  "sample_definition = \<lparr>df_name = ''breakout'', df_version = ''1'', horizon = SHORT_TERM,
     requirements = \<lparr>trigger_kinds = [TICKER], fresh_data = [], candle_history = [], minimum_venues = 1,
       trigger_candle_intervals = []\<rparr>\<rparr>"

definition cooldown_policy :: signal_policy where
  "cooldown_policy = default_signal_policy\<lparr>cooldown_seconds := 60\<rparr>"

definition sample_engine :: signal_engine where
  "sample_engine = (case new_signal_engine [sample_definition] (Some cooldown_policy) of Inr en \<Rightarrow> en)"

lemma sample_engine_new:
  "new_signal_engine [sample_definition] (Some cooldown_policy) = Inr sample_engine"
  by (simp add: sample_engine_def new_signal_engine_def cooldown_policy_def default_signal_policy_def
      new_deduplicator_def)

definition sample_ticker_event :: "int \<Rightarrow> market_event" where
  "sample_ticker_event t = TickerEvent \<lparr>tk_metadata = sample_metadata t None, last_price = Some 100,
     mark_price = None, index_price = None, tk_mid_price = None, tk_best_bid = None, tk_best_ask = None,
     base_volume_24h = None, quote_volume_24h = None\<rparr>"

definition sample_round :: "int \<Rightarrow> round" where
  "sample_round t = \<lparr>rd_event = sample_ticker_event t,
     rd_state = snd (apply_event (sample_ticker_event t) sample_market),
     rd_now = Datetime (seconds t), rd_run = (\<lambda>_. Candidates [Some (sample_signal t)]), rd_handler = None\<rparr>"

text \<open>The sample state holds no candle, so nothing in it can make a readiness check raise.\<close>

lemma sample_ticker_state:
  "snd (apply_event (sample_ticker_event t) sample_market) = sample_market
     \<lparr>instruments := [sample_instrument],
      tickers := [sample_instrument \<mapsto> (case sample_ticker_event t of TickerEvent k \<Rightarrow> k)],
      freshness := mark (sample_ticker_event t) (freshness sample_market)\<rparr>"
  by (simp add: apply_event_def Let_def sample_ticker_event_def thenE_def bindE_def add_instrument_def
      modifyE_def apply_ticker_def getE_def is_older_def merge_ticker_def ret_def mark_event_def
      sample_market_def sample_config_def new_market_state_def new_candle_store_def event_instrument_def
      sample_metadata_def List.insert_def)

lemma sample_fresh:
  "is_fresh (snd (apply_event (sample_ticker_event t) sample_market)) sample_instrument TICKER (Datetime (seconds t))"
  unfolding sample_ticker_state
  by (simp add: is_fresh_def tracker_is_fresh_def mark_def sample_ticker_event_def
      event_instrument_def sample_metadata_def sample_market_def sample_config_def new_market_state_def
      new_candle_store_def new_freshness_tracker_def default_policy_def total_seconds_def dt_diff_def)

lemma sample_snapshot_taken:
  "\<exists>snap. market_snapshot (snd (apply_event (sample_ticker_event t) sample_market)) ''BTC-USDT'' now = Inr snap \<and>
     map (vs_instrument \<circ> snd) (markets snap) = [sample_instrument]"
  unfolding sample_ticker_state
  by (simp add: market_snapshot_def take_venue_snapshot_def Let_def sample_market_def
      sample_config_def new_market_state_def new_candle_store_def intervals_for_def map_filter_simps
      sample_instrument_def)

lemma sample_is_ready:
  "is_ready sample_definition (rd_event (sample_round t)) (rd_state (sample_round t)) (rd_now (sample_round t)) = Inr True"
proof -
  obtain snap where snap: "market_snapshot (snd (apply_event (sample_ticker_event t) sample_market)) ''BTC-USDT''
      (Datetime (seconds t)) = Inr snap" "map (vs_instrument \<circ> snd) (markets snap) = [sample_instrument]"
    using sample_snapshot_taken [of t "Datetime (seconds t)"] by (elim exE conjE)
  then obtain v where "markets snap = [(fst v, snd v)]" "vs_instrument (snd v) = sample_instrument"
    by (cases "markets snap") auto
  with snap(1) sample_fresh [of t] show ?thesis
    by (simp add: is_ready_def Let_def sample_round_def sample_definition_def sample_ticker_event_def
        event_instrument_def sample_metadata_def venue_ready_def sample_instrument_def List.insert_def)
qed

section \<open>The engine\<close>

text \<open>
  C22. The cooldown holds across definitions' behaviour and events: in any run of a new engine
  with a positive cooldown, over events at non-decreasing times and whatever the definitions
  return, two emitted signals of one strategy and fingerprint are at least the cooldown apart.
\<close>

theorem emissions_are_spaced:
  assumes "new_signal_engine reg pol = Inr en" and "0 < cooldown_seconds (en_policy en)"
    and "sorted (map rd_now rs)" and "\<forall>r \<in> set rs. round_ready reg r"
  shows "spaced (cooldown_seconds (en_policy en)) (fst (play_all rs en))"
proof (cases rs)
  case Nil
  then show ?thesis by simp
next
  case (Cons r rest)
  have d: "dedup_ok (dedup en)" "dd_cooldown (dedup en) = cooldown_seconds (en_policy en)"
    using assms(1) new_deduplicator_ok
    by (auto simp: new_signal_engine_def Let_def new_deduplicator_def dedup_ok_def split: if_splits option.splits)
  have "spaced (dd_cooldown (dedup en)) ([] @ fst (play_all rs en))"
    by (rule log_spaced_play_all [where before = "rd_now r"])
       (use d assms(2-4) new_engine_indexes [OF assms(1)] Cons in \<open>auto simp: log_spaced_def\<close>)
  with d(2) show ?thesis by simp
qed

lemma sample_round_ready: "round_ready [sample_definition] (sample_round t)"
  by (auto simp: round_ready_def sample_is_ready)

lemma sample_round_sel: "rd_now (sample_round t) = Datetime (seconds t)"
  "rd_run (sample_round t) = (\<lambda>_. Candidates [Some (sample_signal t)])"
  by (simp_all add: sample_round_def)

lemma emissions_are_spaced_witness:
  "spaced 60 (fst (play_all [sample_round 0, sample_round 10, sample_round 61] sample_engine))"
proof -
  have c: "cooldown_seconds (en_policy sample_engine) = 60"
    by (simp add: sample_engine_def new_signal_engine_def cooldown_policy_def default_signal_policy_def
        new_deduplicator_def)
  have "sorted (map rd_now [sample_round 0, sample_round 10, sample_round 61])"
    by (simp add: sample_round_def datetime_order seconds_def)
  with emissions_are_spaced [OF sample_engine_new, of "[sample_round 0, sample_round 10, sample_round 61]"]
    sample_round_ready c show ?thesis by simp
qed

text \<open>
  C23. Every signal the engine emits is valid: it was returned by a definition triggered by
  the event that was ready (its trigger data fresh), carries that definition's name and
  version and the event's symbol, is neither older than the policy allows nor more than five
  seconds ahead, and has not expired.
\<close>

theorem emitted_signals_are_valid:
  assumes "play r en = (Inr out, en')" and "g \<in> set out"
  shows "\<exists>st \<in> set (strategies_for en (rd_event r)).
    valid_emission (en_policy en) st (rd_event r) (rd_now r) g \<and>
    is_ready st (rd_event r) (rd_state r) (rd_now r) = Inr True \<and>
    event_kind (rd_event r) \<in> set (trigger_kinds (requirements st)) \<and>
    is_fresh (rd_state r) (event_instrument (rd_event r)) (event_kind (rd_event r)) (rd_now r)"
proof -
  from play_meets_spec [OF play_returned [OF assms(1)] assms(1)]
  have "fst (contributions_spec (en_policy en) (rd_event r) (rd_now r) (rd_run r)
      (readiness (rd_event r) (rd_state r) (rd_now r)) (strategies_for en (rd_event r)) (dedup en)) = out"
    by (auto dest: arg_cong [of _ _ fst])
  with assms(2) contributions_spec_valid obtain st where st: "st \<in> set (strategies_for en (rd_event r))"
    "readiness (rd_event r) (rd_state r) (rd_now r) st"
    "valid_emission (en_policy en) st (rd_event r) (rd_now r) g" by metis
  from st(2) have ready: "is_ready st (rd_event r) (rd_state r) (rd_now r) = Inr True"
    by (simp add: readiness_def split: sum.splits)
  then have "event_kind (rd_event r) \<in> set (trigger_kinds (requirements st)) \<and>
      is_fresh (rd_state r) (event_instrument (rd_event r)) (event_kind (rd_event r)) (rd_now r)"
    by (simp add: is_ready_def Let_def split: if_splits)
  with st ready show ?thesis by blast
qed

lemma sample_strategies: "strategies_for sample_engine (rd_event (sample_round t)) = [sample_definition]"
  by (simp add: strategies_for_def sample_round_def sample_ticker_event_def sample_engine_def
      new_signal_engine_def cooldown_policy_def default_signal_policy_def new_deduplicator_def sample_definition_def)

lemma sample_emission:
  "\<exists>en'. play (sample_round t) sample_engine = (Inr [sample_signal t], en')"
proof -
  have v: "validate_signal (en_policy sample_engine) sample_definition (rd_event (sample_round t))
      (Some (sample_signal t)) (Datetime (seconds t)) = None"
    by (simp add: validate_signal_def sample_signal_def sample_definition_def sample_round_def
        sample_ticker_event_def event_instrument_def sample_metadata_def sample_instrument_def
        sample_engine_def new_signal_engine_def cooldown_policy_def default_signal_policy_def
        new_deduplicator_def dt_diff_def total_seconds_def)
  have a: "fst (accept (sample_signal t) (Datetime (seconds t)) (dedup sample_engine))"
    by (simp add: accept_def sample_engine_def new_signal_engine_def cooldown_policy_def
        default_signal_policy_def new_deduplicator_def Let_def forget_expired_def evict_drop)
  obtain res en' where run: "play (sample_round t) sample_engine = (res, en')" by force
  have "\<forall>st \<in> set (strategies_for sample_engine (rd_event (sample_round t))).
      \<exists>b. is_ready st (rd_event (sample_round t)) (rd_state (sample_round t)) (rd_now (sample_round t)) = Inr b"
    using sample_is_ready by (auto simp: sample_strategies)
  from play_meets_spec [OF this run] v a sample_is_ready [of t] run show ?thesis
    by (auto simp: sample_strategies readiness_def contribution_spec_def offer_spec_def sample_round_sel
        split: prod.splits)
qed

lemma emitted_signals_are_valid_witness:
  "is_fresh (rd_state (sample_round 7)) (event_instrument (rd_event (sample_round 7)))
     (event_kind (rd_event (sample_round 7))) (rd_now (sample_round 7))"
proof -
  obtain en' where "play (sample_round 7) sample_engine = (Inr [sample_signal 7], en')"
    using sample_emission by blast
  from emitted_signals_are_valid [OF this] show ?thesis by auto
qed

definition without_failures :: "(signal_definition \<Rightarrow> evaluation) \<Rightarrow> signal_engine \<Rightarrow> signal_engine" where
  "without_failures run en = en\<lparr>strategies_by_kind :=
     (\<lambda>k. filter (\<lambda>st. \<not> fails run st) (strategies_by_kind en k))\<rparr>"

lemma strategies_without_failures:
  "strategies_for (without_failures run en) e = filter (\<lambda>st. \<not> fails run st) (strategies_for en e)"
  by (cases e) (simp_all add: strategies_for_def without_failures_def conj_commute)

text \<open>
  C24. Failures are isolated: when the readiness checks do not raise, an event returns
  normally whatever the definitions do, and its accepted signals, the deduplicator and the
  history are those of an engine in which the definitions that timed out, raised or returned
  no sequence were never registered.
\<close>

theorem failures_are_isolated:
  assumes "indexes reg en" and "round_ready reg r"
  shows "\<exists>out en1 en2. play r en = (Inr out, en1) \<and>
    play r (without_failures (rd_run r) en) = (Inr out, en2) \<and>
    dedup en1 = dedup en2 \<and> en_history en1 = en_history en2"
proof -
  let ?en = "without_failures (rd_run r) en"
  have all: "\<exists>b. is_ready st (rd_event r) (rd_state r) (rd_now r) = Inr b"
    if "st \<in> set (strategies_for en (rd_event r))" for st
    using that assms(2) strategies_for_subset [OF assms(1)] by (auto simp: round_ready_def)
  obtain res1 en1 where run1: "play r en = (res1, en1)" by force
  obtain res2 en2 where run2: "play r ?en = (res2, en2)" by force
  have same: "en_policy ?en = en_policy en" "dedup ?en = dedup en" "en_history ?en = en_history en"
    "en_capacity ?en = en_capacity en" by (simp_all add: without_failures_def en_capacity_def)
  have 1: "\<forall>st \<in> set (strategies_for en (rd_event r)). \<exists>b. is_ready st (rd_event r) (rd_state r) (rd_now r) = Inr b"
    using all by blast
  have 2: "\<forall>st \<in> set (strategies_for ?en (rd_event r)). \<exists>b. is_ready st (rd_event r) (rd_state r) (rd_now r) = Inr b"
    using all by (simp add: strategies_without_failures)
  from play_meets_spec [OF 1 run1] play_meets_spec [OF 2 run2] show ?thesis
    using run1 run2
    by (auto simp: strategies_without_failures contributions_without_failures same) (metis prod.inject)+
qed

lemma sample_indexes: "indexes [sample_definition] sample_engine"
  by (rule new_engine_indexes [OF sample_engine_new])

lemma failures_are_isolated_witness:
  "\<exists>out en1. play ((sample_round 3)\<lparr>rd_run := \<lambda>_. TimedOut\<rparr>) sample_engine = (Inr out, en1)"
proof -
  have "round_ready [sample_definition] ((sample_round 3)\<lparr>rd_run := \<lambda>_. TimedOut\<rparr>)"
    using sample_round_ready [of 3] by (simp add: round_ready_def)
  from failures_are_isolated [OF sample_indexes this] show ?thesis by blast
qed

section \<open>The deduplicator\<close>

text \<open>
  An occurrence is accepted at most once: among any number of offers up to the
  deduplicator's capacity, whatever their times, the accepted ones have distinct occurrence
  keys (strategy, version, symbol, fingerprint and time of occurrence).
\<close>

theorem occurrence_accepted_once:
  assumes "new_deduplicator c n = Inr d" and "int (length offers) \<le> n"
  shows "distinct (map (occurrence_key \<circ> fst) (fst (decide offers d)))"
proof -
  have "dedup_ok d" by (rule new_deduplicator_ok [OF assms(1)])
  moreover have "length (seen_occurrences d) + length offers \<le> occurrence_capacity d"
    using assms by (auto simp: new_deduplicator_def split: if_splits)
  ultimately show ?thesis using decide_distinct by blast
qed

lemma occurrence_accepted_once_witness:
  "\<exists>d. new_deduplicator 0 2 = Inr d \<and> distinct (map (occurrence_key \<circ> fst)
     (fst (decide [(sample_signal 1, Datetime 0), (sample_signal 1, Datetime 5)] d)))"
proof -
  obtain d where d: "new_deduplicator 0 2 = Inr d" by (simp add: new_deduplicator_def)
  from occurrence_accepted_once [OF this, of "[(sample_signal 1, Datetime 0), (sample_signal 1, Datetime 5)]"] d
  show ?thesis by auto
qed

section \<open>Replay\<close>

lemma replay_event_returned:
  assumes "replay_event h run e r = (Inr res, r')"
  shows "(case rp_clock r of None \<Rightarrow> True | Some u \<Rightarrow> u \<le> received_at (event_meta e)) \<and>
    rp_clock r' = Some (received_at (event_meta e)) \<and> rp_state r' = snd (apply_event e (rp_state r)) \<and>
    (fst (apply_event e (rp_state r)) = Inr (res \<noteq> None))"
  using assms
  by (auto simp: replay_event_def thenE_def bindE_def advance_to_def getE_def raise_def modifyE_def
      on_state_def on_engine_def ret_def split: if_splits option.splits prod.splits sum.splits)

fun applied_events :: "market_event list \<Rightarrow> market_state \<Rightarrow> market_event list" where
  "applied_events [] s = []"
| "applied_events (e # es) s = (case apply_event e s of (r, s') \<Rightarrow>
     (if r = Inr True then e # applied_events es s' else applied_events es s'))"

text \<open>
  A replay that returns saw every event once, in an order of non-decreasing receive times,
  and counted each as applied or ignored as \<open>MarketState.apply\<close> decided; its final market
  state is the one those events alone produce, so evaluating definitions never changes it.
\<close>

theorem replay_accounts_for_events:
  assumes "replay_run h run es res r = (Inr res', r')"
  shows "events_seen res' = events_seen res + length es \<and>
    events_applied res' = events_applied res + length (applied_events es (rp_state r)) \<and>
    events_applied res' + events_ignored res' = events_applied res + events_ignored res + length es \<and>
    sorted ((case rp_clock r of None \<Rightarrow> [] | Some u \<Rightarrow> [u]) @ map (received_at \<circ> event_meta) es) \<and>
    rp_state r' = fold (\<lambda>e s. snd (apply_event e s)) es (rp_state r)"
  using assms
proof (induction es arbitrary: res r)
  case Nil
  then show ?case by (auto simp: ret_def split: option.splits)
next
  case (Cons e es)
  obtain out r1 where one: "replay_event h run e r = (Inr out, r1)"
    using Cons.prems by (auto simp: bindE_def split: prod.splits sum.splits)
  note step = replay_event_returned [OF one]
  let ?res = "case out of
      None \<Rightarrow> res\<lparr>events_seen := events_seen res + 1, events_ignored := events_ignored res + 1\<rparr>
    | Some gs \<Rightarrow> res\<lparr>events_seen := events_seen res + 1, events_applied := events_applied res + 1,
        signals := signals res @ gs\<rparr>"
  have "replay_run h run es ?res r1 = (Inr res', r')" using Cons.prems one by (simp add: bindE_def)
  note IH = Cons.IH [OF this]
  have state: "apply_event e (rp_state r) = (Inr (out \<noteq> None), rp_state r1)"
    using step by (simp add: prod_eq_iff)
  have srt: "sorted ((case rp_clock r of None \<Rightarrow> [] | Some u \<Rightarrow> [u]) @ map (received_at \<circ> event_meta) (e # es))"
    using IH step by (auto simp: comp_def split: option.splits)
  have counts: "events_seen ?res = events_seen res + 1"
    "events_applied ?res = events_applied res + (if out = None then 0 else 1)"
    "events_ignored ?res = events_ignored res + (if out = None then 1 else 0)"
    by (simp_all split: option.split)
  have applied: "length (applied_events (e # es) (rp_state r)) =
      (if out = None then 0 else 1) + length (applied_events es (rp_state r1))"
    using state by simp
  have folded: "fold (\<lambda>e s. snd (apply_event e s)) (e # es) (rp_state r) =
      fold (\<lambda>e s. snd (apply_event e s)) es (rp_state r1)"
    using state by simp
  from IH srt show ?case unfolding counts applied folded
    by (simp only: list.size) (auto split: if_splits)
qed

definition sample_replay :: replay where
  "sample_replay = \<lparr>rp_state = sample_market, rp_engine = sample_engine, rp_clock = None\<rparr>"

lemma sample_ticker_applied: "fst (apply_event (sample_ticker_event t) sample_market) = Inr True"
  by (simp add: apply_event_def Let_def sample_ticker_event_def thenE_def bindE_def add_instrument_def
      modifyE_def apply_ticker_def getE_def is_older_def merge_ticker_def ret_def mark_event_def
      sample_market_def sample_config_def new_market_state_def new_candle_store_def event_instrument_def
      sample_metadata_def)

lemma sample_replay_run:
  "\<exists>res r'. replay_run None (\<lambda>_ _ _. TimedOut) [sample_ticker_event 5] no_result sample_replay = (Inr res, r')"
proof -
  let ?r = "(sample_round 5)\<lparr>rd_run := \<lambda>_. TimedOut\<rparr>"
  obtain res en' where run: "play ?r sample_engine = (res, en')" by force
  have "\<forall>st \<in> set (strategies_for sample_engine (rd_event ?r)).
      \<exists>b. is_ready st (rd_event ?r) (rd_state ?r) (rd_now ?r) = Inr b"
    using sample_is_ready [of 5] by (auto simp: sample_strategies)
  from play_meets_spec [OF this run] obtain out where "res = Inr out" by blast
  moreover obtain s' where s': "apply_event (sample_ticker_event 5) sample_market = (Inr True, s')"
    using sample_ticker_applied [of 5] by (metis prod.collapse)
  ultimately show ?thesis
    using run
    by (simp add: replay_event_def thenE_def bindE_def advance_to_def getE_def modifyE_def on_state_def
        on_engine_def ret_def sample_replay_def play_def sample_round_def read_clock_def
        sample_ticker_event_def sample_metadata_def)
qed

lemma replay_accounts_for_events_witness:
  "\<exists>res r'. replay_run None (\<lambda>_ _ _. TimedOut) [sample_ticker_event 5] no_result sample_replay = (Inr res, r') \<and>
     events_seen res = 1"
proof -
  obtain res r' where run:
    "replay_run None (\<lambda>_ _ _. TimedOut) [sample_ticker_event 5] no_result sample_replay = (Inr res, r')"
    using sample_replay_run by blast
  from replay_accounts_for_events [OF run] run show ?thesis by (auto simp: no_result_def)
qed

end
