(* ===== verification/Feature_Dsl.thy ===== *)
theory Feature_Dsl
  imports Py_Prelude
begin

text \<open>
  src/src/quant_signal_agent/backtesting/dsl.py: the feature language of the back tests, its
  compiler's checks and its evaluator.

  A Python \<open>float\<close> is a value of a type \<open>'f\<close> with the operations the module uses, given by a
  record \<open>'f arith\<close>: every theorem about the evaluator holds for each such arithmetic, the
  IEEE one of the interpreter included. \<open>sum\<close> is an operation of its own, since its result
  is not that of repeated addition in every version of Python.
\<close>

section \<open>Scalars\<close>

record 'f arith =
  is_finite :: "'f \<Rightarrow> bool"
  le_f :: "'f \<Rightarrow> 'f \<Rightarrow> bool"
  lt_f :: "'f \<Rightarrow> 'f \<Rightarrow> bool"
  is_zero :: "'f \<Rightarrow> bool"
  add_f :: "'f \<Rightarrow> 'f \<Rightarrow> 'f"
  sub_f :: "'f \<Rightarrow> 'f \<Rightarrow> 'f"
  mul_f :: "'f \<Rightarrow> 'f \<Rightarrow> 'f"
  div_f :: "'f \<Rightarrow> 'f \<Rightarrow> 'f"
  abs_f :: "'f \<Rightarrow> 'f"
  log1p_f :: "'f \<Rightarrow> 'f"
  sum_f :: "'f list \<Rightarrow> 'f"
  of_int_f :: "int \<Rightarrow> 'f"
  round_f :: "'f \<Rightarrow> exn + int"
  isclose_f :: "'f \<Rightarrow> 'f \<Rightarrow> bool"
  mad_scale :: 'f

datatype 'f scalar = Num 'f | Flag bool | Missing

type_synonym 'f column = "'f scalar list"

definition numeric :: "'f arith \<Rightarrow> 'f scalar \<Rightarrow> 'f option" where
  "numeric fl v = (case v of
       Num x \<Rightarrow> if is_finite fl x then Some x else None
     | _ \<Rightarrow> None)"

text \<open>\<open>bool(value)\<close>\<close>

definition truthy :: "'f arith \<Rightarrow> 'f scalar \<Rightarrow> bool" where
  "truthy fl v = (case v of Num x \<Rightarrow> \<not> is_zero fl x | Flag b \<Rightarrow> b | Missing \<Rightarrow> False)"

section \<open>The graph\<close>

datatype feature_operator = ROLLING_MEAN | ROLLING_RATIO | ROBUST_ZSCORE | PCT_CHANGE
  | MINIMUM | MAXIMUM | GREATER_EQUAL | LESS_EQUAL | ALL_OF | ANY_OF | ABS | LOG1P

fun operator_value :: "feature_operator \<Rightarrow> string" where
  "operator_value ROLLING_MEAN = ''rolling_mean''"
| "operator_value ROLLING_RATIO = ''rolling_ratio''"
| "operator_value ROBUST_ZSCORE = ''robust_zscore''"
| "operator_value PCT_CHANGE = ''pct_change''"
| "operator_value MINIMUM = ''minimum''"
| "operator_value MAXIMUM = ''maximum''"
| "operator_value GREATER_EQUAL = ''greater_equal''"
| "operator_value LESS_EQUAL = ''less_equal''"
| "operator_value ALL_OF = ''all''"
| "operator_value ANY_OF = ''any''"
| "operator_value ABS = ''abs''"
| "operator_value LOG1P = ''log1p''"

record 'f feature_node =
  feature_id :: string
  operator :: feature_operator
  inputs :: "string list"
  window_parameter :: "string option"
  threshold_parameter :: "string option"
  constant_value :: "'f option"

record 'f feature_graph =
  source_columns :: "string list"
  nodes :: "'f feature_node list"
  signal_condition :: string

datatype value_type = NUMERIC | BOOLEAN

text \<open>\<open>SAFE_ID.fullmatch\<close>: \<open>^[a-z0-9][a-z0-9._-]{1,63}$\<close>\<close>

definition safe_char :: "char \<Rightarrow> bool" where
  "safe_char c \<longleftrightarrow> is_lower_ascii c \<or> is_digit_ascii c \<or> c \<in> set ''._-''"

definition safe_id :: "string \<Rightarrow> bool" where
  "safe_id s = (case s of
       [] \<Rightarrow> False
     | c # cs \<Rightarrow> (is_lower_ascii c \<or> is_digit_ascii c) \<and> list_all safe_char cs \<and>
         1 \<le> length cs \<and> length cs \<le> 63)"

definition windowed_operator :: "feature_operator \<Rightarrow> bool" where
  "windowed_operator op \<longleftrightarrow> op \<in> {ROLLING_MEAN, ROLLING_RATIO, ROBUST_ZSCORE, PCT_CHANGE}"

definition comparison_operator :: "feature_operator \<Rightarrow> bool" where
  "comparison_operator op \<longleftrightarrow> op \<in> {GREATER_EQUAL, LESS_EQUAL}"

definition boolean_operator :: "feature_operator \<Rightarrow> bool" where
  "boolean_operator op \<longleftrightarrow> op \<in> {ALL_OF, ANY_OF}"

definition unary_operator :: "feature_operator \<Rightarrow> bool" where
  "unary_operator op \<longleftrightarrow> windowed_operator op \<or> comparison_operator op \<or> op \<in> {ABS, LOG1P}"

definition in_parameters :: "string option \<Rightarrow> string set \<Rightarrow> bool" where
  "in_parameters p ids = (case p of None \<Rightarrow> False | Some x \<Rightarrow> x \<in> ids)"

definition spec_guard :: "bool \<Rightarrow> string \<Rightarrow> exn + unit \<Rightarrow> exn + unit" where
  "spec_guard ok message rest = (if ok then rest else Inl (SpecValidationError message))"

definition validate_node :: "'f feature_node \<Rightarrow> string set \<Rightarrow> exn + unit" where
  "validate_node nd ids =
     (let op = operator nd; name = operator_value op; k = length (inputs nd) in
      spec_guard (unary_operator op \<longrightarrow> k = 1) (name @ '' requires exactly one input'')
     (spec_guard (op \<in> {MINIMUM, MAXIMUM} \<longrightarrow> 2 \<le> k) (name @ '' requires at least two inputs'')
     (spec_guard (boolean_operator op \<longrightarrow> 1 \<le> k) (name @ '' requires at least one input'')
     (spec_guard (windowed_operator op \<longrightarrow> in_parameters (window_parameter nd) ids)
        (''feature '' @ feature_id nd @ '' requires an allowlisted window parameter'')
     (spec_guard (\<not> windowed_operator op \<longrightarrow> window_parameter nd = None)
        (''feature '' @ feature_id nd @ '' cannot use a window parameter'')
     (if comparison_operator op then
        spec_guard ((threshold_parameter nd \<noteq> None) \<noteq> (constant_value nd \<noteq> None))
          (''feature '' @ feature_id nd @ '' requires one threshold parameter or constant'')
       (spec_guard (threshold_parameter nd \<noteq> None \<longrightarrow> in_parameters (threshold_parameter nd) ids)
          (''feature '' @ feature_id nd @ '' has an unknown threshold'')
          (Inr ()))
      else
        spec_guard (threshold_parameter nd = None \<and> constant_value nd = None)
          (''feature '' @ feature_id nd @ '' cannot use a threshold'')
          (Inr ())))))))"

type_synonym typing = "(string \<times> value_type) list"

definition result_type :: "feature_operator \<Rightarrow> value_type" where
  "result_type op = (if comparison_operator op \<or> boolean_operator op then BOOLEAN else NUMERIC)"

definition check_node :: "'f feature_node \<Rightarrow> string set \<Rightarrow> typing \<Rightarrow> exn + unit" where
  "check_node nd ids available =
     (let types = map (\<lambda>x. map_of available x) (inputs nd) in
      spec_guard (safe_id (feature_id nd) \<and> map_of available (feature_id nd) = None)
        (''invalid or duplicate feature id: '' @ feature_id nd)
     (spec_guard (inputs nd \<noteq> [] \<and> None \<notin> set types)
        (''feature '' @ feature_id nd @ '' has an unknown input'')
     (case validate_node nd ids of
        Inl e \<Rightarrow> Inl e
      | Inr _ \<Rightarrow>
          spec_guard (boolean_operator (operator nd) \<longrightarrow> set types = {Some BOOLEAN})
            (''feature '' @ feature_id nd @ '' requires Boolean inputs'')
         (spec_guard (\<not> boolean_operator (operator nd) \<longrightarrow> set types = {Some NUMERIC})
            (''feature '' @ feature_id nd @ '' requires numeric inputs'')
            (Inr ())))))"

fun check_nodes :: "'f feature_node list \<Rightarrow> string set \<Rightarrow> typing \<Rightarrow> exn + typing" where
  "check_nodes [] ids available = Inr available"
| "check_nodes (nd # nds) ids available = (case check_node nd ids available of
       Inl e \<Rightarrow> Inl e
     | Inr _ \<Rightarrow> check_nodes nds ids (available @ [(feature_id nd, result_type (operator nd))]))"

definition source_types :: "string list \<Rightarrow> typing" where
  "source_types sources = map (\<lambda>s. (s, NUMERIC)) sources"

definition compile_feature_graph ::
  "string list \<Rightarrow> 'f feature_node list \<Rightarrow> string \<Rightarrow> string set \<Rightarrow> exn + 'f feature_graph"
where
  "compile_feature_graph sources nds condition ids =
     (if sources = [] \<or> \<not> list_all safe_id sources
      then Inl (SpecValidationError ''source_columns must contain safe unique identifiers'')
      else if \<not> distinct sources then Inl (SpecValidationError ''source_columns must be unique'')
      else case check_nodes nds ids (source_types sources) of
        Inl e \<Rightarrow> Inl e
      | Inr available \<Rightarrow> (case map_of available condition of
          None \<Rightarrow> Inl (SpecValidationError ''signal condition must reference a source or feature'')
        | Some NUMERIC \<Rightarrow> Inl (SpecValidationError ''signal condition must reference a Boolean feature'')
        | Some BOOLEAN \<Rightarrow> Inr \<lparr>source_columns = sources, nodes = nds, signal_condition = condition\<rparr>))"

section \<open>Windows\<close>

definition window_bars :: "'f arith \<Rightarrow> 'f feature_node \<Rightarrow> (string \<rightharpoonup> 'f) \<Rightarrow> int \<Rightarrow> exn + nat" where
  "window_bars fl nd params minutes = (case window_parameter nd of
       None \<Rightarrow> Inl (AssertionError [])
     | Some p \<Rightarrow> (case params p of
         None \<Rightarrow> Inl (KeyError p)
       | Some hours \<Rightarrow>
           if minutes = 0 then Inl (ZeroDivisionError ''float division by zero'')
           else (let raw = div_f fl (mul_f fl hours (of_int_f fl 60)) (of_int_f fl minutes) in
             case round_f fl raw of
               Inl e \<Rightarrow> Inl e
             | Inr bars \<Rightarrow>
                 if le_f fl hours (of_int_f fl 0) \<or> bars < 1 \<or> \<not> isclose_f fl raw (of_int_f fl bars)
                 then Inl (ValueError (p @ '' does not align to the candles''))
                 else Inr (nat bars))))"

text \<open>\<open>sorted\<close> under the arithmetic's order.\<close>

fun insert_sorted :: "('f \<Rightarrow> 'f \<Rightarrow> bool) \<Rightarrow> 'f \<Rightarrow> 'f list \<Rightarrow> 'f list" where
  "insert_sorted lt x [] = [x]"
| "insert_sorted lt x (y # ys) = (if lt y x then y # insert_sorted lt x ys else x # y # ys)"

definition py_sorted :: "('f \<Rightarrow> 'f \<Rightarrow> bool) \<Rightarrow> 'f list \<Rightarrow> 'f list" where
  "py_sorted lt xs = foldr (insert_sorted lt) xs []"

definition median_of :: "'f arith \<Rightarrow> 'f list \<Rightarrow> nat \<Rightarrow> 'f" where
  "median_of fl ordered bars =
     (if bars mod 2 = 1 then ordered ! (bars div 2)
      else div_f fl (add_f fl (ordered ! (bars div 2 - 1)) (ordered ! (bars div 2))) (of_int_f fl 2))"

definition windowed_value ::
  "'f arith \<Rightarrow> feature_operator \<Rightarrow> nat \<Rightarrow> 'f list \<Rightarrow> 'f option \<Rightarrow> 'f scalar"
where
  "windowed_value fl op bars clean current =
     (if op = PCT_CHANGE then
        (let baseline = clean ! 0 in
         case current of
           None \<Rightarrow> Missing
         | Some c \<Rightarrow> if is_zero fl baseline then Missing
             else Num (div_f fl (sub_f fl c baseline) baseline))
      else
        (let mean = div_f fl (sum_f fl clean) (of_int_f fl (int bars)) in
         if op = ROLLING_MEAN then Num mean
         else if op = ROLLING_RATIO then
           (case current of
              None \<Rightarrow> Missing
            | Some c \<Rightarrow> if is_zero fl mean then Missing else Num (div_f fl c mean))
         else
           (let median = median_of fl (py_sorted (lt_f fl) clean) bars;
                mad = median_of fl (py_sorted (lt_f fl) (map (\<lambda>v. abs_f fl (sub_f fl v median)) clean)) bars
            in case current of
                 None \<Rightarrow> Missing
               | Some c \<Rightarrow> if is_zero fl mad then Missing
                   else Num (div_f fl (sub_f fl c median) (mul_f fl (mad_scale fl) mad)))))"

text \<open>The value at one row: the history is the \<open>bars\<close> rows before it, never the row itself.\<close>

definition windowed_at :: "'f arith \<Rightarrow> feature_operator \<Rightarrow> 'f column \<Rightarrow> nat \<Rightarrow> nat \<Rightarrow> 'f scalar" where
  "windowed_at fl op source bars index =
     (let history = map (numeric fl) (drop (index - bars) (take index source)) in
      if length history \<noteq> bars \<or> None \<in> set history then Missing
      else windowed_value fl op bars (map the history) (numeric fl (source ! index)))"

definition windowed :: "'f arith \<Rightarrow> feature_operator \<Rightarrow> 'f column \<Rightarrow> nat \<Rightarrow> 'f column" where
  "windowed fl op source bars = map (windowed_at fl op source bars) [0..<length source]"

section \<open>Evaluation\<close>

definition compare_value :: "'f arith \<Rightarrow> feature_operator \<Rightarrow> 'f \<Rightarrow> 'f scalar \<Rightarrow> 'f scalar" where
  "compare_value fl op threshold v = (case numeric fl v of
       None \<Rightarrow> Flag False
     | Some x \<Rightarrow> Flag (if op = GREATER_EQUAL then le_f fl threshold x else le_f fl x threshold))"

definition transform_value :: "'f arith \<Rightarrow> feature_operator \<Rightarrow> 'f scalar \<Rightarrow> 'f scalar" where
  "transform_value fl op v = (case numeric fl v of
       None \<Rightarrow> Missing
     | Some x \<Rightarrow>
         if op = LOG1P \<and> lt_f fl x (of_int_f fl 0) then Missing
         else Num (if op = ABS then abs_f fl x else log1p_f fl x))"

text \<open>\<open>min\<close> and \<open>max\<close> of a row keep the first extreme value.\<close>

fun extreme :: "('f \<Rightarrow> 'f \<Rightarrow> bool) \<Rightarrow> 'f \<Rightarrow> 'f list \<Rightarrow> 'f" where
  "extreme better best [] = best"
| "extreme better best (x # xs) = extreme better (if better x best then x else best) xs"

definition combine_row :: "'f arith \<Rightarrow> feature_operator \<Rightarrow> 'f scalar list \<Rightarrow> 'f scalar" where
  "combine_row fl op row = (let ns = map (numeric fl) row in
     if None \<in> set ns then Missing
     else case map the ns of
         [] \<Rightarrow> Missing
       | x # xs \<Rightarrow> Num (if op = MINIMUM then extreme (lt_f fl) x xs
           else extreme (\<lambda>a b. lt_f fl b a) x xs))"

definition item_at :: "'f column \<Rightarrow> nat \<Rightarrow> exn + 'f scalar" where
  "item_at column index = (if index < length column then Inr (column ! index)
     else Inl (IndexError ''tuple index out of range''))"

fun all_at :: "'f arith \<Rightarrow> nat \<Rightarrow> 'f column list \<Rightarrow> exn + bool" where
  "all_at fl index [] = Inr True"
| "all_at fl index (c # cs) = (case item_at c index of
       Inl e \<Rightarrow> Inl e | Inr v \<Rightarrow> if truthy fl v then all_at fl index cs else Inr False)"

fun any_at :: "'f arith \<Rightarrow> nat \<Rightarrow> 'f column list \<Rightarrow> exn + bool" where
  "any_at fl index [] = Inr False"
| "any_at fl index (c # cs) = (case item_at c index of
       Inl e \<Rightarrow> Inl e | Inr v \<Rightarrow> if truthy fl v then Inr True else any_at fl index cs)"

definition row_value :: "'f arith \<Rightarrow> feature_operator \<Rightarrow> 'f column list \<Rightarrow> nat \<Rightarrow> exn + 'f scalar" where
  "row_value fl op cols index =
     (if op = MINIMUM \<or> op = MAXIMUM then
        (case traverse (\<lambda>c. item_at c index) cols of
           Inl e \<Rightarrow> Inl e | Inr row \<Rightarrow> Inr (combine_row fl op row))
      else
        (case (if op = ALL_OF then all_at fl index cols else any_at fl index cols) of
           Inl e \<Rightarrow> Inl e | Inr b \<Rightarrow> Inr (Flag b)))"

definition threshold_of :: "'f feature_node \<Rightarrow> (string \<rightharpoonup> 'f) \<Rightarrow> exn + 'f" where
  "threshold_of nd params = (case threshold_parameter nd of
       Some p \<Rightarrow> (case params p of None \<Rightarrow> Inl (KeyError p) | Some t \<Rightarrow> Inr t)
     | None \<Rightarrow> (case constant_value nd of None \<Rightarrow> Inl (AssertionError []) | Some c \<Rightarrow> Inr c))"

definition evaluate_node ::
  "'f arith \<Rightarrow> 'f feature_node \<Rightarrow> 'f column list \<Rightarrow> (string \<rightharpoonup> 'f) \<Rightarrow> int \<Rightarrow> exn + 'f column"
where
  "evaluate_node fl nd cols params minutes = (case cols of
       [] \<Rightarrow> Inl (IndexError ''tuple index out of range'')
     | source # others \<Rightarrow>
        (let op = operator nd in
         if windowed_operator op then
           (case window_bars fl nd params minutes of
              Inl e \<Rightarrow> Inl e | Inr bars \<Rightarrow> Inr (windowed fl op source bars))
         else if comparison_operator op then
           (case threshold_of nd params of
              Inl e \<Rightarrow> Inl e | Inr t \<Rightarrow> Inr (map (compare_value fl op t) source))
         else if op = ABS \<or> op = LOG1P then Inr (map (transform_value fl op) source)
         else traverse (row_value fl op cols) [0..<length source]))"

type_synonym 'f table = "(string \<times> 'f column) list"

definition lookup_column :: "'f table \<Rightarrow> string \<Rightarrow> exn + 'f column" where
  "lookup_column values name = (case map_of values name of None \<Rightarrow> Inl (KeyError name) | Some c \<Rightarrow> Inr c)"

fun evaluate_nodes ::
  "'f arith \<Rightarrow> (string \<rightharpoonup> 'f) \<Rightarrow> int \<Rightarrow> 'f feature_node list \<Rightarrow> 'f table \<Rightarrow> exn + 'f table"
where
  "evaluate_nodes fl params minutes [] values = Inr values"
| "evaluate_nodes fl params minutes (nd # nds) values =
     (case traverse (lookup_column values) (inputs nd) of
        Inl e \<Rightarrow> Inl e
      | Inr cols \<Rightarrow> (case evaluate_node fl nd cols params minutes of
          Inl e \<Rightarrow> Inl e
        | Inr c \<Rightarrow> evaluate_nodes fl params minutes nds (AList.update (feature_id nd) c values)))"

type_synonym 'f source_table = "(string \<times> 'f list) list"

definition equally_sized :: "'f source_table \<Rightarrow> bool" where
  "equally_sized columns \<longleftrightarrow> columns \<noteq> [] \<and> (\<forall>p \<in> set columns. length (snd p) = length (snd (hd columns)))"

definition missing_sources :: "'f feature_graph \<Rightarrow> 'f source_table \<Rightarrow> string list" where
  "missing_sources g columns = sort (filter (\<lambda>s. s \<notin> set (map fst columns)) (source_columns g))"

definition source_values :: "'f feature_graph \<Rightarrow> 'f source_table \<Rightarrow> 'f table" where
  "source_values g columns =
     map (\<lambda>(name, column). (name, map Num column)) (filter (\<lambda>(name, c). name \<in> set (source_columns g)) columns)"

definition evaluate_graph ::
  "'f arith \<Rightarrow> 'f feature_graph \<Rightarrow> 'f source_table \<Rightarrow> (string \<rightharpoonup> 'f) \<Rightarrow> int \<Rightarrow> exn + 'f table"
where
  "evaluate_graph fl g columns params minutes =
     (if \<not> equally_sized columns
      then Inl (ValueError ''Source columns must be non-empty and equally sized'')
      else if missing_sources g columns \<noteq> []
      then Inl (ValueError (''Missing source columns: '' @ str_join '', '' (missing_sources g columns)))
      else evaluate_nodes fl params minutes (nodes g) (source_values g columns))"

fun onset_from :: "'f arith \<Rightarrow> bool \<Rightarrow> 'f column \<Rightarrow> bool list" where
  "onset_from fl previous [] = []"
| "onset_from fl previous (v # vs) = (truthy fl v \<and> \<not> previous) # onset_from fl (truthy fl v) vs"

definition onset :: "'f arith \<Rightarrow> 'f column \<Rightarrow> bool list" where
  "onset fl vs = onset_from fl False vs"

definition prefix_value ::
  "'f arith \<Rightarrow> 'f feature_graph \<Rightarrow> 'f source_table \<Rightarrow> (string \<rightharpoonup> 'f) \<Rightarrow> int \<Rightarrow> nat \<Rightarrow> exn + 'f scalar"
where
  "prefix_value fl g columns params minutes m =
     (case evaluate_graph fl g (map (\<lambda>(name, vs). (name, take m vs)) columns) params minutes of
        Inl e \<Rightarrow> Inl e
      | Inr values \<Rightarrow> (case lookup_column values (signal_condition g) of
          Inl e \<Rightarrow> Inl e
        | Inr c \<Rightarrow> if c = [] then Inl (IndexError ''tuple index out of range'') else Inr (last c)))"

definition replay_prefixes ::
  "'f arith \<Rightarrow> 'f feature_graph \<Rightarrow> 'f source_table \<Rightarrow> (string \<rightharpoonup> 'f) \<Rightarrow> int \<Rightarrow> exn + 'f column"
where
  "replay_prefixes fl g columns params minutes = (case columns of
       [] \<Rightarrow> Inl StopIteration
     | (name, vs) # rest \<Rightarrow> traverse (prefix_value fl g columns params minutes) [1..<length vs + 1])"

end
