(* ===== verification/Feature_Properties.thy ===== *)
theory Feature_Properties
  imports Feature_Dsl
begin

text \<open>
  The feature language: a graph that compiles evaluates without an exception to columns of
  their declared types, and no row depends on a later one.
\<close>

section \<open>Tables\<close>

definition take_table :: "nat \<Rightarrow> 'f table \<Rightarrow> 'f table" where
  "take_table m tbl = map (\<lambda>(name, c). (name, take m c)) tbl"

lemma map_of_take_table: "map_of (take_table m tbl) name = map_option (take m) (map_of tbl name)"
  by (simp add: take_table_def map_of_map)

lemma update_take_table: "AList.update k (take m c) (take_table m tbl) = take_table m (AList.update k c tbl)"
  by (induction tbl) (auto simp: take_table_def)

definition sized :: "nat \<Rightarrow> 'f table \<Rightarrow> bool" where
  "sized n tbl \<longleftrightarrow> (\<forall>name c. map_of tbl name = Some c \<longrightarrow> length c = n)"

lemma sized_update: "sized n tbl \<Longrightarrow> length c = n \<Longrightarrow> sized n (AList.update k c tbl)"
  by (simp add: sized_def update_conv)

lemma lookup_take:
  "lookup_column tbl name = Inr c \<Longrightarrow> lookup_column (take_table m tbl) name = Inr (take m c)"
  by (auto simp: lookup_column_def map_of_take_table split: option.splits)

lemma lookups_take:
  "traverse (lookup_column tbl) names = Inr cols \<Longrightarrow>
     traverse (lookup_column (take_table m tbl)) names = Inr (map (take m) cols)"
  using lookup_take [where m = m and tbl = tbl]
  by (auto simp: traverse_Inr list_all2_map2 elim!: list_all2_mono)

lemma lookups_sized:
  "sized n tbl \<Longrightarrow> traverse (lookup_column tbl) names = Inr cols \<Longrightarrow> \<forall>c \<in> set cols. length c = n"
  by (fastforce simp: traverse_Inr list_all2_conv_all_nth in_set_conv_nth lookup_column_def sized_def
      split: option.splits)

section \<open>No row depends on a later row\<close>

lemma windowed_at_take:
  "i < m \<Longrightarrow> i < length source \<Longrightarrow> windowed_at fl op (take m source) bars i = windowed_at fl op source bars i"
  by (simp add: windowed_at_def min_def)

lemma windowed_take: "take m (windowed fl op source bars) = windowed fl op (take m source) bars"
proof (rule nth_equalityI)
  fix i assume "i < length (take m (windowed fl op source bars))"
  then show "take m (windowed fl op source bars) ! i = windowed fl op (take m source) bars ! i"
    by (simp add: windowed_def windowed_at_take)
qed (simp add: windowed_def)

lemma item_at_take: "i < m \<Longrightarrow> item_at (take m c) i = item_at c i"
  by (simp add: item_at_def)

lemma all_at_take: "i < m \<Longrightarrow> all_at fl i (map (take m) cols) = all_at fl i cols"
  by (induction cols) (simp_all add: item_at_take split: sum.split)

lemma any_at_take: "i < m \<Longrightarrow> any_at fl i (map (take m) cols) = any_at fl i cols"
  by (induction cols) (simp_all add: item_at_take split: sum.split)

lemma items_at_take:
  "i < m \<Longrightarrow> traverse (\<lambda>c. item_at c i) (map (take m) cols) = traverse (\<lambda>c. item_at c i) cols"
  by (induction cols) (simp_all add: item_at_take split: sum.split)

lemma row_value_take: "i < m \<Longrightarrow> row_value fl op (map (take m) cols) i = row_value fl op cols i"
  by (simp add: row_value_def all_at_take any_at_take items_at_take)

lemma traverse_take: "traverse f xs = Inr ys \<Longrightarrow> traverse f (take m xs) = Inr (take m ys)"
  by (simp add: traverse_Inr list_all2_takeI)

lemma traverse_length: "traverse f xs = Inr ys \<Longrightarrow> length ys = length xs"
  by (auto simp: traverse_Inr dest: list_all2_lengthD)

lemma rows_take:
  assumes "traverse (row_value fl op cols) [0..<n] = Inr c" and "m \<le> n"
  shows "traverse (row_value fl op (map (take m) cols)) [0..<m] = Inr (take m c)"
proof -
  have "traverse (row_value fl op (map (take m) cols)) [0..<m] = traverse (row_value fl op cols) [0..<m]"
    by (rule traverse_cong) (simp_all add: row_value_take)
  with traverse_take [OF assms(1), of m] assms(2) show ?thesis by (simp add: take_upt)
qed

lemma evaluate_node_take:
  assumes "evaluate_node fl nd cols params minutes = Inr c" and "\<forall>d \<in> set cols. length d = n" and "m \<le> n"
  shows "evaluate_node fl nd (map (take m) cols) params minutes = Inr (take m c) \<and> length c = n"
proof (cases cols)
  case (Cons source others)
  let ?op = "operator nd"
  have n: "length source = n" using Cons assms(2) by simp
  consider (window) "windowed_operator ?op" | (compare) "\<not> windowed_operator ?op" "comparison_operator ?op"
    | (transform) "\<not> windowed_operator ?op" "\<not> comparison_operator ?op" "?op = ABS \<or> ?op = LOG1P"
    | (rows) "\<not> windowed_operator ?op" "\<not> comparison_operator ?op" "?op \<noteq> ABS" "?op \<noteq> LOG1P"
    by blast
  then show ?thesis
  proof cases
    case window
    with assms(1) Cons obtain bars where "window_bars fl nd params minutes = Inr bars"
      "c = windowed fl ?op source bars" by (simp add: evaluate_node_def Let_def split: sum.splits)
    with window Cons n show ?thesis by (simp add: evaluate_node_def Let_def windowed_take) (simp add: windowed_def)
  next
    case compare
    with assms(1) Cons obtain t where "threshold_of nd params = Inr t" "c = map (compare_value fl ?op t) source"
      by (simp add: evaluate_node_def Let_def split: sum.splits)
    with compare Cons n show ?thesis by (simp add: evaluate_node_def Let_def take_map)
  next
    case transform
    with assms(1) Cons have "c = map (transform_value fl ?op) source"
      by (simp add: evaluate_node_def Let_def)
    with transform Cons n show ?thesis by (simp add: evaluate_node_def Let_def take_map)
  next
    case rows
    with assms(1) Cons n have "traverse (row_value fl ?op cols) [0..<n] = Inr c"
      by (simp add: evaluate_node_def Let_def)
    note rows_take [OF this assms(3)] traverse_length [OF this]
    moreover have "length (take m source) = m" using n assms(3) by simp
    ultimately show ?thesis using rows Cons
      by (simp add: evaluate_node_def Let_def del: length_take)
  qed
qed (use assms(1) in \<open>simp add: evaluate_node_def\<close>)

lemma evaluate_nodes_take:
  "evaluate_nodes fl params minutes nds tbl = Inr out \<Longrightarrow> sized n tbl \<Longrightarrow> m \<le> n \<Longrightarrow>
     evaluate_nodes fl params minutes nds (take_table m tbl) = Inr (take_table m out) \<and> sized n out"
proof (induction nds arbitrary: tbl)
  case (Cons nd nds)
  from Cons.prems(1) obtain cols c where step: "traverse (lookup_column tbl) (inputs nd) = Inr cols"
    "evaluate_node fl nd cols params minutes = Inr c"
    "evaluate_nodes fl params minutes nds (AList.update (feature_id nd) c tbl) = Inr out"
    by (auto split: sum.splits)
  from evaluate_node_take [OF step(2) lookups_sized [OF Cons.prems(2) step(1)] Cons.prems(3)]
  have nd: "evaluate_node fl nd (map (take m) cols) params minutes = Inr (take m c)" "length c = n" by auto
  from Cons.IH [OF step(3) sized_update [OF Cons.prems(2) nd(2)] Cons.prems(3)] nd(1) lookups_take [OF step(1), of m]
  show ?case by (simp add: update_take_table)
qed simp

definition truncate :: "nat \<Rightarrow> 'f source_table \<Rightarrow> 'f source_table" where
  "truncate m columns = map (\<lambda>(name, vs). (name, take m vs)) columns"

lemma truncate_keys: "map fst (truncate m columns) = map fst columns"
  by (simp add: truncate_def comp_def case_prod_beta)

lemma source_values_truncate: "source_values g (truncate m columns) = take_table m (source_values g columns)"
  by (induction columns) (auto simp: source_values_def truncate_def take_table_def take_map)

lemma equally_sized_truncate: "equally_sized columns \<Longrightarrow> equally_sized (truncate m columns)"
  by (cases columns) (auto simp: equally_sized_def truncate_def)

lemma sized_sources:
  assumes "equally_sized columns"
  shows "sized (length (snd (hd columns))) (source_values g columns)"
  unfolding sized_def
proof (intro allI impI)
  fix name c assume "map_of (source_values g columns) name = Some c"
  then have "(name, c) \<in> set (source_values g columns)" by (rule map_of_SomeD)
  then obtain vs where "(name, vs) \<in> set columns" "length c = length vs"
    by (auto simp: source_values_def)
  with assms show "length c = length (snd (hd columns))" by (metis equally_sized_def snd_conv)
qed

lemma evaluate_graph_truncate:
  assumes "evaluate_graph fl g columns params minutes = Inr out" and "m \<le> length (snd (hd columns))"
  shows "evaluate_graph fl g (truncate m columns) params minutes = Inr (take_table m out) \<and>
    sized (length (snd (hd columns))) out"
proof -
  have eq: "equally_sized columns" and ms: "missing_sources g columns = []"
    and run: "evaluate_nodes fl params minutes (nodes g) (source_values g columns) = Inr out"
    using assms(1) by (auto simp: evaluate_graph_def split: if_splits)
  have "missing_sources g (truncate m columns) = missing_sources g columns"
    by (simp only: missing_sources_def truncate_keys)
  with evaluate_nodes_take [OF run sized_sources [OF eq] assms(2)] eq ms show ?thesis
    by (simp add: evaluate_graph_def equally_sized_truncate source_values_truncate)
qed

section \<open>Typing\<close>

text \<open>Every name of a typing has a column of the right length; a Boolean one holds only flags.\<close>

definition has_type :: "value_type \<Rightarrow> 'f column \<Rightarrow> bool" where
  "has_type t c \<longleftrightarrow> (t = BOOLEAN \<longrightarrow> (\<forall>v \<in> set c. \<exists>b. v = Flag b))"

definition well_typed :: "nat \<Rightarrow> typing \<Rightarrow> 'f table \<Rightarrow> bool" where
  "well_typed n available tbl \<longleftrightarrow>
     (\<forall>name t. map_of available name = Some t \<longrightarrow>
        (\<exists>c. map_of tbl name = Some c \<and> length c = n \<and> has_type t c))"

definition parameters_ok :: "'f arith \<Rightarrow> 'f feature_node list \<Rightarrow> string set \<Rightarrow> (string \<rightharpoonup> 'f) \<Rightarrow> int \<Rightarrow> bool" where
  "parameters_ok fl nds ids params minutes \<longleftrightarrow> (\<forall>p \<in> ids. params p \<noteq> None) \<and>
     (\<forall>nd \<in> set nds. windowed_operator (operator nd) \<longrightarrow> (\<exists>bars. window_bars fl nd params minutes = Inr bars))"

lemma spec_guard_Inr [simp]: "spec_guard ok m rest = Inr u \<longleftrightarrow> ok \<and> rest = Inr u"
  by (simp add: spec_guard_def)

lemma validate_node_threshold:
  "validate_node nd ids = Inr u \<Longrightarrow> comparison_operator (operator nd) \<Longrightarrow>
     (\<exists>c. threshold_parameter nd = None \<and> constant_value nd = Some c) \<or>
     (\<exists>p. threshold_parameter nd = Some p \<and> p \<in> ids)"
proof -
  assume v: "validate_node nd ids = Inr u" and c: "comparison_operator (operator nd)"
  note w = v [unfolded validate_node_def Let_def if_P [OF c] spec_guard_Inr]
  note threshold = w [THEN conjunct2, THEN conjunct2, THEN conjunct2, THEN conjunct2, THEN conjunct2]
  from threshold [THEN conjunct1] threshold [THEN conjunct2, THEN conjunct1] show ?thesis
    by (auto simp: in_parameters_def)
qed

lemma check_nodeD:
  assumes "check_node nd ids available = Inr u"
  shows "map_of available (feature_id nd) = None" and "inputs nd \<noteq> []"
    and "\<forall>x \<in> set (inputs nd). map_of available x \<noteq> None"
    and "comparison_operator (operator nd) \<Longrightarrow>
      (\<exists>c. threshold_parameter nd = None \<and> constant_value nd = Some c) \<or>
      (\<exists>p. threshold_parameter nd = Some p \<and> p \<in> ids)"
proof -
  from assms have checks: "map_of available (feature_id nd) = None" "inputs nd \<noteq> []"
    "None \<notin> set (map (map_of available) (inputs nd))" "\<exists>w. validate_node nd ids = Inr w"
    unfolding check_node_def Let_def by (simp_all split: sum.splits)
  show "map_of available (feature_id nd) = None" "inputs nd \<noteq> []" by (fact checks)+
  show "\<forall>x \<in> set (inputs nd). map_of available x \<noteq> None" using checks(3) by force
  show "comparison_operator (operator nd) \<Longrightarrow>
      (\<exists>c. threshold_parameter nd = None \<and> constant_value nd = Some c) \<or>
      (\<exists>p. threshold_parameter nd = Some p \<and> p \<in> ids)"
    using checks(4) validate_node_threshold by blast
qed

lemma lookups_total:
  assumes "well_typed n available tbl" and "\<forall>x \<in> set names. map_of available x \<noteq> None"
  shows "\<exists>cols. traverse (lookup_column tbl) names = Inr cols \<and> length cols = length names \<and>
    (\<forall>c \<in> set cols. length c = n)"
  using assms(2)
proof (induction names)
  case (Cons x names)
  then obtain t where "map_of available x = Some t" by auto
  with assms(1) obtain c where "map_of tbl x = Some c" "length c = n" by (auto simp: well_typed_def)
  with Cons show ?case by (auto simp: lookup_column_def)
qed simp

lemma all_at_total: "\<forall>c \<in> set cols. i < length c \<Longrightarrow> \<exists>b. all_at fl i cols = Inr b"
  by (induction cols) (auto simp: item_at_def)

lemma any_at_total: "\<forall>c \<in> set cols. i < length c \<Longrightarrow> \<exists>b. any_at fl i cols = Inr b"
  by (induction cols) (auto simp: item_at_def)

lemma items_at_total:
  "\<forall>c \<in> set cols. i < length c \<Longrightarrow> traverse (\<lambda>c. item_at c i) cols = Inr (map (\<lambda>c. c ! i) cols)"
  by (induction cols) (auto simp: item_at_def)

lemma row_value_total:
  assumes "\<forall>c \<in> set cols. i < length c"
  shows "\<exists>v. row_value fl op cols i = Inr v \<and> (op \<noteq> MINIMUM \<and> op \<noteq> MAXIMUM \<longrightarrow> (\<exists>b. v = Flag b))"
  using all_at_total [OF assms, of fl] any_at_total [OF assms, of fl] items_at_total [OF assms]
  by (auto simp: row_value_def)

lemma rows_total:
  assumes "\<forall>c \<in> set cols. length c = n" and "\<forall>i \<in> set is. i < n"
  shows "\<exists>out. traverse (row_value fl op cols) is = Inr out \<and>
    (op \<noteq> MINIMUM \<and> op \<noteq> MAXIMUM \<longrightarrow> (\<forall>v \<in> set out. \<exists>b. v = Flag b))"
  using assms(2)
proof (induction "is")
  case (Cons i "is")
  have "\<forall>c \<in> set cols. i < length c" using assms Cons.prems by simp
  from row_value_total [OF this, of fl op] obtain v where
    "row_value fl op cols i = Inr v" "op \<noteq> MINIMUM \<and> op \<noteq> MAXIMUM \<longrightarrow> (\<exists>b. v = Flag b)" by blast
  with Cons show ?case by auto
qed simp

lemma evaluate_node_typed:
  assumes "check_node nd ids available = Inr u" and "parameters_ok fl [nd] ids params minutes"
    and "cols \<noteq> []" and "\<forall>c \<in> set cols. length c = n"
  shows "\<exists>c. evaluate_node fl nd cols params minutes = Inr c \<and> length c = n \<and>
    has_type (result_type (operator nd)) c"
proof -
  obtain source others where cols: "cols = source # others" using assms(3) by (cases cols) auto
  have n: "length source = n" using assms(4) cols by simp
  have flags: "\<exists>b. compare_value fl op t v = Flag b" for op t v
    by (cases "numeric fl v") (auto simp: compare_value_def)
  have threshold: "\<exists>t. threshold_of nd params = Inr t" if "comparison_operator (operator nd)"
    using check_nodeD(4) [OF assms(1) that] assms(2)
    by (auto simp: threshold_of_def parameters_ok_def split: option.splits)
  have bars: "\<exists>b. window_bars fl nd params minutes = Inr b" if "windowed_operator (operator nd)"
    using that assms(2) by (simp add: parameters_ok_def)
  obtain out where out: "traverse (row_value fl (operator nd) cols) [0..<n] = Inr out"
    "operator nd \<noteq> MINIMUM \<and> operator nd \<noteq> MAXIMUM \<longrightarrow> (\<forall>v \<in> set out. \<exists>b. v = Flag b)"
    using rows_total [OF assms(4), of "[0..<n]" fl "operator nd"] by auto
  have len: "length out = n" using traverse_length [OF out(1)] by simp
  show ?thesis
  proof (cases "operator nd")
    case ROLLING_MEAN
    with bars cols n show ?thesis
      by (auto simp: evaluate_node_def has_type_def result_type_def windowed_operator_def
          comparison_operator_def boolean_operator_def windowed_def)
  next
    case ROLLING_RATIO
    with bars cols n show ?thesis
      by (auto simp: evaluate_node_def has_type_def result_type_def windowed_operator_def
          comparison_operator_def boolean_operator_def windowed_def)
  next
    case ROBUST_ZSCORE
    with bars cols n show ?thesis
      by (auto simp: evaluate_node_def has_type_def result_type_def windowed_operator_def
          comparison_operator_def boolean_operator_def windowed_def)
  next
    case PCT_CHANGE
    with bars cols n show ?thesis
      by (auto simp: evaluate_node_def has_type_def result_type_def windowed_operator_def
          comparison_operator_def boolean_operator_def windowed_def)
  qed (use threshold cols n out len flags in \<open>auto simp: evaluate_node_def has_type_def result_type_def
      windowed_operator_def comparison_operator_def boolean_operator_def\<close>)
qed

lemma well_typed_extend:
  assumes "well_typed n available tbl" and "map_of available f = None" and "length c = n" and "has_type t c"
  shows "well_typed n (available @ [(f, t)]) (AList.update f c tbl)"
  using assms by (auto simp: well_typed_def update_conv map_add_def split: option.splits if_splits)

lemma evaluate_nodes_typed:
  "check_nodes nds ids available = Inr final \<Longrightarrow> parameters_ok fl nds ids params minutes \<Longrightarrow>
     well_typed n available tbl \<Longrightarrow>
     \<exists>out. evaluate_nodes fl params minutes nds tbl = Inr out \<and> well_typed n final out"
proof (induction nds arbitrary: available tbl)
  case (Cons nd nds)
  from Cons.prems(1) obtain u where chk: "check_node nd ids available = Inr u"
    "check_nodes nds ids (available @ [(feature_id nd, result_type (operator nd))]) = Inr final"
    by (auto split: sum.splits)
  from lookups_total [OF Cons.prems(3) check_nodeD(3) [OF chk(1)]] obtain cols where
    cols: "traverse (lookup_column tbl) (inputs nd) = Inr cols" "length cols = length (inputs nd)"
    "\<forall>c \<in> set cols. length c = n" by blast
  have "cols \<noteq> []" using cols(2) check_nodeD(2) [OF chk(1)] by auto
  moreover have "parameters_ok fl [nd] ids params minutes"
    using Cons.prems(2) by (simp add: parameters_ok_def)
  ultimately obtain c where c: "evaluate_node fl nd cols params minutes = Inr c" "length c = n"
    "has_type (result_type (operator nd)) c"
    using evaluate_node_typed [OF chk(1)] cols(3) by blast
  have "parameters_ok fl nds ids params minutes" using Cons.prems(2) by (simp add: parameters_ok_def)
  from Cons.IH [OF chk(2) this well_typed_extend [OF Cons.prems(3) check_nodeD(1) [OF chk(1)] c(2,3)]]
    c(1) cols(1) show ?case by simp
qed simp

lemma no_missing_sources: "missing_sources g columns = [] \<longleftrightarrow> set (source_columns g) \<subseteq> set (map fst columns)"
proof -
  have "missing_sources g columns = [] \<longleftrightarrow> set (missing_sources g columns) = {}" by simp
  also have "\<dots> \<longleftrightarrow> set (source_columns g) \<subseteq> set (map fst columns)"
    unfolding missing_sources_def by auto
  finally show ?thesis .
qed

lemma well_typed_sources:
  assumes "equally_sized columns" and "missing_sources g columns = []" and "distinct (source_columns g)"
  shows "well_typed (length (snd (hd columns))) (source_types (source_columns g)) (source_values g columns)"
  unfolding well_typed_def
proof (intro allI impI)
  fix name t assume "map_of (source_types (source_columns g)) name = Some t"
  then have name: "name \<in> set (source_columns g)" "t = NUMERIC"
    by (auto simp: source_types_def dest!: map_of_SomeD)
  have "name \<in> set (map fst columns)"
    using assms(2) name(1) by (auto simp: no_missing_sources)
  then have "name \<in> fst ` set (source_values g columns)"
    using name(1) by (force simp: source_values_def)
  then obtain c where c: "map_of (source_values g columns) name = Some c"
    by (metis map_of_eq_None_iff not_None_eq)
  with sized_sources [OF assms(1), of g] have "length c = length (snd (hd columns))" by (simp add: sized_def)
  with c name(2) show "\<exists>c. map_of (source_values g columns) name = Some c \<and>
      length c = length (snd (hd columns)) \<and> has_type t c"
    by (simp add: has_type_def)
qed

section \<open>Properties\<close>

lemma compiled_graph_total:
  assumes "compile_feature_graph sources nds condition ids = Inr g"
    and "equally_sized columns" and "set sources \<subseteq> set (map fst columns)"
    and "parameters_ok fl nds ids params minutes"
  shows "\<exists>tbl. evaluate_graph fl g columns params minutes = Inr tbl \<and>
    (\<forall>name \<in> set sources \<union> feature_id ` set nds.
       \<exists>c. map_of tbl name = Some c \<and> length c = length (snd (hd columns))) \<and>
    (\<exists>c. map_of tbl condition = Some c \<and> (\<forall>v \<in> set c. \<exists>b. v = Flag b))"
proof -
  from assms(1) obtain final where c: "check_nodes nds ids (source_types sources) = Inr final"
    "map_of final condition = Some BOOLEAN" "distinct sources" "g = \<lparr>source_columns = sources, nodes = nds, signal_condition = condition\<rparr>"
    by (auto simp: compile_feature_graph_def split: if_splits sum.splits option.splits value_type.splits)
  have "missing_sources g columns = []" using assms(3) c(4) by (simp add: no_missing_sources)
  moreover from well_typed_sources [OF assms(2) this] c(3,4)
  have "well_typed (length (snd (hd columns))) (source_types sources) (source_values g columns)" by simp
  from evaluate_nodes_typed [OF c(1) assms(4) this] obtain out where
    out: "evaluate_nodes fl params minutes nds (source_values g columns) = Inr out"
    "well_typed (length (snd (hd columns))) final out" by blast
  ultimately have run: "evaluate_graph fl g columns params minutes = Inr out"
    using assms(2) c(4) by (simp add: evaluate_graph_def)
  have "check_nodes nds ids av = Inr final \<Longrightarrow> fst ` set final = fst ` set av \<union> feature_id ` set nds" for av
    by (induction nds arbitrary: av) (auto split: sum.splits)
  from this [OF c(1)] have "fst ` set final = set sources \<union> feature_id ` set nds"
    by (force simp: source_types_def)
  then have "map_of final name \<noteq> None" if "name \<in> set sources \<union> feature_id ` set nds" for name
    using that by (simp add: map_of_eq_None_iff)
  with out(2) have "\<exists>c. map_of out name = Some c \<and> length c = length (snd (hd columns))"
    if "name \<in> set sources \<union> feature_id ` set nds" for name
    using that by (fastforce simp: well_typed_def)
  moreover have "\<exists>c. map_of out condition = Some c \<and> (\<forall>v \<in> set c. \<exists>b. v = Flag b)"
    using out(2) c(2) by (fastforce simp: well_typed_def has_type_def)
  ultimately show ?thesis using run by blast
qed


text \<open>Exact arithmetic on the rationals, for the witnesses.\<close>

definition rat_arith :: "rat arith" where
  "rat_arith = \<lparr>is_finite = (\<lambda>_. True), le_f = (\<le>), lt_f = (<), is_zero = (\<lambda>x. x = 0), add_f = (+),
     sub_f = (-), mul_f = (*), div_f = (/), abs_f = abs, log1p_f = (\<lambda>x. x), sum_f = sum_list,
     of_int_f = of_int, round_f = (\<lambda>x. Inr (floor x)), isclose_f = (=), mad_scale = 14826 / 10000\<rparr>"

definition sample_nodes :: "rat feature_node list" where
  "sample_nodes = [\<lparr>feature_id = ''ratio'', operator = ROLLING_RATIO, inputs = [''close''],
       window_parameter = Some ''window'', threshold_parameter = None, constant_value = None\<rparr>,
     \<lparr>feature_id = ''high'', operator = GREATER_EQUAL, inputs = [''ratio''], window_parameter = None,
       threshold_parameter = None, constant_value = Some 2\<rparr>]"

definition sample_graph :: "rat feature_graph" where
  "sample_graph = \<lparr>source_columns = [''close''], nodes = sample_nodes, signal_condition = ''high''\<rparr>"

definition sample_columns :: "rat source_table" where
  "sample_columns = [(''close'', [1, 1, 4])]"

definition sample_parameters :: "string \<rightharpoonup> rat" where
  "sample_parameters = [''window'' \<mapsto> 1]"

lemma sample_compiles:
  "compile_feature_graph [''close''] sample_nodes ''high'' {''window''} = Inr sample_graph"
  by (simp add: compile_feature_graph_def sample_nodes_def sample_graph_def safe_id_def safe_char_def
      is_lower_ascii_def is_digit_ascii_def check_node_def validate_node_def spec_guard_def Let_def
      source_types_def windowed_operator_def comparison_operator_def boolean_operator_def
      unary_operator_def in_parameters_def result_type_def)

lemma sample_parameters_ok: "parameters_ok rat_arith sample_nodes {''window''} sample_parameters 60"
  by (simp add: parameters_ok_def sample_nodes_def sample_parameters_def windowed_operator_def
      window_bars_def rat_arith_def)


text \<open>
  C26. No look-ahead: replaying the prefixes of the data one row at a time gives exactly the
  signal column of the whole evaluation. Each row of a feature is decided by the rows up to it,
  under every arithmetic.
\<close>

theorem prefixes_replay_the_signal:
  assumes "evaluate_graph fl g columns params minutes = Inr tbl"
    and "map_of tbl (signal_condition g) = Some c"
  shows "replay_prefixes fl g columns params minutes = Inr c"
proof -
  let ?n = "length (snd (hd columns))"
  have ne: "columns \<noteq> []" using assms(1) by (auto simp: evaluate_graph_def equally_sized_def split: if_splits)
  then obtain name vs rest where cols: "columns = (name, vs) # rest" by (metis list.exhaust surj_pair)
  have len: "length c = ?n"
    using evaluate_graph_truncate [OF assms(1), of 0] assms(2) by (simp add: sized_def)
  have at_prefix: "prefix_value fl g columns params minutes m = Inr (c ! (m - 1))" if "1 \<le> m" "m \<le> ?n" for m
  proof -
    have run: "evaluate_graph fl g (truncate m columns) params minutes = Inr (take_table m tbl)"
      using evaluate_graph_truncate [OF assms(1) that(2)] by simp
    have "lookup_column (take_table m tbl) (signal_condition g) = Inr (take m c)"
      using assms(2) by (simp add: lookup_column_def map_of_take_table)
    moreover have "take m c \<noteq> []" "last (take m c) = c ! (m - 1)"
    proof -
      have "c \<noteq> []" using that len by auto
      then show "take m c \<noteq> []" using that by auto
      then show "last (take m c) = c ! (m - 1)" using that len by (simp add: last_conv_nth)
    qed
    ultimately show ?thesis using run by (simp add: prefix_value_def truncate_def)
  qed
  have "traverse (prefix_value fl g columns params minutes) [1..<?n + 1] =
      traverse (\<lambda>m. Inr (c ! (m - 1))) [1..<?n + 1]"
  proof (rule traverse_cong)
    fix m assume "m \<in> set [1..<?n + 1]"
    then show "prefix_value fl g columns params minutes m = Inr (c ! (m - 1))" by (intro at_prefix) auto
  qed simp
  also have "\<dots> = Inr (map (\<lambda>m. c ! (m - 1)) [1..<?n + 1])" by (rule traverse_map)
  also have "map (\<lambda>m. c ! (m - 1)) [1..<?n + 1] = c"
    by (rule nth_equalityI) (use len in \<open>auto simp del: upt_Suc\<close>)
  finally show ?thesis by (simp add: replay_prefixes_def cols)
qed

lemma prefixes_replay_the_signal_witness:
  "replay_prefixes rat_arith sample_graph sample_columns sample_parameters 60 =
     Inr [Flag False, Flag False, Flag True]"
proof -
  have "evaluate_graph rat_arith sample_graph sample_columns sample_parameters 60 =
      Inr [(''close'', [Num 1, Num 1, Num 4]), (''ratio'', [Missing, Num 1, Num 4]),
           (''high'', [Flag False, Flag False, Flag True])]"
    by (simp add: evaluate_graph_def sample_graph_def sample_columns_def sample_nodes_def
        sample_parameters_def equally_sized_def missing_sources_def source_values_def lookup_column_def
        evaluate_node_def windowed_operator_def comparison_operator_def window_bars_def rat_arith_def
        windowed_def windowed_at_def windowed_value_def numeric_def threshold_of_def compare_value_def
        upt_rec Let_def)
  from prefixes_replay_the_signal [OF this] show ?thesis by (simp add: sample_graph_def)
qed

lemma onset_from_nth:
  "i < length vs \<Longrightarrow> onset_from fl p vs ! i \<longleftrightarrow>
     truthy fl (vs ! i) \<and> \<not> (if i = 0 then p else truthy fl (vs ! (i - 1)))"
proof (induction vs arbitrary: i p)
  case (Cons v vs)
  show ?case
  proof (cases i)
    case (Suc j)
    with Cons show ?thesis by (cases j) auto
  qed simp
qed simp

text \<open>
  \<open>onset\<close> marks exactly the rows at which the condition becomes true.
\<close>

theorem onset_marks_rising_edges:
  "length (onset fl vs) = length vs \<and>
   (\<forall>i. i < length vs \<longrightarrow>
     (onset fl vs ! i \<longleftrightarrow> truthy fl (vs ! i) \<and> (i = 0 \<or> \<not> truthy fl (vs ! (i - 1)))))"
proof -
  have "length (onset_from fl p vs) = length vs" for p by (induction vs arbitrary: p) auto
  with onset_from_nth [of _ vs fl False] show ?thesis by (auto simp: onset_def)
qed

lemma onset_marks_rising_edges_witness:
  "onset rat_arith [Flag False, Flag True, Flag True] ! 1 \<and> \<not> onset rat_arith [Flag False, Flag True, Flag True] ! 2"
  using onset_marks_rising_edges [of rat_arith "[Flag False, Flag True, Flag True]"]
  by (simp add: truthy_def numeral_2_eq_2)

end
