(* ===== verification/Delivery.thy ===== *)
theory Delivery
  imports Signal_Policy
begin

text \<open>
  src/src/quant_signal_agent/exchanges/common/retry.py and rate_limiter.py, and
  notifications/dispatcher.py: bounded retries, the sliding-window rate limiter, and the bounded
  notification queue with its delivery loop.

  Seconds are rationals. What the network does, how long it takes and by how much a sleep
  overruns are parameters (\<open>attempt_env\<close>); \<open>asyncio.sleep\<close> of a negative time returns at once.
\<close>

section \<open>Retry policy\<close>

record retry_policy =
  max_attempts :: int
  base_delay_seconds :: rat
  max_delay_seconds :: rat
  jitter_ratio :: rat

definition mk_retry_policy :: "retry_policy \<Rightarrow> exn + retry_policy" where
  "mk_retry_policy p =
     (if \<not> (1 \<le> max_attempts p \<and> max_attempts p \<le> 10)
      then Inl (ValueError ''Retry attempts must be between 1 and 10'')
      else if min (base_delay_seconds p) (max_delay_seconds p) \<le> 0
      then Inl (ValueError ''Retry delays must be positive'')
      else if max_delay_seconds p < base_delay_seconds p
      then Inl (ValueError ''Retry base delay cannot exceed its maximum'')
      else if \<not> (0 \<le> jitter_ratio p \<and> jitter_ratio p \<le> 1)
      then Inl (ValueError ''Retry jitter ratio must be between 0 and 1'')
      else Inr p)"

definition retry_policy_ok :: "retry_policy \<Rightarrow> bool" where
  "retry_policy_ok p \<longleftrightarrow> 1 \<le> max_attempts p \<and> max_attempts p \<le> 10 \<and> 0 < base_delay_seconds p \<and>
     base_delay_seconds p \<le> max_delay_seconds p \<and> 0 \<le> jitter_ratio p \<and> jitter_ratio p \<le> 1"

lemma mk_retry_policy_ok: "mk_retry_policy p = Inr q \<longleftrightarrow> q = p \<and> retry_policy_ok p"
  by (auto simp: mk_retry_policy_def retry_policy_ok_def min_def)

definition backoff_of :: "retry_policy \<Rightarrow> int \<Rightarrow> rat" where
  "backoff_of p attempt = min (max_delay_seconds p) (base_delay_seconds p * 2 ^ nat (max 0 (attempt - 1)))"

text \<open>\<open>jitter\<close> is the random source, called with the bounds of its interval.\<close>

definition retry_delay :: "retry_policy \<Rightarrow> int \<Rightarrow> rat option \<Rightarrow> (rat \<Rightarrow> rat \<Rightarrow> rat) \<Rightarrow> rat" where
  "retry_delay p attempt retry_after jitter = (case retry_after of
       Some r \<Rightarrow> min (max_delay_seconds p) (max 0 r)
     | None \<Rightarrow> (let b = backoff_of p attempt in
         min (max_delay_seconds p) (b + jitter 0 (b * jitter_ratio p))))"

text \<open>
  One attempt of the operation: it returns, fails in a way classified as transient (with the
  server's retry time, if any), or raises anything else, a cancellation included.
\<close>

datatype 'a call_outcome = Returned 'a | Transient "rat option" | Failed exn

datatype 'a call_result = CallReturned 'a | CallRaised "'a call_outcome" | LoopEnded

fun retry_from ::
  "retry_policy \<Rightarrow> (rat \<Rightarrow> rat \<Rightarrow> rat) \<Rightarrow> (int \<Rightarrow> 'a call_outcome) \<Rightarrow> int list \<Rightarrow> rat list \<Rightarrow>
     'a call_result \<times> rat list"
where
  "retry_from p jitter operation [] sleeps = (LoopEnded, sleeps)"
| "retry_from p jitter operation (attempt # rest) sleeps = (case operation attempt of
       Returned x \<Rightarrow> (CallReturned x, sleeps)
     | Failed e \<Rightarrow> (CallRaised (Failed e), sleeps)
     | Transient r \<Rightarrow>
         if max_attempts p \<le> attempt then (CallRaised (Transient r), sleeps)
         else retry_from p jitter operation rest (sleeps @ [retry_delay p attempt r jitter]))"

text \<open>The result, with the delays slept, one for each attempt that was repeated.\<close>

definition retry_exchange_call ::
  "retry_policy \<Rightarrow> (rat \<Rightarrow> rat \<Rightarrow> rat) \<Rightarrow> (int \<Rightarrow> 'a call_outcome) \<Rightarrow> 'a call_result \<times> rat list"
where
  "retry_exchange_call p jitter operation = retry_from p jitter operation [1..max_attempts p] []"

section \<open>Rate limiter\<close>

record rate_limiter =
  max_calls :: nat
  period_seconds :: rat
  calls :: "rat list"

definition new_rate_limiter :: "int \<Rightarrow> rat \<Rightarrow> exn + rate_limiter" where
  "new_rate_limiter n period =
     (if n < 1 \<or> period \<le> 0 then Inl (ValueError ''Rate limiter values must be positive'')
      else Inr \<lparr>max_calls = nat n, period_seconds = period, calls = []\<rparr>)"

definition expire :: "rat \<Rightarrow> rate_limiter \<Rightarrow> rate_limiter" where
  "expire now l = l\<lparr>calls := dropWhile (\<lambda>c. c \<le> now - period_seconds l) (calls l)\<rparr>"

text \<open>
  The loop of \<open>acquire\<close>, entered at time \<open>now\<close>; \<open>over k\<close> is by how much the k-th sleep
  overruns. The result is the time of the grant, and \<open>None\<close> when the fuel runs out.
\<close>

fun acquire :: "nat \<Rightarrow> (nat \<Rightarrow> rat) \<Rightarrow> rat \<Rightarrow> rate_limiter \<Rightarrow> (rat \<times> rate_limiter) option" where
  "acquire 0 over now l = None"
| "acquire (Suc fuel) over now l =
     (let l' = expire now l in
      if length (calls l') < max_calls l' then Some (now, l'\<lparr>calls := calls l' @ [now]\<rparr>)
      else acquire fuel over
             (now + max 0 (period_seconds l' - (now - hd (calls l'))) + over fuel) l')"

text \<open>A sequence of requests, each at a time after the previous grant (the lock is held).\<close>

fun acquire_all :: "(nat \<Rightarrow> rat) \<Rightarrow> rat list \<Rightarrow> rat \<Rightarrow> rate_limiter \<Rightarrow> rat list option" where
  "acquire_all over [] prior l = Some []"
| "acquire_all over (wait # waits) prior l = (case acquire 2 over (prior + wait) l of
       None \<Rightarrow> None
     | Some (t, l') \<Rightarrow> map_option ((#) t) (acquire_all over waits t l'))"

section \<open>Notification dispatcher\<close>

record notification =
  body :: string
  about :: "signal option"

datatype send_outcome = Delivered | Permanent | Retryable "rat option" | Unexpected string

record attempt_env =
  send_result :: "int \<Rightarrow> send_outcome"
  send_time :: "int \<Rightarrow> rat"
  oversleep :: "int \<Rightarrow> rat"

record notification_stats =
  queued :: nat
  sent :: nat
  retried :: nat
  dropped :: nat
  failed :: nat

record dispatcher =
  queue_size :: nat
  dn_max_attempts :: int
  retry_base_seconds :: rat
  max_retry_delay_seconds :: rat
  minimum_interval_seconds :: rat
  queue :: "notification list"
  worker_running :: bool
  last_attempt_at :: "rat option"
  loop_time :: rat
  dn_stats :: notification_stats

record dispatcher_settings =
  set_queue_size :: int
  set_max_attempts :: int
  set_retry_base_seconds :: rat
  set_max_retry_delay_seconds :: rat
  set_minimum_interval_seconds :: rat

definition new_dispatcher :: "dispatcher_settings \<Rightarrow> rat \<Rightarrow> exn + dispatcher" where
  "new_dispatcher c now =
     (if set_queue_size c < 1 \<or> set_max_attempts c < 1
      then Inl (ValueError ''Queue size and maximum attempts must be positive'')
      else if set_retry_base_seconds c \<le> 0 \<or> set_max_retry_delay_seconds c \<le> 0
      then Inl (ValueError ''Notification retry delays must be positive'')
      else if set_minimum_interval_seconds c < 0
      then Inl (ValueError ''Notification minimum interval cannot be negative'')
      else Inr \<lparr>queue_size = nat (set_queue_size c), dn_max_attempts = set_max_attempts c,
        retry_base_seconds = set_retry_base_seconds c,
        max_retry_delay_seconds = set_max_retry_delay_seconds c,
        minimum_interval_seconds = set_minimum_interval_seconds c, queue = [], worker_running = False,
        last_attempt_at = None, loop_time = now,
        dn_stats = \<lparr>queued = 0, sent = 0, retried = 0, dropped = 0, failed = 0\<rparr>\<rparr>)"

definition start :: "dispatcher \<Rightarrow> dispatcher" where
  "start d = d\<lparr>worker_running := True\<rparr>"

definition tally :: "(notification_stats \<Rightarrow> notification_stats) \<Rightarrow> dispatcher \<Rightarrow> dispatcher" where
  "tally f d = d\<lparr>dn_stats := f (dn_stats d)\<rparr>"

definition publish_notification :: "notification \<Rightarrow> dispatcher \<Rightarrow> dispatcher" where
  "publish_notification n d =
     (if \<not> worker_running d then tally (\<lambda>s. s\<lparr>dropped := dropped s + 1\<rparr>) d
      else if queue_size d \<le> length (queue d) then tally (\<lambda>s. s\<lparr>dropped := dropped s + 1\<rparr>) d
      else tally (\<lambda>s. s\<lparr>queued := queued s + 1\<rparr>) (d\<lparr>queue := queue d @ [n]\<rparr>))"

definition publish :: "(signal \<Rightarrow> notification) \<Rightarrow> signal \<Rightarrow> dispatcher \<Rightarrow> dispatcher" where
  "publish formatter g d = publish_notification (formatter g) d"

definition sleep :: "rat \<Rightarrow> rat \<Rightarrow> dispatcher \<Rightarrow> dispatcher" where
  "sleep delay over d = d\<lparr>loop_time := loop_time d + max 0 delay + over\<rparr>"

definition respect_rate_limit :: "rat \<Rightarrow> dispatcher \<Rightarrow> dispatcher" where
  "respect_rate_limit over d =
     (let d' = (case last_attempt_at d of
          None \<Rightarrow> d
        | Some t \<Rightarrow>
            (let remaining = minimum_interval_seconds d - (loop_time d - t) in
             if 0 < remaining then sleep remaining over d else d))
      in d'\<lparr>last_attempt_at := Some (loop_time d')\<rparr>)"

definition next_delay :: "dispatcher \<Rightarrow> int \<Rightarrow> rat option \<Rightarrow> rat" where
  "next_delay d attempt retry_after = min
     (case retry_after of None \<Rightarrow> retry_base_seconds d * 2 ^ nat (attempt - 1) | Some r \<Rightarrow> r)
     (max_retry_delay_seconds d)"

text \<open>The attempts of one notification; the second component lists their times.\<close>

fun deliver_from :: "attempt_env \<Rightarrow> int list \<Rightarrow> dispatcher \<Rightarrow> dispatcher \<times> rat list" where
  "deliver_from env [] d = (d, [])"
| "deliver_from env (attempt # rest) d =
     (let d1 = respect_rate_limit (oversleep env attempt) d;
          now = loop_time d1;
          d2 = d1\<lparr>loop_time := loop_time d1 + send_time env attempt\<rparr>
      in case send_result env attempt of
           Delivered \<Rightarrow> (tally (\<lambda>s. s\<lparr>sent := sent s + 1\<rparr>) d2, [now])
         | Permanent \<Rightarrow> (tally (\<lambda>s. s\<lparr>failed := failed s + 1\<rparr>) d2, [now])
         | Unexpected name \<Rightarrow> (tally (\<lambda>s. s\<lparr>failed := failed s + 1\<rparr>) d2, [now])
         | Retryable retry_after \<Rightarrow>
             if dn_max_attempts d \<le> attempt
             then (tally (\<lambda>s. s\<lparr>failed := failed s + 1\<rparr>) d2, [now])
             else (case deliver_from env rest
                       (sleep (next_delay d2 attempt retry_after) (oversleep env attempt)
                         (tally (\<lambda>s. s\<lparr>retried := retried s + 1\<rparr>) d2)) of
                 (d3, stamps) \<Rightarrow> (d3, now # stamps)))"

definition deliver :: "attempt_env \<Rightarrow> dispatcher \<Rightarrow> dispatcher \<times> rat list" where
  "deliver env d = deliver_from env [1..dn_max_attempts d] d"

text \<open>One turn of \<open>_run\<close>: the worker takes the oldest notification, if there is one.\<close>

definition work :: "attempt_env \<Rightarrow> dispatcher \<Rightarrow> dispatcher \<times> rat list" where
  "work env d = (case queue d of
       [] \<Rightarrow> (d, [])
     | n # rest \<Rightarrow> if worker_running d then deliver env (d\<lparr>queue := rest\<rparr>) else (d, []))"

text \<open>
  \<open>close\<close>: the worker drains the queue (\<open>join\<close>), then ends; an exception of the transport's
  own \<open>close\<close> is counted as a failure.
\<close>

fun drain :: "attempt_env list \<Rightarrow> dispatcher \<Rightarrow> dispatcher" where
  "drain [] d = d"
| "drain (env # envs) d = drain envs (fst (work env d))"

definition close_dispatcher :: "attempt_env list \<Rightarrow> bool \<Rightarrow> dispatcher \<Rightarrow> dispatcher" where
  "close_dispatcher envs transport_fails d =
     (let d' = (if worker_running d then (drain envs d)\<lparr>worker_running := False\<rparr> else d)
      in if transport_fails then tally (\<lambda>s. s\<lparr>failed := failed s + 1\<rparr>) d' else d')"

end
