(* ===== verification/Delivery_Properties.thy ===== *)
theory Delivery_Properties
  imports Delivery
begin

text \<open>Bounds on retries, the sliding window of the rate limiter, and no notification lost.\<close>

section \<open>Retries\<close>

lemma backoff_bounds: "retry_policy_ok p \<Longrightarrow> 0 < backoff_of p a \<and> backoff_of p a \<le> max_delay_seconds p"
  by (auto simp: backoff_of_def retry_policy_ok_def)

lemma retry_delay_bounds:
  assumes "retry_policy_ok p" and "\<And>a b. 0 \<le> b \<Longrightarrow> 0 \<le> jitter a b"
  shows "0 \<le> retry_delay p a r jitter \<and> retry_delay p a r jitter \<le> max_delay_seconds p"
proof -
  have "0 \<le> backoff_of p a * jitter_ratio p"
    using backoff_bounds [OF assms(1), of a] assms(1) by (simp add: retry_policy_ok_def)
  then have "0 \<le> jitter 0 (backoff_of p a * jitter_ratio p)" by (rule assms(2))
  with backoff_bounds [OF assms(1), of a] show ?thesis
    by (auto simp: retry_delay_def Let_def split: option.split)
qed

lemma retry_from_shape:
  assumes "retry_policy_ok p" and "\<And>a b. 0 \<le> b \<Longrightarrow> 0 \<le> jitter a b"
    and "retry_from p jitter operation [k..max_attempts p] sleeps = (res, out)" and "k \<le> max_attempts p"
  shows "res \<noteq> LoopEnded \<and>
    (\<exists>new. out = sleeps @ new \<and> int (length new) \<le> max_attempts p - k \<and>
       (\<forall>d \<in> set new. 0 \<le> d \<and> d \<le> max_delay_seconds p) \<and>
       (\<forall>i < length new. \<exists>r. operation (k + int i) = Transient r) \<and>
       (case res of CallReturned x \<Rightarrow> operation (k + int (length new)) = Returned x
        | CallRaised e \<Rightarrow> operation (k + int (length new)) = e \<and> (\<forall>x. e \<noteq> Returned x) \<and>
            ((\<exists>r. e = Transient r) \<longrightarrow> k + int (length new) = max_attempts p)
        | LoopEnded \<Rightarrow> False))"
  using assms(3,4)
proof (induction "nat (max_attempts p - k)" arbitrary: k sleeps)
  case (0 k)
  then have "k = max_attempts p" by simp
  with 0 show ?case by (auto simp: upto_single split: call_outcome.splits)
next
  case (Suc n k)
  then have less: "k < max_attempts p" by simp
  then have list: "[k..max_attempts p] = k # [k + 1..max_attempts p]" by (simp add: upto_rec1)
  show ?case
  proof (cases "operation k")
    case (Transient r)
    let ?d = "retry_delay p k r jitter"
    from Suc.prems(1) list Transient less
    have "retry_from p jitter operation [k + 1..max_attempts p] (sleeps @ [?d]) = (res, out)" by simp
    moreover have "n = nat (max_attempts p - (k + 1))" "k + 1 \<le> max_attempts p"
      using Suc.hyps(2) less by simp_all
    ultimately obtain new where
      IH: "res \<noteq> LoopEnded" "out = (sleeps @ [?d]) @ new" "int (length new) \<le> max_attempts p - (k + 1)"
      "\<forall>d \<in> set new. 0 \<le> d \<and> d \<le> max_delay_seconds p"
      "\<forall>i < length new. \<exists>r. operation (k + 1 + int i) = Transient r"
      "case res of CallReturned x \<Rightarrow> operation (k + 1 + int (length new)) = Returned x
        | CallRaised e \<Rightarrow> operation (k + 1 + int (length new)) = e \<and> (\<forall>x. e \<noteq> Returned x) \<and>
            ((\<exists>r. e = Transient r) \<longrightarrow> k + 1 + int (length new) = max_attempts p)
        | LoopEnded \<Rightarrow> False"
      using Suc.hyps(1) [of "k + 1" "sleeps @ [?d]"] by blast
    have "\<exists>r. operation (k + int i) = Transient r" if "i < length (?d # new)" for i
      using that Transient IH(5) by (cases i) (auto simp: add.assoc)
    with IH retry_delay_bounds [of p jitter k r, OF assms(1,2)] show ?thesis
      by (intro conjI exI [of _ "?d # new"]) (auto simp: algebra_simps split: call_result.splits)
  qed (use Suc.prems(1) list less in auto)
qed

text \<open>
  C32. Bounded retries: a call under a valid policy never falls off its loop, makes at most
  \<open>max_attempts\<close> attempts, repeats only after failures classified as transient, sleeps before
  each repetition between zero and the maximal delay, and ends with the last attempt's own
  result or error, a transient one only at the last attempt.
\<close>

theorem retries_are_bounded:
  assumes "mk_retry_policy p = Inr q" and "\<And>a b. 0 \<le> b \<Longrightarrow> 0 \<le> jitter a b"
    and "retry_exchange_call p jitter operation = (res, sleeps)"
  shows "int (length sleeps) + 1 \<le> max_attempts p \<and>
    (\<forall>d \<in> set sleeps. 0 \<le> d \<and> d \<le> max_delay_seconds p) \<and>
    (\<forall>i < length sleeps. \<exists>r. operation (1 + int i) = Transient r) \<and>
    (case res of CallReturned x \<Rightarrow> operation (1 + int (length sleeps)) = Returned x
     | CallRaised e \<Rightarrow> operation (1 + int (length sleeps)) = e \<and> (\<forall>x. e \<noteq> Returned x) \<and>
         ((\<exists>r. e = Transient r) \<longrightarrow> 1 + int (length sleeps) = max_attempts p)
     | LoopEnded \<Rightarrow> False)"
proof -
  have ok: "retry_policy_ok p" using assms(1) by (simp add: mk_retry_policy_ok)
  then have "1 \<le> max_attempts p" by (simp add: retry_policy_ok_def)
  from retry_from_shape [OF ok assms(2) assms(3) [unfolded retry_exchange_call_def] this] show ?thesis
    by auto
qed

definition sample_retry_policy :: retry_policy where
  "sample_retry_policy = \<lparr>max_attempts = 3, base_delay_seconds = 1 / 2, max_delay_seconds = 300,
     jitter_ratio = 1 / 4\<rparr>"

lemma retries_are_bounded_witness:
  "\<exists>res sleeps. retry_exchange_call sample_retry_policy (\<lambda>a b. b) (\<lambda>k. if k < 3 then Transient None else Returned ())
     = (res, sleeps) \<and> int (length sleeps) + 1 \<le> 3"
proof -
  obtain res sleeps where run:
    "retry_exchange_call sample_retry_policy (\<lambda>a b. b) (\<lambda>k. if k < 3 then Transient None else Returned ()) =
      (res, sleeps)" by force
  have "mk_retry_policy sample_retry_policy = Inr sample_retry_policy"
    by (simp add: mk_retry_policy_def sample_retry_policy_def)
  from retries_are_bounded [OF this _ run] run show ?thesis by (auto simp: sample_retry_policy_def)
qed

section \<open>Rate limiter\<close>

definition limiter_ok :: "rat \<Rightarrow> rate_limiter \<Rightarrow> bool" where
  "limiter_ok prior l \<longleftrightarrow> 0 < max_calls l \<and> 0 < period_seconds l \<and> sorted (calls l) \<and>
     (\<forall>c \<in> set (calls l). c \<le> prior) \<and> length (calls l) \<le> max_calls l"

lemma dropWhile_sorted: "sorted xs \<Longrightarrow> dropWhile (\<lambda>c. c \<le> b) xs = filter (\<lambda>c. b < c) (xs :: rat list)"
proof (induction xs)
  case (Cons x xs)
  show ?case
  proof (cases "x \<le> b")
    case False
    then have "\<forall>c \<in> set (x # xs). b < c" using Cons.prems by auto
    with False show ?thesis by (simp add: filter_id_conv)
  qed (use Cons in auto)
qed simp

lemma expire_ok: "limiter_ok prior l \<Longrightarrow> limiter_ok prior (expire now l)"
  by (auto simp: limiter_ok_def expire_def dropWhile_sorted sorted_wrt_filter
      intro: order_trans [OF length_filter_le])

text \<open>Two turns of the loop are enough: after the sleep the oldest call has expired.\<close>

lemma acquire_two:
  assumes "limiter_ok prior l" and "prior \<le> now" and "\<And>k. 0 \<le> over k"
  shows "\<exists>t l'. acquire 2 over now l = Some (t, l') \<and> now \<le> t \<and> limiter_ok t l' \<and>
    max_calls l' = max_calls l \<and> period_seconds l' = period_seconds l \<and>
    calls l' = filter (\<lambda>c. t - period_seconds l < c) (calls l) @ [t]"
proof -
  let ?p = "period_seconds l" and ?l = "expire now l"
  have srt: "sorted (calls l)" and pos: "0 < max_calls l" "0 < ?p" and len: "length (calls l) \<le> max_calls l"
    and le: "\<forall>c \<in> set (calls l). c \<le> prior"
    using assms(1) by (auto simp: limiter_ok_def)
  have first: "calls ?l = filter (\<lambda>c. now - ?p < c) (calls l)" by (simp add: expire_def dropWhile_sorted srt)
  have frame: "max_calls ?l = max_calls l" "period_seconds ?l = ?p" by (simp_all add: expire_def)
  have granted: "limiter_ok t (l\<lparr>calls := filter (\<lambda>c. t - ?p < c) (calls l) @ [t]\<rparr>)"
    if "prior \<le> t" "length (filter (\<lambda>c. t - ?p < c) (calls l)) < max_calls l" for t
    using that pos srt le by (auto simp: limiter_ok_def sorted_append sorted_wrt_filter)
  show ?thesis
  proof (cases "length (calls ?l) < max_calls l")
    case True
    then have "acquire 2 over now l = Some (now, l\<lparr>calls := filter (\<lambda>c. now - ?p < c) (calls l) @ [now]\<rparr>)"
      using first frame by (simp add: numeral_2_eq_2 Let_def expire_def)
    with granted [OF assms(2)] True first show ?thesis by simp
  next
    case False
    then have full: "filter (\<lambda>c. now - ?p < c) (calls l) = calls l"
      using len first length_filter_le [of "\<lambda>c. now - ?p < c" "calls l"]
      by (metis filter_id_conv le_antisym length_filter_less not_less order_less_le_trans)
    have same: "?l = l" using first full by (simp add: expire_def dropWhile_sorted srt)
    obtain c cs where cs: "calls l = c # cs" using False pos first full by (cases "calls l") auto
    let ?t = "now + max 0 (?p - (now - c)) + over 1"
    have t: "now \<le> ?t" using assms(3) [of 1] by (simp add: add_nonneg_nonneg)
    have gone: "\<not> ?t - ?p < c" using assms(3) [of 1] by (auto simp: max_def)
    have room: "length (filter (\<lambda>d. ?t - ?p < d) (calls l)) < max_calls l"
    proof -
      have "filter (\<lambda>d. ?t - ?p < d) (calls l) = filter (\<lambda>d. ?t - ?p < d) cs" using gone cs by simp
      then have "length (filter (\<lambda>d. ?t - ?p < d) (calls l)) \<le> length cs" by (simp only: length_filter_le)
      also have "\<dots> < max_calls l" using len cs by simp
      finally show ?thesis .
    qed
    have second: "calls (expire ?t l) = filter (\<lambda>d. ?t - ?p < d) (calls l)"
      by (simp add: expire_def dropWhile_sorted srt)
    have "acquire 2 over now l = acquire 1 over ?t l"
      using False same frame cs by (simp add: numeral_2_eq_2 Let_def)
    also have "\<dots> = Some (?t, l\<lparr>calls := filter (\<lambda>d. ?t - ?p < d) (calls l) @ [?t]\<rparr>)"
      using room second by (simp add: Let_def expire_def)
    finally show ?thesis using granted [of ?t] room t assms(2) by simp
  qed
qed

text \<open>
  The window: with \<open>past\<close> the grants so far, the limiter holds every grant of the last
  period, and any \<open>max_calls\<close> consecutive steps of the grants take a period.
\<close>

definition window_spaced :: "nat \<Rightarrow> rat \<Rightarrow> rat list \<Rightarrow> bool" where
  "window_spaced n period ts \<longleftrightarrow> (\<forall>i. i + n < length ts \<longrightarrow> period \<le> ts ! (i + n) - ts ! i)"

definition holds_recent :: "rat list \<Rightarrow> rat \<Rightarrow> rate_limiter \<Rightarrow> bool" where
  "holds_recent past prior l \<longleftrightarrow> sorted past \<and> (\<forall>t \<in> set past. t \<le> prior) \<and>
     (\<exists>k. calls l = drop k past \<and> (\<forall>t \<in> set (take k past). t \<le> prior - period_seconds l))"

lemma filter_suffix:
  "sorted xs \<Longrightarrow> \<exists>k. filter (\<lambda>c. b < c) xs = drop k (xs :: rat list) \<and> (\<forall>t \<in> set (take k xs). t \<le> b)"
proof -
  assume "sorted xs"
  then have "filter (\<lambda>c. b < c) xs = drop (length (takeWhile (\<lambda>c. c \<le> b) xs)) xs"
    by (simp add: dropWhile_sorted [symmetric] dropWhile_eq_drop)
  moreover have "take (length (takeWhile (\<lambda>c. c \<le> b) xs)) xs = takeWhile (\<lambda>c. c \<le> b) xs"
    by (metis takeWhile_eq_take)
  ultimately show ?thesis by (metis set_takeWhileD)
qed

lemma grant_spaced:
  assumes "holds_recent past prior l" and "limiter_ok prior l" and "window_spaced (max_calls l) (period_seconds l) past"
    and "prior \<le> t" and "calls l' = filter (\<lambda>c. t - period_seconds l < c) (calls l) @ [t]"
    and "length (calls l') \<le> max_calls l" and "period_seconds l' = period_seconds l"
  shows "window_spaced (max_calls l) (period_seconds l) (past @ [t]) \<and> holds_recent (past @ [t]) t l'"
proof -
  let ?n = "max_calls l" and ?p = "period_seconds l"
  from assms(1) obtain k where k: "calls l = drop k past" "\<forall>s \<in> set (take k past). s \<le> prior - ?p"
    and past: "sorted past" "\<forall>s \<in> set past. s \<le> prior" by (auto simp: holds_recent_def)
  have "sorted (drop k past)" using past(1) by (rule sorted_wrt_drop)
  then obtain m where m: "filter (\<lambda>c. t - ?p < c) (calls l) = drop m (drop k past)"
    "\<forall>s \<in> set (take m (drop k past)). s \<le> t - ?p"
    using filter_suffix k(1) by metis
  have old: "s \<le> t - ?p" if "s \<in> set (take (m + k) past)" for s
  proof -
    have "take (m + k) past = take k past @ take m (drop k past)" by (metis add.commute take_add)
    with that k(2) m(2) assms(4) show ?thesis by auto
  qed
  have calls': "calls l' = drop (m + k) (past @ [t])" if "m + k \<le> length past"
    using that assms(5) m(1) by (simp add: add.commute)
  have trimmed: "calls l' = drop (min (m + k) (length past)) (past @ [t])"
    using assms(5) m(1) by (simp add: add.commute min_def)
  have "?p \<le> t - past ! i" if "i + ?n = length past" for i
  proof -
    have "length (calls l') = length past + 1 - min (m + k) (length past)" using trimmed by simp
    with assms(6) that have "i < m + k \<and> i < length past \<or> ?n = 0" by auto
    moreover have "?n \<noteq> 0" using assms(2) by (simp add: limiter_ok_def)
    ultimately have "past ! i \<in> set (take (m + k) past)" by (auto simp: in_set_conv_nth)
    with old show ?thesis by force
  qed
  with assms(3) have "window_spaced ?n ?p (past @ [t])"
    using assms(2) by (auto simp: window_spaced_def limiter_ok_def nth_append less_Suc_eq)
  moreover have "holds_recent (past @ [t]) t l'"
    unfolding holds_recent_def
  proof (intro conjI exI)
    show "sorted (past @ [t])" using past assms(4) by (auto simp: sorted_append)
    show "\<forall>s \<in> set (past @ [t]). s \<le> t" using past(2) assms(4) by auto
    show "calls l' = drop (min (m + k) (length past)) (past @ [t])" by (rule trimmed)
    show "\<forall>s \<in> set (take (min (m + k) (length past)) (past @ [t])). s \<le> t - period_seconds l'"
      using old assms(7) by (auto simp: min_def split: if_splits)
  qed
  ultimately show ?thesis ..
qed

lemma acquire_all_spaced:
  "limiter_ok prior l \<Longrightarrow> holds_recent past prior l \<Longrightarrow> window_spaced (max_calls l) (period_seconds l) past \<Longrightarrow>
     \<forall>w \<in> set waits. 0 \<le> w \<Longrightarrow> (\<And>k. 0 \<le> over k) \<Longrightarrow>
     \<exists>ts. acquire_all over waits prior l = Some ts \<and> length ts = length waits \<and>
       window_spaced (max_calls l) (period_seconds l) (past @ ts)"
proof (induction waits arbitrary: prior l past)
  case (Cons w waits)
  have le: "prior \<le> prior + w" using Cons.prems(4) by simp
  from acquire_two [OF Cons.prems(1) le, of over, OF Cons.prems(5)] obtain t l' where
    one: "acquire 2 over (prior + w) l = Some (t, l')" "prior + w \<le> t" "limiter_ok t l'"
    "max_calls l' = max_calls l" "period_seconds l' = period_seconds l"
    "calls l' = filter (\<lambda>c. t - period_seconds l < c) (calls l) @ [t]" by blast
  have "length (calls l') \<le> max_calls l" using one(3,4) by (simp add: limiter_ok_def)
  from grant_spaced [OF Cons.prems(2,1,3) order_trans [OF le one(2)] one(6) this one(5)]
  have "window_spaced (max_calls l') (period_seconds l') (past @ [t])" "holds_recent (past @ [t]) t l'"
    using one(4,5) by auto
  from Cons.IH [OF one(3) this(2,1) _ Cons.prems(5)] Cons.prems(4) one show ?case by auto
qed simp

text \<open>
  C33. The rate limiter grants every request, after at most two turns of its loop, and keeps its
  promise: among all its grants, any \<open>max_calls + 1\<close> consecutive ones span at least the period,
  however long the requests wait between calls and however much the sleeps overrun.
\<close>

theorem rate_limit_holds:
  assumes "new_rate_limiter n period = Inr l" and "\<forall>w \<in> set waits. 0 \<le> w" and "\<And>k. 0 \<le> over k"
  shows "\<exists>ts. acquire_all over waits now l = Some ts \<and> length ts = length waits \<and>
    (\<forall>i. i + nat n < length ts \<longrightarrow> period \<le> ts ! (i + nat n) - ts ! i)"
proof -
  have l: "limiter_ok now l" "holds_recent [] now l" "window_spaced (max_calls l) (period_seconds l) []"
    "max_calls l = nat n" "period_seconds l = period"
    using assms(1) by (auto simp: new_rate_limiter_def limiter_ok_def holds_recent_def window_spaced_def
        split: if_splits)
  from acquire_all_spaced [OF l(1-3) assms(2,3)] show ?thesis
    by (auto simp: l(4,5) window_spaced_def)
qed

lemma rate_limit_holds_witness:
  "\<exists>l ts. new_rate_limiter 2 1 = Inr l \<and> acquire_all (\<lambda>_. 0) [0, 0, 0] 10 l = Some ts \<and> 1 \<le> ts ! 2 - ts ! 0"
proof -
  obtain l where l: "new_rate_limiter 2 1 = Inr l" by (simp add: new_rate_limiter_def)
  from rate_limit_holds [OF this, of "[0, 0, 0]" "\<lambda>_. 0" 10] obtain ts where
    ts: "acquire_all (\<lambda>_. 0) [0, 0, 0] 10 l = Some ts" "length ts = 3"
    "\<forall>i. i + nat 2 < length ts \<longrightarrow> 1 \<le> ts ! (i + nat 2) - ts ! i" by auto
  from spec [OF ts(3), of 0] ts(2) have "1 \<le> ts ! 2 - ts ! 0" by (simp add: numeral_2_eq_2)
  with l ts(1) show ?thesis by blast
qed

section \<open>The notification dispatcher\<close>

datatype dispatch_step = Start | Publish notification | Work attempt_env

fun dispatch :: "dispatch_step \<Rightarrow> dispatcher \<Rightarrow> dispatcher \<times> rat list" where
  "dispatch Start d = (start d, [])"
| "dispatch (Publish n) d = (publish_notification n d, [])"
| "dispatch (Work env) d = work env d"

fun dispatch_all :: "dispatch_step list \<Rightarrow> dispatcher \<Rightarrow> dispatcher \<times> rat list" where
  "dispatch_all [] d = (d, [])"
| "dispatch_all (x # xs) d = (case dispatch x d of (d1, ts) \<Rightarrow>
     (case dispatch_all xs d1 of (d2, rs) \<Rightarrow> (d2, ts @ rs)))"

definition env_ok :: "attempt_env \<Rightarrow> bool" where
  "env_ok env \<longleftrightarrow> (\<forall>k. 0 \<le> send_time env k \<and> 0 \<le> oversleep env k)"

fun published :: "dispatch_step list \<Rightarrow> nat" where
  "published [] = 0"
| "published (Publish n # xs) = Suc (published xs)"
| "published (x # xs) = published xs"

text \<open>Times at least \<open>m\<close> apart, the first of them also from the last attempt.\<close>

abbreviation apart :: "rat \<Rightarrow> rat list \<Rightarrow> bool" where
  "apart m \<equiv> successively (\<lambda>a b. m \<le> b - a)"

definition after_last :: "dispatcher \<Rightarrow> rat list \<Rightarrow> rat list" where
  "after_last d ts = (case last_attempt_at d of None \<Rightarrow> ts | Some t \<Rightarrow> t # ts)"

definition clock_ok :: "dispatcher \<Rightarrow> bool" where
  "clock_ok d \<longleftrightarrow> (case last_attempt_at d of None \<Rightarrow> True | Some t \<Rightarrow> t \<le> loop_time d)"

lemma respect_rate_limit_spec:
  assumes "clock_ok d" and "0 \<le> over"
  shows "last_attempt_at (respect_rate_limit over d) = Some (loop_time (respect_rate_limit over d))"
    and "apart (minimum_interval_seconds d) (after_last d [loop_time (respect_rate_limit over d)])"
    and "loop_time d \<le> loop_time (respect_rate_limit over d)"
  using assms
  by (auto simp: respect_rate_limit_def Let_def sleep_def after_last_def clock_ok_def split: option.splits)

lemma respect_rate_limit_frame [simp]:
  "queue (respect_rate_limit over d) = queue d" "dn_stats (respect_rate_limit over d) = dn_stats d"
  "minimum_interval_seconds (respect_rate_limit over d) = minimum_interval_seconds d"
  "dn_max_attempts (respect_rate_limit over d) = dn_max_attempts d"
  "queue_size (respect_rate_limit over d) = queue_size d"
  "worker_running (respect_rate_limit over d) = worker_running d"
  by (auto simp: respect_rate_limit_def Let_def sleep_def split: option.split)

lemma sleep_frame [simp]:
  "queue (sleep x y d) = queue d" "dn_stats (sleep x y d) = dn_stats d"
  "minimum_interval_seconds (sleep x y d) = minimum_interval_seconds d"
  "dn_max_attempts (sleep x y d) = dn_max_attempts d" "queue_size (sleep x y d) = queue_size d"
  "worker_running (sleep x y d) = worker_running d" "last_attempt_at (sleep x y d) = last_attempt_at d"
  "loop_time (sleep x y d) = loop_time d + max 0 x + y"
  by (simp_all add: sleep_def)

lemma tally_frame [simp]:
  "queue (tally f d) = queue d" "dn_stats (tally f d) = f (dn_stats d)"
  "minimum_interval_seconds (tally f d) = minimum_interval_seconds d"
  "dn_max_attempts (tally f d) = dn_max_attempts d" "queue_size (tally f d) = queue_size d"
  "worker_running (tally f d) = worker_running d" "last_attempt_at (tally f d) = last_attempt_at d"
  "loop_time (tally f d) = loop_time d"
  by (simp_all add: tally_def)

text \<open>What one delivery leaves: settled once, and its attempts counted and spaced.\<close>

definition delivered :: "dispatcher \<Rightarrow> int \<Rightarrow> dispatcher \<Rightarrow> rat list \<Rightarrow> bool" where
  "delivered d bound d' ts \<longleftrightarrow>
     sent (dn_stats d') + failed (dn_stats d') = sent (dn_stats d) + failed (dn_stats d) + 1 \<and>
     queued (dn_stats d') = queued (dn_stats d) \<and> dropped (dn_stats d') = dropped (dn_stats d) \<and>
     retried (dn_stats d') + 1 = retried (dn_stats d) + length ts \<and>
     ts \<noteq> [] \<and> int (length ts) \<le> bound \<and>
     queue d' = queue d \<and> queue_size d' = queue_size d \<and> worker_running d' = worker_running d \<and>
     minimum_interval_seconds d' = minimum_interval_seconds d \<and> dn_max_attempts d' = dn_max_attempts d \<and>
     clock_ok d' \<and> last_attempt_at d' = Some (last ts) \<and>
     apart (minimum_interval_seconds d) (after_last d ts)"

lemma apart_cons: "apart m (after_last d [t]) \<Longrightarrow> apart m (t # ts) \<Longrightarrow> apart m (after_last d (t # ts))"
  by (cases "last_attempt_at d") (auto simp: after_last_def)

lemma deliver_from_delivered:
  assumes "env_ok env"
  shows "clock_ok d \<Longrightarrow> k \<le> dn_max_attempts d \<Longrightarrow>
    deliver_from env [k..dn_max_attempts d] d = (d', ts) \<Longrightarrow> delivered d (dn_max_attempts d - k + 1) d' ts"
proof (induction "nat (dn_max_attempts d - k)" arbitrary: d k ts)
  case 0
  then have one: "[k..dn_max_attempts d] = [k]" "k = dn_max_attempts d" by simp_all
  let ?d1 = "respect_rate_limit (oversleep env k) d"
  have env: "0 \<le> send_time env k" "0 \<le> oversleep env k" using assms by (simp_all add: env_ok_def)
  note rate = respect_rate_limit_spec [OF "0.prems"(1) env(2)]
  from "0.prems"(3) one env rate show ?case
    by (auto simp: Let_def delivered_def clock_ok_def split: send_outcome.splits)
next
  case (Suc n)
  let ?d1 = "respect_rate_limit (oversleep env k) d"
  have less: "k < dn_max_attempts d" using Suc.hyps(2) by simp
  then have list: "[k..dn_max_attempts d] = k # [k + 1..dn_max_attempts d]" by (simp add: upto_rec1)
  have env: "0 \<le> send_time env k" "0 \<le> oversleep env k" using assms by (simp_all add: env_ok_def)
  note rate = respect_rate_limit_spec [OF Suc.prems(1) env(2)]
  show ?case
  proof (cases "send_result env k")
    case (Retryable r)
    define d2 where "d2 = ?d1\<lparr>loop_time := loop_time ?d1 + send_time env k\<rparr>"
    define d3 where "d3 = sleep (next_delay d2 k r) (oversleep env k)
      (tally (\<lambda>s. s\<lparr>retried := retried s + 1\<rparr>) d2)"
    obtain rs where rest: "deliver_from env [k + 1..dn_max_attempts d] d3 = (d', rs)"
      and ts: "ts = loop_time ?d1 # rs"
      using Suc.prems(3) less
      by (auto simp: list Retryable Let_def d2_def d3_def split: prod.splits)
    have frame: "dn_max_attempts d3 = dn_max_attempts d" "last_attempt_at d3 = Some (loop_time ?d1)"
      "minimum_interval_seconds d3 = minimum_interval_seconds d" "queue d3 = queue d"
      "queue_size d3 = queue_size d" "worker_running d3 = worker_running d"
      "dn_stats d3 = (dn_stats d)\<lparr>retried := retried (dn_stats d) + 1\<rparr>"
      using rate(1) by (simp_all add: d3_def d2_def)
    have clock: "clock_ok d3" using env rate(1) by (simp add: clock_ok_def d3_def d2_def)
    have "delivered d3 (dn_max_attempts d - (k + 1) + 1) d' rs"
      using Suc.hyps(1) [of d3 "k + 1" rs] clock less Suc.hyps(2) rest frame(1) by simp
    with ts rate(2) frame show ?thesis
      by (auto simp: delivered_def after_last_def [of d3] intro: apart_cons)
  qed (use Suc.prems(3) list env rate less in
      \<open>auto simp: Let_def delivered_def clock_ok_def\<close>)
qed

definition balanced :: "dispatcher \<Rightarrow> bool" where
  "balanced d \<longleftrightarrow> queued (dn_stats d) = sent (dn_stats d) + failed (dn_stats d) + length (queue d) \<and>
     length (queue d) \<le> queue_size d \<and> 1 \<le> dn_max_attempts d \<and> 0 < queue_size d \<and> clock_ok d"

lemma work_spec:
  assumes "balanced d" and "env_ok env" and "work env d = (d', ts)"
  shows "balanced d' \<and> dropped (dn_stats d') = dropped (dn_stats d) \<and> queued (dn_stats d') = queued (dn_stats d) \<and>
    minimum_interval_seconds d' = minimum_interval_seconds d \<and>
    apart (minimum_interval_seconds d) (after_last d ts) \<and>
    (ts = [] \<and> last_attempt_at d' = last_attempt_at d \<or> ts \<noteq> [] \<and> last_attempt_at d' = Some (last ts))"
proof (cases "queue d = [] \<or> \<not> worker_running d")
  case True
  with assms(1,3) show ?thesis
    by (cases "last_attempt_at d") (auto simp: work_def after_last_def split: list.splits)
next
  case False
  then obtain n rest where q: "queue d = n # rest" and run: "worker_running d" by (cases "queue d") auto
  let ?d = "d\<lparr>queue := rest\<rparr>"
  have "deliver_from env [1..dn_max_attempts ?d] ?d = (d', ts)"
    using assms(3) q run by (simp add: work_def deliver_def)
  moreover have "clock_ok ?d" "1 \<le> dn_max_attempts ?d" using assms(1)
    by (simp_all add: balanced_def clock_ok_def split: option.splits)
  ultimately have "delivered ?d (dn_max_attempts ?d - 1 + 1) d' ts"
    using deliver_from_delivered [OF assms(2)] by blast
  with assms(1) q show ?thesis by (auto simp: delivered_def balanced_def after_last_def)
qed

lemma apart_append:
  "apart m (after_last d ts) \<Longrightarrow> ts \<noteq> [] \<Longrightarrow> apart m (last ts # rs) \<Longrightarrow> apart m (after_last d (ts @ rs))"
proof -
  assume a: "apart m (after_last d ts)" "ts \<noteq> []" "apart m (last ts # rs)"
  have ext: "after_last d (ts @ rs) = after_last d ts @ rs" "last (after_last d ts) = last ts"
    using a(2) by (simp_all add: after_last_def split: option.split)
  from a(1,3) show ?thesis unfolding ext by (cases rs) (auto simp: successively_append_iff ext(2))
qed

lemma dispatch_all_spec:
  "balanced d \<Longrightarrow> (\<And>env. Work env \<in> set xs \<Longrightarrow> env_ok env) \<Longrightarrow> dispatch_all xs d = (d', ts) \<Longrightarrow>
     balanced d' \<and>
     queued (dn_stats d') + dropped (dn_stats d') = queued (dn_stats d) + dropped (dn_stats d) + published xs \<and>
     apart (minimum_interval_seconds d) (after_last d ts)"
proof (induction xs arbitrary: d ts)
  case Nil
  then show ?case by (cases "last_attempt_at d") (simp_all add: after_last_def)
next
  case (Cons x xs)
  obtain d1 ts1 where one: "dispatch x d = (d1, ts1)" by force
  obtain rs where rest: "dispatch_all xs d1 = (d', rs)" and ts: "ts = ts1 @ rs"
    using Cons.prems(3) one by (auto split: prod.splits)
  have step: "balanced d1 \<and>
      queued (dn_stats d1) + dropped (dn_stats d1) =
        queued (dn_stats d) + dropped (dn_stats d) + published [x] \<and>
      minimum_interval_seconds d1 = minimum_interval_seconds d \<and>
      apart (minimum_interval_seconds d) (after_last d ts1) \<and>
      (ts1 = [] \<and> last_attempt_at d1 = last_attempt_at d \<or> ts1 \<noteq> [] \<and> last_attempt_at d1 = Some (last ts1))"
  proof (cases x)
    case (Work env)
    with work_spec [OF Cons.prems(1)] Cons.prems(2) one show ?thesis by fastforce
  next
    case (Publish n)
    with Cons.prems(1) one show ?thesis
      by (cases "last_attempt_at d")
         (auto simp: publish_notification_def balanced_def clock_ok_def after_last_def split: if_splits)
  next
    case Start
    with Cons.prems(1) one show ?thesis
      by (cases "last_attempt_at d") (auto simp: start_def balanced_def clock_ok_def after_last_def)
  qed
  with Cons.IH [OF _ _ rest] Cons.prems(2)
  have IH: "balanced d'" "queued (dn_stats d') + dropped (dn_stats d') =
      queued (dn_stats d1) + dropped (dn_stats d1) + published xs"
    "apart (minimum_interval_seconds d) (after_last d1 rs)" by auto
  have "apart (minimum_interval_seconds d) (after_last d ts)"
  proof (cases "ts1 = []")
    case True
    with step IH(3) ts show ?thesis by (simp add: after_last_def)
  next
    case False
    with step have "after_last d1 rs = last ts1 # rs" by (simp add: after_last_def)
    with False step IH(3) ts apart_append show ?thesis by metis
  qed
  with IH step show ?case by (cases x) auto
qed

text \<open>
  C34. No notification is lost: in any run of a new dispatcher, every published notification is
  either dropped or queued, every queued one is sent, failed or still in the queue, the queue
  never exceeds its bound, and any two consecutive attempts to send, of whatever notifications,
  are at least the minimum interval apart.
\<close>

theorem no_notification_lost:
  assumes "new_dispatcher c now = Inr d" and "\<forall>env. Work env \<in> set xs \<longrightarrow> env_ok env"
    and "dispatch_all xs d = (d', ts)"
  shows "published xs = queued (dn_stats d') + dropped (dn_stats d') \<and>
    queued (dn_stats d') = sent (dn_stats d') + failed (dn_stats d') + length (queue d') \<and>
    int (length (queue d')) \<le> set_queue_size c \<and> apart (set_minimum_interval_seconds c) ts"
proof -
  have new: "balanced d" "queued (dn_stats d) = 0" "dropped (dn_stats d) = 0"
    "minimum_interval_seconds d = set_minimum_interval_seconds c" "last_attempt_at d = None"
    "queue_size d = nat (set_queue_size c)" "0 < set_queue_size c"
    using assms(1) by (auto simp: new_dispatcher_def balanced_def clock_ok_def split: if_splits)
  have "queue_size (fst (dispatch_all xs e)) = queue_size e" for e
  proof (induction xs arbitrary: e)
    case (Cons x xs)
    have "queue_size (fst (deliver_from env ks e)) = queue_size e" for env ks e
      by (induction ks arbitrary: e) (auto simp: Let_def case_prod_beta split: send_outcome.splits)
    then have "queue_size (fst (dispatch x e)) = queue_size e"
      by (cases x) (auto simp: start_def publish_notification_def work_def deliver_def split: list.splits)
    with Cons show ?case by (simp add: case_prod_beta)
  qed simp
  from this [of d] have "queue_size d' = nat (set_queue_size c)" using assms(3) new(6) by simp
  with dispatch_all_spec [OF new(1) _ assms(3)] assms(2) new show ?thesis
    by (auto simp: balanced_def after_last_def)
qed

definition sample_settings :: dispatcher_settings where
  "sample_settings = \<lparr>set_queue_size = 1, set_max_attempts = 3, set_retry_base_seconds = 1,
     set_max_retry_delay_seconds = 60, set_minimum_interval_seconds = 1\<rparr>"

definition sample_env :: attempt_env where
  "sample_env = \<lparr>send_result = (\<lambda>k. if k = 1 then Retryable (Some 0) else Delivered), send_time = (\<lambda>_. 0),
     oversleep = (\<lambda>_. 0)\<rparr>"

definition sample_note :: notification where
  "sample_note = \<lparr>body = ''READY'', about = None\<rparr>"

lemma no_notification_lost_witness:
  "\<exists>d d' ts. new_dispatcher sample_settings 0 = Inr d \<and>
     dispatch_all [Start, Publish sample_note, Publish sample_note, Work sample_env] d = (d', ts) \<and>
     2 = queued (dn_stats d') + dropped (dn_stats d') \<and> apart 1 ts"
proof -
  let ?xs = "[Start, Publish sample_note, Publish sample_note, Work sample_env]"
  obtain d where d: "new_dispatcher sample_settings 0 = Inr d"
    by (simp add: new_dispatcher_def sample_settings_def)
  obtain d' ts where run: "dispatch_all ?xs d = (d', ts)" by force
  have "\<forall>env. Work env \<in> set ?xs \<longrightarrow> env_ok env" by (simp add: env_ok_def sample_env_def)
  from no_notification_lost [OF d this run] have "2 = queued (dn_stats d') + dropped (dn_stats d') \<and> apart 1 ts"
    by (simp add: sample_settings_def numeral_2_eq_2)
  with d run show ?thesis by blast
qed

end
