(* ===== verification/Orchestration.thy ===== *)
theory Orchestration
  imports Py_Values
begin

text \<open>
  src/src/quant_signal_agent/studio/orchestration.py: the research DAG of a work order, the
  versioned market data service, the artifact registry, the shared circuit breaker and the small
  helpers.

  Files: a service's directory is a map from relative paths to contents (bytes as
  characters); a JSON file holds a value or is unparsable, and is written through a temporary
  file, so that it changes in one step. \<open>sha256\<close>, the JSON encoder, and \<open>str\<close> and
  \<open>int\<close> of values that are neither strings nor integers are the standard library's, parameters
  here (\<open>std_env\<close>). The locks make each method one step.
\<close>

section \<open>The research DAG\<close>

datatype approval_gate = IMPLEMENTATION_GATE | OPTIMIZATION_GATE | BACKTEST_GATE | LIVE_GATE

fun gate_value :: "approval_gate \<Rightarrow> string" where
  "gate_value IMPLEMENTATION_GATE = ''implementation_approval''"
| "gate_value OPTIMIZATION_GATE = ''optimization_approval''"
| "gate_value BACKTEST_GATE = ''backtest_approval''"
| "gate_value LIVE_GATE = ''live_approval''"

datatype dag_node_kind = AGENT | SERVICE | APPROVAL

fun kind_value :: "dag_node_kind \<Rightarrow> string" where
  "kind_value AGENT = ''agent''"
| "kind_value SERVICE = ''service''"
| "kind_value APPROVAL = ''approval''"

record dag_node =
  node_id :: string
  node_owner :: string
  node_kind :: dag_node_kind
  requires :: "string list"

definition dag_node :: "string \<Rightarrow> string \<Rightarrow> dag_node_kind \<Rightarrow> string list \<Rightarrow> dag_node" where
  "dag_node i ow k rs = \<lparr>node_id = i, node_owner = ow, node_kind = k, requires = rs\<rparr>"

definition optimization_nodes :: "dag_node list" where
  "optimization_nodes =
     [dag_node ''optimize'' ''optimize'' AGENT [''review_backtest''],
      dag_node (gate_value OPTIMIZATION_GATE) ''manager'' APPROVAL [''optimize'']]"

definition backtest_nodes :: "bool \<Rightarrow> dag_node list" where
  "backtest_nodes optimization_required =
     [dag_node ''dataset'' ''data_service'' SERVICE [gate_value IMPLEMENTATION_GATE],
      dag_node ''backtest'' ''backtest'' AGENT [''dataset''],
      dag_node ''review_backtest'' ''review'' AGENT [''backtest'']] @
     (if optimization_required then optimization_nodes else []) @
     [dag_node (gate_value BACKTEST_GATE) ''manager'' APPROVAL
        [if optimization_required then gate_value OPTIMIZATION_GATE else ''review_backtest'']]"

definition research_dag :: "bool \<Rightarrow> bool \<Rightarrow> exn + dag_node list" where
  "research_dag backtest_required optimization_required =
     (if optimization_required \<and> \<not> backtest_required
      then Inl (ValueError ''optimization requires a backtest'')
      else Inr
       ([dag_node ''strategy'' ''strategy'' AGENT [],
         dag_node ''review_implementation'' ''review'' AGENT [''strategy''],
         dag_node (gate_value IMPLEMENTATION_GATE) ''manager'' APPROVAL [''review_implementation'']] @
        (if backtest_required then backtest_nodes optimization_required else []) @
        [dag_node (gate_value LIVE_GATE) ''manager'' APPROVAL
          [if backtest_required then gate_value BACKTEST_GATE else gate_value IMPLEMENTATION_GATE]]))"

definition dag_as_dict :: "dag_node list \<Rightarrow> pyval" where
  "dag_as_dict nds = PDict [(''nodes'', PList (map (\<lambda>n. PDict
     [(''node_id'', PStr (node_id n)), (''owner'', PStr (node_owner n)),
      (''kind'', PStr (kind_value (node_kind n))), (''requires'', PList (map PStr (requires n)))]) nds))]"

section \<open>Values and files\<close>

record std_env =
  sha256 :: "string \<Rightarrow> string"
  json_dumps :: "pyval \<Rightarrow> string"
  str_of :: "pyval \<Rightarrow> string"
  int_of :: "pyval \<Rightarrow> exn + int"

definition py_str :: "std_env \<Rightarrow> pyval \<Rightarrow> string" where
  "py_str env v = (case v of PStr s \<Rightarrow> s | PInt i \<Rightarrow> str_of_int i | _ \<Rightarrow> str_of env v)"

definition py_int :: "std_env \<Rightarrow> pyval \<Rightarrow> exn + int" where
  "py_int env v = (case v of PInt i \<Rightarrow> Inr i | _ \<Rightarrow> int_of env v)"

text \<open>What \<open>json.loads\<close> returns for what \<open>json.dumps(value, sort_keys=True)\<close> wrote.\<close>

fun sort_json :: "pyval \<Rightarrow> pyval" and sort_items :: "(string \<times> pyval) list \<Rightarrow> (string \<times> pyval) list"
  and sort_elements :: "pyval list \<Rightarrow> pyval list" where
  "sort_json (PDict d) = PDict (sort_key fst (sort_items d))"
| "sort_json (PList xs) = PList (sort_elements xs)"
| "sort_json v = v"
| "sort_items [] = []"
| "sort_items ((k, v) # d) = (k, sort_json v) # sort_items d"
| "sort_elements [] = []"
| "sort_elements (x # xs) = sort_json x # sort_elements xs"

datatype json_file = Unparsable | Json pyval

section \<open>Dataset versions\<close>

record dataset_key =
  venue :: string
  market :: string
  symbol :: string
  timeframe :: string
  key_start :: string
  key_end :: string
  schema_version :: string

definition key_fields :: "dataset_key \<Rightarrow> string list" where
  "key_fields k = [venue k, market k, symbol k, timeframe k, key_start k, key_end k, schema_version k]"

definition canonical :: "dataset_key \<Rightarrow> string" where
  "canonical k = str_join ''|'' (map (\<lambda>v. str_lower (strip v)) (key_fields k))"

definition dataset_id_of :: "std_env \<Rightarrow> dataset_key \<Rightarrow> string" where
  "dataset_id_of env k = take 24 (sha256 env (canonical k))"

record dataset_version =
  dataset_id :: string
  version :: string
  path :: string
  dv_sha256 :: string
  byte_count :: int
  dv_key :: dataset_key
  provenance_path :: "string option"
  provenance_sha256 :: "string option"

definition key_as_dict :: "dataset_key \<Rightarrow> (string \<times> pyval) list" where
  "key_as_dict k = [(''venue'', PStr (venue k)), (''market'', PStr (market k)), (''symbol'', PStr (symbol k)),
     (''timeframe'', PStr (timeframe k)), (''start'', PStr (key_start k)), (''end'', PStr (key_end k)),
     (''schema_version'', PStr (schema_version k))]"

definition version_as_dict :: "dataset_version \<Rightarrow> pyval" where
  "version_as_dict v = PDict [(''dataset_id'', PStr (dataset_id v)), (''version'', PStr (version v)),
     (''path'', PStr (path v)), (''sha256'', PStr (dv_sha256 v)), (''byte_count'', PInt (byte_count v)),
     (''key'', PDict (key_as_dict (dv_key v))), (''provenance_path'', opt_str (provenance_path v)),
     (''provenance_sha256'', opt_str (provenance_sha256 v))]"

text \<open>\<open>value[name]\<close>, and \<open>value.get(name)\<close> when it is a string.\<close>

definition item :: "(string \<times> pyval) list \<Rightarrow> string \<Rightarrow> exn + pyval" where
  "item d k = (case map_of d k of None \<Rightarrow> Inl (KeyError k) | Some v \<Rightarrow> Inr v)"

definition get_str :: "(string \<times> pyval) list \<Rightarrow> string \<Rightarrow> string option" where
  "get_str d k = (case map_of d k of Some (PStr s) \<Rightarrow> Some s | _ \<Rightarrow> None)"

definition str_item :: "std_env \<Rightarrow> (string \<times> pyval) list \<Rightarrow> string \<Rightarrow> exn + string" where
  "str_item env d k = (case item d k of Inl e \<Rightarrow> Inl e | Inr v \<Rightarrow> Inr (py_str env v))"

definition key_from_dict :: "std_env \<Rightarrow> (string \<times> pyval) list \<Rightarrow> exn + dataset_key" where
  "key_from_dict env d =
     (case traverse (str_item env d)
         [''venue'', ''market'', ''symbol'', ''timeframe'', ''start'', ''end'', ''schema_version''] of
        Inr [a, b, c, t, st, en, sv] \<Rightarrow> Inr \<lparr>venue = a, market = b, symbol = c, timeframe = t,
          key_start = st, key_end = en, schema_version = sv\<rparr>
      | Inr _ \<Rightarrow> Inl (AssertionError [])
      | Inl e \<Rightarrow> Inl e)"

definition version_from_dict :: "std_env \<Rightarrow> (string \<times> pyval) list \<Rightarrow> exn + dataset_version" where
  "version_from_dict env d =
     (case item d ''key'' of
        Inl e \<Rightarrow> Inl e
      | Inr (PDict raw_key) \<Rightarrow>
         (case traverse (str_item env d) [''dataset_id'', ''version'', ''path'', ''sha256''] of
            Inl e \<Rightarrow> Inl e
          | Inr strs \<Rightarrow>
             (case (case item d ''byte_count'' of Inl e \<Rightarrow> Inl e | Inr v \<Rightarrow> py_int env v) of
                Inl e \<Rightarrow> Inl e
              | Inr n \<Rightarrow>
                 (case key_from_dict env raw_key of
                    Inl e \<Rightarrow> Inl e
                  | Inr k \<Rightarrow> Inr \<lparr>dataset_id = strs ! 0, version = strs ! 1, path = strs ! 2,
                      dv_sha256 = strs ! 3, byte_count = n, dv_key = k,
                      provenance_path = get_str d ''provenance_path'',
                      provenance_sha256 = get_str d ''provenance_sha256''\<rparr>)))
      | Inr _ \<Rightarrow> Inl (ValueError ''invalid data-service registry key''))"

section \<open>The market data service\<close>

record data_service =
  files :: "string \<rightharpoonup> string"
  registry_file :: "json_file option"

definition read_registry :: "data_service \<Rightarrow> (string \<times> pyval) list" where
  "read_registry s = (case registry_file s of
       Some (Json (PDict d)) \<Rightarrow> d
     | _ \<Rightarrow> [])"

definition write_registry :: "(string \<times> pyval) list \<Rightarrow> data_service \<Rightarrow> data_service" where
  "write_registry d s = s\<lparr>registry_file := Some (Json (sort_json (PDict d)))\<rparr>"

text \<open>An absolute provenance path, or one with a part \<open>..\<close>, is never followed.\<close>

definition provenance_valid :: "std_env \<Rightarrow> data_service \<Rightarrow> dataset_version \<Rightarrow> bool" where
  "provenance_valid env s v = (case (provenance_path v, provenance_sha256 v) of
       (Some p, Some h) \<Rightarrow>
         p \<noteq> [] \<and> h \<noteq> [] \<and> \<not> str_startswith p ''/'' \<and> ''..'' \<notin> set (str_split CHR ''/'' p) \<and>
         (case files s p of None \<Rightarrow> False | Some content \<Rightarrow> sha256 env content = h)
     | _ \<Rightarrow> False)"

definition cached_version ::
  "std_env \<Rightarrow> data_service \<Rightarrow> dataset_key \<Rightarrow> pyval option \<Rightarrow> exn + dataset_version option"
where
  "cached_version env s key provenance = (case map_of (read_registry s) (canonical key) of
       Some (PDict d) \<Rightarrow>
         (case version_from_dict env d of
            Inl e \<Rightarrow> Inl e
          | Inr v \<Rightarrow>
              if (case files s (path v) of None \<Rightarrow> False | Some content \<Rightarrow> sha256 env content = dv_sha256 v) \<and>
                 (provenance = None \<or> provenance_valid env s v)
              then Inr (Some v) else Inr None)
     | _ \<Rightarrow> Inr None)"

definition dataset_path :: "std_env \<Rightarrow> dataset_key \<Rightarrow> string \<Rightarrow> string" where
  "dataset_path env key version_id =
     ''datasets/'' @ dataset_id_of env key @ ''/'' @ version_id @ ''.csv''"

definition provenance_file :: "std_env \<Rightarrow> dataset_key \<Rightarrow> string \<Rightarrow> string" where
  "provenance_file env key version_id =
     ''provenance/'' @ dataset_id_of env key @ ''/'' @ version_id @ ''.json''"

text \<open>\<open>if not destination.exists(): \<dots>\<close>\<close>

definition store_payload :: "string \<Rightarrow> string \<Rightarrow> data_service \<Rightarrow> data_service" where
  "store_payload destination payload s =
     (if files s destination = None then s\<lparr>files := (files s)(destination \<mapsto> payload)\<rparr> else s)"

definition store_loaded ::
  "std_env \<Rightarrow> dataset_key \<Rightarrow> pyval option \<Rightarrow> string \<Rightarrow> data_service \<Rightarrow> dataset_version \<times> data_service"
where
  "store_loaded env key provenance payload s =
     (let digest = sha256 env payload;
          version_id = take 16 digest;
          relative = dataset_path env key version_id;
          s1 = store_payload relative payload s;
          prov = map_option (\<lambda>p. json_dumps env (sort_json p)) provenance;
          prov_path = provenance_file env key version_id;
          s2 = (case prov of None \<Rightarrow> s1 | Some text \<Rightarrow> s1\<lparr>files := (files s1)(prov_path \<mapsto> text)\<rparr>);
          v = \<lparr>dataset_id = dataset_id_of env key, version = version_id, path = relative,
               dv_sha256 = digest, byte_count = int (length payload), dv_key = key,
               provenance_path = map_option (\<lambda>_. prov_path) prov,
               provenance_sha256 = map_option (sha256 env) prov\<rparr>
      in (v, write_registry (AList.update (canonical key) (version_as_dict v) (read_registry s)) s2))"

text \<open>\<open>acquire\<close>; \<open>loader\<close> is what calling the loader would do.\<close>

definition acquire_dataset ::
  "std_env \<Rightarrow> dataset_key \<Rightarrow> exn + string \<Rightarrow> pyval option \<Rightarrow> (data_service, dataset_version) eff"
where
  "acquire_dataset env key loader provenance = (\<lambda>s.
     case cached_version env s key provenance of
       Inl e \<Rightarrow> (Inl e, s)
     | Inr (Some v) \<Rightarrow> (Inr v, s)
     | Inr None \<Rightarrow>
        (case loader of
           Inl e \<Rightarrow> (Inl e, s)
         | Inr payload \<Rightarrow>
             if payload = [] then (Inl (ValueError ''market dataset loader returned no bytes''), s)
             else (case store_loaded env key provenance payload s of (v, t) \<Rightarrow> (Inr v, t))))"

definition list_versions :: "data_service \<Rightarrow> pyval list" where
  "list_versions s = map snd (read_registry s)"

section \<open>The artifact registry\<close>

record artifact_record =
  work_order :: string
  artifact_kind :: string
  spec_sha256 :: "string option"
  code_revision :: string
  dataset_sha256 :: "string option"
  tests :: "string list"
  reports :: "string list"
  recorded_at :: string
  artifact_id :: "string option"
  artifact_version :: "string option"
  manifest_sha256 :: "string option"

definition artifact_as_dict :: "artifact_record \<Rightarrow> (string \<times> pyval) list" where
  "artifact_as_dict r = [(''work_order'', PStr (work_order r)), (''artifact_kind'', PStr (artifact_kind r)),
     (''spec_sha256'', opt_str (spec_sha256 r)), (''code_revision'', PStr (code_revision r)),
     (''dataset_sha256'', opt_str (dataset_sha256 r)), (''tests'', PList (map PStr (tests r))),
     (''reports'', PList (map PStr (reports r))), (''recorded_at'', PStr (recorded_at r)),
     (''artifact_id'', opt_str (artifact_id r)), (''artifact_version'', opt_str (artifact_version r)),
     (''manifest_sha256'', opt_str (manifest_sha256 r))]"

text \<open>The registry's file; entries that are not dictionaries are skipped.\<close>

definition dicts_of :: "pyval list \<Rightarrow> (string \<times> pyval) list list" where
  "dicts_of xs = List.map_filter (\<lambda>v. case v of PDict d \<Rightarrow> Some d | _ \<Rightarrow> None) xs"

definition list_records :: "json_file option \<Rightarrow> (string \<times> pyval) list list" where
  "list_records f = (case f of Some (Json (PList xs)) \<Rightarrow> dicts_of xs | _ \<Rightarrow> [])"

text \<open>
  \<open>{item["work_order"]: item for item in \<dots>}\<close>: a list or dictionary cannot be a key, and equal
  numbers are one key whatever their types.
\<close>

definition dict_key :: "pyval \<Rightarrow> exn + pyval" where
  "dict_key v = (case v of
       PBool b \<Rightarrow> Inr (PInt (if b then 1 else 0))
     | PFloat (Fin r) \<Rightarrow> Inr (if r = of_int \<lfloor>r\<rfloor> then PInt \<lfloor>r\<rfloor> else v)
     | PList xs \<Rightarrow> Inl (TypeError ''unhashable type'')
     | PDict d \<Rightarrow> Inl (TypeError ''unhashable type'')
     | _ \<Rightarrow> Inr v)"

fun index_records :: "(string \<times> pyval) list list \<Rightarrow> (pyval \<times> (string \<times> pyval) list) list \<Rightarrow>
    exn + (pyval \<times> (string \<times> pyval) list) list" where
  "index_records [] acc = Inr acc"
| "index_records (d # ds) acc = (case item d ''work_order'' of
       Inl e \<Rightarrow> Inl e
     | Inr v \<Rightarrow> (case dict_key v of
         Inl e \<Rightarrow> Inl e
       | Inr k \<Rightarrow> index_records ds (AList.update k d acc)))"

definition upsert_record :: "artifact_record \<Rightarrow> (json_file option, unit) eff" where
  "upsert_record r = (\<lambda>f. case index_records (list_records f) [] of
       Inl e \<Rightarrow> (Inl e, f)
     | Inr ixd \<Rightarrow>
         (Inr (), Some (Json (sort_json (PList (map (PDict \<circ> snd)
            (AList.update (PStr (work_order r)) (artifact_as_dict r) ixd)))))))"

section \<open>The circuit breaker\<close>

datatype circuit_state = CLOSED_CIRCUIT | OPEN_CIRCUIT

record circuit_breaker =
  default_cooldown_seconds :: int
  circuit :: circuit_state
  open_until :: "datetime option"
  open_reason :: "string option"

definition new_circuit_breaker :: circuit_breaker where
  "new_circuit_breaker = \<lparr>default_cooldown_seconds = 3600, circuit = CLOSED_CIRCUIT, open_until = None,
     open_reason = None\<rparr>"

definition circuit_now :: "pydatetime \<Rightarrow> exn + datetime" where
  "circuit_now v = (case v of
       Aware t \<Rightarrow> Inr t
     | Naive _ \<Rightarrow> Inl (ValueError ''circuit-breaker clock must be timezone-aware''))"

definition close_circuit :: "circuit_breaker \<Rightarrow> circuit_breaker" where
  "close_circuit b = b\<lparr>circuit := CLOSED_CIRCUIT, open_until := None, open_reason := None\<rparr>"

definition is_open :: "pydatetime \<Rightarrow> (circuit_breaker, bool) eff" where
  "is_open now = (\<lambda>b. case circuit_now now of
       Inl e \<Rightarrow> (Inl e, b)
     | Inr t \<Rightarrow>
         if circuit b = OPEN_CIRCUIT \<and> (case open_until b of None \<Rightarrow> False | Some u \<Rightarrow> t < u)
         then (Inr True, b)
         else if circuit b = OPEN_CIRCUIT then (Inr False, close_circuit b)
         else (Inr False, b))"

text \<open>\<open>retry_at\<close> is the time \<open>_retry_at\<close> reads out of the reason, if it reads one.\<close>

definition open_circuit :: "string \<Rightarrow> datetime option \<Rightarrow> pydatetime \<Rightarrow> (circuit_breaker, datetime) eff" where
  "open_circuit reason_text retry_at now = (\<lambda>b. case circuit_now now of
       Inl e \<Rightarrow> (Inl e, b)
     | Inr t \<Rightarrow>
         (let u = (case retry_at of Some r \<Rightarrow> r
             | None \<Rightarrow> dt_add t (seconds (default_cooldown_seconds b)))
          in (Inr u, b\<lparr>circuit := OPEN_CIRCUIT, open_reason := Some reason_text, open_until := Some u\<rparr>)))"

section \<open>Helpers\<close>

fun unique_from :: "string list \<Rightarrow> string list \<Rightarrow> string list" where
  "unique_from seen [] = []"
| "unique_from seen (v # vs) =
     (if blank v \<or> v \<in> set seen then unique_from seen vs else v # unique_from (v # seen) vs)"

definition unique_strings :: "string list \<Rightarrow> string list" where
  "unique_strings vs = unique_from [] vs"

end
