(* ===== verification/Orchestration_Properties.thy ===== *)
theory Orchestration_Properties
  imports Orchestration
begin

text \<open>The gates of the research DAG, the integrity of cached datasets, and the registries.\<close>

section \<open>The DAG\<close>

fun chained :: "string list \<Rightarrow> dag_node list \<Rightarrow> bool" where
  "chained before [] = True"
| "chained before (n # ns) = (requires n = before \<and> chained [node_id n] ns)"

definition approvals :: "dag_node list \<Rightarrow> string list" where
  "approvals nds = map node_id (filter (\<lambda>n. node_kind n = APPROVAL) nds)"

text \<open>
  The research DAG is a chain of distinct nodes, each waiting for exactly the one before
  it; its approvals, in order, are the implementation's, the optimization's and the back test's
  where they were asked for, and the live approval, which is the last node. An optimization
  without a back test is refused.
\<close>

theorem research_dag_is_gated_chain:
  assumes "research_dag backtest_required optimization_required = Inr nds"
  shows "chained [] nds \<and> distinct (map node_id nds) \<and>
    approvals nds = [gate_value IMPLEMENTATION_GATE] @
      (if optimization_required then [gate_value OPTIMIZATION_GATE] else []) @
      (if backtest_required then [gate_value BACKTEST_GATE] else []) @ [gate_value LIVE_GATE] \<and>
    node_id (last nds) = gate_value LIVE_GATE \<and> (optimization_required \<longrightarrow> backtest_required)"
  using assms
  by (cases backtest_required; cases optimization_required)
     (auto simp: research_dag_def backtest_nodes_def optimization_nodes_def dag_node_def approvals_def)

lemma research_dag_is_gated_chain_witness:
  "\<exists>nds. research_dag True True = Inr nds \<and> chained [] nds \<and> length (approvals nds) = 4"
proof -
  obtain nds where d: "research_dag True True = Inr nds" by (simp add: research_dag_def)
  from research_dag_is_gated_chain [OF d] d show ?thesis by auto
qed

section \<open>Written JSON\<close>

lemma map_of_filter_key: "map_of (filter (\<lambda>p. fst p = k) d) k = map_of d k"
  by (induction d) auto

lemma map_of_sort_key: "map_of (sort_key fst d) k = map_of (d :: (string \<times> 'v) list) k"
  using map_of_filter_key [of k "sort_key fst d"] map_of_filter_key [of k d] sort_key_stable [of fst k d]
  by metis

lemma map_of_sort_items: "map_of (sort_items d) k = map_option sort_json (map_of d k)"
  by (induction d) auto

lemma map_of_sorted_json: "map_of (sort_key fst (sort_items d)) k = map_option sort_json (map_of d k)"
  by (simp only: map_of_sort_key map_of_sort_items)

lemma read_written: "map_of (read_registry (write_registry d s)) k = map_option sort_json (map_of d k)"
  by (simp add: read_registry_def write_registry_def map_of_sorted_json)

lemma files_write_registry [simp]: "files (write_registry d s) = files s"
  by (simp add: write_registry_def)

lemma key_roundtrip: "key_from_dict env (sort_key fst (sort_items (key_as_dict k))) = Inr k"
  by (simp add: key_from_dict_def str_item_def item_def map_of_sorted_json key_as_dict_def py_str_def)

lemma get_str_opt: "map_of d k = Some (opt_str x) \<Longrightarrow> get_str (sort_key fst (sort_items d)) k = x"
  by (cases x) (simp_all add: get_str_def map_of_sorted_json opt_str_def)

lemma version_roundtrip:
  "\<exists>d. sort_json (version_as_dict v) = PDict d \<and> version_from_dict env d = Inr v"
proof -
  let ?items = "[(''dataset_id'', PStr (dataset_id v)), (''version'', PStr (version v)),
     (''path'', PStr (path v)), (''sha256'', PStr (dv_sha256 v)), (''byte_count'', PInt (byte_count v)),
     (''key'', PDict (key_as_dict (dv_key v))), (''provenance_path'', opt_str (provenance_path v)),
     (''provenance_sha256'', opt_str (provenance_sha256 v))]"
  let ?d = "sort_key fst (sort_items ?items)"
  have prov: "get_str ?d ''provenance_path'' = provenance_path v"
    "get_str ?d ''provenance_sha256'' = provenance_sha256 v"
    by (rule get_str_opt, simp)+
  have look: "item ?d k = (case map_of ?items k of None \<Rightarrow> Inl (KeyError k) | Some w \<Rightarrow> Inr (sort_json w))" for k
    by (simp only: item_def map_of_sorted_json) (simp split: option.split)
  have "version_from_dict env ?d = Inr v"
    unfolding version_from_dict_def str_item_def look prov
    by (simp add: py_str_def py_int_def key_roundtrip)
  moreover have "sort_json (version_as_dict v) = PDict ?d" by (simp add: version_as_dict_def)
  ultimately show ?thesis by blast
qed

section \<open>Datasets\<close>

definition verified :: "std_env \<Rightarrow> data_service \<Rightarrow> dataset_version \<Rightarrow> bool" where
  "verified env s v \<longleftrightarrow> (\<exists>content. files s (path v) = Some content \<and> sha256 env content = dv_sha256 v)"

text \<open>The file the payload would go to is not there yet, or holds that payload.\<close>

definition destination_free :: "std_env \<Rightarrow> data_service \<Rightarrow> dataset_key \<Rightarrow> string \<Rightarrow> bool" where
  "destination_free env s key payload \<longleftrightarrow>
     files s (dataset_path env key (take 16 (sha256 env payload))) \<in> {None, Some payload}"

lemma paths_differ: "provenance_file env k v \<noteq> dataset_path env k' w"
  by (simp add: provenance_file_def dataset_path_def)

lemma store_loaded_facts:
  assumes "store_loaded env key provenance payload s = (v, t)"
  shows "map_of (read_registry t) (canonical key) = Some (sort_json (version_as_dict v))"
    and "dv_key v = key" and "dv_sha256 v = sha256 env payload" and "byte_count v = int (length payload)"
    and "path v = dataset_path env key (take 16 (sha256 env payload))"
    and "files t (path v) = (case files s (path v) of None \<Rightarrow> Some payload | Some c \<Rightarrow> Some c)"
    and "provenance_path v = map_option (\<lambda>_. provenance_file env key (take 16 (sha256 env payload))) provenance"
    and "provenance_sha256 v = map_option (\<lambda>p. sha256 env (json_dumps env (sort_json p))) provenance"
    and "\<And>p. provenance = Some p \<Longrightarrow> files t (provenance_file env key (take 16 (sha256 env payload))) =
      Some (json_dumps env (sort_json p))"
  using assms
  by (auto simp: store_loaded_def Let_def read_written update_conv store_payload_def paths_differ
      paths_differ [symmetric] split: option.splits)

text \<open>
  C35. A dataset that \<open>acquire\<close> returns is intact: the version it returns names a file of the
  service whose SHA-256 is the version's, whether it came from the registry or from the loader,
  provided the loader's payload does not meet a different file at its own content address; a
  version from the registry leaves the service unchanged.
\<close>

theorem acquired_dataset_is_verified:
  assumes "acquire_dataset env key loader provenance s = (Inr v, t)"
    and "\<And>payload. loader = Inr payload \<Longrightarrow> destination_free env s key payload"
  shows "verified env t v \<and> (t = s \<or> (\<exists>payload. loader = Inr payload \<and> payload \<noteq> [] \<and>
    files t (path v) = Some payload \<and> byte_count v = int (length payload)))"
proof (cases "cached_version env s key provenance")
  case (Inr cached)
  show ?thesis
  proof (cases cached)
    case None
    with Inr assms(1) obtain payload where p: "loader = Inr payload" "payload \<noteq> []"
      "store_loaded env key provenance payload s = (v, t)"
      by (auto simp: acquire_dataset_def split: sum.splits if_splits prod.splits)
    note facts = store_loaded_facts [OF p(3)]
    have "files t (path v) = Some payload"
      using facts(5,6) assms(2) [OF p(1)] by (auto simp: destination_free_def split: option.splits)
    with facts(3,4) p show ?thesis by (auto simp: verified_def)
  next
    case (Some w)
    with Inr assms(1) have "w = v" "t = s" by (auto simp: acquire_dataset_def)
    with Inr Some show ?thesis
      by (auto simp: cached_version_def verified_def split: option.splits pyval.splits sum.splits if_splits)
  qed
qed (use assms(1) in \<open>simp add: acquire_dataset_def\<close>)

definition sample_env :: std_env where
  "sample_env = \<lparr>sha256 = (\<lambda>s. take 64 (s @ replicate 64 CHR ''0'')), json_dumps = (\<lambda>_. ''{}''),
     str_of = (\<lambda>_. []), int_of = (\<lambda>_. Inl (TypeError []))\<rparr>"

definition sample_key :: dataset_key where
  "sample_key = \<lparr>venue = ''binance'', market = ''spot'', symbol = ''BTCUSDT'', timeframe = ''1h'',
     key_start = ''2024'', key_end = ''2025'', schema_version = ''v1''\<rparr>"

definition empty_service :: data_service where
  "empty_service = \<lparr>files = (\<lambda>_. None), registry_file = None\<rparr>"

lemma sample_acquire:
  "\<exists>v t. acquire_dataset sample_env sample_key (Inr ''a'') None empty_service = (Inr v, t)"
  by (simp add: acquire_dataset_def cached_version_def read_registry_def empty_service_def split: prod.split)

lemma acquired_dataset_is_verified_witness:
  "\<exists>v t. acquire_dataset sample_env sample_key (Inr ''a'') None empty_service = (Inr v, t) \<and>
     verified sample_env t v"
proof -
  obtain v t where run: "acquire_dataset sample_env sample_key (Inr ''a'') None empty_service = (Inr v, t)"
    using sample_acquire by blast
  have "destination_free sample_env empty_service sample_key p" for p
    by (simp add: destination_free_def empty_service_def)
  with acquired_dataset_is_verified [OF run] run show ?thesis by blast
qed

text \<open>Paths of parts without a slash.\<close>

definition hex_digests :: "std_env \<Rightarrow> bool" where
  "hex_digests env \<longleftrightarrow> (\<forall>s. sha256 env s \<noteq> [] \<and> CHR ''/'' \<notin> set (sha256 env s) \<and> CHR ''.'' \<notin> set (sha256 env s))"

lemma provenance_parts:
  assumes "hex_digests env"
  shows "''..'' \<notin> set (str_split CHR ''/'' (provenance_file env key (take 16 (sha256 env payload))))"
proof -
  let ?id = "dataset_id_of env key" and ?v = "take 16 (sha256 env payload)"
  have id: "CHR ''/'' \<notin> set ?id" "CHR ''.'' \<notin> set ?id" and v: "CHR ''/'' \<notin> set ?v"
    using assms by (auto simp: hex_digests_def dataset_id_of_def dest: in_set_takeD)
  have parts: "str_split CHR ''/'' (?id @ ''/'' @ ?v @ ''.json'') = [?id, ?v @ ''.json'']"
    using id v by (simp add: str_split_join str_split_plain)
  have split: "str_split CHR ''/'' (provenance_file env key ?v) = [''provenance'', ?id, ?v @ ''.json'']"
    using str_split_join [of "CHR ''/''" "''provenance''" "?id @ ''/'' @ ?v @ ''.json''"] parts
    by (simp add: provenance_file_def)
  have "?id \<noteq> ''..''" using id(2) by auto
  moreover have "?v @ ''.json'' \<noteq> ''..''" by (cases ?v) auto
  ultimately show ?thesis unfolding split by auto
qed

text \<open>
  A dataset is loaded once: after a version has been loaded and stored, acquiring the same
  key again returns that version, whatever the loader would now do, and changes nothing; with
  or without provenance (SHA-256 digests being hexadecimal).
\<close>

theorem acquire_is_cached:
  assumes "hex_digests env" and "destination_free env s key payload"
    and "store_loaded env key provenance payload s = (v, t)"
  shows "acquire_dataset env key loader provenance t = (Inr v, t)"
proof -
  note facts = store_loaded_facts [OF assms(3)]
  obtain d where d: "sort_json (version_as_dict v) = PDict d" "version_from_dict env d = Inr v"
    using version_roundtrip by blast
  have stored: "files t (path v) = Some payload"
    using facts(5,6) assms(2) by (auto simp: destination_free_def split: option.splits)
  have prov: "provenance = None \<or> provenance_valid env t v"
  proof (cases provenance)
    case (Some p)
    have "sha256 env (json_dumps env (sort_json p)) \<noteq> []" using assms(1) by (simp add: hex_digests_def)
    moreover have "provenance_file env key (take 16 (sha256 env payload)) \<noteq> []"
      "\<not> str_startswith (provenance_file env key (take 16 (sha256 env payload))) ''/''"
      by (simp_all add: provenance_file_def str_startswith_def)
    ultimately show ?thesis
      using facts(7-9) Some provenance_parts [OF assms(1), of key payload]
      by (simp add: provenance_valid_def)
  qed simp
  have "cached_version env t key provenance = Inr (Some v)"
    using d facts(1,3) stored prov by (auto simp: cached_version_def)
  then show ?thesis by (simp add: acquire_dataset_def)
qed

definition digit_env :: std_env where
  "digit_env = sample_env\<lparr>sha256 := (\<lambda>s. ''d'' @ map (\<lambda>_. CHR ''0'') s)\<rparr>"

lemma acquire_is_cached_witness:
  "\<exists>v t. acquire_dataset digit_env sample_key (Inl (ValueError [])) (Some PNone) t = (Inr v, t)"
proof -
  have "hex_digests digit_env" by (auto simp: hex_digests_def digit_env_def)
  moreover have "destination_free digit_env empty_service sample_key ''a''"
    by (simp add: destination_free_def empty_service_def)
  moreover obtain v t where "store_loaded digit_env sample_key (Some PNone) ''a'' empty_service = (v, t)" by force
  ultimately show ?thesis using acquire_is_cached by blast
qed

text \<open>
  A damaged dataset is not repaired. When the file at the payload's content address exists
  with other bytes, loading the same payload again leaves that file as it is and returns a
  version whose recorded SHA-256 is the payload's, so that the version fails its own check.
\<close>

theorem damaged_dataset_is_not_repaired:
  assumes "cached_version env s key provenance = Inr None" and "payload \<noteq> []"
    and "files s (dataset_path env key (take 16 (sha256 env payload))) = Some damaged"
    and "sha256 env damaged \<noteq> sha256 env payload"
  shows "\<exists>v t. acquire_dataset env key (Inr payload) provenance s = (Inr v, t) \<and>
    dv_sha256 v = sha256 env payload \<and> files t (path v) = Some damaged \<and> \<not> verified env t v"
proof -
  obtain v t where run: "store_loaded env key provenance payload s = (v, t)" by force
  note facts = store_loaded_facts [OF run]
  have "files t (path v) = Some damaged" using facts(5,6) assms(3) by simp
  with facts(3) assms(1,2,4) run show ?thesis
    by (auto simp: acquire_dataset_def verified_def)
qed

definition damaged_service :: data_service where
  "damaged_service = \<lparr>files = [dataset_path digit_env sample_key (take 16 (sha256 digit_env ''ab'')) \<mapsto> ''x''],
     registry_file = None\<rparr>"

lemma damaged_dataset_is_not_repaired_witness:
  "\<exists>v t. acquire_dataset digit_env sample_key (Inr ''ab'') None damaged_service = (Inr v, t) \<and>
     \<not> verified digit_env t v"
proof -
  have "cached_version digit_env damaged_service sample_key None = Inr None"
    by (simp add: cached_version_def read_registry_def damaged_service_def)
  moreover have "files damaged_service (dataset_path digit_env sample_key (take 16 (sha256 digit_env ''ab''))) = Some ''x''"
    by (simp add: damaged_service_def)
  moreover have "sha256 digit_env ''x'' \<noteq> sha256 digit_env ''ab''" by (simp add: digit_env_def)
  ultimately show ?thesis using damaged_dataset_is_not_repaired [of digit_env damaged_service sample_key None "''ab''"]
    by blast
qed

section \<open>The artifact registry\<close>

lemma sort_elements_map: "sort_elements (map f xs) = map (sort_json \<circ> f) xs"
  by (induction xs) auto

lemma dicts_of_dicts: "dicts_of (map (\<lambda>x. PDict (f x)) xs) = map f xs"
  by (induction xs) (auto simp: dicts_of_def map_filter_simps)

lemma index_records_keys:
  "index_records ds acc = Inr ixd \<Longrightarrow>
     distinct (map fst acc) \<and> (\<forall>(k, d) \<in> set acc. \<exists>v. map_of d ''work_order'' = Some v \<and> dict_key v = Inr k) \<Longrightarrow>
     distinct (map fst ixd) \<and> (\<forall>(k, d) \<in> set ixd. \<exists>v. map_of d ''work_order'' = Some v \<and> dict_key v = Inr k)"
proof (induction ds arbitrary: acc)
  case (Cons d ds)
  then obtain v k where v: "map_of d ''work_order'' = Some v" "dict_key v = Inr k"
    "index_records ds (AList.update k d acc) = Inr ixd"
    by (auto simp: item_def split: sum.splits option.splits)
  have "distinct (map fst (AList.update k d acc)) \<and>
      (\<forall>(k, d) \<in> set (AList.update k d acc). \<exists>v. map_of d ''work_order'' = Some v \<and> dict_key v = Inr k)"
    using Cons.prems(2) v by (auto simp: alist_distinct_update alist_set_update)
  from Cons.IH [OF v(3) this] show ?case .
qed simp

lemma dict_key_string: "dict_key v = Inr k \<Longrightarrow> sort_json v = PStr w \<Longrightarrow> k = PStr w"
  by (cases v) (auto simp: dict_key_def)

text \<open>
  One record for each work order: after an upsert that returns, the registry's file holds
  exactly one record of that work order, the one just written (keys sorted as the encoder
  writes them).
\<close>

theorem upsert_keeps_one_record:
  assumes "upsert_record r f = (Inr (), g)"
  shows "filter (\<lambda>d. map_of d ''work_order'' = Some (PStr (work_order r))) (list_records g) =
    [sort_key fst (sort_items (artifact_as_dict r))]"
proof -
  from assms obtain ixd where ixd: "index_records (list_records f) [] = Inr ixd"
    and g: "g = Some (Json (sort_json (PList (map (PDict \<circ> snd)
      (AList.update (PStr (work_order r)) (artifact_as_dict r) ixd)))))"
    by (auto simp: upsert_record_def split: sum.splits)
  let ?w = "PStr (work_order r)" and ?new = "artifact_as_dict r"
  let ?al = "AList.update ?w ?new ixd"
  let ?sorted = "\<lambda>d. sort_key fst (sort_items d)"
  have inv: "distinct (map fst ixd)"
    "\<forall>(k, d) \<in> set ixd. \<exists>v. map_of d ''work_order'' = Some v \<and> dict_key v = Inr k"
    using index_records_keys [OF ixd] by auto
  have recs: "list_records g = map (\<lambda>p. ?sorted (snd p)) ?al"
    by (simp add: g list_records_def sort_elements_map comp_def dicts_of_dicts)
  have is_own: "map_of (?sorted (snd p)) ''work_order'' = Some ?w \<longleftrightarrow> fst p = ?w" if "p \<in> set ?al" for p
  proof (cases "fst p = ?w")
    case True
    with that inv(1) have "snd p = ?new" by (auto simp: alist_set_update)
    with True show ?thesis by (simp only: map_of_sorted_json) (simp add: artifact_as_dict_def)
  next
    case False
    with that inv(1) have "p \<in> set ixd" by (auto simp: alist_set_update)
    with inv(2) obtain v where "map_of (snd p) ''work_order'' = Some v" "dict_key v = Inr (fst p)" by force
    with False dict_key_string [of v "fst p" "work_order r"] show ?thesis
      by (simp only: map_of_sorted_json) auto
  qed
  have "filter (\<lambda>p. fst p = ?w) ?al = [(?w, ?new)]"
  proof -
    have one: "distinct (map fst al) \<Longrightarrow> (k, v) \<in> set al \<Longrightarrow> filter (\<lambda>p. fst p = k) al = [(k, v)]" for al k and v :: 'c
      by (induction al) (auto simp: filter_empty_conv image_iff)
    show ?thesis by (rule one) (use inv(1) in \<open>simp_all add: alist_distinct_update alist_set_update\<close>)
  qed
  then have "filter (\<lambda>p. map_of (?sorted (snd p)) ''work_order'' = Some ?w) ?al = [(?w, ?new)]"
    using is_own by (simp cong: filter_cong)
  then show ?thesis unfolding recs by (simp add: filter_map comp_def)
qed

definition sample_artifact :: artifact_record where
  "sample_artifact = \<lparr>work_order = ''w1'', artifact_kind = ''strategy'', spec_sha256 = None,
     code_revision = ''r'', dataset_sha256 = None, tests = [], reports = [], recorded_at = ''t'',
     artifact_id = None, artifact_version = None, manifest_sha256 = None\<rparr>"

lemma upsert_keeps_one_record_witness:
  "\<exists>g. upsert_record sample_artifact (Some (Json (PList [PDict [(''work_order'', PStr ''w1'')], PNone]))) = (Inr (), g) \<and>
     length (filter (\<lambda>d. map_of d ''work_order'' = Some (PStr ''w1'')) (list_records g)) = 1"
proof -
  obtain g where g: "upsert_record sample_artifact (Some (Json (PList [PDict [(''work_order'', PStr ''w1'')], PNone]))) = (Inr (), g)"
    by (simp add: upsert_record_def list_records_def dicts_of_def map_filter_simps item_def dict_key_def)
  from upsert_keeps_one_record [OF g] g show ?thesis by (auto simp: sample_artifact_def)
qed

section \<open>The circuit breaker\<close>

text \<open>
  The shared circuit: once opened at an aware time it reports open at every moment before
  the time it returned, without changing; at that time or later the first question closes it
  and clears its reason. The clock is refused when it is naive, and the breaker is unchanged.
\<close>

theorem circuit_opens_until:
  assumes "open_circuit m retry_at (Aware now) b = (Inr u, b1)"
  shows "(t < u \<longrightarrow> is_open (Aware t) b1 = (Inr True, b1)) \<and>
    (u \<le> t \<longrightarrow> is_open (Aware t) b1 = (Inr False, close_circuit b)) \<and>
    (retry_at = None \<longrightarrow> u = dt_add now (seconds (default_cooldown_seconds b))) \<and>
    is_open (Naive n) b1 = (Inl (ValueError ''circuit-breaker clock must be timezone-aware''), b1)"
  using assms by (auto simp: open_circuit_def is_open_def circuit_now_def Let_def close_circuit_def)

lemma circuit_opens_until_witness:
  "\<exists>u b1. open_circuit ''quota'' None (Aware (Datetime 0)) new_circuit_breaker = (Inr u, b1) \<and>
     is_open (Aware (Datetime 5)) b1 = (Inr True, b1)"
proof -
  obtain u b1 where run: "open_circuit ''quota'' None (Aware (Datetime 0)) new_circuit_breaker = (Inr u, b1)"
    by (simp add: open_circuit_def circuit_now_def Let_def)
  have "Datetime 5 < u"
    using run by (auto simp: open_circuit_def circuit_now_def Let_def new_circuit_breaker_def dt_add_def
        seconds_def datetime_order)
  with circuit_opens_until [OF run, of "Datetime 5"] run show ?thesis by blast
qed

section \<open>Unique strings\<close>

lemma unique_from_spec:
  "distinct (unique_from seen vs) \<and> set (unique_from seen vs) = {v \<in> set vs. \<not> blank v} - set seen"
  by (induction vs arbitrary: seen) auto

end
