(* ===== verification/Supervisor.thy ===== *)
theory Supervisor
  imports Market_Invariant "HOL-Library.Log_Nat"
begin

text \<open>
  src/src/quant_signal_agent/state/supervisor.py: \<open>MarketDataSupervisor\<close>, which warms the
  market state up over the venues' REST calls, feeds it the events of their streams, and
  recovers from gaps, stale backlogs and disconnects.

  The adapters, the event handler, the clocks and the random jitter are parameters, the
  record \<open>env\<close>: its n-th answer may depend on n, the number of the await or clock reading.
  At every await other tasks may run: \<open>meanwhile env n\<close> is what they do to the shared
  object at await n. An \<open>asyncio.gather\<close> of awaits is a sequence of them. A stream is the
  list of the events it yields with its end. Log output is not modelled, its counters are.
\<close>

section \<open>State\<close>

datatype stream_lanes = NO_LANES | INCOMPLETE_LANES | ALL_LANES

text \<open>An adapter, as far as the supervisor asks for its attributes; \<open>adapter_id\<close> is its identity.\<close>

record adapter =
  adapter_id :: nat
  adapter_name :: string
  supported_intervals :: "string list option"
  stream_intervals :: "string list option"
  bootstraps_from_stream :: bool
  has_realtime_context :: bool
  instrument_for_symbol :: "(string \<Rightarrow> exn + instrument) option"
  stream_lanes :: stream_lanes

record supervisor_stats =
  events_received :: nat
  events_applied :: nat
  events_ignored :: nat
  candle_gaps :: nat
  candle_backfills :: nat
  candles_backfilled :: nat
  order_book_gaps :: nat
  order_book_resyncs :: nat
  consumer_restarts :: nat
  stream_recoveries :: nat
  events_rejected_source_age :: nat
  events_rejected_future_skew :: nat
  rejection_logs_suppressed :: nat
  supplemental_warmup_failures :: nat
  supplemental_failure_logs_suppressed :: nat
  stale_stream_recycles :: nat
  order_book_only_recoveries :: nat
  short_disconnect_recoveries :: nat
  full_recoveries :: nat
  stream_queue_depth :: nat
  maximum_stream_queue_depth :: nat
  events_per_second :: rat
  event_loop_lag_seconds :: rat
  maximum_event_loop_lag_seconds :: rat
  health_reports :: nat
  stream_queue_depth_p99 :: int
  event_loop_lag_p99_seconds :: rat
  candidate_reconciles :: nat
  candidate_instruments_warmed :: nat
  candidate_reconcile_failures :: nat
  candidate_baseline_refreshes :: nat

definition new_stats :: supervisor_stats where
  "new_stats = \<lparr>events_received = 0, events_applied = 0, events_ignored = 0, candle_gaps = 0,
     candle_backfills = 0, candles_backfilled = 0, order_book_gaps = 0, order_book_resyncs = 0,
     consumer_restarts = 0, stream_recoveries = 0, events_rejected_source_age = 0,
     events_rejected_future_skew = 0, rejection_logs_suppressed = 0,
     supplemental_warmup_failures = 0, supplemental_failure_logs_suppressed = 0,
     stale_stream_recycles = 0, order_book_only_recoveries = 0, short_disconnect_recoveries = 0,
     full_recoveries = 0, stream_queue_depth = 0, maximum_stream_queue_depth = 0,
     events_per_second = 0, event_loop_lag_seconds = 0, maximum_event_loop_lag_seconds = 0,
     health_reports = 0, stream_queue_depth_p99 = 0, event_loop_lag_p99_seconds = 0,
     candidate_reconciles = 0, candidate_instruments_warmed = 0,
     candidate_reconcile_failures = 0, candidate_baseline_refreshes = 0\<rparr>"

datatype scope = CORE | CANDIDATE

record supervisor_settings =
  set_candle_intervals :: "string list"
  set_candle_warmup_size :: int
  set_order_book_depth :: int
  set_recent_trade_warmup_size :: int
  set_reconnect_base_seconds :: rat
  set_reconnect_max_seconds :: rat
  set_reconnect_stable_seconds :: rat
  set_reconnect_jitter_ratio :: rat
  set_full_recovery_after_seconds :: rat
  set_recovery_stagger_seconds :: rat
  set_stale_stream_recycle_threshold :: int
  set_health_report_seconds :: rat
  set_event_loop_probe_seconds :: rat
  set_event_loop_lag_warning_seconds :: rat
  set_ingestion_policy :: ingestion_policy
  set_allow_empty_adapters :: bool
  set_scope :: string

text \<open>\<open>_rejection_counts\<close> is keyed by exchange, symbol, event type and reason.\<close>

type_synonym rejection_key = "exchange \<times> string \<times> string \<times> ingestion_rejection"

record supervisor =
  settings :: supervisor_settings
  adapters :: "adapter list"
  market :: market_state
  intervals_by_adapter :: "nat \<Rightarrow> string list option"
  instruments_by_adapter :: "(nat \<times> instrument list) list"
  adapter_by_instrument :: "instrument \<Rightarrow> adapter option"
  initialized :: bool
  sv_closed :: bool
  stats :: supervisor_stats
  rejection_counts :: "rejection_key \<Rightarrow> nat option"
  stale_counts :: "instrument \<times> string \<Rightarrow> nat option"
  supplemental_failure_counts :: "string \<times> string \<Rightarrow> nat option"
  pending_resyncs :: "instrument set"
  pending_gap_recoveries :: "instrument set"
  queue_depths :: "(nat \<times> nat) list"
  queue_depth_samples :: "nat list"
  lag_samples :: "rat list"
  candidate_symbols :: "string list"
  recovery_offsets :: "nat \<Rightarrow> rat option"
  awaits :: nat

text \<open>
  What the supervisor's methods raise: \<open>_OrderBookStreamGap\<close> carries its instrument, and
  \<open>_StaleStreamBacklog\<close> the number of events; both are \<open>RuntimeError\<close>s of their own class.
\<close>

datatype failure = Raised exn | StreamGap instrument | StaleBacklog int

record env =
  net_instruments :: "nat \<Rightarrow> adapter \<Rightarrow> exn + instrument list"
  net_ticker :: "nat \<Rightarrow> adapter \<Rightarrow> instrument \<Rightarrow> exn + ticker"
  net_snapshot :: "nat \<Rightarrow> adapter \<Rightarrow> instrument \<Rightarrow> int \<Rightarrow> exn + order_book_snapshot"
  net_trades :: "nat \<Rightarrow> adapter \<Rightarrow> instrument \<Rightarrow> int \<Rightarrow> exn + trade list"
  net_candles :: "nat \<Rightarrow> adapter \<Rightarrow> instrument \<Rightarrow> string \<Rightarrow> int \<Rightarrow> exn + candle list"
  net_funding :: "nat \<Rightarrow> adapter \<Rightarrow> instrument \<Rightarrow> exn + funding_rate option"
  net_open_interest :: "nat \<Rightarrow> adapter \<Rightarrow> instrument \<Rightarrow> exn + open_interest option"
  net_reconcile :: "nat \<Rightarrow> adapter \<Rightarrow> instrument list \<Rightarrow> exn + unit"
  net_close :: "nat \<Rightarrow> adapter \<Rightarrow> exn + unit"
  event_handler :: "(nat \<Rightarrow> market_event \<Rightarrow> exn + unit) option"
  loop_clock :: "nat \<Rightarrow> rat"
  utc_clock :: "nat \<Rightarrow> datetime"
  random_uniform :: "nat \<Rightarrow> rat \<Rightarrow> rat"
  queue_size :: "nat \<Rightarrow> nat"
  meanwhile :: "nat \<Rightarrow> supervisor \<Rightarrow> supervisor"

type_synonym 'a task = "(supervisor, failure, 'a) routine"

section \<open>Construction\<close>

text \<open>\<open>__init__\<close>; the settings of integer type are integers, and the floats exact rationals.\<close>

definition check_settings :: "adapter list \<Rightarrow> supervisor_settings \<Rightarrow> exn + unit" where
  "check_settings adpts c =
     (if adpts = [] then Inl (ValueError ''At least one market-data adapter is required'')
      else if \<not> (1 \<le> set_candle_warmup_size c \<and> set_candle_warmup_size c \<le> 1000)
      then Inl (ValueError ''Candle warm-up size must be between 1 and 1000'')
      else if Min {set_reconnect_base_seconds c, set_reconnect_max_seconds c,
          set_reconnect_stable_seconds c, set_full_recovery_after_seconds c,
          set_health_report_seconds c, set_event_loop_probe_seconds c,
          set_event_loop_lag_warning_seconds c} \<le> 0
      then Inl (ValueError ''Reconnect timing settings must be positive'')
      else if set_reconnect_max_seconds c < set_reconnect_base_seconds c
      then Inl (ValueError ''Reconnect base delay cannot exceed its maximum'')
      else if \<not> (0 \<le> set_reconnect_jitter_ratio c \<and> set_reconnect_jitter_ratio c \<le> 1)
      then Inl (ValueError ''Reconnect jitter ratio must be between 0 and 1'')
      else if set_recovery_stagger_seconds c < 0
      then Inl (ValueError ''Recovery stagger cannot be negative'')
      else if set_health_report_seconds c < set_event_loop_probe_seconds c
      then Inl (ValueError ''Event-loop probe interval cannot exceed health report interval'')
      else if set_stale_stream_recycle_threshold c < 10
      then Inl (ValueError ''Stale stream recycle threshold must be at least 10'')
      else if set_scope c \<noteq> ''core'' \<and> set_scope c \<noteq> ''candidate''
      then Inl (ValueError ''Supervisor scope must be core or candidate'')
      else Inr ())"

text \<open>\<open>{adapter: index * recovery_stagger_seconds \<dots>}\<close>\<close>

definition offsets_of :: "adapter list \<Rightarrow> rat \<Rightarrow> nat \<Rightarrow> rat option" where
  "offsets_of adpts stagger =
     map_of (rev (map (\<lambda>(i, a). (adapter_id a, of_nat i * stagger)) (enumerate 0 adpts)))"

definition new_supervisor ::
  "adapter list \<Rightarrow> market_state \<Rightarrow> supervisor_settings \<Rightarrow> exn + supervisor"
where
  "new_supervisor adpts m c = (case check_settings adpts c of
       Inl e \<Rightarrow> Inl e
     | Inr _ \<Rightarrow> Inr \<lparr>settings = c, adapters = adpts, market = m,
         intervals_by_adapter = (\<lambda>_. None), instruments_by_adapter = [],
         adapter_by_instrument = (\<lambda>_. None), initialized = False, sv_closed = False,
         stats = new_stats, rejection_counts = (\<lambda>_. None), stale_counts = (\<lambda>_. None),
         supplemental_failure_counts = (\<lambda>_. None), pending_resyncs = {},
         pending_gap_recoveries = {}, queue_depths = [], queue_depth_samples = [],
         lag_samples = [], candidate_symbols = [],
         recovery_offsets = offsets_of adpts (set_recovery_stagger_seconds c), awaits = 0\<rparr>)"

section \<open>Awaits, clocks and the market state\<close>

text \<open>An await: the n-th answer, which may be an exception, after the other tasks ran.\<close>

definition await :: "env \<Rightarrow> (nat \<Rightarrow> exn + 'a) \<Rightarrow> 'a task" where
  "await env answer = (\<lambda>s. let n = awaits s; s' = meanwhile env n (s\<lparr>awaits := Suc n\<rparr>) in
     (case answer n of Inl e \<Rightarrow> (Inl (Raised e), s') | Inr a \<Rightarrow> (Inr a, s')))"

definition read_clock_at :: "(nat \<Rightarrow> 'a) \<Rightarrow> 'a task" where
  "read_clock_at f = (\<lambda>s. (Inr (f (awaits s)), s\<lparr>awaits := Suc (awaits s)\<rparr>))"

definition sleep_for :: "env \<Rightarrow> rat \<Rightarrow> unit task" where
  "sleep_for env d = await env (\<lambda>_. Inr ())"

definition on_market :: "(market_state, 'a) eff \<Rightarrow> 'a task" where
  "on_market m = (\<lambda>s. case m (market s) of
       (Inl e, ms) \<Rightarrow> (Inl (Raised e), s\<lparr>market := ms\<rparr>)
     | (Inr a, ms) \<Rightarrow> (Inr a, s\<lparr>market := ms\<rparr>))"

definition count_stat :: "(supervisor_stats \<Rightarrow> supervisor_stats) \<Rightarrow> unit task" where
  "count_stat f = modifyE (\<lambda>s. s\<lparr>stats := f (stats s)\<rparr>)"

definition call_handler :: "env \<Rightarrow> market_event \<Rightarrow> unit task" where
  "call_handler env e = (case event_handler env of
       None \<Rightarrow> ret ()
     | Some h \<Rightarrow> await env (\<lambda>n. h n e))"

text \<open>\<open>self._intervals_by_adapter[adapter]\<close> and \<open>self._adapter_by_instrument[instrument]\<close>\<close>

definition adapter_intervals :: "adapter \<Rightarrow> string list task" where
  "adapter_intervals a = bindE (getE (\<lambda>s. intervals_by_adapter s (adapter_id a))) (\<lambda>x.
     case x of None \<Rightarrow> raise (Raised (KeyError (adapter_name a))) | Some is \<Rightarrow> ret is)"

definition adapter_of :: "instrument \<Rightarrow> adapter task" where
  "adapter_of ins = bindE (getE (\<lambda>s. adapter_by_instrument s ins)) (\<lambda>x.
     case x of None \<Rightarrow> raise (Raised (KeyError (exchange_symbol ins))) | Some a \<Rightarrow> ret a)"

text \<open>\<open>self._instruments_by_adapter.get(adapter, ())\<close>\<close>

definition instruments_for :: "supervisor \<Rightarrow> adapter \<Rightarrow> instrument list" where
  "instruments_for s a = (case map_of (instruments_by_adapter s) (adapter_id a) of
       None \<Rightarrow> [] | Some is \<Rightarrow> is)"

section \<open>Warm-up\<close>

definition apply_book_snapshot :: "adapter \<Rightarrow> order_book_snapshot \<Rightarrow> bool task" where
  "apply_book_snapshot a snap = on_market (market_apply_snapshot snap (bootstraps_from_stream a))"

definition logged_count :: "nat \<Rightarrow> bool" where
  "logged_count n \<longleftrightarrow> n \<in> {1, 10, 100} \<or> n mod 1000 = 0"

text \<open>\<open>asyncio.CancelledError\<close> is not an \<open>Exception\<close>: it always passes on.\<close>

definition optional_warmup_result :: "adapter \<Rightarrow> string \<Rightarrow> exn + 'a option \<Rightarrow> 'a option task" where
  "optional_warmup_result a kind result = (case result of
       Inr r \<Rightarrow> ret r
     | Inl e \<Rightarrow>
        if e = CancelledError then raise (Raised CancelledError)
        else
          thenE (count_stat (\<lambda>c. c\<lparr>supplemental_warmup_failures := supplemental_warmup_failures c + 1\<rparr>))
         (bindE (getE (\<lambda>s. case supplemental_failure_counts s (adapter_name a, kind) of
                  None \<Rightarrow> 1 | Some n \<Rightarrow> n + 1)) (\<lambda>count.
          thenE (modifyE (\<lambda>s. s\<lparr>supplemental_failure_counts :=
                   (supplemental_failure_counts s)((adapter_name a, kind) \<mapsto> count)\<rparr>))
         (thenE (if logged_count count then ret ()
                 else count_stat (\<lambda>c. c\<lparr>supplemental_failure_logs_suppressed :=
                   supplemental_failure_logs_suppressed c + 1\<rparr>))
          (ret None)))))"

text \<open>\<open>key=lambda trade: (exchange_timestamp, trade_id)\<close>\<close>

definition trade_order :: "trade \<Rightarrow> datetime \<times> string" where
  "trade_order t = (exchange_timestamp (tr_metadata t), trade_id t)"

definition warm_candles :: "env \<Rightarrow> adapter \<Rightarrow> instrument \<Rightarrow> string list \<Rightarrow> (string \<times> candle list) list task" where
  "warm_candles env a ins is = bindE (getE (\<lambda>s. set_candle_warmup_size (settings s))) (\<lambda>size.
     bindE (collectE (\<lambda>i. bindE (await env (\<lambda>n. net_candles env n a ins i size)) (\<lambda>cs. ret (i, cs))) is)
       (\<lambda>rows. ret (fold (\<lambda>(i, cs) d. AList.update i cs d) rows [])))"

definition apply_interval_rows :: "string list \<Rightarrow> (string \<times> candle list) list \<Rightarrow> unit task" where
  "apply_interval_rows is rows = mapE (\<lambda>i. case map_of rows i of
       None \<Rightarrow> raise (Raised (KeyError i))
     | Some cs \<Rightarrow> on_market (apply_many (map CandleEvent cs))) is"

definition apply_if_some :: "('a \<Rightarrow> market_event) \<Rightarrow> 'a option \<Rightarrow> unit task" where
  "apply_if_some ev x = (case x of
       None \<Rightarrow> ret () | Some y \<Rightarrow> bindE (on_market (apply_event (ev y))) (\<lambda>_. ret ()))"

definition warm_instrument :: "env \<Rightarrow> adapter \<Rightarrow> instrument \<Rightarrow> order_book_snapshot task" where
  "warm_instrument env a ins =
     bindE (getE settings) (\<lambda>c.
     bindE (await env (\<lambda>n. net_ticker env n a ins)) (\<lambda>tick.
     bindE (await env (\<lambda>n. net_snapshot env n a ins (set_order_book_depth c))) (\<lambda>book.
     bindE (await env (\<lambda>n. net_trades env n a ins (set_recent_trade_warmup_size c))) (\<lambda>ts.
     bindE (adapter_intervals a) (\<lambda>is.
     bindE (warm_candles env a ins is) (\<lambda>rows.
     bindE (await env (\<lambda>n. Inr (net_funding env n a ins))) (\<lambda>funding.
     bindE (await env (\<lambda>n. Inr (net_open_interest env n a ins))) (\<lambda>interest.
     bindE (optional_warmup_result a ''funding'' funding) (\<lambda>fr.
     bindE (optional_warmup_result a ''open_interest'' interest) (\<lambda>oi.
     thenE (apply_if_some TickerEvent (Some tick))
    (thenE (apply_if_some FundingEvent fr)
    (thenE (apply_if_some OpenInterestEvent oi)
    (bindE (apply_book_snapshot a book) (\<lambda>_.
     thenE (on_market (apply_many (map TradeEvent (sort_key trade_order ts))))
    (thenE (apply_interval_rows is rows) (ret book))))))))))))))))"

definition warm_adapter :: "env \<Rightarrow> adapter \<Rightarrow> instrument list \<Rightarrow> (instrument \<times> order_book_snapshot) list task" where
  "warm_adapter env a inss =
     bindE (collectE (\<lambda>ins. bindE (warm_instrument env a ins) (\<lambda>b. ret (ins, b))) inss)
       (\<lambda>rows. ret (fold (\<lambda>(ins, b) d. AList.update ins b d) rows []))"

text \<open>One adapter's part of the registration loop of \<open>initialize\<close>.\<close>

definition register_adapter :: "adapter \<Rightarrow> instrument list \<Rightarrow> unit task" where
  "register_adapter a found =
     bindE (getE settings) (\<lambda>c.
     let supported = (case supported_intervals a of
           None \<Rightarrow> set_candle_intervals c | Some is \<Rightarrow> is);
         is = filter (\<lambda>i. i \<in> set supported) (set_candle_intervals c)
     in if is = []
        then raise (Raised (RuntimeError (''Adapter '' @ adapter_name a @
               '' supports no configured candle interval'')))
        else
          thenE (modifyE (\<lambda>s. s\<lparr>intervals_by_adapter := (intervals_by_adapter s)(adapter_id a \<mapsto> is)\<rparr>))
          (if found = [] then
             (if set_allow_empty_adapters c
              then modifyE (\<lambda>s. s\<lparr>instruments_by_adapter :=
                     AList.update (adapter_id a) [] (instruments_by_adapter s)\<rparr>)
              else raise (Raised (RuntimeError (''Adapter '' @ adapter_name a @ '' found no instruments''))))
           else
             thenE (modifyE (\<lambda>s. s\<lparr>instruments_by_adapter :=
                      AList.update (adapter_id a) found (instruments_by_adapter s)\<rparr>))
            (thenE (mapE (\<lambda>ins. bindE (getE (\<lambda>s. adapter_by_instrument s ins)) (\<lambda>x.
                if x \<noteq> None
                then raise (Raised (RuntimeError (''Duplicate instrument registration: '' @ exchange_symbol ins)))
                else modifyE (\<lambda>s. s\<lparr>adapter_by_instrument := (adapter_by_instrument s)(ins \<mapsto> a)\<rparr>))) found)
              (on_market (modifyE (register_instruments found))))))"

text \<open>The adapter object of an identity, to iterate over the keys of a dict of adapters.\<close>

definition adapter_with :: "supervisor \<Rightarrow> nat \<Rightarrow> adapter option" where
  "adapter_with s i = find (\<lambda>a. adapter_id a = i) (adapters s)"

definition warm_all :: "env \<Rightarrow> unit task" where
  "warm_all env = bindE (getE (\<lambda>s. List.map_filter
       (\<lambda>(i, inss). map_option (\<lambda>a. (a, inss)) (adapter_with s i)) (instruments_by_adapter s))) (\<lambda>rows.
     mapE (\<lambda>(a, inss). bindE (warm_adapter env a inss) (\<lambda>_. ret ())) rows)"

definition initialize :: "env \<Rightarrow> unit task" where
  "initialize env = bindE (getE (\<lambda>s. (initialized s, adapters s))) (\<lambda>(done_already, adpts).
     if done_already then ret ()
     else bindE (collectE (\<lambda>a. bindE (await env (\<lambda>n. net_instruments env n a)) (\<lambda>found. ret (a, found))) adpts)
      (\<lambda>discovered.
       thenE (mapE (\<lambda>(a, found). register_adapter a found) discovered)
      (thenE (warm_all env)
             (modifyE (\<lambda>s. s\<lparr>initialized := True\<rparr>)))))"

section \<open>One event\<close>

text \<open>\<open>type(event).__name__\<close>\<close>

fun event_type :: "market_event \<Rightarrow> string" where
  "event_type (TickerEvent e) = ''Ticker''"
| "event_type (CandleEvent e) = ''Candle''"
| "event_type (TradeEvent e) = ''Trade''"
| "event_type (SnapshotEvent e) = ''OrderBookSnapshot''"
| "event_type (DeltaEvent e) = ''OrderBookDelta''"
| "event_type (FundingEvent e) = ''FundingRate''"
| "event_type (OpenInterestEvent e) = ''OpenInterest''"

fun is_delta :: "market_event \<Rightarrow> bool" where
  "is_delta (DeltaEvent d) = True"
| "is_delta _ = False"

fun is_trade :: "market_event \<Rightarrow> bool" where
  "is_trade (TradeEvent t) = True"
| "is_trade _ = False"

definition stale_key :: "market_event \<Rightarrow> instrument \<times> string" where
  "stale_key e = (event_instrument e, event_type e)"

text \<open>The consecutive stale events of one instrument and type, and the recycle they cause.\<close>

definition count_stale :: "market_event \<Rightarrow> unit task" where
  "count_stale e =
     bindE (getE (\<lambda>s. (case stale_counts s (stale_key e) of None \<Rightarrow> 1 | Some n \<Rightarrow> n + 1,
              set_stale_stream_recycle_threshold (settings s)))) (\<lambda>(count, limit).
     thenE (modifyE (\<lambda>s. s\<lparr>stale_counts := (stale_counts s)(stale_key e \<mapsto> count)\<rparr>))
     (if limit \<le> int count then
        thenE (modifyE (\<lambda>s. s\<lparr>stale_counts := (stale_counts s)(stale_key e \<mapsto> 0)\<rparr>))
       (thenE (count_stat (\<lambda>c. c\<lparr>stale_stream_recycles := stale_stream_recycles c + 1\<rparr>))
              (raise (StaleBacklog limit)))
      else ret ()))"

definition reject_event :: "market_event \<Rightarrow> ingestion_rejection \<Rightarrow> bool \<Rightarrow> unit task" where
  "reject_event e reason recycle =
     thenE (count_stat (\<lambda>c. if reason = SOURCE_TOO_OLD
         then c\<lparr>events_rejected_source_age := events_rejected_source_age c + 1\<rparr>
         else c\<lparr>events_rejected_future_skew := events_rejected_future_skew c + 1\<rparr>))
    (let ins = event_instrument e; key = (exchange ins, canonical_symbol ins, event_type e, reason) in
     bindE (getE (\<lambda>s. case rejection_counts s key of None \<Rightarrow> 1 | Some n \<Rightarrow> n + 1)) (\<lambda>count.
     thenE (modifyE (\<lambda>s. s\<lparr>rejection_counts := (rejection_counts s)(key \<mapsto> count)\<rparr>))
    (thenE (if logged_count count then ret ()
            else count_stat (\<lambda>c. c\<lparr>rejection_logs_suppressed := rejection_logs_suppressed c + 1\<rparr>))
     (if recycle \<and> reason = SOURCE_TOO_OLD \<and> (is_trade e \<or> is_delta e)
      then count_stale e else ret ()))))"

definition backfill_candle_gap :: "env \<Rightarrow> candle \<Rightarrow> unit task" where
  "backfill_candle_gap env c = (let ins = md_instrument (cd_metadata c) in
     bindE (getE (\<lambda>s. latest (candles (market s)) ins (interval c))) (\<lambda>previous.
     case previous of
       None \<Rightarrow> ret ()
     | Some p \<Rightarrow> (case interval_duration (interval c) of
         Inl x \<Rightarrow> raise (Raised x)
       | Inr d \<Rightarrow>
          if open_time c \<le> dt_add (open_time p) d then ret ()
          else
            thenE (count_stat (\<lambda>k. k\<lparr>candle_gaps := candle_gaps k + 1\<rparr>))
           (bindE (adapter_of ins) (\<lambda>a.
            bindE (getE (\<lambda>s. set_candle_warmup_size (settings s))) (\<lambda>size.
            bindE (await env (\<lambda>n. net_candles env n a ins (interval c) size)) (\<lambda>cs.
            thenE (on_market (apply_many (map CandleEvent cs)))
                  (count_stat (\<lambda>k. k\<lparr>candle_backfills := candle_backfills k + 1,
                     candles_backfilled := candles_backfilled k + length cs\<rparr>)))))))))"

definition resync_order_book :: "env \<Rightarrow> instrument \<Rightarrow> unit task" where
  "resync_order_book env ins =
     bindE (adapter_of ins) (\<lambda>a.
     bindE (getE (\<lambda>s. set_order_book_depth (settings s))) (\<lambda>depth.
     bindE (await env (\<lambda>n. net_snapshot env n a ins depth)) (\<lambda>snap.
     bindE (apply_book_snapshot a snap) (\<lambda>_.
     if bootstraps_from_stream a
     then modifyE (\<lambda>s. s\<lparr>pending_resyncs := insert ins (pending_resyncs s)\<rparr>)
     else thenE (count_stat (\<lambda>k. k\<lparr>order_book_resyncs := order_book_resyncs k + 1\<rparr>))
            (call_handler env (SnapshotEvent snap))))))"

definition book_synchronized :: "instrument \<Rightarrow> supervisor \<Rightarrow> bool" where
  "book_synchronized ins s = (case get_order_book (market s) ins of
       None \<Rightarrow> False | Some v \<Rightarrow> ov_is_synchronized v)"

definition record_order_book_bridge :: "market_event \<Rightarrow> unit task" where
  "record_order_book_bridge e = (let ins = event_instrument e in
     bindE (getE (\<lambda>s. \<not> book_synchronized ins s \<or> ins \<notin> pending_resyncs s)) (\<lambda>nothing.
     if nothing then ret ()
     else
       thenE (modifyE (\<lambda>s. s\<lparr>pending_resyncs := pending_resyncs s - {ins}\<rparr>))
      (thenE (count_stat (\<lambda>k. k\<lparr>order_book_resyncs := order_book_resyncs k + 1\<rparr>))
      (bindE (getE (\<lambda>s. ins \<in> pending_gap_recoveries s)) (\<lambda>gap_recovery.
       if gap_recovery then
         thenE (modifyE (\<lambda>s. s\<lparr>pending_gap_recoveries := pending_gap_recoveries s - {ins}\<rparr>))
               (count_stat (\<lambda>k. k\<lparr>order_book_only_recoveries := order_book_only_recoveries k + 1\<rparr>))
       else ret ())))))"

text \<open>\<open>try: applied = self.state.apply(event) except OrderBookOutOfSync\<close>, and what follows.\<close>

definition book_gap :: "env \<Rightarrow> market_event \<Rightarrow> bool \<Rightarrow> unit task" where
  "book_gap env e recycle = (let ins = event_instrument e in
     thenE (count_stat (\<lambda>k. k\<lparr>order_book_gaps := order_book_gaps k + 1\<rparr>))
     (if recycle then raise (StreamGap ins) else resync_order_book env ins))"

definition event_applied :: "env \<Rightarrow> market_event \<Rightarrow> bool \<Rightarrow> bool \<Rightarrow> unit task" where
  "event_applied env e was_synchronized applied =
     (if applied then
        thenE (count_stat (\<lambda>k. k\<lparr>events_applied := events_applied k + 1\<rparr>))
       (thenE (call_handler env e)
         (if is_delta e \<and> \<not> was_synchronized then record_order_book_bridge e else ret ()))
      else count_stat (\<lambda>k. k\<lparr>events_ignored := events_ignored k + 1\<rparr>))"

definition accept_event :: "env \<Rightarrow> market_event \<Rightarrow> bool \<Rightarrow> unit task" where
  "accept_event env e recycle =
     thenE (modifyE (\<lambda>s. s\<lparr>stale_counts := (stale_counts s)(stale_key e := None)\<rparr>))
    (thenE (case e of CandleEvent c \<Rightarrow> backfill_candle_gap env c | _ \<Rightarrow> ret ())
    (bindE (getE (\<lambda>s. is_delta e \<and> book_synchronized (event_instrument e) s)) (\<lambda>was_synchronized.
     bindE (tryE (on_market (apply_event e))) (\<lambda>r. case r of
       Inr applied \<Rightarrow> event_applied env e was_synchronized applied
     | Inl (Raised x) \<Rightarrow> if is_out_of_sync x \<and> is_delta e then book_gap env e recycle else raise (Raised x)
     | Inl f \<Rightarrow> raise f))))"

definition process_event :: "env \<Rightarrow> market_event \<Rightarrow> bool \<Rightarrow> unit task" where
  "process_event env e recycle =
     thenE (count_stat (\<lambda>k. k\<lparr>events_received := events_received k + 1\<rparr>))
    (bindE (getE (\<lambda>s. rejection_reason (set_ingestion_policy (settings s)) e)) (\<lambda>r. case r of
       Inl x \<Rightarrow> raise (Raised x)
     | Inr (Some reason) \<Rightarrow> reject_event e reason recycle
     | Inr None \<Rightarrow> accept_event env e recycle))"

section \<open>Recovery\<close>

datatype recovery_mode = RECOVER_ORDER_BOOK | SHORT_DISCONNECT | FULL_RECOVERY

definition stagger_recovery :: "env \<Rightarrow> adapter \<Rightarrow> unit task" where
  "stagger_recovery env a =
     bindE (getE (\<lambda>s. case recovery_offsets s (adapter_id a) of None \<Rightarrow> 0 | Some d \<Rightarrow> d)) (\<lambda>delay.
     if 0 < delay then sleep_for env delay else ret ())"

text \<open>\<open>_apply_recovery_candles\<close>: the applied candles are counted, closed ones handed on.\<close>

fun apply_recovery_candles :: "env \<Rightarrow> candle list \<Rightarrow> nat \<Rightarrow> nat task" where
  "apply_recovery_candles env [] applied = ret applied"
| "apply_recovery_candles env (c # cs) applied =
     bindE (on_market (apply_event (CandleEvent c))) (\<lambda>ok.
     if \<not> ok then apply_recovery_candles env cs applied
     else thenE (if is_closed c then call_handler env (CandleEvent c) else ret ())
            (apply_recovery_candles env cs (applied + 1)))"

definition recovery_limit :: "int \<Rightarrow> rat \<Rightarrow> timedelta \<Rightarrow> int" where
  "recovery_limit warmup outage d = min warmup (max 2 (\<lceil>outage / total_seconds d\<rceil> + 2))"

definition backfill_interval :: "env \<Rightarrow> adapter \<Rightarrow> rat \<Rightarrow> instrument \<Rightarrow> string \<Rightarrow> unit task" where
  "backfill_interval env a outage ins i = (case interval_duration i of
       Inl x \<Rightarrow> raise (Raised x)
     | Inr d \<Rightarrow>
        bindE (getE (\<lambda>s. recovery_limit (set_candle_warmup_size (settings s)) outage d)) (\<lambda>limit.
        bindE (await env (\<lambda>n. net_candles env n a ins i limit)) (\<lambda>cs.
        bindE (apply_recovery_candles env (sort_key open_time cs) 0) (\<lambda>applied.
        count_stat (\<lambda>k. k\<lparr>candle_backfills := candle_backfills k + 1,
           candles_backfilled := candles_backfilled k + applied\<rparr>)))))"

definition backfill_recovery_candles :: "env \<Rightarrow> adapter \<Rightarrow> instrument list \<Rightarrow> rat \<Rightarrow> unit task" where
  "backfill_recovery_candles env a inss outage = mapE (\<lambda>ins.
     bindE (adapter_intervals a) (\<lambda>is. mapE (backfill_interval env a outage ins) is)) inss"

definition resync_if_pending :: "env \<Rightarrow> instrument \<Rightarrow> unit task" where
  "resync_if_pending env ins = bindE (getE (\<lambda>s. ins \<in> pending_resyncs s)) (\<lambda>pending.
     if pending then
       thenE (resync_order_book env ins)
      (thenE (modifyE (\<lambda>s. s\<lparr>pending_resyncs := pending_resyncs s - {ins},
               pending_gap_recoveries := pending_gap_recoveries s - {ins}\<rparr>))
             (count_stat (\<lambda>k. k\<lparr>order_book_only_recoveries := order_book_only_recoveries k + 1\<rparr>)))
     else ret ())"

definition recover_adapter :: "env \<Rightarrow> adapter \<Rightarrow> instrument list \<Rightarrow> recovery_mode \<Rightarrow> rat \<Rightarrow> unit task" where
  "recover_adapter env a inss mode outage = (case mode of
       RECOVER_ORDER_BOOK \<Rightarrow>
         if bootstraps_from_stream a then ret () else mapE (resync_if_pending env) inss
     | FULL_RECOVERY \<Rightarrow>
         thenE (bindE (warm_adapter env a inss) (\<lambda>_. ret ()))
               (count_stat (\<lambda>k. k\<lparr>full_recoveries := full_recoveries k + 1\<rparr>))
     | SHORT_DISCONNECT \<Rightarrow>
         thenE (backfill_recovery_candles env a inss outage)
        (thenE (if bootstraps_from_stream a then ret () else mapE (resync_order_book env) inss)
               (count_stat (\<lambda>k. k\<lparr>short_disconnect_recoveries := short_disconnect_recoveries k + 1\<rparr>))))"

section \<open>Streams\<close>

text \<open>What a stream yields until it ends, or raises. Every event is awaited.\<close>

datatype stream_end = StreamEnded | StreamRaised exn

record stream =
  yields :: "market_event list"
  ending :: stream_end

definition yield_event :: "env \<Rightarrow> market_event \<Rightarrow> market_event task" where
  "yield_event env e = await env (\<lambda>_. Inr e)"

definition consume_plain_stream :: "env \<Rightarrow> stream \<Rightarrow> unit task" where
  "consume_plain_stream env st =
     thenE (mapE (\<lambda>e. bindE (yield_event env e) (\<lambda>e. process_event env e True)) (yields st))
           (await env (\<lambda>_. case ending st of StreamEnded \<Rightarrow> Inr () | StreamRaised x \<Rightarrow> Inl x))"

text \<open>\<open>_observe_stream_queue_depth\<close>, with the depth that the queue has at that moment.\<close>

definition observe_queue_depth :: "adapter \<Rightarrow> nat \<Rightarrow> unit task" where
  "observe_queue_depth a d = modifyE (\<lambda>s.
     let depths = AList.update (adapter_id a) d (queue_depths s);
         total = sum_list (map snd depths)
     in s\<lparr>queue_depths := depths,
          stats := (stats s)\<lparr>stream_queue_depth := total,
            maximum_stream_queue_depth := max (maximum_stream_queue_depth (stats s)) total\<rparr>,
          queue_depth_samples := deque_append 2048 (queue_depth_samples s) total\<rparr>)"

definition BOOTSTRAP_BUFFER_SIZE :: nat where
  "BOOTSTRAP_BUFFER_SIZE = 10000"

text \<open>An item of the queue: an event, or the stream's termination (\<open>_StreamTermination\<close>).\<close>

datatype queue_item = Event market_event | Termination "exn option"

definition queue_items :: "stream \<Rightarrow> queue_item list" where
  "queue_items st = map Event (yields st) @
     [case ending st of StreamEnded \<Rightarrow> Termination None | StreamRaised x \<Rightarrow> Termination (Some x)]"

text \<open>\<open>item = await queue.get()\<close>, the depth observed, and \<open>_raise_if_stream_terminated\<close>.\<close>

definition take_item :: "env \<Rightarrow> adapter \<Rightarrow> queue_item \<Rightarrow> market_event task" where
  "take_item env a item =
     bindE (await env (\<lambda>n. Inr (queue_size env n))) (\<lambda>d.
     thenE (observe_queue_depth a d)
     (case item of
        Event e \<Rightarrow> ret e
      | Termination (Some x) \<Rightarrow> raise (Raised x)
      | Termination None \<Rightarrow> raise (Raised (RuntimeError ''Public market-data stream ended unexpectedly''))))"

text \<open>
  \<open>while awaiting_depth\<close>: buffers items until every instrument has had a delta; the result is
  the buffer with the items left in the queue. A queue that is not filled any more leaves the
  task waiting, which is the last equation; the termination item makes it unreachable for the
  items of a stream.
\<close>

fun fill_buffer ::
  "env \<Rightarrow> adapter \<Rightarrow> string \<Rightarrow> instrument list \<Rightarrow> market_event list \<Rightarrow> queue_item list \<Rightarrow>
     (market_event list \<times> queue_item list) task"
where
  "fill_buffer env a message [] buffered items = ret (buffered, items)"
| "fill_buffer env a message (w # waiting) buffered (item # items) =
     bindE (take_item env a item) (\<lambda>e.
     if BOOTSTRAP_BUFFER_SIZE \<le> length (buffered @ [e])
     then raise (Raised (RuntimeError message))
     else fill_buffer env a message
       (if is_delta e then removeAll (event_instrument e) (w # waiting) else w # waiting)
       (buffered @ [e]) items)"
| "fill_buffer env a message (w # waiting) buffered [] = ret (buffered, [])"

definition drain_items :: "env \<Rightarrow> adapter \<Rightarrow> bool \<Rightarrow> queue_item list \<Rightarrow> unit task" where
  "drain_items env a recycle items =
     mapE (\<lambda>item. bindE (take_item env a item) (\<lambda>e. process_event env e recycle)) items"

text \<open>\<open>finally: pump_task.cancel(); \<dots>; self._observe_stream_queue_depth(adapter, 0)\<close>\<close>

definition finally_empty :: "adapter \<Rightarrow> 'a task \<Rightarrow> 'a task" where
  "finally_empty a m = bindE (tryE m) (\<lambda>r. thenE (observe_queue_depth a 0)
     (case r of Inl f \<Rightarrow> raise f | Inr x \<Rightarrow> ret x))"

definition consume_with_bootstrap :: "env \<Rightarrow> adapter \<Rightarrow> instrument list \<Rightarrow> stream \<Rightarrow> unit task" where
  "consume_with_bootstrap env a inss st = finally_empty a
     (bindE (fill_buffer env a ''Order-book bootstrap buffer filled before every instrument received a depth delta''
         (remdups inss) [] (queue_items st)) (\<lambda>(buffered, rest).
      bindE (getE (\<lambda>s. set_order_book_depth (settings s))) (\<lambda>depth.
      bindE (collectE (\<lambda>ins. await env (\<lambda>n. net_snapshot env n a ins depth)) inss) (\<lambda>snaps.
      thenE (mapE (\<lambda>snap. bindE (apply_book_snapshot a snap) (\<lambda>_. ret ())) snaps)
     (thenE (mapE (\<lambda>e. process_event env e True) buffered)
            (drain_items env a True rest))))))"

text \<open>
  The nested \<open>bridge(instrument)\<close> of the public-depth lane, with the items that its own
  queue receives: it waits for one delta of its instrument.
\<close>

definition bridge_book :: "env \<Rightarrow> adapter \<Rightarrow> instrument \<Rightarrow> queue_item list \<Rightarrow> unit task" where
  "bridge_book env a ins items =
     bindE (fill_buffer env a ''Order-book bootstrap buffer filled before the instrument received a depth delta''
         [ins] [] items) (\<lambda>(buffered, rest).
     bindE (getE (\<lambda>s. set_order_book_depth (settings s))) (\<lambda>depth.
     bindE (await env (\<lambda>n. net_snapshot env n a ins depth)) (\<lambda>snap.
     bindE (apply_book_snapshot a snap) (\<lambda>_.
     thenE (mapE (\<lambda>e. process_event env e False) buffered)
           (drain_items env a False rest)))))"

text \<open>The pump: an event goes to the queue of its instrument, the termination to every queue.\<close>

definition items_for :: "instrument \<Rightarrow> stream \<Rightarrow> queue_item list" where
  "items_for ins st = queue_items (st\<lparr>yields := filter (\<lambda>e. event_instrument e = ins) (yields st)\<rparr>)"

definition consume_public_context :: "env \<Rightarrow> adapter \<Rightarrow> instrument list \<Rightarrow> stream \<Rightarrow> unit task" where
  "consume_public_context env a inss st = finally_empty a
     (mapE (\<lambda>ins. bridge_book env a ins (items_for ins st)) inss)"

section \<open>The reconnect loop\<close>

text \<open>\<open>ceil(log2(maximum / base))\<close>, for \<open>0 < base \<le> maximum\<close>\<close>

definition maximum_exponent :: "rat \<Rightarrow> rat \<Rightarrow> nat" where
  "maximum_exponent base maximum = ceillog2 (nat \<lceil>maximum / base\<rceil>)"

definition reconnect_backoff :: "supervisor_settings \<Rightarrow> nat \<Rightarrow> rat" where
  "reconnect_backoff c attempt = min (set_reconnect_max_seconds c)
     (set_reconnect_base_seconds c * 2 ^ min (attempt - 1)
        (maximum_exponent (set_reconnect_base_seconds c) (set_reconnect_max_seconds c)))"

definition reconnect_delay :: "env \<Rightarrow> supervisor_settings \<Rightarrow> nat \<Rightarrow> nat \<Rightarrow> rat" where
  "reconnect_delay env c attempt n = min (set_reconnect_max_seconds c)
     (reconnect_backoff c attempt +
      random_uniform env n (reconnect_backoff c attempt * set_reconnect_jitter_ratio c))"

record loop_state =
  attempt :: nat
  recovery_mode :: "recovery_mode option"
  disconnected_since :: "rat option"

definition new_loop_state :: loop_state where
  "new_loop_state = \<lparr>attempt = 0, recovery_mode = None, disconnected_since = None\<rparr>"

definition effective_mode :: "supervisor_settings \<Rightarrow> recovery_mode \<Rightarrow> rat \<Rightarrow> recovery_mode" where
  "effective_mode c mode outage =
     (if mode = SHORT_DISCONNECT \<and> set_full_recovery_after_seconds c \<le> outage
      then FULL_RECOVERY else mode)"

text \<open>The \<open>try\<close> block up to the start of the stream: the recovery a past failure asked for.\<close>

definition recover_state :: "env \<Rightarrow> adapter \<Rightarrow> instrument list \<Rightarrow> loop_state \<Rightarrow> unit task" where
  "recover_state env a inss ls = (case recovery_mode ls of
       None \<Rightarrow> ret ()
     | Some mode \<Rightarrow>
        bindE (case disconnected_since ls of
            None \<Rightarrow> ret 0
          | Some t \<Rightarrow> bindE (read_clock_at (loop_clock env)) (\<lambda>now. ret (max 0 (now - t)))) (\<lambda>outage.
        bindE (getE settings) (\<lambda>c.
        thenE (stagger_recovery env a)
       (thenE (recover_adapter env a inss (effective_mode c mode outage) outage)
              (count_stat (\<lambda>k. k\<lparr>stream_recoveries := stream_recoveries k + 1\<rparr>))))))"

text \<open>
  \<open>_consume_isolated_lane_forever\<close>: one turn of a lane, which reconnects by itself. Only the
  critical lane recovers candles.
\<close>

datatype lane = CRITICAL_KLINE | MARKET_CONTEXT | PUBLIC_DEPTH

record lane_state =
  lane_attempt :: nat
  lane_disconnected_since :: "rat option"

definition new_lane_state :: lane_state where
  "new_lane_state = \<lparr>lane_attempt = 0, lane_disconnected_since = None\<rparr>"

definition consume_lane :: "env \<Rightarrow> adapter \<Rightarrow> instrument list \<Rightarrow> lane \<Rightarrow> stream \<Rightarrow> unit task" where
  "consume_lane env a inss l st =
     (if l = PUBLIC_DEPTH then consume_public_context env a inss st else consume_plain_stream env st)"

definition recover_lane :: "env \<Rightarrow> adapter \<Rightarrow> instrument list \<Rightarrow> rat \<Rightarrow> unit task" where
  "recover_lane env a inss outage =
     thenE (stagger_recovery env a)
    (bindE (getE settings) (\<lambda>c.
     if set_full_recovery_after_seconds c \<le> outage then
       thenE (bindE (warm_adapter env a inss) (\<lambda>_. ret ()))
             (count_stat (\<lambda>k. k\<lparr>full_recoveries := full_recoveries k + 1\<rparr>))
     else
       thenE (backfill_recovery_candles env a inss outage)
             (count_stat (\<lambda>k. k\<lparr>short_disconnect_recoveries := short_disconnect_recoveries k + 1\<rparr>))))"

definition lane_outage :: "env \<Rightarrow> rat option \<Rightarrow> rat task" where
  "lane_outage env since =
     bindE (read_clock_at (loop_clock env)) (\<lambda>now.
     bindE (case since of
         None \<Rightarrow> read_clock_at (loop_clock env)
       | Some t \<Rightarrow> if t = 0 then read_clock_at (loop_clock env) else ret t) (\<lambda>t.
     ret (max 0 (now - t))))"

definition lane_turn ::
  "env \<Rightarrow> adapter \<Rightarrow> instrument list \<Rightarrow> lane \<Rightarrow> lane_state \<Rightarrow> stream \<Rightarrow> lane_state task"
where
  "lane_turn env a inss l ls st =
     bindE (getE settings) (\<lambda>c.
     bindE (read_clock_at (loop_clock env)) (\<lambda>started.
     bindE (tryE (consume_lane env a inss l st)) (\<lambda>r.
     if r = Inl (Raised CancelledError) then raise (Raised CancelledError)
     else
       bindE (read_clock_at (loop_clock env)) (\<lambda>now.
       let stable = set_reconnect_stable_seconds c \<le> now - started;
           n = (if stable then 0 else lane_attempt ls) + 1 in
       bindE (if stable \<or> lane_disconnected_since ls = None
              then bindE (read_clock_at (loop_clock env)) (\<lambda>t. ret (Some t))
              else ret (lane_disconnected_since ls)) (\<lambda>since.
       bindE (read_clock_at (reconnect_delay env c n)) (\<lambda>delay.
       thenE (count_stat (\<lambda>k. k\<lparr>consumer_restarts := consumer_restarts k + 1\<rparr>))
      (thenE (sleep_for env delay)
       (let ls' = \<lparr>lane_attempt = n, lane_disconnected_since = since\<rparr> in
        if l \<noteq> CRITICAL_KLINE then ret ls'
        else
          bindE (lane_outage env since) (\<lambda>outage.
          bindE (tryE (recover_lane env a inss outage)) (\<lambda>r. case r of
            Inl f \<Rightarrow> if f = Raised CancelledError then raise f else ret ls'
          | Inr _ \<Rightarrow>
              thenE (count_stat (\<lambda>k. k\<lparr>stream_recoveries := stream_recoveries k + 1\<rparr>)) (ret ls')))))))))))"

text \<open>The three lanes, in the order in which their turns are observed.\<close>

fun consume_lanes ::
  "env \<Rightarrow> adapter \<Rightarrow> instrument list \<Rightarrow> (lane \<Rightarrow> lane_state) \<Rightarrow> (lane \<times> stream) list \<Rightarrow> unit task"
where
  "consume_lanes env a inss states [] = ret ()"
| "consume_lanes env a inss states ((l, st) # turns) =
     bindE (lane_turn env a inss l (states l) st)
       (\<lambda>ls'. consume_lanes env a inss (states(l := ls')) turns)"

text \<open>
  \<open>_consume_stream_generation\<close>. A generation is the adapter's one stream, or the turns of
  its lanes: lanes never end by themselves, so that generation ends when it is cancelled.
\<close>

record generation_input =
  one_stream :: stream
  lane_turns :: "(lane \<times> stream) list"

definition consume_generation :: "env \<Rightarrow> adapter \<Rightarrow> instrument list \<Rightarrow> generation_input \<Rightarrow> unit task" where
  "consume_generation env a inss g = (case stream_lanes a of
       NO_LANES \<Rightarrow> if bootstraps_from_stream a then consume_with_bootstrap env a inss (one_stream g)
                   else consume_plain_stream env (one_stream g)
     | _ \<Rightarrow>
        if \<not> has_realtime_context a then consume_plain_stream env (one_stream g)
        else if stream_lanes a \<noteq> ALL_LANES
        then raise (Raised (RuntimeError (adapter_name a @ '' has an incomplete stream-lane contract'')))
        else thenE (consume_lanes env a inss (\<lambda>_. new_lane_state) (lane_turns g))
                   (raise (Raised CancelledError)))"

text \<open>\<open>except Exception\<close>: what a failure leaves for the next turn, the delay included.\<close>

definition disconnect_books :: "adapter \<Rightarrow> instrument list \<Rightarrow> unit task" where
  "disconnect_books a inss = mapE (\<lambda>ins. modifyE (\<lambda>s.
     let s' = s\<lparr>market := invalidate_realtime_state ins (market s)\<rparr> in
     if bootstraps_from_stream a then s'\<lparr>pending_resyncs := insert ins (pending_resyncs s')\<rparr> else s')) inss"

definition mark_failure :: "adapter \<Rightarrow> instrument list \<Rightarrow> failure \<Rightarrow> recovery_mode task" where
  "mark_failure a inss f = (case f of
       StreamGap ins \<Rightarrow>
         thenE (modifyE (\<lambda>s. s\<lparr>pending_resyncs := insert ins (pending_resyncs s),
            pending_gap_recoveries := insert ins (pending_gap_recoveries s)\<rparr>))
         (ret RECOVER_ORDER_BOOK)
     | _ \<Rightarrow> thenE (disconnect_books a inss) (ret SHORT_DISCONNECT))"

definition is_stable :: "supervisor_settings \<Rightarrow> rat option \<Rightarrow> rat \<Rightarrow> bool" where
  "is_stable c started now = (case started of
       None \<Rightarrow> False | Some t \<Rightarrow> set_reconnect_stable_seconds c \<le> now - t)"

definition after_failure ::
  "env \<Rightarrow> adapter \<Rightarrow> instrument list \<Rightarrow> loop_state \<Rightarrow> rat option \<Rightarrow> failure \<Rightarrow> (loop_state \<times> rat) task"
where
  "after_failure env a inss ls started f =
     bindE (getE settings) (\<lambda>c.
     bindE (case started of None \<Rightarrow> ret False
              | Some t \<Rightarrow> bindE (read_clock_at (loop_clock env)) (\<lambda>now. ret (is_stable c (Some t) now))) (\<lambda>stable.
     bindE (if disconnected_since ls = None \<or> stable
            then bindE (read_clock_at (loop_clock env)) (\<lambda>now. ret (Some now))
            else ret (disconnected_since ls)) (\<lambda>since.
     bindE (mark_failure a inss f) (\<lambda>mode.
     let n = (if stable then 0 else attempt ls) + 1 in
     thenE (count_stat (\<lambda>k. k\<lparr>consumer_restarts := consumer_restarts k + 1\<rparr>))
    (bindE (read_clock_at (reconnect_delay env c n)) (\<lambda>delay.
     ret (\<lparr>attempt = n, recovery_mode = Some mode, disconnected_since = since\<rparr>, delay)))))))"

text \<open>The body of the \<open>try\<close>: how it failed, and when its stream had started.\<close>

definition try_generation ::
  "env \<Rightarrow> adapter \<Rightarrow> instrument list \<Rightarrow> loop_state \<Rightarrow> generation_input \<Rightarrow> (rat option \<times> failure) task"
where
  "try_generation env a inss ls st =
     bindE (tryE (recover_state env a inss ls)) (\<lambda>r. case r of
       Inl f \<Rightarrow> ret (None, f)
     | Inr _ \<Rightarrow>
        bindE (read_clock_at (loop_clock env)) (\<lambda>started.
        bindE (tryE (consume_generation env a inss st)) (\<lambda>r. case r of
          Inl f \<Rightarrow> ret (Some started, f)
        | Inr _ \<Rightarrow> ret (Some started,
            Raised (RuntimeError ''Public market-data stream ended unexpectedly'')))))"

text \<open>One turn of \<open>_consume_forever\<close>, up to and with its sleep; the delay is part of the result.\<close>

definition consume_turn ::
  "env \<Rightarrow> adapter \<Rightarrow> instrument list option \<Rightarrow> loop_state \<Rightarrow> generation_input \<Rightarrow> (loop_state \<times> rat) task"
where
  "consume_turn env a override ls st =
     bindE (getE (\<lambda>s. case override of None \<Rightarrow> instruments_for s a | Some inss \<Rightarrow> inss)) (\<lambda>inss.
     bindE (try_generation env a inss ls st) (\<lambda>(started, f).
     if f = Raised CancelledError then raise f
     else bindE (after_failure env a inss ls started f) (\<lambda>(ls', delay).
       thenE (sleep_for env delay) (ret (ls', delay)))))"

text \<open>\<open>while True\<close>, for as many turns as generations are observed; the delays it slept.\<close>

fun consume_forever ::
  "env \<Rightarrow> adapter \<Rightarrow> instrument list option \<Rightarrow> loop_state \<Rightarrow> generation_input list \<Rightarrow> (loop_state \<times> rat list) task"
where
  "consume_forever env a override ls [] = ret (ls, [])"
| "consume_forever env a override ls (st # sts) =
     bindE (consume_turn env a override ls st) (\<lambda>(ls', delay).
     bindE (consume_forever env a override ls' sts) (\<lambda>(ls'', delays). ret (ls'', delay # delays)))"


end
