(* ===== verification/Supervisor_Control.thy ===== *)
theory Supervisor_Control
  imports Supervisor
begin

text \<open>
  src/src/quant_signal_agent/state/supervisor.py: the reconciliation of the dynamic candidates,
  the refresh of their long baselines, the health probe, and closing.
\<close>

section \<open>Reconciliation of candidates\<close>

record reconcile_result =
  current :: "string list"
  added :: "string list"
  removed :: "string list"
  unchanged :: "string list"
  failed :: "string list"

text \<open>\<open>tuple(sorted(set(\<dots>)))\<close>\<close>

definition sorted_set :: "string list \<Rightarrow> string list" where
  "sorted_set xs = sort (remdups xs)"

text \<open>What one added instrument has been warmed up with; \<open>None\<close> where no book was asked for.\<close>

record prepared_instrument =
  prep_adapter :: adapter
  prep_instrument :: instrument
  prep_rows :: "(string \<times> candle list) list"
  prep_book :: "order_book_snapshot option"

definition prepare_instrument :: "env \<Rightarrow> string \<Rightarrow> adapter \<Rightarrow> prepared_instrument task" where
  "prepare_instrument env symbol a = (case instrument_for_symbol a of
       None \<Rightarrow> raise (Raised (RuntimeError (adapter_name a @ '' cannot create dynamic instruments'')))
     | Some factory \<Rightarrow> (case factory symbol of
         Inl e \<Rightarrow> raise (Raised e)
       | Inr ins \<Rightarrow>
          bindE (adapter_intervals a) (\<lambda>is.
          bindE (warm_candles env a ins is) (\<lambda>rows.
          bindE (getE (\<lambda>s. set_order_book_depth (settings s))) (\<lambda>depth.
          bindE (if has_realtime_context a
                 then bindE (await env (\<lambda>n. net_snapshot env n a ins depth)) (\<lambda>b. ret (Some b))
                 else ret None) (\<lambda>book.
          ret \<lparr>prep_adapter = a, prep_instrument = ins, prep_rows = rows, prep_book = book\<rparr>))))))"

definition prepare_added :: "env \<Rightarrow> string list \<Rightarrow> prepared_instrument list task" where
  "prepare_added env added_symbols = bindE (getE adapters) (\<lambda>adpts.
     collectE (\<lambda>(symbol, a). prepare_instrument env symbol a) (List.product added_symbols adpts))"

text \<open>
  \<open>prepared[adapter]\<close> and \<open>prepared_books[adapter]\<close> are dicts by instrument: a second entry
  of one instrument replaces the value of the first and keeps its place.
\<close>

definition prepared_for :: "prepared_instrument list \<Rightarrow> adapter \<Rightarrow> (instrument \<times> prepared_instrument) list" where
  "prepared_for ps a = fold (\<lambda>p d. AList.update (prep_instrument p) p d)
     (filter (\<lambda>p. adapter_id (prep_adapter p) = adapter_id a) ps) []"

definition install_prepared :: "adapter \<Rightarrow> prepared_instrument \<Rightarrow> unit task" where
  "install_prepared a p =
     thenE (on_market (modifyE (register_instruments [prep_instrument p])))
    (thenE (modifyE (\<lambda>s. s\<lparr>adapter_by_instrument := (adapter_by_instrument s)(prep_instrument p \<mapsto> a)\<rparr>))
    (bindE (adapter_intervals a) (\<lambda>is.
     thenE (apply_interval_rows is (prep_rows p))
    (thenE (apply_if_some SnapshotEvent (prep_book p))
           (count_stat (\<lambda>k. k\<lparr>candidate_instruments_warmed := candidate_instruments_warmed k + 1\<rparr>))))))"

definition with_additions :: "supervisor \<Rightarrow> prepared_instrument list \<Rightarrow> adapter \<Rightarrow> instrument list" where
  "with_additions s ps a =
     sort_key canonical_symbol (instruments_for s a @ map fst (prepared_for ps a))"

definition final_instruments ::
  "supervisor \<Rightarrow> prepared_instrument list \<Rightarrow> string list \<Rightarrow> adapter \<Rightarrow> instrument list"
where
  "final_instruments s ps gone a = sort_key canonical_symbol
     (filter (\<lambda>ins. canonical_symbol ins \<notin> set gone) (instruments_for s a) @ map fst (prepared_for ps a))"

definition subscribe_final ::
  "env \<Rightarrow> string list \<Rightarrow> adapter \<times> instrument list \<Rightarrow> unit task"
where
  "subscribe_final env gone = (\<lambda>(a, inss).
     thenE (if gone \<noteq> [] then await env (\<lambda>n. net_reconcile env n a inss) else ret ())
           (modifyE (\<lambda>s. s\<lparr>instruments_by_adapter :=
              AList.update (adapter_id a) inss (instruments_by_adapter s)\<rparr>)))"

definition install_all :: "env \<Rightarrow> prepared_instrument list \<Rightarrow> string list \<Rightarrow> unit task" where
  "install_all env ps gone =
     bindE (getE adapters) (\<lambda>adpts.
     thenE (mapE (\<lambda>a. mapE (\<lambda>(_, p). install_prepared a p) (prepared_for ps a)) adpts)
    (bindE (getE (\<lambda>s. (map (\<lambda>a. (a, with_additions s ps a)) adpts,
              map (\<lambda>a. (a, final_instruments s ps gone a)) adpts))) (\<lambda>(additions, finals).
     thenE (mapE (\<lambda>(a, inss). await env (\<lambda>n. net_reconcile env n a inss)) additions)
           (mapE (subscribe_final env gone) finals))))"

definition finish_reconcile ::
  "env \<Rightarrow> string list \<Rightarrow> string list \<Rightarrow> string list \<Rightarrow> string list \<Rightarrow>
     failure + prepared_instrument list \<Rightarrow> reconcile_result task"
where
  "finish_reconcile env target new gone same r = (case r of
       Inl f \<Rightarrow>
         if f = Raised CancelledError then raise f
         else
           thenE (count_stat (\<lambda>k. k\<lparr>candidate_reconcile_failures := candidate_reconcile_failures k + 1\<rparr>))
          (bindE (getE candidate_symbols) (\<lambda>retained.
           ret \<lparr>current = retained, added = [], removed = [], unchanged = same, failed = new\<rparr>))
     | Inr ps \<Rightarrow>
         thenE (install_all env ps gone)
        (thenE (modifyE (\<lambda>s. s\<lparr>candidate_symbols := target\<rparr>))
        (thenE (count_stat (\<lambda>k. k\<lparr>candidate_reconciles := candidate_reconciles k + 1\<rparr>))
         (ret \<lparr>current = target, added = new, removed = gone, unchanged = same, failed = []\<rparr>))))"

definition prepare_and_install ::
  "env \<Rightarrow> string list \<Rightarrow> string list \<Rightarrow> string list \<Rightarrow> string list \<Rightarrow> reconcile_result task"
where
  "prepare_and_install env target new gone same =
     bindE (tryE (prepare_added env new)) (finish_reconcile env target new gone same)"

definition reconcile :: "env \<Rightarrow> string list \<Rightarrow> reconcile_result task" where
  "reconcile env target_symbols =
     bindE (getE settings) (\<lambda>c.
     if set_scope c \<noteq> ''candidate''
     then raise (Raised (RuntimeError ''Only candidate supervisors support symbol reconciliation''))
     else
       thenE (initialize env)
      (thenE (await env (\<lambda>_. Inr ()))
      (bindE (getE candidate_symbols) (\<lambda>present.
       let target = sorted_set target_symbols;
           new = sorted_set (filter (\<lambda>x. x \<notin> set present) target);
           gone = sorted_set (filter (\<lambda>x. x \<notin> set target) present);
           same = sorted_set (filter (\<lambda>x. x \<in> set target) present)
       in if new = [] \<and> gone = []
          then ret \<lparr>current = present, added = [], removed = [], unchanged = same, failed = []\<rparr>
          else prepare_and_install env target new gone same))))"

section \<open>Baselines of candidates\<close>

definition install_baseline :: "failure + candle list \<Rightarrow> unit task" where
  "install_baseline r = (case r of
       Inl f \<Rightarrow> if f = Raised CancelledError then raise f else ret ()
     | Inr cs \<Rightarrow>
         thenE (on_market (apply_many (map CandleEvent cs)))
               (count_stat (\<lambda>k. k\<lparr>candidate_baseline_refreshes := candidate_baseline_refreshes k + 1\<rparr>)))"

definition refresh_baseline :: "env \<Rightarrow> adapter \<Rightarrow> datetime \<Rightarrow> instrument \<Rightarrow> string \<Rightarrow> unit task" where
  "refresh_baseline env a now ins i =
     bindE (getE (\<lambda>s. is_candle_fresh (market s) ins i now)) (\<lambda>fresh. case fresh of
       Inl e \<Rightarrow> raise (Raised e)
     | Inr is_fresh_now \<Rightarrow>
         if is_fresh_now then ret ()
         else bindE (tryE (await env (\<lambda>n. net_candles env n a ins i 2))) install_baseline)"

text \<open>One round of \<open>_maintain_candidate_baselines\<close>, after its wait has timed out.\<close>

definition baseline_round :: "env \<Rightarrow> unit task" where
  "baseline_round env =
     bindE (read_clock_at (utc_clock env)) (\<lambda>now.
     bindE (getE (\<lambda>s. (set_candle_intervals (settings s), List.map_filter
         (\<lambda>(i, inss). map_option (\<lambda>a. (a, inss)) (adapter_with s i)) (instruments_by_adapter s))))
      (\<lambda>(configured, rows).
     mapE (\<lambda>(a, inss).
       bindE (getE (\<lambda>s. intervals_by_adapter s (adapter_id a))) (\<lambda>is.
       let streamed = (case stream_intervals a of None \<Rightarrow> configured | Some xs \<Rightarrow> xs);
           baseline = filter (\<lambda>i. i \<notin> set streamed) (case is of None \<Rightarrow> [] | Some xs \<Rightarrow> xs)
       in mapE (\<lambda>ins. mapE (refresh_baseline env a now ins) baseline) inss)) rows))"

section \<open>Health\<close>

text \<open>\<open>_percentile_99\<close>; \<open>len(ordered) * 0.99\<close> is exact in its ceiling for the sizes a deque holds.\<close>

definition percentile_index :: "nat \<Rightarrow> nat" where
  "percentile_index n = min (n - 1) (nat (\<lceil>of_nat n * (99 / 100 :: rat)\<rceil> - 1))"

definition percentile_99 :: "('a :: linorder \<Rightarrow> rat) \<Rightarrow> 'a list \<Rightarrow> rat" where
  "percentile_99 of_value xs = (if xs = [] then 0 else of_value (sort xs ! percentile_index (length xs)))"

record probe_state =
  last_report_at :: rat
  last_event_count :: nat
  interval_max_lag :: rat

text \<open>One turn of \<open>_monitor_runtime_health\<close> whose wait timed out.\<close>

definition health_probe :: "env \<Rightarrow> probe_state \<Rightarrow> probe_state task" where
  "health_probe env p =
     bindE (getE settings) (\<lambda>c.
     bindE (read_clock_at (loop_clock env)) (\<lambda>before.
     thenE (await env (\<lambda>_. Inr ()))
    (bindE (read_clock_at (loop_clock env)) (\<lambda>now.
     let lag = max 0 (now - (before + set_event_loop_probe_seconds c));
         worst = max (interval_max_lag p) lag;
         elapsed = now - last_report_at p in
     thenE (modifyE (\<lambda>s. s\<lparr>lag_samples := deque_append 2048 (lag_samples s) lag,
         stats := (stats s)\<lparr>event_loop_lag_seconds := lag,
           maximum_event_loop_lag_seconds := max (maximum_event_loop_lag_seconds (stats s)) lag\<rparr>\<rparr>))
     (if elapsed < set_health_report_seconds c then ret (p\<lparr>interval_max_lag := worst\<rparr>)
      else
        thenE (modifyE (\<lambda>s. let k = stats s in s\<lparr>stats := k\<lparr>
            events_per_second := (if 0 < elapsed
              then (of_nat (events_received k) - of_nat (last_event_count p)) / elapsed else 0),
            event_loop_lag_p99_seconds := percentile_99 id (lag_samples s),
            stream_queue_depth_p99 := \<lfloor>percentile_99 of_nat (queue_depth_samples s)\<rfloor>,
            health_reports := health_reports k + 1\<rparr>\<rparr>))
       (bindE (getE (\<lambda>s. events_received (stats s))) (\<lambda>n.
        ret \<lparr>last_report_at = now, last_event_count = n, interval_max_lag = 0\<rparr>)))))))"

section \<open>Closing\<close>

definition close_supervisor :: "env \<Rightarrow> unit task" where
  "close_supervisor env = bindE (getE (\<lambda>s. (sv_closed s, adapters s))) (\<lambda>(done_already, adpts).
     if done_already then ret ()
     else thenE (modifyE (\<lambda>s. s\<lparr>sv_closed := True\<rparr>))
            (mapE (\<lambda>a. await env (\<lambda>n. net_close env n a)) adpts))"

end
