(* ===== verification/Supervisor_Invariant.thy ===== *)
theory Supervisor_Invariant
  imports Supervisor_Control
begin

text \<open>
  What the supervisor keeps of its settings and the market state. \<open>market_law\<close> is the
  contract: a predicate \<open>J\<close> that every admissible step of \<open>MarketState\<close> keeps. Every
  operation of the supervisor then keeps \<open>J\<close>, whatever the adapters answer admissibly, whatever
  the handler does, and whatever other tasks do that keep \<open>J\<close> too: it never changes its
  settings, and touches the state by such steps only.
\<close>

section \<open>Admissible answers and interference\<close>

definition answers_ok :: "(market_step \<Rightarrow> bool) \<Rightarrow> env \<Rightarrow> bool" where
  "answers_ok good env \<longleftrightarrow>
     (\<forall>n a ins t. net_ticker env n a ins = Inr t \<longrightarrow> good (Receive (TickerEvent t))) \<and>
     (\<forall>n a ins d b. net_snapshot env n a ins d = Inr b \<longrightarrow>
        good (Receive (SnapshotEvent b)) \<and> (\<forall>bridge. good (BridgeSnapshot b bridge))) \<and>
     (\<forall>n a ins k ts. net_trades env n a ins k = Inr ts \<longrightarrow> (\<forall>t \<in> set ts. good (Receive (TradeEvent t)))) \<and>
     (\<forall>n a ins i k cs. net_candles env n a ins i k = Inr cs \<longrightarrow>
        (\<forall>c \<in> set cs. good (Receive (CandleEvent c)))) \<and>
     (\<forall>n a ins f. net_funding env n a ins = Inr (Some f) \<longrightarrow> good (Receive (FundingEvent f))) \<and>
     (\<forall>n a ins oi. net_open_interest env n a ins = Inr (Some oi) \<longrightarrow> good (Receive (OpenInterestEvent oi)))"

type_synonym law = "supervisor_settings \<Rightarrow> market_state \<Rightarrow> bool"

definition interference_keeps :: "law \<Rightarrow> env \<Rightarrow> bool" where
  "interference_keeps J env \<longleftrightarrow> (\<forall>n s. J (settings s) (market s) \<longrightarrow>
     J (settings (meanwhile env n s)) (market (meanwhile env n s)))"

definition env_ok :: "(market_step \<Rightarrow> bool) \<Rightarrow> law \<Rightarrow> env \<Rightarrow> bool" where
  "env_ok good J env \<longleftrightarrow> answers_ok good env \<and> interference_keeps J env"

definition stream_ok :: "(market_step \<Rightarrow> bool) \<Rightarrow> stream \<Rightarrow> bool" where
  "stream_ok good st \<longleftrightarrow> (\<forall>e \<in> set (yields st). good (Receive e))"

definition generation_ok :: "(market_step \<Rightarrow> bool) \<Rightarrow> generation_input \<Rightarrow> bool" where
  "generation_ok good g \<longleftrightarrow> stream_ok good (one_stream g) \<and> (\<forall>(l, st) \<in> set (lane_turns g). stream_ok good st)"

definition item_ok :: "(market_step \<Rightarrow> bool) \<Rightarrow> queue_item \<Rightarrow> bool" where
  "item_ok good i \<longleftrightarrow> (\<forall>e. i = Event e \<longrightarrow> good (Receive e))"

lemma queue_items_ok: "stream_ok good st \<Longrightarrow> \<forall>i \<in> set (queue_items st). item_ok good i"
  by (auto simp: queue_items_def item_ok_def stream_ok_def split: stream_end.splits)

lemma items_for_ok: "stream_ok good st \<Longrightarrow> \<forall>i \<in> set (items_for ins st). item_ok good i"
  unfolding items_for_def by (rule queue_items_ok) (simp add: stream_ok_def)

section \<open>The contract\<close>

locale market_law =
  fixes good :: "market_step \<Rightarrow> bool" and J :: law
  assumes keeps_step: "good x \<Longrightarrow> J c m \<Longrightarrow> J c (take_step x m)"
    and good_invalidate: "good (InvalidateRealtime ins)"
    and good_register: "good (Register inss)"
begin

abbreviation lawful :: "supervisor \<Rightarrow> bool" where
  "lawful s \<equiv> J (settings s) (market s)"

lemma keeps_field [keeps_rules]:
  "(\<And>s. settings (f s) = settings s \<and> market (f s) = market s) \<Longrightarrow> keeps lawful (modifyE f)"
  by (simp add: keeps_def modifyE_def)

lemma keeps_count_stat [keeps_rules]: "keeps lawful (count_stat f)"
  by (simp add: count_stat_def keeps_field)

lemma keeps_read_clock [keeps_rules]: "keeps lawful (read_clock_at f)"
  by (simp add: keeps_def read_clock_at_def)

lemma keeps_observe [keeps_rules]: "keeps lawful (observe_queue_depth a d)"
  by (simp add: observe_queue_depth_def keeps_field Let_def)

lemma keeps_on_market:
  assumes "\<And>c. keeps (J c) m"
  shows "keeps lawful (on_market m)"
  unfolding keeps_def
proof (intro allI impI)
  fix s assume "lawful s"
  obtain r ms where run: "m (market s) = (r, ms)" by force
  with keepsD [OF assms \<open>lawful s\<close>] have "J (settings s) ms" by blast
  then show "lawful (snd (on_market m s))" by (cases r) (simp_all add: on_market_def run)
qed

lemma keeps_event: "good (Receive e) \<Longrightarrow> keeps (J c) (apply_event e)"
  using keeps_step [of "Receive e"] by (simp add: keeps_def)

lemma keeps_many: "\<forall>e \<in> set es. good (Receive e) \<Longrightarrow> keeps (J c) (apply_many es)"
  unfolding apply_many_def by (intro keeps_rules keeps_event) blast

lemma keeps_snapshot: "good (BridgeSnapshot b bridge) \<Longrightarrow> keeps (J c) (market_apply_snapshot b bridge)"
  using keeps_step [of "BridgeSnapshot b bridge"] by (simp add: keeps_def)

lemma keeps_registration [keeps_rules]: "keeps lawful (on_market (modifyE (register_instruments inss)))"
  using keeps_step [OF good_register] by (intro keeps_on_market keeps_modifyE) simp

lemma gives_await:
  assumes "env_ok good J env" and "\<And>n x. f n = Inr x \<Longrightarrow> P x"
  shows "gives lawful P (await env f)"
  using assms by (auto simp: gives_def wp_def await_def Let_def env_ok_def interference_keeps_def
      split: sum.splits)

lemma keeps_await [keeps_rules]: "env_ok good J env \<Longrightarrow> keeps lawful (await env f)"
  using gives_await [of env f "\<lambda>_. True"] by (simp add: gives_keeps)

lemma keeps_sleep [keeps_rules]: "env_ok good J env \<Longrightarrow> keeps lawful (sleep_for env d)"
  by (simp add: sleep_for_def keeps_await)

lemma keeps_handler [keeps_rules]: "env_ok good J env \<Longrightarrow> keeps lawful (call_handler env e)"
  by (simp add: call_handler_def keeps_rules)

lemma keeps_adapter_of [keeps_rules]: "keeps lawful (adapter_of ins)"
  unfolding adapter_of_def by (intro keeps_rules)

lemma keeps_adapter_intervals [keeps_rules]: "keeps lawful (adapter_intervals a)"
  unfolding adapter_intervals_def by (intro keeps_rules)

lemma keeps_book [keeps_rules]: "good (BridgeSnapshot b (bootstraps_from_stream a)) \<Longrightarrow>
    keeps lawful (apply_book_snapshot a b)"
  unfolding apply_book_snapshot_def by (intro keeps_on_market keeps_snapshot)

lemma keeps_applied_event [keeps_rules]: "good (Receive e) \<Longrightarrow> keeps lawful (on_market (apply_event e))"
  by (intro keeps_on_market keeps_event)

lemma keeps_applied_candles [keeps_rules]: "\<forall>c \<in> set cs. good (Receive (CandleEvent c)) \<Longrightarrow>
    keeps lawful (on_market (apply_many (map CandleEvent cs)))"
  by (intro keeps_on_market keeps_many) simp

lemma keeps_applied_trades [keeps_rules]: "\<forall>c \<in> set cs. good (Receive (TradeEvent c)) \<Longrightarrow>
    keeps lawful (on_market (apply_many (map TradeEvent (sort_key k cs))))"
  by (intro keeps_on_market keeps_many) simp

text \<open>What the endpoints answer.\<close>

lemma gives_snapshot: "env_ok good J env \<Longrightarrow>
    gives lawful (\<lambda>b. good (Receive (SnapshotEvent b)) \<and> (\<forall>bridge. good (BridgeSnapshot b bridge)))
      (await env (\<lambda>n. net_snapshot env n a ins d))"
  by (rule gives_await) (auto simp: env_ok_def answers_ok_def)

lemma gives_candles: "env_ok good J env \<Longrightarrow>
    gives lawful (\<lambda>cs. \<forall>c \<in> set cs. good (Receive (CandleEvent c)))
      (await env (\<lambda>n. net_candles env n a ins i k))"
  by (rule gives_await) (auto simp: env_ok_def answers_ok_def)

lemma gives_trades: "env_ok good J env \<Longrightarrow>
    gives lawful (\<lambda>ts. \<forall>t \<in> set ts. good (Receive (TradeEvent t))) (await env (\<lambda>n. net_trades env n a ins k))"
  by (rule gives_await) (auto simp: env_ok_def answers_ok_def)

lemma gives_ticker: "env_ok good J env \<Longrightarrow>
    gives lawful (\<lambda>t. good (Receive (TickerEvent t))) (await env (\<lambda>n. net_ticker env n a ins))"
  by (rule gives_await) (auto simp: env_ok_def answers_ok_def)

section \<open>Warm-up and single events\<close>

lemma keeps_apply_if_some [keeps_rules]:
  "(\<And>y. x = Some y \<Longrightarrow> good (Receive (ev y))) \<Longrightarrow> keeps lawful (apply_if_some ev x)"
  by (cases x) (auto simp: apply_if_some_def intro!: keeps_rules)

lemma gives_optional:
  assumes "\<And>y. result = Inr (Some y) \<Longrightarrow> good (Receive (ev y))"
  shows "gives lawful (\<lambda>x. \<forall>y. x = Some y \<longrightarrow> good (Receive (ev y))) (optional_warmup_result a kind result)"
proof (cases result)
  case (Inl e)
  then show ?thesis
    by (auto simp: optional_warmup_result_def thenE_def
        intro!: gives_raise gives_bind_keeps gives_ret keeps_rules)
qed (use assms in \<open>auto simp: optional_warmup_result_def intro!: gives_ret\<close>)

text \<open>Rows of candles by interval, each admissible.\<close>

abbreviation rows_ok :: "(string \<times> candle list) list \<Rightarrow> bool" where
  "rows_ok rows \<equiv> \<forall>(i, cs) \<in> set rows. \<forall>c \<in> set cs. good (Receive (CandleEvent c))"

lemma rows_ok_fold: "rows_ok rows \<Longrightarrow> rows_ok (fold (\<lambda>(i, cs) d. AList.update i cs d) rows [])"
  using alist_fold_values [of rows "\<lambda>cs. \<forall>c \<in> set cs. good (Receive (CandleEvent c))" snd "[]" fst]
  by (auto simp: case_prod_beta')

lemma gives_warm_candles:
  assumes "env_ok good J env"
  shows "gives lawful rows_ok (warm_candles env a ins is)"
proof -
  have one: "gives lawful (\<lambda>(i, cs). \<forall>c \<in> set cs. good (Receive (CandleEvent c)))
      (bindE (await env (\<lambda>n. net_candles env n a ins i k)) (\<lambda>cs. ret (i, cs)))" for i k
    by (rule gives_bindE [OF gives_candles [OF assms]]) (simp add: gives_ret)
  show ?thesis
    unfolding warm_candles_def
    by (intro gives_bind_keeps keeps_getE gives_bindE [OF gives_collectE [OF one]] gives_ret rows_ok_fold)
       auto
qed

lemma keeps_interval_rows [keeps_rules]:
  assumes "rows_ok rows"
  shows "keeps lawful (apply_interval_rows is rows)"
proof -
  have "\<forall>c \<in> set cs. good (Receive (CandleEvent c))" if "map_of rows i = Some cs" for i cs
    using assms map_of_SomeD [OF that] by fastforce
  then have "keeps lawful (case map_of rows i of None \<Rightarrow> raise (Raised (KeyError i))
      | Some cs \<Rightarrow> on_market (apply_many (map CandleEvent cs)))" for i
    by (cases "map_of rows i") (auto intro!: keeps_rules)
  then show ?thesis unfolding apply_interval_rows_def by (intro keeps_mapE)
qed

lemma keeps_warm_instrument [keeps_rules]:
  assumes env: "env_ok good J env"
  shows "keeps lawful (warm_instrument env a ins)"
proof -
  have funding: "gives lawful (\<lambda>r. \<forall>y. r = Inr (Some y) \<longrightarrow> good (Receive (FundingEvent y)))
      (await env (\<lambda>n. Inr (net_funding env n a ins)))"
    by (rule gives_await [OF env]) (use env in \<open>auto simp: env_ok_def answers_ok_def\<close>)
  have interest: "gives lawful (\<lambda>r. \<forall>y. r = Inr (Some y) \<longrightarrow> good (Receive (OpenInterestEvent y)))
      (await env (\<lambda>n. Inr (net_open_interest env n a ins)))"
    by (rule gives_await [OF env]) (use env in \<open>auto simp: env_ok_def answers_ok_def\<close>)
  show ?thesis
    unfolding warm_instrument_def
    apply (rule keeps_bindE, rule keeps_getE)
    apply (rule keeps_bind_gives [OF gives_ticker [OF env]])
    apply (rule keeps_bind_gives [OF gives_snapshot [OF env]])
    apply (rule keeps_bind_gives [OF gives_trades [OF env]])
    apply (rule keeps_bindE, rule keeps_adapter_intervals)
    apply (rule keeps_bind_gives [OF gives_warm_candles [OF env]])
    apply (rule keeps_bind_gives [OF funding])
    apply (rule keeps_bind_gives [OF interest])
    apply (rule keeps_bind_gives [OF gives_optional [where ev = FundingEvent]], blast)
    apply (rule keeps_bind_gives [OF gives_optional [where ev = OpenInterestEvent]], blast)
    by (intro keeps_rules) auto
qed

lemma keeps_warm_adapter [keeps_rules]: "env_ok good J env \<Longrightarrow> keeps lawful (warm_adapter env a inss)"
  unfolding warm_adapter_def by (intro keeps_rules)

lemma keeps_register_adapter [keeps_rules]: "keeps lawful (register_adapter a found)"
  unfolding register_adapter_def Let_def by (intro keeps_rules) simp_all

lemma keeps_initialize [keeps_rules]:
  assumes "env_ok good J env"
  shows "keeps lawful (initialize env)"
proof -
  have "keeps lawful (warm_all env)"
    unfolding warm_all_def by (intro keeps_rules assms)
  then show ?thesis
    unfolding initialize_def using assms by (intro keeps_rules) simp_all
qed

lemma keeps_count_stale [keeps_rules]: "keeps lawful (count_stale e)"
  unfolding count_stale_def by (intro keeps_rules) simp_all

lemma keeps_reject [keeps_rules]: "keeps lawful (reject_event e r recycle)"
  unfolding reject_event_def Let_def by (intro keeps_rules) simp_all

lemma keeps_backfill [keeps_rules]:
  assumes "env_ok good J env"
  shows "keeps lawful (backfill_candle_gap env c)"
  unfolding backfill_candle_gap_def Let_def
  by (intro keeps_rules keeps_bind_gives [OF gives_candles [OF assms]])

lemma keeps_resync [keeps_rules]:
  assumes "env_ok good J env"
  shows "keeps lawful (resync_order_book env ins)"
  unfolding resync_order_book_def
  by (intro keeps_rules keeps_bind_gives [OF gives_snapshot [OF assms]] assms) simp_all

lemma keeps_bridge_record [keeps_rules]: "keeps lawful (record_order_book_bridge e)"
  unfolding record_order_book_bridge_def Let_def by (intro keeps_rules) simp_all

lemma keeps_process_event [keeps_rules]:
  assumes "env_ok good J env" and "good (Receive e)"
  shows "keeps lawful (process_event env e recycle)"
proof -
  have gap: "keeps lawful (book_gap env e recycle)"
    unfolding book_gap_def Let_def by (intro keeps_rules assms)
  have applied: "keeps lawful (event_applied env e b applied)" for b applied
    unfolding event_applied_def by (intro keeps_rules assms)
  have failed: "keeps lawful (case f of Raised x \<Rightarrow> if is_out_of_sync x \<and> is_delta e then
      book_gap env e recycle else raise (Raised x) | _ \<Rightarrow> raise f)" for f
    using gap by (cases f) (auto intro!: keeps_rules)
  have candle: "keeps lawful (case e of CandleEvent c \<Rightarrow> backfill_candle_gap env c | _ \<Rightarrow> ret ())"
    using assms(1) by (cases e) (auto intro!: keeps_rules)
  have "keeps lawful (accept_event env e recycle)"
    unfolding accept_event_def
    using candle applied failed assms gap
    by (intro keeps_rules) (auto intro!: keeps_rules split: sum.split failure.split)
  then show ?thesis
    unfolding process_event_def by (intro keeps_rules)
qed

section \<open>Recovery and streams\<close>

lemma keeps_stagger [keeps_rules]: "env_ok good J env \<Longrightarrow> keeps lawful (stagger_recovery env a)"
  unfolding stagger_recovery_def by (intro keeps_rules)

lemma keeps_recovery_candles [keeps_rules]:
  "env_ok good J env \<Longrightarrow> \<forall>c \<in> set cs. good (Receive (CandleEvent c)) \<Longrightarrow>
     keeps lawful (apply_recovery_candles env cs n)"
proof (induction cs arbitrary: n)
  case (Cons c cs)
  then have "keeps lawful (apply_recovery_candles env cs m)" for m by simp
  with Cons.prems show ?case by (auto intro!: keeps_rules)
qed (simp add: keeps_ret)

lemma keeps_backfill_interval [keeps_rules]:
  assumes "env_ok good J env"
  shows "keeps lawful (backfill_interval env a outage ins i)"
  unfolding backfill_interval_def
  by (intro keeps_rules keeps_bind_gives [OF gives_candles [OF assms]] assms) simp

lemma keeps_backfill_recovery [keeps_rules]:
  "env_ok good J env \<Longrightarrow> keeps lawful (backfill_recovery_candles env a inss outage)"
  unfolding backfill_recovery_candles_def by (intro keeps_rules)

lemma keeps_recover_adapter [keeps_rules]:
  assumes "env_ok good J env"
  shows "keeps lawful (recover_adapter env a inss mode outage)"
proof -
  have "keeps lawful (resync_if_pending env ins)" for ins
    unfolding resync_if_pending_def by (intro keeps_rules assms) simp_all
  then show ?thesis
    unfolding recover_adapter_def using assms by (cases mode) (auto intro!: keeps_rules)
qed

lemma keeps_plain_stream [keeps_rules]:
  assumes "env_ok good J env" and "stream_ok good st"
  shows "keeps lawful (consume_plain_stream env st)"
proof -
  have "gives lawful (\<lambda>x. good (Receive x)) (yield_event env e)" if "e \<in> set (yields st)" for e
    unfolding yield_event_def
    by (rule gives_await [OF assms(1)]) (use that assms(2) in \<open>auto simp: stream_ok_def\<close>)
  then have "keeps lawful (bindE (yield_event env e) (\<lambda>e. process_event env e True))"
    if "e \<in> set (yields st)" for e
    using that by (intro keeps_bind_gives keeps_process_event assms(1))
  then show ?thesis
    unfolding consume_plain_stream_def
    by (intro keeps_thenE keeps_mapE keeps_await assms(1))
qed

lemma gives_take_item:
  assumes "env_ok good J env" and "item_ok good i"
  shows "gives lawful (\<lambda>e. good (Receive e)) (take_item env a i)"
proof -
  have "gives lawful (\<lambda>e. good (Receive e)) (case i of Event e \<Rightarrow> ret e | Termination (Some x) \<Rightarrow> raise (Raised x)
      | Termination None \<Rightarrow> raise (Raised (RuntimeError ''Public market-data stream ended unexpectedly'')))"
    using assms(2) by (auto simp: item_ok_def split: queue_item.splits option.splits intro!: gives_ret gives_raise)
  then show ?thesis
    unfolding take_item_def thenE_def by (intro gives_bind_keeps keeps_rules assms(1))
qed

text \<open>The buffer and the items left of admissible items are admissible.\<close>

lemma gives_fill_buffer:
  "env_ok good J env \<Longrightarrow> \<forall>i \<in> set items. item_ok good i \<Longrightarrow> \<forall>e \<in> set buffered. good (Receive e) \<Longrightarrow>
    gives lawful (\<lambda>(es, rest). (\<forall>e \<in> set es. good (Receive e)) \<and> (\<forall>i \<in> set rest. item_ok good i))
      (fill_buffer env a message waiting buffered items)"
proof (induction env a message waiting buffered items rule: fill_buffer.induct)
  case (2 env a message w waiting buffered item items)
  have "gives lawful (\<lambda>e. good (Receive e)) (take_item env a item)"
    by (rule gives_take_item) (use 2 in auto)
  moreover have "gives lawful (\<lambda>(es, rest). (\<forall>e \<in> set es. good (Receive e)) \<and> (\<forall>i \<in> set rest. item_ok good i))
      (if BOOTSTRAP_BUFFER_SIZE \<le> length (buffered @ [e]) then raise (Raised (RuntimeError message))
       else fill_buffer env a message
         (if is_delta e then removeAll (event_instrument e) (w # waiting) else w # waiting)
         (buffered @ [e]) items)" if "good (Receive e)" for e
    using 2 that by (cases "BOOTSTRAP_BUFFER_SIZE \<le> length (buffered @ [e])") (auto intro: gives_raise)
  ultimately show ?case unfolding fill_buffer.simps by (rule gives_bindE)
qed (auto intro!: gives_ret)

lemma keeps_process_all [keeps_rules]:
  "env_ok good J env \<Longrightarrow> \<forall>e \<in> set es. good (Receive e) \<Longrightarrow>
     keeps lawful (mapE (\<lambda>e. process_event env e recycle) es)"
  by (auto intro!: keeps_mapE keeps_process_event)

lemma keeps_drain [keeps_rules]:
  assumes "env_ok good J env" and "\<forall>i \<in> set items. item_ok good i"
  shows "keeps lawful (drain_items env a recycle items)"
  unfolding drain_items_def
  by (intro keeps_mapE keeps_bind_gives [OF gives_take_item] keeps_process_event assms(1))
     (use assms(2) in auto)

lemma keeps_finally_empty [keeps_rules]: "keeps lawful m \<Longrightarrow> keeps lawful (finally_empty a m)"
  unfolding finally_empty_def by (intro keeps_rules)

lemma keeps_with_bootstrap [keeps_rules]:
  assumes "env_ok good J env" and "stream_ok good st"
  shows "keeps lawful (consume_with_bootstrap env a inss st)"
proof -
  let ?P = "\<lambda>b. good (Receive (SnapshotEvent b)) \<and> (\<forall>bridge. good (BridgeSnapshot b bridge))"
  have snaps: "gives lawful (\<lambda>bs. \<forall>b \<in> set bs. ?P b)
      (collectE (\<lambda>ins. await env (\<lambda>n. net_snapshot env n a ins d)) inss)" for d
    by (intro gives_collectE gives_snapshot assms)
  have apply_all: "keeps lawful (mapE (\<lambda>snap. bindE (apply_book_snapshot a snap) (\<lambda>_. ret ())) bs)"
    if "\<forall>b \<in> set bs. ?P b" for bs
    using that by (intro keeps_rules) blast
  show ?thesis
    unfolding consume_with_bootstrap_def
    by (intro keeps_finally_empty keeps_bind_gives [OF gives_fill_buffer [OF assms(1)]] keeps_bindE
          keeps_getE keeps_bind_gives [OF snaps] queue_items_ok assms)
       (auto intro!: keeps_rules keeps_bind_gives [OF snaps] apply_all simp: assms)
qed

lemma keeps_bridge_book [keeps_rules]:
  assumes "env_ok good J env" and "\<forall>i \<in> set items. item_ok good i"
  shows "keeps lawful (bridge_book env a ins items)"
  unfolding bridge_book_def
  by (intro keeps_bind_gives [OF gives_fill_buffer [OF assms(1)]] assms)
     (auto intro!: keeps_rules keeps_bind_gives [OF gives_snapshot [OF assms(1)]] simp: assms)

lemma keeps_public_context [keeps_rules]:
  "env_ok good J env \<Longrightarrow> stream_ok good st \<Longrightarrow> keeps lawful (consume_public_context env a inss st)"
  unfolding consume_public_context_def by (intro keeps_rules items_for_ok)

lemma keeps_lane_turn [keeps_rules]:
  assumes "env_ok good J env" and "stream_ok good st"
  shows "keeps lawful (lane_turn env a inss l ls st)"
proof -
  have "keeps lawful (consume_lane env a inss l st)"
    unfolding consume_lane_def by (intro keeps_rules assms)
  moreover have "keeps lawful (recover_lane env a inss outage)" for outage
    unfolding recover_lane_def by (intro keeps_rules assms)
  moreover have "keeps lawful (lane_outage env since)" for since
    unfolding lane_outage_def by (intro keeps_rules)
  ultimately show ?thesis
    unfolding lane_turn_def Let_def by (intro keeps_rules assms)
qed

lemma keeps_lanes [keeps_rules]:
  assumes "env_ok good J env"
  shows "\<forall>(l, st) \<in> set turns. stream_ok good st \<Longrightarrow> keeps lawful (consume_lanes env a inss states turns)"
  using assms
  by (induction env a inss states turns rule: consume_lanes.induct) (auto intro!: keeps_rules)

lemma keeps_generation [keeps_rules]:
  assumes "env_ok good J env" and "generation_ok good g"
  shows "keeps lawful (consume_generation env a inss g)"
  using assms unfolding consume_generation_def generation_ok_def
  by (auto intro!: keeps_rules split: stream_lanes.splits)

lemma keeps_disconnect [keeps_rules]: "keeps lawful (disconnect_books a inss)"
  using keeps_step [OF good_invalidate]
  unfolding disconnect_books_def Let_def by (intro keeps_rules keeps_modifyE) (auto split: if_splits)

lemma keeps_recover_state [keeps_rules]:
  "env_ok good J env \<Longrightarrow> keeps lawful (recover_state env a inss ls)"
  unfolding recover_state_def by (intro keeps_rules)

lemma keeps_consume_turn [keeps_rules]:
  assumes "env_ok good J env" and "generation_ok good g"
  shows "keeps lawful (consume_turn env a override ls g)"
proof -
  have attempt: "keeps lawful (try_generation env a inss ls g)" for inss
    unfolding try_generation_def by (intro keeps_rules assms)
  have marked: "keeps lawful (mark_failure a inss f)" for inss f
    unfolding mark_failure_def by (cases f) (auto intro!: keeps_rules)
  have "keeps lawful (after_failure env a inss ls started f)" for inss started f
    unfolding after_failure_def Let_def by (intro keeps_rules marked)
  with attempt show ?thesis
    unfolding consume_turn_def by (intro keeps_rules assms)
qed

lemma keeps_consume_forever [keeps_rules]:
  assumes "env_ok good J env"
  shows "\<forall>g \<in> set gs. generation_ok good g \<Longrightarrow> keeps lawful (consume_forever env a override ls gs)"
  using assms
  by (induction env a override ls gs rule: consume_forever.induct) (auto intro!: keeps_rules)

section \<open>Candidates, baselines, health\<close>

lemma keeps_install_prepared:
  assumes "rows_ok (prep_rows p)" and "\<And>b. prep_book p = Some b \<Longrightarrow> good (Receive (SnapshotEvent b))"
  shows "keeps lawful (install_prepared a p)"
  unfolding install_prepared_def using assms by (intro keeps_rules) auto

abbreviation prepared_ok :: "prepared_instrument \<Rightarrow> bool" where
  "prepared_ok p \<equiv> rows_ok (prep_rows p) \<and> (\<forall>b. prep_book p = Some b \<longrightarrow> good (Receive (SnapshotEvent b)))"

lemma gives_prepare_instrument:
  assumes "env_ok good J env"
  shows "gives lawful prepared_ok (prepare_instrument env symbol a)"
proof -
  have book: "gives lawful (\<lambda>x. \<forall>b. x = Some b \<longrightarrow> good (Receive (SnapshotEvent b)))
      (if has_realtime_context a
       then bindE (await env (\<lambda>n. net_snapshot env n a ins d)) (\<lambda>b. ret (Some b)) else ret None)" for ins d
    by (auto intro!: gives_ret gives_bindE [OF gives_snapshot [OF assms]])
  have "gives lawful prepared_ok (bindE (adapter_intervals a) (\<lambda>is.
      bindE (warm_candles env a ins is) (\<lambda>rows.
      bindE (getE (\<lambda>s. set_order_book_depth (settings s))) (\<lambda>depth.
      bindE (if has_realtime_context a
             then bindE (await env (\<lambda>n. net_snapshot env n a ins depth)) (\<lambda>b. ret (Some b)) else ret None)
       (\<lambda>book. ret \<lparr>prep_adapter = a, prep_instrument = ins, prep_rows = rows, prep_book = book\<rparr>)))))" for ins
    by (intro gives_bind_keeps keeps_adapter_intervals keeps_getE gives_bindE [OF gives_warm_candles [OF assms]]
          gives_bindE [OF book] gives_ret) auto
  then show ?thesis
    unfolding prepare_instrument_def by (auto intro!: gives_raise split: option.splits sum.splits)
qed

lemma prepared_for_ok: "\<forall>p \<in> set ps. prepared_ok p \<Longrightarrow> \<forall>(ins, p) \<in> set (prepared_for ps a). prepared_ok p"
  unfolding prepared_for_def
  by (rule alist_fold_values [where P = prepared_ok]) (meson filter_is_subset subsetD, simp)

lemma keeps_install_all:
  assumes "env_ok good J env" and "\<forall>p \<in> set ps. prepared_ok p"
  shows "keeps lawful (install_all env ps gone)"
proof -
  have "keeps lawful (case q of (_, p) \<Rightarrow> install_prepared a p)" if "q \<in> set (prepared_for ps a)" for q a
  proof -
    obtain ins p where q: "q = (ins, p)" by force
    with prepared_for_ok [OF assms(2)] that have "prepared_ok p" by blast
    then show ?thesis unfolding q by (auto intro: keeps_install_prepared)
  qed
  then have installs: "keeps lawful (mapE (\<lambda>a. mapE (\<lambda>(_, p). install_prepared a p) (prepared_for ps a)) adpts)" for adpts
    by (intro keeps_mapE) blast
  have subscribes: "keeps lawful (mapE (subscribe_final env gone) finals)" for finals
    unfolding subscribe_final_def by (intro keeps_rules assms(1)) simp
  show ?thesis
    unfolding install_all_def
    by (rule keeps_bindE, rule keeps_getE, rule keeps_thenE, rule installs)
       (intro keeps_bindE keeps_getE keeps_case_prod keeps_thenE subscribes, intro keeps_rules assms(1))
qed

lemma keeps_prepare_and_install [keeps_rules]:
  assumes "env_ok good J env"
  shows "keeps lawful (prepare_and_install env target new gone same)"
proof -
  have "gives lawful (\<lambda>ps. \<forall>p \<in> set ps. prepared_ok p) (prepare_added env new)"
    unfolding prepare_added_def
    by (intro gives_bind_keeps keeps_getE gives_collectE) (auto intro: gives_prepare_instrument assms)
  moreover have "keeps lawful (finish_reconcile env target new gone same r)"
    if "\<forall>ps. r = Inr ps \<longrightarrow> (\<forall>p \<in> set ps. prepared_ok p)" for r
    using that keeps_install_all [OF assms]
    unfolding finish_reconcile_def by (cases r) (auto intro!: keeps_rules)
  ultimately show ?thesis
    unfolding prepare_and_install_def by (intro keeps_bind_gives [OF gives_tryE])
qed

lemma keeps_reconcile [keeps_rules]: "env_ok good J env \<Longrightarrow> keeps lawful (reconcile env target)"
  unfolding reconcile_def Let_def by (intro keeps_rules)

lemma keeps_baseline_round [keeps_rules]:
  assumes "env_ok good J env"
  shows "keeps lawful (baseline_round env)"
proof -
  have "keeps lawful (install_baseline r)"
    if "\<forall>cs. r = Inr cs \<longrightarrow> (\<forall>c \<in> set cs. good (Receive (CandleEvent c)))" for r
    using that unfolding install_baseline_def by (cases r) (auto intro!: keeps_rules)
  then have "keeps lawful (bindE (tryE (await env (\<lambda>n. net_candles env n a ins i 2))) install_baseline)" for a ins i
    by (intro keeps_bind_gives [OF gives_tryE [OF gives_candles [OF assms]]])
  then have "keeps lawful (refresh_baseline env a now ins i)" for a now ins i
    unfolding refresh_baseline_def
    by (intro keeps_bindE [OF keeps_getE] keeps_case_sum keeps_if keeps_raise keeps_ret)
  then show ?thesis
    unfolding baseline_round_def Let_def by (intro keeps_rules)
qed

lemma keeps_health_probe [keeps_rules]:
  "env_ok good J env \<Longrightarrow> keeps lawful (health_probe env p)"
  unfolding health_probe_def Let_def by (intro keeps_rules) simp_all

lemma keeps_close [keeps_rules]: "env_ok good J env \<Longrightarrow> keeps lawful (close_supervisor env)"
  unfolding close_supervisor_def by (intro keeps_rules) simp

end

end
