(* ===== verification/Py_Numerals.thy ===== *)
theory Py_Numerals
  imports Py_Values Py_Decimal
begin

text \<open>
  What Python's \<open>str\<close>, \<open>int\<close> and \<open>decimal.Decimal\<close> make of a dynamic value, as far as the
  modules that read venue messages and specifications use them. \<open>str\<close> of a float or of a
  container is a parameter \<open>repr\<close>. The texts \<open>NaN\<close> and \<open>Infinity\<close> are no numerals here: a decimal
  of the model is finite.
\<close>

section \<open>Numerals\<close>

definition digits_value :: "string \<Rightarrow> int" where
  "digits_value s = foldl (\<lambda>n c. 10 * n + (of_char c - 48)) 0 s"

definition split_sign :: "string \<Rightarrow> bool \<times> string" where
  "split_sign s = (case s of
       [] \<Rightarrow> (False, [])
     | c # cs \<Rightarrow> if c = CHR ''-'' then (True, cs) else if c = CHR ''+'' then (False, cs) else (False, c # cs))"

definition signed :: "bool \<Rightarrow> 'a :: uminus \<Rightarrow> 'a" where
  "signed neg x = (if neg then - x else x)"

definition all_digits :: "string \<Rightarrow> bool" where
  "all_digits s \<longleftrightarrow> s \<noteq> [] \<and> list_all is_digit_ascii s"

definition signed_digits :: "string \<Rightarrow> int option" where
  "signed_digits s = (case split_sign s of (neg, ds) \<Rightarrow>
     if all_digits ds then Some (signed neg (digits_value ds)) else None)"

text \<open>\<open>int(s)\<close>: an underscore may stand between two digits.\<close>

definition int_of_string :: "string \<Rightarrow> exn + int" where
  "int_of_string s = (case split_sign (strip s) of (neg, ds) \<Rightarrow>
     let groups = str_split CHR ''_'' ds in
     if list_all all_digits groups then Inr (signed neg (digits_value (concat groups)))
     else Inl (ValueError ''invalid literal for int() with base 10''))"

text \<open>\<open>Decimal(s)\<close>: the digits of the mantissa and the exponent of a finite numeral.\<close>

definition mantissa_digits :: "string \<Rightarrow> (string \<times> string) option" where
  "mantissa_digits m = (let whole = takeWhile is_digit_ascii m; rest = drop (length whole) m in
     case rest of
       [] \<Rightarrow> if whole = [] then None else Some (whole, [])
     | c # places \<Rightarrow>
         if c = CHR ''.'' \<and> list_all is_digit_ascii places \<and> whole @ places \<noteq> [] then Some (whole, places)
         else None)"

definition exponent_of :: "string \<Rightarrow> int option" where
  "exponent_of rest = (case rest of [] \<Rightarrow> Some 0 | _ # ds \<Rightarrow> signed_digits ds)"

definition not_exponent_sign :: "char \<Rightarrow> bool" where
  "not_exponent_sign c \<longleftrightarrow> c \<noteq> CHR ''e'' \<and> c \<noteq> CHR ''E''"

definition decimal_of_string :: "string \<Rightarrow> exn + decimal" where
  "decimal_of_string s = (case split_sign (filter (\<lambda>c. c \<noteq> CHR ''_'') (strip s)) of (neg, body) \<Rightarrow>
     let m = takeWhile not_exponent_sign body in
     case (mantissa_digits m, exponent_of (drop (length m) body)) of
       (Some (whole, places), Some e) \<Rightarrow>
         Inr (signed neg (of_int (digits_value (whole @ places)) * pow10 (e - int (length places))))
     | _ \<Rightarrow> Inl (InvalidOperation ''decimal.ConversionSyntax''))"

section \<open>Dynamic values\<close>

definition str_of_value :: "(pyval \<Rightarrow> string) \<Rightarrow> pyval \<Rightarrow> string" where
  "str_of_value repr v = (case v of
       PStr s \<Rightarrow> s
     | PInt i \<Rightarrow> str_of_int i
     | PBool b \<Rightarrow> if b then ''True'' else ''False''
     | PNone \<Rightarrow> ''None''
     | _ \<Rightarrow> repr v)"

definition truncate_float :: "pyfloat \<Rightarrow> exn + int" where
  "truncate_float f = (case f of
       Fin r \<Rightarrow> Inr (if 0 \<le> r then \<lfloor>r\<rfloor> else \<lceil>r\<rceil>)
     | NaN \<Rightarrow> Inl (ValueError ''cannot convert float NaN to integer'')
     | _ \<Rightarrow> Inl (OverflowError ''cannot convert float infinity to integer''))"

definition int_of_value :: "pyval \<Rightarrow> exn + int" where
  "int_of_value v = (case v of
       PInt i \<Rightarrow> Inr i
     | PBool b \<Rightarrow> Inr (if b then 1 else 0)
     | PFloat f \<Rightarrow> truncate_float f
     | PStr s \<Rightarrow> int_of_string s
     | _ \<Rightarrow> Inl (TypeError ''int() argument must be a string or a real number''))"

definition truthy_value :: "pyval \<Rightarrow> bool" where
  "truthy_value v = (case v of
       PNone \<Rightarrow> False
     | PBool b \<Rightarrow> b
     | PInt i \<Rightarrow> i \<noteq> 0
     | PFloat f \<Rightarrow> f \<noteq> Fin 0
     | PStr s \<Rightarrow> s \<noteq> []
     | PList xs \<Rightarrow> xs \<noteq> []
     | PDict d \<Rightarrow> d \<noteq> [])"

text \<open>\<open>v == 1\<close>\<close>

definition equals_one :: "pyval \<Rightarrow> bool" where
  "equals_one v \<longleftrightarrow> v = PInt 1 \<or> v = PBool True \<or> v = PFloat (Fin 1)"

definition dict_get_or :: "(string \<times> pyval) list \<Rightarrow> string \<Rightarrow> pyval \<Rightarrow> pyval" where
  "dict_get_or d k v = (case map_of d k of None \<Rightarrow> v | Some x \<Rightarrow> x)"

definition dict_item :: "(string \<times> pyval) list \<Rightarrow> string \<Rightarrow> exn + pyval" where
  "dict_item d k = (case map_of d k of None \<Rightarrow> Inl (KeyError k) | Some x \<Rightarrow> Inr x)"

text \<open>The elements a \<open>for\<close> loop over a dynamic value takes, and \<open>v.get\<close>, which only a dict has.\<close>

definition iterate :: "pyval \<Rightarrow> exn + pyval list" where
  "iterate v = (case v of
       PList xs \<Rightarrow> Inr xs
     | PStr s \<Rightarrow> Inr (map (\<lambda>c. PStr [c]) s)
     | PDict d \<Rightarrow> Inr (map (PStr \<circ> fst) d)
     | _ \<Rightarrow> Inl (TypeError ''object is not iterable''))"

definition as_mapping :: "pyval \<Rightarrow> exn + (string \<times> pyval) list" where
  "as_mapping v = (case v of
       PDict d \<Rightarrow> Inr d
     | _ \<Rightarrow> Inl (AttributeError ''get''))"

definition bind_sum :: "'e + 'a \<Rightarrow> ('a \<Rightarrow> 'e + 'b) \<Rightarrow> 'e + 'b" where
  "bind_sum x f = (case x of Inl e \<Rightarrow> Inl e | Inr a \<Rightarrow> f a)"

lemma bind_sum_simps [simp]: "bind_sum (Inl e) f = Inl e" "bind_sum (Inr a) f = f a"
  by (simp_all add: bind_sum_def)

lemma bind_sum_Inr: "bind_sum x f = Inr b \<longleftrightarrow> (\<exists>a. x = Inr a \<and> f a = Inr b)"
  by (cases x) simp_all

text \<open>
  \<open>datetime.fromtimestamp(ms / 1000, tz=UTC)\<close>: the float quotient is rounded to microseconds,
  which gives the millisecond itself up to the year 2242.
\<close>

definition from_milliseconds :: "pyval \<Rightarrow> exn + datetime" where
  "from_milliseconds v = bind_sum (int_of_value v) (\<lambda>ms.
     if - 62135596800000 \<le> ms \<and> ms < 253402300800000 then Inr (Datetime (ms * 1000))
     else Inl (ValueError ''year is out of range''))"

lemma signed_abs [simp]: "\<bar>signed neg (x :: rat)\<bar> = \<bar>x\<bar>"
  by (simp add: signed_def)

text \<open>Without a sign and an exponent, a numeral is the number its digits say.\<close>

lemma takeWhile_digits: "list_all is_digit_ascii s \<Longrightarrow> takeWhile is_digit_ascii s = s"
  by (simp add: list_all_iff takeWhile_eq_all_conv)

lemma digits_value_append: "digits_value (s @ [c]) = 10 * digits_value s + (of_char c - 48)"
  by (simp add: digits_value_def)

lemma str_of_nat_digits: "all_digits (str_of_nat n)" and digits_value_str: "digits_value (str_of_nat n) = int n"
proof (induction n rule: str_of_nat.induct)
  case (1 n)
  have digit: "is_digit_ascii (char_of (48 + k)) \<and> of_char (char_of (48 + k) :: char) - (48 :: int) = int k"
    if "k < 10" for k :: nat
  proof -
    have "(of_char (char_of (48 + k) :: char) :: int) = int (of_char (char_of (48 + k) :: char))"
      by (rule of_nat_of_char [symmetric])
    also have "\<dots> = int (48 + k)" using that by (simp del: of_nat_of_char)
    finally show ?thesis using that by (simp add: is_digit_ascii_def)
  qed
  {
    case 1
    show ?case using digit [of n] digit [of "n mod 10"] "1.IH"(1)
      by (subst str_of_nat.simps) (auto simp: all_digits_def)
  next
    case 2
    show ?case using digit [of n] digit [of "n mod 10"] "1.IH"(2)
      by (subst str_of_nat.simps) (auto simp: digits_value_append zdiv_int zmod_int, simp add: digits_value_def)
  }
qed

end
