(* ===== verification/Universe.thy ===== *)
theory Universe
  imports Py_Numerals "HOL-Library.Product_Lexorder"
begin

text \<open>
  src/src/quant_signal_agent/universe/binance.py: \<open>BinanceCandidateScanner\<close>, which ranks the
  venue's symbols by the messages of its all-market streams, and
  src/src/quant_signal_agent/universe/pool.py: \<open>CandidatePool\<close>, which keeps a bounded set of them.

  A message is a dynamic value; the transport's answers, the clock and \<open>repr\<close> are parameters.
\<close>

section \<open>Data\<close>

record candidate_metric =
  canonical_symbol :: string
  metric_observed_at :: datetime
  quote_volume_24h :: decimal
  quote_volume_velocity :: decimal
  trade_count_velocity :: decimal
  absolute_price_return :: decimal
  metric_spread_bps :: decimal
  metric_bid_notional :: decimal
  metric_ask_notional :: decimal

record candidate_snapshot =
  snapshot_observed_at :: datetime
  candidates :: "candidate_metric list"

definition snapshot_symbols :: "candidate_snapshot \<Rightarrow> string list" where
  "snapshot_symbols s = map canonical_symbol (candidates s)"

record ticker_point =
  tp_observed_at :: datetime
  tp_price :: decimal
  tp_quote_volume :: decimal
  tp_trade_count :: int

record book_point =
  bp_observed_at :: datetime
  bp_spread_bps :: decimal
  bp_bid_notional :: decimal
  bp_ask_notional :: decimal

record scanner =
  lookback_seconds :: int
  emission_seconds :: int
  book_stale_seconds :: int
  candidate_limit :: int
  minimum_quote_volume_24h :: decimal
  maximum_spread_bps :: decimal
  minimum_best_level_notional :: decimal
  excluded :: "string set"
  allowed_symbols :: "string set"
  ticker_history :: "(string \<times> ticker_point list) list"
  books :: "string \<Rightarrow> book_point option"

text \<open>The standard library's \<open>repr\<close>, and \<open>int(t.timestamp() * 1000)\<close>, which goes through floats.\<close>

record scan_env =
  repr_of :: "pyval \<Rightarrow> string"
  timestamp_ms :: "datetime \<Rightarrow> int"

definition new_scanner ::
  "int \<Rightarrow> int \<Rightarrow> int \<Rightarrow> int \<Rightarrow> decimal \<Rightarrow> decimal \<Rightarrow> decimal \<Rightarrow> string list \<Rightarrow> exn + scanner"
where
  "new_scanner lookback emission stale limit volume spread notional excl =
     (if Min {lookback, emission, stale, limit} < 1
      then Inl (ValueError ''Scanner timing and candidate limit must be positive'')
      else if volume < 0 \<or> spread \<le> 0 \<or> notional < 0
      then Inl (ValueError ''Scanner liquidity filters are invalid'')
      else Inr \<lparr>lookback_seconds = lookback, emission_seconds = emission, book_stale_seconds = stale,
        candidate_limit = limit, minimum_quote_volume_24h = volume, maximum_spread_bps = spread,
        minimum_best_level_notional = notional, excluded = set excl, allowed_symbols = {},
        ticker_history = [], books = Map.empty\<rparr>)"

section \<open>Discovery\<close>

text \<open>One row of an exchange-info response: the symbol, where the conditions hold.\<close>

definition row_symbol ::
  "scan_env \<Rightarrow> ((string \<times> pyval) list \<Rightarrow> bool) \<Rightarrow> pyval \<Rightarrow> exn + string list"
where
  "row_symbol env ok row = bind_sum (as_mapping row) (\<lambda>r.
     if ok r then bind_sum (dict_item r ''symbol'') (\<lambda>v. Inr [str_of_value (repr_of env) v]) else Inr [])"

definition futures_row :: "(string \<times> pyval) list \<Rightarrow> bool" where
  "futures_row r \<longleftrightarrow> dict_get r ''contractType'' = PStr ''PERPETUAL'' \<and>
     dict_get r ''status'' = PStr ''TRADING'' \<and> dict_get r ''quoteAsset'' = PStr ''USDT''"

definition spot_row :: "(string \<times> pyval) list \<Rightarrow> bool" where
  "spot_row r \<longleftrightarrow> dict_get r ''status'' = PStr ''TRADING'' \<and> dict_get r ''quoteAsset'' = PStr ''USDT'' \<and>
     truthy_value (dict_get_or r ''isSpotTradingAllowed'' (PBool True))"

definition row_symbols ::
  "scan_env \<Rightarrow> ((string \<times> pyval) list \<Rightarrow> bool) \<Rightarrow> (string \<times> pyval) list \<Rightarrow> exn + string set"
where
  "row_symbols env ok payload =
     bind_sum (iterate (dict_get_or payload ''symbols'' (PList []))) (\<lambda>rows.
     bind_sum (traverse (row_symbol env ok) rows) (\<lambda>found. Inr (set (concat found))))"

definition discover_symbols ::
  "scan_env \<Rightarrow> exn + pyval \<Rightarrow> exn + pyval \<Rightarrow> (scanner, string set) eff"
where
  "discover_symbols env futures_answer spot_answer = (case futures_answer of
       Inl e \<Rightarrow> raise e
     | Inr futures \<Rightarrow> (case spot_answer of
         Inl e \<Rightarrow> raise e
       | Inr spot \<Rightarrow> (case (futures, spot) of
           (PDict f, PDict s) \<Rightarrow> (case row_symbols env futures_row f of
               Inl e \<Rightarrow> raise e
             | Inr fs \<Rightarrow> (case row_symbols env spot_row s of
                 Inl e \<Rightarrow> raise e
               | Inr ss \<Rightarrow> thenE (modifyE (\<lambda>c. c\<lparr>allowed_symbols := fs \<inter> ss\<rparr>)) (ret (fs \<inter> ss))))
         | _ \<Rightarrow> raise (ValueError ''Binance exchange-info response must be an object''))))"

section \<open>Messages\<close>

definition decimal_item :: "scan_env \<Rightarrow> (string \<times> pyval) list \<Rightarrow> string \<Rightarrow> exn + decimal" where
  "decimal_item env row k =
     bind_sum (dict_item row k) (\<lambda>v. decimal_of_string (str_of_value (repr_of env) v))"

text \<open>\<open>except (KeyError, TypeError, ValueError)\<close>\<close>

fun is_row_error :: "exn \<Rightarrow> bool" where
  "is_row_error (KeyError _) = True"
| "is_row_error (TypeError _) = True"
| "is_row_error (ValueError _) = True"
| "is_row_error _ = False"

definition parse_ticker :: "scan_env \<Rightarrow> (string \<times> pyval) list \<Rightarrow> datetime \<Rightarrow> exn + ticker_point" where
  "parse_ticker env row t =
     bind_sum (decimal_item env row ''c'') (\<lambda>price.
     bind_sum (decimal_item env row ''q'') (\<lambda>volume.
     bind_sum (bind_sum (dict_item row ''n'') int_of_value) (\<lambda>count.
     Inr \<lparr>tp_observed_at = t, tp_price = price, tp_quote_volume = volume, tp_trade_count = count\<rparr>)))"

definition extend_history :: "int \<Rightarrow> ticker_point list \<Rightarrow> ticker_point \<Rightarrow> ticker_point list" where
  "extend_history lookback h p =
     (if h \<noteq> [] \<and> tp_observed_at p < tp_observed_at (last h) then h
      else dropWhile (\<lambda>q. tp_observed_at q < dt_add (tp_observed_at p) (- seconds (lookback * 2))) (h @ [p]))"

definition history_of :: "scanner \<Rightarrow> string \<Rightarrow> ticker_point list" where
  "history_of s code = (case map_of (ticker_history s) code of None \<Rightarrow> [] | Some h \<Rightarrow> h)"

definition record_ticker ::
  "scan_env \<Rightarrow> string \<Rightarrow> (string \<times> pyval) list \<Rightarrow> datetime \<Rightarrow> (scanner, unit) eff"
where
  "record_ticker env code row t = (case parse_ticker env row t of
       Inl e \<Rightarrow> if is_row_error e then ret () else raise e
     | Inr p \<Rightarrow> modifyE (\<lambda>s. s\<lparr>ticker_history :=
         AList.update code (extend_history (lookback_seconds s) (history_of s code) p) (ticker_history s)\<rparr>))"

definition parse_book :: "scan_env \<Rightarrow> (string \<times> pyval) list \<Rightarrow> exn + decimal \<times> decimal \<times> decimal \<times> decimal" where
  "parse_book env row =
     bind_sum (decimal_item env row ''b'') (\<lambda>bid.
     bind_sum (decimal_item env row ''a'') (\<lambda>ask.
     bind_sum (decimal_item env row ''B'') (\<lambda>bid_quantity.
     bind_sum (decimal_item env row ''A'') (\<lambda>ask_quantity.
     Inr (bid, ask, bid_quantity, ask_quantity)))))"

definition book_point_of :: "datetime \<Rightarrow> decimal \<Rightarrow> decimal \<Rightarrow> decimal \<Rightarrow> decimal \<Rightarrow> book_point" where
  "book_point_of t bid ask bid_quantity ask_quantity =
     (let mid = ddiv (dadd bid ask) 2 in
      \<lparr>bp_observed_at = t, bp_spread_bps = dmul (ddiv (dsub ask bid) mid) 10000,
       bp_bid_notional = dmul bid bid_quantity, bp_ask_notional = dmul ask ask_quantity\<rparr>)"

definition record_book ::
  "scan_env \<Rightarrow> string \<Rightarrow> (string \<times> pyval) list \<Rightarrow> datetime \<Rightarrow> (scanner, unit) eff"
where
  "record_book env code row t = (case parse_book env row of
       Inl e \<Rightarrow> if is_row_error e then ret () else raise e
     | Inr (bid, ask, bid_quantity, ask_quantity) \<Rightarrow>
         if bid \<le> 0 \<or> ask < bid \<or> bid_quantity < 0 \<or> ask_quantity < 0 then ret ()
         else modifyE (\<lambda>s. s\<lparr>books := (books s)(code \<mapsto> book_point_of t bid ask bid_quantity ask_quantity)\<rparr>))"

definition book_keys :: "string list" where
  "book_keys = [''u'', ''b'', ''B'', ''a'', ''A'']"

definition observed_time :: "scan_env \<Rightarrow> (string \<times> pyval) list \<Rightarrow> datetime \<Rightarrow> exn + datetime" where
  "observed_time env row now = from_milliseconds (dict_get_or row ''E'' (PInt (timestamp_ms env now)))"

definition record_row ::
  "scan_env \<Rightarrow> string \<Rightarrow> (string \<times> pyval) list \<Rightarrow> datetime \<Rightarrow> (scanner, unit) eff"
where
  "record_row env code row t =
     (if dict_get row ''e'' = PStr ''24hrTicker'' then record_ticker env code row t
      else if dict_get row ''e'' = PStr ''bookTicker'' \<or> (\<forall>k \<in> set book_keys. dict_has row k)
      then record_book env code row t
      else ret ())"

definition process_row :: "scan_env \<Rightarrow> datetime \<Rightarrow> pyval \<Rightarrow> (scanner, unit) eff" where
  "process_row env now v = (case v of
       PDict row \<Rightarrow>
         let code = str_of_value (repr_of env) (dict_get_or row ''s'' (PStr ''''))
         in bindE (getE allowed_symbols) (\<lambda>allowed.
              if code \<notin> allowed \<or> \<not> equals_one (dict_get_or row ''st'' (PInt 1)) then ret ()
              else (case observed_time env row now of
                  Inl e \<Rightarrow> raise e
                | Inr t \<Rightarrow> record_row env code row t))
     | _ \<Rightarrow> ret ())"

definition message_rows :: "(string \<times> pyval) list \<Rightarrow> pyval list" where
  "message_rows payload = (case dict_get_or payload ''data'' (PDict payload) of
       PList rows \<Rightarrow> rows
     | data \<Rightarrow> [data])"

definition process_message :: "scan_env \<Rightarrow> (string \<times> pyval) list \<Rightarrow> datetime \<Rightarrow> (scanner, unit) eff" where
  "process_message env payload now = mapE (process_row env now) (message_rows payload)"

section \<open>Ranking\<close>

definition canonical_of :: "string \<Rightarrow> string" where
  "canonical_of exchange_symbol = take (length exchange_symbol - 4) exchange_symbol @ ''/USDT''"

definition baseline_point :: "datetime \<Rightarrow> ticker_point list \<Rightarrow> ticker_point option" where
  "baseline_point start h = find (\<lambda>p. tp_observed_at p \<le> start) h"

definition liquid :: "scanner \<Rightarrow> datetime \<Rightarrow> ticker_point \<Rightarrow> book_point \<Rightarrow> bool" where
  "liquid s now cur book \<longleftrightarrow>
     \<not> of_int (book_stale_seconds s) < total_seconds (dt_diff now (bp_observed_at book)) \<and>
     \<not> tp_quote_volume cur < minimum_quote_volume_24h s \<and>
     \<not> maximum_spread_bps s < bp_spread_bps book \<and>
     \<not> min (bp_bid_notional book) (bp_ask_notional book) < minimum_best_level_notional s"

definition quote_velocity :: "ticker_point \<Rightarrow> ticker_point \<Rightarrow> decimal" where
  "quote_velocity base cur = max 0 (ddiv (dsub (tp_quote_volume cur) (tp_quote_volume base))
     (max (dround \<bar>tp_quote_volume base\<bar>) 1))"

definition trade_velocity :: "ticker_point \<Rightarrow> ticker_point \<Rightarrow> decimal" where
  "trade_velocity base cur = max 0 (ddiv (of_int (tp_trade_count cur - tp_trade_count base))
     (of_int (max \<bar>tp_trade_count base\<bar> 1)))"

definition price_return :: "ticker_point \<Rightarrow> ticker_point \<Rightarrow> decimal" where
  "price_return base cur = (if 0 < tp_price base
     then dround \<bar>ddiv (dsub (tp_price cur) (tp_price base)) (tp_price base)\<bar> else 0)"

definition metric_of :: "string \<Rightarrow> ticker_point \<Rightarrow> ticker_point \<Rightarrow> book_point \<Rightarrow> candidate_metric" where
  "metric_of canonical base cur book =
     \<lparr>canonical_symbol = canonical, metric_observed_at = tp_observed_at cur,
      quote_volume_24h = tp_quote_volume cur, quote_volume_velocity = quote_velocity base cur,
      trade_count_velocity = trade_velocity base cur, absolute_price_return = price_return base cur,
      metric_spread_bps = bp_spread_bps book, metric_bid_notional = bp_bid_notional book,
      metric_ask_notional = bp_ask_notional book\<rparr>"

definition metric_for :: "scanner \<Rightarrow> datetime \<Rightarrow> string \<times> ticker_point list \<Rightarrow> candidate_metric option" where
  "metric_for s now item = (case item of (code, h) \<Rightarrow>
     if length h < 2 then None
     else (case baseline_point (dt_add now (- seconds (lookback_seconds s))) h of
         None \<Rightarrow> None
       | Some base \<Rightarrow> (case books s code of
           None \<Rightarrow> None
         | Some book \<Rightarrow>
             if canonical_of code \<in> excluded s then None
             else if liquid s now (last h) book then Some (metric_of (canonical_of code) base (last h) book)
             else None)))"

definition rank_key :: "candidate_metric \<Rightarrow> decimal \<times> decimal \<times> decimal \<times> decimal" where
  "rank_key m = (quote_volume_velocity m, trade_count_velocity m, absolute_price_return m, quote_volume_24h m)"

text \<open>\<open>sort(key=\<dots>, reverse=True)\<close> is stable: equal keys keep their order.\<close>

definition descending_key :: "candidate_metric \<Rightarrow> decimal \<times> decimal \<times> decimal \<times> decimal" where
  "descending_key m = (case rank_key m of (a, b, c, d) \<Rightarrow> (- a, - b, - c, - d))"

definition rank :: "scanner \<Rightarrow> datetime \<Rightarrow> candidate_metric list" where
  "rank s now = take (nat (candidate_limit s))
     (sort_key descending_key (List.map_filter (metric_for s now) (ticker_history s)))"

section \<open>The scanner's stream\<close>

text \<open>
  One message of the merged streams, with the clock read before it: the snapshot that is
  yielded, if any. The generator's local \<open>last_emission\<close> is passed along.
\<close>

definition emission_due :: "scanner \<Rightarrow> datetime option \<Rightarrow> datetime \<Rightarrow> bool" where
  "emission_due s last_emission now = (case last_emission of
       None \<Rightarrow> True
     | Some t \<Rightarrow> of_int (emission_seconds s) \<le> total_seconds (dt_diff now t))"

definition stream_turn ::
  "scan_env \<Rightarrow> datetime option \<Rightarrow> datetime \<times> (string \<times> pyval) list \<Rightarrow>
     (scanner, datetime option \<times> candidate_snapshot option) eff"
where
  "stream_turn env last_emission item = (case item of (now, payload) \<Rightarrow>
     thenE (process_message env payload now)
    (bindE (getE (\<lambda>s. if emission_due s last_emission now then rank s now else [])) (\<lambda>ranked.
       if ranked = [] then ret (last_emission, None)
       else ret (Some now, Some \<lparr>snapshot_observed_at = now, candidates = ranked\<rparr>))))"

text \<open>
  What a generator does: the snapshots it yields, and the exception that ends it, if any. Without
  one, the messages have come to an end.
\<close>

type_synonym scan_result = "(candidate_snapshot list \<times> exn option) \<times> scanner"

fun scan_messages ::
  "scan_env \<Rightarrow> datetime option \<Rightarrow> (datetime \<times> (string \<times> pyval) list) list \<Rightarrow> scanner \<Rightarrow> scan_result"
where
  "scan_messages env last_emission [] s = (([], None), s)"
| "scan_messages env last_emission (item # items) s = (case stream_turn env last_emission item s of
       (Inl e, s') \<Rightarrow> (([], Some e), s')
     | (Inr (last_emission', yielded), s') \<Rightarrow>
         (case scan_messages env last_emission' items s' of ((sns, fin), s'') \<Rightarrow>
           (((case yielded of None \<Rightarrow> sns | Some sn \<Rightarrow> sn # sns), fin), s'')))"

definition scan_stream ::
  "scan_env \<Rightarrow> exn + pyval \<Rightarrow> exn + pyval \<Rightarrow> (datetime \<times> (string \<times> pyval) list) list \<Rightarrow> scanner \<Rightarrow>
     scan_result"
where
  "scan_stream env futures spot items s =
     (if allowed_symbols s = {}
      then (case discover_symbols env futures spot s of
          (Inl e, s') \<Rightarrow> (([], Some e), s')
        | (Inr _, s') \<Rightarrow> scan_messages env None items s')
      else scan_messages env None items s)"

section \<open>The pool\<close>

record admission =
  admitted_metric :: candidate_metric
  admitted_at :: datetime

record pool =
  capacity :: int
  minimum_residency_seconds :: int
  admissions :: "(string \<times> admission) list"

definition new_pool :: "int \<Rightarrow> int \<Rightarrow> exn + pool" where
  "new_pool cap residency =
     (if cap < 1 \<or> residency < 1
      then Inl (ValueError ''Candidate capacity and residency must be positive'')
      else Inr \<lparr>capacity = cap, minimum_residency_seconds = residency, admissions = []\<rparr>)"

definition ranked_of :: "candidate_snapshot \<Rightarrow> (string \<times> candidate_metric) list" where
  "ranked_of sn = fold (\<lambda>m. AList.update (canonical_symbol m) m) (candidates sn) []"

definition locked_until :: "pool \<Rightarrow> candidate_snapshot \<Rightarrow> datetime" where
  "locked_until p sn = dt_add (snapshot_observed_at sn) (- seconds (minimum_residency_seconds p))"

definition retained_of :: "pool \<Rightarrow> candidate_snapshot \<Rightarrow> (string \<times> admission) list" where
  "retained_of p sn = filter (\<lambda>(code, a). locked_until p sn < admitted_at a \<or> dict_has (ranked_of sn) code)
     (admissions p)"

text \<open>The body of the loop over \<open>ranked.items()\<close>.\<close>

definition admit ::
  "int \<Rightarrow> datetime \<Rightarrow> string \<times> candidate_metric \<Rightarrow> (string \<times> admission) list \<Rightarrow> (string \<times> admission) list"
where
  "admit cap now item kept = (case item of (code, m) \<Rightarrow>
     (case map_of kept code of
        Some a \<Rightarrow> AList.update code \<lparr>admitted_metric = m, admitted_at = admitted_at a\<rparr> kept
      | None \<Rightarrow>
          if int (length kept) < cap
          then AList.update code \<lparr>admitted_metric = m, admitted_at = now\<rparr> kept else kept))"

definition admitted :: "pool \<Rightarrow> candidate_snapshot \<Rightarrow> (string \<times> admission) list" where
  "admitted p sn = fold (admit (capacity p) (snapshot_observed_at sn)) (ranked_of sn) (retained_of p sn)"

definition truncated :: "int \<Rightarrow> (string \<times> admission) list \<Rightarrow> (string \<times> admission) list" where
  "truncated cap kept =
     (if cap < int (length kept) then take (nat cap) (sort_key (admitted_at \<circ> snd) kept) else kept)"

text \<open>\<open>order.get(symbol, capacity)\<close>: the last index of a symbol wins.\<close>

definition order_of :: "candidate_snapshot \<Rightarrow> int \<Rightarrow> string \<Rightarrow> int" where
  "order_of sn otherwise code =
     (case map_of (rev (zip (snapshot_symbols sn) [0..<length (candidates sn)])) code of
        None \<Rightarrow> otherwise
      | Some i \<Rightarrow> int i)"

definition pool_update :: "candidate_snapshot \<Rightarrow> pool \<Rightarrow> string list \<times> pool" where
  "pool_update sn p =
     (let kept = truncated (capacity p) (admitted p sn) in
      (sort_key (\<lambda>code. (order_of sn (capacity p) code, code)) (map fst kept), p\<lparr>admissions := kept\<rparr>))"

definition pool_symbols :: "pool \<Rightarrow> string list" where
  "pool_symbols p = sort (map fst (admissions p))"

end
