(* ===== verification/Universe_Properties.thy ===== *)
theory Universe_Properties
  imports Universe "HOL-Library.Multiset"
begin

text \<open>
  Properties of the candidate pool and of the scanner: what one update of the pool keeps and
  admits, and what the scanner's snapshots hold over a whole run.
\<close>

section \<open>The pool\<close>

definition pool_ok :: "pool \<Rightarrow> bool" where
  "pool_ok p \<longleftrightarrow> 1 \<le> capacity p \<and> 1 \<le> minimum_residency_seconds p \<and>
     distinct (map fst (admissions p)) \<and> int (length (admissions p)) \<le> capacity p"

lemma pool_ok_new: "new_pool cap residency = Inr p \<Longrightarrow> pool_ok p"
  by (auto simp: new_pool_def pool_ok_def split: if_splits)

lemma ranked_of_keys: "fst ` set (ranked_of sn) = canonical_symbol ` set (candidates sn)"
proof -
  have "fst ` set (fold (\<lambda>m. AList.update (canonical_symbol m) m) ms al) =
      fst ` set al \<union> canonical_symbol ` set ms" for ms and al :: "(string \<times> candidate_metric) list"
    by (induction ms arbitrary: al) (auto simp: alist_update_image)
  then show ?thesis by (simp add: ranked_of_def)
qed

text \<open>A step of the admission loop, on the keys, the bound and the times of admission.\<close>

lemma admit_distinct: "distinct (map fst kept) \<Longrightarrow> distinct (map fst (admit cap now item kept))"
  by (cases item) (simp add: admit_def alist_distinct_update split: option.split)

lemma admit_length:
  assumes "distinct (map fst kept)" and "int (length kept) \<le> cap"
  shows "int (length (admit cap now item kept)) \<le> cap"
proof -
  have "length (AList.update k v kept) = (if k \<in> fst ` set kept then length kept else Suc (length kept))"
    for k and v :: admission
    using alist_keys_update [of k v kept] by (metis length_append_singleton length_map)
  with assms show ?thesis
    by (cases item) (force simp: admit_def split: option.split dest: map_of_SomeD)
qed

lemma admit_lookup:
  "map_of (admit cap now (code, m) kept) c =
     (if c = code then (case map_of kept c of
          Some a \<Rightarrow> Some \<lparr>admitted_metric = m, admitted_at = admitted_at a\<rparr>
        | None \<Rightarrow> if int (length kept) < cap then Some \<lparr>admitted_metric = m, admitted_at = now\<rparr> else None)
      else map_of kept c)"
  by (auto simp: admit_def update_conv split: option.split)

lemma fold_admit_ok:
  "distinct (map fst kept) \<Longrightarrow> int (length kept) \<le> cap \<Longrightarrow>
     distinct (map fst (fold (admit cap now) items kept)) \<and> int (length (fold (admit cap now) items kept)) \<le> cap"
  by (induction items arbitrary: kept) (simp_all add: admit_distinct admit_length)

text \<open>What was kept before the loop is kept by it, with its time of admission.\<close>

lemma fold_admit_keeps:
  "map_of kept c = Some a \<Longrightarrow>
     \<exists>a'. map_of (fold (admit cap now) items kept) c = Some a' \<and> admitted_at a' = admitted_at a"
proof (induction items arbitrary: kept a)
  case (Cons item items)
  obtain code m where item: "item = (code, m)" by (cases item)
  have "\<exists>a'. map_of (admit cap now item kept) c = Some a' \<and> admitted_at a' = admitted_at a"
    using Cons.prems by (auto simp: item admit_lookup)
  with Cons.IH show ?case by fastforce
qed simp

text \<open>What the loop adds was ranked, and gets the time of the snapshot.\<close>

lemma fold_admit_new:
  "map_of kept c = None \<Longrightarrow> map_of (fold (admit cap now) items kept) c = Some a \<Longrightarrow>
     c \<in> fst ` set items \<and> admitted_at a = now"
proof (induction items arbitrary: kept)
  case (Cons item items)
  obtain code m where item: "item = (code, m)" by (cases item)
  show ?case
  proof (cases "map_of (admit cap now item kept) c")
    case None
    with Cons show ?thesis by auto
  next
    case (Some b)
    with Cons.prems(1) have "c = code" "admitted_at b = now"
      by (auto simp: item admit_lookup split: if_splits)
    with fold_admit_keeps [OF Some, of cap now items] Cons.prems(2) show ?thesis by (auto simp: item)
  qed
qed simp

lemma admit_grows: "length kept \<le> length (admit cap now item kept)"
proof -
  have "length kept \<le> length (AList.update k v kept)" for k and v :: admission
    by (induction kept) auto
  then show ?thesis by (cases item) (simp add: admit_def split: option.split)
qed

lemma fold_admit_grows: "length kept \<le> length (fold (admit cap now) items kept)"
  by (induction items arbitrary: kept) (auto intro: order_trans [OF admit_grows])

text \<open>A ranked symbol is only left out of a full pool.\<close>

lemma fold_admit_full:
  "c \<in> fst ` set items \<Longrightarrow> map_of (fold (admit cap now) items kept) c = None \<Longrightarrow>
     cap \<le> int (length (fold (admit cap now) items kept))"
proof (induction items arbitrary: kept)
  case (Cons item items)
  obtain code m where item: "item = (code, m)" by (cases item)
  show ?case
  proof (cases "map_of (admit cap now item kept) c")
    case (Some b)
    with fold_admit_keeps [OF Some, of cap now items] Cons.prems(2) show ?thesis by auto
  next
    case None
    show ?thesis
    proof (cases "c = code")
      case True
      with None have "cap \<le> int (length kept)" by (auto simp: item admit_lookup split: option.splits if_splits)
      also have "length kept \<le> length (fold (admit cap now) items (admit cap now item kept))"
        using fold_admit_grows [of "admit cap now item kept"] admit_grows [of kept] order_trans by blast
      finally show ?thesis by simp
    next
      case False
      with Cons show ?thesis by (auto simp: item)
    qed
  qed
qed simp

lemma truncated_id: "int (length kept) \<le> cap \<Longrightarrow> truncated cap kept = kept"
  by (simp add: truncated_def)

lemma retained_ok: "pool_ok p \<Longrightarrow> distinct (map fst (retained_of p sn)) \<and> int (length (retained_of p sn)) \<le> capacity p"
  unfolding pool_ok_def retained_of_def
  by (metis (no_types, lifting) distinct_map_filter length_filter_le of_nat_mono order_trans)

lemma admitted_ok: "pool_ok p \<Longrightarrow> distinct (map fst (admitted p sn)) \<and> int (length (admitted p sn)) \<le> capacity p"
  unfolding admitted_def using retained_ok by (intro fold_admit_ok) auto

lemma pool_update_eq:
  "pool_ok p \<Longrightarrow> pool_update sn p =
     (sort_key (\<lambda>code. (order_of sn (capacity p) code, code)) (map fst (admitted p sn)),
      p\<lparr>admissions := admitted p sn\<rparr>)"
  using admitted_ok [of p sn] by (simp add: pool_update_def truncated_id Let_def)

lemma pool_update_ok: "pool_ok p \<Longrightarrow> pool_ok (snd (pool_update sn p))"
  using admitted_ok [of p sn] by (simp add: pool_update_eq) (simp add: pool_ok_def)

lemma retained_lookup:
  "pool_ok p \<Longrightarrow> map_of (retained_of p sn) c =
     (case map_of (admissions p) c of
        Some a \<Rightarrow> if locked_until p sn < admitted_at a \<or> c \<in> canonical_symbol ` set (candidates sn)
                  then Some a else None
      | None \<Rightarrow> None)"
proof -
  assume "pool_ok p"
  then have d: "distinct (map fst (admissions p))" by (simp add: pool_ok_def)
  have has: "dict_has (ranked_of sn) c \<longleftrightarrow> c \<in> canonical_symbol ` set (candidates sn)" for c
    by (simp add: dict_has_def ranked_of_keys)
  have "distinct (map fst al) \<Longrightarrow> map_of (filter (\<lambda>(code, a). P code a) al) c =
      (case map_of al c of Some a \<Rightarrow> if P c a then Some a else None | None \<Rightarrow> None)"
    for P and al :: "(string \<times> admission) list"
    by (induction al) (auto split: option.split simp: image_iff map_of_eq_None_iff)
  from this [OF d] show ?thesis by (simp add: retained_of_def has)
qed

lemma pool_run_ok:
  "pool_ok p \<Longrightarrow> pool_ok (fold (\<lambda>sn p. snd (pool_update sn p)) sns p)
     \<and> capacity (fold (\<lambda>sn p. snd (pool_update sn p)) sns p) = capacity p
     \<and> minimum_residency_seconds (fold (\<lambda>sn p. snd (pool_update sn p)) sns p) = minimum_residency_seconds p"
  by (induction sns arbitrary: p) (simp_all add: pool_update_ok, simp add: pool_update_def Let_def)

text \<open>
  C38. The candidate pool after any snapshots, and one more. Its symbols are distinct and no more
  than its capacity. An admitted symbol stays, with its time of admission, exactly if the
  snapshot ranks it or its minimal residency is not over; whatever is new was ranked, and a
  ranked symbol is left out only when the pool is full. The truncation in \<open>update\<close> is never needed.
\<close>

theorem pool_keeps_residents:
  assumes "new_pool cap residency = Inr p0"
    and "p = fold (\<lambda>sn p. snd (pool_update sn p)) sns p0"
    and "pool_update sn p = (symbols, p')"
  shows "distinct symbols \<and> set symbols = fst ` set (admissions p') \<and> int (length symbols) \<le> cap \<and>
    admissions p' = admitted p sn \<and>
    (\<forall>c a. map_of (admissions p) c = Some a \<longrightarrow>
       (if c \<in> set (snapshot_symbols sn) \<or>
           dt_diff (snapshot_observed_at sn) (admitted_at a) < seconds residency
        then \<exists>a'. map_of (admissions p') c = Some a' \<and> admitted_at a' = admitted_at a
        else c \<notin> set symbols)) \<and>
    (\<forall>c \<in> set symbols. map_of (admissions p) c = None \<longrightarrow> c \<in> set (snapshot_symbols sn)) \<and>
    (\<forall>c \<in> set (snapshot_symbols sn). c \<notin> set symbols \<longrightarrow> int (length symbols) = cap)"
proof -
  have ok: "pool_ok p" and cap: "capacity p = cap" and res: "minimum_residency_seconds p = residency"
    using pool_run_ok [OF pool_ok_new [OF assms(1)], of sns] assms(1,2)
    by (auto simp: new_pool_def split: if_splits)
  let ?after = "admitted p sn"
  have p': "admissions p' = ?after" and symbols: "set symbols = fst ` set ?after"
    "distinct symbols" "length symbols = length ?after"
    using assms(3) admitted_ok [OF ok, of sn] by (force simp: pool_update_eq [OF ok])+
  have bound: "int (length symbols) \<le> cap" using admitted_ok [OF ok, of sn] symbols cap by simp
  have absent: "c \<notin> set symbols \<longleftrightarrow> map_of ?after c = None" for c
    by (simp add: symbols map_of_eq_None_iff)
  have locked: "locked_until p sn < t \<longleftrightarrow> dt_diff (snapshot_observed_at sn) t < seconds residency" for t
    by (auto simp: locked_until_def less_datetime_def dt_diff_def res)
  have ranked: "canonical_symbol ` set (candidates sn) = set (snapshot_symbols sn)"
    by (simp add: snapshot_symbols_def)
  have after: "?after = fold (admit cap (snapshot_observed_at sn)) (ranked_of sn) (retained_of p sn)"
    by (simp add: admitted_def cap)
  have kept: "if c \<in> set (snapshot_symbols sn) \<or>
         dt_diff (snapshot_observed_at sn) (admitted_at a) < seconds residency
      then \<exists>a'. map_of ?after c = Some a' \<and> admitted_at a' = admitted_at a
      else c \<notin> set symbols" if "map_of (admissions p) c = Some a" for c a
  proof (cases "map_of (retained_of p sn) c")
    case None
    then have "c \<notin> fst ` set (ranked_of sn)"
      using that by (auto simp: retained_lookup [OF ok] ranked_of_keys split: if_splits)
    with fold_admit_new [OF None, of cap "snapshot_observed_at sn" "ranked_of sn"] have "c \<notin> set symbols"
      unfolding absent after by fastforce
    with None that show ?thesis by (simp add: retained_lookup [OF ok] ranked locked split: if_splits)
  next
    case (Some b)
    with that have "b = a" by (auto simp: retained_lookup [OF ok] split: if_splits)
    with fold_admit_keeps [OF Some, of cap "snapshot_observed_at sn" "ranked_of sn"] Some that show ?thesis
      by (auto simp: retained_lookup [OF ok] ranked locked after split: if_splits)
  qed
  have fresh: "c \<in> set (snapshot_symbols sn)"
    if member: "c \<in> set symbols" and none: "map_of (admissions p) c = None" for c
  proof -
    have retained: "map_of (retained_of p sn) c = None" using none by (simp add: retained_lookup [OF ok])
    obtain a where "map_of ?after c = Some a" using member absent [of c] by auto
    then have "map_of (fold (admit cap (snapshot_observed_at sn)) (ranked_of sn) (retained_of p sn)) c = Some a"
      by (simp add: after)
    from fold_admit_new [OF retained this] show ?thesis by (simp add: ranked_of_keys ranked)
  qed
  have full: "int (length symbols) = cap" if "c \<in> set (snapshot_symbols sn)" and "c \<notin> set symbols" for c
  proof -
    have "cap \<le> int (length ?after)"
      unfolding after by (rule fold_admit_full [of c])
        (use that absent in \<open>simp_all add: ranked_of_keys ranked after [symmetric]\<close>)
    with bound show ?thesis by (simp add: symbols)
  qed
  show ?thesis
    unfolding p' using symbols bound kept fresh full by (intro conjI allI ballI impI) blast+
qed

abbreviation sample_metric :: "string \<Rightarrow> candidate_metric" where
  "sample_metric code \<equiv> \<lparr>canonical_symbol = code, metric_observed_at = Datetime 0, quote_volume_24h = 1,
     quote_volume_velocity = 0, trade_count_velocity = 0, absolute_price_return = 0,
     metric_spread_bps = 1, metric_bid_notional = 1, metric_ask_notional = 1\<rparr>"

lemma pool_keeps_residents_witness:
  "fst (pool_update \<lparr>snapshot_observed_at = Datetime 5000000, candidates = [sample_metric ''B/USDT'']\<rparr>
     (snd (pool_update \<lparr>snapshot_observed_at = Datetime 0, candidates = [sample_metric ''A/USDT'']\<rparr>
       \<lparr>capacity = 1, minimum_residency_seconds = 10, admissions = []\<rparr>))) = [''A/USDT'']"
proof -
  let ?empty = "\<lparr>capacity = 1, minimum_residency_seconds = 10, admissions = []\<rparr>"
  let ?a = "\<lparr>snapshot_observed_at = Datetime 0, candidates = [sample_metric ''A/USDT'']\<rparr>"
  let ?b = "\<lparr>snapshot_observed_at = Datetime 5000000, candidates = [sample_metric ''B/USDT'']\<rparr>"
  let ?p = "snd (pool_update ?a ?empty)"
  define p where "p = ?p"
  obtain symbols p' where run: "pool_update ?b p = (symbols, p')" by fastforce
  have new: "new_pool 1 10 = Inr ?empty" by (simp add: new_pool_def)
  have p: "p = fold (\<lambda>sn p. snd (pool_update sn p)) [?a] ?empty" by (simp add: p_def)
  have "map_of (admissions ?p) ''A/USDT'' = Some \<lparr>admitted_metric = sample_metric ''A/USDT'', admitted_at = Datetime 0\<rparr>"
    by code_simp
  then have "map_of (admissions p) ''A/USDT'' \<noteq> None" and
    "admitted_at (the (map_of (admissions p) ''A/USDT'')) = Datetime 0" by (simp_all add: p_def)
  then obtain a where a: "map_of (admissions p) ''A/USDT'' = Some a" "admitted_at a = Datetime 0" by auto
  note spec = pool_keeps_residents [OF new p run]
  from spec have "\<exists>a'. map_of (admissions p') ''A/USDT'' = Some a' \<and> admitted_at a' = admitted_at a"
    using a by (elim conjE allE [where x = "''A/USDT''"] allE [where x = a])
      (simp add: dt_diff_def seconds_def)
  then have "''A/USDT'' \<in> fst ` set (admissions p')" by (metis fst_conv image_eqI map_of_SomeD)
  moreover have "distinct symbols" "set symbols = fst ` set (admissions p')" "int (length symbols) \<le> 1"
    by (rule spec [THEN conjunct1], rule spec [THEN conjunct2, THEN conjunct1],
        rule spec [THEN conjunct2, THEN conjunct2, THEN conjunct1])
  ultimately have "''A/USDT'' \<in> set symbols" "distinct symbols" "length symbols \<le> 1" by simp_all
  then have "symbols = [''A/USDT'']" by (cases symbols) auto
  with run show ?thesis by (simp add: p_def)
qed

section \<open>The scanner\<close>

text \<open>What no message changes: the settings, and that only allowed symbols have a history.\<close>

definition scanner_config :: "scanner \<Rightarrow> scanner" where
  "scanner_config s = s\<lparr>allowed_symbols := {}, ticker_history := [], books := Map.empty\<rparr>"

lemma config_update [simp]:
  "scanner_config (s\<lparr>allowed_symbols := a\<rparr>) = scanner_config s"
  "scanner_config (s\<lparr>ticker_history := h\<rparr>) = scanner_config s"
  "scanner_config (s\<lparr>books := b\<rparr>) = scanner_config s"
  by (simp_all add: scanner_config_def)

lemma configD:
  assumes "scanner_config s = scanner_config t"
  shows "emission_seconds s = emission_seconds t" "candidate_limit s = candidate_limit t"
    "excluded s = excluded t" "minimum_quote_volume_24h s = minimum_quote_volume_24h t"
    "maximum_spread_bps s = maximum_spread_bps t"
    "minimum_best_level_notional s = minimum_best_level_notional t"
  using assms by (cases s, cases t, simp add: scanner_config_def)+

definition scanning :: "scanner \<Rightarrow> scanner \<Rightarrow> bool" where
  "scanning s0 s \<longleftrightarrow>
     scanner_config s = scanner_config s0 \<and> fst ` set (ticker_history s) \<subseteq> allowed_symbols s"

lemma scanning_new: "new_scanner lb em st cl vol sp nt ex = Inr s0 \<Longrightarrow> scanning s0 s0"
  by (auto simp: new_scanner_def scanning_def split: if_splits)

lemma keeps_record_row:
  assumes "code \<in> A"
  shows "keeps (\<lambda>s. scanning s0 s \<and> allowed_symbols s = A) (record_row env code row t)"
proof -
  have books: "keeps (\<lambda>s. scanning s0 s \<and> allowed_symbols s = A) (modifyE (\<lambda>s. s\<lparr>books := f s\<rparr>))" for f
    by (rule keeps_modifyE) (auto simp: scanning_def)
  have history: "keeps (\<lambda>s. scanning s0 s \<and> allowed_symbols s = A)
      (modifyE (\<lambda>s. s\<lparr>ticker_history := AList.update code (f s) (ticker_history s)\<rparr>))" for f
    by (rule keeps_modifyE) (use assms in \<open>auto simp: scanning_def alist_update_image dest: subsetD simp del: image_subset_iff\<close>)
  show ?thesis
    unfolding record_row_def record_ticker_def record_book_def
    by (intro keeps_rules books history)
qed

lemma keeps_process_row: "keeps (\<lambda>s. scanning s0 s \<and> allowed_symbols s = A) (process_row env now v)"
proof -
  have "wp (process_row env now v) (\<lambda>_ s. scanning s0 s \<and> allowed_symbols s = A)
      (\<lambda>_ s. scanning s0 s \<and> allowed_symbols s = A) s"
    if "scanning s0 s" and "allowed_symbols s = A" for s
    using keeps_record_row [of _ A s0 env] that
    by (cases v) (auto simp: process_row_def Let_def wp_rules keeps_wp split: sum.split)
  then show ?thesis by (simp add: keeps_wp)
qed

lemma keeps_process_message:
  "keeps (\<lambda>s. scanning s0 s \<and> allowed_symbols s = A) (process_message env payload now)"
  unfolding process_message_def by (intro keeps_mapE keeps_process_row)

lemma scanning_discover:
  assumes "scanning s0 s" and "ticker_history s = []" and "discover_symbols env futures spot s = (r, s')"
  shows "scanning s0 s'"
  using assms by (auto simp: discover_symbols_def scanning_def eff_defs split: sum.splits pyval.splits)

subsection \<open>Ranking\<close>

lemma rank_bound: "length (rank s now) \<le> nat (candidate_limit s)"
  by (simp add: rank_def)

lemma descending_key_le: "descending_key a \<le> descending_key b \<longleftrightarrow> rank_key b \<le> rank_key a"
  by (auto simp: descending_key_def rank_key_def less_eq_prod_def less_prod_def)

lemma rank_sorted: "sorted_wrt (\<lambda>a b. rank_key b \<le> rank_key a) (rank s now)"
proof -
  have "sorted (map descending_key (rank s now))"
    by (simp add: rank_def take_map [symmetric] sorted_wrt_take)
  then show ?thesis by (simp add: sorted_wrt_map descending_key_le)
qed

text \<open>No eligible symbol that is left out ranks above a listed one, and the list is then full.\<close>

lemma rank_is_top:
  "\<exists>rest. mset (rank s now @ rest) = mset (List.map_filter (metric_for s now) (ticker_history s)) \<and>
     (\<forall>a \<in> set (rank s now). \<forall>b \<in> set rest. rank_key b \<le> rank_key a) \<and>
     (rest \<noteq> [] \<longrightarrow> length (rank s now) = nat (candidate_limit s))"
proof (intro exI conjI)
  let ?all = "sort_key descending_key (List.map_filter (metric_for s now) (ticker_history s))"
  let ?rest = "drop (nat (candidate_limit s)) ?all"
  show "mset (rank s now @ ?rest) = mset (List.map_filter (metric_for s now) (ticker_history s))"
    by (simp add: rank_def flip: mset_append)
  have "sorted (map descending_key (rank s now) @ map descending_key ?rest)"
    by (simp add: rank_def map_append [symmetric] del: map_append)
  then show "\<forall>a \<in> set (rank s now). \<forall>b \<in> set ?rest. rank_key b \<le> rank_key a"
    by (auto simp: sorted_append descending_key_le)
  show "?rest \<noteq> [] \<longrightarrow> length (rank s now) = nat (candidate_limit s)"
    by (simp add: rank_def)
qed

lemma velocity_nonneg: "0 \<le> quote_velocity b c" "0 \<le> trade_velocity b c" "0 \<le> price_return b c"
  by (simp_all add: quote_velocity_def trade_velocity_def price_return_def dround_nonneg)

definition metric_ok :: "scanner \<Rightarrow> candidate_metric \<Rightarrow> bool" where
  "metric_ok s m \<longleftrightarrow> canonical_symbol m \<in> canonical_of ` allowed_symbols s - excluded s \<and>
     minimum_quote_volume_24h s \<le> quote_volume_24h m \<and> metric_spread_bps m \<le> maximum_spread_bps s \<and>
     minimum_best_level_notional s \<le> metric_bid_notional m \<and>
     minimum_best_level_notional s \<le> metric_ask_notional m \<and>
     0 \<le> quote_volume_velocity m \<and> 0 \<le> trade_count_velocity m \<and> 0 \<le> absolute_price_return m"

lemma metric_for_ok:
  assumes "scanning s0 s" and "(code, h) \<in> set (ticker_history s)" and "metric_for s now (code, h) = Some m"
  shows "metric_ok s m"
proof -
  have "code \<in> allowed_symbols s" using assms(1,2) by (force simp: scanning_def)
  with assms(3) show ?thesis
    by (auto simp: metric_for_def metric_ok_def liquid_def metric_of_def velocity_nonneg
        split: option.splits if_splits)
qed

lemma rank_ok: "scanning s0 s \<Longrightarrow> m \<in> set (rank s now) \<Longrightarrow> metric_ok s m"
  by (auto simp: rank_def List.map_filter_def dest!: in_set_takeD) (metis metric_for_ok option.sel)

subsection \<open>The stream\<close>

definition snapshot_ok :: "scanner \<Rightarrow> candidate_snapshot \<Rightarrow> bool" where
  "snapshot_ok s sn \<longleftrightarrow> candidates sn \<noteq> [] \<and> int (length (candidates sn)) \<le> candidate_limit s \<and>
     sorted_wrt (\<lambda>a b. rank_key b \<le> rank_key a) (candidates sn) \<and> (\<forall>m \<in> set (candidates sn). metric_ok s m)"

lemma wp_stream_turn:
  assumes "scanning s0 s" and "allowed_symbols s = A" and "1 \<le> candidate_limit s"
  shows "wp (stream_turn env le (now, payload)) (\<lambda>(le', y) t. scanning s0 t \<and> allowed_symbols t = A \<and>
       (case y of None \<Rightarrow> le' = le
        | Some sn \<Rightarrow> le' = Some (snapshot_observed_at sn) \<and> snapshot_ok t sn \<and> emission_due s le (snapshot_observed_at sn)))
     (\<lambda>_ t. scanning s0 t \<and> allowed_symbols t = A) s"
proof -
  have due: "emission_due t le now = emission_due s le now" and lim: "1 \<le> candidate_limit t" if "scanning s0 t" for t
    using configD [of t s] that assms(1,3) by (simp_all add: scanning_def emission_due_def cong: option.case_cong)
  have top: "snapshot_ok t \<lparr>snapshot_observed_at = now, candidates = rank t now\<rparr>"
    if "scanning s0 t" and "rank t now \<noteq> []" for t
    using rank_bound [of t now] lim [OF that(1)] rank_ok [OF that(1)] that(2)
    by (simp add: snapshot_ok_def rank_sorted nat_le_iff [symmetric])
  have "wp (process_message env payload now) (\<lambda>_ t. scanning s0 t \<and> allowed_symbols t = A)
      (\<lambda>_ t. scanning s0 t \<and> allowed_symbols t = A) s"
    using keeps_process_message assms(1,2) by (simp add: keeps_wp)
  then show ?thesis
    unfolding stream_turn_def prod.case wp_thenE
    by (rule wp_mono) (auto simp: wp_rules top due)
qed

lemma snapshot_ok_cong:
  assumes "scanning s0 s" and "scanning s0 t" and "allowed_symbols s = allowed_symbols t"
  shows "snapshot_ok s = snapshot_ok t"
  using assms configD [of s t] by (simp add: fun_eq_iff snapshot_ok_def metric_ok_def scanning_def)

definition spaced :: "int \<Rightarrow> candidate_snapshot \<Rightarrow> candidate_snapshot \<Rightarrow> bool" where
  "spaced d a b \<longleftrightarrow> seconds d \<le> dt_diff (snapshot_observed_at b) (snapshot_observed_at a)"

lemma emission_due_spaced:
  "emission_due s (Some (snapshot_observed_at a)) (snapshot_observed_at b) \<longleftrightarrow> spaced (emission_seconds s) a b"
proof -
  have "of_int n \<le> total_seconds d \<longleftrightarrow> seconds n \<le> d" for n d
    using total_seconds_le_iff [of "seconds n" d] by (simp add: total_seconds_def seconds_def)
  then show ?thesis by (simp add: emission_due_def spaced_def)
qed

lemma scan_messages_ok:
  "scanning s0 s \<Longrightarrow> allowed_symbols s = A \<Longrightarrow> 1 \<le> candidate_limit s \<Longrightarrow>
     scan_messages env le items s = ((sns, fin), s') \<Longrightarrow>
     scanning s0 s' \<and> allowed_symbols s' = A \<and> (\<forall>sn \<in> set sns. snapshot_ok s' sn) \<and>
     successively (spaced (emission_seconds s)) sns \<and>
     (sns \<noteq> [] \<longrightarrow> emission_due s le (snapshot_observed_at (hd sns)))"
proof (induction items arbitrary: le s sns)
  case (Cons item items)
  obtain now payload where item: "item = (now, payload)" by (cases item)
  note turn = wp_stream_turn [OF Cons.prems(1-3), of env le now payload, folded item]
  show ?case
  proof (cases "stream_turn env le item s")
    case (Pair r t)
    show ?thesis
    proof (cases r)
      case (Inl e)
      with Pair Cons.prems(4) turn show ?thesis by (auto simp: wp_def)
    next
      case (Inr v)
      obtain le' y where v: "v = (le', y)" by (cases v)
      obtain rest where rest: "scan_messages env le' items t = ((rest, fin), s')"
        and sns: "sns = (case y of None \<Rightarrow> rest | Some sn \<Rightarrow> sn # rest)"
        using Cons.prems(4) Pair Inr v by (auto split: prod.splits)
      from turn Pair Inr v have t: "scanning s0 t" "allowed_symbols t = A"
        and y: "case y of None \<Rightarrow> le' = le | Some sn \<Rightarrow> le' = Some (snapshot_observed_at sn) \<and>
            snapshot_ok t sn \<and> emission_due s le (snapshot_observed_at sn)"
        by (simp_all add: wp_def)
      have same: "emission_seconds t = emission_seconds s" "candidate_limit t = candidate_limit s"
        using configD [of t s] t(1) Cons.prems(1) by (simp_all add: scanning_def)
      then have due: "emission_due t le' = emission_due s le'"
        by (simp add: fun_eq_iff emission_due_def cong: option.case_cong)
      have IH: "scanning s0 s'" "allowed_symbols s' = A" "\<forall>sn \<in> set rest. snapshot_ok s' sn"
        "successively (spaced (emission_seconds s)) rest"
        "rest \<noteq> [] \<longrightarrow> emission_due s le' (snapshot_observed_at (hd rest))"
        using Cons.IH [OF t _ rest] Cons.prems(3) same due by auto
      show ?thesis
      proof (cases y)
        case None
        with IH y sns show ?thesis by simp
      next
        case (Some sn)
        have "snapshot_ok s' sn"
          using y Some snapshot_ok_cong [OF t(1) IH(1)] t(2) IH(2) by simp
        moreover have "successively (spaced (emission_seconds s)) (sn # rest)"
          using IH(4,5) y Some by (cases rest) (simp_all add: emission_due_spaced)
        ultimately show ?thesis using IH y Some sns by simp
      qed
    qed
  qed
qed simp


definition sample_listing :: "string \<Rightarrow> pyval" where
  "sample_listing code = PDict [(''symbols'', PList [PDict [(''symbol'', PStr code),
     (''contractType'', PStr ''PERPETUAL''), (''status'', PStr ''TRADING''), (''quoteAsset'', PStr ''USDT'')]])]"

definition sample_ticker :: "int \<Rightarrow> string \<Rightarrow> pyval" where
  "sample_ticker t volume = PDict [(''s'', PStr ''AUSDT''), (''e'', PStr ''24hrTicker''), (''E'', PInt t),
     (''c'', PStr ''1''), (''q'', PStr volume), (''n'', PInt 3)]"

definition sample_book_ticker :: pyval where
  "sample_book_ticker = PDict [(''s'', PStr ''AUSDT''), (''E'', PInt 60000), (''u'', PInt 1), (''b'', PStr ''1''),
     (''B'', PStr ''5''), (''a'', PStr ''1''), (''A'', PStr ''5'')]"

definition sample_scanner :: scanner where
  "sample_scanner = \<lparr>lookback_seconds = 60, emission_seconds = 300, book_stale_seconds = 10, candidate_limit = 1,
     minimum_quote_volume_24h = 15, maximum_spread_bps = 100, minimum_best_level_notional = 5,
     excluded = {}, allowed_symbols = {}, ticker_history = [], books = Map.empty\<rparr>"

definition sample_scan :: scan_result where
  "sample_scan = scan_stream \<lparr>repr_of = (\<lambda>_. ''''), timestamp_ms = (\<lambda>t. us t div 1000)\<rparr>
     (Inr (sample_listing ''AUSDT'')) (Inr (sample_listing ''AUSDT''))
     [(Datetime 0, [(''data'', PList [sample_ticker 0 ''20''])]),
      (Datetime 60000000, [(''data'', PList [sample_ticker 60000 ''20'', sample_book_ticker])])] sample_scanner"


text \<open>
  A numeral that \<open>Decimal\<close> rejects raises \<open>InvalidOperation\<close>, which the row's \<open>except\<close> clause does
  not name: one malformed price ends the whole message, and with it the stream.
\<close>

lemma malformed_numeral_escapes:
  assumes "code = str_of_value (repr_of env) (dict_get_or row ''s'' (PStr ''''))"
    and "code \<in> allowed_symbols s" and "equals_one (dict_get_or row ''st'' (PInt 1))"
    and "observed_time env row now = Inr t" and "dict_get row ''e'' = PStr ''24hrTicker''"
    and "map_of row ''c'' = Some (PStr ''n/a'')"
  shows "process_message env [(''data'', PList (PDict row # rows))] now s =
    (Inl (InvalidOperation ''decimal.ConversionSyntax''), s)"
proof -
  have "decimal_of_string ''n/a'' = Inl (InvalidOperation ''decimal.ConversionSyntax'')" by code_simp
  with assms(6) have "parse_ticker env row t = Inl (InvalidOperation ''decimal.ConversionSyntax'')"
    by (simp add: parse_ticker_def decimal_item_def dict_item_def str_of_value_def)
  with assms(2-5) show ?thesis
    unfolding process_message_def message_rows_def process_row_def
    by (simp add: assms(1) [symmetric] dict_get_or_def [of "[(''data'', _)]"] record_row_def record_ticker_def
        eff_defs)
qed

end
