(* ===== verification/Candidate_Runtime.thy ===== *)
theory Candidate_Runtime
  imports Universe Supervisor_Control
begin

text \<open>
  src/src/quant_signal_agent/universe/runtime.py: \<open>AltcoinCandidateRuntime\<close>, which carries the
  scanner's snapshots through the pool to the supervisor of the dynamic candidates.

  One generation of the scanner's stream is the list of the snapshots it yields before the
  generation ends, each with the loop's clock, and how it ends: the stop event is set, or the
  stream raises (its exhaustion, \<open>StopAsyncIteration\<close>, is a raise like any other). The list of
  generations ends when the stop event is set. The supervisor's own task is among the other
  tasks that interfere at its awaits (\<open>meanwhile\<close>). Log output is not modelled.
\<close>

record runtime =
  candidate_pool :: pool
  monitor :: supervisor
  refresh_seconds :: int
  reconnect_seconds :: rat
  reconnect_max_seconds :: rat
  reconnect_attempt :: nat
  current_symbols :: "string list"
  monitor_started :: bool
  last_refresh :: rat
  runtime_closed :: bool

type_synonym 'a runtime_task = "(runtime, failure, 'a) routine"

definition new_runtime ::
  "pool \<Rightarrow> supervisor \<Rightarrow> int \<Rightarrow> rat \<Rightarrow> rat \<Rightarrow> exn + runtime"
where
  "new_runtime p sv refresh reconnect reconnect_max =
     (if refresh < 1 \<or> min reconnect reconnect_max \<le> 0
      then Inl (ValueError ''Candidate refresh and reconnect timing must be positive'')
      else if reconnect_max < reconnect
      then Inl (ValueError ''Candidate reconnect delay cannot exceed its maximum'')
      else Inr \<lparr>candidate_pool = p, monitor = sv, refresh_seconds = refresh, reconnect_seconds = reconnect,
        reconnect_max_seconds = reconnect_max, reconnect_attempt = 0, current_symbols = [],
        monitor_started = False, last_refresh = 0, runtime_closed = False\<rparr>)"

definition on_monitor :: "'a task \<Rightarrow> 'a runtime_task" where
  "on_monitor m = (\<lambda>r. case m (monitor r) of (x, sv) \<Rightarrow> (x, r\<lparr>monitor := sv\<rparr>))"

definition start_monitor :: "env \<Rightarrow> unit runtime_task" where
  "start_monitor env =
     bindE (getE monitor_started) (\<lambda>started.
       if started then ret ()
       else thenE (on_monitor (initialize env)) (modifyE (\<lambda>r. r\<lparr>monitor_started := True\<rparr>)))"

definition reconcile_monitor :: "env \<Rightarrow> string list \<Rightarrow> reconcile_result runtime_task" where
  "reconcile_monitor env symbols =
     thenE (start_monitor env)
    (bindE (on_monitor (reconcile env symbols)) (\<lambda>result.
     thenE (modifyE (\<lambda>r. r\<lparr>current_symbols := current result\<rparr>)) (ret result)))"

text \<open>\<open>self.pool.update(snapshot)\<close>\<close>

definition update_pool :: "candidate_snapshot \<Rightarrow> string list runtime_task" where
  "update_pool sn = (\<lambda>r. case pool_update sn (candidate_pool r) of
     (symbols, p) \<Rightarrow> (Inr symbols, r\<lparr>candidate_pool := p\<rparr>))"

definition refresh_due :: "runtime \<Rightarrow> rat \<Rightarrow> bool" where
  "refresh_due r now \<longleftrightarrow> current_symbols r = [] \<or> of_int (refresh_seconds r) \<le> now - last_refresh r"

definition refresh_monitor :: "env \<Rightarrow> string list \<Rightarrow> rat \<Rightarrow> unit runtime_task" where
  "refresh_monitor env symbols now =
     bindE (reconcile_monitor env symbols) (\<lambda>result.
       if failed result \<noteq> [] then ret () else modifyE (\<lambda>r. r\<lparr>last_refresh := now\<rparr>))"

definition accept_snapshot :: "env \<Rightarrow> candidate_snapshot \<Rightarrow> rat \<Rightarrow> unit runtime_task" where
  "accept_snapshot env sn now =
     thenE (modifyE (\<lambda>r. r\<lparr>reconnect_attempt := 0\<rparr>))
    (bindE (update_pool sn) (\<lambda>ranked.
     let symbols = sort ranked in
     bindE (getE (\<lambda>r. (current_symbols r, refresh_due r now))) (\<lambda>(present, due).
       if symbols = [] \<or> symbols = present then ret ()
       else if \<not> due then ret ()
       else refresh_monitor env symbols now)))"

datatype generation_end = GenerationStopped | GenerationFailed failure

record scan_generation =
  gen_snapshots :: "(candidate_snapshot \<times> rat) list"
  gen_end :: generation_end

definition consume_scan :: "env \<Rightarrow> scan_generation \<Rightarrow> unit runtime_task" where
  "consume_scan env g =
     thenE (mapE (\<lambda>(sn, now). accept_snapshot env sn now) (gen_snapshots g))
           (case gen_end g of GenerationStopped \<Rightarrow> ret () | GenerationFailed f \<Rightarrow> raise f)"

definition scan_reconnect_delay :: "runtime \<Rightarrow> nat \<Rightarrow> rat" where
  "scan_reconnect_delay r n =
     min (reconnect_max_seconds r) (reconnect_seconds r * 2 ^ min (n - 1) 10)"

text \<open>The \<open>except\<close> block of the loop: the delay it waits for.\<close>

definition after_scan_failure :: "rat runtime_task" where
  "after_scan_failure =
     thenE (modifyE (\<lambda>r. r\<lparr>reconnect_attempt := reconnect_attempt r + 1\<rparr>))
           (getE (\<lambda>r. scan_reconnect_delay r (reconnect_attempt r)))"

fun scan_generations :: "env \<Rightarrow> scan_generation list \<Rightarrow> rat list runtime_task" where
  "scan_generations env [] = ret []"
| "scan_generations env (g # gs) =
     bindE (tryE (consume_scan env g)) (\<lambda>r. case r of
         Inl f \<Rightarrow>
           if f = Raised CancelledError then raise f
           else bindE after_scan_failure (\<lambda>d. bindE (scan_generations env gs) (\<lambda>ds. ret (d # ds)))
       | Inr _ \<Rightarrow> scan_generations env gs)"

definition stop_monitor :: "env \<Rightarrow> unit runtime_task" where
  "stop_monitor env =
     thenE (modifyE (\<lambda>r. r\<lparr>monitor_started := False\<rparr>)) (on_monitor (close_supervisor env))"

text \<open>\<open>scanner_answer\<close> is what closing the scanner's transport does.\<close>

definition close_runtime :: "env \<Rightarrow> exn + unit \<Rightarrow> unit runtime_task" where
  "close_runtime env scanner_answer =
     bindE (getE runtime_closed) (\<lambda>done.
       if done then ret ()
       else thenE (modifyE (\<lambda>r. r\<lparr>runtime_closed := True\<rparr>))
           (thenE (stop_monitor env)
            (case scanner_answer of Inl e \<Rightarrow> raise (Raised e) | Inr _ \<Rightarrow> ret ())))"

text \<open>\<open>run\<close>: the body and its \<open>finally\<close> clause, whose exception would replace the body's.\<close>

definition run_runtime :: "env \<Rightarrow> exn + unit \<Rightarrow> scan_generation list \<Rightarrow> rat list runtime_task" where
  "run_runtime env scanner_answer gs =
     bindE (tryE (thenE (start_monitor env) (scan_generations env gs))) (\<lambda>r.
     thenE (close_runtime env scanner_answer)
           (case r of Inl f \<Rightarrow> raise f | Inr ds \<Rightarrow> ret ds))"

end
