(* ===== verification/Candidate_Properties.thy ===== *)
theory Candidate_Properties
  imports Candidate_Runtime Universe_Properties Supervisor_Properties
begin

text \<open>
  Properties of the candidate runtime: what the user sees as the current symbols is what the
  supervisor monitors, over whole runs.
\<close>

section \<open>The supervisor's candidates\<close>

text \<open>Only \<open>reconcile\<close> sets the candidates; the other tasks do not call it.\<close>

definition candidates_kept :: "env \<Rightarrow> bool" where
  "candidates_kept env \<longleftrightarrow> (\<forall>n s. candidate_symbols (meanwhile env n s) = candidate_symbols s)"

abbreviation monitors :: "string list \<Rightarrow> supervisor \<Rightarrow> bool" where
  "monitors xs s \<equiv> candidate_symbols s = xs"

lemma monitors_await [keeps_rules]: "candidates_kept env \<Longrightarrow> keeps (monitors xs) (await env f)"
  by (auto simp: keeps_def await_def candidates_kept_def Let_def split: sum.split)

lemma monitors_market [keeps_rules]: "keeps (monitors xs) (on_market m)"
  by (auto simp: keeps_def on_market_def split: sum.split prod.split)

lemma monitors_field [keeps_rules]:
  "(\<And>s. candidate_symbols (f s) = candidate_symbols s) \<Longrightarrow> keeps (monitors xs) (modifyE f)"
  by (simp add: keeps_def modifyE_def)

lemma monitors_initialize:
  assumes "candidates_kept env"
  shows "keeps (monitors xs) (initialize env)"
proof -
  have "keeps (monitors xs) (warm_instrument env a ins)" for a ins
    unfolding warm_instrument_def warm_candles_def optional_warmup_result_def adapter_intervals_def
      apply_interval_rows_def apply_if_some_def apply_book_snapshot_def count_stat_def Let_def
    by (intro keeps_rules assms) simp_all
  then have warm: "keeps (monitors xs) (warm_all env)"
    unfolding warm_all_def warm_adapter_def by (intro keeps_rules)
  have "keeps (monitors xs) (register_adapter a found)" for a found
    unfolding register_adapter_def Let_def by (intro keeps_rules) simp_all
  with warm show ?thesis
    unfolding initialize_def using assms by (intro keeps_rules) simp_all
qed

lemma monitors_close: "candidates_kept env \<Longrightarrow> keeps (monitors xs) (close_supervisor env)"
  unfolding close_supervisor_def by (intro keeps_rules) simp_all

text \<open>What \<open>reconcile\<close> returns as the current candidates is what it leaves as such.\<close>

lemma wp_reconcile:
  assumes "candidates_kept env" and "candidate_symbols s = xs"
  shows "wp (reconcile env target)
    (\<lambda>res t. candidate_symbols t = current res \<and> (current res = xs \<or> current res = sorted_set target \<and> failed res = []))
    (\<lambda>_ t. candidate_symbols t = xs) s"
proof -
  have prepare: "keeps (monitors ys) (prepare_added env new)" for ys new
    unfolding prepare_added_def prepare_instrument_def warm_candles_def adapter_intervals_def
    by (intro keeps_rules assms)
  have install: "keeps (monitors ys) (install_all env ps gone)" for ys ps gone
    unfolding install_all_def install_prepared_def subscribe_final_def count_stat_def adapter_intervals_def
      apply_interval_rows_def apply_if_some_def Let_def
    by (intro keeps_rules assms; simp)
  have init: "keeps (monitors ys) (initialize env)" for ys
    by (rule monitors_initialize [OF assms(1)])
  have yield: "keeps (monitors ys) (await env (\<lambda>_. Inr () :: exn + unit))" for ys
    by (rule monitors_await [OF assms(1)])
  have finish: "wp (finish_reconcile env (sorted_set target) new gone same r)
      (\<lambda>res t. candidate_symbols t = current res \<and> (current res = ys \<or> current res = sorted_set target \<and> failed res = []))
      (\<lambda>_ t. candidate_symbols t = ys) t"
    if "candidate_symbols t = ys" for ys new gone same r t
  proof -
    have inst: "wp (install_all env ps gone) (\<lambda>_ t. candidate_symbols t = ys) (\<lambda>_ t. candidate_symbols t = ys) t" for ps
      using install that by (simp add: keeps_wp)
    show ?thesis
      unfolding finish_reconcile_def count_stat_def using that
      by (cases r) (auto simp: wp_rules intro!: wp_mono [OF inst])
  qed
  have all: "wp (prepare_and_install env (sorted_set target) new gone same)
      (\<lambda>res t. candidate_symbols t = current res \<and> (current res = ys \<or> current res = sorted_set target \<and> failed res = []))
      (\<lambda>_ t. candidate_symbols t = ys) t"
    if "candidate_symbols t = ys" for ys new gone same t
  proof -
    have "wp (prepare_added env new) (\<lambda>_ t. candidate_symbols t = ys) (\<lambda>_ t. candidate_symbols t = ys) t"
      using prepare that by (simp add: keeps_wp)
    then show ?thesis
      unfolding prepare_and_install_def wp_bindE wp_tryE by (rule wp_mono) (simp_all add: finish)
  qed
  have "wp (initialize env) (\<lambda>_ t. wp (await env (\<lambda>_. Inr ())) (\<lambda>_ t. candidate_symbols t = xs)
      (\<lambda>_ t. candidate_symbols t = xs) t) (\<lambda>_ t. candidate_symbols t = xs) s"
    by (rule wp_mono [where Q = "\<lambda>_ t. candidate_symbols t = xs" and E = "\<lambda>_ t. candidate_symbols t = xs"])
      (use init yield assms(2) in \<open>simp_all add: keeps_wp\<close>)
  then show ?thesis
    unfolding reconcile_def Let_def
    by (auto simp: wp_rules assms(2) all elim!: wp_mono)
qed

section \<open>The runtime\<close>

text \<open>
  The runtime and the supervisor agree on the current symbols: sorted, distinct and no more than
  the pool holds.
\<close>

definition in_step :: "runtime \<Rightarrow> bool" where
  "in_step r \<longleftrightarrow> candidate_symbols (monitor r) = current_symbols r \<and> pool_ok (candidate_pool r) \<and>
     sorted (current_symbols r) \<and> distinct (current_symbols r) \<and>
     int (length (current_symbols r)) \<le> capacity (candidate_pool r)"

abbreviation stays :: "runtime \<Rightarrow> runtime \<Rightarrow> bool" where
  "stays r0 r \<equiv> in_step r \<and> reconnect_seconds r = reconnect_seconds r0 \<and>
     reconnect_max_seconds r = reconnect_max_seconds r0 \<and> capacity (candidate_pool r) = capacity (candidate_pool r0)"

lemma wp_on_monitor [wp_rules]:
  "wp (on_monitor m) Q E r = wp m (\<lambda>a s. Q a (r\<lparr>monitor := s\<rparr>)) (\<lambda>e s. E e (r\<lparr>monitor := s\<rparr>)) (monitor r)"
  by (auto simp: wp_def on_monitor_def split: sum.split prod.split)

lemma keeps_start_monitor [keeps_rules]: "candidates_kept env \<Longrightarrow> keeps (stays r0) (start_monitor env)"
  unfolding start_monitor_def keeps_wp
  using monitors_initialize [of env]
  by (auto simp: wp_rules in_step_def keeps_wp elim!: allE [where x = "current_symbols _"] wp_mono)

lemma wp_refresh_monitor:
  assumes "candidates_kept env" and "stays r0 r"
    and "sorted symbols" and "distinct symbols" and "int (length symbols) \<le> capacity (candidate_pool r0)"
  shows "wp (refresh_monitor env symbols now) (\<lambda>_. stays r0) (\<lambda>_. stays r0) r"
proof -
  have start: "wp (start_monitor env) (\<lambda>_. stays r0) (\<lambda>_. stays r0) r"
    using keeps_start_monitor [OF assms(1), of r0] assms(2) by (simp add: keeps_wp)
  have set: "sorted_set symbols = symbols"
    using assms(3,4) by (simp add: sorted_set_def sorted_sort_id distinct_remdups_id)
  show ?thesis
    unfolding refresh_monitor_def reconcile_monitor_def
    by (auto simp: wp_rules set in_step_def intro!: wp_mono [OF start] 
        wp_mono [OF wp_reconcile [OF assms(1) refl]] assms)
qed

lemma pool_update_step:
  assumes "pool_ok p" and "pool_update sn p = (symbols, q)"
  shows "pool_ok q \<and> capacity q = capacity p \<and> distinct (sort symbols) \<and> sorted (sort symbols) \<and>
    int (length (sort symbols)) \<le> capacity p"
  using assms admitted_ok [OF assms(1), of sn] pool_update_ok [OF assms(1), of sn]
  by (auto simp: pool_update_eq)

lemma keeps_accept_snapshot [keeps_rules]:
  assumes "candidates_kept env"
  shows "keeps (stays r0) (accept_snapshot env sn now)"
proof -
  have "wp (accept_snapshot env sn now) (\<lambda>_. stays r0) (\<lambda>_. stays r0) r" if "stays r0 r" for r
  proof -
    obtain symbols q where up: "pool_update sn (candidate_pool r) = (symbols, q)" by fastforce
    define t where "t = r\<lparr>reconnect_attempt := 0, candidate_pool := q\<rparr>"
    have ok: "pool_ok (candidate_pool r)" using that by (simp add: in_step_def)
    from pool_update_step [OF ok up] that have t: "stays r0 t"
      and sym: "sorted (sort symbols)" "distinct (sort symbols)" "int (length (sort symbols)) \<le> capacity (candidate_pool r0)"
      by (simp_all add: t_def in_step_def)
    have "wp (update_pool sn) Q E (r\<lparr>reconnect_attempt := 0\<rparr>) = Q symbols t" for Q E
      by (simp add: wp_def update_pool_def up t_def)
    then show ?thesis
      unfolding accept_snapshot_def Let_def
      by (simp add: wp_rules t wp_refresh_monitor [OF assms t sym])
  qed
  then show ?thesis by (simp add: keeps_wp)
qed

lemma keeps_consume_scan [keeps_rules]: "candidates_kept env \<Longrightarrow> keeps (stays r0) (consume_scan env g)"
  unfolding consume_scan_def
  by (cases "gen_end g") (auto intro!: keeps_rules)

definition delay_between :: "runtime \<Rightarrow> rat \<Rightarrow> bool" where
  "delay_between r d \<longleftrightarrow> reconnect_seconds r \<le> d \<and> d \<le> reconnect_max_seconds r"

lemma scan_delay_between:
  assumes "0 < reconnect_seconds r" and "reconnect_seconds r \<le> reconnect_max_seconds r"
  shows "delay_between r (scan_reconnect_delay r n)"
proof -
  have "reconnect_seconds r * 1 \<le> reconnect_seconds r * 2 ^ min (n - 1) 10"
    using assms(1) by (intro mult_left_mono) simp_all
  with assms(2) show ?thesis by (simp add: delay_between_def scan_reconnect_delay_def)
qed

lemma wp_scan_generations:
  assumes "candidates_kept env" and "0 < reconnect_seconds r0" and "reconnect_seconds r0 \<le> reconnect_max_seconds r0"
  shows "stays r0 r \<Longrightarrow> wp (scan_generations env gs) (\<lambda>ds t. stays r0 t \<and> (\<forall>d \<in> set ds. delay_between r0 d))
    (\<lambda>f t. stays r0 t \<and> f = Raised CancelledError) r"
proof (induction gs arbitrary: r)
  case (Cons g gs)
  have consume: "wp (consume_scan env g) (\<lambda>_. stays r0) (\<lambda>_. stays r0) r"
    using keeps_consume_scan [OF assms(1)] Cons.prems by (simp add: keeps_wp)
  have delay: "delay_between r0 (scan_reconnect_delay t n)" if "stays r0 t" for t n
    using scan_delay_between [of r0 n] assms(2,3) that by (simp add: scan_reconnect_delay_def)
  show ?case
    by (auto simp: wp_rules after_scan_failure_def delay in_step_def
        intro!: wp_mono [OF consume] wp_mono [OF Cons.IH])
qed (simp add: wp_ret)


definition candidate_adapter :: "nat \<Rightarrow> adapter" where
  "candidate_adapter i = sample_adapter\<lparr>adapter_id := i,
     instrument_for_symbol := Some (\<lambda>code. Inr (sample_instrument\<lparr>instrument.canonical_symbol := code\<rparr>))\<rparr>"

definition candidate_env :: "(nat \<Rightarrow> adapter \<Rightarrow> exn + unit) \<Rightarrow> env" where
  "candidate_env subscribe = quiet_env\<lparr>net_instruments := \<lambda>_ _. Inr [], net_candles := \<lambda>_ _ _ _ _. Inr [],
     net_reconcile := \<lambda>n a _. subscribe n a\<rparr>"

definition candidate_supervisor :: supervisor where
  "candidate_supervisor = (case new_supervisor [candidate_adapter 0, candidate_adapter 1] sample_market
     (sample_settings_sv\<lparr>set_allow_empty_adapters := True, set_scope := ''candidate''\<rparr>) of Inr s \<Rightarrow> s)"

definition one_snapshot :: scan_generation where
  "one_snapshot = \<lparr>gen_snapshots = [(\<lparr>snapshot_observed_at = Datetime 0, candidates = [sample_metric ''A/USDT'']\<rparr>, 1)],
     gen_end = GenerationFailed (Raised (OSError []))\<rparr>"


text \<open>
  A removal that fails for the second adapter leaves the first one's instruments updated and the
  candidates as they were, so that a retry adds the new symbols again: the first adapter then has
  each of them twice.
\<close>

definition broken_removal :: "nat \<Rightarrow> adapter \<Rightarrow> exn + unit" where
  "broken_removal n a = (if adapter_id a = 1 then Inl (TimeoutError []) else Inr ())"

lemma failed_removal_updates_first_adapter:
  assumes "instruments_by_adapter s = [(0, [x]), (1, [y])]" and "gone \<noteq> []"
    and "adapter_id a = 0" and "adapter_id b = 1"
  shows "\<exists>t. mapE (subscribe_final (candidate_env broken_removal) gone) [(a, xs), (b, ys)] s =
      (Inl (Raised (TimeoutError [])), t) \<and>
    instruments_by_adapter t = [(0, xs), (1, [y])] \<and> candidate_symbols t = candidate_symbols s"
  using assms
  by (simp add: subscribe_final_def await_def candidate_env_def quiet_env_def broken_removal_def eff_defs Let_def)

lemma retried_addition_is_duplicated:
  assumes "ins \<in> set (instruments_for s a)" and "instrument.canonical_symbol ins \<notin> set gone"
    and "ins \<in> fst ` set (prepared_for ps a)"
  shows "1 < count_list (final_instruments s ps gone a) ins"
proof -
  have "count_list (final_instruments s ps gone a) ins =
      count_list (filter (\<lambda>i. instrument.canonical_symbol i \<notin> set gone) (instruments_for s a)) ins +
      count_list (map fst (prepared_for ps a)) ins"
    by (simp add: final_instruments_def flip: count_mset)
  moreover have "0 < count_list (filter (\<lambda>i. instrument.canonical_symbol i \<notin> set gone) (instruments_for s a)) ins"
    using assms(1,2) by (simp add: count_list_0_iff flip: neq0_conv)
  moreover have "0 < count_list (map fst (prepared_for ps a)) ins"
    using assms(3) by (simp add: count_list_0_iff flip: neq0_conv)
  ultimately show ?thesis by linarith
qed

end
