(* ===== verification/Review_Report.thy ===== *)
theory Review_Report
  imports Py_Prelude "HOL-Library.Multiset"
begin

text \<open>
  src/src/quant_signal_agent/studio/gateway.py: how \<open>CodexWorkOrderRunner\<close> reads the reports of
  its agents. The regular expressions are functions on strings: \<open>^\<close> with \<open>re.M\<close> is the start of
  the text or the place after a line feed, \<open>\s\<close> is \<open>py_isspace\<close>, \<open>re.I\<close> compares lower case.
\<close>

section \<open>Lines and prefixes\<close>

definition is_line_break :: "char \<Rightarrow> bool" where
  "is_line_break c = (let n = (of_char c :: nat) in 10 \<le> n \<and> n \<le> 13 \<or> 28 \<le> n \<and> n \<le> 30 \<or> n = 133)"

text \<open>\<open>str.splitlines\<close>, but for an empty line between the two characters of a line end.\<close>

fun split_lines :: "string \<Rightarrow> string list" where
  "split_lines [] = [[]]"
| "split_lines (c # cs) =
     (if is_line_break c then [] # split_lines cs
      else (case split_lines cs of [] \<Rightarrow> [[c]] | l # ls \<Rightarrow> (c # l) # ls))"

text \<open>\<open>next((line.strip() for line in result.splitlines() if line.strip()), "")\<close>\<close>

definition first_line :: "string \<Rightarrow> string" where
  "first_line s = (case find (\<lambda>l. strip l \<noteq> []) (split_lines s) of None \<Rightarrow> [] | Some l \<Rightarrow> strip l)"

definition starts_ci :: "string \<Rightarrow> string \<Rightarrow> bool" where
  "starts_ci p s \<longleftrightarrow> str_lower (take (length p) s) = str_lower p"

fun contains :: "string \<Rightarrow> string \<Rightarrow> bool" where
  "contains p [] = (p = [])"
| "contains p (c # cs) = (take (length p) (c # cs) = p \<or> contains p cs)"

text \<open>
  All matches, left to right, of a pattern that starts with \<open>^\<close> and whose match \<open>m\<close> gives with
  the text behind it. The flag tells whether a line starts here.
\<close>

function matches :: "(string \<Rightarrow> ('a \<times> string) option) \<Rightarrow> bool \<Rightarrow> string \<Rightarrow> 'a list" where
  "matches m here [] = []"
| "matches m here (c # cs) = (case (if here then m (c # cs) else None) of
       Some (v, rest) \<Rightarrow> if length rest \<le> length cs then v # matches m False rest else [v]
     | None \<Rightarrow> matches m (c = CHR 0x0A) cs)"
  by pat_completeness auto
termination by (relation "measure (\<lambda>(m, here, s). length s)") auto

definition rest_of_line :: "string \<Rightarrow> (string \<times> string) option" where
  "rest_of_line r = (if r = [] then None
     else Some (takeWhile (\<lambda>c. c \<noteq> CHR 0x0A) r, dropWhile (\<lambda>c. c \<noteq> CHR 0x0A) r))"

text \<open>\<open>^KEY:\s*(\S.*)$\<close>\<close>

definition match_field :: "string \<Rightarrow> string \<Rightarrow> (string \<times> string) option" where
  "match_field key s = (if starts_ci (key @ '':'') s
     then rest_of_line (dropWhile py_isspace (drop (length key + 1) s)) else None)"

definition field_values :: "string \<Rightarrow> string \<Rightarrow> string list" where
  "field_values key s = matches (match_field key) True s"

text \<open>\<open>\s*$\<close> with \<open>re.M\<close>: white space up to a line feed or the end of the text.\<close>

definition line_may_end :: "string \<Rightarrow> bool" where
  "line_may_end s \<longleftrightarrow> CHR 0x0A \<in> set (takeWhile py_isspace s) \<or> list_all py_isspace s"

section \<open>Verdicts\<close>

definition tail_ok :: "string \<Rightarrow> bool" where
  "tail_ok s = (case s of [] \<Rightarrow> True | c # _ \<Rightarrow> py_isspace c \<or> c = CHR '':'' \<or> c = CHR ''-'')"

definition drop_stars :: "string \<Rightarrow> string" where
  "drop_stars s = (if take 2 s = ''**'' then drop 2 s else s)"

text \<open>\<open>^#*\s*(?:\*\*)?WORD(?:\*\*)?(?=$|[\s:-])\<close>\<close>

definition has_verdict :: "string \<Rightarrow> string \<Rightarrow> bool" where
  "has_verdict word line = (let t = drop_stars (dropWhile py_isspace (dropWhile (\<lambda>c. c = CHR ''#'') line));
       r = drop (length word) t
     in starts_ci word t \<and> (tail_ok r \<or> tail_ok (drop_stars r)))"

definition review_passed :: "string \<Rightarrow> bool" where
  "review_passed report \<longleftrightarrow> has_verdict ''PASS'' (first_line report)"

datatype outcome = PASS | FAIL | BLOCKED | INCOMPLETE

fun outcome_value :: "outcome \<Rightarrow> string" where
  "outcome_value PASS = ''pass''"
| "outcome_value FAIL = ''fail''"
| "outcome_value BLOCKED = ''blocked''"
| "outcome_value INCOMPLETE = ''incomplete''"

definition review_checks :: "string \<Rightarrow> string list option" where
  "review_checks = map_of
     [(''review_implementation'', [''spec'', ''implementation'', ''tests'', ''normalized_data'',
        ''temporal_integrity'', ''safety'']),
      (''review_backtest'', [''spec_alignment'', ''dataset_provenance'', ''temporal_integrity'',
        ''metrics'', ''charts'', ''reproducibility''])]"

text \<open>\<open>^REVIEW_STAGE:\s*(\S+)\s*$\<close>\<close>

definition match_stage :: "string \<Rightarrow> (string \<times> string) option" where
  "match_stage s = (if starts_ci ''REVIEW_STAGE:'' s
     then (let r = dropWhile py_isspace (drop 13 s); w = takeWhile (\<lambda>c. \<not> py_isspace c) r; t = drop (length w) r
           in if w \<noteq> [] \<and> line_may_end t then Some (w, t) else None)
     else None)"

definition is_category_char :: "char \<Rightarrow> bool" where
  "is_category_char c \<longleftrightarrow> is_lower_ascii c \<or> is_upper_ascii c \<or> c = CHR ''_''"

text \<open>\<open>^CHECK:\s*([a-z_]+)\s*\|\s*(\S.*)$\<close>\<close>

definition match_check :: "string \<Rightarrow> ((string \<times> string) \<times> string) option" where
  "match_check s = (if starts_ci ''CHECK:'' s
     then (let r = dropWhile py_isspace (drop 6 s); w = takeWhile is_category_char r;
               t = dropWhile py_isspace (drop (length w) r)
           in if w \<noteq> [] \<and> take 1 t = ''|''
              then map_option (\<lambda>(v, rest). ((w, v), rest)) (rest_of_line (dropWhile py_isspace (drop 1 t)))
              else None)
     else None)"

definition verdict_of :: "string \<Rightarrow> outcome" where
  "verdict_of report =
     (if review_passed report then PASS
      else if has_verdict ''FAIL'' (first_line report) then FAIL
      else if has_verdict ''BLOCKED'' (first_line report) then BLOCKED
      else INCOMPLETE)"

definition checked_categories :: "string \<Rightarrow> string list" where
  "checked_categories report = map (str_lower \<circ> fst) (matches match_check True report)"

definition names_stage :: "string \<Rightarrow> string \<Rightarrow> bool" where
  "names_stage report stage = (case matches match_stage True report of
       [] \<Rightarrow> False
     | w # _ \<Rightarrow> str_lower w = stage)"

definition complete_outcome :: "string \<Rightarrow> string list \<Rightarrow> outcome \<Rightarrow> outcome" where
  "complete_outcome report required verdict =
     (let categories = checked_categories report; blockers = field_values ''BLOCKER'' report in
      if length categories \<noteq> length required \<or> set categories \<noteq> set required then INCOMPLETE
      else if verdict = FAIL \<and> blockers = [] then INCOMPLETE
      else if verdict = PASS \<and> blockers \<noteq> [] then INCOMPLETE
      else verdict)"

definition review_outcome :: "string \<Rightarrow> string \<Rightarrow> exn + outcome" where
  "review_outcome report stage = (case review_checks stage of
       None \<Rightarrow> Inl (ValueError (''unsupported review stage: '' @ stage))
     | Some required \<Rightarrow> Inr (let verdict = verdict_of report in
         if verdict = INCOMPLETE \<or> \<not> names_stage report stage then INCOMPLETE
         else if verdict = BLOCKED
         then (if field_values ''PREREQUISITE_BLOCKER'' report \<noteq> [] then BLOCKED else INCOMPLETE)
         else complete_outcome report required verdict))"

section \<open>Findings\<close>

text \<open>\<open>^(?:BLOCKER|PREREQUISITE_BLOCKER):\s*(\S.*)$\<close>\<close>

definition match_finding :: "string \<Rightarrow> (string \<times> string) option" where
  "match_finding s = (case match_field ''BLOCKER'' s of
       None \<Rightarrow> match_field ''PREREQUISITE_BLOCKER'' s
     | m \<Rightarrow> m)"

definition review_findings :: "string \<Rightarrow> string list" where
  "review_findings report = matches match_finding True report"

definition user_actions :: "string \<Rightarrow> string list" where
  "user_actions report = field_values ''USER_ACTION_REQUIRED'' report"

text \<open>The standard library's \<open>casefold\<close> and SHA-256 (as hexadecimal digits).\<close>

record text_env =
  casefold :: "string \<Rightarrow> string"
  sha256_hex :: "string \<Rightarrow> string"

definition is_alnum_ascii :: "char \<Rightarrow> bool" where
  "is_alnum_ascii c \<longleftrightarrow> is_lower_ascii c \<or> is_upper_ascii c \<or> is_digit_ascii c"

text \<open>\<open>[a-z0-9]+(?:-[a-z0-9]+)*\<close>\<close>

definition is_kebab :: "string \<Rightarrow> bool" where
  "is_kebab s \<longleftrightarrow> list_all (\<lambda>w. w \<noteq> [] \<and> list_all is_alnum_ascii w) (str_split CHR ''-'' s)"

definition bracketed_id :: "string \<Rightarrow> string option" where
  "bracketed_id detail = (case strip detail of
       [] \<Rightarrow> None
     | c # s \<Rightarrow> (let w = takeWhile (\<lambda>c. c \<noteq> CHR '']'') s in
         if c = CHR ''['' \<and> length w < length s \<and> is_kebab w then Some w else None))"

fun words_from :: "string \<Rightarrow> string \<Rightarrow> string list" where
  "words_from w [] = (if w = [] then [] else [w])"
| "words_from w (c # cs) =
     (if py_isspace c then (if w = [] then words_from [] cs else w # words_from [] cs)
      else words_from (w @ [c]) cs)"

definition issue_key :: "text_env \<Rightarrow> string \<Rightarrow> string \<Rightarrow> string" where
  "issue_key env stage detail = (case bracketed_id detail of
       Some w \<Rightarrow> stage @ '':'' @ str_lower w
     | None \<Rightarrow> stage @ '':legacy:'' @
         take 16 (sha256_hex env (str_join '' '' (words_from [] (casefold env detail)))))"

section \<open>Optimization reports and service errors\<close>

text \<open>\<open>^#\s+(?:IMPROVE|KEEP)\s*$\<close> at the start of the line\<close>

definition improvement_heading :: "string \<Rightarrow> bool" where
  "improvement_heading line = (case line of
       [] \<Rightarrow> False
     | c # s \<Rightarrow> c = CHR ''#'' \<and> s \<noteq> [] \<and> py_isspace (hd s) \<and>
         (let t = dropWhile py_isspace s in
            starts_ci ''IMPROVE'' t \<and> list_all py_isspace (drop 7 t) \<or>
            starts_ci ''KEEP'' t \<and> list_all py_isspace (drop 4 t)))"

definition match_optimization_stage :: "string \<Rightarrow> (unit \<times> string) option" where
  "match_optimization_stage s = (if starts_ci ''OPTIMIZATION_STAGE:'' s
     then (let r = dropWhile py_isspace (drop 19 s); t = drop 13 r in
           if starts_ci ''post_backtest'' r \<and> line_may_end t then Some ((), t) else None)
     else None)"

definition optimization_fields :: "string list" where
  "optimization_fields = [''DIAGNOSIS'', ''PROPOSED_CHANGE'', ''OVERFIT_GUARD'', ''RISK'', ''EXPECTED_EVIDENCE'']"

definition optimization_report_complete :: "string \<Rightarrow> bool" where
  "optimization_report_complete report \<longleftrightarrow> improvement_heading (first_line report) \<and>
     matches match_optimization_stage True report \<noteq> [] \<and>
     list_all (\<lambda>field. field_values field report \<noteq> []) optimization_fields"

fun exn_text :: "exn \<Rightarrow> string" where
  "exn_text (ValueError m) = ''ValueError: '' @ m"
| "exn_text (RuntimeError m) = ''RuntimeError: '' @ m"
| "exn_text (KeyError m) = ''KeyError: '' @ [CHR 0x27] @ m @ [CHR 0x27]"
| "exn_text (TypeError m) = ''TypeError: '' @ m"
| "exn_text (PermissionError m) = ''PermissionError: '' @ m"
| "exn_text (OverflowError m) = ''OverflowError: '' @ m"
| "exn_text (ZeroDivisionError m) = ''ZeroDivisionError: '' @ m"
| "exn_text (IndexError m) = ''IndexError: '' @ m"
| "exn_text (TimeoutError m) = ''TimeoutError: '' @ m"
| "exn_text (OSError m) = ''OSError: '' @ m"
| "exn_text (AssertionError m) = ''AssertionError: '' @ m"
| "exn_text StopIteration = ''StopIteration: ''"
| "exn_text (SpecValidationError m) = ''SpecValidationError: '' @ m"
| "exn_text CancelledError = ''CancelledError: ''"
| "exn_text (AttributeError m) = ''AttributeError: '' @ m"
| "exn_text (InvalidOperation m) = ''InvalidOperation: '' @ m"

definition retry_markers :: "string list" where
  "retry_markers = [''usage limit'', ''rate limit'', ''too many requests'', ''try again at'',
     ''temporarily unavailable'', ''service unavailable'', ''overloaded'']"

definition is_retryable :: "exn \<Rightarrow> bool" where
  "is_retryable e \<longleftrightarrow> list_ex (\<lambda>m. contains m (str_lower (exn_text e))) retry_markers"

end
