(* ===== verification/Work_Order.thy ===== *)
theory Work_Order
  imports Orchestration Review_Report Py_Decimal
begin

text \<open>
  src/src/quant_signal_agent/studio/gateway.py: the document of \<open>JsonStateStore\<close> (work orders,
  messages, dead letters, blockers, the persisted circuit) and the mutations that
  \<open>CodexWorkOrderRunner\<close> applies to it.

  The document is typed: an optional key is an \<open>option\<close>, a key that holds \<open>None\<close> counts as
  absent (no reader tells them apart), and times are instants instead of ISO texts. A message is a
  constructor of \<open>notice\<close>, one per sentence of the code, with the values the sentence inserts.
  A mutation sees one reading of the clock. A set of issue keys is a list without duplicates.
\<close>

section \<open>The document\<close>

record approval =
  ap_approved :: bool
  ap_note :: string
  ap_at :: datetime

record approvals =
  for_implementation :: "approval option"
  for_optimization :: "approval option"
  for_backtest :: "approval option"
  for_live :: "approval option"

definition no_approvals :: approvals where
  "no_approvals = \<lparr>for_implementation = None, for_optimization = None, for_backtest = None,
     for_live = None\<rparr>"

record checkpoint =
  cp_stage :: string
  cp_status :: string
  cp_at :: datetime
  cp_reason :: "string option"

record optimization_entry =
  oe_artifact_id :: "string option"
  oe_artifact_version :: "string option"
  oe_proposal :: string
  oe_backtest :: "string option"
  oe_review_backtest :: "string option"
  oe_approved :: bool
  oe_note :: string
  oe_at :: datetime

type_synonym results = "(string \<times> string) list"

record order_doc =
  wo_id :: string
  wo_agent :: string
  wo_artifact_kind :: string
  wo_status :: string
  wo_created_at :: datetime
  wo_instruction :: string
  wo_operation :: string
  wo_artifact_id :: "string option"
  wo_artifact_version :: "string option"
  wo_backtest_required :: "bool option"
  wo_optimization_required :: "bool option"
  wo_dag :: "dag_node list option"
  wo_approvals :: "approvals option"
  wo_checkpoints :: "checkpoint list"
  wo_stage :: "string option"
  wo_results :: "results option"
  wo_attempts :: "int option"
  wo_issue_counts :: "(string \<times> int) list option"
  wo_recurring_issues :: "string list option"
  wo_last_error :: "string option"
  wo_retry_not_before :: "datetime option"
  wo_started_at :: "datetime option"
  wo_last_started_at :: "datetime option"
  wo_last_heartbeat_at :: "datetime option"
  wo_finished_at :: "datetime option"
  wo_quota_retry_resumed_at :: "datetime option"
  wo_remediation_retry_count :: "int option"
  wo_optimization_history :: "optimization_entry list"

record dead_letter =
  dl_id :: string
  dl_stage :: string
  dl_reason :: string
  dl_attempts :: int
  dl_recurring_issues :: "string list"
  dl_failed_at :: datetime

datatype blocker_text = Plain string | ForOrder string string

record user_blocker =
  ub_active :: bool
  ub_detail :: blocker_text
  ub_reported_at :: datetime
  ub_resolved_at :: "datetime option"

record circuit_doc =
  cd_state :: circuit_state
  cd_open_until :: "datetime option"
  cd_reason :: "string option"

datatype reply =
    TradingDenied | CoreChangeDenied | MaintenanceCreated string
  | OtherSignalRuns "string option" string | SignalStopped | SignalStopping
  | SignalIdMissing | SignalNotApproved string | SignalStarted string "int option"
  | NoQueueRunner | QueueResumed "string list" | NothingToResume
  | NoRunner | OrderCancelled string | Report bool "int option" int int int
  | SignalOrderCreated string bool | StrategyOrderCreated string bool
  | ArtifactUnclear string "string list" | ModificationCreated string string string bool
  | Clarify string | OffTopic | SpecReceived string string string bool

datatype notice =
    Started string | HandedOver string | Interrupted string | StageRecovered string
  | ReviewThreshold string string | ReviewFailed string string "string option" string
  | PassRestored string | QuotaReset int | Remediated string string string string
  | UserNeeded string | UserResolved blocker_text
  | DeadLettered string int int int string
  | ReviewPaused blocker_text string
  | Requeued string string "int option" string string
  | CompletedAwaitingReview string bool | ImplementationReviewed string | BacktestReviewed string
  | OptimizationReady string | RunInterrupted string | Cancelled string | Failed string string
  | GateDecided string string bool | AdoptionCreated string string string
  | Instruction string | SpecUploaded string string | Reply reply

record message =
  msg_id :: int
  msg_at :: datetime
  msg_author :: string
  msg_text :: notice

record gateway_state =
  gs_messages :: "message list"
  gs_orders :: "order_doc list"
  gs_dead_letters :: "dead_letter list"
  gs_circuit :: "circuit_doc option"
  gs_blockers :: "(string \<times> user_blocker) list"

text \<open>What \<open>_read_unlocked\<close> returns for a missing, unreadable or foreign file.\<close>

definition empty_state :: gateway_state where
  "empty_state = \<lparr>gs_messages = [], gs_orders = [], gs_dead_letters = [], gs_circuit = None,
     gs_blockers = []\<rparr>"

type_synonym 'a mutation = "(gateway_state, 'a) eff"

definition read_unlocked :: "gateway_state option \<Rightarrow> gateway_state" where
  "read_unlocked file = (case file of None \<Rightarrow> empty_state | Some v \<Rightarrow> v)"

text \<open>\<open>JsonStateStore.update\<close>: a mutation that raises leaves the file as it is.\<close>

definition update_file :: "'a mutation \<Rightarrow> (gateway_state option, 'a \<times> gateway_state) eff" where
  "update_file m = (\<lambda>file. case m (read_unlocked file) of
       (Inl e, _) \<Rightarrow> (Inl e, file)
     | (Inr a, v) \<Rightarrow> (Inr (a, v), Some v))"

section \<open>Access to orders\<close>

definition find_order :: "string \<Rightarrow> order_doc mutation" where
  "find_order i = (\<lambda>s. case find (\<lambda>w. wo_id w = i) (gs_orders s) of
       None \<Rightarrow> (Inl (RuntimeError (''work order disappeared: '' @ i)), s)
     | Some w \<Rightarrow> (Inr w, s))"

fun put_order :: "string \<Rightarrow> order_doc \<Rightarrow> order_doc list \<Rightarrow> order_doc list" where
  "put_order i w [] = []"
| "put_order i w (x # xs) = (if wo_id x = i then w # xs else x # put_order i w xs)"

definition save_order :: "string \<Rightarrow> order_doc \<Rightarrow> unit mutation" where
  "save_order i w = modifyE (\<lambda>s. s\<lparr>gs_orders := put_order i w (gs_orders s)\<rparr>)"

text \<open>\<open>for order in state["work_orders"]: \<dots>\<close>: the step may change the rest of the document.\<close>

fun each :: "('a \<Rightarrow> 's \<Rightarrow> 'a \<times> 's) \<Rightarrow> 'a list \<Rightarrow> 's \<Rightarrow> 'a list \<times> 's" where
  "each f [] s = ([], s)"
| "each f (x # xs) s = (case f x s of (y, s1) \<Rightarrow> case each f xs s1 of (ys, s2) \<Rightarrow> (y # ys, s2))"

definition each_order ::
  "(order_doc \<Rightarrow> gateway_state \<Rightarrow> order_doc \<times> gateway_state) \<Rightarrow> gateway_state \<Rightarrow> gateway_state"
where
  "each_order f s = (case each f (gs_orders s) s of (ws, t) \<Rightarrow> t\<lparr>gs_orders := ws\<rparr>)"

text \<open>\<open>_append_message\<close>\<close>

definition next_message_id :: "message list \<Rightarrow> int" where
  "next_message_id ms = (case map msg_id ms of [] \<Rightarrow> 0 | n # ns \<Rightarrow> fold max ns n) + 1"

definition message_limit :: nat where
  "message_limit = 200"

definition add_message :: "datetime \<Rightarrow> string \<Rightarrow> notice \<Rightarrow> gateway_state \<Rightarrow> gateway_state" where
  "add_message now author text_of s = s\<lparr>gs_messages := deque_append message_limit (gs_messages s)
     \<lparr>msg_id = next_message_id (gs_messages s), msg_at = now, msg_author = author, msg_text = text_of\<rparr>\<rparr>"

definition append_message :: "datetime \<Rightarrow> string \<Rightarrow> notice \<Rightarrow> unit mutation" where
  "append_message now author text_of = modifyE (add_message now author text_of)"

definition add_checkpoint :: "string \<Rightarrow> string \<Rightarrow> datetime \<Rightarrow> string option \<Rightarrow> order_doc \<Rightarrow> order_doc" where
  "add_checkpoint stage status now why w = w\<lparr>wo_checkpoints := wo_checkpoints w @
     [\<lparr>cp_stage = stage, cp_status = status, cp_at = now, cp_reason = why\<rparr>]\<rparr>"

definition drop_dead_letters :: "string list \<Rightarrow> gateway_state \<Rightarrow> gateway_state" where
  "drop_dead_letters gone s =
     s\<lparr>gs_dead_letters := filter (\<lambda>d. dl_id d \<notin> set gone) (gs_dead_letters s)\<rparr>"

definition order_blocker :: "string \<Rightarrow> string" where
  "order_blocker i = ''work_order:'' @ i"

definition put_blocker :: "string \<Rightarrow> blocker_text \<Rightarrow> datetime \<Rightarrow> gateway_state \<Rightarrow> gateway_state" where
  "put_blocker code detail now s = s\<lparr>gs_blockers := AList.update code
     \<lparr>ub_active = True, ub_detail = detail, ub_reported_at = now, ub_resolved_at = None\<rparr> (gs_blockers s)\<rparr>"

definition resolve_blocker :: "string \<Rightarrow> user_blocker \<Rightarrow> datetime \<Rightarrow> gateway_state \<Rightarrow> gateway_state" where
  "resolve_blocker code b now s = s\<lparr>gs_blockers := AList.update code
     (b\<lparr>ub_active := False, ub_resolved_at := Some now\<rparr>) (gs_blockers s)\<rparr>"

text \<open>\<open>order.get("backtest_required", True) is not False\<close>, and the defaults of other keys.\<close>

definition needs_backtest :: "order_doc \<Rightarrow> bool" where
  "needs_backtest w \<longleftrightarrow> wo_backtest_required w \<noteq> Some False"

definition needs_optimization :: "order_doc \<Rightarrow> bool" where
  "needs_optimization w \<longleftrightarrow> wo_optimization_required w = Some True"

definition attempts_of :: "order_doc \<Rightarrow> int" where
  "attempts_of w = (case wo_attempts w of None \<Rightarrow> 0 | Some n \<Rightarrow> n)"

definition results_of :: "order_doc \<Rightarrow> results" where
  "results_of w = (case wo_results w of None \<Rightarrow> [] | Some r \<Rightarrow> r)"

definition last_error_of :: "order_doc \<Rightarrow> string" where
  "last_error_of w = (case wo_last_error w of None \<Rightarrow> [] | Some e \<Rightarrow> e)"

text \<open>\<open>str(order.get("stage") or order["agent"])\<close>\<close>

definition current_stage :: "order_doc \<Rightarrow> string" where
  "current_stage w = (case wo_stage w of Some (c # cs) \<Rightarrow> c # cs | _ \<Rightarrow> wo_agent w)"

definition present :: "string option \<Rightarrow> bool" where
  "present v \<longleftrightarrow> v \<noteq> None \<and> v \<noteq> Some []"

section \<open>Claiming an order\<close>

definition executable_stages :: "string list" where
  "executable_stages = [''strategy'', ''review_implementation'', ''dataset'', ''backtest'',
     ''review_backtest'', ''optimize'', ''maintenance'']"

definition resume_stage :: "order_doc \<Rightarrow> string" where
  "resume_stage w = (if current_stage w \<in> set executable_stages then current_stage w else wo_agent w)"

definition claimable :: "datetime \<Rightarrow> order_doc \<Rightarrow> bool" where
  "claimable now w \<longleftrightarrow> wo_status w = ''queued'' \<and> wo_agent w \<in> {''strategy'', ''maintenance''} \<and>
     (case wo_retry_not_before w of None \<Rightarrow> True | Some t \<Rightarrow> t \<le> now)"

definition claimed_order :: "datetime \<Rightarrow> order_doc \<Rightarrow> order_doc" where
  "claimed_order now w = add_checkpoint (resume_stage w) ''working'' now None
     (w\<lparr>wo_status := ''working'', wo_stage := Some (resume_stage w),
        wo_started_at := (case wo_started_at w of None \<Rightarrow> Some now | t \<Rightarrow> t),
        wo_last_started_at := Some now, wo_last_heartbeat_at := Some now,
        wo_retry_not_before := None, wo_last_error := None\<rparr>)"

text \<open>\<open>_claim_next\<close>: the first order that can be claimed, by its place in the list.\<close>

fun claim_first :: "datetime \<Rightarrow> order_doc list \<Rightarrow> order_doc list \<times> order_doc option" where
  "claim_first now [] = ([], None)"
| "claim_first now (w # ws) =
     (if claimable now w then (claimed_order now w # ws, Some (claimed_order now w))
      else (case claim_first now ws of (vs, c) \<Rightarrow> (w # vs, c)))"

definition str_upper :: "string \<Rightarrow> string" where
  "str_upper s = map (\<lambda>c. if is_lower_ascii c then char_of ((of_char c :: nat) - 32) else c) s"

definition claim_mutation :: "datetime \<Rightarrow> order_doc option mutation" where
  "claim_mutation now = (\<lambda>s. case claim_first now (gs_orders s) of (ws, c) \<Rightarrow>
     (let t = s\<lparr>gs_orders := ws\<rparr> in
      case c of None \<Rightarrow> (Inr None, t)
      | Some w \<Rightarrow> (Inr c, add_message now (str_upper (current_stage w)) (Started (wo_id w)) t)))"

section \<open>Checkpoints, retries and the end of an order\<close>

text \<open>\<open>_checkpoint\<close>; a version or identifier that is \<open>None\<close> is left as it is.\<close>

definition override :: "'a option \<Rightarrow> 'a option \<Rightarrow> 'a option" where
  "override v old = (case v of None \<Rightarrow> old | _ \<Rightarrow> v)"

definition checkpoint_mutation ::
  "datetime \<Rightarrow> string \<Rightarrow> string \<Rightarrow> string \<Rightarrow> results \<Rightarrow> string option \<Rightarrow> string option \<Rightarrow> unit mutation"
where
  "checkpoint_mutation now i stage author rs aid version_of =
     bindE (find_order i) (\<lambda>w.
     thenE (save_order i (add_checkpoint stage ''working'' now None
       (w\<lparr>wo_stage := Some stage, wo_results := Some rs, wo_artifact_id := override aid (wo_artifact_id w),
          wo_artifact_version := override version_of (wo_artifact_version w),
          wo_last_heartbeat_at := Some now\<rparr>)))
      (append_message now author (HandedOver i)))"

definition heartbeat_mutation :: "datetime \<Rightarrow> string \<Rightarrow> unit mutation" where
  "heartbeat_mutation now i = bindE (find_order i) (\<lambda>w.
     if wo_status w = ''working'' then save_order i (w\<lparr>wo_last_heartbeat_at := Some now\<rparr>) else ret ())"

record runner_config =
  rc_text :: text_env
  max_attempts :: int
  same_issue_limit :: int
  turn_timeout_seconds :: rat

record requeue_request =
  rq_stage :: string
  rq_results :: results
  rq_reason :: string
  rq_retry_after :: "rat option"
  rq_count_attempt :: bool
  rq_issue_keys :: "string list"
  rq_findings :: "string list"
  rq_user_action :: "string option"

definition plain_request :: "string \<Rightarrow> results \<Rightarrow> string \<Rightarrow> requeue_request" where
  "plain_request stage rs why = \<lparr>rq_stage = stage, rq_results = rs, rq_reason = why,
     rq_retry_after = None, rq_count_attempt = True, rq_issue_keys = [], rq_findings = [],
     rq_user_action = None\<rparr>"

definition count_of :: "(string \<times> int) list \<Rightarrow> string \<Rightarrow> int" where
  "count_of counts k = (case map_of counts k of None \<Rightarrow> 0 | Some n \<Rightarrow> n)"

definition bump_counts :: "string list \<Rightarrow> (string \<times> int) list \<Rightarrow> (string \<times> int) list" where
  "bump_counts keys counts = fold (\<lambda>k c. AList.update k (count_of c k + 1) c) keys counts"

definition counts_of :: "order_doc \<Rightarrow> (string \<times> int) list" where
  "counts_of w = (case wo_issue_counts w of None \<Rightarrow> [] | Some c \<Rightarrow> c)"

definition request_keys :: "runner_config \<Rightarrow> requeue_request \<Rightarrow> string list" where
  "request_keys cfg rq = (if rq_issue_keys rq = []
     then [issue_key (rc_text cfg) (rq_stage rq) (rq_reason rq)] else remdups (rq_issue_keys rq))"

definition next_attempt :: "requeue_request \<Rightarrow> order_doc \<Rightarrow> int" where
  "next_attempt rq w = attempts_of w + (if rq_count_attempt rq then 1 else 0)"

definition next_counts :: "runner_config \<Rightarrow> requeue_request \<Rightarrow> order_doc \<Rightarrow> (string \<times> int) list" where
  "next_counts cfg rq w =
     (if rq_count_attempt rq then bump_counts (request_keys cfg rq) (counts_of w) else counts_of w)"

definition recurring_keys :: "runner_config \<Rightarrow> requeue_request \<Rightarrow> order_doc \<Rightarrow> string list" where
  "recurring_keys cfg rq w =
     filter (\<lambda>k. same_issue_limit cfg < count_of (next_counts cfg rq w) k) (request_keys cfg rq)"

definition exhausted :: "runner_config \<Rightarrow> requeue_request \<Rightarrow> order_doc \<Rightarrow> bool" where
  "exhausted cfg rq w \<longleftrightarrow> rq_count_attempt rq \<and>
     (max_attempts cfg \<le> next_attempt rq w \<or> recurring_keys cfg rq w \<noteq> [])"

definition findings_detail :: "requeue_request \<Rightarrow> string" where
  "findings_detail rq = take 2000 (str_join ''; '' (rq_findings rq))"

definition dead_order :: "runner_config \<Rightarrow> datetime \<Rightarrow> requeue_request \<Rightarrow> order_doc \<Rightarrow> order_doc" where
  "dead_order cfg now rq w = w\<lparr>wo_status := ''dead_letter'', wo_stage := Some (rq_stage rq),
     wo_finished_at := Some now, wo_last_error := Some (rq_reason rq), wo_results := Some (rq_results rq),
     wo_attempts := Some (next_attempt rq w), wo_recurring_issues := Some (recurring_keys cfg rq w),
     wo_issue_counts := Some (next_counts cfg rq w)\<rparr>"

definition dead_letter_of :: "runner_config \<Rightarrow> datetime \<Rightarrow> string \<Rightarrow> requeue_request \<Rightarrow> order_doc \<Rightarrow> dead_letter"
where
  "dead_letter_of cfg now i rq w = \<lparr>dl_id = i, dl_stage = rq_stage rq, dl_reason = rq_reason rq,
     dl_attempts = next_attempt rq w, dl_recurring_issues = recurring_keys cfg rq w, dl_failed_at = now\<rparr>"

text \<open>\<open>timedelta(seconds=\<dots>)\<close> rounds to whole microseconds.\<close>

definition after_seconds :: "datetime \<Rightarrow> rat \<Rightarrow> datetime" where
  "after_seconds now r = dt_add now (round_half_even (r * 1000000))"

definition requeued_order :: "runner_config \<Rightarrow> datetime \<Rightarrow> requeue_request \<Rightarrow> order_doc \<Rightarrow> order_doc" where
  "requeued_order cfg now rq w = w\<lparr>
     wo_status := (if str_truthy (rq_user_action rq) then ''awaiting_user_input'' else ''queued''),
     wo_stage := Some (rq_stage rq), wo_finished_at := None, wo_last_error := Some (rq_reason rq),
     wo_results := Some (rq_results rq), wo_attempts := Some (next_attempt rq w),
     wo_retry_not_before := override (map_option (after_seconds now) (rq_retry_after rq)) (wo_retry_not_before w),
     wo_issue_counts := Some (next_counts cfg rq w)\<rparr>"

definition requeue_mutation :: "runner_config \<Rightarrow> datetime \<Rightarrow> string \<Rightarrow> requeue_request \<Rightarrow> unit mutation" where
  "requeue_mutation cfg now i rq = bindE (find_order i) (\<lambda>w.
     if exhausted cfg rq w then
       thenE (save_order i (dead_order cfg now rq w))
      (thenE (modifyE (\<lambda>s. s\<lparr>gs_dead_letters := gs_dead_letters s @ [dead_letter_of cfg now i rq w]\<rparr>))
             (append_message now ''MANAGER'' (DeadLettered i (next_attempt rq w) (max_attempts cfg)
                (same_issue_limit cfg) (findings_detail rq))))
     else
       thenE (save_order i (requeued_order cfg now rq w))
        (case rq_user_action rq of
           Some (c # cs) \<Rightarrow>
             thenE (modifyE (put_blocker (order_blocker i) (ForOrder i (c # cs)) now))
                   (append_message now ''MANAGER'' (ReviewPaused (ForOrder i (c # cs)) (findings_detail rq)))
         | _ \<Rightarrow> append_message now ''MANAGER'' (Requeued i (rq_stage rq)
                (map_option round_half_even (rq_retry_after rq)) (rq_reason rq) (findings_detail rq))))"

definition finish_notice :: "string \<Rightarrow> string \<Rightarrow> results \<Rightarrow> order_doc \<Rightarrow> notice" where
  "finish_notice i status rs w =
     (if status = ''awaiting_review'' then CompletedAwaitingReview i (needs_backtest w)
      else if status = ''awaiting_implementation_approval'' then ImplementationReviewed i
      else if status = ''awaiting_backtest_approval'' then BacktestReviewed i
      else if status = ''awaiting_optimization_approval'' then OptimizationReady i
      else if status = ''queued'' then RunInterrupted i
      else if status = ''cancelled'' then Cancelled i
      else Failed i (case map_of rs ''error'' of None \<Rightarrow> ''unknown error'' | Some e \<Rightarrow> e))"

definition finished_order :: "datetime \<Rightarrow> string \<Rightarrow> string \<Rightarrow> results \<Rightarrow> order_doc \<Rightarrow> order_doc" where
  "finished_order now status stage rs w = (add_checkpoint stage status now None
     (w\<lparr>wo_status := status, wo_stage := Some stage, wo_finished_at := Some now, wo_results := Some rs\<rparr>))
     \<lparr>wo_retry_not_before := None, wo_last_error := None\<rparr>"

definition finish_mutation :: "datetime \<Rightarrow> string \<Rightarrow> string \<Rightarrow> string \<Rightarrow> results \<Rightarrow> unit mutation" where
  "finish_mutation now i status stage rs = bindE (find_order i) (\<lambda>w.
     thenE (save_order i (finished_order now status stage rs w))
           (append_message now ''MANAGER'' (finish_notice i status rs w)))"

section \<open>Blockers of the user\<close>

definition publish_mutation :: "datetime \<Rightarrow> string \<Rightarrow> string \<Rightarrow> unit mutation" where
  "publish_mutation now code detail = (\<lambda>s.
     if (case map_of (gs_blockers s) code of None \<Rightarrow> False
         | Some b \<Rightarrow> ub_active b \<and> ub_detail b = Plain detail)
     then (Inr (), s)
     else (Inr (), add_message now ''MANAGER'' (UserNeeded detail) (put_blocker code (Plain detail) now s)))"

definition resolve_mutation :: "datetime \<Rightarrow> string \<Rightarrow> unit mutation" where
  "resolve_mutation now code = (\<lambda>s. case map_of (gs_blockers s) code of
       None \<Rightarrow> (Inr (), s)
     | Some b \<Rightarrow>
         if \<not> ub_active b then (Inr (), s)
         else (Inr (), add_message now ''MANAGER'' (UserResolved (ub_detail b)) (resolve_blocker code b now s)))"

end
