(* ===== verification/Order_Recovery.thy ===== *)
theory Order_Recovery
  imports Work_Order
begin

text \<open>
  src/src/quant_signal_agent/studio/gateway.py: the mutations that \<open>CodexWorkOrderRunner\<close> applies
  when it starts (migration, recovery of interrupted, failed and stranded orders) and those an
  operator asks for (cancel, resume after a quota reset, retry after remediation).
\<close>

section \<open>Start of the runner\<close>

text \<open>\<open>_migrate_optimization_workflow\<close>\<close>

definition full_dag :: "dag_node list option" where
  "full_dag = (case research_dag True True of Inl _ \<Rightarrow> None | Inr d \<Rightarrow> Some d)"

definition lacks_optimizer :: "order_doc \<Rightarrow> bool" where
  "lacks_optimizer w \<longleftrightarrow> wo_agent w = ''strategy'' \<and> wo_artifact_kind w = ''strategy'' \<and>
     needs_backtest w \<and> wo_status w \<notin> {''approved'', ''cancelled''} \<and> wo_optimization_required w = None"

definition with_optimizer :: "order_doc \<Rightarrow> order_doc" where
  "with_optimizer w = w\<lparr>wo_optimization_required := Some True, wo_dag := full_dag,
     wo_approvals := (case wo_approvals w of None \<Rightarrow> Some no_approvals | a \<Rightarrow> a)\<rparr>"

definition migrate_mutation :: "unit mutation" where
  "migrate_mutation = modifyE (each_order (\<lambda>w s. (if lacks_optimizer w then with_optimizer w else w, s)))"

text \<open>\<open>_recover_interrupted_orders\<close>\<close>

definition interrupted_stage :: "order_doc \<Rightarrow> string" where
  "interrupted_stage w = (let agent = (if wo_agent w = [] then ''strategy'' else wo_agent w);
       stage = (case wo_stage w of Some (c # cs) \<Rightarrow> c # cs | _ \<Rightarrow> agent)
     in if stage \<in> set executable_stages then stage else agent)"

definition recover_interrupted :: "datetime \<Rightarrow> order_doc \<Rightarrow> gateway_state \<Rightarrow> order_doc \<times> gateway_state" where
  "recover_interrupted now w s =
     (if wo_status w \<noteq> ''working'' then (w, s)
      else (w\<lparr>wo_status := ''queued'', wo_stage := Some (interrupted_stage w),
               wo_last_heartbeat_at := Some now\<rparr>,
            add_message now ''MANAGER'' (Interrupted (wo_id w)) s))"

definition recover_interrupted_mutation :: "datetime \<Rightarrow> unit mutation" where
  "recover_interrupted_mutation now = modifyE (each_order (recover_interrupted now))"

text \<open>\<open>_recover_optimizer_stage_regressions\<close>\<close>

definition legacy_timeout :: string where
  "legacy_timeout = ''Codex strategy turn exceeded ''"

definition stage_regressed :: "order_doc \<Rightarrow> bool" where
  "stage_regressed w \<longleftrightarrow> wo_status w = ''dead_letter'' \<and> wo_agent w = ''strategy'' \<and>
     wo_stage w = Some ''strategy'' \<and> needs_optimization w \<and>
     (case wo_results w of None \<Rightarrow> False
      | Some rs \<Rightarrow> \<not> present (map_of rs ''optimization'') \<and>
          (case map_of rs ''review_backtest'' of None \<Rightarrow> False
           | Some report \<Rightarrow> review_outcome report ''review_backtest'' = Inr PASS)) \<and>
     list_ex (\<lambda>c. cp_stage c = ''optimize'') (wo_checkpoints w) \<and>
     str_startswith (last_error_of w) legacy_timeout"

definition restored_optimizer :: "text_env \<Rightarrow> datetime \<Rightarrow> order_doc \<Rightarrow> order_doc" where
  "restored_optimizer env now w =
     (let key = issue_key env ''strategy'' (last_error_of w);
          spurious = (case wo_issue_counts w of None \<Rightarrow> 0 | Some c \<Rightarrow> count_of c key)
      in add_checkpoint ''optimize'' ''queued_after_stage_recovery'' now
           (Some ''Recovered optimizer stage rewritten by legacy claim logic'')
         (w\<lparr>wo_status := ''queued'', wo_stage := Some ''optimize'',
            wo_attempts := Some (max 0 (attempts_of w - spurious)), wo_finished_at := None,
            wo_last_heartbeat_at := Some now, wo_issue_counts := map_option (AList.delete key) (wo_issue_counts w),
            wo_last_error := None, wo_recurring_issues := None, wo_retry_not_before := None\<rparr>))"

definition recover_optimizer ::
  "text_env \<Rightarrow> datetime \<Rightarrow> order_doc \<Rightarrow> gateway_state \<Rightarrow> order_doc \<times> gateway_state"
where
  "recover_optimizer env now w s =
     (if stage_regressed w
      then (restored_optimizer env now w, add_message now ''MAINTENANCE'' (StageRecovered (wo_id w)) s)
      else (w, s))"

definition recover_optimizer_mutation :: "text_env \<Rightarrow> datetime \<Rightarrow> unit mutation" where
  "recover_optimizer_mutation env now = modifyE (\<lambda>s.
     drop_dead_letters (map wo_id (filter stage_regressed (gs_orders s)))
       (each_order (recover_optimizer env now) s))"

text \<open>\<open>_recover_passed_review_dead_letters\<close>\<close>

definition pass_misread :: "order_doc \<Rightarrow> bool" where
  "pass_misread w \<longleftrightarrow> wo_status w = ''dead_letter'' \<and>
     wo_last_error w = Some ''Review Agent returned FAIL for implementation evidence'' \<and>
     (case map_of (results_of w) ''review_implementation'' of None \<Rightarrow> False | Some r \<Rightarrow> review_passed r) \<and>
     (case wo_approvals w of None \<Rightarrow> True | Some a \<Rightarrow> for_implementation a = None)"

definition restored_pass :: "datetime \<Rightarrow> order_doc \<Rightarrow> order_doc" where
  "restored_pass now w = add_checkpoint (gate_value IMPLEMENTATION_GATE) ''awaiting_implementation_approval'' now
     (Some ''Recovered explicit Review PASS misclassified as FAIL'')
     (w\<lparr>wo_status := ''awaiting_implementation_approval'', wo_stage := Some (gate_value IMPLEMENTATION_GATE),
        wo_finished_at := Some now, wo_last_error := None\<rparr>)"

definition recover_pass :: "datetime \<Rightarrow> order_doc \<Rightarrow> gateway_state \<Rightarrow> order_doc \<times> gateway_state" where
  "recover_pass now w s =
     (if pass_misread w
      then (restored_pass now w, add_message now ''MANAGER'' (PassRestored (wo_id w)) s) else (w, s))"

definition recover_pass_mutation :: "datetime \<Rightarrow> unit mutation" where
  "recover_pass_mutation now = modifyE (\<lambda>s.
     drop_dead_letters (map wo_id (filter pass_misread (gs_orders s))) (each_order (recover_pass now) s))"

text \<open>\<open>_recover_failed_review_orders\<close>\<close>

definition awaited_review :: "order_doc \<Rightarrow> string option" where
  "awaited_review w =
     (if wo_status w = ''awaiting_implementation_approval'' then Some ''review_implementation''
      else if wo_status w = ''awaiting_backtest_approval'' then Some ''review_backtest'' else None)"

definition unpassed_review :: "order_doc \<Rightarrow> (string \<times> string) option" where
  "unpassed_review w = (case awaited_review w of None \<Rightarrow> None
     | Some key \<Rightarrow> (case map_of (results_of w) key of None \<Rightarrow> None
         | Some report \<Rightarrow> if review_passed report then None else Some (key, report)))"

definition return_stage :: "string \<Rightarrow> string" where
  "return_stage review = (if review = ''review_implementation'' then ''strategy'' else ''backtest'')"

definition legacy_keys :: "text_env \<Rightarrow> string \<Rightarrow> string \<Rightarrow> string list" where
  "legacy_keys env key report = (case review_findings report of
       [] \<Rightarrow> [issue_key env key ''incomplete legacy review'']
     | fs \<Rightarrow> remdups (map (issue_key env key) fs))"

definition legacy_recurring :: "runner_config \<Rightarrow> string \<Rightarrow> string \<Rightarrow> order_doc \<Rightarrow> string list" where
  "legacy_recurring cfg key report w = (let keys = legacy_keys (rc_text cfg) key report in
     filter (\<lambda>k. same_issue_limit cfg < count_of (bump_counts keys (counts_of w)) k) keys)"

definition joined_actions :: "string \<Rightarrow> string option" where
  "joined_actions report = (case user_actions report of
       [] \<Rightarrow> None | acts \<Rightarrow> Some (take 1000 (str_join ''; '' acts)))"

definition fail_reason :: "string \<Rightarrow> string" where
  "fail_reason key = ''Review Agent returned FAIL for '' @ key"

definition failed_review_order ::
  "runner_config \<Rightarrow> datetime \<Rightarrow> string \<Rightarrow> string \<Rightarrow> order_doc \<Rightarrow> order_doc"
where
  "failed_review_order cfg now key report w =
     (let counted = w\<lparr>wo_issue_counts :=
              Some (bump_counts (legacy_keys (rc_text cfg) key report) (counts_of w)),
            wo_stage := Some (return_stage key), wo_attempts := Some (attempts_of w + 1),
            wo_last_error := Some (fail_reason key)\<rparr>;
          recurring = legacy_recurring cfg key report w
      in if max_attempts cfg \<le> attempts_of w + 1 \<or> recurring \<noteq> []
         then counted\<lparr>wo_status := ''dead_letter'', wo_recurring_issues := Some recurring\<rparr>
         else add_checkpoint (return_stage key) ''queued_after_review_fail'' now None
           (counted\<lparr>wo_status := (if joined_actions report \<noteq> None then ''awaiting_user_input'' else ''queued''),
              wo_finished_at := None\<rparr>))"

definition failed_review_rest ::
  "runner_config \<Rightarrow> datetime \<Rightarrow> string \<Rightarrow> string \<Rightarrow> order_doc \<Rightarrow> gateway_state \<Rightarrow> gateway_state"
where
  "failed_review_rest cfg now key report w s =
     (let recurring = legacy_recurring cfg key report w; detail = take 2000 (str_join ''; '' (review_findings report))
      in if max_attempts cfg \<le> attempts_of w + 1 \<or> recurring \<noteq> []
         then add_message now ''MANAGER'' (ReviewThreshold (wo_id w) detail)
           (s\<lparr>gs_dead_letters := gs_dead_letters s @ [\<lparr>dl_id = wo_id w, dl_stage = return_stage key,
              dl_reason = fail_reason key, dl_attempts = attempts_of w + 1,
              dl_recurring_issues = recurring, dl_failed_at = now\<rparr>]\<rparr>)
         else add_message now ''MANAGER'' (ReviewFailed (wo_id w) (return_stage key) (joined_actions report) detail)
           (case joined_actions report of None \<Rightarrow> s
            | Some acts \<Rightarrow> put_blocker (order_blocker (wo_id w)) (Plain acts) now s))"

definition recover_failed_review ::
  "runner_config \<Rightarrow> datetime \<Rightarrow> order_doc \<Rightarrow> gateway_state \<Rightarrow> order_doc \<times> gateway_state"
where
  "recover_failed_review cfg now w s = (case unpassed_review w of
       None \<Rightarrow> (w, s)
     | Some (key, report) \<Rightarrow>
         (failed_review_order cfg now key report w, failed_review_rest cfg now key report w s))"

definition recover_failed_review_mutation :: "runner_config \<Rightarrow> datetime \<Rightarrow> unit mutation" where
  "recover_failed_review_mutation cfg now = modifyE (each_order (recover_failed_review cfg now))"

text \<open>\<open>_clear_terminal_retry_metadata\<close>\<close>

definition clear_terminal_mutation :: "unit mutation" where
  "clear_terminal_mutation = modifyE (each_order (\<lambda>w s.
     (if wo_status w \<in> {''queued'', ''working''} then w else w\<lparr>wo_retry_not_before := None\<rparr>, s)))"

section \<open>Requests of an operator\<close>

definition cancel_candidates :: "string option \<Rightarrow> gateway_state \<Rightarrow> string list" where
  "cancel_candidates identifier s = map wo_id (filter (\<lambda>w. wo_status w \<in> {''queued'', ''working''} \<and>
     (identifier = None \<or> identifier = Some (wo_id w))) (gs_orders s))"

definition cancel_mutation :: "datetime \<Rightarrow> string \<Rightarrow> unit mutation" where
  "cancel_mutation now i = bindE (find_order i) (\<lambda>w.
     save_order i (w\<lparr>wo_status := ''cancelled'', wo_stage := Some ''cancelled'', wo_finished_at := Some now\<rparr>))"

definition resumable :: "string option \<Rightarrow> order_doc \<Rightarrow> bool" where
  "resumable identifier w \<longleftrightarrow> wo_status w = ''queued'' \<and>
     (case identifier of None \<Rightarrow> True | Some i \<Rightarrow> wo_id w = i) \<and>
     is_retryable (RuntimeError (last_error_of w))"

definition closed_circuit :: circuit_doc where
  "closed_circuit = \<lparr>cd_state = CLOSED_CIRCUIT, cd_open_until = None, cd_reason = None\<rparr>"

definition resume_mutation :: "datetime \<Rightarrow> string option \<Rightarrow> string list mutation" where
  "resume_mutation now identifier = (\<lambda>s.
     let resumed = map wo_id (filter (resumable identifier) (gs_orders s)) in
     (Inr resumed, add_message now ''MANAGER'' (QuotaReset (int (length resumed)))
        ((each_order (\<lambda>w t. (if resumable identifier w
              then w\<lparr>wo_retry_not_before := None, wo_quota_retry_resumed_at := Some now\<rparr> else w, t)) s)
           \<lparr>gs_circuit := Some closed_circuit\<rparr>)))"

text \<open>\<open>retry_dead_letter_after_remediation\<close>; \<open>manifest\<close> is what the look-up of the manifest gives.\<close>

definition is_artifact_id :: "string \<Rightarrow> bool" where
  "is_artifact_id s \<longleftrightarrow>
     list_all (\<lambda>w. w \<noteq> [] \<and> list_all (\<lambda>c. is_lower_ascii c \<or> is_digit_ascii c) w) (str_split CHR ''-'' s)"

definition is_semver :: "string \<Rightarrow> bool" where
  "is_semver s \<longleftrightarrow> (let ps = str_split CHR ''.'' s in
     length ps = 3 \<and> list_all (\<lambda>p. p \<noteq> [] \<and> list_all is_digit_ascii p) ps)"

definition implementation_of :: "order_doc \<Rightarrow> approval option" where
  "implementation_of w = (case wo_approvals w of None \<Rightarrow> None | Some a \<Rightarrow> for_implementation a)"

definition has_approval :: "approval option \<Rightarrow> bool" where
  "has_approval a = (case a of None \<Rightarrow> False | Some d \<Rightarrow> ap_approved d)"

definition preserves_implementation :: "string \<Rightarrow> string \<Rightarrow> order_doc \<Rightarrow> bool" where
  "preserves_implementation aid version_of w \<longleftrightarrow> wo_agent w = ''strategy'' \<and>
     wo_stage w \<in> {Some ''backtest'', Some ''review_backtest''} \<and>
     has_approval (implementation_of w) \<and>
     wo_artifact_id w = Some aid \<and> wo_artifact_version w = Some version_of \<and>
     (case wo_results w of None \<Rightarrow> False
      | Some rs \<Rightarrow> map_of rs ''strategy'' \<noteq> None \<and> map_of rs ''review_implementation'' \<noteq> None)"

definition drop_results :: "string list \<Rightarrow> results \<Rightarrow> results" where
  "drop_results ks rs = filter (\<lambda>(k, v). k \<notin> set ks) rs"

definition reset_progress :: "bool \<Rightarrow> order_doc \<Rightarrow> order_doc" where
  "reset_progress keep w =
     (if keep then w\<lparr>wo_results := map_option (drop_results [''backtest'', ''review_backtest'']) (wo_results w),
        wo_approvals := map_option (\<lambda>a. a\<lparr>for_optimization := None, for_backtest := None, for_live := None\<rparr>)
          (wo_approvals w)\<rparr>
      else if wo_agent w = ''strategy'' then w\<lparr>wo_approvals := map_option (\<lambda>a. no_approvals) (wo_approvals w)\<rparr>
      else w)"

definition retry_stage :: "bool \<Rightarrow> order_doc \<Rightarrow> string" where
  "retry_stage keep w = (if keep then ''backtest'' else if wo_agent w = [] then ''strategy'' else wo_agent w)"

definition remediated_order :: "datetime \<Rightarrow> string \<Rightarrow> string \<Rightarrow> string \<Rightarrow> order_doc \<Rightarrow> order_doc" where
  "remediated_order now aid version_of why w =
     (let keep = preserves_implementation aid version_of w
      in add_checkpoint (retry_stage keep w) ''queued_after_remediation'' now (Some (strip why))
         ((reset_progress keep w)\<lparr>wo_status := ''queued'', wo_stage := Some (retry_stage keep w),
            wo_attempts := Some 0, wo_issue_counts := Some [], wo_artifact_id := Some aid,
            wo_artifact_version := Some version_of, wo_finished_at := None,
            wo_last_heartbeat_at := Some now,
            wo_remediation_retry_count :=
              Some ((case wo_remediation_retry_count w of None \<Rightarrow> 0 | Some n \<Rightarrow> n) + 1),
            wo_last_error := None, wo_retry_not_before := None\<rparr>))"

definition retry_mutation ::
  "datetime \<Rightarrow> string \<Rightarrow> string \<Rightarrow> string \<Rightarrow> string \<Rightarrow> (string \<Rightarrow> exn + 'm option) \<Rightarrow> unit mutation"
where
  "retry_mutation now i aid version_of why manifest = bindE (find_order i) (\<lambda>w.
     thenE (guardE (wo_status w \<in> {''dead_letter'', ''failed'', ''awaiting_user_input''})
              (ValueError ''only failed, dead-letter, or user-blocked orders can be retried''))
      (case manifest (wo_artifact_kind w) of
         Inl e \<Rightarrow> raise e
       | Inr None \<Rightarrow> raise (ValueError ''exact remediated artifact manifest does not exist'')
       | Inr (Some _) \<Rightarrow>
           thenE (save_order i (remediated_order now aid version_of why w))
          (thenE (modifyE (\<lambda>s. case map_of (gs_blockers s) (order_blocker i) of
                None \<Rightarrow> s | Some b \<Rightarrow> if ub_active b then resolve_blocker (order_blocker i) b now s else s))
          (thenE (modifyE (drop_dead_letters [i]))
                 (append_message now ''MAINTENANCE'' (Remediated i aid version_of
                    (retry_stage (preserves_implementation aid version_of w) w)))))))"

definition retry_request_ok :: "string \<Rightarrow> string \<Rightarrow> string \<Rightarrow> exn option" where
  "retry_request_ok aid version_of why =
     (if blank why then Some (ValueError ''retry reason is required'')
      else if \<not> is_artifact_id aid then Some (ValueError ''artifact_id must be lowercase kebab-case'')
      else if \<not> is_semver version_of
      then Some (ValueError ''artifact_version must use semantic major.minor.patch'')
      else None)"

end
