(* ===== verification/Artifact_Evidence.thy ===== *)
theory Artifact_Evidence
  imports Work_Order
begin

text \<open>
  src/src/quant_signal_agent/studio/gateway.py: what \<open>CodexWorkOrderRunner\<close> reads from the
  repository's files: the manifest of an implemented artifact, the record that the artifact
  registry keeps, and the local back-test evidence.

  A \<open>workspace\<close> is the state of the files at one moment: the manifests and reports in the order
  the directory walk gives them (\<open>None\<close> where the file does not parse), the contents by path
  (paths are relative to the project root, \<open>ws_root\<close>), the
  revision text of \<open>_code_revision\<close> and the resolution of a chart's path below the project root.
\<close>

section \<open>Files\<close>

record manifest_file =
  mf_registry :: string
  mf_dir :: string
  mf_stem :: string
  mf_payload :: "(string \<times> pyval) list option"

record report_file =
  rf_stem :: string
  rf_payload :: "pyval option"

record workspace =
  ws_root :: string
  ws_manifests :: "manifest_file list"
  ws_reports :: "report_file list"
  ws_files :: "string \<Rightarrow> string option"
  ws_revision :: "string \<Rightarrow> string"
  ws_resolve :: "string \<Rightarrow> string option"

definition mf_path :: "manifest_file \<Rightarrow> string" where
  "mf_path m = mf_dir m @ ''/'' @ mf_stem m @ ''.toml''"

definition file_sha256 :: "std_env \<Rightarrow> workspace \<Rightarrow> string option \<Rightarrow> string option" where
  "file_sha256 std ws p = Option.bind p (\<lambda>q. map_option (sha256 std) (ws_files ws q))"

section \<open>Unanchored searches\<close>

text \<open>All matches, left to right and without overlaps, of a pattern that never matches the empty text.\<close>

function scan :: "(string \<Rightarrow> ('a \<times> string) option) \<Rightarrow> string \<Rightarrow> 'a list" where
  "scan m [] = []"
| "scan m (c # cs) = (case m (c # cs) of
       Some (v, rest) \<Rightarrow> if length rest \<le> length cs then v # scan m rest else [v]
     | None \<Rightarrow> scan m cs)"
  by pat_completeness auto
termination by (relation "measure (\<lambda>(m, s). length s)") auto

text \<open>\<open>PREFIX[class]+SUFFIX\<close>: the longest run of the class that still ends in the suffix.\<close>

definition match_between :: "string \<Rightarrow> (char \<Rightarrow> bool) \<Rightarrow> string \<Rightarrow> string \<Rightarrow> (string \<times> string) option" where
  "match_between prefix ok suffix s =
     (if take (length prefix) s \<noteq> prefix then None
      else (let r = drop (length prefix) s; run = takeWhile ok r in
        case find (\<lambda>n. take (length suffix) (drop n r) = suffix) (rev [1..<Suc (length run)]) of
          None \<Rightarrow> None
        | Some n \<Rightarrow> Some (prefix @ take (n + length suffix) r, drop (n + length suffix) r)))"

definition is_path_char :: "char \<Rightarrow> bool" where
  "is_path_char c \<longleftrightarrow> is_alnum_ascii c \<or> c \<in> {CHR ''_'', CHR ''.'', CHR ''/'', CHR ''-''}"

definition test_names :: "string \<Rightarrow> string list" where
  "test_names s = unique_strings (scan (match_between ''tests/'' is_path_char ''.py'') s)"

definition inbox_spec :: "string \<Rightarrow> string option" where
  "inbox_spec s = (case scan (match_between ''strategies/proposals/inbox/'' (\<lambda>c. \<not> py_isspace c) ''/spec.md'') s of
       [] \<Rightarrow> None | p # _ \<Rightarrow> Some p)"

text \<open>\<open>(?<![0-9.])VERSION(?![0-9.])\<close>; the flag tells whether the text before ends in \<open>[0-9.]\<close>.\<close>

definition version_char :: "char \<Rightarrow> bool" where
  "version_char c \<longleftrightarrow> is_digit_ascii c \<or> c = CHR ''.''"

fun mentions_version :: "string \<Rightarrow> bool \<Rightarrow> string \<Rightarrow> bool" where
  "mentions_version v after [] = (v = [] \<and> \<not> after)"
| "mentions_version v after (c # cs) =
     (\<not> after \<and> take (length v) (c # cs) = v \<and>
        (case drop (length v) (c # cs) of [] \<Rightarrow> True | d # _ \<Rightarrow> \<not> version_char d) \<or>
      mentions_version v (version_char c) cs)"

definition posix :: "string \<Rightarrow> string" where
  "posix s = map (\<lambda>c. if c = CHR 0x5C then CHR ''/'' else c) s"

section \<open>Manifests\<close>

definition registry_of :: "string \<Rightarrow> string option" where
  "registry_of kind = (if kind = ''signal'' then Some ''signals''
     else if kind = ''strategy'' then Some ''strategies'' else None)"

definition field :: "manifest_file \<Rightarrow> string \<Rightarrow> pyval" where
  "field m k = (case mf_payload m of None \<Rightarrow> PNone | Some d \<Rightarrow> dict_get d k)"

definition manifest_matches ::
  "string \<Rightarrow> string \<Rightarrow> string option \<Rightarrow> string option \<Rightarrow> manifest_file \<Rightarrow> bool"
where
  "manifest_matches identifier kind aid version_of m \<longleftrightarrow>
     (case registry_of kind of None \<Rightarrow> True | Some r \<Rightarrow> mf_registry m = r) \<and>
     mf_payload m \<noteq> None \<and> field m ''work_order'' = PStr identifier \<and>
     (case aid of None \<Rightarrow> True | Some a \<Rightarrow> field m ''stable_id'' = PStr a) \<and>
     (case version_of of None \<Rightarrow> True | Some v \<Rightarrow> field m ''version'' = PStr v) \<and>
     field m ''version'' = PStr (mf_stem m)"

text \<open>\<open>_implemented_manifest_for_work_order\<close>: the walk visits \<open>signals\<close>, then \<open>strategies\<close>.\<close>

definition in_registry :: "workspace \<Rightarrow> string \<Rightarrow> manifest_file list" where
  "in_registry ws r = filter (\<lambda>m. mf_registry m = r) (ws_manifests ws)"

definition implemented_manifest ::
  "workspace \<Rightarrow> string \<Rightarrow> string \<Rightarrow> string option \<Rightarrow> string option \<Rightarrow> exn + manifest_file option"
where
  "implemented_manifest ws identifier kind aid version_of =
     (if identifier = [] then Inr None
      else case filter (manifest_matches identifier kind aid version_of)
          (in_registry ws ''signals'' @ in_registry ws ''strategies'') of
        [] \<Rightarrow> Inr None
      | [m] \<Rightarrow> Inr (Some m)
      | _ \<Rightarrow> Inl (ValueError ''work order has multiple manifests; specify artifact_version''))"

definition spec_for_manifest :: "workspace \<Rightarrow> manifest_file \<Rightarrow> string option" where
  "spec_for_manifest ws m = find (\<lambda>p. ws_files ws p \<noteq> None)
     [mf_dir m @ ''/spec.md'', mf_dir m @ ''/normalized-spec-'' @ mf_stem m @ ''.json'']"

text \<open>\<open>_bind_artifact_identity_from_evidence\<close>\<close>

definition str_field :: "manifest_file \<Rightarrow> string \<Rightarrow> string option" where
  "str_field m k = (case field m k of PStr s \<Rightarrow> Some s | _ \<Rightarrow> None)"

definition bindable :: "order_doc \<Rightarrow> manifest_file \<Rightarrow> bool" where
  "bindable w m \<longleftrightarrow> field m ''work_order'' = PStr (wo_id w) \<and>
     (case (str_field m ''stable_id'', str_field m ''version'') of
        (Some a, Some v) \<Rightarrow> mf_stem m = v \<and> (case wo_artifact_id w of None \<Rightarrow> True | Some r \<Rightarrow> a = r)
      | _ \<Rightarrow> False)"

definition identity :: "manifest_file \<Rightarrow> string \<times> string" where
  "identity m = ((case str_field m ''stable_id'' of None \<Rightarrow> [] | Some a \<Rightarrow> a),
                 (case str_field m ''version'' of None \<Rightarrow> [] | Some v \<Rightarrow> v))"

definition mentioned :: "workspace \<Rightarrow> string \<Rightarrow> manifest_file \<Rightarrow> bool" where
  "mentioned ws evidence m = (case identity m of (a, v) \<Rightarrow>
     mentions_version v False evidence \<and>
     (contains (a @ ''@'' @ v) evidence \<or> contains (ws_root ws @ ''/'' @ mf_path m) (posix evidence) \<or>
      contains ([CHR 0x60] @ v @ [CHR 0x60]) evidence))"

definition bind_identity :: "workspace \<Rightarrow> string \<Rightarrow> order_doc \<Rightarrow> order_doc" where
  "bind_identity ws evidence w =
     (let bind = (\<lambda>m. w\<lparr>wo_artifact_id := Some (fst (identity m)),
                         wo_artifact_version := Some (snd (identity m))\<rparr>) in
      if wo_artifact_version w \<noteq> None then w
      else case registry_of (wo_artifact_kind w) of
        None \<Rightarrow> w
      | Some r \<Rightarrow> (let found = filter (bindable w) (in_registry ws r) in
          case found of
            [m] \<Rightarrow> bind m
          | _ \<Rightarrow> (case filter (mentioned ws evidence) found of [m] \<Rightarrow> bind m | _ \<Rightarrow> w)))"

section \<open>The record of the artifact registry\<close>

definition report_of :: "string \<Rightarrow> report_file \<Rightarrow> (string \<times> pyval) list option" where
  "report_of identifier r = (case rf_payload r of
       Some (PDict d) \<Rightarrow> if dict_get d ''work_order'' = PStr identifier then Some d else None
     | _ \<Rightarrow> None)"

definition report_names :: "std_env \<Rightarrow> report_file \<Rightarrow> (string \<times> pyval) list \<Rightarrow> string list" where
  "report_names std r d = [''reports/'' @ rf_stem r @ ''.json'', ''reports/'' @ rf_stem r @ ''.md''] @
     (case dict_get d ''charts'' of PDict c \<Rightarrow> map (py_str std \<circ> snd) c | _ \<Rightarrow> [])"

definition report_hash :: "(string \<times> pyval) list \<Rightarrow> string option" where
  "report_hash d = (case dict_get d ''provenance'' of
       PDict p \<Rightarrow> get_str p ''normalized_dataset_sha256''
     | _ \<Rightarrow> None)"

definition order_reports :: "workspace \<Rightarrow> string \<Rightarrow> (report_file \<times> (string \<times> pyval) list) list" where
  "order_reports ws identifier = List.map_filter
     (\<lambda>r. map_option (Pair r) (report_of identifier r)) (ws_reports ws)"

definition last_hash :: "(string \<times> pyval) list list \<Rightarrow> string option" where
  "last_hash ds = fold (\<lambda>d h. override (report_hash d) h) ds None"

definition manifest_tests :: "std_env \<Rightarrow> manifest_file \<Rightarrow> string list" where
  "manifest_tests std m = (case field m ''tests'' of PList xs \<Rightarrow> map (py_str std) xs | _ \<Rightarrow> [])"

definition artifact_record_of ::
  "std_env \<Rightarrow> workspace \<Rightarrow> datetime \<Rightarrow> (datetime \<Rightarrow> string) \<Rightarrow> order_doc \<Rightarrow> manifest_file option \<Rightarrow> artifact_record"
where
  "artifact_record_of std ws now iso_of w m =
     (let text_of = str_join [CHR 0x0A] (map snd (results_of w)); rs = order_reports ws (wo_id w) in
      \<lparr>work_order = wo_id w, artifact_kind = wo_artifact_kind w,
       spec_sha256 = file_sha256 std ws (case m of None \<Rightarrow> inbox_spec (wo_instruction w)
          | Some mf \<Rightarrow> spec_for_manifest ws mf),
       code_revision = ws_revision ws text_of,
       dataset_sha256 = last_hash (map snd rs),
       tests = unique_strings (test_names text_of @
          (case m of None \<Rightarrow> [] | Some mf \<Rightarrow> manifest_tests std mf)),
       reports = unique_strings (concat (map (\<lambda>(r, d). report_names std r d) rs)),
       recorded_at = iso_of now,
       artifact_id = map_option (\<lambda>mf. py_str std (field mf ''stable_id'')) m,
       artifact_version = map_option (\<lambda>mf. py_str std (field mf ''version'')) m,
       manifest_sha256 = file_sha256 std ws (map_option mf_path m)\<rparr>)"

text \<open>\<open>_record_artifact\<close>; \<open>manifest_payload["stable_id"]\<close> may be missing.\<close>

definition record_artifact ::
  "std_env \<Rightarrow> workspace \<Rightarrow> datetime \<Rightarrow> (datetime \<Rightarrow> string) \<Rightarrow> order_doc \<Rightarrow> (json_file option, unit) eff"
where
  "record_artifact std ws now iso_of w =
     (case implemented_manifest ws (wo_id w) (wo_artifact_kind w) (wo_artifact_id w) (wo_artifact_version w) of
        Inl e \<Rightarrow> raise e
      | Inr None \<Rightarrow>
          if wo_artifact_version w \<noteq> None
          then raise (ValueError ''exact work-order artifact version manifest does not exist'')
          else upsert_record (artifact_record_of std ws now iso_of w None)
      | Inr (Some m) \<Rightarrow>
          if \<not> dict_has (case mf_payload m of None \<Rightarrow> [] | Some d \<Rightarrow> d) ''stable_id''
          then raise (KeyError ''stable_id'')
          else upsert_record (artifact_record_of std ws now iso_of w (Some m)))"

section \<open>Local back-test evidence\<close>

definition accepted_statuses :: "string list" where
  "accepted_statuses = [''complete'', ''awaiting_user_approval'', ''awaiting_user_review_data_cutoff'',
     ''complete_through_available_boundary'']"

definition is_int :: "pyval \<Rightarrow> int option" where
  "is_int v = (case v of PInt i \<Rightarrow> Some i | PBool b \<Rightarrow> Some (if b then 1 else 0) | _ \<Rightarrow> None)"

definition is_sha256 :: "string \<Rightarrow> bool" where
  "is_sha256 h \<longleftrightarrow> length h = 64 \<and> list_all (\<lambda>c. is_digit_ascii c \<or> c \<in> set ''abcdef'') h"

definition path_suffix :: "string \<Rightarrow> string" where
  "path_suffix p = (let name = rev (takeWhile (\<lambda>c. c \<noteq> CHR ''/'') (rev p));
       after = rev (takeWhile (\<lambda>c. c \<noteq> CHR ''.'') (rev name));
       before = length name - length after
     in if before \<le> 1 \<or> after = [] then [] else CHR ''.'' # after)"

definition nonempty_file :: "workspace \<Rightarrow> string \<Rightarrow> bool" where
  "nonempty_file ws p \<longleftrightarrow> (case ws_files ws p of None \<Rightarrow> False | Some c \<Rightarrow> c \<noteq> [])"

definition chart_valid :: "workspace \<Rightarrow> pyval \<Rightarrow> bool" where
  "chart_valid ws v = (case v of
       PStr p \<Rightarrow> ws_resolve ws p \<noteq> None \<and> str_lower (path_suffix p) = ''.svg'' \<and> nonempty_file ws p
     | _ \<Rightarrow> False)"

definition status_accepted :: "pyval \<Rightarrow> exn + bool" where
  "status_accepted v = (case dict_key v of
       Inl e \<Rightarrow> Inl e
     | Inr k \<Rightarrow> Inr (k \<in> set (map PStr accepted_statuses)))"

definition final_fields :: "string list" where
  "final_fields = [''net_return'', ''max_drawdown'', ''trade_count'']"

definition evidence_text ::
  "std_env \<Rightarrow> (string \<times> pyval) list \<Rightarrow> report_file \<Rightarrow> string \<Rightarrow> (string \<times> pyval) list \<Rightarrow> string \<Rightarrow>
     (string \<times> pyval) list \<Rightarrow> string"
where
  "evidence_text std d r candles final digest charts =
     (let nl = [CHR 0x0A]; q = [CHR 0x60] in
     ''Native Backtest recovery gate verified completed local evidence after a retryable Codex availability failure.'' @
     nl @ nl @ ''- Status: '' @ q @ py_str std (dict_get d ''status'') @ q @ nl @
     ''- Candles: '' @ candles @ nl @
     ''- Final-test net return: '' @ py_str std (dict_get final ''net_return'') @ nl @
     ''- Final-test max drawdown: '' @ py_str std (dict_get final ''max_drawdown'') @ nl @
     ''- Final-test trades: '' @ py_str std (dict_get final ''trade_count'') @ nl @
     ''- Dataset SHA-256: '' @ q @ digest @ q @ nl @
     ''- Machine report: '' @ q @ ''reports/'' @ rf_stem r @ ''.json'' @ q @ nl @
     ''- Human report: '' @ q @ ''reports/'' @ rf_stem r @ ''.md'' @ q @ nl @
     ''- Charts validated: '' @ str_of_nat (length charts) @ nl @ nl @
     ''The work order is stopped at the independent review and backtest approval gates. No strategy promotion, '' @
     ''Signal Runtime start, authenticated API call, or trading action was performed.'')"

definition gate_fields ::
  "(string \<times> pyval) list \<Rightarrow> ((string \<times> pyval) list \<times> (string \<times> pyval) list \<times> (string \<times> pyval) list) option"
where
  "gate_fields d =
     (if dict_get d ''research_only'' = PBool True \<and> dict_get d ''auto_promote'' = PBool False
      then (case (dict_get d ''approval'', dict_get d ''provenance'', dict_get d ''final_test'', dict_get d ''charts'') of
          (PDict a, PDict p, PDict f, PDict c) \<Rightarrow>
            if dict_get a ''required'' = PBool True \<and> c \<noteq> [] then Some (p, f, c) else None
        | _ \<Rightarrow> None)
      else None)"

definition report_evidence ::
  "std_env \<Rightarrow> (string \<Rightarrow> pyfloat option) \<Rightarrow> workspace \<Rightarrow> string \<Rightarrow> report_file \<Rightarrow> (string \<times> pyval) list \<Rightarrow>
     exn + string option"
where
  "report_evidence std fs ws kind r d =
     (case status_accepted (dict_get d ''status'') of
        Inl e \<Rightarrow> Inl e
      | Inr False \<Rightarrow> Inr None
      | Inr True \<Rightarrow> (case gate_fields d of
          None \<Rightarrow> Inr None
        | Some (p, f, c) \<Rightarrow>
            (case (if kind = ''strategy''
                   then validate_trading_performance_evidence fs (dict_get d ''performance_standard'') (PDict c)
                   else Inr (True, [])) of
               Inl e \<Rightarrow> Inl e
             | Inr (valid, _) \<Rightarrow>
                 (case (is_int (dict_get p ''candle_count''), get_str p ''normalized_dataset_sha256'') of
                    (Some n, Some h) \<Rightarrow>
                      if valid \<and> 0 < n \<and> is_sha256 h \<and> list_all (dict_has f) final_fields \<and>
                         nonempty_file ws (''reports/'' @ rf_stem r @ ''.md'') \<and>
                         list_all (chart_valid ws) (map snd c)
                      then Inr (Some (evidence_text std d r (py_str std (dict_get p ''candle_count'')) f h c))
                      else Inr None
                  | _ \<Rightarrow> Inr None))))"

text \<open>\<open>_validated_local_backtest_evidence\<close>: the first report of the order decides.\<close>

definition validated_evidence ::
  "std_env \<Rightarrow> (string \<Rightarrow> pyfloat option) \<Rightarrow> workspace \<Rightarrow> string \<Rightarrow> string \<Rightarrow> exn + string option"
where
  "validated_evidence std fs ws identifier kind =
     (if identifier = [] then Inr None
      else case order_reports ws identifier of
        [] \<Rightarrow> Inr None
      | (r, d) # _ \<Rightarrow> report_evidence std fs ws kind r d)"

end
