(* ===== verification/Order_Approval.thy ===== *)
theory Order_Approval
  imports Order_Recovery Artifact_Evidence
begin

text \<open>
  src/src/quant_signal_agent/studio/gateway.py: how \<open>StudioService\<close> creates work orders, applies
  the decisions of the approval gates, adopts existing artifacts, and which signal versions it
  counts as approved for the runtime.
\<close>

section \<open>New orders\<close>

definition new_order ::
  "string \<Rightarrow> datetime \<Rightarrow> string \<Rightarrow> string \<Rightarrow> string \<Rightarrow> bool \<Rightarrow> string \<Rightarrow> string option \<Rightarrow> order_doc"
where
  "new_order i now instruction agent kind backtest operation aid =
     (let research = (agent = ''strategy''); optimization = (kind = ''strategy'' \<and> backtest) in
      \<lparr>wo_id = i, wo_agent = agent, wo_artifact_kind = kind, wo_status = ''queued'', wo_created_at = now,
       wo_instruction = instruction, wo_operation = operation, wo_artifact_id = aid,
       wo_artifact_version = None,
       wo_backtest_required = (if research then Some backtest else None),
       wo_optimization_required = (if research then Some optimization else None),
       wo_dag = (if research then (case research_dag backtest optimization of Inl _ \<Rightarrow> None | Inr d \<Rightarrow> Some d)
                 else None),
       wo_approvals = (if research then Some no_approvals else None),
       wo_checkpoints = [\<lparr>cp_stage = agent, cp_status = ''queued'', cp_at = now, cp_reason = None\<rparr>],
       wo_stage = None, wo_results = None, wo_attempts = None, wo_issue_counts = None,
       wo_recurring_issues = None, wo_last_error = None, wo_retry_not_before = None,
       wo_started_at = None, wo_last_started_at = None, wo_last_heartbeat_at = None,
       wo_finished_at = None, wo_quota_retry_resumed_at = None, wo_remediation_retry_count = None,
       wo_optimization_history = []\<rparr>)"

definition is_project_id :: "string \<Rightarrow> bool" where
  "is_project_id s \<longleftrightarrow> 2 \<le> length s \<and> length s \<le> 64 \<and>
     list_all (\<lambda>c. is_lower_ascii c \<or> is_digit_ascii c \<or> c \<in> {CHR ''.'', CHR ''_'', CHR ''-''}) s \<and>
     (case s of [] \<Rightarrow> False | c # _ \<Rightarrow> is_lower_ascii c \<or> is_digit_ascii c)"

text \<open>
  \<open>_create_work_order\<close>: \<open>stamp\<close> is the formatted time. The state is the list of the existing
  directories below \<open>work/studio\<close>; creating one that exists raises.
\<close>

definition create_work_order ::
  "string \<Rightarrow> datetime \<Rightarrow> string \<Rightarrow> string \<Rightarrow> string \<Rightarrow> bool \<Rightarrow> string \<Rightarrow> string option \<Rightarrow>
     (string list, order_doc) eff"
where
  "create_work_order stamp now instruction agent kind backtest operation aid =
     (let i = kind @ ''-'' @ stamp in
      thenE (guardE (is_project_id i) (RuntimeError ''generated unsafe work order identifier''))
     (bindE (getE (\<lambda>dirs. i \<in> set dirs)) (\<lambda>taken.
      if taken then raise (OSError ''File exists'')
      else thenE (modifyE (\<lambda>dirs. dirs @ [i]))
                 (ret (new_order i now instruction agent kind backtest operation aid)))))"

definition append_order :: "order_doc \<Rightarrow> unit mutation" where
  "append_order w = modifyE (\<lambda>s. s\<lparr>gs_orders := gs_orders s @ [w]\<rparr>)"

text \<open>\<open>persist_response\<close> of a Manager message, and the same for an uploaded specification.\<close>

definition persist_response :: "datetime \<Rightarrow> notice \<Rightarrow> order_doc option \<Rightarrow> reply \<Rightarrow> unit mutation" where
  "persist_response now request created answer =
     thenE (append_message now ''YOU'' request)
    (thenE (case created of None \<Rightarrow> ret () | Some w \<Rightarrow> append_order w)
           (append_message now ''MANAGER'' (Reply answer)))"

section \<open>Approval gates\<close>

definition gate_of :: "string \<Rightarrow> approval_gate option" where
  "gate_of s = find (\<lambda>g. gate_value g = s) [IMPLEMENTATION_GATE, OPTIMIZATION_GATE, BACKTEST_GATE, LIVE_GATE]"

fun expected_status :: "approval_gate \<Rightarrow> string" where
  "expected_status IMPLEMENTATION_GATE = ''awaiting_implementation_approval''"
| "expected_status OPTIMIZATION_GATE = ''awaiting_optimization_approval''"
| "expected_status BACKTEST_GATE = ''awaiting_backtest_approval''"
| "expected_status LIVE_GATE = ''awaiting_live_approval''"

fun record_decision :: "approval_gate \<Rightarrow> approval \<Rightarrow> approvals \<Rightarrow> approvals" where
  "record_decision IMPLEMENTATION_GATE d a = a\<lparr>for_implementation := Some d\<rparr>"
| "record_decision OPTIMIZATION_GATE d a = a\<lparr>for_optimization := Some d\<rparr>"
| "record_decision BACKTEST_GATE d a = a\<lparr>for_backtest := Some d\<rparr>"
| "record_decision LIVE_GATE d a = a\<lparr>for_live := Some d\<rparr>"

definition decided :: "datetime \<Rightarrow> approval_gate \<Rightarrow> bool \<Rightarrow> string \<Rightarrow> order_doc \<Rightarrow> approvals" where
  "decided now gate approved note w = record_decision gate
     \<lparr>ap_approved = approved, ap_note = strip note, ap_at = now\<rparr>
     (case wo_approvals w of None \<Rightarrow> no_approvals | Some a \<Rightarrow> a)"

definition decide_implementation :: "bool \<Rightarrow> order_doc \<Rightarrow> order_doc" where
  "decide_implementation approved w =
     (if \<not> approved then w\<lparr>wo_status := ''queued'', wo_stage := Some ''strategy'', wo_results := Some []\<rparr>
      else if needs_backtest w then w\<lparr>wo_status := ''queued'', wo_stage := Some ''dataset''\<rparr>
      else w\<lparr>wo_status := ''awaiting_live_approval'', wo_stage := Some (gate_value LIVE_GATE)\<rparr>)"

definition history_entry :: "datetime \<Rightarrow> bool \<Rightarrow> string \<Rightarrow> string \<Rightarrow> order_doc \<Rightarrow> optimization_entry" where
  "history_entry now approved note proposal w =
     \<lparr>oe_artifact_id = wo_artifact_id w, oe_artifact_version = wo_artifact_version w,
      oe_proposal = proposal, oe_backtest = map_of (results_of w) ''backtest'',
      oe_review_backtest = map_of (results_of w) ''review_backtest'', oe_approved = approved,
      oe_note = strip note, oe_at = now\<rparr>"

definition decide_optimization :: "datetime \<Rightarrow> bool \<Rightarrow> string \<Rightarrow> order_doc \<Rightarrow> exn + order_doc" where
  "decide_optimization now approved note w = (case map_of (results_of w) ''optimization'' of
       None \<Rightarrow> Inl (ValueError ''optimization approval requires a completed proposal'')
     | Some proposal \<Rightarrow>
         if blank proposal then Inl (ValueError ''optimization approval requires a completed proposal'')
         else (let w1 = w\<lparr>wo_optimization_history := wo_optimization_history w @
                    [history_entry now approved note proposal w]\<rparr> in
           Inr (if approved
             then w1\<lparr>wo_status := ''queued'', wo_stage := Some ''strategy'', wo_operation := ''modify'',
                wo_results := Some [(''optimization'', proposal)], wo_attempts := Some 0,
                wo_issue_counts := Some [], wo_finished_at := None, wo_approvals := Some no_approvals\<rparr>
             else w1\<lparr>wo_status := ''awaiting_backtest_approval'', wo_stage := Some (gate_value BACKTEST_GATE)\<rparr>)))"

definition decide_backtest :: "bool \<Rightarrow> order_doc \<Rightarrow> order_doc" where
  "decide_backtest approved w =
     (if \<not> approved
      then w\<lparr>wo_status := ''queued'', wo_stage := Some ''backtest'',
             wo_results := Some (drop_results [''backtest'', ''review_backtest'', ''optimization''] (results_of w)),
             wo_approvals := map_option (\<lambda>a. a\<lparr>for_optimization := None\<rparr>) (wo_approvals w)\<rparr>
      else w\<lparr>wo_status := ''awaiting_live_approval'', wo_stage := Some (gate_value LIVE_GATE)\<rparr>)"

definition decide_live :: "datetime \<Rightarrow> bool \<Rightarrow> order_doc \<Rightarrow> order_doc" where
  "decide_live now approved w =
     (if \<not> approved
      then w\<lparr>wo_status := ''awaiting_implementation_approval'', wo_stage := Some (gate_value IMPLEMENTATION_GATE)\<rparr>
      else w\<lparr>wo_status := ''approved'', wo_finished_at := Some now,
             wo_stage := Some (if wo_artifact_kind w = ''signal'' then ''ready_for_signal'' else ''research_approved'')\<rparr>)"

definition decide :: "datetime \<Rightarrow> approval_gate \<Rightarrow> bool \<Rightarrow> string \<Rightarrow> order_doc \<Rightarrow> exn + order_doc" where
  "decide now gate approved note w =
     (let w1 = w\<lparr>wo_approvals := Some (decided now gate approved note w)\<rparr> in
      if wo_status w \<noteq> expected_status gate then Inl (ValueError (''work order must be '' @ expected_status gate))
      else map_sum id (add_checkpoint (gate_value gate) (if approved then ''approved'' else ''rejected'') now None)
        (case gate of
           IMPLEMENTATION_GATE \<Rightarrow> Inr (decide_implementation approved w1)
         | OPTIMIZATION_GATE \<Rightarrow> decide_optimization now approved note w1
         | BACKTEST_GATE \<Rightarrow> Inr (decide_backtest approved w1)
         | LIVE_GATE \<Rightarrow> Inr (decide_live now approved w1)))"

definition approval_mutation :: "datetime \<Rightarrow> string \<Rightarrow> approval_gate \<Rightarrow> bool \<Rightarrow> string \<Rightarrow> unit mutation" where
  "approval_mutation now i gate approved note = bindE (find_order i) (\<lambda>w.
     case decide now gate approved note w of
       Inl e \<Rightarrow> raise e
     | Inr w' \<Rightarrow> thenE (save_order i w') (append_message now ''MANAGER'' (GateDecided i (gate_value gate) approved)))"

text \<open>The checks of \<open>handle_work_order_approval\<close> before the document is touched.\<close>

definition approval_request :: "string \<Rightarrow> string \<Rightarrow> exn + approval_gate" where
  "approval_request gate note = (case gate_of gate of
       None \<Rightarrow> Inl (ValueError
         ''gate must be implementation_approval, optimization_approval, backtest_approval, or live_approval'')
     | Some g \<Rightarrow> if blank note then Inl (ValueError ''approval note is required'') else Inr g)"

section \<open>Adoption of an existing artifact\<close>

definition manifest_path :: "string \<Rightarrow> string \<Rightarrow> string \<Rightarrow> string" where
  "manifest_path kind aid version_of = (if kind = ''signal'' then ''signals'' else ''strategies'') @
     ''/implemented/'' @ aid @ ''/'' @ version_of @ ''.toml''"

definition adoption_statuses :: "string list" where
  "adoption_statuses = [''queued'', ''working'', ''awaiting_implementation_approval'',
     ''awaiting_backtest_approval'', ''awaiting_live_approval'', ''approved'']"

definition adopted_already :: "string \<Rightarrow> string \<Rightarrow> string \<Rightarrow> order_doc \<Rightarrow> bool" where
  "adopted_already kind aid version_of w \<longleftrightarrow> wo_operation w = ''adopt'' \<and> wo_artifact_kind w = kind \<and>
     wo_artifact_id w = Some aid \<and> wo_artifact_version w = Some version_of \<and>
     wo_status w \<in> set adoption_statuses"

definition adoption_check ::
  "workspace \<Rightarrow> gateway_state \<Rightarrow> string \<Rightarrow> string \<Rightarrow> string \<Rightarrow> string \<Rightarrow> exn option"
where
  "adoption_check ws s kind aid version_of note =
     (if kind \<notin> {''signal'', ''strategy''} then Some (ValueError ''artifact_kind must be signal or strategy'')
      else if \<not> is_artifact_id aid then Some (ValueError ''artifact_id must be lowercase kebab-case'')
      else if \<not> is_semver version_of then Some (ValueError ''version must use semantic major.minor.patch'')
      else if blank note then Some (ValueError ''adoption note is required'')
      else if ws_files ws (manifest_path kind aid version_of) = None
      then Some (ValueError ''exact versioned artifact manifest does not exist'')
      else case find (adopted_already kind aid version_of) (gs_orders s) of
        None \<Rightarrow> None
      | Some w \<Rightarrow> Some (ValueError (''artifact already has adoption work order '' @ wo_id w)))"

definition adoption_instruction :: "string \<Rightarrow> string \<Rightarrow> string \<Rightarrow> string \<Rightarrow> string" where
  "adoption_instruction kind aid version_of note = (let q = [CHR 0x60] in
     ''Adopt existing '' @ kind @ '' '' @ q @ aid @ q @ '' version '' @ q @ version_of @ q @
     ''. Review exact manifest '' @ q @ manifest_path kind aid version_of @ q @
     '' and repository evidence. Operator note: '' @ strip note)"

definition adoption_order :: "datetime \<Rightarrow> string \<Rightarrow> string \<Rightarrow> string \<Rightarrow> order_doc \<Rightarrow> order_doc" where
  "adoption_order now kind aid version_of w = add_checkpoint ''review_implementation'' ''queued'' now None
     (w\<lparr>wo_artifact_version := Some version_of, wo_stage := Some ''review_implementation'',
        wo_results := Some [(''strategy'',
          ''Existing versioned artifact submitted for independent adoption review: '' @
          manifest_path kind aid version_of @ ''. No implementation mutation is authorized by adoption.'')]\<rparr>)"

definition adoption_mutation :: "datetime \<Rightarrow> string \<Rightarrow> string \<Rightarrow> order_doc \<Rightarrow> unit mutation" where
  "adoption_mutation now aid version_of w =
     thenE (append_order w) (append_message now ''MANAGER'' (AdoptionCreated aid version_of (wo_id w)))"

section \<open>Signal versions approved for the runtime\<close>

definition registry_entry :: "(string \<times> pyval) list \<Rightarrow> (string \<times> string \<times> string \<times> string) option" where
  "registry_entry d = (case (get_str d ''artifact_id'', get_str d ''artifact_version'',
         get_str d ''work_order'', get_str d ''manifest_sha256'') of
       (Some a, Some v, Some i, Some h) \<Rightarrow>
         if a \<noteq> [] \<and> v \<noteq> [] \<and> i \<noteq> [] \<and> h \<noteq> [] then Some (a, v, i, h) else None
     | _ \<Rightarrow> None)"

text \<open>\<open>valid_records\<close>, as the triples of its entries.\<close>

definition valid_records :: "std_env \<Rightarrow> workspace \<Rightarrow> json_file option \<Rightarrow> (string \<times> string \<times> string) list" where
  "valid_records std ws registry = List.map_filter (\<lambda>d. case registry_entry d of
       None \<Rightarrow> None
     | Some (a, v, i, h) \<Rightarrow>
         if file_sha256 std ws (Some (manifest_path ''signal'' a v)) = Some h then Some (a, v, i) else None)
     (list_records registry)"

definition approved_version :: "(string \<times> string \<times> string) list \<Rightarrow> order_doc \<Rightarrow> (string \<times> string) option" where
  "approved_version valid w =
     (case (wo_artifact_id w, wo_artifact_version w) of
        (Some a, Some v) \<Rightarrow>
          if wo_artifact_kind w = ''signal'' \<and> wo_status w = ''approved'' \<and>
             wo_stage w = Some ''ready_for_signal'' \<and> wo_operation w \<in> {''create'', ''modify'', ''adopt''} \<and>
             has_approval (case wo_approvals w of None \<Rightarrow> None | Some ap \<Rightarrow> for_live ap) \<and>
             (\<exists>(b, u, i) \<in> set valid. b = a \<and> u = v) \<and>
             (wo_operation w = ''adopt'' \<or> (a, v, wo_id w) \<in> set valid)
          then Some (a, v) else None
      | _ \<Rightarrow> None)"

definition approved_signal_versions ::
  "std_env \<Rightarrow> workspace \<Rightarrow> json_file option \<Rightarrow> gateway_state \<Rightarrow> (string \<times> string) list"
where
  "approved_signal_versions std ws registry s =
     fold (\<lambda>w d. case approved_version (valid_records std ws registry) w of
         None \<Rightarrow> d | Some (a, v) \<Rightarrow> AList.update a v d) (gs_orders s) []"

end
