(* ===== verification/Order_Runner.thy ===== *)
theory Order_Runner
  imports Order_Approval
begin

text \<open>
  src/src/quant_signal_agent/studio/gateway.py: \<open>CodexWorkOrderRunner\<close> as an asyncio program.

  A step between two suspensions is atomic: the store's lock is never contended, because no code
  suspends while it holds it. The runner suspends in an agent's turn, in the materializer, in
  the readiness probe, when it starts the task of an order and when it waits; then other requests of the
  gateway run (\<open>ge_meanwhile\<close>, each completely, its exceptions answered to its client), and a
  request may cancel the task. What the agents, the materializer, the probe, the clock and the
  files answer at the \<open>n\<close>-th interaction is the environment's.

  Not modelled: the text of the prompts, and \<open>result.json\<close>/\<open>request.json\<close>, which nothing reads back.
\<close>

section \<open>The runner and its environment\<close>

record runner =
  rn_file :: "gateway_state option"
  rn_registry :: "json_file option"
  rn_breaker :: circuit_breaker
  rn_blocked_reason :: "string option"
  rn_active :: "string option"
  rn_cancel_requested :: "string list"
  rn_cancelling :: bool
  rn_work_dirs :: "string list"
  rn_ticks :: nat

type_synonym ('r, 'a) run = "('r runner_scheme, 'a) eff"

datatype work_request =
    MaintenanceWork
  | ResearchWork string bool "string option"

datatype request =
    Heartbeat string
  | Decision string string bool string
  | AddOrder string string work_request notice reply "string option"
  | Talk notice reply
  | Adoption string string string bool string string
  | CancelOrder "string option"
  | ResumeQueue "string option"
  | RetryOrder string string string string
  | ShutDown

datatype materialized = Dataset string | Unavailable string | Broken exn

record gateway_env =
  ge_config :: runner_config
  ge_std :: std_env
  ge_floats :: "string \<Rightarrow> pyfloat option"
  ge_iso :: "datetime \<Rightarrow> string"
  ge_now :: "nat \<Rightarrow> datetime"
  ge_workspace :: "nat \<Rightarrow> workspace"
  ge_turn :: "nat \<Rightarrow> order_doc \<Rightarrow> string \<Rightarrow> string option \<Rightarrow> exn + string"
  ge_materialize :: "nat \<Rightarrow> order_doc \<Rightarrow> materialized"
  ge_ready :: "nat \<Rightarrow> exn + bool \<times> string"
  ge_meanwhile :: "nat \<Rightarrow> request list"
  ge_retry_time :: "string \<Rightarrow> datetime \<Rightarrow> datetime option"

definition tick :: "('r, nat) run" where
  "tick = (\<lambda>s. (Inr (rn_ticks s), s\<lparr>rn_ticks := rn_ticks s + 1\<rparr>))"

definition clock :: "gateway_env \<Rightarrow> ('r, datetime) run" where
  "clock env = bindE tick (\<lambda>n. ret (ge_now env n))"

definition update_store :: "'a mutation \<Rightarrow> ('r, 'a \<times> gateway_state) run" where
  "update_store m = (\<lambda>s. case update_file m (rn_file s) of (r, f) \<Rightarrow> (r, s\<lparr>rn_file := f\<rparr>))"

definition mutate :: "'a mutation \<Rightarrow> ('r, 'a) run" where
  "mutate m = bindE (update_store m) (\<lambda>(a, v). ret a)"

definition read_store :: "('r, gateway_state) run" where
  "read_store = getE (\<lambda>s. read_unlocked (rn_file s))"

definition on_registry :: "(json_file option, 'a) eff \<Rightarrow> ('r, 'a) run" where
  "on_registry m = (\<lambda>s. case m (rn_registry s) of (r, f) \<Rightarrow> (r, s\<lparr>rn_registry := f\<rparr>))"

definition on_work_dirs :: "(string list, 'a) eff \<Rightarrow> ('r, 'a) run" where
  "on_work_dirs m = (\<lambda>s. case m (rn_work_dirs s) of (r, d) \<Rightarrow> (r, s\<lparr>rn_work_dirs := d\<rparr>))"

section \<open>Requests\<close>

definition cancel_order :: "gateway_env \<Rightarrow> string option \<Rightarrow> ('r, unit) run" where
  "cancel_order env identifier =
     bindE (clock env) (\<lambda>now.
     bindE read_store (\<lambda>v. case cancel_candidates identifier v of
       [i] \<Rightarrow> bindE (getE rn_active) (\<lambda>active.
          if active = Some i
          then modifyE (\<lambda>s. s\<lparr>rn_cancel_requested := List.insert i (rn_cancel_requested s),
                              rn_cancelling := True\<rparr>)
          else mutate (cancel_mutation now i))
     | _ \<Rightarrow> raise (ValueError ''name one queued or working order'')))"

text \<open>The order of a Manager message or an upload; an upload also records its specification.\<close>

definition requested_order :: "string \<Rightarrow> datetime \<Rightarrow> string \<Rightarrow> work_request \<Rightarrow> (string list, order_doc) eff" where
  "requested_order stamp now instruction work = (case work of
       MaintenanceWork \<Rightarrow>
         create_work_order stamp now instruction ''maintenance'' ''maintenance'' True ''create'' None
     | ResearchWork kind backtest aid \<Rightarrow>
         create_work_order stamp now instruction ''strategy'' kind backtest
           (if aid = None then ''create'' else ''modify'') aid)"

definition upload_record :: "gateway_env \<Rightarrow> nat \<Rightarrow> datetime \<Rightarrow> string \<Rightarrow> order_doc \<Rightarrow> artifact_record" where
  "upload_record env n now spec w = \<lparr>work_order = wo_id w, artifact_kind = wo_artifact_kind w,
     spec_sha256 = Some (sha256 (ge_std env) spec), code_revision = ws_revision (ge_workspace env n) [],
     dataset_sha256 = None, tests = [], reports = [], recorded_at = ge_iso env now,
     artifact_id = None, artifact_version = None, manifest_sha256 = None\<rparr>"

definition add_order ::
  "gateway_env \<Rightarrow> string \<Rightarrow> string \<Rightarrow> work_request \<Rightarrow> notice \<Rightarrow> reply \<Rightarrow> string option \<Rightarrow> ('r, unit) run"
where
  "add_order env stamp instruction work request answer spec =
     bindE tick (\<lambda>n. let now = ge_now env n in
     bindE (on_work_dirs (requested_order stamp now instruction work)) (\<lambda>w.
     thenE (mutate (persist_response now request (Some w) answer))
           (case spec of None \<Rightarrow> ret () | Some text_of \<Rightarrow>
              on_registry (upsert_record (upload_record env n now text_of w)))))"

definition adopt_artifact ::
  "gateway_env \<Rightarrow> string \<Rightarrow> string \<Rightarrow> string \<Rightarrow> bool \<Rightarrow> string \<Rightarrow> string \<Rightarrow> ('r, unit) run"
where
  "adopt_artifact env kind aid version_of backtest note stamp =
     bindE tick (\<lambda>n. let now = ge_now env n in
     bindE read_store (\<lambda>v. case adoption_check (ge_workspace env n) v kind aid version_of note of
       Some e \<Rightarrow> raise e
     | None \<Rightarrow>
         bindE (on_work_dirs (create_work_order stamp now (adoption_instruction kind aid version_of note)
             ''strategy'' kind backtest ''adopt'' (Some aid))) (\<lambda>w.
         mutate (adoption_mutation now aid version_of (adoption_order now kind aid version_of w)))))"

definition retry_order :: "gateway_env \<Rightarrow> string \<Rightarrow> string \<Rightarrow> string \<Rightarrow> string \<Rightarrow> ('r, unit) run" where
  "retry_order env i aid version_of why = (case retry_request_ok aid version_of why of
       Some e \<Rightarrow> raise e
     | None \<Rightarrow> bindE tick (\<lambda>n. mutate (retry_mutation (ge_now env n) i aid version_of why
         (\<lambda>kind. implemented_manifest (ge_workspace env n) i kind (Some aid) (Some version_of)))))"

text \<open>
  \<open>resume_after_quota_reset\<close>: it cancels the worker's task, which waits at a suspension, and starts
  a new one (\<open>worker_started\<close> below).
\<close>

definition resume_queue :: "gateway_env \<Rightarrow> string option \<Rightarrow> ('r, unit) run" where
  "resume_queue env identifier =
     bindE (getE rn_active) (\<lambda>active.
     thenE (guardE (active = None) (RuntimeError ''cannot reset Codex circuit while a work order is active''))
    (bindE (clock env) (\<lambda>now.
     thenE (mutate (resume_mutation now identifier))
           (modifyE (\<lambda>s. s\<lparr>rn_breaker := close_circuit (rn_breaker s), rn_blocked_reason := None,
              rn_cancelling := True\<rparr>)))))"

fun exec_request :: "gateway_env \<Rightarrow> request \<Rightarrow> ('r, unit) run" where
  "exec_request env (Heartbeat i) = bindE (clock env) (\<lambda>now. mutate (heartbeat_mutation now i))"
| "exec_request env (Decision i gate approved note) = (case approval_request gate note of
       Inl e \<Rightarrow> raise e
     | Inr g \<Rightarrow> bindE (clock env) (\<lambda>now. mutate (approval_mutation now i g approved note)))"
| "exec_request env (AddOrder stamp instruction work request answer spec) =
     add_order env stamp instruction work request answer spec"
| "exec_request env (Talk request answer) =
     bindE (clock env) (\<lambda>now. mutate (persist_response now request None answer))"
| "exec_request env (Adoption kind aid version_of backtest note stamp) =
     adopt_artifact env kind aid version_of backtest note stamp"
| "exec_request env (CancelOrder identifier) = cancel_order env identifier"
| "exec_request env (ResumeQueue identifier) = resume_queue env identifier"
| "exec_request env (RetryOrder i aid version_of why) = retry_order env i aid version_of why"
| "exec_request env ShutDown = modifyE (\<lambda>s. s\<lparr>rn_cancelling := True\<rparr>)"

definition answered :: "('r, 'a) run \<Rightarrow> ('r, unit) run" where
  "answered m = bindE (tryE m) (\<lambda>_. ret ())"

text \<open>One suspension: the requests that run meanwhile, then the pending cancellation.\<close>

definition suspend :: "gateway_env \<Rightarrow> ('r, unit) run" where
  "suspend env =
     bindE tick (\<lambda>n.
     thenE (mapE (\<lambda>rq. answered (exec_request env rq)) (ge_meanwhile env n))
    (bindE (getE rn_cancelling) (\<lambda>cancelled.
     thenE (modifyE (\<lambda>s. s\<lparr>rn_cancelling := False\<rparr>))
           (guardE (\<not> cancelled) CancelledError))))"

definition agent_turn :: "gateway_env \<Rightarrow> order_doc \<Rightarrow> string \<Rightarrow> string option \<Rightarrow> ('r, string) run" where
  "agent_turn env w role prior = bindE (getE rn_ticks) (\<lambda>n.
     thenE (suspend env) (case ge_turn env n w role prior of Inl e \<Rightarrow> raise e | Inr r \<Rightarrow> ret r))"

section \<open>Writes of the runner\<close>

definition record_selected :: "gateway_env \<Rightarrow> order_doc \<Rightarrow> ('r, unit) run" where
  "record_selected env w = bindE tick (\<lambda>n. on_registry
     (record_artifact (ge_std env) (ge_workspace env n) (ge_now env n) (ge_iso env) w))"

definition selected_order :: "string \<Rightarrow> gateway_state \<Rightarrow> ('r, order_doc) run" where
  "selected_order i v = (case find_order i v of (Inl e, _) \<Rightarrow> raise e | (Inr w, _) \<Rightarrow> ret w)"

definition checkpoint_order ::
  "gateway_env \<Rightarrow> string \<Rightarrow> string \<Rightarrow> string \<Rightarrow> results \<Rightarrow> string option \<Rightarrow> string option \<Rightarrow> ('r, unit) run"
where
  "checkpoint_order env i stage author rs aid version_of =
     bindE (clock env) (\<lambda>now.
     bindE (update_store (checkpoint_mutation now i stage author rs aid version_of)) (\<lambda>(_, v).
     if stage = ''review_implementation''
     then bindE (selected_order i v) (\<lambda>w.
       if wo_artifact_version w \<noteq> None then record_selected env w else ret ())
     else ret ()))"

definition requeue :: "gateway_env \<Rightarrow> string \<Rightarrow> requeue_request \<Rightarrow> ('r, unit) run" where
  "requeue env i rq = bindE (clock env) (\<lambda>now. mutate (requeue_mutation (ge_config env) now i rq))"

definition finish :: "gateway_env \<Rightarrow> string \<Rightarrow> string \<Rightarrow> string \<Rightarrow> results \<Rightarrow> ('r, unit) run" where
  "finish env i status stage rs =
     bindE (clock env) (\<lambda>now.
     bindE (update_store (finish_mutation now i status stage rs)) (\<lambda>(_, v).
     thenE (on_work_dirs (modifyE (List.insert i)))
    (bindE (selected_order i v) (record_selected env))))"

definition persist_circuit :: "('r, unit) run" where
  "persist_circuit = bindE (getE rn_breaker) (\<lambda>b. mutate (modifyE (\<lambda>s. s\<lparr>gs_circuit :=
     Some \<lparr>cd_state = circuit b, cd_open_until = open_until b, cd_reason = open_reason b\<rparr>\<rparr>)))"

section \<open>Reviews and optimization\<close>

definition review_request :: "gateway_env \<Rightarrow> string \<Rightarrow> results \<Rightarrow> string \<Rightarrow> outcome \<Rightarrow> requeue_request" where
  "review_request env stage rs report verdict = (plain_request (return_stage stage) rs
       (''Review Agent returned '' @ str_upper (outcome_value verdict) @ '' for '' @ stage))
     \<lparr>rq_issue_keys := remdups (map (issue_key (rc_text (ge_config env)) stage) (review_findings report)),
      rq_findings := review_findings report, rq_user_action := joined_actions report\<rparr>"

definition finish_review :: "gateway_env \<Rightarrow> string \<Rightarrow> string \<Rightarrow> results \<Rightarrow> ('r, unit) run" where
  "finish_review env i stage rs =
     (if stage = ''review_implementation''
      then finish env i ''awaiting_implementation_approval'' (gate_value IMPLEMENTATION_GATE) rs
      else finish env i ''awaiting_backtest_approval'' (gate_value BACKTEST_GATE) rs)"

text \<open>\<open>_complete_review\<close>: whether the order goes on to the optimizer.\<close>

definition complete_review :: "gateway_env \<Rightarrow> string \<Rightarrow> string \<Rightarrow> results \<Rightarrow> ('r, bool) run" where
  "complete_review env i stage rs = (let report = (case map_of rs stage of None \<Rightarrow> [] | Some r \<Rightarrow> r) in
     case review_outcome report stage of
       Inl e \<Rightarrow> raise e
     | Inr PASS \<Rightarrow>
         bindE read_store (\<lambda>v.
         bindE (if stage = ''review_backtest'' then bindE (selected_order i v) (\<lambda>w. ret (needs_optimization w))
                else ret False) (\<lambda>optimize.
         if optimize then thenE (checkpoint_order env i ''optimize'' ''OPTIMIZE'' rs None None) (ret True)
         else thenE (finish_review env i stage rs) (ret False)))
     | Inr INCOMPLETE \<Rightarrow> thenE (requeue env i (plain_request stage rs
         (''Review Agent returned an incomplete '' @ stage @ '' audit report''))) (ret False)
     | Inr verdict \<Rightarrow> thenE (requeue env i (review_request env stage rs report verdict)) (ret False))"

section \<open>Execution of one order\<close>

record execution = runner +
  ex_stage :: string
  ex_results :: results
  ex_order :: order_doc

type_synonym 'a work = "(execution, 'a) eff"

definition set_stage :: "string \<Rightarrow> unit work" where
  "set_stage stage = modifyE (\<lambda>s. s\<lparr>ex_stage := stage\<rparr>)"

definition put_result :: "string \<Rightarrow> string \<Rightarrow> unit work" where
  "put_result k v = modifyE (\<lambda>s. s\<lparr>ex_results := AList.update k v (ex_results s)\<rparr>)"

definition result_of :: "string \<Rightarrow> string option work" where
  "result_of k = getE (\<lambda>s. map_of (ex_results s) k)"

definition run_optimization :: "gateway_env \<Rightarrow> string \<Rightarrow> unit work" where
  "run_optimization env i =
     bindE (getE (\<lambda>s. (ex_results s, ex_order s))) (\<lambda>(rs, w).
     case (map_of rs ''backtest'', map_of rs ''review_backtest'') of
       (Some backtest, Some _) \<Rightarrow>
         bindE (agent_turn env (w\<lparr>wo_stage := Some ''optimize'', wo_results := Some rs\<rparr>) ''optimize'' (Some backtest))
          (\<lambda>report.
         thenE (put_result ''optimization'' report)
        (bindE (getE ex_results) (\<lambda>rs'.
         if optimization_report_complete report
         then finish env i ''awaiting_optimization_approval'' (gate_value OPTIMIZATION_GATE) rs'
         else requeue env i (plain_request ''optimize'' rs'
           ''Optimization Agent returned an incomplete proposal''))))
     | _ \<Rightarrow> raise (RuntimeError ''optimization is missing reviewed backtest evidence''))"

text \<open>An independent review of \<open>handoff\<close>, and what its outcome asks for.\<close>

definition review_turn :: "gateway_env \<Rightarrow> string \<Rightarrow> string \<Rightarrow> string \<Rightarrow> unit work" where
  "review_turn env i stage handoff =
     bindE (getE (\<lambda>s. (ex_results s, ex_order s))) (\<lambda>(rs, w).
     bindE (agent_turn env (w\<lparr>wo_stage := Some stage, wo_results := Some rs\<rparr>) ''review'' (Some handoff)) (\<lambda>report.
     thenE (put_result stage report)
    (bindE (getE ex_results) (\<lambda>rs'.
     bindE (complete_review env i stage rs') (\<lambda>optimize.
     if optimize then thenE (set_stage ''optimize'') (run_optimization env i) else ret ())))))"

definition prior_findings :: "results \<Rightarrow> string option" where
  "prior_findings rs = (if present (map_of rs ''optimization'') then map_of rs ''optimization''
     else map_of rs ''review_implementation'')"

definition bind_artifact :: "gateway_env \<Rightarrow> string \<Rightarrow> unit work" where
  "bind_artifact env evidence = bindE tick (\<lambda>n.
     modifyE (\<lambda>s. s\<lparr>ex_order := bind_identity (ge_workspace env n) evidence (ex_order s)\<rparr>))"

definition strategy_stage :: "gateway_env \<Rightarrow> string \<Rightarrow> unit work" where
  "strategy_stage env i =
     bindE (getE (\<lambda>s. (ex_results s, ex_order s))) (\<lambda>(rs, w).
     bindE (agent_turn env w ''strategy'' (prior_findings rs)) (\<lambda>report.
     thenE (put_result ''strategy'' report)
    (thenE (bind_artifact env report)
    (bindE (getE (\<lambda>s. (ex_results s, ex_order s))) (\<lambda>(rs', w').
     thenE (checkpoint_order env i ''review_implementation'' ''REVIEW'' rs' (wo_artifact_id w')
              (wo_artifact_version w'))
    (thenE (set_stage ''review_implementation'')
           (review_turn env i ''review_implementation'' report)))))))"

definition implementation_review_stage :: "gateway_env \<Rightarrow> string \<Rightarrow> unit work" where
  "implementation_review_stage env i = bindE (result_of ''strategy'') (\<lambda>r. case r of
       None \<Rightarrow> raise (RuntimeError ''implementation review is missing Strategy handoff'')
     | Some handoff \<Rightarrow> review_turn env i ''review_implementation'' handoff)"

definition backtest_stage :: "gateway_env \<Rightarrow> string \<Rightarrow> unit work" where
  "backtest_stage env i = bindE (result_of ''strategy'') (\<lambda>r. case r of
       None \<Rightarrow> raise (RuntimeError ''backtest stage is missing Strategy Agent handoff'')
     | Some handoff \<Rightarrow>
         bindE (getE ex_order) (\<lambda>w.
         bindE (agent_turn env w ''backtest'' (Some handoff)) (\<lambda>report.
         thenE (put_result ''backtest'' report)
        (bindE (getE ex_results) (\<lambda>rs.
         thenE (checkpoint_order env i ''review_backtest'' ''REVIEW'' rs None None)
        (thenE (set_stage ''review_backtest'')
               (review_turn env i ''review_backtest'' report)))))))"

definition backtest_review_stage :: "gateway_env \<Rightarrow> string \<Rightarrow> unit work" where
  "backtest_review_stage env i = bindE (result_of ''backtest'') (\<lambda>r. case r of
       None \<Rightarrow> raise (RuntimeError ''backtest review is missing Backtest handoff'')
     | Some handoff \<Rightarrow> review_turn env i ''review_backtest'' handoff)"

definition stage_step :: "gateway_env \<Rightarrow> string \<Rightarrow> unit work" where
  "stage_step env i = bindE (getE (\<lambda>s. (ex_stage s, needs_backtest (ex_order s)))) (\<lambda>(stage, backtest).
     if stage = ''strategy'' then strategy_stage env i
     else if stage = ''review_implementation'' then implementation_review_stage env i
     else if stage = ''backtest'' \<and> backtest then backtest_stage env i
     else if stage = ''review_backtest'' \<and> backtest then backtest_review_stage env i
     else if stage = ''optimize'' \<and> backtest then run_optimization env i
     else raise (RuntimeError (''unsupported research DAG stage: '' @ stage)))"

definition enter_backtest :: "gateway_env \<Rightarrow> string \<Rightarrow> unit work" where
  "enter_backtest env i = bindE (getE ex_results) (\<lambda>rs.
     thenE (checkpoint_order env i ''backtest'' ''DATA'' rs None None)
    (thenE (set_stage ''backtest'')
           (modifyE (\<lambda>s. s\<lparr>ex_order := (ex_order s)\<lparr>wo_stage := Some ''backtest'', wo_results := Some rs\<rparr>\<rparr>))))"

definition materialize :: "gateway_env \<Rightarrow> materialized work" where
  "materialize env = bindE (getE (\<lambda>s. (rn_ticks s, (ex_order s)\<lparr>wo_results := Some (ex_results s)\<rparr>))) (\<lambda>(n, w).
     thenE (suspend env) (ret (ge_materialize env n w)))"

text \<open>The data service's part of a stage; whether the stage goes on.\<close>

definition dataset_step :: "gateway_env \<Rightarrow> string \<Rightarrow> bool work" where
  "dataset_step env i =
     bindE (getE (\<lambda>s. (ex_stage s, needs_backtest (ex_order s), ex_results s))) (\<lambda>(stage, backtest, rs).
     if stage \<in> {''dataset'', ''backtest''} \<and> backtest \<and> \<not> present (map_of rs ''dataset'')
     then bindE (materialize env) (\<lambda>m. case m of
         Dataset d \<Rightarrow> thenE (put_result ''dataset'' d) (thenE (enter_backtest env i) (ret True))
       | Unavailable why \<Rightarrow>
           thenE (requeue env i ((plain_request ''dataset'' rs why)\<lparr>rq_retry_after := Some 300\<rparr>)) (ret False)
       | Broken e \<Rightarrow> raise e)
     else if stage = ''dataset'' \<and> backtest then thenE (enter_backtest env i) (ret True)
     else ret True)"

definition maintenance_turn :: "gateway_env \<Rightarrow> unit work" where
  "maintenance_turn env = bindE (getE ex_order) (\<lambda>w.
     thenE (set_stage (wo_agent w))
    (bindE (agent_turn env w (wo_agent w) None) (\<lambda>report. put_result (wo_agent w) report)))"

definition execute_body :: "gateway_env \<Rightarrow> string \<Rightarrow> unit work" where
  "execute_body env i = bindE (getE (wo_agent \<circ> ex_order)) (\<lambda>agent.
     if agent = ''strategy''
     then bindE (dataset_step env i) (\<lambda>goes_on. if goes_on then stage_step env i else ret ())
     else maintenance_turn env)"

definition turn_timeout_reason :: "runner_config \<Rightarrow> string \<Rightarrow> string" where
  "turn_timeout_reason cfg stage = ''Codex '' @ stage @ '' turn exceeded '' @
     str_of_int (round_half_even (turn_timeout_seconds cfg)) @ '' seconds''"

definition on_cancelled :: "gateway_env \<Rightarrow> string \<Rightarrow> unit work" where
  "on_cancelled env i = bindE (getE (\<lambda>s. (i \<in> set (rn_cancel_requested s), ex_stage s, ex_results s)))
    (\<lambda>(requested, stage, rs).
     thenE (modifyE (\<lambda>s. s\<lparr>rn_cancel_requested := removeAll i (rn_cancel_requested s)\<rparr>))
    (thenE (if requested
            then finish env i ''cancelled'' ''cancelled'' (AList.update ''error'' ''Cancelled by Manager Agent'' rs)
            else requeue env i ((plain_request stage rs ''Gateway stopped while the work order was running'')
                   \<lparr>rq_count_attempt := False\<rparr>))
           (raise CancelledError)))"

definition open_breaker :: "gateway_env \<Rightarrow> string \<Rightarrow> ('r, datetime \<times> datetime) run" where
  "open_breaker env why = bindE (clock env) (\<lambda>now. (\<lambda>s.
     case open_circuit why (ge_retry_time env why now) (Aware now) (rn_breaker s) of
       (Inl e, b) \<Rightarrow> (Inl e, s\<lparr>rn_breaker := b\<rparr>)
     | (Inr until, b) \<Rightarrow> (Inr (until, now), s\<lparr>rn_breaker := b\<rparr>)))"

definition on_failure :: "gateway_env \<Rightarrow> string \<Rightarrow> exn \<Rightarrow> unit work" where
  "on_failure env i e =
     (if is_retryable e
      then bindE (open_breaker env (exn_text e)) (\<lambda>(until, now).
           thenE persist_circuit
          (bindE (getE (\<lambda>s. (ex_stage s, ex_results s))) (\<lambda>(stage, rs).
           requeue env i ((plain_request stage rs (exn_text e))
             \<lparr>rq_retry_after := Some (max 1 (total_seconds (dt_diff until now))), rq_count_attempt := False\<rparr>))))
      else finish env i ''failed'' ''failed'' [(''error'', exn_text e)])"

definition handle_exn :: "gateway_env \<Rightarrow> string \<Rightarrow> exn \<Rightarrow> unit work" where
  "handle_exn env i e = (case e of
       CancelledError \<Rightarrow> on_cancelled env i
     | TimeoutError _ \<Rightarrow> bindE (getE (\<lambda>s. (ex_stage s, ex_results s))) (\<lambda>(stage, rs).
         requeue env i (plain_request stage rs (turn_timeout_reason (ge_config env) stage)))
     | _ \<Rightarrow> on_failure env i e)"

definition execute_work :: "gateway_env \<Rightarrow> string \<Rightarrow> unit work" where
  "execute_work env i = bindE (tryE (execute_body env i)) (\<lambda>r. case r of
       Inl e \<Rightarrow> handle_exn env i e
     | Inr _ \<Rightarrow> ret ())"

definition with_locals :: "order_doc \<Rightarrow> runner \<Rightarrow> execution" where
  "with_locals w s = runner.extend s (execution.fields (current_stage w) (results_of w) w)"

text \<open>\<open>_execute\<close>\<close>

definition execute :: "gateway_env \<Rightarrow> order_doc \<Rightarrow> (runner, unit) eff" where
  "execute env w = (\<lambda>s. case execute_work env (wo_id w) (with_locals w s) of
     (r, t) \<Rightarrow> (r, runner.truncate t))"

section \<open>The worker's loop\<close>

definition claim_next :: "gateway_env \<Rightarrow> ('r, order_doc option) run" where
  "claim_next env = bindE (clock env) (\<lambda>now. mutate (claim_mutation now))"

definition circuit_delay :: "gateway_env \<Rightarrow> ('r, timedelta) run" where
  "circuit_delay env =
     bindE (clock env) (\<lambda>now.
     bindE read_store (\<lambda>v. case gs_circuit v of
       None \<Rightarrow> ret 0
     | Some c \<Rightarrow> (case (cd_state c, cd_open_until c) of
         (OPEN_CIRCUIT, Some until) \<Rightarrow>
           if 0 < dt_diff until now then ret (dt_diff until now)
           else thenE (mutate (modifyE (\<lambda>s. s\<lparr>gs_circuit := Some closed_circuit\<rparr>))) (ret 0)
       | _ \<Rightarrow> ret 0)))"

definition set_blocked :: "string option \<Rightarrow> (runner, unit) eff" where
  "set_blocked why = modifyE (\<lambda>s. s\<lparr>rn_blocked_reason := why\<rparr>)"

definition set_active :: "string option \<Rightarrow> (runner, unit) eff" where
  "set_active i = modifyE (\<lambda>s. s\<lparr>rn_active := i\<rparr>)"

text \<open>The order's task starts at a later turn of the event loop; \<open>finally\<close> clears \<open>_active_id\<close>.\<close>

definition run_order :: "gateway_env \<Rightarrow> order_doc \<Rightarrow> (runner, unit) eff" where
  "run_order env w =
     thenE (set_active (Some (wo_id w)))
    (bindE (tryE (thenE (suspend env) (execute env w))) (\<lambda>r.
     thenE (set_active None) (case r of Inl e \<Rightarrow> raise e | Inr _ \<Rightarrow> ret ())))"

definition probe :: "gateway_env \<Rightarrow> (runner, bool \<times> string) eff" where
  "probe env = bindE (getE rn_ticks) (\<lambda>n.
     thenE (suspend env) (case ge_ready env n of Inl e \<Rightarrow> raise e | Inr r \<Rightarrow> ret r))"

definition readiness_blocker :: string where
  "readiness_blocker = ''codex_readiness''"

definition loop_turn :: "gateway_env \<Rightarrow> (runner, unit) eff" where
  "loop_turn env =
     bindE (circuit_delay env) (\<lambda>delay.
     if 0 < delay then thenE (set_blocked (Some ''Codex global circuit open'')) (suspend env)
     else bindE (probe env) (\<lambda>(ready, detail).
       if \<not> ready
       then thenE (set_blocked (Some detail))
           (bindE (clock env) (\<lambda>now. thenE (mutate (publish_mutation now readiness_blocker detail)) (suspend env)))
       else bindE (clock env) (\<lambda>now. thenE (mutate (resolve_mutation now readiness_blocker))
           (thenE (set_blocked None)
           (bindE (claim_next env) (\<lambda>w. case w of None \<Rightarrow> suspend env | Some w \<Rightarrow> run_order env w))))))"

section \<open>The start of the worker\<close>

text \<open>\<open>_recover_completed_backtest_orders\<close>: the orders whose local evidence is complete.\<close>

definition stranded :: "order_doc \<Rightarrow> bool" where
  "stranded w \<longleftrightarrow> wo_agent w = ''strategy'' \<and> wo_status w = ''queued'' \<and> wo_stage w = Some ''backtest'' \<and>
     needs_backtest w \<and> present (map_of (results_of w) ''strategy'') \<and>
     is_retryable (RuntimeError (last_error_of w))"

definition native_review :: string where
  "native_review = ''PASS: native recovery validated provenance, dataset hash, final metrics, approval guard, and non-empty chart artifacts.''"

definition recovered_results :: "string \<Rightarrow> results \<Rightarrow> results" where
  "recovered_results evidence rs = AList.update ''review_backtest'' native_review (AList.update ''backtest'' evidence rs)"

fun recoveries :: "gateway_env \<Rightarrow> workspace \<Rightarrow> order_doc list \<Rightarrow> exn + (string \<times> results \<times> bool) list" where
  "recoveries env ws [] = Inr []"
| "recoveries env ws (w # ws') =
     (if \<not> stranded w then recoveries env ws ws'
      else case validated_evidence (ge_std env) (ge_floats env) ws (wo_id w)
             (if wo_artifact_kind w = [] then ''strategy'' else wo_artifact_kind w) of
        Inl e \<Rightarrow> Inl e
      | Inr None \<Rightarrow> recoveries env ws ws'
      | Inr (Some evidence) \<Rightarrow> map_sum id
          ((#) (wo_id w, recovered_results evidence (results_of w), needs_optimization w)) (recoveries env ws ws'))"

definition recover_one :: "gateway_env \<Rightarrow> string \<times> results \<times> bool \<Rightarrow> (runner, unit) eff" where
  "recover_one env = (\<lambda>(i, rs, optimize).
     if optimize
     then thenE (checkpoint_order env i ''optimize'' ''OPTIMIZE'' rs None None)
                (mutate (bindE (find_order i) (\<lambda>w. save_order i (w\<lparr>wo_status := ''queued'', wo_finished_at := None\<rparr>))))
     else finish env i ''awaiting_backtest_approval'' (gate_value BACKTEST_GATE) rs)"

definition recover_completed :: "gateway_env \<Rightarrow> (runner, unit) eff" where
  "recover_completed env =
     bindE tick (\<lambda>n.
     bindE read_store (\<lambda>v. case recoveries env (ge_workspace env n) (gs_orders v) of
       Inl e \<Rightarrow> raise e
     | Inr rs \<Rightarrow> mapE (recover_one env) rs))"

definition startup :: "gateway_env \<Rightarrow> (runner, unit) eff" where
  "startup env =
     thenE (mutate migrate_mutation)
    (bindE (clock env) (\<lambda>now.
     thenE (mutate (recover_interrupted_mutation now))
    (thenE (mutate (recover_optimizer_mutation (rc_text (ge_config env)) now))
    (thenE (mutate (recover_pass_mutation now))
    (thenE (mutate (recover_failed_review_mutation (ge_config env) now))
    (thenE (recover_completed env)
           (mutate clear_terminal_mutation)))))))"

section \<open>The gateway\<close>

text \<open>
  The worker's task runs (\<open>True\<close>) or has ended. While it runs, requests come at its suspensions;
  an exception that leaves the loop or the start ends it. A restart of the process is a new start.
\<close>

definition returned :: "exn + 'a \<Rightarrow> bool" where
  "returned r = (case r of Inl _ \<Rightarrow> False | Inr _ \<Rightarrow> True)"

definition new_process :: "runner \<Rightarrow> runner" where
  "new_process s = s\<lparr>rn_breaker := new_circuit_breaker, rn_blocked_reason := None, rn_active := None,
     rn_cancel_requested := [], rn_cancelling := False\<rparr>"

inductive gateway_step :: "gateway_env \<Rightarrow> bool \<times> runner \<Rightarrow> bool \<times> runner \<Rightarrow> bool" for env where
  worker_started: "startup env s = (r, t) \<Longrightarrow> gateway_step env (False, s) (returned r, t)"
| worker_turned: "loop_turn env s = (r, t) \<Longrightarrow> gateway_step env (True, s) (returned r, t)"
| requested: "exec_request env rq s = (r, t) \<Longrightarrow>
    gateway_step env (False, s) (False, t\<lparr>rn_cancelling := False\<rparr>)"
| restarted: "gateway_step env (alive, s) (False, new_process s)"

end
