(* ===== verification/Order_Invariant.thy ===== *)
theory Order_Invariant
  imports Order_Runner
begin

text \<open>
  The approval gates as an invariant of the gateway's document, and that every mutation, every
  request and every turn of the worker keeps it, whatever runs while the worker is suspended.
\<close>

section \<open>Gated orders\<close>

definition late_stages :: "string list" where
  "late_stages = [''dataset'', ''backtest'', ''review_backtest'', ''optimize'']"

definition cleared :: "order_doc \<Rightarrow> bool" where
  "cleared w \<longleftrightarrow> has_approval (implementation_of w)"

definition backtest_approved :: "order_doc \<Rightarrow> bool" where
  "backtest_approved w \<longleftrightarrow> has_approval (case wo_approvals w of None \<Rightarrow> None | Some a \<Rightarrow> for_backtest a)"

definition live_approved :: "order_doc \<Rightarrow> bool" where
  "live_approved w \<longleftrightarrow> has_approval (case wo_approvals w of None \<Rightarrow> None | Some a \<Rightarrow> for_live a)"

definition late :: "order_doc \<Rightarrow> bool" where
  "late w \<longleftrightarrow> wo_status w \<in> {''queued'', ''working''} \<and> (\<exists>st \<in> set late_stages. wo_stage w = Some st) \<or>
     wo_status w \<in> {''awaiting_backtest_approval'', ''awaiting_optimization_approval'',
       ''awaiting_live_approval'', ''approved''}"

definition gated :: "order_doc \<Rightarrow> bool" where
  "gated w \<longleftrightarrow> wo_agent w \<notin> set late_stages \<and> (late w \<longrightarrow> cleared w) \<and>
     (wo_status w \<in> {''awaiting_live_approval'', ''approved''} \<and> needs_backtest w \<longrightarrow> backtest_approved w) \<and>
     (wo_status w = ''approved'' \<longrightarrow> live_approved w)"

definition order_at :: "gateway_state \<Rightarrow> string \<Rightarrow> order_doc option" where
  "order_at v i = find (\<lambda>w. wo_id w = i) (gs_orders v)"

text \<open>
  \<open>doc_ok dirs held v\<close>: identifiers are distinct and have a directory, every order is gated, and the
  held order is at work (with its implementation approved, if the flag says so).
\<close>

definition holds_order :: "(string \<times> bool) option \<Rightarrow> gateway_state \<Rightarrow> bool" where
  "holds_order held v \<longleftrightarrow> (case held of None \<Rightarrow> True
     | Some (i, c) \<Rightarrow> (\<exists>w. order_at v i = Some w \<and> wo_status w = ''working'' \<and> (c \<longrightarrow> cleared w)))"

definition doc_ok :: "string list \<Rightarrow> (string \<times> bool) option \<Rightarrow> gateway_state \<Rightarrow> bool" where
  "doc_ok dirs held v \<longleftrightarrow> distinct (map wo_id (gs_orders v)) \<and> wo_id ` set (gs_orders v) \<subseteq> set dirs \<and>
     list_all gated (gs_orders v) \<and> holds_order held v"

lemmas gate_simps = gated_def late_def cleared_def backtest_approved_def live_approved_def
  implementation_of_def has_approval_def needs_backtest_def

section \<open>Access to the document\<close>

lemma wp_find_order [wp_rules]:
  "wp (find_order i) Q E v = (case order_at v i of
     None \<Rightarrow> E (RuntimeError (''work order disappeared: '' @ i)) v | Some w \<Rightarrow> Q w v)"
  by (simp add: wp_def find_order_def order_at_def split: option.split)

lemma wp_save_order [wp_rules]:
  "wp (save_order i w) Q E v = Q () (v\<lparr>gs_orders := put_order i w (gs_orders v)\<rparr>)"
  by (simp add: save_order_def wp_rules)

lemma wp_append_message [wp_rules]: "wp (append_message now a n) Q E v = Q () (add_message now a n v)"
  by (simp add: append_message_def wp_rules)

lemma gs_orders_add_message [simp]: "gs_orders (add_message now a n v) = gs_orders v"
  by (simp add: add_message_def)

lemma gs_orders_put_blocker [simp]: "gs_orders (put_blocker c d now v) = gs_orders v"
  by (simp add: put_blocker_def)

lemma gs_orders_resolve_blocker [simp]: "gs_orders (resolve_blocker c b now v) = gs_orders v"
  by (simp add: resolve_blocker_def)

lemma gs_orders_drop_dead_letters [simp]: "gs_orders (drop_dead_letters is v) = gs_orders v"
  by (simp add: drop_dead_letters_def)

lemma order_at_cong: "gs_orders u = gs_orders v \<Longrightarrow> order_at u i = order_at v i"
  by (simp add: order_at_def)

lemma doc_ok_cong: "gs_orders u = gs_orders v \<Longrightarrow> doc_ok dirs h u = doc_ok dirs h v"
  by (simp add: doc_ok_def holds_order_def order_at_def split: option.split)

lemma doc_ok_frame [simp]:
  "doc_ok dirs h (add_message now a n v) = doc_ok dirs h v"
  "doc_ok dirs h (put_blocker c d now v) = doc_ok dirs h v"
  "doc_ok dirs h (resolve_blocker c b now v) = doc_ok dirs h v"
  "doc_ok dirs h (drop_dead_letters is v) = doc_ok dirs h v"
  "doc_ok dirs h (v\<lparr>gs_dead_letters := ds\<rparr>) = doc_ok dirs h v"
  "doc_ok dirs h (v\<lparr>gs_circuit := k\<rparr>) = doc_ok dirs h v"
  by (rule doc_ok_cong, simp)+

lemma order_at_id: "order_at v i = Some w \<Longrightarrow> wo_id w = i \<and> w \<in> set (gs_orders v)"
  by (auto simp: order_at_def find_Some_iff)

lemma doc_ok_order: "doc_ok dirs h v \<Longrightarrow> order_at v i = Some w \<Longrightarrow> gated w"
  by (auto simp: doc_ok_def list_all_iff dest: order_at_id)

lemma map_id_put_order: "wo_id w = i \<Longrightarrow> map wo_id (put_order i w ws) = map wo_id ws"
  by (induction ws) auto

lemma set_put_order: "set (put_order i w ws) \<subseteq> insert w (set ws)"
  by (induction ws) auto

lemma find_put_order:
  "wo_id w = i \<Longrightarrow> find (\<lambda>x. wo_id x = j) (put_order i w ws) =
     (if j = i then map_option (\<lambda>_. w) (find (\<lambda>x. wo_id x = j) ws) else find (\<lambda>x. wo_id x = j) ws)"
  by (induction ws) auto

text \<open>One order is rewritten.\<close>

lemma doc_ok_save:
  assumes "doc_ok dirs h v" and "order_at v i = Some w" and "gated w'" and "wo_id w' = wo_id w"
    and "\<And>c. h = Some (i, c) \<Longrightarrow> wo_status w = ''working'' \<Longrightarrow> (c \<longrightarrow> cleared w) \<Longrightarrow>
      wo_status w' = ''working'' \<and> (c \<longrightarrow> cleared w')"
  shows "doc_ok dirs h (v\<lparr>gs_orders := put_order i w' (gs_orders v)\<rparr>)"
proof -
  let ?v = "v\<lparr>gs_orders := put_order i w' (gs_orders v)\<rparr>"
  have i: "wo_id w' = i" using assms(2,4) order_at_id by auto
  have "order_at ?v j = (if j = i then Some w' else order_at v j)" for j
    using assms(2) by (simp add: order_at_def find_put_order [OF i])
  then have "holds_order h ?v"
    using assms(1,2,5) by (fastforce simp: doc_ok_def holds_order_def split: option.splits)
  moreover have "set (gs_orders ?v) \<subseteq> insert w' (set (gs_orders v))" using set_put_order by fastforce
  moreover have "wo_id ` set (gs_orders ?v) = wo_id ` set (gs_orders v)"
    using map_id_put_order [OF i, of "gs_orders v"] by (metis list.set_map gateway_state.select_convs(2)
      gateway_state.surjective gateway_state.update_convs(2))
  ultimately show ?thesis
    using assms(1,3) by (auto simp: doc_ok_def map_id_put_order [OF i] list_all_iff)
qed

text \<open>All orders are rewritten, one by one.\<close>

lemma fst_each: "(\<And>x s. x \<in> set xs \<Longrightarrow> fst (f x s) = g x) \<Longrightarrow> fst (each f xs s) = map g xs"
  by (induction xs arbitrary: s) (auto simp: case_prod_unfold)

lemma gs_orders_each:
  "(\<And>w s. fst (f w s) = g w) \<Longrightarrow> gs_orders (each_order f v) = map g (gs_orders v)"
  by (simp add: each_order_def case_prod_unfold fst_each)

lemma find_map_id: "(\<And>w. wo_id (g w) = wo_id w) \<Longrightarrow>
   find (\<lambda>x. wo_id x = i) (map g ws) = map_option g (find (\<lambda>x. wo_id x = i) ws)"
  by (induction ws) auto

lemma doc_ok_map:
  assumes "doc_ok dirs h v" and "gs_orders u = map g (gs_orders v)"
    and "\<And>w. wo_id (g w) = wo_id w" and "\<And>w. w \<in> set (gs_orders v) \<Longrightarrow> gated w \<Longrightarrow> gated (g w)"
    and "\<And>w c. h \<noteq> None \<Longrightarrow> wo_status w = ''working'' \<Longrightarrow> wo_status (g w) = ''working'' \<and> cleared (g w) = cleared w"
  shows "doc_ok dirs h u"
proof -
  have "order_at u i = map_option g (order_at v i)" for i
    by (simp add: order_at_def assms(2) find_map_id assms(3))
  then have "holds_order h u" using assms(1,5)
    by (fastforce simp: doc_ok_def holds_order_def split: option.splits)
  moreover have "map wo_id (gs_orders u) = map wo_id (gs_orders v)" by (simp add: assms(2,3))
  moreover from this have "distinct (map wo_id (gs_orders u)) = distinct (map wo_id (gs_orders v))" by (simp only:)
  moreover have "wo_id ` set (gs_orders u) = wo_id ` set (gs_orders v)" by (simp add: assms(2,3) image_image)
  moreover have "list_all gated (gs_orders u)" using assms(1,2,4) by (auto simp: doc_ok_def list_all_iff)
  ultimately show ?thesis using assms(1) by (simp add: doc_ok_def)
qed

section \<open>Every rewriting of an order keeps it gated\<close>

text \<open>The approvals of an order and whether it is back-tested are read from two fields only.\<close>

lemma cleared_frame [simp]:
  "cleared (wo_status_update f1 w) = cleared w"
  "cleared (wo_stage_update f2 w) = cleared w"
  "cleared (wo_operation_update f3 w) = cleared w"
  "cleared (wo_artifact_id_update f4 w) = cleared w"
  "cleared (wo_artifact_version_update f5 w) = cleared w"
  "cleared (wo_optimization_required_update f6 w) = cleared w"
  "cleared (wo_dag_update f7 w) = cleared w"
  "cleared (wo_checkpoints_update f8 w) = cleared w"
  "cleared (wo_results_update f9 w) = cleared w"
  "cleared (wo_attempts_update f10 w) = cleared w"
  "cleared (wo_issue_counts_update f11 w) = cleared w"
  "cleared (wo_recurring_issues_update f12 w) = cleared w"
  "cleared (wo_last_error_update f13 w) = cleared w"
  "cleared (wo_retry_not_before_update f14 w) = cleared w"
  "cleared (wo_started_at_update f15 w) = cleared w"
  "cleared (wo_last_started_at_update f16 w) = cleared w"
  "cleared (wo_last_heartbeat_at_update f17 w) = cleared w"
  "cleared (wo_finished_at_update f18 w) = cleared w"
  "cleared (wo_quota_retry_resumed_at_update f19 w) = cleared w"
  "cleared (wo_remediation_retry_count_update f20 w) = cleared w"
  "cleared (wo_optimization_history_update f21 w) = cleared w"
  by (simp_all add: gate_simps)

lemma backtest_approved_frame [simp]:
  "backtest_approved (wo_status_update f22 w) = backtest_approved w"
  "backtest_approved (wo_stage_update f23 w) = backtest_approved w"
  "backtest_approved (wo_operation_update f24 w) = backtest_approved w"
  "backtest_approved (wo_artifact_id_update f25 w) = backtest_approved w"
  "backtest_approved (wo_artifact_version_update f26 w) = backtest_approved w"
  "backtest_approved (wo_optimization_required_update f27 w) = backtest_approved w"
  "backtest_approved (wo_dag_update f28 w) = backtest_approved w"
  "backtest_approved (wo_checkpoints_update f29 w) = backtest_approved w"
  "backtest_approved (wo_results_update f30 w) = backtest_approved w"
  "backtest_approved (wo_attempts_update f31 w) = backtest_approved w"
  "backtest_approved (wo_issue_counts_update f32 w) = backtest_approved w"
  "backtest_approved (wo_recurring_issues_update f33 w) = backtest_approved w"
  "backtest_approved (wo_last_error_update f34 w) = backtest_approved w"
  "backtest_approved (wo_retry_not_before_update f35 w) = backtest_approved w"
  "backtest_approved (wo_started_at_update f36 w) = backtest_approved w"
  "backtest_approved (wo_last_started_at_update f37 w) = backtest_approved w"
  "backtest_approved (wo_last_heartbeat_at_update f38 w) = backtest_approved w"
  "backtest_approved (wo_finished_at_update f39 w) = backtest_approved w"
  "backtest_approved (wo_quota_retry_resumed_at_update f40 w) = backtest_approved w"
  "backtest_approved (wo_remediation_retry_count_update f41 w) = backtest_approved w"
  "backtest_approved (wo_optimization_history_update f42 w) = backtest_approved w"
  by (simp_all add: gate_simps)

lemma live_approved_frame [simp]:
  "live_approved (wo_status_update f43 w) = live_approved w"
  "live_approved (wo_stage_update f44 w) = live_approved w"
  "live_approved (wo_operation_update f45 w) = live_approved w"
  "live_approved (wo_artifact_id_update f46 w) = live_approved w"
  "live_approved (wo_artifact_version_update f47 w) = live_approved w"
  "live_approved (wo_optimization_required_update f48 w) = live_approved w"
  "live_approved (wo_dag_update f49 w) = live_approved w"
  "live_approved (wo_checkpoints_update f50 w) = live_approved w"
  "live_approved (wo_results_update f51 w) = live_approved w"
  "live_approved (wo_attempts_update f52 w) = live_approved w"
  "live_approved (wo_issue_counts_update f53 w) = live_approved w"
  "live_approved (wo_recurring_issues_update f54 w) = live_approved w"
  "live_approved (wo_last_error_update f55 w) = live_approved w"
  "live_approved (wo_retry_not_before_update f56 w) = live_approved w"
  "live_approved (wo_started_at_update f57 w) = live_approved w"
  "live_approved (wo_last_started_at_update f58 w) = live_approved w"
  "live_approved (wo_last_heartbeat_at_update f59 w) = live_approved w"
  "live_approved (wo_finished_at_update f60 w) = live_approved w"
  "live_approved (wo_quota_retry_resumed_at_update f61 w) = live_approved w"
  "live_approved (wo_remediation_retry_count_update f62 w) = live_approved w"
  "live_approved (wo_optimization_history_update f63 w) = live_approved w"
  by (simp_all add: gate_simps)

lemma needs_backtest_frame [simp]:
  "needs_backtest (wo_status_update f64 w) = needs_backtest w"
  "needs_backtest (wo_stage_update f65 w) = needs_backtest w"
  "needs_backtest (wo_operation_update f66 w) = needs_backtest w"
  "needs_backtest (wo_artifact_id_update f67 w) = needs_backtest w"
  "needs_backtest (wo_artifact_version_update f68 w) = needs_backtest w"
  "needs_backtest (wo_optimization_required_update f69 w) = needs_backtest w"
  "needs_backtest (wo_dag_update f70 w) = needs_backtest w"
  "needs_backtest (wo_checkpoints_update f71 w) = needs_backtest w"
  "needs_backtest (wo_results_update f72 w) = needs_backtest w"
  "needs_backtest (wo_attempts_update f73 w) = needs_backtest w"
  "needs_backtest (wo_issue_counts_update f74 w) = needs_backtest w"
  "needs_backtest (wo_recurring_issues_update f75 w) = needs_backtest w"
  "needs_backtest (wo_last_error_update f76 w) = needs_backtest w"
  "needs_backtest (wo_retry_not_before_update f77 w) = needs_backtest w"
  "needs_backtest (wo_started_at_update f78 w) = needs_backtest w"
  "needs_backtest (wo_last_started_at_update f79 w) = needs_backtest w"
  "needs_backtest (wo_last_heartbeat_at_update f80 w) = needs_backtest w"
  "needs_backtest (wo_finished_at_update f81 w) = needs_backtest w"
  "needs_backtest (wo_quota_retry_resumed_at_update f82 w) = needs_backtest w"
  "needs_backtest (wo_remediation_retry_count_update f83 w) = needs_backtest w"
  "needs_backtest (wo_optimization_history_update f84 w) = needs_backtest w"
  "needs_backtest (wo_approvals_update f85 w) = needs_backtest w"
  by (simp_all add: gate_simps)

lemma add_checkpoint_simps [simp]:
  "wo_id (add_checkpoint st x now r w) = wo_id w"
  "wo_agent (add_checkpoint st x now r w) = wo_agent w"
  "wo_status (add_checkpoint st x now r w) = wo_status w"
  "wo_stage (add_checkpoint st x now r w) = wo_stage w"
  "wo_approvals (add_checkpoint st x now r w) = wo_approvals w"
  "wo_backtest_required (add_checkpoint st x now r w) = wo_backtest_required w"
  "wo_results (add_checkpoint st x now r w) = wo_results w"
  "wo_artifact_version (add_checkpoint st x now r w) = wo_artifact_version w"
  by (simp_all add: add_checkpoint_def)

lemma gated_add_checkpoint [simp]: "gated (add_checkpoint st x now r w) = gated w"
  by (simp add: gate_simps)

lemma cleared_add_checkpoint [simp]: "cleared (add_checkpoint st x now r w) = cleared w"
  by (simp add: gate_simps)

lemma resume_stage_cases: "resume_stage w = current_stage w \<or> resume_stage w = wo_agent w"
  by (simp add: resume_stage_def)

lemma stage_of_current:
  "current_stage w = st \<Longrightarrow> st \<noteq> wo_agent w \<Longrightarrow> wo_stage w = Some st"
  by (auto simp: current_stage_def split: option.splits list.splits)

lemma claimed_simps [simp]:
  "wo_id (claimed_order now w) = wo_id w"
  "wo_status (claimed_order now w) = ''working''"
  "wo_stage (claimed_order now w) = Some (resume_stage w)"
  "wo_agent (claimed_order now w) = wo_agent w"
  "cleared (claimed_order now w) = cleared w"
  by (simp_all add: claimed_order_def)

lemma late_resume:
  assumes "wo_status w = ''queued''" and "gated w" and "resume_stage w \<in> set late_stages"
  shows "cleared w"
proof -
  have "resume_stage w \<noteq> wo_agent w" using assms(2,3) by (auto simp: gated_def)
  then have "wo_stage w = Some (resume_stage w)"
    using resume_stage_cases [of w] stage_of_current [of w "resume_stage w"] by auto
  with assms show ?thesis unfolding gated_def late_def by blast
qed

text \<open>A status before the gates, at a stage that is early or whose order is cleared.\<close>

lemma gated_intro:
  assumes "wo_agent w \<notin> set late_stages"
    and "wo_status w \<in> {''queued'', ''working''} \<Longrightarrow> \<exists>st \<in> set late_stages. wo_stage w = Some st \<Longrightarrow> cleared w"
    and "wo_status w \<in> {''awaiting_backtest_approval'', ''awaiting_optimization_approval''} \<Longrightarrow> cleared w"
    and "wo_status w \<notin> {''awaiting_live_approval'', ''approved''}"
  shows "gated w"
  using assms by (auto simp: gated_def late_def)

lemma gated_agent: "gated w \<Longrightarrow> wo_agent w \<notin> set late_stages"
  by (simp add: gated_def)

lemma gated_awaiting_live:
  "wo_agent w \<notin> set late_stages \<Longrightarrow> wo_status w = ''awaiting_live_approval'' \<Longrightarrow> cleared w \<Longrightarrow>
     (needs_backtest w \<Longrightarrow> backtest_approved w) \<Longrightarrow> gated w"
  by (simp add: gated_def)

lemma gated_approved:
  "wo_agent w \<notin> set late_stages \<Longrightarrow> wo_status w = ''approved'' \<Longrightarrow> cleared w \<Longrightarrow>
     (needs_backtest w \<Longrightarrow> backtest_approved w) \<Longrightarrow> live_approved w \<Longrightarrow> gated w"
  by (simp add: gated_def)

lemma gated_claimed: "claimable now w \<Longrightarrow> gated w \<Longrightarrow> gated (claimed_order now w)"
  using late_resume [of w] by (intro gated_intro) (auto simp: claimable_def gated_agent)

lemma decided_simps [simp]:
  "cleared (w\<lparr>wo_approvals := Some (decided now g a n u)\<rparr>) =
     (if g = IMPLEMENTATION_GATE then a else cleared u)"
  "backtest_approved (w\<lparr>wo_approvals := Some (decided now g a n u)\<rparr>) =
     (if g = BACKTEST_GATE then a else backtest_approved u)"
  "live_approved (w\<lparr>wo_approvals := Some (decided now g a n u)\<rparr>) =
     (if g = LIVE_GATE then a else live_approved u)"
  by (cases g; simp add: decided_def gate_simps no_approvals_def split: option.split)+

lemma gated_decide_implementation:
  "wo_agent w \<notin> set late_stages \<Longrightarrow> (approved \<Longrightarrow> cleared w) \<Longrightarrow> gated (decide_implementation approved w)"
  by (cases approved; cases "needs_backtest w")
    (auto simp: decide_implementation_def late_stages_def intro: gated_intro gated_awaiting_live)

lemma gated_decide_optimization:
  "wo_agent w \<notin> set late_stages \<Longrightarrow> cleared w \<Longrightarrow> decide_optimization now approved note w = Inr w' \<Longrightarrow> gated w'"
  by (cases approved)
    (auto simp: decide_optimization_def late_stages_def Let_def intro!: gated_intro split: option.splits if_splits)

lemma cleared_map_optimization [simp]:
  "cleared (u\<lparr>wo_approvals := map_option (for_optimization_update f) (wo_approvals w)\<rparr>) = cleared w"
  by (cases "wo_approvals w") (simp_all add: gate_simps)

lemma gated_decide_backtest:
  "wo_agent w \<notin> set late_stages \<Longrightarrow> cleared w \<Longrightarrow> (approved \<Longrightarrow> backtest_approved w) \<Longrightarrow>
     gated (decide_backtest approved w)"
  by (cases approved) (auto simp: decide_backtest_def intro: gated_intro gated_awaiting_live)

lemma gated_decide_live:
  "wo_agent w \<notin> set late_stages \<Longrightarrow> cleared w \<Longrightarrow> (needs_backtest w \<Longrightarrow> backtest_approved w) \<Longrightarrow>
     (approved \<Longrightarrow> live_approved w) \<Longrightarrow> gated (decide_live now approved w)"
  by (cases approved) (auto simp: decide_live_def intro: gated_intro gated_approved)

lemma gated_decide:
  assumes "gated w" and "decide now gate approved note w = Inr w'"
  shows "gated w'"
proof -
  have st: "wo_status w = expected_status gate" and agent: "wo_agent w \<notin> set late_stages"
    using assms by (auto simp: decide_def Let_def gated_agent split: if_splits)
  have late: "gate \<noteq> IMPLEMENTATION_GATE \<Longrightarrow> cleared w"
    using st assms(1) by (cases gate) (simp_all add: gated_def late_def)
  have live: "gate = LIVE_GATE \<Longrightarrow> needs_backtest w \<Longrightarrow> backtest_approved w"
    using st assms(1) by (simp add: gated_def)
  let ?w = "w\<lparr>wo_approvals := Some (decided now gate approved note w)\<rparr>"
  show ?thesis
  proof (cases gate)
    case OPTIMIZATION_GATE
    then obtain u where "decide_optimization now approved note ?w = Inr u"
      and w': "w' = add_checkpoint (gate_value gate) (if approved then ''approved'' else ''rejected'') now None u"
      using assms(2) st by (cases "decide_optimization now approved note ?w") (auto simp: decide_def)
    then have "gated u"
      using gated_decide_optimization [of ?w now approved "note" u] agent late OPTIMIZATION_GATE by simp
    then show ?thesis by (simp add: w')
  qed (use assms(2) st agent late live in
      \<open>auto simp: decide_def intro!: gated_decide_implementation gated_decide_backtest gated_decide_live\<close>)
qed

section \<open>Mutations keep the document gated\<close>

text \<open>Mutations of one order, by the requests: the held order is not touched, or stays at work.\<close>

lemma doc_ok_held: "doc_ok dirs (Some (i, c)) v \<Longrightarrow> order_at v i = Some w \<Longrightarrow> wo_status w = ''working''"
  by (auto simp: doc_ok_def holds_order_def)

lemma keeps_heartbeat [keeps_rules]: "keeps (doc_ok dirs h) (heartbeat_mutation now i)"
  by (auto simp: keeps_wp heartbeat_mutation_def wp_rules intro!: doc_ok_save gated_intro
      dest: doc_ok_order split: option.split simp: gated_def late_def)

lemma keeps_append_message [keeps_rules]: "keeps (doc_ok dirs h) (append_message now a n)"
  by (simp add: keeps_wp wp_rules)

lemma keeps_approval_mutation [keeps_rules]: "keeps (doc_ok dirs h) (approval_mutation now i g a n)"
proof -
  have "doc_ok dirs h (v\<lparr>gs_orders := put_order i w' (gs_orders v)\<rparr>)"
    if "doc_ok dirs h v" "order_at v i = Some w" "decide now g a n w = Inr w'" for v w w'
  proof (rule doc_ok_save [OF that(1,2)])
    show "gated w'" using gated_decide that doc_ok_order by blast
    have st: "wo_status w = expected_status g" using that(3) by (simp add: decide_def Let_def split: if_splits)
    then show "wo_id w' = wo_id w" using that(3)
      by (cases g) (auto simp: decide_def decide_implementation_def decide_optimization_def decide_backtest_def
          decide_live_def Let_def split: option.splits if_splits)
    show "wo_status w' = ''working'' \<and> (c \<longrightarrow> cleared w')" if "wo_status w = ''working''" for c
      using st that by (cases g) simp_all
  qed
  then show ?thesis
    by (auto simp: keeps_wp approval_mutation_def wp_rules split: option.split sum.split)
qed

lemma gated_cancelled:
  "wo_agent w \<notin> set late_stages \<Longrightarrow>
     gated (w\<lparr>wo_status := ''cancelled'', wo_stage := Some ''cancelled'', wo_finished_at := Some now\<rparr>)"
  by (rule gated_intro) simp_all

lemma keeps_cancel_mutation: "\<forall>c. h \<noteq> Some (i, c) \<Longrightarrow> keeps (doc_ok dirs h) (cancel_mutation now i)"
  by (auto simp: keeps_wp cancel_mutation_def wp_rules intro!: doc_ok_save gated_cancelled
      dest: doc_ok_order gated_agent split: option.split)

lemma keeps_resume_mutation [keeps_rules]: "keeps (doc_ok dirs h) (resume_mutation now identifier)"
proof -
  let ?g = "\<lambda>w. if resumable identifier w
     then w\<lparr>wo_retry_not_before := None, wo_quota_retry_resumed_at := Some now\<rparr> else w"
  have "doc_ok dirs h (each_order (\<lambda>w t. (?g w, t)) v)" if "doc_ok dirs h v" for v
  proof (rule doc_ok_map [OF that gs_orders_each [where g = ?g]])
    show "gated (?g w)" if "gated w" for w using that by (simp add: gated_def late_def)
  qed auto
  then show ?thesis by (simp add: keeps_def resume_mutation_def)
qed

lemma cleared_reset: "cleared (reset_progress keep w) \<longleftrightarrow>
    (if keep \<or> wo_agent w \<noteq> ''strategy'' then cleared w else False)"
  by (auto simp: reset_progress_def gate_simps no_approvals_def split: option.split)

lemma retry_simps [simp]:
  "wo_id (remediated_order now a v why w) = wo_id w"
  "wo_agent (remediated_order now a v why w) = wo_agent w"
  "wo_status (remediated_order now a v why w) = ''queued''"
  "wo_stage (remediated_order now a v why w) = Some (retry_stage (preserves_implementation a v w) w)"
  "cleared (remediated_order now a v why w) = cleared (reset_progress (preserves_implementation a v w) w)"
  by (simp_all add: remediated_order_def Let_def reset_progress_def)

lemma gated_remediated: "gated w \<Longrightarrow> gated (remediated_order now a v why w)"
proof (rule gated_intro)
  assume w: "gated w" and "\<exists>st \<in> set late_stages. wo_stage (remediated_order now a v why w) = Some st"
  then have "preserves_implementation a v w"
    by (auto simp: retry_stage_def gated_def late_stages_def split: if_splits)
  moreover from this have "cleared w" by (simp add: preserves_implementation_def cleared_def)
  ultimately show "cleared (remediated_order now a v why w)" by (simp add: cleared_reset)
qed (simp_all add: gated_agent)

lemma keeps_retry_mutation [keeps_rules]: "keeps (doc_ok dirs h) (retry_mutation now i a ver why m)"
proof -
  have "doc_ok dirs h (v\<lparr>gs_orders := put_order i (remediated_order now a ver why w) (gs_orders v)\<rparr>)"
    if "doc_ok dirs h v" "order_at v i = Some w" "wo_status w \<noteq> ''working''" for v w
    using that by (intro doc_ok_save) (auto intro: gated_remediated dest: doc_ok_order)
  then show ?thesis
    by (auto simp: keeps_wp retry_mutation_def wp_rules split: option.split sum.split)
qed

lemma keeps_publish [keeps_rules]: "keeps (doc_ok dirs h) (publish_mutation now code detail)"
  by (simp add: keeps_def publish_mutation_def)

lemma keeps_resolve [keeps_rules]: "keeps (doc_ok dirs h) (resolve_mutation now code)"
  by (auto simp: keeps_def resolve_mutation_def split: option.split)

lemma keeps_circuit [keeps_rules]: "keeps (doc_ok dirs h) (modifyE (\<lambda>v. v\<lparr>gs_circuit := k v\<rparr>))"
  by (simp add: keeps_def modifyE_def)

text \<open>New orders.\<close>

lemma find_append: "find P (xs @ ys) = (case find P xs of None \<Rightarrow> find P ys | Some x \<Rightarrow> Some x)"
  by (induction xs) auto

lemma doc_ok_append:
  assumes "doc_ok dirs h v" and "wo_id w \<notin> set dirs" and "gated w" and "set dirs \<union> {wo_id w} \<subseteq> set dirs'"
  shows "doc_ok dirs' h (v\<lparr>gs_orders := gs_orders v @ [w]\<rparr>)"
proof -
  have "order_at (v\<lparr>gs_orders := gs_orders v @ [w]\<rparr>) i = Some u" if "order_at v i = Some u" for i u
    using that by (simp add: order_at_def find_append)
  then show ?thesis using assms by (fastforce simp: doc_ok_def holds_order_def split: option.splits)
qed

lemma doc_ok_dirs: "doc_ok dirs h v \<Longrightarrow> set dirs \<subseteq> set dirs' \<Longrightarrow> doc_ok dirs' h v"
  by (auto simp: doc_ok_def)

lemma gated_new_order: "agent \<in> {''strategy'', ''maintenance''} \<Longrightarrow> gated (new_order i now ins agent k b op a)"
  by (rule gated_intro) (auto simp: new_order_def Let_def late_stages_def)

lemma gated_adoption_order: "gated w \<Longrightarrow> wo_status w = ''queued'' \<Longrightarrow> gated (adoption_order now k a ver w)"
  by (auto simp: adoption_order_def late_stages_def intro!: gated_intro dest: gated_agent)

section \<open>The runner's own writes\<close>

text \<open>The document is gated, and the orders \<open>I\<close> are cleared if the flag says so, at work or not.\<close>

definition known :: "string list \<Rightarrow> string set \<Rightarrow> bool \<Rightarrow> gateway_state \<Rightarrow> bool" where
  "known dirs I c v \<longleftrightarrow> doc_ok dirs None v \<and> (\<forall>i \<in> I. \<forall>w. order_at v i = Some w \<longrightarrow> c \<longrightarrow> cleared w)"

lemma doc_ok_None: "doc_ok dirs h v \<Longrightarrow> doc_ok dirs None v"
  by (simp add: doc_ok_def holds_order_def)

lemma known_held: "doc_ok dirs (Some (i, c)) v \<Longrightarrow> known dirs {i} c v"
  by (auto simp: known_def doc_ok_def holds_order_def)

lemma known_dirs: "known dirs I c v \<Longrightarrow> set dirs \<subseteq> set dirs' \<Longrightarrow> known dirs' I c v"
  by (auto simp: known_def intro: doc_ok_dirs)

lemma known_cong: "gs_orders u = gs_orders v \<Longrightarrow> known dirs I c u = known dirs I c v"
  by (simp add: known_def doc_ok_cong [of u v] order_at_cong [of u v])

lemma known_frame [simp]:
  "known dirs I c (add_message now a n v) = known dirs I c v"
  "known dirs I c (put_blocker k d now v) = known dirs I c v"
  "known dirs I c (v\<lparr>gs_dead_letters := ds\<rparr>) = known dirs I c v"
  by (rule known_cong, simp)+

lemma order_at_save: "wo_id w' = i \<Longrightarrow> order_at (v\<lparr>gs_orders := put_order i w' (gs_orders v)\<rparr>) j =
    (if j = i then map_option (\<lambda>_. w') (order_at v j) else order_at v j)"
  by (simp add: order_at_def find_put_order)

lemma known_save:
  assumes "known dirs I c v" and "order_at v i = Some w" and "gated w'" and "wo_id w' = wo_id w"
    and "c \<Longrightarrow> cleared w \<Longrightarrow> cleared w'"
  shows "known dirs I c (v\<lparr>gs_orders := put_order i w' (gs_orders v)\<rparr>)"
proof -
  have "wo_id w' = i" using assms(2,4) order_at_id by auto
  with assms show ?thesis by (auto simp: known_def order_at_save intro!: doc_ok_save)
qed

lemma known_order: "known dirs I c v \<Longrightarrow> i \<in> I \<Longrightarrow> order_at v i = Some w \<Longrightarrow> gated w \<and> (c \<longrightarrow> cleared w)"
  by (auto simp: known_def dest: doc_ok_order)

definition checkpointed :: "datetime \<Rightarrow> string \<Rightarrow> results \<Rightarrow> string option \<Rightarrow> string option \<Rightarrow> order_doc \<Rightarrow> order_doc" where
  "checkpointed now stage rs aid ver w = add_checkpoint stage ''working'' now None
     (w\<lparr>wo_stage := Some stage, wo_results := Some rs, wo_artifact_id := override aid (wo_artifact_id w),
        wo_artifact_version := override ver (wo_artifact_version w), wo_last_heartbeat_at := Some now\<rparr>)"

lemma checkpointed_simps [simp]:
  "wo_id (checkpointed now st rs a ver w) = wo_id w"
  "wo_status (checkpointed now st rs a ver w) = wo_status w"
  "wo_stage (checkpointed now st rs a ver w) = Some st"
  "wo_agent (checkpointed now st rs a ver w) = wo_agent w"
  "cleared (checkpointed now st rs a ver w) = cleared w"
  "backtest_approved (checkpointed now st rs a ver w) = backtest_approved w"
  "live_approved (checkpointed now st rs a ver w) = live_approved w"
  "needs_backtest (checkpointed now st rs a ver w) = needs_backtest w"
  by (simp_all add: checkpointed_def add_checkpoint_def)

lemma gated_checkpointed:
  assumes "gated w" and "stage \<in> set late_stages \<Longrightarrow> cleared w"
  shows "gated (checkpointed now stage rs aid ver w)"
proof -
  have "late (checkpointed now stage rs aid ver w) \<Longrightarrow> late w \<or> stage \<in> set late_stages"
    unfolding late_def checkpointed_simps by blast
  with assms show ?thesis unfolding gated_def checkpointed_simps by blast
qed

lemma keeps_checkpoint_held:
  "(stage \<in> set late_stages \<Longrightarrow> c) \<Longrightarrow>
     keeps (doc_ok dirs (Some (i, c))) (checkpoint_mutation now i stage a rs aid ver)"
  unfolding checkpoint_mutation_def checkpointed_def [symmetric]
  by (auto simp: keeps_wp wp_rules intro!: doc_ok_save gated_checkpointed dest: doc_ok_order
      known_order [OF known_held, OF _ insertI1] split: option.split)

lemma keeps_checkpoint_known:
  "i \<in> I \<Longrightarrow> (stage \<in> set late_stages \<Longrightarrow> c) \<Longrightarrow> keeps (known dirs I c) (checkpoint_mutation now i stage a rs aid ver)"
  unfolding checkpoint_mutation_def checkpointed_def [symmetric]
  by (auto simp: keeps_wp wp_rules intro!: known_save gated_checkpointed dest: known_order split: option.split)

lemma requeued_simps [simp]:
  "wo_id (requeued_order cfg now rq w) = wo_id w" "cleared (requeued_order cfg now rq w) = cleared w"
  "wo_id (dead_order cfg now rq w) = wo_id w" "cleared (dead_order cfg now rq w) = cleared w"
  by (simp_all add: requeued_order_def dead_order_def)

lemma gated_dead_order: "gated w \<Longrightarrow> gated (dead_order cfg now rq w)"
  by (auto simp: dead_order_def intro!: gated_intro dest: gated_agent)

lemma gated_requeued:
  "gated w \<Longrightarrow> (rq_stage rq \<in> set late_stages \<Longrightarrow> cleared w) \<Longrightarrow> gated (requeued_order cfg now rq w)"
  by (auto simp: requeued_order_def intro!: gated_intro dest: gated_agent)

lemma keeps_requeue_mutation:
  "i \<in> I \<Longrightarrow> (rq_stage rq \<in> set late_stages \<Longrightarrow> c) \<Longrightarrow> keeps (known dirs I c) (requeue_mutation cfg now i rq)"
  by (auto simp: keeps_wp requeue_mutation_def wp_rules intro!: known_save gated_requeued gated_dead_order
      dest: known_order split: option.split list.split)

lemma finished_simps [simp]:
  "wo_id (finished_order now st stage rs w) = wo_id w"
  "cleared (finished_order now st stage rs w) = cleared w"
  "wo_status (finished_order now st stage rs w) = st"
  by (simp_all add: finished_order_def)

definition final_status :: "bool \<Rightarrow> string \<Rightarrow> bool" where
  "final_status c st \<longleftrightarrow> st \<notin> {''queued'', ''working'', ''awaiting_live_approval'', ''approved''} \<and>
     (st \<in> {''awaiting_backtest_approval'', ''awaiting_optimization_approval''} \<longrightarrow> c)"

lemma gated_finished:
  "gated w \<Longrightarrow> final_status c st \<Longrightarrow> (c \<longrightarrow> cleared w) \<Longrightarrow> gated (finished_order now st stage rs w)"
proof (rule gated_intro)
  assume "gated w" then show "wo_agent (finished_order now st stage rs w) \<notin> set late_stages"
    by (simp add: finished_order_def gated_agent)
qed (auto simp: final_status_def)

lemma keeps_finish_mutation:
  "i \<in> I \<Longrightarrow> final_status c st \<Longrightarrow> keeps (known dirs I c) (finish_mutation now i st stage rs)"
  by (auto simp: keeps_wp finish_mutation_def wp_rules intro!: known_save gated_finished
      dest: known_order split: option.split)

section \<open>Claims and recoveries\<close>

lemma claim_first_spec:
  "claim_first now ws = (vs, c) \<Longrightarrow> (case c of None \<Rightarrow> vs = ws
     | Some w' \<Rightarrow> \<exists>pre w post. ws = pre @ w # post \<and> claimable now w \<and> w' = claimed_order now w \<and> vs = pre @ w' # post)"
proof (induction now ws arbitrary: vs c rule: claim_first.induct)
  case (2 now w ws)
  show ?case
  proof (cases "claimable now w")
    case True
    with 2 have "vs = claimed_order now w # ws" "c = Some (claimed_order now w)" by auto
    with True show ?thesis by (simp, intro exI [of _ "[]"] exI [of _ w] exI [of _ ws]) simp
  next
    case False
    obtain us' c' where ih: "claim_first now ws = (us', c')" by fastforce
    with False 2(2) have "vs = w # us'" "c = c'" by auto
    with 2(1) [OF False ih] show ?thesis by (cases c') (simp_all, metis append_Cons)
  qed
qed simp

lemma doc_ok_claim:
  assumes "doc_ok dirs None v" and "claim_mutation now v = (r, t)"
  shows "\<exists>c. r = Inr c \<and> (case c of None \<Rightarrow> doc_ok dirs None t
     | Some w \<Rightarrow> gated w \<and> wo_status w = ''working'' \<and> wo_stage w = Some (current_stage w) \<and>
         doc_ok dirs (Some (wo_id w, cleared w)) t)"
proof -
  obtain vs c where cl: "claim_first now (gs_orders v) = (vs, c)" by fastforce
  show ?thesis
  proof (cases c)
    case None
    with assms cl show ?thesis using claim_first_spec [OF cl] by (auto simp: claim_mutation_def Let_def)
  next
    case (Some w')
    then obtain pre w post where split: "gs_orders v = pre @ w # post" and w: "claimable now w"
      and w': "w' = claimed_order now w" and vs: "vs = pre @ w' # post"
      using claim_first_spec [OF cl] by auto
    have "wo_id w \<notin> wo_id ` set pre" using assms(1) split by (simp add: doc_ok_def)
    then have "find (\<lambda>x. wo_id x = wo_id w) pre = None" unfolding find_None_iff by (metis imageI)
    then have at: "order_at (v\<lparr>gs_orders := vs\<rparr>) (wo_id w') = Some w'"
      by (simp add: order_at_def vs find_append w')
    have gw: "gated w'" using assms(1) split gated_claimed [OF w] by (simp add: doc_ok_def w')
    have "resume_stage w \<noteq> [] \<or> wo_agent w = []"
      by (auto simp: resume_stage_def executable_stages_def)
    then have st: "wo_stage w' = Some (current_stage w')"
      using w by (auto simp: w' current_stage_def claimable_def split: list.split)
    have "doc_ok dirs (Some (wo_id w', cleared w')) (v\<lparr>gs_orders := vs\<rparr>)"
      using assms(1) split at gw by (auto simp: doc_ok_def holds_order_def vs w')
    with assms(2) cl gw st Some show ?thesis by (auto simp: claim_mutation_def Let_def w')
  qed
qed

end
