(* ===== verification/Order_Worker.thy ===== *)
theory Order_Worker
  imports Order_Invariant
begin

text \<open>
  The worker keeps the document gated: its start, every turn of its loop and every request, with any
  requests at its suspensions. The assertion about the active order is stable under them, as in
  rely/guarantee reasoning.
\<close>

section \<open>Recoveries\<close>

lemma keeps_each:
  assumes "\<And>w v. fst (f w v) = g w" and "\<And>w. wo_id (g w) = wo_id w"
    and "\<And>w. gated w \<Longrightarrow> gated (g w)"
  shows "keeps (doc_ok dirs None) (modifyE (each_order f))"
proof (rule keeps_modifyE)
  fix v assume v: "doc_ok dirs None v"
  show "doc_ok dirs None (each_order f v)"
    by (rule doc_ok_map [OF v gs_orders_each [of f, OF assms(1)] assms(2)]) (simp_all add: assms(3))
qed

lemma cleared_with_optimizer [simp]: "cleared (with_optimizer w) = cleared w"
  "backtest_approved (with_optimizer w) = backtest_approved w" "live_approved (with_optimizer w) = live_approved w"
  "wo_id (with_optimizer w) = wo_id w"
  by (simp_all add: with_optimizer_def gate_simps no_approvals_def split: option.split)

lemma gated_with_optimizer: "gated w \<Longrightarrow> gated (with_optimizer w)"
  by (simp add: gated_def late_def) (simp add: with_optimizer_def)

lemma keeps_migrate [keeps_rules]: "keeps (doc_ok dirs None) migrate_mutation"
  unfolding migrate_mutation_def
  by (rule keeps_each [where g = "\<lambda>w. if lacks_optimizer w then with_optimizer w else w"])
    (simp_all add: gated_with_optimizer)

lemma interrupted_late: "wo_status w = ''working'' \<Longrightarrow> gated w \<Longrightarrow> interrupted_stage w \<in> set late_stages \<Longrightarrow> cleared w"
proof -
  assume w: "wo_status w = ''working''" "gated w" and l: "interrupted_stage w \<in> set late_stages"
  have "''strategy'' \<notin> set late_stages" by (simp add: late_stages_def)
  then have "wo_stage w = Some (interrupted_stage w)" using l gated_agent [OF w(2)]
    by (auto simp: interrupted_stage_def Let_def split: if_splits option.splits list.splits)
  with w l show ?thesis unfolding gated_def late_def by blast
qed

lemma keeps_recover_interrupted [keeps_rules]: "keeps (doc_ok dirs None) (recover_interrupted_mutation now)"
  unfolding recover_interrupted_mutation_def
  by (rule keeps_each [where g = "\<lambda>w. if wo_status w \<noteq> ''working'' then w
      else w\<lparr>wo_status := ''queued'', wo_stage := Some (interrupted_stage w), wo_last_heartbeat_at := Some now\<rparr>"])
    (auto simp: recover_interrupted_def intro!: gated_intro dest: gated_agent interrupted_late)

lemma restored_simps [simp]:
  "wo_id (restored_optimizer env now w) = wo_id w" "cleared (restored_optimizer env now w) = cleared w"
  "wo_id (restored_pass now w) = wo_id w"
  by (simp_all add: restored_optimizer_def restored_pass_def Let_def)

lemma gated_restored_optimizer: "gated w \<Longrightarrow> cleared w \<Longrightarrow> gated (restored_optimizer env now w)"
  by (auto simp: restored_optimizer_def Let_def intro!: gated_intro dest: gated_agent)

text \<open>The recovery of an optimizer's stage does not look at the approvals: its orders must be cleared.\<close>

lemma doc_ok_recover_optimizer:
  assumes v: "doc_ok dirs None v" and "\<forall>w \<in> set (gs_orders v). stage_regressed w \<longrightarrow> cleared w"
  shows "doc_ok dirs None (snd (recover_optimizer_mutation env now v))"
proof -
  let ?g = "\<lambda>w. if stage_regressed w then restored_optimizer env now w else w"
  have "doc_ok dirs None (each_order (recover_optimizer env now) v)"
    by (rule doc_ok_map [OF v gs_orders_each [where g = ?g]])
      (use assms(2) in \<open>auto simp: recover_optimizer_def gated_restored_optimizer\<close>)
  then show ?thesis by (simp add: recover_optimizer_mutation_def modifyE_def)
qed

lemma gated_restored_pass: "gated w \<Longrightarrow> gated (restored_pass now w)"
  by (auto simp: restored_pass_def intro!: gated_intro dest: gated_agent)

lemma keeps_recover_pass [keeps_rules]: "keeps (doc_ok dirs None) (recover_pass_mutation now)"
proof -
  have "keeps (doc_ok dirs None) (modifyE (each_order (recover_pass now)))"
    by (rule keeps_each [where g = "\<lambda>w. if pass_misread w then restored_pass now w else w"])
      (auto simp: recover_pass_def gated_restored_pass)
  then show ?thesis by (simp add: keeps_def recover_pass_mutation_def modifyE_def)
qed

lemma unpassed_status: "unpassed_review w = Some (key, report) \<Longrightarrow>
    key = ''review_implementation'' \<or> key = ''review_backtest'' \<and> wo_status w = ''awaiting_backtest_approval''"
  by (auto simp: unpassed_review_def awaited_review_def split: option.splits if_splits)

lemma wo_id_failed_review [simp]: "wo_id (failed_review_order cfg now key report w) = wo_id w"
  by (simp add: failed_review_order_def Let_def)

lemma gated_failed_review:
  assumes "gated w" and "unpassed_review w = Some (key, report)"
  shows "gated (failed_review_order cfg now key report w)"
proof -
  have "return_stage key \<in> set late_stages \<Longrightarrow> cleared w"
    using assms unpassed_status [OF assms(2)] by (auto simp: return_stage_def late_stages_def gated_def late_def)
  with assms(1) show ?thesis
    by (auto simp: failed_review_order_def Let_def intro!: gated_intro dest: gated_agent)
qed

lemma keeps_recover_failed_review [keeps_rules]:
  "keeps (doc_ok dirs None) (recover_failed_review_mutation cfg now)"
  unfolding recover_failed_review_mutation_def
  by (rule keeps_each [where g = "\<lambda>w. case unpassed_review w of None \<Rightarrow> w
        | Some (key, report) \<Rightarrow> failed_review_order cfg now key report w"])
    (auto simp: recover_failed_review_def gated_failed_review split: option.split prod.split)

lemma keeps_clear_terminal [keeps_rules]: "keeps (doc_ok dirs None) clear_terminal_mutation"
  unfolding clear_terminal_mutation_def
  by (rule keeps_each [where g = "\<lambda>w. if wo_status w \<in> {''queued'', ''working''} then w
      else w\<lparr>wo_retry_not_before := None\<rparr>"]) (auto simp: gated_def late_def)

section \<open>The runner's state\<close>

definition document :: "'r runner_scheme \<Rightarrow> gateway_state" where
  "document s = read_unlocked (rn_file s)"

definition runner_ok :: "'r runner_scheme \<Rightarrow> bool" where
  "runner_ok s \<longleftrightarrow> doc_ok (rn_work_dirs s) None (document s)"

text \<open>
  \<open>at_work a c R\<close>: the order is active, at work, and cleared if the flag says so; \<open>R\<close> is about the
  local variables of a task, which no other task sees.
\<close>

definition at_work :: "string option \<Rightarrow> bool \<Rightarrow> ('r \<Rightarrow> bool) \<Rightarrow> 'r runner_scheme \<Rightarrow> bool" where
  "at_work a c R s \<longleftrightarrow> R (runner.more s) \<and> rn_active s = a \<and>
     doc_ok (rn_work_dirs s) (map_option (\<lambda>i. (i, c)) a) (document s)"

definition left_by :: "string set \<Rightarrow> bool \<Rightarrow> ('r \<Rightarrow> bool) \<Rightarrow> 'r runner_scheme \<Rightarrow> bool" where
  "left_by I c R s \<longleftrightarrow> R (runner.more s) \<and> known (rn_work_dirs s) I c (document s)"

lemma at_work_left: "at_work (Some i) c R s \<Longrightarrow> left_by {i} c R s"
  by (auto simp: at_work_def left_by_def intro: known_held)

lemma left_ok: "left_by I c R s \<Longrightarrow> runner_ok s"
  by (simp add: left_by_def known_def runner_ok_def)

lemma at_work_ok: "at_work a c R s \<Longrightarrow> runner_ok s"
  by (auto simp: at_work_def runner_ok_def intro: doc_ok_None)

lemma document_simps [simp]:
  "document (s\<lparr>rn_ticks := n\<rparr>) = document s" "document (s\<lparr>rn_registry := g\<rparr>) = document s"
  "document (s\<lparr>rn_work_dirs := d\<rparr>) = document s" "document (s\<lparr>rn_breaker := b\<rparr>) = document s"
  "document (s\<lparr>rn_cancelling := k\<rparr>) = document s" "document (s\<lparr>rn_active := a\<rparr>) = document s"
  "document (s\<lparr>rn_cancel_requested := q\<rparr>) = document s" "document (s\<lparr>rn_blocked_reason := w\<rparr>) = document s"
  "document (s\<lparr>rn_file := Some v\<rparr>) = v"
  by (simp_all add: document_def read_unlocked_def)

lemma wp_tick [wp_rules]: "wp tick Q E s = Q (rn_ticks s) (s\<lparr>rn_ticks := rn_ticks s + 1\<rparr>)"
  by (simp add: wp_def tick_def)

lemma wp_clock [wp_rules]: "wp (clock env) Q E s = Q (ge_now env (rn_ticks s)) (s\<lparr>rn_ticks := rn_ticks s + 1\<rparr>)"
  by (simp add: clock_def wp_rules)

lemma wp_update_store [wp_rules]:
  "wp (update_store m) Q E s =
     wp m (\<lambda>a v. Q (a, v) (s\<lparr>rn_file := Some v\<rparr>)) (\<lambda>e _. E e s) (document s)"
  by (auto simp: wp_def update_store_def update_file_def document_def split: prod.split sum.split)

lemma wp_mutate [wp_rules]:
  "wp (mutate m) Q E s = wp m (\<lambda>a v. Q a (s\<lparr>rn_file := Some v\<rparr>)) (\<lambda>e _. E e s) (document s)"
  by (simp add: mutate_def wp_rules)

lemma wp_read_store [wp_rules]: "wp read_store Q E s = Q (document s) s"
  by (simp add: read_store_def wp_rules document_def)

lemma wp_on_registry [wp_rules]:
  "wp (on_registry m) Q E s = wp m (\<lambda>a f. Q a (s\<lparr>rn_registry := f\<rparr>)) (\<lambda>e f. E e (s\<lparr>rn_registry := f\<rparr>)) (rn_registry s)"
  by (auto simp: wp_def on_registry_def split: prod.split sum.split)

lemma wp_on_work_dirs [wp_rules]:
  "wp (on_work_dirs m) Q E s =
     wp m (\<lambda>a d. Q a (s\<lparr>rn_work_dirs := d\<rparr>)) (\<lambda>e d. E e (s\<lparr>rn_work_dirs := d\<rparr>)) (rn_work_dirs s)"
  by (auto simp: wp_def on_work_dirs_def split: prod.split sum.split)

text \<open>A mutation that keeps an assertion about the document, as a step of the runner.\<close>

lemma keeps_wpD: "keeps I m \<Longrightarrow> I v \<Longrightarrow> (\<And>a u. I u \<Longrightarrow> Q a u) \<Longrightarrow> (\<And>e u. I u \<Longrightarrow> E e u) \<Longrightarrow> wp m Q E v"
  unfolding keeps_wp by (blast intro: wp_mono)

lemma wp_any: "(\<And>a t. Q a t) \<Longrightarrow> (\<And>e t. E e t) \<Longrightarrow> wp m Q E s"
  by (simp add: wp_def split: prod.split sum.split)

lemma keeps_clock [keeps_rules]: "keeps (at_work a c R) (clock env)"
  by (simp add: keeps_wp wp_rules at_work_def)

lemma keeps_tick [keeps_rules]: "keeps (at_work a c R) tick"
  by (simp add: keeps_wp wp_rules at_work_def)

lemma keeps_mutate:
  assumes "\<And>dirs. keeps (doc_ok dirs (map_option (\<lambda>i. (i, c)) a)) m"
  shows "keeps (at_work a c R) (mutate m)"
  unfolding keeps_wp
proof (intro allI impI)
  fix s
  assume s: "at_work a c R s"
  then have "doc_ok (rn_work_dirs s) (map_option (\<lambda>i. (i, c)) a) (document s)" by (simp add: at_work_def)
  from keeps_wpD [OF assms this] show "wp (mutate m) (\<lambda>_. at_work a c R) (\<lambda>_. at_work a c R) s"
    unfolding wp_mutate using s by (auto simp: at_work_def)
qed

lemma keeps_on_registry [keeps_rules]: "keeps (at_work a c R) (on_registry m)"
  by (auto simp: keeps_wp wp_rules at_work_def intro!: wp_any)

section \<open>Requests\<close>

text \<open>What creating a directory gives: a fresh identifier, and the order under it.\<close>

lemma wp_create_work_order:
  assumes "\<And>i d. i \<notin> set dirs \<Longrightarrow> d = dirs @ [i] \<Longrightarrow> Q (new_order i now ins agent k b op a) d"
    and "\<And>e. E e dirs"
  shows "wp (create_work_order stamp now ins agent k b op a) Q E dirs"
  using assms by (auto simp: create_work_order_def Let_def wp_rules)

lemma new_order_simps [simp]:
  "wo_id (new_order i now ins agent k b op a) = i" "wo_status (new_order i now ins agent k b op a) = ''queued''"
  by (simp_all add: new_order_def Let_def)

lemma wo_id_adoption [simp]: "wo_id (adoption_order now k a ver w) = wo_id w"
  by (simp add: adoption_order_def)

lemma wp_append_order [wp_rules]:
  "wp (append_order w) Q E v = Q () (v\<lparr>gs_orders := gs_orders v @ [w]\<rparr>)"
  by (simp add: append_order_def wp_rules)

lemma add_message_order_at:
  "add_message now a n v\<lparr>gs_orders := ws\<rparr> = add_message now a n (v\<lparr>gs_orders := ws\<rparr>)"
  by (simp add: add_message_def)

lemma wp_requested_order:
  assumes "\<And>w. wo_id w \<notin> set dirs \<Longrightarrow> gated w \<Longrightarrow> Q w (dirs @ [wo_id w])"
    and "\<And>e. E e dirs"
  shows "wp (requested_order stamp now ins work) Q E dirs"
proof -
  have "Q (new_order i now ins agent k b op a) (dirs @ [i])"
    if "i \<notin> set dirs" "agent \<in> {''strategy'', ''maintenance''}" for i agent k b op a
    using assms(1) [of "new_order i now ins agent k b op a"] gated_new_order that by simp
  then show ?thesis using assms(2) by (cases work) (auto simp: requested_order_def intro!: wp_create_work_order)
qed

lemma keeps_add_order [keeps_rules]: "keeps (at_work a c R) (add_order env stamp ins work req ans spec)"
  unfolding keeps_wp
proof (intro allI impI)
  fix s
  assume s: "at_work a c R s"
  have new: "doc_ok (rn_work_dirs s @ [wo_id w]) (map_option (\<lambda>i. (i, c)) a)
      ((add_message now x n (document s))\<lparr>gs_orders := gs_orders (document s) @ [w]\<rparr>)"
    if "gated w" "wo_id w \<notin> set (rn_work_dirs s)" for w now x n
  proof -
    have "doc_ok (rn_work_dirs s @ [wo_id w]) (map_option (\<lambda>i. (i, c)) a)
        ((add_message now x n (document s))\<lparr>gs_orders := gs_orders (add_message now x n (document s)) @ [w]\<rparr>)"
      by (rule doc_ok_append) (use s that in \<open>auto simp: at_work_def\<close>)
    then show ?thesis by simp
  qed
  show "wp (add_order env stamp ins work req ans spec) (\<lambda>_. at_work a c R) (\<lambda>_. at_work a c R) s"
    unfolding add_order_def Let_def wp_rules
    by (rule wp_requested_order)
      (use s new in \<open>auto simp: persist_response_def wp_rules at_work_def split: option.split intro!: wp_any\<close>)
qed

lemma keeps_adopt [keeps_rules]: "keeps (at_work a c R) (adopt_artifact env k aid ver b n stamp)"
  unfolding keeps_wp
proof (intro allI impI)
  fix s
  assume s: "at_work a c R s"
  show "wp (adopt_artifact env k aid ver b n stamp) (\<lambda>_. at_work a c R) (\<lambda>_. at_work a c R) s"
    unfolding adopt_artifact_def Let_def wp_rules
    by (cases "adoption_check (ge_workspace env (rn_ticks s)) (document s) k aid ver n")
      (use s in \<open>auto simp: wp_rules at_work_def adoption_mutation_def
         intro!: wp_create_work_order doc_ok_append gated_adoption_order gated_new_order\<close>)
qed

lemma keeps_persist_talk [keeps_rules]: "keeps (doc_ok dirs h) (persist_response now req None ans)"
  by (simp add: keeps_wp persist_response_def wp_rules)

definition cancel_selected :: "datetime \<Rightarrow> string \<Rightarrow> ('r, unit) run" where
  "cancel_selected now i = bindE (getE rn_active) (\<lambda>active.
     if active = Some i
     then modifyE (\<lambda>s. s\<lparr>rn_cancel_requested := List.insert i (rn_cancel_requested s), rn_cancelling := True\<rparr>)
     else mutate (cancel_mutation now i))"

lemma keeps_cancel_selected: "keeps (at_work a c R) (cancel_selected now i)"
  unfolding keeps_wp
proof (intro allI impI)
  fix s
  assume s: "at_work a c R s"
  show "wp (cancel_selected now i) (\<lambda>_. at_work a c R) (\<lambda>_. at_work a c R) s"
  proof (cases "a = Some i")
    case True
    with s show ?thesis by (simp add: cancel_selected_def wp_rules at_work_def)
  next
    case False
    then have "keeps (at_work a c R) (mutate (cancel_mutation now i))"
      by (intro keeps_mutate keeps_cancel_mutation) auto
    moreover have "rn_active s \<noteq> Some i" using s False by (simp add: at_work_def)
    ultimately show ?thesis using s unfolding cancel_selected_def wp_bindE wp_getE keeps_wp by simp
  qed
qed

lemma keeps_cancel [keeps_rules]: "keeps (at_work a c R) (cancel_order env identifier)"
  unfolding cancel_order_def read_store_def cancel_selected_def [symmetric]
  by (intro keeps_rules keeps_cancel_selected)

lemma keeps_retry_order [keeps_rules]: "keeps (at_work a c R) (retry_order env i aid ver why)"
  unfolding retry_order_def by (intro keeps_rules keeps_mutate)

lemma keeps_resume [keeps_rules]: "keeps (at_work a c R) (resume_queue env identifier)"
  unfolding resume_queue_def
  by (intro keeps_rules keeps_mutate keeps_modifyE) (simp add: at_work_def)

lemma keeps_request [keeps_rules]: "keeps (at_work a c R) (exec_request env rq)"
  by (cases rq) (auto simp: intro!: keeps_rules keeps_mutate keeps_modifyE simp: at_work_def)

lemma keeps_suspend [keeps_rules]: "keeps (at_work a c R) (suspend env)"
  unfolding suspend_def answered_def
  by (intro keeps_rules keeps_modifyE) (simp_all add: at_work_def)

lemma keeps_agent_turn [keeps_rules]: "keeps (at_work a c R) (agent_turn env w role prior)"
  unfolding agent_turn_def by (intro keeps_rules)

section \<open>The execution of one order\<close>

lemma wp_selected_order [wp_rules]:
  "wp (selected_order i v) Q E s = (case order_at v i of
     None \<Rightarrow> E (RuntimeError (''work order disappeared: '' @ i)) s | Some w \<Rightarrow> Q w s)"
  by (simp add: selected_order_def find_order_def order_at_def wp_rules split: option.split)

lemma keeps_left_mutate:
  assumes "\<And>dirs. keeps (known dirs I c) m"
  shows "keeps (left_by I c R) (mutate m)"
  unfolding keeps_wp
proof (intro allI impI)
  fix s
  assume s: "left_by I c R s"
  then have "known (rn_work_dirs s) I c (document s)" by (simp add: left_by_def)
  from keeps_wpD [OF assms this] show "wp (mutate m) (\<lambda>_. left_by I c R) (\<lambda>_. left_by I c R) s"
    unfolding wp_mutate using s by (auto simp: left_by_def)
qed

lemma keeps_left_clock [keeps_rules]: "keeps (left_by I c R) (clock env)"
  by (simp add: keeps_wp wp_rules left_by_def)

lemma keeps_left_record [keeps_rules]: "keeps (left_by I c R) (record_selected env w)"
  by (auto simp: keeps_wp record_selected_def wp_rules left_by_def intro!: wp_any)

lemma keeps_record [keeps_rules]: "keeps (at_work a c R) (record_selected env w)"
  unfolding record_selected_def by (intro keeps_rules)

lemma keeps_requeue: "i \<in> I \<Longrightarrow> (rq_stage rq \<in> set late_stages \<Longrightarrow> c) \<Longrightarrow> keeps (left_by I c R) (requeue env i rq)"
  unfolding requeue_def by (intro keeps_rules keeps_left_mutate keeps_requeue_mutation)

lemma keeps_left_dirs: "keeps (left_by I c R) (on_work_dirs (modifyE (List.insert j)))"
  by (auto simp: keeps_wp wp_rules left_by_def intro: known_dirs)

lemma keeps_store:
  "keeps I (mutate m) \<Longrightarrow> (\<And>v. keeps I (f v)) \<Longrightarrow> keeps I (bindE (update_store m) (\<lambda>(a, v). f v))"
  unfolding keeps_wp wp_bindE wp_update_store wp_mutate wp_case_prod
  by (blast intro: wp_mono)

lemma keeps_selected: "(\<And>w. keeps I (f w)) \<Longrightarrow> keeps I (bindE (selected_order i v) f)"
  by (auto simp: keeps_wp wp_rules split: option.split)

lemma keeps_finish: "i \<in> I \<Longrightarrow> final_status c st \<Longrightarrow> keeps (left_by I c R) (finish env i st stage rs)"
  unfolding finish_def
  by (intro keeps_rules keeps_store keeps_left_mutate keeps_finish_mutation keeps_left_dirs keeps_selected)

lemma keeps_checkpoint: "(stage \<in> set late_stages \<Longrightarrow> c) \<Longrightarrow>
    keeps (at_work (Some i) c R) (checkpoint_order env i stage a rs aid ver)"
  unfolding checkpoint_order_def
  by (intro keeps_rules keeps_store keeps_mutate keeps_selected) (simp add: keeps_checkpoint_held)

lemma keeps_left_checkpoint: "i \<in> I \<Longrightarrow> (stage \<in> set late_stages \<Longrightarrow> c) \<Longrightarrow>
    keeps (left_by I c R) (checkpoint_order env i stage a rs aid ver)"
  unfolding checkpoint_order_def
  by (intro keeps_rules keeps_store keeps_left_mutate keeps_selected keeps_checkpoint_known)

text \<open>
  \<open>ex_stage\<close> of the task at hand, read from its local variables. \<open>safe i c G m\<close>: from an order at
  work, \<open>m\<close> leaves the document gated, and the order at work where \<open>G\<close> holds of the result;
  \<open>after i c G m\<close> is the same for what runs when the order may have been given up.
\<close>

definition locals_ok where
  "locals_ok c m \<longleftrightarrow> (ex_stage (runner.extend undefined m) \<in> set late_stages \<longrightarrow> c) \<and>
     wo_agent (ex_order (runner.extend undefined m)) \<notin> set late_stages"

lemma locals_more [simp]:
  "ex_stage (runner.extend r (runner.more s)) = ex_stage (s :: execution)"
  "ex_order (runner.extend r (runner.more s)) = ex_order (s :: execution)"
  by (cases s; simp add: runner.extend_def)+

abbreviation busy :: "string \<Rightarrow> bool \<Rightarrow> execution \<Rightarrow> bool" where
  "busy i c \<equiv> at_work (Some i) c (locals_ok c)"

abbreviation quit :: "string \<Rightarrow> bool \<Rightarrow> execution \<Rightarrow> bool" where
  "quit i c \<equiv> left_by {i} c (locals_ok c)"

lemma busy_stage: "busy i c s \<Longrightarrow> ex_stage s \<in> set late_stages \<Longrightarrow> c"
  by (simp add: at_work_def locals_ok_def)

lemma quit_stage: "quit i c s \<Longrightarrow> ex_stage s \<in> set late_stages \<Longrightarrow> c"
  by (simp add: left_by_def locals_ok_def)

definition safe :: "string \<Rightarrow> bool \<Rightarrow> ('a \<Rightarrow> bool) \<Rightarrow> 'a work \<Rightarrow> bool" where
  "safe i c G m \<longleftrightarrow> (\<forall>s. busy i c s \<longrightarrow> wp m (\<lambda>a t. if G a then busy i c t else quit i c t) (\<lambda>_. quit i c) s)"

definition after :: "string \<Rightarrow> bool \<Rightarrow> ('a \<Rightarrow> bool) \<Rightarrow> 'a work \<Rightarrow> bool" where
  "after i c G m \<longleftrightarrow> (\<forall>s. quit i c s \<longrightarrow> wp m (\<lambda>a t. if G a then busy i c t else quit i c t) (\<lambda>_. quit i c) s)"

named_theorems safe_rules

lemma safe_keeps: "keeps (busy i c) m \<Longrightarrow> safe i c G m"
  unfolding keeps_wp safe_def by (auto elim!: wp_mono dest: at_work_left)

lemma safe_after: "after i c G m \<Longrightarrow> safe i c G m"
  unfolding after_def safe_def by (blast dest: at_work_left)

lemma after_ret [safe_rules]: "\<not> G a \<Longrightarrow> after i c G (ret a)"
  by (simp add: after_def wp_rules)

lemma after_raise [safe_rules]: "after i c G (raise e)"
  by (simp add: after_def wp_rules)

lemma after_keeps: "keeps (quit i c) m \<Longrightarrow> after i c (\<lambda>_. False) m"
  by (simp add: after_def keeps_wp)

lemma after_then: "keeps (quit i c) m \<Longrightarrow> after i c G k \<Longrightarrow> after i c G (thenE m k)"
  unfolding keeps_wp after_def wp_thenE by (blast intro: wp_mono)

lemma safe_bind_returns:
  assumes "safe i c G m" and "\<And>s. wp m (\<lambda>a _. P a) (\<lambda>_ _. True) s"
    and "\<And>a. P a \<Longrightarrow> G a \<Longrightarrow> safe i c H (f a)" and "\<And>a. P a \<Longrightarrow> \<not> G a \<Longrightarrow> after i c H (f a)"
  shows "safe i c H (bindE m f)"
  unfolding safe_def wp_bindE
proof (intro allI impI)
  fix s assume "busy i c s"
  then have "wp m (\<lambda>a t. if G a then busy i c t else quit i c t) (\<lambda>_. quit i c) s" using assms(1) by (simp add: safe_def)
  from wp_conj [OF this assms(2)]
  show "wp m (\<lambda>a. wp (f a) (\<lambda>a t. if H a then busy i c t else quit i c t) (\<lambda>_. quit i c)) (\<lambda>_. quit i c) s"
  proof (rule wp_mono)
    fix a t assume t: "(if G a then busy i c t else quit i c t) \<and> P a"
    show "wp (f a) (\<lambda>a t. if H a then busy i c t else quit i c t) (\<lambda>_. quit i c) t"
    proof (cases "G a")
      case True
      with t assms(3) [OF _ True] show ?thesis unfolding safe_def by simp
    next
      case False
      with t assms(4) [OF _ False] show ?thesis unfolding after_def by simp
    qed
  qed simp
qed

lemmas safe_bindE = safe_bind_returns [where P = "\<lambda>_. True", OF _ wp_any, simplified]

text \<open>The order stays at work during the first part.\<close>

lemma safe_bind: "keeps (busy i c) m \<Longrightarrow> (\<And>a. safe i c H (f a)) \<Longrightarrow> safe i c H (bindE m f)"
  by (rule safe_bindE [where G = "\<lambda>_. True"]) (simp_all add: safe_keeps)

lemma safe_then: "keeps (busy i c) m \<Longrightarrow> safe i c H k \<Longrightarrow> safe i c H (thenE m k)"
  unfolding thenE_def by (rule safe_bind)

lemma safe_case_option [safe_rules]:
  "safe i c G m \<Longrightarrow> (\<And>a. safe i c G (f a)) \<Longrightarrow> safe i c G (case x of None \<Rightarrow> m | Some a \<Rightarrow> f a)"
  by (cases x) simp_all

lemma safe_if: "(b \<Longrightarrow> safe i c G m) \<Longrightarrow> (\<not> b \<Longrightarrow> safe i c G k) \<Longrightarrow> safe i c G (if b then m else k)"
  by simp

lemma safe_raise [safe_rules]: "safe i c G (raise e)"
  by (simp add: safe_after after_raise)

lemma keeps_set_stage: "(stage \<in> set late_stages \<Longrightarrow> c) \<Longrightarrow> keeps (busy i c) (set_stage stage)"
  by (auto simp: keeps_wp set_stage_def wp_rules at_work_def locals_ok_def document_def)

lemma keeps_put_result [keeps_rules]: "keeps (busy i c) (put_result k v)"
  by (auto simp: keeps_wp put_result_def wp_rules at_work_def locals_ok_def document_def)

lemma keeps_result_of [keeps_rules]: "keeps I (result_of k)"
  by (simp add: result_of_def keeps_rules)

lemma wo_agent_bind [simp]: "wo_agent (bind_identity ws r w) = wo_agent w"
  by (auto simp: bind_identity_def Let_def split: option.split list.split)

lemma keeps_bind_artifact [keeps_rules]: "keeps (busy i c) (bind_artifact env r)"
  by (auto simp: keeps_wp bind_artifact_def wp_rules at_work_def locals_ok_def document_def)

lemma keeps_set_order [keeps_rules]:
  "keeps (busy i c) (modifyE (\<lambda>s. s\<lparr>ex_order := (ex_order s)\<lparr>wo_stage := st, wo_results := rs\<rparr>\<rparr>))"
  by (auto simp: keeps_wp wp_rules at_work_def locals_ok_def document_def)

lemma final_optimization: "c \<Longrightarrow> final_status c ''awaiting_optimization_approval''"
  by (simp add: final_status_def)

lemma safe_run_optimization: "c \<Longrightarrow> safe i c (\<lambda>_. False) (run_optimization env i)"
  unfolding run_optimization_def case_prod_beta
  by (intro safe_bind safe_then safe_case_option safe_raise safe_if safe_after after_keeps
      keeps_requeue keeps_finish final_optimization keeps_rules) simp_all

lemma review_stages: "review_outcome report stage = Inr x \<Longrightarrow> stage \<in> {''review_implementation'', ''review_backtest''}"
  by (auto simp: review_outcome_def review_checks_def split: option.splits if_splits)

lemma keeps_finish_review:
  "i \<in> I \<Longrightarrow> stage = ''review_implementation'' \<or> c \<Longrightarrow> keeps (left_by I c R) (finish_review env i stage rs)"
  unfolding finish_review_def by (auto intro!: keeps_finish simp: final_status_def)

lemma late_return: "return_stage stage \<in> set late_stages \<Longrightarrow> stage \<noteq> ''review_implementation''"
  by (auto simp: return_stage_def late_stages_def)

text \<open>The order goes on to the optimizer after a back-test's review only.\<close>

lemma complete_review_returns:
  "stage \<noteq> ''review_backtest'' \<Longrightarrow> wp (complete_review env i stage rs) (\<lambda>optimize _. \<not> optimize) (\<lambda>_ _. True) s"
  by (auto simp: complete_review_def Let_def wp_rules intro!: wp_any split: sum.split outcome.split)

lemma safe_requeued:
  "(rq_stage rq \<in> set late_stages \<Longrightarrow> c) \<Longrightarrow> safe i c (\<lambda>o'. o') (thenE (requeue env i rq) (ret False))"
  by (intro safe_after after_then keeps_requeue after_ret) simp_all

lemma safe_passed:
  assumes "stage = ''review_implementation'' \<or> c" and "stage \<noteq> ''review_backtest'' \<or> c"
  shows "safe i c (\<lambda>o'. o') (bindE read_store (\<lambda>v.
     bindE (if stage = ''review_backtest'' then bindE (selected_order i v) (\<lambda>w. ret (needs_optimization w)) else ret False)
      (\<lambda>optimize. if optimize then thenE (checkpoint_order env i ''optimize'' ''OPTIMIZE'' rs None None) (ret True)
         else thenE (finish_review env i stage rs) (ret False))))"
proof -
  have fin: "safe i c (\<lambda>o'. o') (thenE (finish_review env i stage rs) (ret False))"
    by (intro safe_after after_then keeps_finish_review after_ret assms insertI1) simp
  have goes: "safe i c (\<lambda>o'. o') (thenE (checkpoint_order env i ''optimize'' ''OPTIMIZE'' rs None None) (ret True))" if c
    by (intro safe_then keeps_checkpoint safe_keeps keeps_rules that)
  have body: "safe i c (\<lambda>o'. o') (bindE (if stage = ''review_backtest''
      then bindE (selected_order i v) (\<lambda>w. ret (needs_optimization w)) else ret False)
      (\<lambda>optimize. if optimize then thenE (checkpoint_order env i ''optimize'' ''OPTIMIZE'' rs None None) (ret True)
         else thenE (finish_review env i stage rs) (ret False)))" for v
  proof (cases "stage = ''review_backtest''")
    case True
    with assms(2) have c: c by simp
    have sel: "keeps (busy i c) (bindE (selected_order i v) (\<lambda>w. ret (needs_optimization w)))"
      by (intro keeps_selected keeps_rules)
    show ?thesis unfolding if_P [OF True] by (intro safe_bind sel safe_if goes fin c)
  next
    case False
    have "bindE (ret False) f = f False" for f :: "bool \<Rightarrow> bool work" by (simp add: bindE_def ret_def)
    then show ?thesis using False fin by simp
  qed
  show ?thesis unfolding read_store_def by (intro safe_bind keeps_rules body)
qed

lemma safe_complete_review:
  assumes "stage = ''review_implementation'' \<or> c"
  shows "safe i c (\<lambda>o'. o') (complete_review env i stage rs)"
proof (cases "review_outcome (case map_of rs stage of None \<Rightarrow> [] | Some r \<Rightarrow> r) stage")
  case (Inl e)
  then show ?thesis by (simp add: complete_review_def Let_def safe_raise)
next
  case (Inr verdict)
  have late: "stage \<in> set late_stages \<Longrightarrow> c" using assms by (auto simp: late_stages_def)
  have bt: "stage \<noteq> ''review_backtest'' \<or> c" using assms by auto
  have ret_late: "return_stage stage \<in> set late_stages \<Longrightarrow> c" using assms late_return by auto
  show ?thesis
  proof (cases verdict)
    case PASS
    show ?thesis unfolding complete_review_def Let_def Inr PASS
      using safe_passed [OF assms bt] by simp
  next
    case FAIL
    show ?thesis unfolding complete_review_def Let_def Inr FAIL
      using ret_late by (auto simp: review_request_def plain_request_def intro!: safe_requeued)
  next
    case BLOCKED
    show ?thesis unfolding complete_review_def Let_def Inr BLOCKED
      using ret_late by (auto simp: review_request_def plain_request_def intro!: safe_requeued)
  next
    case INCOMPLETE
    show ?thesis unfolding complete_review_def Let_def Inr INCOMPLETE
      using late by (auto simp: plain_request_def intro!: safe_requeued)
  qed
qed

text \<open>The stages.\<close>

lemma safe_review_turn:
  assumes "stage = ''review_implementation'' \<or> c"
  shows "safe i c (\<lambda>_. False) (review_turn env i stage handoff)"
proof -
  have goes: "safe i c (\<lambda>_. False) (thenE (set_stage ''optimize'') (run_optimization env i))" if c
    by (intro safe_then keeps_set_stage safe_run_optimization that)
  have "safe i c (\<lambda>_. False) (bindE (complete_review env i stage rs) (\<lambda>optimize.
      if optimize then thenE (set_stage ''optimize'') (run_optimization env i) else ret ()))" for rs
  proof (cases c)
    case True
    then show ?thesis using goes
      by (intro safe_bindE [OF safe_complete_review [OF assms]]) (auto intro: after_ret)
  next
    case False
    then have "stage \<noteq> ''review_backtest''" using assms by auto
    then show ?thesis
      by (intro safe_bind_returns [OF safe_complete_review [OF assms] complete_review_returns])
        (auto intro: after_ret)
  qed
  note step = this
  show ?thesis unfolding review_turn_def case_prod_beta
    by (rule safe_bind [OF keeps_getE], rule safe_bind [OF keeps_agent_turn],
      rule safe_then [OF keeps_put_result], rule safe_bind [OF keeps_getE], rule step)
qed

lemma safe_strategy_stage: "safe i c (\<lambda>_. False) (strategy_stage env i)"
  unfolding strategy_stage_def case_prod_beta
  by (intro safe_bind safe_then safe_review_turn keeps_checkpoint keeps_set_stage keeps_rules)
    (simp_all add: late_stages_def)

lemma safe_implementation_review: "safe i c (\<lambda>_. False) (implementation_review_stage env i)"
  unfolding implementation_review_stage_def
  by (intro safe_bind safe_case_option safe_review_turn safe_raise keeps_rules) simp

lemma safe_backtest_stage: "c \<Longrightarrow> safe i c (\<lambda>_. False) (backtest_stage env i)"
  unfolding backtest_stage_def
  by (intro safe_bind safe_then safe_case_option safe_review_turn safe_raise keeps_checkpoint keeps_set_stage
      keeps_rules) simp_all

lemma safe_backtest_review: "c \<Longrightarrow> safe i c (\<lambda>_. False) (backtest_review_stage env i)"
  unfolding backtest_review_stage_def
  by (intro safe_bind safe_case_option safe_review_turn safe_raise keeps_rules) simp

text \<open>What the task reads of its own stage is covered by the flag.\<close>

lemma safe_read_stage:
  assumes "\<And>x. (fst x \<in> set late_stages \<longrightarrow> c) \<Longrightarrow> safe i c G (f x)"
  shows "safe i c G (bindE (getE (\<lambda>s. (ex_stage s, g s))) f)"
  unfolding safe_def wp_bindE wp_getE
proof (intro allI impI)
  fix s assume s: "busy i c s"
  then have "ex_stage s \<in> set late_stages \<longrightarrow> c" using busy_stage by blast
  then have "safe i c G (f (ex_stage s, g s))" by (intro assms) simp
  with s show "wp (f (ex_stage s, g s)) (\<lambda>a t. if G a then busy i c t else quit i c t) (\<lambda>_. quit i c) s"
    by (simp add: safe_def)
qed

lemma safe_stage_step: "safe i c (\<lambda>_. False) (stage_step env i)"
  unfolding stage_step_def
proof (rule safe_read_stage, goal_cases)
  case (1 x)
  obtain stage backtest where x: "x = (stage, backtest)" by fastforce
  have late: "stage \<in> {''backtest'', ''review_backtest'', ''optimize''} \<Longrightarrow> c"
    using 1 by (auto simp: x late_stages_def)
  show ?case unfolding x prod.case
    by (intro safe_if safe_strategy_stage safe_implementation_review safe_backtest_stage safe_backtest_review
        safe_run_optimization safe_raise) (use late in auto)
qed

lemma keeps_enter_backtest: "c \<Longrightarrow> keeps (busy i c) (enter_backtest env i)"
  unfolding enter_backtest_def by (intro keeps_rules keeps_checkpoint keeps_set_stage)

lemma keeps_materialize: "keeps (busy i c) (materialize env)"
  unfolding materialize_def case_prod_beta by (intro keeps_rules)

lemma safe_dataset_step: "safe i c (\<lambda>goes_on. goes_on) (dataset_step env i)"
  unfolding dataset_step_def
proof (rule safe_read_stage, goal_cases)
  case (1 x)
  obtain stage backtest rs where x: "x = (stage, backtest, rs)" by (metis surj_pair)
  have late: "stage \<in> {''dataset'', ''backtest''} \<Longrightarrow> c" using 1 by (auto simp: x late_stages_def)
  have enter: "safe i c (\<lambda>b. b) (thenE (enter_backtest env i) (ret True))" if c
    by (intro safe_then keeps_enter_backtest safe_keeps keeps_rules that)
  have got: "safe i c (\<lambda>b. b) (case m of
      Dataset d \<Rightarrow> thenE (put_result ''dataset'' d) (thenE (enter_backtest env i) (ret True))
    | Unavailable why \<Rightarrow>
        thenE (requeue env i ((plain_request ''dataset'' rs why)\<lparr>rq_retry_after := Some 300\<rparr>)) (ret False)
    | Broken e \<Rightarrow> raise e)" if c for m
    by (cases m; simp only: materialized.case;
        intro safe_then [OF keeps_put_result] enter safe_requeued safe_raise that)
  show ?case unfolding x prod.case
    by (intro safe_if safe_bind keeps_materialize got enter safe_keeps keeps_rules) (use late in auto)
qed

lemma safe_maintenance: "safe i c (\<lambda>_. False) (maintenance_turn env)"
  unfolding safe_def maintenance_turn_def wp_bindE wp_getE
proof (intro allI impI)
  fix s assume s: "busy i c s"
  let ?w = "ex_order s"
  have "wo_agent ?w \<notin> set late_stages" using s by (simp add: at_work_def locals_ok_def)
  then have "safe i c (\<lambda>_. False) (thenE (set_stage (wo_agent ?w))
      (bindE (agent_turn env ?w (wo_agent ?w) None) (\<lambda>report. put_result (wo_agent ?w) report)))"
    by (intro safe_then safe_bind safe_keeps keeps_set_stage keeps_rules) simp
  with s show "wp (thenE (set_stage (wo_agent ?w))
      (bindE (agent_turn env ?w (wo_agent ?w) None) (\<lambda>report. put_result (wo_agent ?w) report)))
      (\<lambda>a t. if False then busy i c t else quit i c t) (\<lambda>_. quit i c) s"
    by (simp add: safe_def)
qed

lemma safe_execute_body: "safe i c (\<lambda>_. False) (execute_body env i)"
proof -
  have "safe i c (\<lambda>_. False) (bindE (dataset_step env i) (\<lambda>goes_on. if goes_on then stage_step env i else ret ()))"
    by (rule safe_bindE [OF safe_dataset_step]) (simp_all add: safe_stage_step after_ret)
  note research = this
  show ?thesis unfolding execute_body_def
    by (rule safe_bind [OF keeps_getE], rule safe_if, rule research, rule safe_maintenance)
qed

text \<open>The handlers of \<open>_execute\<close>.\<close>

lemma keeps_read_stage:
  assumes "\<And>x. (fst x \<in> set late_stages \<longrightarrow> c) \<Longrightarrow> keeps (quit i c) (f x)"
  shows "keeps (quit i c) (bindE (getE (\<lambda>s. (ex_stage s, g s))) f)"
  unfolding keeps_wp wp_bindE wp_getE
proof (intro allI impI)
  fix s assume s: "quit i c s"
  then have "ex_stage s \<in> set late_stages \<longrightarrow> c" using quit_stage by blast
  then have "keeps (quit i c) (f (ex_stage s, g s))" by (intro assms) simp
  with s show "wp (f (ex_stage s, g s)) (\<lambda>_. quit i c) (\<lambda>_. quit i c) s" by (simp add: keeps_wp)
qed

lemma keeps_on_cancelled: "keeps (quit i c) (on_cancelled env i)"
  unfolding keeps_wp on_cancelled_def wp_bindE wp_getE
proof (intro allI impI)
  fix s assume s: "quit i c s"
  have fin: "final_status c ''cancelled''" by (simp add: final_status_def)
  have clear: "keeps (quit i c) (modifyE (\<lambda>s. s\<lparr>rn_cancel_requested := removeAll i (rn_cancel_requested s)\<rparr>))"
    by (rule keeps_modifyE) (simp add: left_by_def)
  have late: "ex_stage s \<in> set late_stages \<Longrightarrow> c" using s quit_stage by blast
  have "keeps (quit i c) (thenE (modifyE (\<lambda>s. s\<lparr>rn_cancel_requested := removeAll i (rn_cancel_requested s)\<rparr>))
    (thenE (if b then finish env i ''cancelled'' ''cancelled'' rs
            else requeue env i ((plain_request (ex_stage s) rs' why)\<lparr>rq_count_attempt := False\<rparr>))
           (raise CancelledError)))" for b rs rs' why
    by (intro keeps_rules clear keeps_finish fin keeps_requeue) (use late in \<open>auto simp: plain_request_def\<close>)
  with s show "wp (case (i \<in> set (rn_cancel_requested s), ex_stage s, ex_results s) of (requested, stage, rs) \<Rightarrow>
      thenE (modifyE (\<lambda>s. s\<lparr>rn_cancel_requested := removeAll i (rn_cancel_requested s)\<rparr>))
     (thenE (if requested
             then finish env i ''cancelled'' ''cancelled'' (AList.update ''error'' ''Cancelled by Manager Agent'' rs)
             else requeue env i ((plain_request stage rs ''Gateway stopped while the work order was running'')
                    \<lparr>rq_count_attempt := False\<rparr>))
            (raise CancelledError))) (\<lambda>_. quit i c) (\<lambda>_. quit i c) s"
    unfolding keeps_wp prod.case by blast
qed

lemma keeps_open_breaker: "keeps (left_by I c R) (open_breaker env why)"
  unfolding keeps_wp open_breaker_def wp_bindE wp_clock
  by (auto simp: open_circuit_def circuit_now_def left_by_def wp_def Let_def)

lemma keeps_known_circuit: "keeps (known dirs I c) (modifyE (\<lambda>v. v\<lparr>gs_circuit := k\<rparr>))"
  by (rule keeps_modifyE) (simp cong: known_cong)

lemma keeps_persist_circuit: "keeps (left_by I c R) persist_circuit"
  unfolding persist_circuit_def by (intro keeps_rules keeps_left_mutate keeps_known_circuit)

lemma keeps_on_failure: "keeps (quit i c) (on_failure env i e)"
proof -
  have fin: "final_status c ''failed''" by (simp add: final_status_def)
  have "keeps (quit i c) (bindE (getE (\<lambda>s. (ex_stage s, ex_results s))) (\<lambda>(stage, rs).
      requeue env i ((plain_request stage rs why)\<lparr>rq_retry_after := r, rq_count_attempt := False\<rparr>)))" for why r
    by (rule keeps_read_stage) (auto simp: plain_request_def intro!: keeps_requeue)
  then show ?thesis unfolding on_failure_def
    by (auto intro!: keeps_bindE [OF keeps_open_breaker] keeps_thenE [OF keeps_persist_circuit]
        keeps_case_prod keeps_finish fin)
qed

lemma keeps_handle_exn: "keeps (quit i c) (handle_exn env i e)"
proof -
  have "keeps (quit i c) (bindE (getE (\<lambda>s. (ex_stage s, ex_results s))) (\<lambda>(stage, rs).
      requeue env i (plain_request stage rs (turn_timeout_reason (ge_config env) stage))))"
    by (intro keeps_read_stage) (auto simp: plain_request_def intro!: keeps_requeue)
  then show ?thesis
    by (cases e) (simp_all add: handle_exn_def keeps_on_failure keeps_on_cancelled)
qed

lemma execute_work_ok: "busy i c s \<Longrightarrow> wp (execute_work env i) (\<lambda>_. quit i c) (\<lambda>_. quit i c) s"
proof -
  assume "busy i c s"
  then have "wp (execute_body env i) (\<lambda>_. quit i c) (\<lambda>_. quit i c) s"
    using safe_execute_body by (simp add: safe_def)
  then show ?thesis unfolding execute_work_def wp_bindE wp_tryE
    by (rule wp_mono) (use keeps_handle_exn in \<open>auto simp: keeps_wp wp_rules\<close>)
qed

section \<open>The worker\<close>

abbreviation no_locals :: "unit \<Rightarrow> bool" where
  "no_locals \<equiv> \<lambda>_. True"

lemma with_locals_simps [simp]:
  "ex_stage (with_locals w s) = current_stage w" "ex_order (with_locals w s) = w"
  "rn_file (with_locals w s) = rn_file s" "rn_active (with_locals w s) = rn_active s"
  "rn_work_dirs (with_locals w s) = rn_work_dirs s"
  by (simp_all add: with_locals_def runner.defs execution.defs)

lemma truncate_simps [simp]:
  "rn_file (runner.truncate t) = rn_file t" "rn_active (runner.truncate t) = rn_active t"
  "rn_work_dirs (runner.truncate t) = rn_work_dirs t"
  by (simp_all add: runner.defs)

lemma quit_truncate: "quit i c t \<Longrightarrow> left_by {i} c no_locals (runner.truncate t)"
  by (simp add: left_by_def document_def)

lemma execute_ok:
  assumes "at_work (Some (wo_id w)) (cleared w) no_locals s"
    and "gated w" and "wo_status w = ''working''" and "wo_stage w = Some (current_stage w)"
  shows "wp (execute env w) (\<lambda>_. left_by {wo_id w} (cleared w) no_locals)
    (\<lambda>_. left_by {wo_id w} (cleared w) no_locals) s"
proof -
  have "current_stage w \<in> set late_stages \<Longrightarrow> cleared w"
    using assms(2-4) unfolding gated_def late_def by blast
  then have "busy (wo_id w) (cleared w) (with_locals w s)"
    using assms(1,2) by (auto simp: at_work_def locals_ok_def document_def gated_agent)
  from execute_work_ok [OF this, of env] show ?thesis
    by (auto simp: wp_def execute_def intro: quit_truncate split: prod.splits sum.splits)
qed

lemma wp_set_active [wp_rules]: "wp (set_active a) Q E s = Q () (s\<lparr>rn_active := a\<rparr>)"
  by (simp add: set_active_def wp_rules)

text \<open>Between two turns of the loop no order is active.\<close>

abbreviation idle :: "runner \<Rightarrow> bool" where
  "idle \<equiv> at_work None False no_locals"

lemma idle_left: "left_by I c no_locals s \<Longrightarrow> idle (s\<lparr>rn_active := None\<rparr>)"
  by (simp add: left_by_def at_work_def known_def)

lemma run_order_ok:
  assumes "doc_ok (rn_work_dirs s) (Some (wo_id w, cleared w)) (document s)"
    and "gated w" and "wo_status w = ''working''" and "wo_stage w = Some (current_stage w)"
  shows "wp (run_order env w) (\<lambda>_. idle) (\<lambda>_. idle) s"
proof -
  let ?L = "left_by {wo_id w} (cleared w) no_locals"
  have a: "at_work (Some (wo_id w)) (cleared w) no_locals (s\<lparr>rn_active := Some (wo_id w)\<rparr>)"
    using assms(1) by (simp add: at_work_def)
  have "wp (thenE (suspend env) (execute env w)) (\<lambda>_. ?L) (\<lambda>_. ?L) (s\<lparr>rn_active := Some (wo_id w)\<rparr>)"
    unfolding wp_thenE
    by (rule keeps_wpD [OF keeps_suspend a]) (auto intro: execute_ok assms(2-4) at_work_left)
  note run = this
  show ?thesis unfolding run_order_def
    by (subst wp_thenE, subst wp_set_active, subst wp_bindE, subst wp_tryE, rule wp_mono [OF run])
      (auto simp: wp_rules intro: idle_left)
qed

lemma claim_next_ok:
  assumes "idle s"
  shows "wp (claim_next env) (\<lambda>c t. case c of None \<Rightarrow> idle t
     | Some w \<Rightarrow> gated w \<and> wo_status w = ''working'' \<and> wo_stage w = Some (current_stage w) \<and>
         doc_ok (rn_work_dirs t) (Some (wo_id w, cleared w)) (document t)) (\<lambda>_ _. False) s"
proof -
  obtain r v where m: "claim_mutation (ge_now env (rn_ticks s)) (document s) = (r, v)" by fastforce
  have "doc_ok (rn_work_dirs s) None (document s)" using assms by (simp add: at_work_def)
  from doc_ok_claim [OF this m] assms show ?thesis
    by (auto simp: claim_next_def wp_rules wp_def [of "claim_mutation _"] m at_work_def split: option.splits)
qed

lemma keeps_set_blocked [keeps_rules]: "keeps idle (set_blocked why)"
  unfolding set_blocked_def by (rule keeps_modifyE) (simp add: at_work_def)

lemma keeps_circuit_delay: "keeps idle (circuit_delay env)"
proof -
  have "keeps idle (mutate (modifyE (\<lambda>v. v\<lparr>gs_circuit := Some closed_circuit\<rparr>)))"
    by (intro keeps_mutate keeps_rules)
  then show ?thesis unfolding circuit_delay_def read_store_def
    by (intro keeps_bindE keeps_clock keeps_getE keeps_case_option keeps_case_prod)
      (auto intro: keeps_rules split: circuit_state.split option.split)
qed

lemma keeps_claim_and_run:
  "keeps idle (bindE (claim_next env) (\<lambda>w. case w of None \<Rightarrow> suspend env | Some w \<Rightarrow> run_order env w))"
proof -
  have sus: "wp (suspend env) (\<lambda>_. idle) (\<lambda>_. idle) s" if "idle s" for s
    using keeps_suspend [of None False no_locals env] that by (simp add: keeps_wp)
  show ?thesis unfolding keeps_wp wp_bindE
  proof (intro allI impI)
    fix s assume "idle s"
    from claim_next_ok [OF this]
    show "wp (claim_next env) (\<lambda>w. wp (case w of None \<Rightarrow> suspend env | Some w \<Rightarrow> run_order env w)
        (\<lambda>_. idle) (\<lambda>_. idle)) (\<lambda>_. idle) s"
      by (rule wp_mono) (auto intro: sus run_order_ok split: option.splits)
  qed
qed

lemma keeps_probe [keeps_rules]: "keeps idle (probe env)"
  unfolding probe_def by (intro keeps_rules)

lemma keeps_loop_turn: "keeps idle (loop_turn env)"
  unfolding loop_turn_def case_prod_beta
  by (intro keeps_bindE [OF keeps_circuit_delay] keeps_if keeps_bindE [OF keeps_probe] keeps_bindE [OF keeps_clock]
      keeps_thenE keeps_set_blocked keeps_suspend keeps_mutate keeps_publish keeps_resolve keeps_claim_and_run)

section \<open>The start of the worker\<close>

lemma recoveries_stranded:
  "recoveries env ws os = Inr rs \<Longrightarrow> (i, r) \<in> set rs \<Longrightarrow> \<exists>w \<in> set os. wo_id w = i \<and> stranded w"
  by (induction env ws os arbitrary: rs rule: recoveries.induct)
    (fastforce split: if_splits sum.splits option.splits simp: map_sum_def)+

lemma order_at_distinct:
  "distinct (map wo_id (gs_orders v)) \<Longrightarrow> w \<in> set (gs_orders v) \<Longrightarrow> order_at v (wo_id w) = Some w"
proof -
  have "distinct (map wo_id ws) \<Longrightarrow> w \<in> set ws \<Longrightarrow> find (\<lambda>x. wo_id x = wo_id w) ws = Some w" for ws
    by (induction ws) (auto simp: rev_image_eqI)
  then show "distinct (map wo_id (gs_orders v)) \<Longrightarrow> w \<in> set (gs_orders v) \<Longrightarrow> ?thesis"
    by (simp add: order_at_def)
qed

lemma stranded_cleared: "stranded w \<Longrightarrow> gated w \<Longrightarrow> cleared w"
  by (auto simp: stranded_def gated_def late_def late_stages_def)

lemma known_recoveries:
  assumes v: "doc_ok dirs None v" and "recoveries env ws (gs_orders v) = Inr rs"
  shows "known dirs (fst ` set rs) True v"
  unfolding known_def
proof (intro conjI v ballI allI impI)
  fix i w assume "i \<in> fst ` set rs" and at: "order_at v i = Some w"
  then obtain u where u: "u \<in> set (gs_orders v)" "wo_id u = i" "stranded u"
    using recoveries_stranded [OF assms(2)] by fastforce
  moreover have "order_at v (wo_id u) = Some u"
    by (rule order_at_distinct) (use v u in \<open>auto simp: doc_ok_def\<close>)
  ultimately show "cleared w" using at stranded_cleared doc_ok_order [OF v at] by auto
qed

lemma keeps_back_in_queue:
  "i \<in> I \<Longrightarrow> keeps (known dirs I True) (bindE (find_order i) (\<lambda>w.
     save_order i (w\<lparr>wo_status := ''queued'', wo_finished_at := None\<rparr>)))"
proof -
  have "gated (w\<lparr>wo_status := ''queued'', wo_finished_at := None\<rparr>)" if "gated w" "cleared w" for w
    using that by (intro gated_intro) (simp_all add: gated_agent)
  then show "i \<in> I \<Longrightarrow> ?thesis"
    by (auto simp: keeps_wp wp_rules intro!: known_save dest: known_order split: option.split)
qed

lemma keeps_recover_one: "fst x \<in> I \<Longrightarrow> keeps (left_by I True R) (recover_one env x)"
  unfolding recover_one_def case_prod_beta
  by (intro keeps_if keeps_thenE keeps_left_checkpoint keeps_left_mutate keeps_back_in_queue keeps_finish)
    (simp_all add: final_status_def)

text \<open>No write of the runner changes which order is active.\<close>

lemma keeps_active_mutate [keeps_rules]: "keeps (\<lambda>s. rn_active s = a) (mutate m)"
  by (auto simp: keeps_wp wp_rules intro!: wp_any)

lemma keeps_active_clock [keeps_rules]: "keeps (\<lambda>s. rn_active s = a) (clock env)"
  by (simp add: keeps_wp wp_rules)

lemma keeps_active_record [keeps_rules]: "keeps (\<lambda>s. rn_active s = a) (record_selected env w)"
  by (auto simp: keeps_wp record_selected_def wp_rules intro!: wp_any)

lemma keeps_active_dirs [keeps_rules]: "keeps (\<lambda>s. rn_active s = a) (on_work_dirs m)"
  by (auto simp: keeps_wp wp_rules intro!: wp_any)

lemma keeps_active_recover: "keeps (\<lambda>s. rn_active s = a) (recover_one env x)"
  unfolding recover_one_def checkpoint_order_def finish_def case_prod_beta [of "\<lambda>i (rs, b). _ i rs b"]
  by (cases x) (auto intro!: keeps_rules keeps_store keeps_selected)

lemma keeps_recover_completed: "keeps idle (recover_completed env)"
  unfolding keeps_wp recover_completed_def wp_bindE wp_tick wp_read_store
proof (intro allI impI)
  fix s assume s: "idle s"
  let ?ws = "ge_workspace env (rn_ticks s)" and ?s = "s\<lparr>rn_ticks := rn_ticks s + 1\<rparr>"
  show "wp (case recoveries env ?ws (gs_orders (document ?s)) of Inl e \<Rightarrow> raise e | Inr rs \<Rightarrow> mapE (recover_one env) rs)
      (\<lambda>_. idle) (\<lambda>_. idle) ?s"
  proof (cases "recoveries env ?ws (gs_orders (document ?s))")
    case (Inl e)
    with s show ?thesis by (simp add: wp_rules at_work_def)
  next
    case (Inr rs)
    let ?L = "left_by (fst ` set rs) True no_locals"
    have "keeps (\<lambda>s. ?L s \<and> rn_active s = None) (mapE (recover_one env) rs)"
      by (intro keeps_mapE keeps_conj keeps_recover_one keeps_active_recover) simp
    moreover have "?L ?s \<and> rn_active ?s = None"
      using s Inr known_recoveries [of "rn_work_dirs s" "document s" env ?ws rs]
      by (simp add: at_work_def left_by_def)
    moreover have "?L t \<and> rn_active t = None \<Longrightarrow> idle t" for t
      by (auto simp: left_by_def at_work_def known_def)
    ultimately show ?thesis using Inr by (auto elim!: keeps_wpD)
  qed
qed

text \<open>
  The recovery of the optimizer's stage queues an order without looking at its approvals; it is
  safe where every order that it would take is cleared.
\<close>

definition recovery_ok :: "gateway_state \<Rightarrow> bool" where
  "recovery_ok v \<longleftrightarrow> (\<forall>w \<in> set (gs_orders v).
     stage_regressed (w\<lparr>wo_optimization_required := Some True\<rparr>) \<longrightarrow> cleared w)"

lemma recovery_ok_each:
  assumes "\<And>w v. fst (f w v) = g w"
    and "\<And>w. stage_regressed ((g w)\<lparr>wo_optimization_required := Some True\<rparr>) \<Longrightarrow>
        stage_regressed (w\<lparr>wo_optimization_required := Some True\<rparr>) \<and> cleared (g w) = cleared w"
  shows "keeps recovery_ok (modifyE (each_order f))"
proof (rule keeps_modifyE)
  fix v assume "recovery_ok v"
  then show "recovery_ok (each_order f v)"
    using assms(2) by (auto simp: recovery_ok_def gs_orders_each [of f, OF assms(1)])
qed

lemma regressed_with_optimizer: "stage_regressed ((with_optimizer w)\<lparr>wo_optimization_required := o'\<rparr>) =
    stage_regressed (w\<lparr>wo_optimization_required := o'\<rparr>)"
  by (simp add: stage_regressed_def with_optimizer_def needs_optimization_def last_error_of_def)

lemma recovery_ok_migrate: "keeps recovery_ok migrate_mutation"
  unfolding migrate_mutation_def
  by (rule recovery_ok_each [where g = "\<lambda>w. if lacks_optimizer w then with_optimizer w else w"])
    (auto simp: regressed_with_optimizer split: if_splits)

lemma recovery_ok_interrupted: "keeps recovery_ok (recover_interrupted_mutation now)"
  unfolding recover_interrupted_mutation_def
  by (rule recovery_ok_each [where g = "\<lambda>w. if wo_status w \<noteq> ''working'' then w
      else w\<lparr>wo_status := ''queued'', wo_stage := Some (interrupted_stage w), wo_last_heartbeat_at := Some now\<rparr>"])
    (auto simp: recover_interrupted_def stage_regressed_def split: if_splits)

lemma recovery_ok_regressed: "recovery_ok v \<Longrightarrow> w \<in> set (gs_orders v) \<Longrightarrow> stage_regressed w \<Longrightarrow> cleared w"
proof -
  assume "recovery_ok v" "w \<in> set (gs_orders v)" and r: "stage_regressed w"
  then have "w\<lparr>wo_optimization_required := Some True\<rparr> = w"
    by (cases w) (simp add: stage_regressed_def needs_optimization_def)
  with r \<open>recovery_ok v\<close> \<open>w \<in> _\<close> show "cleared w" unfolding recovery_ok_def by metis
qed

lemma keeps_mutate_recovery:
  assumes "\<And>dirs. keeps (doc_ok dirs None) m" and "keeps recovery_ok m"
  shows "keeps (\<lambda>s. idle s \<and> recovery_ok (document s)) (mutate m)"
  unfolding keeps_wp
proof (intro allI impI)
  fix s assume s: "idle s \<and> recovery_ok (document s)"
  then have "doc_ok (rn_work_dirs s) None (document s) \<and> recovery_ok (document s)" by (simp add: at_work_def)
  from keeps_wpD [OF keeps_conj [OF assms] this]
  show "wp (mutate m) (\<lambda>_ s. idle s \<and> recovery_ok (document s)) (\<lambda>_ s. idle s \<and> recovery_ok (document s)) s"
    unfolding wp_mutate using s by (auto simp: at_work_def)
qed

lemma recover_optimizer_ok:
  "idle s \<Longrightarrow> recovery_ok (document s) \<Longrightarrow> wp (mutate (recover_optimizer_mutation env now)) (\<lambda>_. idle) (\<lambda>_. idle) s"
  using doc_ok_recover_optimizer [of "rn_work_dirs s" "document s" env now] recovery_ok_regressed [of "document s"]
  unfolding wp_mutate recover_optimizer_mutation_def wp_modifyE
  by (simp add: at_work_def modifyE_def)

lemma startup_ok: "idle s \<Longrightarrow> recovery_ok (document s) \<Longrightarrow> wp (startup env) (\<lambda>_. idle) (\<lambda>_. idle) s"
proof -
  assume s: "idle s" "recovery_ok (document s)"
  have rest: "keeps idle (thenE (mutate (recover_pass_mutation now))
    (thenE (mutate (recover_failed_review_mutation (ge_config env) now))
    (thenE (recover_completed env) (mutate clear_terminal_mutation))))" for now
    by (intro keeps_thenE keeps_mutate keeps_recover_completed)
      (simp_all add: keeps_recover_pass keeps_recover_failed_review keeps_clear_terminal)
  have clk: "keeps (\<lambda>s. idle s \<and> recovery_ok (document s)) (clock env)"
    by (simp add: keeps_wp wp_rules at_work_def)
  have "wp (thenE (mutate (recover_interrupted_mutation now))
      (thenE (mutate (recover_optimizer_mutation (rc_text (ge_config env)) now))
      (thenE (mutate (recover_pass_mutation now))
      (thenE (mutate (recover_failed_review_mutation (ge_config env) now))
      (thenE (recover_completed env) (mutate clear_terminal_mutation)))))) (\<lambda>_. idle) (\<lambda>_. idle) t"
    if "idle t" "recovery_ok (document t)" for now t
    apply (subst wp_thenE, rule keeps_wpD [OF keeps_mutate_recovery [OF keeps_recover_interrupted recovery_ok_interrupted]])
      apply (simp add: that)
     apply (subst wp_thenE, rule wp_mono [OF recover_optimizer_ok])
        apply (auto intro: rest [unfolded keeps_wp, rule_format])
    done
  then show ?thesis unfolding startup_def
    using s by (subst wp_thenE) (auto simp: wp_bindE intro!: keeps_wpD [OF keeps_mutate_recovery
      [OF keeps_migrate recovery_ok_migrate]] keeps_wpD [OF clk])
qed

section \<open>Every run\<close>

definition sound_gateway :: "runner \<Rightarrow> bool" where
  "sound_gateway s \<longleftrightarrow> rn_active s = None \<and> doc_ok (rn_work_dirs s) None (document s)"

lemma sound_idle: "sound_gateway s = idle s"
  by (simp add: sound_gateway_def at_work_def)

text \<open>
  \<open>gateway_run env\<close>: the states a gateway can reach. A start is taken where the recovery of the
  optimizer's stage is guarded (\<open>recovery_ok\<close>).
\<close>

inductive gateway_run :: "gateway_env \<Rightarrow> bool \<times> runner \<Rightarrow> bool \<times> runner \<Rightarrow> bool" for env x where
  run_here: "gateway_run env x x"
| run_on: "gateway_run env x (alive, s) \<Longrightarrow> gateway_step env (alive, s) y \<Longrightarrow>
     (\<not> alive \<longrightarrow> recovery_ok (document s)) \<Longrightarrow> gateway_run env x y"

lemma wp_snd: "wp m (\<lambda>_. I) (\<lambda>_. I) s \<Longrightarrow> m s = (r, t) \<Longrightarrow> I t"
  by (auto simp: wp_def split: sum.splits)

lemma idle_cancelling [simp]: "idle (s\<lparr>rn_cancelling := k\<rparr>) = idle s"
  by (simp add: at_work_def)

lemma idle_new_process: "idle s \<Longrightarrow> idle (new_process s)"
  by (simp add: at_work_def new_process_def)

lemma sound_step:
  assumes "idle s" and "\<not> alive \<longrightarrow> recovery_ok (document s)" and "gateway_step env (alive, s) (alive', t)"
  shows "idle t"
  using assms(3)
proof cases
  case (worker_started r)
  with wp_snd [OF startup_ok] assms(1,2) show ?thesis by auto
next
  case (worker_turned r)
  with keepsD [OF keeps_loop_turn] assms(1) show ?thesis by auto
next
  case (requested rq r u)
  with keepsD [OF keeps_request] assms(1) show ?thesis by auto
next
  case restarted
  with assms(1) idle_new_process show ?thesis by auto
qed

lemma sound_run: "gateway_run env x y \<Longrightarrow> idle (snd x) \<Longrightarrow> idle (snd y)"
  by (induction rule: gateway_run.induct) (auto dest: sound_step)

end
