(* ===== verification/Review_Rendering.thy ===== *)
theory Review_Rendering
  imports Review_Report
begin

text \<open>
  The report format that the Review Agent is told to use (gateway.py, the prompt of a review turn) as
  a printer, and the round trip through the parser of \<open>Review_Report\<close>: what the agent writes in
  that format is the verdict and the findings that the runner reads.
\<close>

section \<open>The printed report\<close>

text \<open>An issue: a blocker, or a prerequisite that is missing (its flag).\<close>

record review =
  rv_verdict :: outcome
  rv_stage :: string
  rv_checks :: "(string \<times> string) list"
  rv_issues :: "(bool \<times> string) list"

fun verdict_word :: "outcome \<Rightarrow> string" where
  "verdict_word PASS = ''PASS''"
| "verdict_word FAIL = ''FAIL''"
| "verdict_word BLOCKED = ''BLOCKED''"
| "verdict_word INCOMPLETE = ''INCOMPLETE''"

fun check_line :: "string \<times> string \<Rightarrow> string" where
  "check_line (category, evidence) = ''CHECK: '' @ category @ '' | '' @ evidence"

fun issue_line :: "bool \<times> string \<Rightarrow> string" where
  "issue_line (False, detail) = ''BLOCKER: '' @ detail"
| "issue_line (True, detail) = ''PREREQUISITE_BLOCKER: '' @ detail"

definition report_lines :: "review \<Rightarrow> string list" where
  "report_lines r = (''# '' @ verdict_word (rv_verdict r)) # (''REVIEW_STAGE: '' @ rv_stage r) #
     map check_line (rv_checks r) @ map issue_line (rv_issues r)"

definition text_of :: "string list \<Rightarrow> string" where
  "text_of ls = concat (map (\<lambda>l. l @ [CHR 0x0A]) ls)"

definition render_review :: "review \<Rightarrow> string" where
  "render_review r = text_of (report_lines r)"

text \<open>What may stand behind a key: a text on one line that does not start with white space.\<close>

definition one_line :: "string \<Rightarrow> bool" where
  "one_line d \<longleftrightarrow> d \<noteq> [] \<and> \<not> py_isspace (hd d) \<and> list_all (\<lambda>c. \<not> is_line_break c) d"

text \<open>
  The format the prompt asks for: every category once unless the review is blocked, no issue with a
  pass, a blocker with a failure, and a missing prerequisite with a blocked review.
\<close>

definition well_formed :: "review \<Rightarrow> bool" where
  "well_formed r \<longleftrightarrow> (case review_checks (rv_stage r) of
       None \<Rightarrow> False
     | Some required \<Rightarrow> list_all (one_line \<circ> snd) (rv_checks r) \<and> list_all (one_line \<circ> snd) (rv_issues r) \<and>
         list_all (\<lambda>c. c \<in> set required) (map fst (rv_checks r)) \<and>
         (case rv_verdict r of
            PASS \<Rightarrow> mset (map fst (rv_checks r)) = mset required \<and> rv_issues r = []
          | FAIL \<Rightarrow> mset (map fst (rv_checks r)) = mset required \<and> list_ex (Not \<circ> fst) (rv_issues r)
          | BLOCKED \<Rightarrow> list_ex fst (rv_issues r)
          | INCOMPLETE \<Rightarrow> False))"

section \<open>Matching line by line\<close>

lemma text_of_simps [simp]: "text_of [] = []" "text_of (l # ls) = l @ CHR 0x0A # text_of ls"
  by (simp_all add: text_of_def)

lemma starts_ci_simps [simp]:
  "starts_ci [] s" "\<not> starts_ci (a # p) []"
  "starts_ci (a # p) (b # s) = (char_lower a = char_lower b \<and> starts_ci p s)"
  by (auto simp: starts_ci_def str_lower_def)

lemma matches_empty_line: "matches m False (CHR 0x0A # s) = matches m True s"
  by simp

lemma matches_skip: "CHR 0x0A \<notin> set l \<Longrightarrow> matches m False (l @ CHR 0x0A # s) = matches m True s"
  by (induction l) auto

text \<open>On the line the matcher gives the value, or nothing, whatever comes behind it.\<close>

definition reads :: "(string \<Rightarrow> ('a \<times> string) option) \<Rightarrow> 'a option \<Rightarrow> string \<Rightarrow> bool" where
  "reads m v l \<longleftrightarrow> l \<noteq> [] \<and> CHR 0x0A \<notin> set l \<and>
     (\<forall>s. m (l @ CHR 0x0A # s) = map_option (\<lambda>a. (a, CHR 0x0A # s)) v)"

lemma matches_line:
  assumes "reads m v l"
  shows "matches m True (l @ CHR 0x0A # s) = (case v of None \<Rightarrow> [] | Some a \<Rightarrow> [a]) @ matches m True s"
proof -
  from assms obtain c cs where l: "l = c # cs" by (cases l) (auto simp: reads_def)
  have m: "m (c # cs @ CHR 0x0A # s) = map_option (\<lambda>a. (a, CHR 0x0A # s)) v"
    using assms by (simp add: reads_def l)
  have "CHR 0x0A \<notin> set cs" "c \<noteq> CHR 0x0A" using assms by (auto simp: reads_def l)
  with m show ?thesis by (cases v) (simp_all add: l matches_skip)
qed

lemma matches_lines:
  "(\<And>x. x \<in> set xs \<Longrightarrow> reads m (v x) (g x)) \<Longrightarrow>
     matches m True (text_of (map g xs) @ s) = List.map_filter v xs @ matches m True s"
proof (induction xs)
  case Nil
  then show ?case by (simp add: List.map_filter_def)
next
  case (Cons x xs)
  from matches_line [of m "v x" "g x" "text_of (map g xs) @ s"] Cons show ?case
    by (auto simp: List.map_filter_def split: option.split)
qed

lemma dropWhile_text [simp]: "one_line d \<Longrightarrow> dropWhile py_isspace (d @ s) = d @ s"
  by (cases d) (auto simp: one_line_def)

lemma breaks: "is_line_break (CHR 0x0A)" by (simp add: is_line_break_def)

lemma one_line_no_break: "one_line d \<Longrightarrow> CHR 0x0A \<notin> set d"
  using breaks by (auto simp: one_line_def list_all_iff)

lemma rest_of_text [simp]: "one_line d \<Longrightarrow> rest_of_line (d @ CHR 0x0A # s) = Some (d, CHR 0x0A # s)"
proof -
  assume d: "one_line d"
  then have "\<forall>c \<in> set d. c \<noteq> CHR 0x0A" using one_line_no_break by metis
  with d show ?thesis
    by (simp add: rest_of_line_def takeWhile_append2 dropWhile_append2)
qed

section \<open>The lines of a report\<close>

text \<open>The letters that begin the lines, in lower case, and the space behind a key.\<close>

lemma letters [simp]:
  "char_lower (CHR ''#'') = CHR ''#''" "char_lower (CHR ''R'') = CHR ''r''" "char_lower (CHR ''C'') = CHR ''c''"
  "char_lower (CHR ''B'') = CHR ''b''" "char_lower (CHR ''P'') = CHR ''p''" "py_isspace (CHR '' '')"
  by code_simp+

definition verdict_line :: "outcome \<Rightarrow> string" where
  "verdict_line v = ''# '' @ verdict_word v"

definition stage_line :: "string \<Rightarrow> string" where
  "stage_line stage = ''REVIEW_STAGE: '' @ stage"

definition category_ok :: "string \<Rightarrow> bool" where
  "category_ok c \<longleftrightarrow> c \<noteq> [] \<and> list_all (\<lambda>x. is_category_char x \<and> x \<noteq> CHR 0x0A) c"

definition check_ok :: "string \<times> string \<Rightarrow> bool" where
  "check_ok ce \<longleftrightarrow> category_ok (fst ce) \<and> one_line (snd ce)"

definition stage_ok :: "string \<Rightarrow> bool" where
  "stage_ok stage \<longleftrightarrow> stage \<noteq> [] \<and> list_all (\<lambda>x. \<not> py_isspace x \<and> x \<noteq> CHR 0x0A) stage"

lemma no_feed [simp]:
  "CHR 0x0A \<notin> set (verdict_line v)" "stage_ok g \<Longrightarrow> CHR 0x0A \<notin> set (stage_line g)"
  "check_ok ce \<Longrightarrow> CHR 0x0A \<notin> set (check_line ce)" "one_line (snd i) \<Longrightarrow> CHR 0x0A \<notin> set (issue_line i)"
  "verdict_line v \<noteq> []" "stage_line g \<noteq> []" "check_line ce \<noteq> []" "issue_line i \<noteq> []"
     apply (cases v; simp add: verdict_line_def)
    apply (auto simp: stage_line_def stage_ok_def list_all_iff) [1]
   apply (cases ce; auto simp: check_ok_def category_ok_def list_all_iff dest: one_line_no_break)
   apply (cases i; cases "fst i"; auto dest: one_line_no_break)
  apply (simp_all add: verdict_line_def stage_line_def)
   apply (cases ce; simp)
  apply (cases i; cases "fst i"; simp)
  done

text \<open>What each matcher gives on each kind of line: no key but its own matches.\<close>

lemma reads_none: "CHR 0x0A \<notin> set l \<Longrightarrow> l = c # r \<Longrightarrow> (\<And>s. m (c # s) = None) \<Longrightarrow> reads m None l"
  by (simp add: reads_def)

lemma reads_some:
  "l \<noteq> [] \<Longrightarrow> CHR 0x0A \<notin> set l \<Longrightarrow> (\<And>s. m (l @ CHR 0x0A # s) = Some (v, CHR 0x0A # s)) \<Longrightarrow> reads m (Some v) l"
  by (simp add: reads_def)

lemma other_key:
  "char_lower c \<noteq> CHR ''r'' \<Longrightarrow> match_stage (c # s) = None"
  "char_lower c \<noteq> CHR ''c'' \<Longrightarrow> match_check (c # s) = None"
  "char_lower c \<noteq> CHR ''b'' \<Longrightarrow> match_field ''BLOCKER'' (c # s) = None"
  "char_lower c \<noteq> CHR ''p'' \<Longrightarrow> match_field ''PREREQUISITE_BLOCKER'' (c # s) = None"
  "char_lower c \<noteq> CHR ''b'' \<Longrightarrow> char_lower c \<noteq> CHR ''p'' \<Longrightarrow> match_finding (c # s) = None"
  by (simp_all add: match_stage_def match_check_def match_field_def match_finding_def)

lemma line_heads:
  "\<exists>r. verdict_line v = CHR ''#'' # r" "\<exists>r. stage_line g = CHR ''R'' # r" "\<exists>r. check_line c = CHR ''C'' # r"
  "\<exists>r. issue_line i = CHR ''B'' # r \<or> issue_line i = CHR ''P'' # r"
  by (simp_all add: verdict_line_def stage_line_def) (cases c; cases i; cases "fst i"; simp)+

lemma verdict_line_reads:
  "reads match_stage None (verdict_line v)" "reads match_check None (verdict_line v)"
  "reads (match_field ''BLOCKER'') None (verdict_line v)"
  "reads (match_field ''PREREQUISITE_BLOCKER'') None (verdict_line v)"
  "reads match_finding None (verdict_line v)"
proof -
  obtain r where l: "verdict_line v = CHR ''#'' # r" using line_heads(1) by blast
  note none = reads_none [OF no_feed(1) l]
  show "reads match_stage None (verdict_line v)" "reads match_check None (verdict_line v)"
    "reads (match_field ''BLOCKER'') None (verdict_line v)"
    "reads (match_field ''PREREQUISITE_BLOCKER'') None (verdict_line v)"
    "reads match_finding None (verdict_line v)"
    by (auto intro!: none other_key)
qed

lemma stage_line_reads:
  assumes "stage_ok g"
  shows "reads match_check None (stage_line g)" "reads (match_field ''BLOCKER'') None (stage_line g)"
    "reads (match_field ''PREREQUISITE_BLOCKER'') None (stage_line g)" "reads match_finding None (stage_line g)"
  using line_heads(2) [of g] no_feed(2) [OF assms] by (auto intro!: reads_none other_key)

lemma check_line_reads:
  assumes "check_ok c"
  shows "reads match_stage None (check_line c)" "reads (match_field ''BLOCKER'') None (check_line c)"
    "reads (match_field ''PREREQUISITE_BLOCKER'') None (check_line c)" "reads match_finding None (check_line c)"
  using line_heads(3) [of c] no_feed(3) [OF assms] by (auto intro!: reads_none other_key)

lemma issue_line_reads:
  assumes "one_line (snd i)"
  shows "reads match_stage None (issue_line i)" "reads match_check None (issue_line i)"
  using line_heads(4) [of i] no_feed(4) [OF assms] by (auto intro!: reads_none other_key)

lemma stage_read:
  assumes "stage_ok g"
  shows "reads match_stage (Some g) (stage_line g)"
proof (rule reads_some)
  fix s
  have feed: "py_isspace (CHR 0x0A)" by code_simp
  have g: "\<forall>c \<in> set g. \<not> py_isspace c" "g \<noteq> []" using assms by (auto simp: stage_ok_def list_all_iff)
  then have "dropWhile py_isspace (g @ CHR 0x0A # s) = g @ CHR 0x0A # s" by (cases g) auto
  moreover have "takeWhile (\<lambda>c. \<not> py_isspace c) (g @ CHR 0x0A # s) = g" using g(1) feed by simp
  ultimately show "match_stage (stage_line g @ CHR 0x0A # s) = Some (g, CHR 0x0A # s)"
    using g(2) feed by (simp add: match_stage_def stage_line_def line_may_end_def)
qed (simp_all add: assms)

lemma check_read:
  assumes "check_ok c"
  shows "reads match_check (Some c) (check_line c)"
proof (rule reads_some)
  fix s
  obtain k e where c: "c = (k, e)" by fastforce
  have cat: "\<not> is_category_char (CHR '' '')" by code_simp
  have bar: "\<not> py_isspace (CHR ''|'')" by code_simp
  have disj: "is_category_char x \<Longrightarrow> \<not> py_isspace x" for x
    by (auto simp: is_category_char_def is_lower_ascii_def is_upper_ascii_def py_isspace_def Let_def)
  have k: "\<forall>x \<in> set k. is_category_char x" "k \<noteq> []" "one_line e"
    using assms by (auto simp: check_ok_def category_ok_def list_all_iff c)
  then have "dropWhile py_isspace (k @ r) = k @ r" for r using disj by (cases k) auto
  moreover have "takeWhile is_category_char (k @ '' | '' @ e @ CHR 0x0A # s) = k"
    using k(1) cat by simp
  ultimately show "match_check (check_line c @ CHR 0x0A # s) = Some (c, CHR 0x0A # s)"
    using k bar by (simp add: match_check_def c)
qed (simp_all add: assms)

fun blocker_of :: "bool \<times> string \<Rightarrow> string option" where
  "blocker_of (prerequisite, d) = (if prerequisite then None else Some d)"

fun prerequisite_of :: "bool \<times> string \<Rightarrow> string option" where
  "prerequisite_of (prerequisite, d) = (if prerequisite then Some d else None)"

lemma issue_read:
  assumes "one_line (snd i)"
  shows "reads (match_field ''BLOCKER'') (blocker_of i) (issue_line i)"
    "reads (match_field ''PREREQUISITE_BLOCKER'') (prerequisite_of i) (issue_line i)"
    "reads match_finding (Some (snd i)) (issue_line i)"
proof -
  have other: "match_field ''BLOCKER'' (''PREREQUISITE_BLOCKER: '' @ r) = None"
    "match_field ''PREREQUISITE_BLOCKER'' (''BLOCKER: '' @ r) = None" for r
    by (simp_all add: match_field_def)
  have own: "match_field ''BLOCKER'' (''BLOCKER: '' @ d @ CHR 0x0A # s) = Some (d, CHR 0x0A # s)"
    "match_field ''PREREQUISITE_BLOCKER'' (''PREREQUISITE_BLOCKER: '' @ d @ CHR 0x0A # s) = Some (d, CHR 0x0A # s)"
    if "one_line d" for d s
    using that by (simp_all add: match_field_def)
  obtain p d where i: "i = (p, d)" by fastforce
  show "reads (match_field ''BLOCKER'') (blocker_of i) (issue_line i)"
    "reads (match_field ''PREREQUISITE_BLOCKER'') (prerequisite_of i) (issue_line i)"
    "reads match_finding (Some (snd i)) (issue_line i)"
    using assms other own no_feed(4) [OF assms]
    by (cases p; simp del: append_Cons add: i reads_def match_finding_def)+
qed

section \<open>The round trip\<close>

definition lines_ok :: "review \<Rightarrow> bool" where
  "lines_ok r \<longleftrightarrow> stage_ok (rv_stage r) \<and> list_all check_ok (rv_checks r) \<and> list_all (one_line \<circ> snd) (rv_issues r)"

lemma render_lines: "render_review r = verdict_line (rv_verdict r) @ CHR 0x0A # stage_line (rv_stage r) @ CHR 0x0A #
    text_of (map check_line (rv_checks r)) @ text_of (map issue_line (rv_issues r))"
  by (simp add: render_review_def report_lines_def verdict_line_def stage_line_def text_of_def)

lemma matches_end [simp]: "matches m here [] = []"
  by simp

lemma matches_review:
  assumes "lines_ok r" and "\<And>v. reads m None (verdict_line v)" and "reads m g (stage_line (rv_stage r))"
    and "\<And>c. check_ok c \<Longrightarrow> reads m (f c) (check_line c)"
    and "\<And>i. one_line (snd i) \<Longrightarrow> reads m (h i) (issue_line i)"
  shows "matches m True (render_review r) = (case g of None \<Rightarrow> [] | Some a \<Rightarrow> [a]) @
    List.map_filter f (rv_checks r) @ List.map_filter h (rv_issues r)"
proof -
  have "matches m True (text_of (map issue_line (rv_issues r)) @ []) = List.map_filter h (rv_issues r) @ matches m True []"
    using assms(1,5) by (intro matches_lines) (auto simp: lines_ok_def list_all_iff)
  moreover have "matches m True (text_of (map check_line (rv_checks r)) @ s) =
      List.map_filter f (rv_checks r) @ matches m True s" for s
    using assms(1,4) by (intro matches_lines) (auto simp: lines_ok_def list_all_iff)
  ultimately show ?thesis
    using matches_line [OF assms(2)] matches_line [OF assms(3)] by (simp add: render_lines)
qed

lemma map_filter_none [simp]: "List.map_filter (\<lambda>x. None) xs = []"
  by (simp add: List.map_filter_def)

lemma map_filter_some [simp]: "List.map_filter (\<lambda>x. Some (g x)) xs = map g xs"
  by (simp add: List.map_filter_def)

lemma review_reads:
  assumes "lines_ok r"
  shows "matches match_stage True (render_review r) = [rv_stage r]"
    "matches match_check True (render_review r) = rv_checks r"
    "field_values ''BLOCKER'' (render_review r) = List.map_filter blocker_of (rv_issues r)"
    "field_values ''PREREQUISITE_BLOCKER'' (render_review r) = List.map_filter prerequisite_of (rv_issues r)"
    "review_findings (render_review r) = map snd (rv_issues r)"
proof -
  have g: "stage_ok (rv_stage r)" using assms by (simp add: lines_ok_def)
  note row = verdict_line_reads check_line_reads issue_line_reads stage_read check_read issue_read
    stage_line_reads [OF g]
  note whole = matches_review [OF assms verdict_line_reads(1) stage_read [OF g] check_line_reads(1) issue_line_reads(1)]
    matches_review [OF assms verdict_line_reads(2) stage_line_reads(1) [OF g] check_read issue_line_reads(2)]
    matches_review [OF assms verdict_line_reads(3) stage_line_reads(2) [OF g] check_line_reads(2) issue_read(1)]
    matches_review [OF assms verdict_line_reads(4) stage_line_reads(3) [OF g] check_line_reads(3) issue_read(2)]
    matches_review [OF assms verdict_line_reads(5) stage_line_reads(4) [OF g] check_line_reads(4) issue_read(3)]
  from whole show "matches match_stage True (render_review r) = [rv_stage r]"
    "matches match_check True (render_review r) = rv_checks r"
    "field_values ''BLOCKER'' (render_review r) = List.map_filter blocker_of (rv_issues r)"
    "field_values ''PREREQUISITE_BLOCKER'' (render_review r) = List.map_filter prerequisite_of (rv_issues r)"
    "review_findings (render_review r) = map snd (rv_issues r)"
    by (simp_all add: field_values_def review_findings_def)
qed

lemma split_first: "list_all (\<lambda>c. \<not> is_line_break c) l \<Longrightarrow> split_lines (l @ CHR 0x0A # s) = l # split_lines s"
  by (induction l) (simp_all add: breaks)

lemma char_kinds:
  "\<not> py_isspace (CHR ''#'')" "\<not> py_isspace (CHR ''P'')" "\<not> py_isspace (CHR ''F'')" "\<not> py_isspace (CHR ''B'')"
  "\<not> py_isspace (CHR ''I'')" "\<not> py_isspace (CHR ''S'')" "\<not> py_isspace (CHR ''L'')" "\<not> py_isspace (CHR ''D'')"
  "\<not> py_isspace (CHR ''E'')"
  by (simp_all add: py_isspace_def)

lemma more_letters: "char_lower (CHR ''F'') = CHR ''f''" "char_lower (CHR ''I'') = CHR ''i''"
  by code_simp+

lemma verdict_words:
  "list_all (\<lambda>c. \<not> is_line_break c) (verdict_line v)" "strip (verdict_line v) = verdict_line v"
  "has_verdict ''PASS'' (verdict_line v) = (v = PASS)" "has_verdict ''FAIL'' (verdict_line v) = (v = FAIL)"
  "has_verdict ''BLOCKED'' (verdict_line v) = (v = BLOCKED)"
      apply (cases v; simp add: verdict_line_def is_line_break_def)
     apply (cases v; simp add: verdict_line_def strip_def lstrip_def rstrip_def char_kinds)
    apply (cases v; simp add: has_verdict_def verdict_line_def drop_stars_def tail_ok_def char_kinds more_letters)
   apply (cases v; simp add: has_verdict_def verdict_line_def drop_stars_def tail_ok_def char_kinds more_letters)
  apply (cases v; simp add: has_verdict_def verdict_line_def drop_stars_def tail_ok_def char_kinds more_letters)
  done

lemma first_of_review: "first_line (render_review r) = verdict_line (rv_verdict r)"
  using verdict_words(1,2) [of "rv_verdict r"] by (simp add: first_line_def render_lines split_first)

lemma verdict_of_review: "verdict_of (render_review r) = rv_verdict r"
  by (cases "rv_verdict r") (simp_all add: verdict_of_def review_passed_def first_of_review verdict_words)

lemma lower_words:
  assumes "review_checks g = Some required"
  shows "str_lower g = g" and "\<forall>c \<in> set required. str_lower c = c \<and> category_ok c" and "stage_ok g"
    and "required \<noteq> []"
proof -
  from assms consider "g = ''review_implementation''" "required = [''spec'', ''implementation'', ''tests'',
        ''normalized_data'', ''temporal_integrity'', ''safety'']"
    | "g = ''review_backtest''" "required = [''spec_alignment'', ''dataset_provenance'', ''temporal_integrity'',
        ''metrics'', ''charts'', ''reproducibility'']"
    by (auto simp: review_checks_def split: if_splits)
  then show "str_lower g = g" "\<forall>c \<in> set required. str_lower c = c \<and> category_ok c" "stage_ok g" "required \<noteq> []"
    by (cases; simp add: str_lower_def char_lower_def stage_ok_def category_ok_def py_isspace_def
        is_category_char_def is_lower_ascii_def is_upper_ascii_def)+
qed

lemma well_formed_lines: "well_formed r \<Longrightarrow> lines_ok r"
proof -
  assume r: "well_formed r"
  then obtain required where g: "review_checks (rv_stage r) = Some required" by (auto simp: well_formed_def split: option.splits)
  from r g lower_words [OF g] show ?thesis
    by (auto simp: well_formed_def lines_ok_def check_ok_def list_all_iff)
qed

lemma issue_kinds [simp]: "blocker_of i = None \<longleftrightarrow> fst i" "prerequisite_of i = None \<longleftrightarrow> \<not> fst i"
  by (cases i; simp)+

lemma issues_empty:
  "List.map_filter blocker_of is = [] \<longleftrightarrow> \<not> list_ex (Not \<circ> fst) is"
  "List.map_filter prerequisite_of is = [] \<longleftrightarrow> \<not> list_ex fst is"
  by (auto simp: List.map_filter_def filter_empty_conv list_ex_iff)

lemma checked_review:
  assumes "review_checks (rv_stage r) = Some required" and "well_formed r"
  shows "checked_categories (render_review r) = map fst (rv_checks r)"
proof -
  have "\<forall>c \<in> set (map fst (rv_checks r)). c \<in> set required"
    using assms by (auto simp: well_formed_def list_all_iff)
  then show ?thesis
    using lower_words(2) [OF assms(1)] review_reads(2) [OF well_formed_lines [OF assms(2)]]
    by (auto simp: checked_categories_def)
qed

lemma review_read_back:
  assumes "well_formed r"
  shows "review_outcome (render_review r) (rv_stage r) = Inr (rv_verdict r) \<and>
     review_findings (render_review r) = map snd (rv_issues r)"
proof -
  obtain required where g: "review_checks (rv_stage r) = Some required"
    using assms by (auto simp: well_formed_def split: option.splits)
  note ok = well_formed_lines [OF assms]
  have names: "names_stage (render_review r) (rv_stage r)"
    using lower_words(1) [OF g] by (simp add: names_stage_def review_reads [OF ok])
  have all: "length (map fst (rv_checks r)) = length required \<and> set (map fst (rv_checks r)) = set required"
    if "mset (map fst (rv_checks r)) = mset required"
    using that by (metis mset_eq_length mset_eq_setD)
  show ?thesis
    using assms g names all issues_empty [of "rv_issues r"]
    by (cases "rv_verdict r") (auto simp: well_formed_def review_outcome_def verdict_of_review complete_outcome_def
      review_reads [OF ok] checked_review [OF g assms] Let_def)
qed

text \<open>A report that passes every check of its stage.\<close>

definition passing :: "string \<Rightarrow> review" where
  "passing stage = \<lparr>rv_verdict = PASS, rv_stage = stage,
     rv_checks = map (\<lambda>c. (c, ''ok'')) (case review_checks stage of None \<Rightarrow> [] | Some cs \<Rightarrow> cs),
     rv_issues = []\<rparr>"

lemma passing_read:
  "review_checks stage \<noteq> None \<Longrightarrow> review_outcome (render_review (passing stage)) stage = Inr PASS"
proof -
  assume "review_checks stage \<noteq> None"
  then have "well_formed (passing stage)"
    by (auto simp: well_formed_def passing_def one_line_def py_isspace_def is_line_break_def list_all_iff comp_def)
  from review_read_back [OF this] show ?thesis by (simp add: passing_def)
qed

text \<open>
  C8. A report in the format that the prompt of a review turn asks for is read back as it was meant:
  its verdict is the outcome and its issues, in order, are the findings.
\<close>

theorem review_report_round_trip:
  assumes "well_formed r"
  shows "review_outcome (render_review r) (rv_stage r) = Inr (rv_verdict r) \<and>
     review_findings (render_review r) = map snd (rv_issues r)"
  using assms by (rule review_read_back)

definition sample_review :: review where
  "sample_review = \<lparr>rv_verdict = FAIL, rv_stage = ''review_backtest'', rv_checks = map (\<lambda>c. (c, ''ok''))
     [''charts'', ''spec_alignment'', ''dataset_provenance'', ''temporal_integrity'', ''metrics'', ''reproducibility''],
     rv_issues = [(False, ''[no-fees] add the fees'')]\<rparr>"

lemma sample_review_ok: "well_formed sample_review"
  by (simp add: well_formed_def sample_review_def review_checks_def one_line_def py_isspace_def is_line_break_def)

theorem review_report_round_trip_witness:
  "review_outcome (render_review sample_review) ''review_backtest'' = Inr FAIL \<and>
     review_findings (render_review sample_review) = [''[no-fees] add the fees'']"
  using review_report_round_trip [OF sample_review_ok] by (simp add: sample_review_def)

end
