(* ===== verification/Order_Properties.thy ===== *)
theory Order_Properties
  imports Order_Worker Review_Rendering
begin

text \<open>
  The properties of the work orders: the approval gates hold in every reachable state and guard the
  start of a signal, failing orders leave the queue, and what happens where the code falls short of
  its intent (adoptions, retried optimizers, maintenance orders, cancellations).
\<close>

section \<open>Signals that may start\<close>

lemma approved_fold:
  "map_of (fold (\<lambda>w d. case g w of None \<Rightarrow> d | Some (a, v) \<Rightarrow> AList.update a v d) ws d) a = Some v \<Longrightarrow>
     map_of d a = Some v \<or> (\<exists>w \<in> set ws. g w = Some (a, v))"
proof (induction ws arbitrary: d)
  case (Cons w ws)
  from Cons.IH [of "case g w of None \<Rightarrow> d | Some (a, v) \<Rightarrow> AList.update a v d"] Cons.prems
  show ?case by (auto simp: update_conv' split: option.splits if_splits)
qed simp

lemma approved_signal_order:
  assumes "map_of (approved_signal_versions std ws registry v) a = Some ver"
  shows "\<exists>w \<in> set (gs_orders v). approved_version (valid_records std ws registry) w = Some (a, ver)"
  using approved_fold [of "approved_version (valid_records std ws registry)" "gs_orders v" "[]" a ver] assms
  by (simp add: approved_signal_versions_def)

lemma approved_versionD:
  "approved_version valid w = Some (a, v) \<Longrightarrow> wo_artifact_kind w = ''signal'' \<and> wo_status w = ''approved'' \<and>
     wo_artifact_id w = Some a \<and> wo_artifact_version w = Some v \<and> (\<exists>i. (a, v, i) \<in> set valid)"
  by (auto simp: approved_version_def split: option.splits if_splits)

lemma valid_recordD:
  "(a, v, i) \<in> set (valid_records std ws registry) \<Longrightarrow>
     \<exists>d \<in> set (list_records registry). \<exists>h. registry_entry d = Some (a, v, i, h) \<and>
       file_sha256 std ws (Some (manifest_path ''signal'' a v)) = Some h"
  by (fastforce simp: valid_records_def List.map_filter_def split: option.splits if_splits)

lemma approved_gates: "gated w \<Longrightarrow> wo_status w = ''approved'' \<Longrightarrow>
    cleared w \<and> live_approved w \<and> (needs_backtest w \<longrightarrow> backtest_approved w)"
  by (simp add: gated_def late_def)

lemma run_gated:
  "sound_gateway s \<Longrightarrow> gateway_run env (alive, s) (alive', t) \<Longrightarrow> w \<in> set (gs_orders (document t)) \<Longrightarrow> gated w"
  using sound_run [of env "(alive, s)" "(alive', t)"]
  by (auto simp: sound_idle at_work_def doc_ok_def list_all_iff)

section \<open>A sample gateway\<close>

definition sample_time :: datetime where
  "sample_time = Datetime 0"

definition sample_ok :: "approval option" where
  "sample_ok = Some \<lparr>ap_approved = True, ap_note = ''ok'', ap_at = sample_time\<rparr>"

definition sample_order :: order_doc where
  "sample_order = (new_order ''s'' sample_time ''i'' ''strategy'' ''signal'' False ''create'' (Some ''x''))
     \<lparr>wo_status := ''awaiting_live_approval'', wo_stage := Some (gate_value LIVE_GATE),
      wo_artifact_version := Some ''1'',
      wo_approvals := Some (no_approvals\<lparr>for_implementation := sample_ok\<rparr>)\<rparr>"

definition sample_registry :: json_file where
  "sample_registry = Json (PList [PDict [(''artifact_id'', PStr ''x''), (''artifact_version'', PStr ''1''),
     (''work_order'', PStr ''s''), (''manifest_sha256'', PStr ''m'')]])"

definition sample_workspace :: workspace where
  "sample_workspace = \<lparr>ws_root = ''/r'', ws_manifests = [], ws_reports = [], ws_files = (\<lambda>p. Some ''m''),
     ws_revision = (\<lambda>t. ''r''), ws_resolve = Some\<rparr>"

definition sample_std :: std_env where
  "sample_std = \<lparr>sha256 = (\<lambda>s. s), json_dumps = (\<lambda>v. []), str_of = (\<lambda>v. []), int_of = (\<lambda>v. Inr 0)\<rparr>"

definition sample_config :: runner_config where
  "sample_config = \<lparr>rc_text = \<lparr>casefold = (\<lambda>s. s), sha256_hex = (\<lambda>s. s)\<rparr>, max_attempts = 2,
     same_issue_limit = 5, turn_timeout_seconds = 3600\<rparr>"

definition sample_gateway_env :: "(nat \<Rightarrow> request list) \<Rightarrow> exn + string \<Rightarrow> gateway_env" where
  "sample_gateway_env meanwhile answer = \<lparr>ge_config = sample_config, ge_std = sample_std,
     ge_floats = (\<lambda>s. None), ge_iso = (\<lambda>t. []), ge_now = (\<lambda>n. sample_time),
     ge_workspace = (\<lambda>n. sample_workspace), ge_turn = (\<lambda>n w role prior. answer),
     ge_materialize = (\<lambda>n w. Dataset ''d''), ge_ready = (\<lambda>n. Inr (True, [])), ge_meanwhile = meanwhile,
     ge_retry_time = (\<lambda>e now. None)\<rparr>"

definition sample_runner :: "order_doc list \<Rightarrow> runner" where
  "sample_runner ws = \<lparr>rn_file = Some (empty_state\<lparr>gs_orders := ws\<rparr>), rn_registry = Some sample_registry,
     rn_breaker = new_circuit_breaker, rn_blocked_reason = None, rn_active = None, rn_cancel_requested = [],
     rn_cancelling = False, rn_work_dirs = map wo_id ws, rn_ticks = 0\<rparr>"

lemmas sample_defs = sample_runner_def sample_order_def sample_ok_def sample_time_def sample_gateway_env_def
  sample_config_def sample_registry_def sample_workspace_def sample_std_def new_order_def no_approvals_def

section \<open>Approval gates\<close>

definition sample_decided :: "(exn + unit) \<times> runner" where
  "sample_decided = exec_request (sample_gateway_env (\<lambda>n. []) (Inr ''a''))
     (Decision ''s'' ''live_approval'' True ''go'') (sample_runner [sample_order])"

lemma sample_sound: "sound_gateway (sample_runner [sample_order])"
  by (simp add: sound_gateway_def doc_ok_def holds_order_def document_def read_unlocked_def sample_defs gate_simps
      late_stages_def empty_state_def)

lemma sample_decision:
  "wo_status (hd (gs_orders (document (snd sample_decided)))) = ''approved''"
  "gs_orders (document (snd sample_decided)) = [hd (gs_orders (document (snd sample_decided)))]"
  by code_simp+


lemma sample_decision_run:
  "gateway_run (sample_gateway_env (\<lambda>n. []) (Inr ''a'')) (False, sample_runner [sample_order])
     (False, (snd sample_decided)\<lparr>rn_cancelling := False\<rparr>)"
proof (rule run_on [OF run_here])
  show "gateway_step (sample_gateway_env (\<lambda>n. []) (Inr ''a'')) (False, sample_runner [sample_order])
      (False, (snd sample_decided)\<lparr>rn_cancelling := False\<rparr>)"
    unfolding sample_decided_def by (rule requested [OF surjective_pairing])
  show "\<not> False \<longrightarrow> recovery_ok (document (sample_runner [sample_order]))"
    by (simp add: recovery_ok_def stage_regressed_def document_def read_unlocked_def sample_defs empty_state_def)
qed

abbreviation sample_approved :: order_doc where
  "sample_approved \<equiv> hd (gs_orders (document (snd sample_decided)))"




lemma sample_startable: "map_of (approved_signal_versions sample_std sample_workspace (Some sample_registry)
    (document ((snd sample_decided)\<lparr>rn_cancelling := False\<rparr>))) ''x'' = Some ''1''"
  by code_simp


section \<open>Failing orders leave the queue\<close>

text \<open>One failed turn: a queued order is claimed and its runner gives it back.\<close>

definition failed_turn ::
  "runner_config \<Rightarrow> string \<Rightarrow> datetime \<times> requeue_request \<Rightarrow> gateway_state \<Rightarrow> gateway_state"
where
  "failed_turn cfg i = (\<lambda>(now, rq) v. case order_at v i of
       None \<Rightarrow> v
     | Some w \<Rightarrow> if wo_status w = ''queued''
         then snd (requeue_mutation cfg now i rq (v\<lparr>gs_orders := put_order i (claimed_order now w) (gs_orders v)\<rparr>))
         else v)"

lemma order_at_frame [simp]:
  "order_at (add_message now a n v) i = order_at v i" "order_at (put_blocker k d now v) i = order_at v i"
  "order_at (v\<lparr>gs_dead_letters := ds\<rparr>) i = order_at v i"
  by (simp_all add: order_at_def)

lemma order_after_save: "order_at v i = Some w \<Longrightarrow> wo_id w' = i \<Longrightarrow>
    order_at (v\<lparr>gs_orders := put_order i w' (gs_orders v)\<rparr>) i = Some w'"
  by (simp add: order_at_save)

lemma order_after_requeue:
  assumes "order_at v i = Some w"
  shows "order_at (snd (requeue_mutation cfg now i rq v)) i =
    Some (if exhausted cfg rq w then dead_order cfg now rq w else requeued_order cfg now rq w)"
proof -
  have i: "wo_id w = i" using order_at_id [OF assms] by simp
  have "wp (requeue_mutation cfg now i rq) (\<lambda>_ t. order_at t i =
      Some (if exhausted cfg rq w then dead_order cfg now rq w else requeued_order cfg now rq w))
     (\<lambda>_ t. order_at t i = Some (if exhausted cfg rq w then dead_order cfg now rq w else requeued_order cfg now rq w)) v"
    using assms by (auto simp: requeue_mutation_def wp_rules order_after_save i split: option.split list.split)
  then show ?thesis by (rule wp_snd) (simp add: prod_eq_iff)
qed

lemma attempts_claimed [simp]: "attempts_of (claimed_order now w) = attempts_of w"
  by (simp add: claimed_order_def add_checkpoint_def attempts_of_def)

lemma attempts_requeued [simp]: "attempts_of (requeued_order cfg now rq w) = next_attempt rq w"
  by (simp add: requeued_order_def attempts_of_def)

lemma failed_turn_queued:
  assumes "order_at (failed_turn cfg i (now, rq) v) i = Some w'" and "wo_status w' = ''queued''"
    and "rq_count_attempt rq"
  shows "\<exists>w. order_at v i = Some w \<and> wo_status w = ''queued'' \<and> attempts_of w' = attempts_of w + 1 \<and>
     attempts_of w' < max_attempts cfg"
proof -
  obtain w where w: "order_at v i = Some w"
    using assms(1) by (cases "order_at v i") (auto simp: failed_turn_def)
  have q: "wo_status w = ''queued''" using assms(1,2) w by (auto simp: failed_turn_def split: if_splits)
  let ?c = "claimed_order now w"
  have "order_at (v\<lparr>gs_orders := put_order i ?c (gs_orders v)\<rparr>) i = Some ?c"
    using w order_at_id [OF w] by (simp add: order_after_save)
  from order_after_requeue [OF this] w q assms(1)
  have w': "w' = (if exhausted cfg rq ?c then dead_order cfg now rq ?c else requeued_order cfg now rq ?c)"
    by (auto simp: failed_turn_def)
  with assms(2) have "\<not> exhausted cfg rq ?c" by (auto simp: dead_order_def)
  with w' assms(3) have "attempts_of w' = attempts_of w + 1" "attempts_of w' < max_attempts cfg"
    by (simp_all add: next_attempt_def exhausted_def)
  with w q show ?thesis by blast
qed

text \<open>
  C7. An order whose turns keep failing leaves the queue: after as many counted failures as the
  budget has left it is dead-lettered or waits for its user.
\<close>

theorem failing_order_leaves_queue:
  assumes "order_at v i = Some w" and "\<forall>x \<in> set xs. rq_count_attempt (snd x)"
    and "max_attempts cfg - attempts_of w \<le> int (length xs)" and "xs \<noteq> []"
    and "order_at (fold (failed_turn cfg i) xs v) i = Some w'"
  shows "wo_status w' \<noteq> ''queued''"
proof
  assume q: "wo_status w' = ''queued''"
  have "ys \<noteq> [] \<Longrightarrow> \<forall>x \<in> set ys. rq_count_attempt (snd x) \<Longrightarrow>
      order_at (fold (failed_turn cfg i) ys v) i = Some u \<Longrightarrow> wo_status u = ''queued'' \<Longrightarrow>
      attempts_of u = attempts_of w + int (length ys) \<and> attempts_of u < max_attempts cfg" for ys u
  proof (induction ys arbitrary: u rule: rev_induct)
    case (snoc y ys)
    obtain now rq where y: "y = (now, rq)" by fastforce
    have "order_at (failed_turn cfg i (now, rq) (fold (failed_turn cfg i) ys v)) i = Some u" "rq_count_attempt rq"
      using snoc.prems(2,3) by (simp_all add: y)
    from failed_turn_queued [OF this(1) snoc.prems(4) this(2)] obtain x where
      x: "order_at (fold (failed_turn cfg i) ys v) i = Some x" "wo_status x = ''queued''"
        "attempts_of u = attempts_of x + 1" "attempts_of u < max_attempts cfg" by blast
    show ?case
    proof (cases "ys = []")
      case True
      with x assms(1) show ?thesis by simp
    next
      case False
      with snoc.IH [OF False _ x(1,2)] snoc.prems(2) x(3,4) show ?thesis by simp
    qed
  qed simp
  from this [OF assms(4,2,5) q] assms(3) show False by simp
qed

definition sample_failures :: "(datetime \<times> requeue_request) list" where
  "sample_failures = replicate 2 (sample_time, plain_request ''strategy'' [] ''boom'')"

definition sample_queue :: gateway_state where
  "sample_queue = empty_state\<lparr>gs_orders := [sample_order\<lparr>wo_status := ''queued''\<rparr>]\<rparr>"

lemma sample_failed:
  "order_at (fold (failed_turn sample_config ''s'') sample_failures sample_queue) ''s'' =
     Some (the (order_at (fold (failed_turn sample_config ''s'') sample_failures sample_queue) ''s''))"
  by code_simp

theorem failing_order_leaves_queue_witness:
  "wo_status (the (order_at (fold (failed_turn sample_config ''s'') sample_failures sample_queue) ''s'')) \<noteq> ''queued''"
  by (rule failing_order_leaves_queue [OF _ _ _ _ sample_failed, where w = "sample_order\<lparr>wo_status := ''queued''\<rparr>"])
    (simp_all add: sample_queue_def order_at_def sample_failures_def plain_request_def sample_defs attempts_of_def)

section \<open>Orders bound to a manifest that does not name them\<close>

definition unlisted :: "gateway_env \<Rightarrow> string \<Rightarrow> bool" where
  "unlisted env i \<longleftrightarrow> (\<forall>n. \<forall>m \<in> set (ws_manifests (ge_workspace env n)). field m ''work_order'' \<noteq> PStr i)"

definition missing_manifest :: exn where
  "missing_manifest = ValueError ''exact work-order artifact version manifest does not exist''"

lemma record_unlisted:
  assumes "unlisted env (wo_id w)" and "wo_artifact_version w \<noteq> None"
  shows "wp (record_selected env w) Q E s =
    E missing_manifest (s\<lparr>rn_ticks := rn_ticks s + 1\<rparr>)"
proof -
  have "filter (manifest_matches (wo_id w) (wo_artifact_kind w) (wo_artifact_id w) (wo_artifact_version w))
      (in_registry (ge_workspace env n) ''signals'' @ in_registry (ge_workspace env n) ''strategies'') = []" for n
    using assms(1) by (auto simp: filter_empty_conv manifest_matches_def in_registry_def unlisted_def)
  then have "implemented_manifest (ge_workspace env n) (wo_id w) (wo_artifact_kind w) (wo_artifact_id w)
      (wo_artifact_version w) = Inr None" for n
    by (simp add: implemented_manifest_def)
  then show ?thesis
    using assms(2) by (simp add: record_selected_def wp_rules record_artifact_def missing_manifest_def)
qed

text \<open>The end of such an order is written, and then the runner raises.\<close>

lemma finish_unlisted:
  assumes "unlisted env i" and "order_at (document s) i = Some w" and "wo_artifact_version w \<noteq> None"
    and "\<And>t now. order_at (document t) i = Some (finished_order now st stage rs w) \<Longrightarrow> runner.more t = runner.more s \<Longrightarrow>
       E missing_manifest t"
  shows "wp (finish env i st stage rs) Q E s"
proof -
  have i: "wo_id w = i" using order_at_id [OF assms(2)] by simp
  have "wo_id (finished_order now st stage rs w) = i \<and> wo_artifact_version (finished_order now st stage rs w) \<noteq> None" for now
    using assms(3) i by (simp add: finished_order_def)
  with assms show ?thesis
    by (auto simp: finish_def wp_rules finish_mutation_def order_after_save i record_unlisted)
qed

definition quiet :: "gateway_env \<Rightarrow> bool" where
  "quiet env \<longleftrightarrow> (\<forall>n. ge_meanwhile env n = [])"

lemma wp_quiet_suspend:
  "quiet env \<Longrightarrow> \<not> rn_cancelling s \<Longrightarrow>
     wp (suspend env) Q E s = Q () (s\<lparr>rn_ticks := rn_ticks s + 1, rn_cancelling := False\<rparr>)"
  by (simp add: suspend_def quiet_def wp_rules)

lemma wp_quiet_turn:
  "quiet env \<Longrightarrow> \<not> rn_cancelling s \<Longrightarrow> ge_turn env (rn_ticks s) w role prior = Inr r \<Longrightarrow>
     wp (agent_turn env w role prior) Q E s = Q r (s\<lparr>rn_ticks := rn_ticks s + 1, rn_cancelling := False\<rparr>)"
  by (simp add: agent_turn_def wp_rules wp_quiet_suspend)

definition failed_for_good :: "string \<Rightarrow> exn \<Rightarrow> 'r runner_scheme \<Rightarrow> bool" where
  "failed_for_good i e t \<longleftrightarrow> e = missing_manifest \<and> (\<exists>u. order_at (document t) i = Some u \<and> wo_status u = ''failed'')"

lemma missing_not_retryable: "\<not> is_retryable missing_manifest"
  by code_simp

lemma handle_missing_manifest:
  assumes "unlisted env i" and "order_at (document s) i = Some w" and "wo_artifact_version w \<noteq> None"
  shows "wp (handle_exn env i missing_manifest) Q (failed_for_good i) s"
proof -
  have "handle_exn env i missing_manifest = finish env i ''failed'' ''failed'' [(''error'', exn_text missing_manifest)]"
    using missing_not_retryable by (simp add: handle_exn_def missing_manifest_def on_failure_def)
  then show ?thesis
    using assms by (auto simp: failed_for_good_def intro!: finish_unlisted)
qed

lemma passed_review_fails:
  assumes "quiet env" and "\<not> rn_cancelling s" and "\<And>n w r p. ge_turn env n w r p = Inr report"
    and "review_outcome report ''review_implementation'' = Inr PASS"
    and "unlisted env i" and "order_at (document s) i = Some w" and "wo_artifact_version w \<noteq> None"
    and "wo_agent (ex_order s) = ''strategy''" and "ex_stage s = ''review_implementation''"
    and "map_of (ex_results s) ''strategy'' = Some handoff"
  shows "wp (execute_work env i) (\<lambda>_ _. False) (failed_for_good i) s"
proof -
  have body: "wp (execute_body env i) (\<lambda>_ _. False)
      (\<lambda>e t. e = missing_manifest \<and> (\<exists>u. order_at (document t) i = Some u \<and> wo_artifact_version u \<noteq> None)) s"
    using assms
    by (auto simp: execute_body_def dataset_step_def stage_step_def implementation_review_stage_def result_of_def
        review_turn_def complete_review_def finish_review_def put_result_def wp_rules wp_quiet_turn document_def
        update_conv' finished_order_def intro!: finish_unlisted)
  show ?thesis unfolding execute_work_def wp_bindE wp_tryE
    by (rule wp_mono [OF body]) (use assms(5) in \<open>auto intro: handle_missing_manifest\<close>)
qed

text \<open>The order that an adoption creates, when the worker has claimed it.\<close>

definition claimed_adoption :: "datetime \<Rightarrow> string \<Rightarrow> string \<Rightarrow> string \<Rightarrow> string \<Rightarrow> string \<Rightarrow> bool \<Rightarrow> order_doc" where
  "claimed_adoption now i ins kind aid ver backtest = claimed_order now
     (adoption_order now kind aid ver (new_order i now ins ''strategy'' kind backtest ''adopt'' (Some aid)))"

lemma claimed_adoption_simps:
  "wo_id (claimed_adoption now i ins kind aid ver b) = i"
  "wo_agent (claimed_adoption now i ins kind aid ver b) = ''strategy''"
  "wo_artifact_version (claimed_adoption now i ins kind aid ver b) = Some ver"
  "current_stage (claimed_adoption now i ins kind aid ver b) = ''review_implementation''"
  "\<exists>h. map_of (results_of (claimed_adoption now i ins kind aid ver b)) ''strategy'' = Some h"
  by (simp_all add: claimed_adoption_def claimed_order_def adoption_order_def new_order_def Let_def
      add_checkpoint_def current_stage_def resume_stage_def executable_stages_def results_of_def)


definition sample_pass :: string where
  "sample_pass = render_review (passing ''review_implementation'')"

lemma sample_pass_outcome: "review_outcome sample_pass ''review_implementation'' = Inr PASS"
  unfolding sample_pass_def by (rule passing_read) (simp add: review_checks_def)

abbreviation sample_adoption :: order_doc where
  "sample_adoption \<equiv> claimed_adoption sample_time ''s'' ''i'' ''signal'' ''x'' ''1'' False"


section \<open>Retried optimizers\<close>

text \<open>
  A dead-lettered optimizer is retried after remediation (which withdraws its approvals), claimed,
  and its strategy turn times out until the budget is spent.
\<close>

definition timed_out_retry ::
  "runner_config \<Rightarrow> datetime \<Rightarrow> datetime \<Rightarrow> datetime \<Rightarrow> string \<Rightarrow> string \<Rightarrow> string \<Rightarrow> order_doc \<Rightarrow> order_doc"
where
  "timed_out_retry cfg t1 t2 t3 aid ver why w =
     (let c = claimed_order t2 (remediated_order t1 aid ver why w)
      in dead_order cfg t3 (plain_request ''strategy'' (results_of c) (turn_timeout_reason cfg ''strategy'')) c)"

lemma not_preserved: "wo_stage w = Some ''optimize'' \<Longrightarrow> \<not> preserves_implementation aid ver w"
  by (simp add: preserves_implementation_def)

lemma timeout_is_legacy: "str_startswith (turn_timeout_reason cfg ''strategy'') legacy_timeout"
  by (simp add: turn_timeout_reason_def legacy_timeout_def str_startswith_def)


definition sample_pass_backtest :: string where
  "sample_pass_backtest = render_review (passing ''review_backtest'')"

definition sample_dead :: order_doc where
  "sample_dead = sample_order\<lparr>wo_status := ''dead_letter'', wo_stage := Some ''optimize'',
     wo_optimization_required := Some True, wo_results := Some [(''review_backtest'', sample_pass_backtest)],
     wo_checkpoints := [\<lparr>cp_stage = ''optimize'', cp_status = [], cp_at = sample_time, cp_reason = None\<rparr>]\<rparr>"

lemma sample_pass_backtest_outcome: "review_outcome sample_pass_backtest ''review_backtest'' = Inr PASS"
  unfolding sample_pass_backtest_def by (rule passing_read) (simp add: review_checks_def)


section \<open>Maintenance orders and cancellations\<close>

lemma answered_returns: "wp (answered m) (\<lambda>_ _. True) (\<lambda>_ _. False) s"
  by (simp add: answered_def wp_rules wp_any)

lemma mapE_returns:
  assumes "\<And>x s. wp (f x) (\<lambda>_ _. True) (\<lambda>_ _. False) s"
  shows "wp (mapE f xs) (\<lambda>_ _. True) (\<lambda>_ _. False) s"
proof (induction xs arbitrary: s)
  case (Cons y ys)
  show ?case unfolding mapE.simps wp_thenE by (rule wp_mono [OF assms]) (simp_all add: Cons.IH)
qed (simp add: wp_rules)

lemma suspend_raises: "wp (suspend env) (\<lambda>_ _. True) (\<lambda>e _. e = CancelledError) s"
  unfolding suspend_def wp_bindE wp_tick wp_thenE
  by (rule wp_mono [OF mapE_returns]) (simp_all add: answered_returns wp_rules)

lemma on_cancelled_raises: "wp (on_cancelled env i) (\<lambda>_ _. False) (\<lambda>_ _. True) s"
  by (auto simp: on_cancelled_def wp_rules intro!: wp_any)

text \<open>
  C11. The turn of a maintenance order is not followed by a write: when the agent has answered, the
  order is still at work, and its report is lost with the task.
\<close>

theorem maintenance_order_never_finishes:
  assumes "at_work (Some (wo_id w)) False no_locals s" and "wo_agent w = ''maintenance''"
    and "wo_stage w = Some ''maintenance''" and "\<And>n u r p e. ge_turn env n u r p \<noteq> Inl e"
    and "execute env w s = (Inr (), t)"
  shows "\<exists>u. order_at (document t) (wo_id w) = Some u \<and> wo_status u = ''working''"
proof -
  let ?B = "busy (wo_id w) False"
  have b: "?B (with_locals w s)"
    using assms(1-3) by (simp add: at_work_def locals_ok_def document_def late_stages_def current_stage_def)
  have kept: "keeps ?B (suspend env)" by (rule keeps_suspend)
  have turn: "wp (agent_turn env u r p) (\<lambda>_. ?B) (\<lambda>e _. e = CancelledError) x" if "?B x" for u r p x
  proof -
    have sus: "wp (suspend env) (\<lambda>_ y. ?B y \<and> True) (\<lambda>e y. ?B y \<and> e = CancelledError) x"
      by (intro wp_conj suspend_raises)
        (use kept that in \<open>simp add: keeps_wp\<close>)
    have got: "wp (case ge_turn env n u r p of Inl e \<Rightarrow> raise e | Inr a \<Rightarrow> ret a) (\<lambda>_. ?B) (\<lambda>e _. e = CancelledError) y"
      if "?B y" for n y
      by (cases "ge_turn env n u r p") (use assms(4) that in \<open>simp_all add: wp_rules\<close>)
    show ?thesis unfolding agent_turn_def wp_bindE wp_getE wp_thenE
      by (rule wp_mono [OF sus]) (simp_all add: got)
  qed
  have "wp (maintenance_turn env) (\<lambda>_. ?B) (\<lambda>e _. e = CancelledError) (with_locals w s)"
    unfolding maintenance_turn_def wp_bindE wp_getE wp_thenE set_stage_def wp_modifyE put_result_def
    by (rule wp_mono [OF turn]) (use b assms(2) in
      \<open>auto simp: at_work_def locals_ok_def document_def late_stages_def\<close>)
  then have "wp (execute_body env (wo_id w)) (\<lambda>_. ?B) (\<lambda>e _. e = CancelledError) (with_locals w s)"
    using assms(2) by (simp add: execute_body_def wp_rules)
  then have "wp (execute_work env (wo_id w)) (\<lambda>_. ?B) (\<lambda>_ _. True) (with_locals w s)"
    unfolding execute_work_def wp_bindE wp_tryE
    by (rule wp_mono) (auto simp: wp_rules handle_exn_def intro: wp_mono [OF on_cancelled_raises])
  with assms(5) show ?thesis
    by (auto simp: wp_def execute_def at_work_def doc_ok_def holds_order_def document_def split: prod.splits sum.splits)
qed

definition sample_maintenance :: order_doc where
  "sample_maintenance = claimed_order sample_time (new_order ''s'' sample_time ''i'' ''maintenance'' ''none'' False
     ''create'' None)"

definition sample_busy :: runner where
  "sample_busy = (sample_runner [sample_maintenance])\<lparr>rn_active := Some ''s''\<rparr>"

lemma sample_maintenance_turn:
  "fst (execute (sample_gateway_env (\<lambda>n. []) (Inr ''a'')) sample_maintenance sample_busy) = Inr ()"
  by code_simp

theorem maintenance_order_never_finishes_witness:
  "map_option wo_status (order_at (document (snd (execute (sample_gateway_env (\<lambda>n. []) (Inr ''a''))
     sample_maintenance sample_busy))) ''s'') = Some ''working''"
proof -
  let ?e = "sample_gateway_env (\<lambda>n. []) (Inr ''a'')"
  have id: "wo_id sample_maintenance = ''s''" "wo_agent sample_maintenance = ''maintenance''"
    "wo_stage sample_maintenance = Some ''maintenance''" "wo_status sample_maintenance = ''working''"
    by code_simp+
  have "at_work (Some (wo_id sample_maintenance)) False no_locals sample_busy"
    by (simp add: at_work_def doc_ok_def holds_order_def id sample_busy_def sample_runner_def document_def
        read_unlocked_def gated_def late_def late_stages_def order_at_def)
  from maintenance_order_never_finishes [OF this id(2,3),
      of ?e "snd (execute ?e sample_maintenance sample_busy)"] sample_maintenance_turn
  show ?thesis by (auto simp: sample_gateway_env_def id prod_eq_iff)
qed

text \<open>
  Cancelling the active order ends the worker: the handler writes the cancellation and raises it
  again, and nothing between the order's task and the loop catches it.
\<close>

theorem cancelled_order_ends_worker:
  assumes "suspend env (s\<lparr>rn_active := Some (wo_id w)\<rparr>) = (Inr (), s1)"
    and "execute_body env (wo_id w) (with_locals w s1) = (Inl CancelledError, x)"
  shows "\<not> returned (fst (run_order env w s))"
proof -
  have "wp (execute_work env (wo_id w)) (\<lambda>_ _. False) (\<lambda>_ _. True) (with_locals w s1)"
    using on_cancelled_raises [of env "wo_id w" x] assms(2)
    by (simp add: execute_work_def wp_def bindE_def tryE_def handle_exn_def)
  then have "wp (execute env w) (\<lambda>_ _. False) (\<lambda>_ _. True) s1"
    by (auto simp: wp_def execute_def split: prod.splits sum.splits)
  then have "wp (thenE (suspend env) (execute env w)) (\<lambda>_ _. False) (\<lambda>_ _. True) (s\<lparr>rn_active := Some (wo_id w)\<rparr>)"
    using assms(1) by (simp add: wp_thenE) (simp add: wp_def)
  note raised = this
  have "wp (run_order env w) (\<lambda>_ _. False) (\<lambda>_ _. True) s" unfolding run_order_def
    by (subst wp_thenE, subst wp_set_active, subst wp_bindE, subst wp_tryE, rule wp_mono [OF raised])
      (auto simp: wp_rules)
  then show ?thesis by (auto simp: wp_def returned_def split: prod.splits sum.splits)
qed

definition sample_cancelling :: gateway_env where
  "sample_cancelling = sample_gateway_env (\<lambda>n. if n = 1 then [CancelOrder (Some ''s'')] else []) (Inr ''a'')"

lemma sample_cancel:
  "fst (suspend sample_cancelling (sample_busy\<lparr>rn_active := Some ''s''\<rparr>)) = Inr ()"
  "fst (execute_body sample_cancelling ''s'' (with_locals sample_maintenance
     (snd (suspend sample_cancelling (sample_busy\<lparr>rn_active := Some ''s''\<rparr>))))) = Inl CancelledError"
  "wo_id sample_maintenance = ''s''"
  by code_simp+

theorem cancelled_order_ends_worker_witness:
  "\<not> returned (fst (run_order sample_cancelling sample_maintenance sample_busy))"
  using cancelled_order_ends_worker [where env = sample_cancelling and s = sample_busy and w = sample_maintenance, OF prod_eqI prod_eqI]
  by (simp add: sample_cancel)

end
