(* ===== verification/Signal_Process.thy ===== *)
theory Signal_Process
  imports Py_Prelude
begin

text \<open>
  src/src/quant_signal_agent/studio/gateway.py: \<open>SignalRuntimeController\<close>, which owns the process of
  the advisory signal runtime, its metadata file and the file that asks it to shut down.

  \<open>start\<close> and \<open>stop\<close> exclude each other by a lock. They may suspend for the lock, in the process
  factory and in \<open>asyncio.sleep\<close>; meanwhile other calls may select a signal, and the process may exit, which its
  watcher records. What the operating system answers at the \<open>n\<close>-th question is the environment's;
  the clock of the event loop moves by a sleep, at least as far as asked. The constant path of
  the log file is left out of the status.
\<close>

section \<open>State\<close>

text \<open>The metadata file; a missing or unreadable one reads as the empty dictionary.\<close>

record metadata =
  md_state :: "string option"
  md_pid :: "int option"
  md_birth :: "rat option"
  md_started_at :: "datetime option"
  md_signal_id :: "string option"
  md_signal_version :: "string option"
  md_return_code :: "int option"
  md_stopped_at :: "datetime option"

definition no_metadata :: metadata where
  "no_metadata = \<lparr>md_state = None, md_pid = None, md_birth = None, md_started_at = None,
     md_signal_id = None, md_signal_version = None, md_return_code = None, md_stopped_at = None\<rparr>"

record process =
  pr_pid :: int
  pr_code :: "int option"

text \<open>A started process: the signal and the version that its environment variables name.\<close>

record launch =
  la_signal :: string
  la_version :: "string option"

record controller =
  ct_file :: "metadata option"
  ct_shutdown :: bool
  ct_process :: "process option"
  ct_log_open :: bool
  ct_selected :: "string option"
  ct_version :: "string option"
  ct_time :: rat
  ct_launches :: "launch list"
  ct_ticks :: nat

record os_env =
  os_alive :: "nat \<Rightarrow> int \<Rightarrow> bool"
  os_birth :: "nat \<Rightarrow> int \<Rightarrow> rat option"
  os_launch :: "nat \<Rightarrow> exn + int"
  os_exit :: "nat \<Rightarrow> int option"
  os_now :: "nat \<Rightarrow> datetime"
  os_late :: "nat \<Rightarrow> rat"
  os_selections :: "nat \<Rightarrow> (string \<times> string option) list"

definition new_controller :: "metadata option \<Rightarrow> bool \<Rightarrow> rat \<Rightarrow> controller" where
  "new_controller file shutdown now = \<lparr>ct_file = file, ct_shutdown = shutdown, ct_process = None,
     ct_log_open = False, ct_selected = None, ct_version = None, ct_time = now, ct_launches = [], ct_ticks = 0\<rparr>"

definition select_signal :: "string \<Rightarrow> string option \<Rightarrow> controller \<Rightarrow> controller" where
  "select_signal i v c = c\<lparr>ct_selected := Some i, ct_version := v\<rparr>"

definition read_metadata :: "controller \<Rightarrow> metadata" where
  "read_metadata c = (case ct_file c of None \<Rightarrow> no_metadata | Some m \<Rightarrow> m)"

section \<open>Status\<close>

record runtime_status =
  rs_running :: bool
  rs_pid :: "int option"
  rs_started_at :: "datetime option"
  rs_detail :: string
  rs_signal_id :: "string option"
  rs_signal_version :: "string option"

definition pid_is_running :: "os_env \<Rightarrow> nat \<Rightarrow> int option \<Rightarrow> bool" where
  "pid_is_running os n pid = (case pid of None \<Rightarrow> False | Some p \<Rightarrow> 0 < p \<and> os_alive os n p)"

definition persisted_is_running :: "os_env \<Rightarrow> nat \<Rightarrow> int option \<Rightarrow> rat option \<Rightarrow> bool" where
  "persisted_is_running os n pid marker = (case (marker, pid) of
       (Some m, Some p) \<Rightarrow> pid_is_running os n pid \<and>
         (case os_birth os n p of None \<Rightarrow> False | Some b \<Rightarrow> \<bar>b - m\<bar> < 1)
     | _ \<Rightarrow> False)"

text \<open>\<open>process_pid or metadata.get("pid")\<close>, if its text is all digits\<close>

definition known_pid :: "controller \<Rightarrow> int option" where
  "known_pid c = (let v = (case ct_process c of
         Some p \<Rightarrow> if pr_pid p \<noteq> 0 then Some (pr_pid p) else md_pid (read_metadata c)
       | None \<Rightarrow> md_pid (read_metadata c))
     in case v of Some p \<Rightarrow> if 0 \<le> p then Some p else None | None \<Rightarrow> None)"

definition is_running :: "os_env \<Rightarrow> controller \<Rightarrow> bool" where
  "is_running os c = (case ct_process c of
       Some p \<Rightarrow> pr_code p = None
     | None \<Rightarrow> persisted_is_running os (ct_ticks c) (known_pid c) (md_birth (read_metadata c)))"

definition nonempty :: "string option \<Rightarrow> string option" where
  "nonempty v = (case v of Some [] \<Rightarrow> None | _ \<Rightarrow> v)"

definition status_of :: "os_env \<Rightarrow> controller \<Rightarrow> runtime_status" where
  "status_of os c = (let running = is_running os c; m = read_metadata c in
     \<lparr>rs_running = running, rs_pid = (if running then known_pid c else None),
      rs_started_at = md_started_at m,
      rs_detail = (if running then ''Binance public-data advisory runtime'' else ''Runtime stopped''),
      rs_signal_id = (if running then nonempty (md_signal_id m) else None),
      rs_signal_version = (if running then nonempty (md_signal_version m) else None)\<rparr>)"

text \<open>\<open>status\<close> also marks a process that is gone as stopped in the file.\<close>

definition status :: "os_env \<Rightarrow> controller \<Rightarrow> runtime_status \<times> controller" where
  "status os c = (let n = ct_ticks c; m = read_metadata c in
     (status_of os c,
      (if \<not> is_running os c \<and> md_state m = Some ''running''
       then c\<lparr>ct_file := Some (m\<lparr>md_state := Some ''stopped'', md_stopped_at := Some (os_now os n)\<rparr>)\<rparr>
       else c)\<lparr>ct_ticks := n + 1\<rparr>))"

section \<open>Suspensions\<close>

text \<open>\<open>_watch_process\<close>, when the process has exited\<close>

definition watch_process :: "os_env \<Rightarrow> nat \<Rightarrow> controller \<Rightarrow> controller" where
  "watch_process os n c = (case (ct_process c, os_exit os n) of
       (Some p, Some code) \<Rightarrow> if pr_code p \<noteq> None then c
         else c\<lparr>ct_process := Some (p\<lparr>pr_code := Some code\<rparr>), ct_log_open := False,
                ct_file := Some ((read_metadata c)\<lparr>md_state := Some ''stopped'', md_return_code := Some code,
                  md_stopped_at := Some (os_now os n)\<rparr>)\<rparr>
     | _ \<Rightarrow> c)"

definition pause :: "os_env \<Rightarrow> controller \<Rightarrow> controller" where
  "pause os c = (let n = ct_ticks c in
     watch_process os n (fold (\<lambda>(i, v). select_signal i v) (os_selections os n) (c\<lparr>ct_ticks := n + 1\<rparr>)))"

definition sleep :: "os_env \<Rightarrow> rat \<Rightarrow> controller \<Rightarrow> controller" where
  "sleep os d c = pause os (c\<lparr>ct_time := ct_time c + d + max 0 (os_late os (ct_ticks c))\<rparr>)"

section \<open>Start and stop\<close>

definition launched :: "int \<Rightarrow> string \<Rightarrow> string option \<Rightarrow> controller \<Rightarrow> controller" where
  "launched pid i v c = c\<lparr>ct_process := Some \<lparr>pr_pid = pid, pr_code = None\<rparr>,
     ct_launches := ct_launches c @ [\<lparr>la_signal = i, la_version = v\<rparr>]\<rparr>"

definition write_started :: "os_env \<Rightarrow> int \<Rightarrow> controller \<Rightarrow> controller" where
  "write_started os pid c = (let n = ct_ticks c in
     c\<lparr>ct_file := Some (no_metadata\<lparr>md_state := Some ''running'', md_pid := Some pid,
         md_birth := (if pid \<le> 0 then None else os_birth os n pid), md_started_at := Some (os_now os n),
         md_signal_id := ct_selected c, md_signal_version := ct_version c\<rparr>), ct_ticks := n + 1\<rparr>)"

text \<open>The process factory suspends; then the file takes the signal that is selected at that time.\<close>

definition start :: "os_env \<Rightarrow> (controller, runtime_status) eff" where
  "start os = (\<lambda>c. case status os (pause os c) of (current, c1) \<Rightarrow>
     if rs_running current then (Inr current, c1)
     else (let c2 = c1\<lparr>ct_shutdown := False\<rparr> in
       case ct_selected c2 of
         None \<Rightarrow> (Inl (RuntimeError ''No approved Signal Definition was selected''), c2)
       | Some i \<Rightarrow> (let c3 = pause os (c2\<lparr>ct_log_open := True\<rparr>) in
           case os_launch os (ct_ticks c2) of
             Inl e \<Rightarrow> (Inl e, c3\<lparr>ct_log_open := False\<rparr>)
           | Inr pid \<Rightarrow> (case status os (write_started os pid (launched pid i (ct_version c2) c3)) of
               (st, c4) \<Rightarrow> (Inr st, c4)))))"

lemma status_frame [simp]:
  "ct_time (snd (status os c)) = ct_time c" "ct_launches (snd (status os c)) = ct_launches c"
  "ct_selected (snd (status os c)) = ct_selected c" "ct_version (snd (status os c)) = ct_version c"
  "ct_process (snd (status os c)) = ct_process c" "ct_shutdown (snd (status os c)) = ct_shutdown c"
  by (simp_all add: status_def Let_def)

lemma selections_frame:
  "ct_time (fold (\<lambda>(i, v). select_signal i v) xs c) = ct_time c"
  "ct_launches (fold (\<lambda>(i, v). select_signal i v) xs c) = ct_launches c"
  "ct_shutdown (fold (\<lambda>(i, v). select_signal i v) xs c) = ct_shutdown c"
  by (induction xs arbitrary: c) (auto simp: select_signal_def)

lemma watch_frame [simp]:
  "ct_time (watch_process os n c) = ct_time c" "ct_launches (watch_process os n c) = ct_launches c"
  "ct_shutdown (watch_process os n c) = ct_shutdown c"
  by (cases "ct_process c"; cases "os_exit os n"; simp add: watch_process_def)+

lemma pause_frame [simp]:
  "ct_time (pause os c) = ct_time c" "ct_launches (pause os c) = ct_launches c"
  "ct_shutdown (pause os c) = ct_shutdown c"
  by (simp_all add: pause_def selections_frame Let_def)

lemma sleep_time: "ct_time c + d \<le> ct_time (sleep os d c)"
  by (simp add: sleep_def)

lemma runtime_sleep_frame [simp]:
  "ct_launches (sleep os d c) = ct_launches c" "ct_shutdown (sleep os d c) = ct_shutdown c"
  by (simp_all add: sleep_def)

text \<open>The loop of \<open>stop\<close> asks four times a second until the deadline.\<close>

function poll :: "os_env \<Rightarrow> rat \<Rightarrow> (controller, runtime_status) eff" where
  "poll os deadline c =
     (if ct_time c < deadline
      then (if \<not> rs_running (fst (status os c))
        then (Inr (fst (status os (snd (status os c)))), snd (status os (snd (status os c))))
        else poll os deadline (sleep os (1 / 4) (snd (status os c))))
      else (Inl (TimeoutError
        ''Signal runtime did not finish graceful shutdown; it was not force-terminated''), c))"
  by pat_completeness auto

termination
proof (relation "measure (\<lambda>(os, deadline, c). nat \<lceil>4 * (deadline - ct_time c)\<rceil>)")
  fix os deadline and c :: controller
  assume less: "ct_time c < deadline"
  let ?c = "sleep os (1 / 4) (snd (status os c))"
  have "ct_time c + 1 / 4 \<le> ct_time ?c" using sleep_time [of "snd (status os c)" "1 / 4" os] by simp
  then have le: "4 * (deadline - ct_time ?c) \<le> 4 * (deadline - ct_time c) - 1" by simp
  have "\<lceil>4 * (deadline - ct_time ?c)\<rceil> \<le> \<lceil>4 * (deadline - ct_time c)\<rceil> - 1"
    using ceiling_mono [OF le] by simp
  moreover have "0 < \<lceil>4 * (deadline - ct_time c)\<rceil>" using less by (simp add: zero_less_ceiling)
  ultimately show "((os, deadline, ?c), os, deadline, c)
      \<in> measure (\<lambda>(os, deadline, c). nat \<lceil>4 * (deadline - ct_time c)\<rceil>)" by simp
qed simp

declare poll.simps [simp del]

definition stop_timeout :: rat where
  "stop_timeout = 45"

definition stop :: "os_env \<Rightarrow> (controller, runtime_status) eff" where
  "stop os = (\<lambda>c. case status os (pause os c) of (current, c1) \<Rightarrow>
     if \<not> rs_running current then (Inr current, c1)
     else poll os (ct_time c1 + stop_timeout) (c1\<lparr>ct_shutdown := True\<rparr>))"

definition close_controller :: "controller \<Rightarrow> controller" where
  "close_controller c = c\<lparr>ct_log_open := False\<rparr>"

section \<open>Launches\<close>

text \<open>
  \<open>selects_only P c\<close>: the selection, if there is one, is one of \<open>P\<close>. Other calls select only such
  signals in an environment of \<open>selecting P\<close>.
\<close>

definition selects_only :: "(string \<Rightarrow> string option \<Rightarrow> bool) \<Rightarrow> controller \<Rightarrow> bool" where
  "selects_only P c \<longleftrightarrow> (\<forall>i. ct_selected c = Some i \<longrightarrow> P i (ct_version c))"

definition selecting :: "(string \<Rightarrow> string option \<Rightarrow> bool) \<Rightarrow> os_env \<Rightarrow> bool" where
  "selecting P os \<longleftrightarrow> (\<forall>n. \<forall>(i, v) \<in> set (os_selections os n). P i v)"

lemma selects_fold:
  "selects_only P c \<Longrightarrow> \<forall>(i, v) \<in> set xs. P i v \<Longrightarrow> selects_only P (fold (\<lambda>(i, v). select_signal i v) xs c)"
  by (induction xs arbitrary: c) (auto simp: selects_only_def select_signal_def)

lemma selects_watch [simp]: "selects_only P (watch_process os n c) = selects_only P c"
  by (cases "ct_process c"; cases "os_exit os n"; simp add: watch_process_def selects_only_def)

lemma selects_ticks [simp]: "selects_only P (c\<lparr>ct_ticks := n\<rparr>) = selects_only P c"
  "selects_only P (c\<lparr>ct_log_open := b\<rparr>) = selects_only P c"
  by (simp_all add: selects_only_def)

lemma selects_pause: "selecting P os \<Longrightarrow> selects_only P c \<Longrightarrow> selects_only P (pause os c)"
  by (simp add: pause_def Let_def selecting_def selects_fold)

lemma selects_status [simp]: "selects_only P (snd (status os c)) = selects_only P c"
  by (simp add: selects_only_def)

text \<open>A start launches nothing, or once the signal that is selected.\<close>

lemma start_launches:
  assumes "selecting P os" and "selects_only P c"
  shows "selects_only P (snd (start os c)) \<and>
     (\<exists>ls. ct_launches (snd (start os c)) = ct_launches c @ ls \<and> length ls \<le> 1 \<and>
        list_all (\<lambda>l. P (la_signal l) (la_version l)) ls)"
proof -
  obtain current c1 where st: "status os (pause os c) = (current, c1)" by (cases "status os (pause os c)")
  then have c1: "c1 = snd (status os (pause os c))" by simp
  then have ok: "selects_only P c1" "ct_launches c1 = ct_launches c" using selects_pause [OF assms] by simp_all
  let ?c2 = "c1\<lparr>ct_shutdown := False\<rparr>"
  let ?c3 = "pause os (?c2\<lparr>ct_log_open := True\<rparr>)"
  have ok2: "selects_only P ?c2" using ok(1) by (simp add: selects_only_def)
  have ok3: "selects_only P ?c3" by (rule selects_pause [OF assms(1)]) (use ok2 in simp)
  have frame: "selects_only P (?c3\<lparr>ct_log_open := False\<rparr>)" using ok3 by simp
  have started: "selects_only P (snd (status os (write_started os pid (launched pid i v ?c3))))" for pid i v
    using ok3 by (simp add: write_started_def launched_def selects_only_def Let_def)
  show ?thesis
  proof (cases "rs_running current \<or> ct_selected c1 = None")
    case True
    then show ?thesis using ok ok2 by (auto simp: start_def st Let_def)
  next
    case False
    then obtain i where i: "\<not> rs_running current" "ct_selected c1 = Some i" by auto
    then have P: "P i (ct_version c1)" using ok(1) by (simp add: selects_only_def)
    show ?thesis
    proof (cases "os_launch os (ct_ticks ?c2)")
      case (Inl e)
      with i frame ok show ?thesis by (simp add: start_def st Let_def)
    next
      case (Inr pid)
      let ?t = "write_started os pid (launched pid i (ct_version c1) ?c3)"
      have "start os c = (Inr (fst (status os ?t)), snd (status os ?t))"
        using i Inr by (simp add: start_def st Let_def split: prod.split)
      moreover have "ct_launches (snd (status os ?t)) = ct_launches c @ [\<lparr>la_signal = i, la_version = ct_version c1\<rparr>]"
        using ok by (simp add: write_started_def launched_def Let_def)
      ultimately show ?thesis using started [of pid i "ct_version c1"] P by simp
    qed
  qed
qed

lemma poll_launches:
  "selecting P os \<Longrightarrow> selects_only P c \<Longrightarrow>
     selects_only P (snd (poll os deadline c)) \<and> ct_launches (snd (poll os deadline c)) = ct_launches c"
proof (induction os deadline c rule: poll.induct)
  case (1 os deadline c)
  let ?c = "sleep os (1 / 4) (snd (status os c))"
  have c: "selects_only P ?c"
    unfolding sleep_def by (rule selects_pause [OF 1(2)]) (use 1(3) in \<open>simp add: selects_only_def\<close>)
  show ?case
    using 1 c by (subst poll.simps, subst (2) poll.simps) simp
qed

lemma stop_launches:
  assumes "selecting P os" and "selects_only P c"
  shows "selects_only P (snd (stop os c)) \<and> ct_launches (snd (stop os c)) = ct_launches c"
proof -
  obtain current c1 where st: "status os (pause os c) = (current, c1)" by (cases "status os (pause os c)")
  then have c1: "c1 = snd (status os (pause os c))" by simp
  then have ok: "selects_only P c1" "ct_launches c1 = ct_launches c" using selects_pause [OF assms] by simp_all
  then have "selects_only P (c1\<lparr>ct_shutdown := True\<rparr>)" by (simp add: selects_only_def)
  from poll_launches [OF assms(1) this] ok show ?thesis by (simp add: stop_def st)
qed

text \<open>A start while the runtime runs launches nothing, whatever is selected.\<close>

lemma start_running:
  "is_running os (pause os c) \<Longrightarrow> start os c = (Inr (status_of os (pause os c)), snd (status os (pause os c)))"
  by (simp add: start_def status_def status_of_def Let_def)

end
