(* ===== verification/Manager_Routing.thy ===== *)
theory Manager_Routing
  imports Work_Order
begin

text \<open>
  src/src/quant_signal_agent/studio/gateway.py: how \<open>StudioService\<close> turns a chat message into a
  \<open>ManagerDecision\<close>: the safety rules, the explicit cancellation of an active agent, the semantic
  router's answer and the bounded fallback.

  The regular expressions match words in Chinese and English in the lowered message; Latin-1
  strings have no Chinese words, so each of them is a predicate of \<open>recognizers\<close>. What the router
  answers is a parameter; a confidence is a rational number, because \<open>_parse\<close> limits it to 0 to 1.
\<close>

section \<open>Decisions\<close>

record manager_decision =
  de_action :: string
  de_target_agent :: "string option"
  de_strategy_id :: "string option"
  de_work_order_id :: "string option"
  de_rationale :: string
  de_confidence :: rat
  de_artifact_id :: "string option"
  de_backtest :: "bool option"

definition decision :: "string \<Rightarrow> string \<Rightarrow> rat \<Rightarrow> manager_decision" where
  "decision action target confidence = \<lparr>de_action = action, de_target_agent = Some target,
     de_strategy_id = None, de_work_order_id = None, de_rationale = [], de_confidence = confidence,
     de_artifact_id = None, de_backtest = None\<rparr>"

definition manager_actions :: "string list" where
  "manager_actions = [''add_signal'', ''add_strategy'', ''modify_signal'', ''modify_strategy'', ''start_signal'',
     ''stop_signal'', ''resume_codex_work'', ''cancel_work_order'', ''request_agent_data'', ''maintenance'',
     ''prohibited_trading'', ''prohibited_core_change'', ''off_topic'', ''clarify'']"

text \<open>\<open>CodexManagerRouter._parse\<close>, behind \<open>json.loads\<close>\<close>

definition text_field :: "(string \<times> pyval) list \<Rightarrow> string \<Rightarrow> string option" where
  "text_field d k = (case dict_get d k of PStr s \<Rightarrow> Some s | _ \<Rightarrow> None)"

text \<open>\<open>max(0.0, min(1.0, float(confidence)))\<close>: a comparison with a not-a-number is false.\<close>

fun limited :: "pyfloat \<Rightarrow> rat" where
  "limited (Fin r) = max 0 (min 1 r)"
| "limited PInf = 1"
| "limited NInf = 0"
| "limited NaN = 1"

definition parse_confidence :: "pyval \<Rightarrow> exn + rat" where
  "parse_confidence v = (case v of
       PInt i \<Rightarrow> if float_overflows i then Inl (OverflowError ''int too large to convert to float'')
                 else Inr (limited (Fin (of_int i)))
     | PBool b \<Rightarrow> Inr (if b then 1 else 0)
     | PFloat f \<Rightarrow> Inr (limited f)
     | _ \<Rightarrow> Inl (ValueError ''Manager router returned invalid confidence''))"

definition known_action :: "pyval \<Rightarrow> exn + bool" where
  "known_action v = map_sum id (\<lambda>k. k \<in> set (map PStr manager_actions)) (dict_key v)"

definition parse_fields :: "std_env \<Rightarrow> (string \<times> pyval) list \<Rightarrow> rat \<Rightarrow> manager_decision" where
  "parse_fields std d confidence =
     \<lparr>de_action = py_str std (dict_get d ''action''), de_target_agent = text_field d ''target_agent'',
      de_strategy_id = text_field d ''strategy_id'', de_work_order_id = text_field d ''work_order_id'',
      de_rationale = (case map_of d ''rationale'' of None \<Rightarrow> [] | Some v \<Rightarrow> py_str std v),
      de_confidence = confidence, de_artifact_id = text_field d ''artifact_id'',
      de_backtest = (case dict_get d ''backtest_required'' of PBool b \<Rightarrow> Some b | _ \<Rightarrow> None)\<rparr>"

definition parse_decision :: "std_env \<Rightarrow> pyval \<Rightarrow> exn + manager_decision" where
  "parse_decision std v = (case v of
       PDict d \<Rightarrow> (case known_action (dict_get d ''action'') of
           Inl e \<Rightarrow> Inl e
         | Inr False \<Rightarrow> Inl (ValueError ''Manager router returned an invalid action'')
         | Inr True \<Rightarrow> map_sum id (parse_fields std d) (parse_confidence (dict_get d ''confidence'')))
     | _ \<Rightarrow> Inl (ValueError ''Manager router returned an invalid action''))"

section \<open>Recognizers\<close>

record recognizers =
  rx_trading :: "string \<Rightarrow> bool"
  rx_core_change :: "string \<Rightarrow> bool"
  rx_without_backtest :: "string \<Rightarrow> bool"
  rx_with_backtest :: "string \<Rightarrow> bool"
  rx_end :: "string \<Rightarrow> bool"
  rx_agent :: "string \<Rightarrow> string \<Rightarrow> bool"
  rx_modifies :: "string \<Rightarrow> bool"
  rx_signal :: "string \<Rightarrow> bool"
  rx_strategy :: "string \<Rightarrow> bool"
  rx_creates :: "string \<Rightarrow> bool"
  rx_new_signal :: "string \<Rightarrow> bool"
  rx_trading_strategy :: "string \<Rightarrow> bool"
  rx_new_strategy :: "string \<Rightarrow> bool"
  rx_named_stop :: "string \<Rightarrow> string option"
  rx_start :: "string \<Rightarrow> bool"
  rx_runtime :: "string \<Rightarrow> bool"
  rx_stop :: "string \<Rightarrow> bool"
  rx_runtime_or_agent :: "string \<Rightarrow> bool"
  rx_bare_stop :: "string \<Rightarrow> bool"
  rx_fault :: "string \<Rightarrow> bool"
  rx_quota_reset :: "string \<Rightarrow> bool"
  rx_report :: "string \<Rightarrow> bool"
  rx_factor :: "string \<Rightarrow> bool"

definition hard_safety_decision :: "recognizers \<Rightarrow> string \<Rightarrow> manager_decision option" where
  "hard_safety_decision rx instruction = (let lowered = str_lower instruction in
     if rx_trading rx lowered then Some (decision ''prohibited_trading'' ''trading'' 1)
     else if rx_core_change rx lowered then Some (decision ''prohibited_core_change'' ''manager'' 1)
     else None)"

definition backtest_preference :: "recognizers \<Rightarrow> string \<Rightarrow> bool option" where
  "backtest_preference rx instruction = (let lowered = str_lower instruction in
     if rx_without_backtest rx lowered then Some False
     else if rx_with_backtest rx lowered then Some True else None)"

definition artifact_actions :: "string list" where
  "artifact_actions = [''add_signal'', ''add_strategy'', ''modify_signal'', ''modify_strategy'']"

definition with_backtest_preference :: "recognizers \<Rightarrow> manager_decision \<Rightarrow> string \<Rightarrow> manager_decision" where
  "with_backtest_preference rx d instruction =
     (if de_action d \<notin> set artifact_actions then d
      else case backtest_preference rx instruction of None \<Rightarrow> d | Some b \<Rightarrow> d\<lparr>de_backtest := Some b\<rparr>)"

section \<open>The owner of an active order\<close>

definition stage_owner :: "string \<Rightarrow> string option" where
  "stage_owner = map_of [(''strategy'', ''strategy''), (''review_implementation'', ''review''),
     (''backtest'', ''backtest''), (''review_backtest'', ''review''), (''optimize'', ''optimize''),
     (''maintenance'', ''maintenance'')]"

definition is_active :: "order_doc \<Rightarrow> bool" where
  "is_active w \<longleftrightarrow> wo_status w \<in> {''queued'', ''working''}"

definition order_owner :: "order_doc \<Rightarrow> string" where
  "order_owner w = (case stage_owner (current_stage w) of
       Some o' \<Rightarrow> o'
     | None \<Rightarrow> if wo_agent w = [] then ''manager'' else wo_agent w)"

definition active_owner :: "order_doc list \<Rightarrow> string option \<Rightarrow> string option" where
  "active_owner ws identifier = map_option order_owner
     (find (\<lambda>w. is_active w \<and> (identifier = None \<or> identifier = Some (wo_id w))) (rev ws))"

definition agent_names :: "string list" where
  "agent_names = [''backtest'', ''strategy'', ''review'', ''optimize'', ''maintenance'']"

definition cancel_active_decision :: "recognizers \<Rightarrow> string \<Rightarrow> order_doc list \<Rightarrow> manager_decision option" where
  "cancel_active_decision rx instruction ws = (let lowered = str_lower instruction in
     if \<not> rx_end rx lowered then None
     else case find (\<lambda>a. rx_agent rx a lowered) agent_names of
         None \<Rightarrow> None
       | Some owner \<Rightarrow>
           map_option (\<lambda>w. (decision ''cancel_work_order'' owner 1)\<lparr>de_work_order_id := Some (wo_id w),
               de_rationale := ''explicit stop for active '' @ owner @ '' stage''\<rparr>)
             (find (\<lambda>w. is_active w \<and> active_owner [w] (Some (wo_id w)) = Some owner) (rev ws)))"

section \<open>Names of artifacts\<close>

definition slug_char :: "char \<Rightarrow> bool" where
  "slug_char c \<longleftrightarrow> is_lower_ascii c \<or> is_digit_ascii c"

text \<open>\<open>re.sub("[^a-z0-9]+", "-", \<dots>)\<close>; the flag tells whether a run is being replaced.\<close>

fun dashed :: "bool \<Rightarrow> string \<Rightarrow> string" where
  "dashed run [] = []"
| "dashed run (c # cs) =
     (if slug_char c then c # dashed False cs
      else if run then dashed True cs else CHR ''-'' # dashed True cs)"

definition artifact_key :: "string \<Rightarrow> string" where
  "artifact_key s = (let trim = dropWhile (\<lambda>c. c = CHR ''-'') in
     rev (trim (rev (trim (dashed False (str_lower s))))))"

text \<open>\<open>(?:^|[^a-z0-9])ID(?:$|[^a-z0-9])\<close>; the flag tells whether the character before is one of an ID.\<close>

fun names_key :: "string \<Rightarrow> bool \<Rightarrow> string \<Rightarrow> bool" where
  "names_key k after [] = (\<not> after \<and> k = [])"
| "names_key k after (c # cs) =
     (\<not> after \<and> take (length k) (c # cs) = k \<and>
        (case drop (length k) (c # cs) of [] \<Rightarrow> True | d # _ \<Rightarrow> \<not> slug_char d) \<or>
      names_key k (slug_char c) cs)"

definition keyed_artifacts :: "string list \<Rightarrow> (string \<times> string) list" where
  "keyed_artifacts available = fold (\<lambda>i d. AList.update (artifact_key i) i d) available []"

definition match_artifact :: "(string \<times> string) list \<Rightarrow> string \<Rightarrow> string option" where
  "match_artifact keyed candidate = (let key = artifact_key candidate in
     case map_of keyed key of
       Some i \<Rightarrow> Some i
     | None \<Rightarrow> map_option snd (find (\<lambda>(k, i). names_key k False key) keyed))"

definition resolve_artifact :: "string list \<Rightarrow> string option \<Rightarrow> string \<Rightarrow> string option" where
  "resolve_artifact available requested instruction = (let keyed = keyed_artifacts available in
     case (if present requested then Option.bind requested (match_artifact keyed) else None) of
       Some i \<Rightarrow> Some i
     | None \<Rightarrow> match_artifact keyed instruction)"

section \<open>The fallback\<close>

definition is_create_signal :: "recognizers \<Rightarrow> string \<Rightarrow> bool" where
  "is_create_signal rx s \<longleftrightarrow> rx_creates rx s \<and> rx_new_signal rx s \<and> \<not> rx_trading_strategy rx s"

definition is_create_strategy :: "recognizers \<Rightarrow> string \<Rightarrow> bool" where
  "is_create_strategy rx s \<longleftrightarrow> (rx_creates rx s \<or> contains ''spec.md'' s) \<and> rx_new_strategy rx s"

definition named_stop :: "recognizers \<Rightarrow> string list \<Rightarrow> string \<Rightarrow> string option" where
  "named_stop rx signals instruction = Option.bind (rx_named_stop rx (str_lower instruction))
     (\<lambda>name. resolve_artifact signals (Some name) instruction)"

definition with_signal :: "string option \<Rightarrow> manager_decision \<Rightarrow> manager_decision" where
  "with_signal i d = d\<lparr>de_strategy_id := i\<rparr>"

definition fallback_topics :: "recognizers \<Rightarrow> string \<Rightarrow> manager_decision" where
  "fallback_topics rx lowered =
     (if rx_fault rx lowered then decision ''maintenance'' ''maintenance'' (8 / 10)
      else if rx_quota_reset rx lowered then decision ''resume_codex_work'' ''manager'' 1
      else if rx_report rx lowered then decision ''request_agent_data'' ''manager'' (8 / 10)
      else if rx_factor rx lowered then decision ''add_strategy'' ''strategy'' (8 / 10)
      else decision ''off_topic'' ''manager'' (5 / 10))"

definition fallback_rest :: "recognizers \<Rightarrow> order_doc list \<Rightarrow> string \<Rightarrow> manager_decision" where
  "fallback_rest rx ws lowered =
     (case filter is_active ws of
        [w] \<Rightarrow> if rx_bare_stop rx lowered
          then (decision ''cancel_work_order'' (wo_agent w) (8 / 10))\<lparr>de_work_order_id := Some (wo_id w)\<rparr>
          else fallback_topics rx lowered
      | _ \<Rightarrow> fallback_topics rx lowered)"

definition fallback_runtime ::
  "recognizers \<Rightarrow> string list \<Rightarrow> order_doc list \<Rightarrow> string \<Rightarrow> manager_decision"
where
  "fallback_runtime rx signals ws instruction = (let lowered = str_lower instruction in
     case named_stop rx signals instruction of
       Some i \<Rightarrow> with_signal (Some i) (decision ''stop_signal'' ''signal'' (95 / 100))
     | None \<Rightarrow>
         if rx_start rx lowered \<and> rx_runtime rx lowered
         then with_signal (resolve_artifact signals None instruction) (decision ''start_signal'' ''signal'' (9 / 10))
         else if rx_stop rx lowered \<and> rx_runtime_or_agent rx lowered
         then decision ''stop_signal'' ''signal'' (9 / 10)
         else fallback_rest rx ws lowered)"

definition fallback_decision ::
  "recognizers \<Rightarrow> string list \<Rightarrow> order_doc list \<Rightarrow> string \<Rightarrow> manager_decision"
where
  "fallback_decision rx signals ws instruction = (let lowered = str_lower instruction in
     if rx_modifies rx lowered \<and> rx_signal rx lowered then decision ''modify_signal'' ''strategy'' (9 / 10)
     else if rx_modifies rx lowered \<and> rx_strategy rx lowered then decision ''modify_strategy'' ''strategy'' (9 / 10)
     else if is_create_signal rx lowered then decision ''add_signal'' ''strategy'' (9 / 10)
     else if is_create_strategy rx lowered then decision ''add_strategy'' ''strategy'' (9 / 10)
     else fallback_runtime rx signals ws instruction)"

section \<open>Routing\<close>

text \<open>
  What the semantic router gives: \<open>RouterFailed\<close> is an exception of one of the four classes that
  are caught (with the name of its class), \<open>RouterBroken\<close> any other.
\<close>

datatype router_answer = NoRouter | Routed manager_decision | RouterFailed string | RouterBroken exn

definition bounded_fallback :: "string \<Rightarrow> manager_decision \<Rightarrow> manager_decision" where
  "bounded_fallback why d = d\<lparr>de_rationale := why @ ''; used high-confidence bounded fallback''\<rparr>"

definition router_unavailable :: "string \<Rightarrow> manager_decision" where
  "router_unavailable kind = (decision ''clarify'' ''manager'' 0)
     \<lparr>de_rationale := ''semantic router unavailable: '' @ kind\<rparr>"

definition semantic_decision ::
  "recognizers \<Rightarrow> string \<Rightarrow> manager_decision \<Rightarrow> router_answer \<Rightarrow> exn + manager_decision"
where
  "semantic_decision rx instruction fallback answer = (case answer of
       NoRouter \<Rightarrow> Inr (with_backtest_preference rx fallback instruction)
     | RouterBroken e \<Rightarrow> Inl e
     | RouterFailed kind \<Rightarrow> Inr (if 8 / 10 \<le> de_confidence fallback
         then with_backtest_preference rx
           (bounded_fallback (''semantic router unavailable ('' @ kind @ '')'') fallback) instruction
         else router_unavailable kind)
     | Routed d \<Rightarrow> Inr (
         if de_action d \<in> {''clarify'', ''off_topic''} \<and> de_confidence d < 6 / 10 \<and> 8 / 10 \<le> de_confidence fallback
         then with_backtest_preference rx
           (bounded_fallback (''semantic router was low-confidence ('' @ de_action d @ '')'') fallback) instruction
         else with_backtest_preference rx d instruction))"

text \<open>\<open>_route_manager_instruction\<close>\<close>

definition route_instruction ::
  "recognizers \<Rightarrow> string list \<Rightarrow> order_doc list \<Rightarrow> string \<Rightarrow> router_answer \<Rightarrow> exn + manager_decision"
where
  "route_instruction rx signals ws instruction answer = (case hard_safety_decision rx instruction of
       Some d \<Rightarrow> Inr d
     | None \<Rightarrow> (case cancel_active_decision rx instruction ws of
         Some d \<Rightarrow> Inr d
       | None \<Rightarrow> semantic_decision rx instruction (fallback_decision rx signals ws instruction) answer))"

end
