(* ===== verification/Studio_Service.thy ===== *)
theory Studio_Service
  imports Order_Runner Signal_Process Manager_Routing
begin

text \<open>
  src/src/quant_signal_agent/studio/gateway.py: \<open>StudioService\<close>, which answers the user's messages:
  it routes a message, starts or stops the signal runtime or asks the runner, and persists the
  message with the answer. Its state is the runner's and that of the runtime's controller.

  A message suspends in the router, in the runner and in the controller; other requests of the
  gateway run there (\<open>between\<close>). The text of an answer is a constructor of \<open>reply\<close>.
\<close>

section \<open>State and environment\<close>

record studio = runner +
  st_runtime :: controller

type_synonym 'a service = "(studio, 'a) eff"

text \<open>
  \<open>sv_listing\<close> gives the directories below a path with the stems of their \<open>.toml\<close> files, none when
  the path is no directory; \<open>sv_modification\<close> is the sentence of a modification order.
\<close>

record service_env =
  sv_gateway :: gateway_env
  sv_os :: os_env
  sv_rx :: recognizers
  sv_router :: "(nat \<Rightarrow> router_answer) option"
  sv_has_worker :: bool
  sv_listing :: "nat \<Rightarrow> string \<Rightarrow> (string \<times> string list) list"
  sv_modification :: "string \<Rightarrow> string \<Rightarrow> string \<Rightarrow> string"

definition on_runtime :: "(controller, 'a) eff \<Rightarrow> 'a service" where
  "on_runtime m = (\<lambda>s. case m (st_runtime s) of (r, c) \<Rightarrow> (r, s\<lparr>st_runtime := c\<rparr>))"

definition between :: "service_env \<Rightarrow> unit service" where
  "between env = bindE tick (\<lambda>n.
     mapE (\<lambda>rq. answered (exec_request (sv_gateway env) rq)) (ge_meanwhile (sv_gateway env) n))"

definition runtime_status_of :: "service_env \<Rightarrow> runtime_status service" where
  "runtime_status_of env = on_runtime (\<lambda>c. case status (sv_os env) c of (st, c') \<Rightarrow> (Inr st, c'))"

section \<open>Artifacts\<close>

definition artifact_directory :: "string \<Rightarrow> string" where
  "artifact_directory kind = (if kind = ''signal'' then ''signals'' else ''strategies'') @ ''/implemented''"

definition registered_artifacts :: "(string \<Rightarrow> (string \<times> string list) list) \<Rightarrow> string \<Rightarrow> string list" where
  "registered_artifacts listing kind = sort (remdups (map fst
     (filter (\<lambda>(i, stems). stems \<noteq> []) (listing (artifact_directory kind)))))"

record live_entry =
  le_id :: string
  le_kind :: string
  le_version :: "string option"
  le_running :: bool
  le_status :: string

text \<open>\<open>_live_registry\<close>: the versions are looked up below \<open>f"{artifact_kind}s"\<close>.\<close>

definition listed_version :: "(string \<Rightarrow> (string \<times> string list) list) \<Rightarrow> string \<Rightarrow> string \<Rightarrow> string option" where
  "listed_version listing kind i =
     (case sort (case map_of (listing (kind @ ''s/implemented'')) i of None \<Rightarrow> [] | Some stems \<Rightarrow> stems) of
        [] \<Rightarrow> None
      | v # vs \<Rightarrow> Some (last (v # vs)))"

definition live_entry_of ::
  "(string \<Rightarrow> (string \<times> string list) list) \<Rightarrow> (string \<times> string) list \<Rightarrow> runtime_status \<Rightarrow> string \<Rightarrow> string \<Rightarrow> live_entry"
where
  "live_entry_of listing approved st kind i =
     (let ver = listed_version listing kind i;
          running = (kind = ''signal'' \<and> rs_running st \<and> rs_signal_id st = Some i \<and>
            (rs_signal_version st = None \<or> ver = rs_signal_version st));
          is_approved = (kind = ''signal'' \<and> i \<in> set (map fst approved))
      in \<lparr>le_id = i, le_kind = kind, le_version = ver, le_running = running,
          le_status = (if running then ''RUNNING'' else if is_approved then ''APPROVED'' else ''IMPLEMENTED'')\<rparr>)"

definition live_registry ::
  "(string \<Rightarrow> (string \<times> string list) list) \<Rightarrow> (string \<times> string) list \<Rightarrow> runtime_status \<Rightarrow> live_entry list"
where
  "live_registry listing approved st = concat (map (\<lambda>kind.
     map (live_entry_of listing approved st kind) (registered_artifacts listing kind)) [''signal'', ''strategy''])"

section \<open>Answers\<close>

record answer =
  an_reply :: reply
  an_denied :: bool
  an_handoff :: "string option"
  an_action :: "string option"

definition denial :: "reply \<Rightarrow> string option \<Rightarrow> answer" where
  "denial r action = \<lparr>an_reply = r, an_denied = True, an_handoff = None, an_action = action\<rparr>"

definition result :: "reply \<Rightarrow> string \<Rightarrow> string \<Rightarrow> answer" where
  "result r handoff action = \<lparr>an_reply = r, an_denied = False, an_handoff = Some handoff, an_action = Some action\<rparr>"

text \<open>\<open>a or b\<close> of two optional strings\<close>

definition or_else :: "string option \<Rightarrow> string option \<Rightarrow> string option" where
  "or_else a b = (if present a then a else b)"

section \<open>The runtime\<close>

definition stop_signal :: "service_env \<Rightarrow> manager_decision \<Rightarrow> answer service" where
  "stop_signal env d = (let requested = or_else (de_strategy_id d) (de_artifact_id d) in
     bindE (runtime_status_of env) (\<lambda>current.
     case (if rs_running current \<and> rs_signal_id current \<noteq> requested then requested else None) of
       Some i \<Rightarrow> ret (denial (OtherSignalRuns (rs_signal_id current) i) (Some ''stop_signal''))
     | None \<Rightarrow> bindE (on_runtime (stop (sv_os env))) (\<lambda>st.
         ret (result (if rs_running st then SignalStopping else SignalStopped) ''signal'' ''stop_signal''))))"

definition signal_name :: "string option \<Rightarrow> string" where
  "signal_name requested = (case requested of None \<Rightarrow> []
     | Some r \<Rightarrow> map (\<lambda>c. if c = CHR ''_'' then CHR ''-'' else c) (str_lower r))"

definition approved_now :: "service_env \<Rightarrow> nat \<Rightarrow> gateway_state \<Rightarrow> studio \<Rightarrow> (string \<times> string) list" where
  "approved_now env n v s = approved_signal_versions (ge_std (sv_gateway env))
     (ge_workspace (sv_gateway env) n) (rn_registry s) v"

definition start_signal :: "service_env \<Rightarrow> nat \<Rightarrow> gateway_state \<Rightarrow> manager_decision \<Rightarrow> answer service" where
  "start_signal env n v d = (let i = signal_name (or_else (de_strategy_id d) (de_artifact_id d)) in
     bindE (getE (approved_now env n v)) (\<lambda>approved.
     if i = [] then ret (denial SignalIdMissing None)
     else case map_of approved i of
         None \<Rightarrow> ret (denial (SignalNotApproved i) None)
       | Some ver \<Rightarrow>
           thenE (on_runtime (modifyE (select_signal i (Some ver))))
          (bindE (on_runtime (start (sv_os env))) (\<lambda>st.
           ret (result (SignalStarted i (rs_pid st)) ''signal'' ''start_signal'')))))"

section \<open>The runner and reports\<close>

definition cancel_work :: "service_env \<Rightarrow> gateway_state \<Rightarrow> manager_decision \<Rightarrow> answer service" where
  "cancel_work env v d =
     (if \<not> sv_has_worker env then ret (denial NoRunner None)
      else bindE read_store (\<lambda>now. let cancelled = cancel_candidates (de_work_order_id d) now in
        thenE (exec_request (sv_gateway env) (CancelOrder (de_work_order_id d)))
       (thenE (between env)
         (ret (result (OrderCancelled (hd cancelled))
           (case (active_owner (gs_orders v) (de_work_order_id d), de_target_agent d) of
              (Some (c # cs), _) \<Rightarrow> c # cs
            | (_, Some (c # cs)) \<Rightarrow> c # cs
            | _ \<Rightarrow> ''manager'') ''cancel_work_order'')))))"

definition resume_work :: "service_env \<Rightarrow> manager_decision \<Rightarrow> answer service" where
  "resume_work env d =
     (if \<not> sv_has_worker env then ret (denial NoQueueRunner (Some (de_action d)))
      else bindE read_store (\<lambda>now.
        let resumed = map wo_id (filter (resumable (de_work_order_id d)) (gs_orders now)) in
        thenE (exec_request (sv_gateway env) (ResumeQueue (de_work_order_id d)))
        (ret (result (if resumed = [] then NothingToResume else QueueResumed resumed) ''review'' (de_action d)))))"

definition count_status :: "string \<Rightarrow> gateway_state \<Rightarrow> int" where
  "count_status st v = int (length (filter (\<lambda>w. wo_status w = st) (gs_orders v)))"

definition report_status :: "service_env \<Rightarrow> gateway_state \<Rightarrow> answer service" where
  "report_status env v = bindE (runtime_status_of env) (\<lambda>st.
     ret (result (Report (rs_running st) (rs_pid st) (count_status ''queued'' v) (count_status ''working'' v)
       (count_status ''awaiting_review'' v)) ''maintenance'' ''request_agent_data''))"

section \<open>New orders\<close>

definition wants_backtest :: "manager_decision \<Rightarrow> bool" where
  "wants_backtest d = (case de_backtest d of None \<Rightarrow> True | Some b \<Rightarrow> b)"

text \<open>The order's identifier, for the answer: the kind and the formatted time.\<close>

definition order_name :: "string \<Rightarrow> string \<Rightarrow> string" where
  "order_name kind stamp = kind @ ''-'' @ stamp"

definition add_artifact :: "string \<Rightarrow> string \<Rightarrow> manager_decision \<Rightarrow> string \<Rightarrow> answer \<times> request" where
  "add_artifact stamp instruction d kind =
     (let i = order_name kind stamp;
          r = (if kind = ''signal'' then SignalOrderCreated i (wants_backtest d)
               else StrategyOrderCreated i (wants_backtest d))
      in (result r ''strategy'' (de_action d),
          AddOrder stamp instruction (ResearchWork kind (wants_backtest d) None) (Instruction instruction) r None))"

definition modify_artifact ::
  "service_env \<Rightarrow> nat \<Rightarrow> string \<Rightarrow> string \<Rightarrow> manager_decision \<Rightarrow> string \<Rightarrow> answer \<times> request"
where
  "modify_artifact env n stamp instruction d kind =
     (let available = registered_artifacts (sv_listing env n) kind in
      case resolve_artifact available (de_artifact_id d) instruction of
        None \<Rightarrow> (let r = ArtifactUnclear kind available in
          (denial r (Some (de_action d)), Talk (Instruction instruction) r))
      | Some i \<Rightarrow> (let r = ModificationCreated kind i (order_name kind stamp) (wants_backtest d) in
          (result r ''strategy'' (de_action d),
           AddOrder stamp (sv_modification env kind i instruction) (ResearchWork kind (wants_backtest d) (Some i))
             (Instruction instruction) r None)))"

definition maintain :: "string \<Rightarrow> string \<Rightarrow> answer \<times> request" where
  "maintain stamp instruction = (let r = MaintenanceCreated (order_name ''maintenance'' stamp) in
     (result r ''maintenance'' ''manage_workflow'',
      AddOrder stamp instruction MaintenanceWork (Instruction instruction) r None))"

section \<open>One message\<close>

definition max_message_length :: nat where
  "max_message_length = 4000"

text \<open>What the decision asks for: the answer, and the request that persists it.\<close>

definition talk :: "string \<Rightarrow> answer \<Rightarrow> answer \<times> request" where
  "talk instruction ans = (ans, Talk (Instruction instruction) (an_reply ans))"

definition perform ::
  "service_env \<Rightarrow> nat \<Rightarrow> string \<Rightarrow> string \<Rightarrow> gateway_state \<Rightarrow> manager_decision \<Rightarrow> (answer \<times> request) service"
where
  "perform env n stamp instruction v d = (let action = de_action d;
       talking = (\<lambda>m. bindE m (\<lambda>ans. ret (talk instruction ans)))
     in if action = ''prohibited_trading'' then ret (talk instruction (denial TradingDenied None))
        else if action = ''prohibited_core_change'' then ret (talk instruction (denial CoreChangeDenied None))
        else if action = ''maintenance'' then ret (maintain stamp instruction)
        else if action = ''stop_signal'' then talking (stop_signal env d)
        else if action = ''start_signal'' then talking (start_signal env n v d)
        else if action = ''resume_codex_work'' then talking (resume_work env d)
        else if action = ''cancel_work_order'' then talking (cancel_work env v d)
        else if action = ''request_agent_data'' then talking (report_status env v)
        else if action = ''add_signal'' then ret (add_artifact stamp instruction d ''signal'')
        else if action = ''add_strategy'' then ret (add_artifact stamp instruction d ''strategy'')
        else if action = ''modify_signal'' then ret (modify_artifact env n stamp instruction d ''signal'')
        else if action = ''modify_strategy'' then ret (modify_artifact env n stamp instruction d ''strategy'')
        else if action = ''clarify'' \<or> de_confidence d < 6 / 10
        then ret (talk instruction (denial (Clarify (strip (de_rationale d))) None))
        else ret (talk instruction (denial OffTopic None)))"

text \<open>
  The router is asked with a context that contains the status of the runtime.
\<close>

definition consult :: "service_env \<Rightarrow> string \<Rightarrow> order_doc list \<Rightarrow> unit service" where
  "consult env instruction ws =
     (if hard_safety_decision (sv_rx env) instruction = None \<and>
         cancel_active_decision (sv_rx env) instruction ws = None \<and> sv_router env \<noteq> None
      then bindE (runtime_status_of env) (\<lambda>_. ret ()) else ret ())"

definition router_says :: "service_env \<Rightarrow> nat \<Rightarrow> router_answer" where
  "router_says env n = (case sv_router env of None \<Rightarrow> NoRouter | Some answer_at \<Rightarrow> answer_at n)"

text \<open>\<open>handle_manager_message\<close>; \<open>stamp\<close> is the formatted time of an order it creates.\<close>

definition handle_message :: "service_env \<Rightarrow> string \<Rightarrow> string \<Rightarrow> answer service" where
  "handle_message env stamp text_in = (let instruction = strip text_in in
     thenE (guardE (instruction \<noteq> []) (ValueError ''message is required''))
    (thenE (guardE (length instruction \<le> max_message_length) (ValueError
        (''message exceeds '' @ str_of_nat max_message_length @ '' characters'')))
    (bindE read_store (\<lambda>v.
     thenE (consult env instruction (gs_orders v))
    (thenE (between env)
    (bindE tick (\<lambda>n.
     case route_instruction (sv_rx env) (registered_artifacts (sv_listing env n) ''signal'') (gs_orders v)
            instruction (router_says env n) of
       Inl e \<Rightarrow> raise e
     | Inr d \<Rightarrow> bindE (perform env n stamp instruction v d) (\<lambda>(ans, rq).
         thenE (exec_request (sv_gateway env) rq) (ret ans)))))))))"

end
