(* ===== verification/Service_Properties.thy ===== *)
theory Service_Properties
  imports Order_Properties Studio_Service
begin

text \<open>
  The properties of the message service and of the runtime's process: only approved signals are
  launched, whatever the messages and the router say; the safety rules come first; which decisions
  and artifacts a message leads to; how a stop ends.
\<close>

section \<open>The service as a transition system\<close>

text \<open>
  A message may come whenever the worker is between two turns or has ended; what comes during a turn
  is \<open>ge_meanwhile\<close>'s. A restarted gateway has a new controller, which knows the old one's file.
\<close>

definition on_runner :: "(runner, 'a) eff \<Rightarrow> 'a service" where
  "on_runner m = (\<lambda>s. case m (runner.truncate s) of (r, u) \<Rightarrow> (r, runner.extend u (runner.more s)))"

definition restarted_controller :: "controller \<Rightarrow> controller" where
  "restarted_controller c = (new_controller (ct_file c) (ct_shutdown c) (ct_time c))
     \<lparr>ct_launches := ct_launches c, ct_ticks := ct_ticks c\<rparr>"

definition new_service :: "studio \<Rightarrow> studio" where
  "new_service s = (snd (on_runner (modifyE new_process) s))\<lparr>st_runtime := restarted_controller (st_runtime s)\<rparr>"

inductive studio_step :: "service_env \<Rightarrow> bool \<times> studio \<Rightarrow> bool \<times> studio \<Rightarrow> bool" for env where
  studio_worker: "on_runner (if alive then loop_turn (sv_gateway env) else startup (sv_gateway env)) s = (r, t) \<Longrightarrow>
    \<not> alive \<longrightarrow> recovery_ok (document s) \<Longrightarrow> studio_step env (alive, s) (returned r, t)"
| studio_message: "handle_message env stamp words s = (r, t) \<Longrightarrow>
    studio_step env (alive, s) (alive, t\<lparr>rn_cancelling := alive \<and> rn_cancelling t\<rparr>)"
| studio_request: "exec_request (sv_gateway env) rq s = (r, t) \<Longrightarrow>
    studio_step env (alive, s) (alive, t\<lparr>rn_cancelling := alive \<and> rn_cancelling t\<rparr>)"
| studio_restart: "studio_step env (alive, s) (False, new_service s)"

inductive studio_run :: "service_env \<Rightarrow> bool \<times> studio \<Rightarrow> bool \<times> studio \<Rightarrow> bool" for env x where
  studio_here: "studio_run env x x"
| studio_on: "studio_run env x y \<Longrightarrow> studio_step env y z \<Longrightarrow> studio_run env x z"

section \<open>Launches of approved signals\<close>

text \<open>An approved order of the document with this artifact and version that passed every gate\<close>

definition passed_gates :: "gateway_state \<Rightarrow> string \<Rightarrow> string option \<Rightarrow> bool" where
  "passed_gates v i ver \<longleftrightarrow> ver \<noteq> None \<and> (\<exists>w \<in> set (gs_orders v). wo_artifact_kind w = ''signal'' \<and>
     wo_artifact_id w = Some i \<and> wo_artifact_version w = ver \<and> wo_status w = ''approved'' \<and>
     cleared w \<and> live_approved w \<and> (needs_backtest w \<longrightarrow> backtest_approved w))"

text \<open>
  \<open>served a c P\<close>: the gates hold, and the runtime launched, and has selected, only signals of \<open>P\<close>.
\<close>

definition served ::
  "string option \<Rightarrow> bool \<Rightarrow> (string \<Rightarrow> string option \<Rightarrow> bool) \<Rightarrow> studio \<Rightarrow> bool"
where
  "served a c P s \<longleftrightarrow> at_work a c (\<lambda>_. True) s \<and> selects_only P (st_runtime s) \<and>
     list_all (\<lambda>l. P (la_signal l) (la_version l)) (ct_launches (st_runtime s))"

lemma runtime_more: "runner.more s = runner.more t \<Longrightarrow> st_runtime s = st_runtime t"
  by (cases s; cases t) simp

lemma at_work_frame: "at_work a c (\<lambda>_. True) s \<Longrightarrow> at_work a c (\<lambda>m. m = runner.more s) s"
  by (simp add: at_work_def)

lemma keeps_served:
  fixes m :: "'a service"
  assumes "\<And>R. keeps (at_work a c R) m"
  shows "keeps (served a c P) m"
  unfolding keeps_def
proof (intro allI impI)
  fix s :: studio
  assume s: "served a c P s"
  then have "at_work a c (\<lambda>m. m = runner.more s) s" by (simp add: served_def at_work_frame)
  with assms have t: "at_work a c (\<lambda>m. m = runner.more s) (snd (m s))" by (simp add: keeps_def)
  then have "runner.more (snd (m s)) = runner.more s" by (simp add: at_work_def)
  then have "st_runtime (snd (m s)) = st_runtime s" by (rule runtime_more)
  moreover have "at_work a c (\<lambda>_. True) (snd (m s))" using t by (simp add: at_work_def)
  ultimately show "served a c P (snd (m s))" using s by (simp add: served_def)
qed

lemma served_request [keeps_rules]: "keeps (served a c P) (exec_request env rq)"
  by (intro keeps_served keeps_rules)

lemma served_tick [keeps_rules]: "keeps (served a c P) tick"
  by (intro keeps_served keeps_rules)

lemma served_read_store [keeps_rules]: "keeps I read_store"
  by (simp add: read_store_def keeps_rules)

lemma served_between [keeps_rules]: "keeps (served a c P) (between env)"
  unfolding between_def answered_def by (intro keeps_rules)

lemma served_runtime:
  assumes "\<And>r. selects_only P r \<Longrightarrow> list_all (\<lambda>l. P (la_signal l) (la_version l)) (ct_launches r) \<Longrightarrow>
      selects_only P (snd (m r)) \<and> list_all (\<lambda>l. P (la_signal l) (la_version l)) (ct_launches (snd (m r)))"
  shows "keeps (served a c P) (on_runtime m)"
proof -
  have frame: "at_work a c (\<lambda>_. True) (s\<lparr>st_runtime := r\<rparr>) = at_work a c (\<lambda>_. True) s" for s :: studio and r
    by (simp add: at_work_def document_def)
  show ?thesis
    unfolding keeps_def on_runtime_def
    using assms by (auto simp: served_def frame split: prod.split) (metis snd_conv)+
qed

lemma served_status [keeps_rules]: "keeps (served a c P) (runtime_status_of env)"
  unfolding runtime_status_of_def
  by (rule served_runtime) (simp add: split_beta)

lemma served_consult [keeps_rules]: "keeps (served a c P) (consult env words ws)"
  unfolding consult_def by (intro keeps_rules)

lemma served_start:
  assumes "selecting P (sv_os env)"
  shows "keeps (served a c P) (on_runtime (start (sv_os env)))"
  by (rule served_runtime) (use start_launches [OF assms] in \<open>fastforce\<close>)

lemma served_stop:
  assumes "selecting P (sv_os env)"
  shows "keeps (served a c P) (on_runtime (stop (sv_os env)))"
  by (rule served_runtime) (use stop_launches [OF assms] in simp)

lemma served_select: "P i ver \<Longrightarrow> keeps (served a c P) (on_runtime (modifyE (select_signal i ver)))"
  by (rule served_runtime) (simp add: modifyE_def select_signal_def selects_only_def)

text \<open>What may be launched: the versions that passed every gate in the document.\<close>

lemma approved_passed:
  assumes "list_all gated (gs_orders v)" and "map_of (approved_signal_versions std ws registry v) i = Some ver"
  shows "passed_gates v i (Some ver)"
proof -
  obtain w where w: "w \<in> set (gs_orders v)"
    and ok: "approved_version (valid_records std ws registry) w = Some (i, ver)"
    using approved_signal_order [OF assms(2)] by blast
  from assms(1) w have "gated w" by (simp add: list_all_iff)
  with approved_versionD [OF ok] approved_gates [of w] w show ?thesis
    unfolding passed_gates_def by blast
qed

lemma served_start_signal:
  assumes "selecting P (sv_os env)" and "list_all gated (gs_orders v)"
    and "\<And>i ver. passed_gates v i ver \<Longrightarrow> P i ver"
  shows "keeps (served a c P) (start_signal env n v d)"
  unfolding keeps_wp
proof (intro allI impI)
  fix s :: studio
  assume s: "served a c P s"
  let ?i = "signal_name (or_else (de_strategy_id d) (de_artifact_id d))"
  show "wp (start_signal env n v d) (\<lambda>_. served a c P) (\<lambda>_. served a c P) s"
  proof (cases "map_of (approved_now env n v s) ?i")
    case (Some ver)
    then have P: "P ?i (Some ver)"
      using approved_passed [OF assms(2)] assms(3) by (auto simp: approved_now_def)
    have "keeps (served a c P) (thenE (on_runtime (modifyE (select_signal ?i (Some ver))))
        (bindE (on_runtime (start (sv_os env))) (\<lambda>st. ret (result (SignalStarted ?i (rs_pid st)) ''signal'' ''start_signal''))))"
      by (intro keeps_rules served_select served_start assms(1) P)
    with s have "wp (thenE (on_runtime (modifyE (select_signal ?i (Some ver))))
        (bindE (on_runtime (start (sv_os env))) (\<lambda>st. ret (result (SignalStarted ?i (rs_pid st)) ''signal'' ''start_signal''))))
        (\<lambda>_. served a c P) (\<lambda>_. served a c P) s" by (simp add: keeps_wp)
    with s Some show ?thesis
      by (simp add: start_signal_def Let_def wp_bindE [of "getE _"] wp_getE wp_ret)
  qed (use s in \<open>simp add: start_signal_def Let_def wp_bindE [of "getE _"] wp_getE wp_ret\<close>)
qed

lemma served_perform:
  assumes "selecting P (sv_os env)" and "list_all gated (gs_orders v)"
    and "\<And>i ver. passed_gates v i ver \<Longrightarrow> P i ver"
  shows "keeps (served a c P) (perform env n stamp words v d)"
  unfolding perform_def Let_def stop_signal_def cancel_work_def resume_work_def report_status_def
  by (intro keeps_rules served_start_signal [OF assms] served_stop [OF assms(1)])

text \<open>A message launches only such signals, wherever the worker is.\<close>

lemma served_message:
  assumes "selecting P (sv_os env)" and "\<And>i ver. passed_gates (document s) i ver \<Longrightarrow> P i ver"
    and "served a c P s" and "handle_message env stamp words s = (r, t)"
  shows "served a c P t"
proof -
  have gates: "list_all gated (gs_orders (document s))"
    using assms(3) by (simp add: served_def at_work_def doc_ok_def)
  let ?rest = "\<lambda>v. thenE (consult env (strip words) (gs_orders v)) (thenE (between env) (bindE tick (\<lambda>n.
     case route_instruction (sv_rx env) (registered_artifacts (sv_listing env n) ''signal'') (gs_orders v)
            (strip words) (router_says env n) of
       Inl e \<Rightarrow> raise e
     | Inr d \<Rightarrow> bindE (perform env n stamp (strip words) v d) (\<lambda>(ans, rq).
         thenE (exec_request (sv_gateway env) rq) (ret ans)))))"
  have "keeps (served a c P) (?rest (document s))"
    by (intro keeps_rules served_perform assms(1,2) gates) auto
  with assms(3) have "wp (?rest (document s)) (\<lambda>_. served a c P) (\<lambda>_. served a c P) s" by (simp add: keeps_wp)
  then have "wp (handle_message env stamp words) (\<lambda>_. served a c P) (\<lambda>_. served a c P) s"
    using assms(3) unfolding document_def
    by (simp add: handle_message_def Let_def wp_thenE [of "guardE _ _"] wp_guardE wp_bindE [of "getE _"]
      read_store_def wp_getE)
  then show ?thesis using assms(4) by (rule wp_snd)
qed

section \<open>Runs\<close>

lemma served_truncate:
  "at_work a c (\<lambda>_. True) (s :: studio) \<longleftrightarrow> at_work a c no_locals (runner.truncate s)"
  by (simp add: at_work_def document_def runner.defs)

lemma served_extend: "served a c P (runner.extend u (runner.more (s :: studio))) \<longleftrightarrow>
    at_work a c no_locals u \<and> selects_only P (st_runtime s) \<and>
    list_all (\<lambda>l. P (la_signal l) (la_version l)) (ct_launches (st_runtime s))"
proof -
  have "runner.more (runner.extend u (runner.more s)) = runner.more s" by (simp add: runner.defs)
  then have "st_runtime (runner.extend u (runner.more s)) = st_runtime s" by (rule runtime_more)
  moreover have "at_work a c (\<lambda>_. True) (runner.extend u (runner.more s)) = at_work a c no_locals u"
    by (simp add: at_work_def document_def runner.defs)
  ultimately show ?thesis by (simp add: served_def)
qed

lemma served_core: "served a c P s \<Longrightarrow> at_work a c no_locals (runner.truncate s)"
  by (simp add: served_def served_truncate)

lemma served_cancelling [simp]: "served a c P (s\<lparr>rn_cancelling := k\<rparr>) = served a c P s"
  by (simp add: served_def at_work_def document_def)

lemma served_worker:
  assumes "served None False P s" and "on_runner m s = (r, t)"
    and "\<And>u. m (runner.truncate s) = (r, u) \<Longrightarrow> idle u"
  shows "served None False P t"
proof -
  obtain u where u: "m (runner.truncate s) = (r, u)" "t = runner.extend u (runner.more s)"
    using assms(2) by (auto simp: on_runner_def split: prod.splits)
  from assms(1) have "selects_only P (st_runtime s) \<and>
      list_all (\<lambda>l. P (la_signal l) (la_version l)) (ct_launches (st_runtime s))" by (simp add: served_def)
  with assms(3) [OF u(1)] show ?thesis by (simp add: u(2) served_extend)
qed

lemma served_set_runtime: "served a c P s \<Longrightarrow> selects_only P r \<Longrightarrow>
    list_all (\<lambda>l. P (la_signal l) (la_version l)) (ct_launches r) \<Longrightarrow> served a c P (s\<lparr>st_runtime := r\<rparr>)"
  by (simp add: served_def at_work_def document_def)

lemma served_restart:
  assumes "served None False P s"
  shows "served None False P (new_service s)"
  unfolding new_service_def
proof (rule served_set_runtime)
  show "served None False P (snd (on_runner (modifyE new_process) s))"
    by (rule served_worker [OF assms surjective_pairing])
      (use served_core [OF assms] idle_new_process in \<open>auto simp: modifyE_def\<close>)
  show "selects_only P (restarted_controller (st_runtime s))"
    by (simp add: restarted_controller_def new_controller_def selects_only_def)
  show "list_all (\<lambda>l. P (la_signal l) (la_version l)) (ct_launches (restarted_controller (st_runtime s)))"
    using assms by (simp add: restarted_controller_def served_def)
qed

text \<open>\<open>P\<close> must hold of what passed every gate in a document from which a message is answered.\<close>

lemma served_step:
  assumes "selecting P (sv_os env)" and "\<And>i ver. passed_gates (document s) i ver \<Longrightarrow> P i ver"
    and "served None False P s" and "studio_step env (alive, s) (alive', t)"
  shows "served None False P t"
  using assms(4)
proof cases
  case (studio_worker r)
  have "idle u" if "(if alive then loop_turn (sv_gateway env) else startup (sv_gateway env)) (runner.truncate s) = (r, u)" for u
  proof (cases alive)
    case True
    with that keepsD [OF keeps_loop_turn served_core [OF assms(3)]] show ?thesis by simp
  next
    case False
    have "recovery_ok (document (runner.truncate s))" using studio_worker(3) False by (simp add: document_def runner.defs)
    from wp_snd [OF startup_ok [OF served_core [OF assms(3)] this]] that False show ?thesis by simp
  qed
  with served_worker [OF assms(3) studio_worker(2)] show ?thesis by blast
next
  case (studio_message stamp words r u)
  with served_message [OF assms(1-3)] show ?thesis by simp
next
  case (studio_request rq r u)
  with keepsD [OF served_request assms(3)] show ?thesis by simp
next
  case studio_restart
  with served_restart [OF assms(3)] show ?thesis by simp
qed

lemma served_run:
  assumes "studio_run env x y" and "selecting P (sv_os env)" and "served None False P (snd x)"
    and "\<And>u i ver. studio_run env x u \<Longrightarrow> passed_gates (document (snd u)) i ver \<Longrightarrow> P i ver"
  shows "served None False P (snd y)"
  using assms(1)
proof induction
  case (studio_on y z)
  obtain alive s alive' t where yz: "y = (alive, s)" "z = (alive', t)" by (cases y; cases z)
  have "passed_gates (document s) i ver \<Longrightarrow> P i ver" for i ver
    using assms(4) [OF studio_on(1)] by (simp add: yz)
  from served_step [OF assms(2) this] studio_on show ?case by (simp add: yz)
qed (rule assms(3))

text \<open>A service whose orders are gated and which has launched nothing yet\<close>

definition sound_studio :: "studio \<Rightarrow> bool" where
  "sound_studio s \<longleftrightarrow> sound_gateway (runner.truncate s) \<and> ct_selected (st_runtime s) = None \<and>
     ct_launches (st_runtime s) = []"

definition reached_gates :: "service_env \<Rightarrow> bool \<times> studio \<Rightarrow> string \<Rightarrow> string option \<Rightarrow> bool" where
  "reached_gates env x i ver \<longleftrightarrow> (\<exists>u. studio_run env x u \<and> passed_gates (document (snd u)) i ver)"


section \<open>A sample service\<close>

definition sample_os :: os_env where
  "sample_os = \<lparr>os_alive = (\<lambda>n p. True), os_birth = (\<lambda>n p. Some 0), os_launch = (\<lambda>n. Inr 7),
     os_exit = (\<lambda>n. None), os_now = (\<lambda>n. sample_time), os_late = (\<lambda>n. 0), os_selections = (\<lambda>n. [])\<rparr>"

definition no_words :: recognizers where
  "no_words = \<lparr>rx_trading = (\<lambda>s. False), rx_core_change = (\<lambda>s. False), rx_without_backtest = (\<lambda>s. False),
     rx_with_backtest = (\<lambda>s. False), rx_end = (\<lambda>s. False), rx_agent = (\<lambda>a s. False), rx_modifies = (\<lambda>s. False),
     rx_signal = (\<lambda>s. False), rx_strategy = (\<lambda>s. False), rx_creates = (\<lambda>s. False), rx_new_signal = (\<lambda>s. False),
     rx_trading_strategy = (\<lambda>s. False), rx_new_strategy = (\<lambda>s. False), rx_named_stop = (\<lambda>s. None),
     rx_start = (\<lambda>s. False), rx_runtime = (\<lambda>s. False), rx_stop = (\<lambda>s. False),
     rx_runtime_or_agent = (\<lambda>s. False), rx_bare_stop = (\<lambda>s. False), rx_fault = (\<lambda>s. False),
     rx_quota_reset = (\<lambda>s. False), rx_report = (\<lambda>s. False), rx_factor = (\<lambda>s. False)\<rparr>"

definition sample_service_env :: "recognizers \<Rightarrow> router_answer \<Rightarrow> service_env" where
  "sample_service_env rx router = \<lparr>sv_gateway = sample_gateway_env (\<lambda>n. []) (Inr ''a''), sv_os = sample_os,
     sv_rx = rx, sv_router = Some (\<lambda>n. router), sv_has_worker = True, sv_listing = (\<lambda>n d. []),
     sv_modification = (\<lambda>k i s. s)\<rparr>"

definition sample_studio :: "order_doc list \<Rightarrow> studio" where
  "sample_studio ws = runner.extend (sample_runner ws) \<lparr>st_runtime = new_controller None False 0\<rparr>"

definition start_x :: manager_decision where
  "start_x = with_signal (Some ''x'') (decision ''start_signal'' ''signal'' 1)"

definition approved_sample :: order_doc where
  "approved_sample = sample_order\<lparr>wo_status := ''approved'', wo_stage := Some ''ready_for_signal'',
     wo_approvals := Some (no_approvals\<lparr>for_implementation := sample_ok, for_live := sample_ok\<rparr>)\<rparr>"

definition sample_started :: "(exn + answer) \<times> studio" where
  "sample_started = handle_message (sample_service_env no_words (Routed start_x)) ''t'' ''go''
     (sample_studio [approved_sample])"

lemma sample_launch:
  "ct_launches (st_runtime (snd sample_started)) = [\<lparr>la_signal = ''x'', la_version = Some ''1''\<rparr>]"
  by code_simp

lemma sample_studio_sound: "sound_studio (sample_studio [approved_sample])"
  by (simp add: sound_studio_def sound_gateway_def doc_ok_def holds_order_def document_def read_unlocked_def
      sample_defs gate_simps late_stages_def empty_state_def sample_studio_def approved_sample_def runner.defs
      new_controller_def)

lemma sample_selecting: "selecting P (sv_os (sample_service_env rx router))"
  by (simp add: selecting_def sample_service_env_def sample_os_def)


section \<open>The safety rules\<close>

lemma wp_quiet_between: "quiet (sv_gateway env) \<Longrightarrow> wp (between env) Q E s = Q () (s\<lparr>rn_ticks := rn_ticks s + 1\<rparr>)"
  by (simp add: between_def quiet_def wp_bindE wp_ret) (simp add: wp_def tick_def)

lemma safety_action:
  "hard_safety_decision rx words = Some d \<Longrightarrow> de_action d \<in> {''prohibited_trading'', ''prohibited_core_change''}"
  by (auto simp: hard_safety_decision_def Let_def decision_def split: if_splits)

text \<open>A denial only appends the message and its answer.\<close>

lemma wp_talk:
  "(\<And>f n. gs_orders (read_unlocked f) = gs_orders (document s) \<Longrightarrow> Q () (s\<lparr>rn_ticks := n, rn_file := f\<rparr>)) \<Longrightarrow>
     wp (exec_request env (Talk (Instruction words) ans)) Q E (s :: studio)"
  by (simp add: wp_rules persist_response_def document_def read_unlocked_def add_message_def)



section \<open>Decisions\<close>

lemma limited_range: "0 \<le> limited f \<and> limited f \<le> 1"
  by (cases f) auto

lemma parse_confidence_range: "parse_confidence v = Inr r \<Longrightarrow> 0 \<le> r \<and> r \<le> 1"
  using limited_range by (auto simp: parse_confidence_def split: pyval.splits if_splits)

lemma known_action_string: "known_action v = Inr True \<Longrightarrow> \<exists>k \<in> set manager_actions. v = PStr k"
  by (cases v) (auto simp: known_action_def dict_key_def split: sum.splits pyfloat.splits if_splits)

definition well_formed_decision :: "manager_decision \<Rightarrow> bool" where
  "well_formed_decision d \<longleftrightarrow> de_action d \<in> set manager_actions \<and> 0 \<le> de_confidence d \<and> de_confidence d \<le> 1"

lemma parsed_well_formed:
  assumes "parse_decision std v = Inr d"
  shows "well_formed_decision d"
proof -
  obtain f where v: "v = PDict f" "known_action (dict_get f ''action'') = Inr True"
    and d: "map_sum id (parse_fields std f) (parse_confidence (dict_get f ''confidence'')) = Inr d"
    using assms by (auto simp: parse_decision_def split: pyval.splits sum.splits bool.splits)
  obtain k where k: "k \<in> set manager_actions" "dict_get f ''action'' = PStr k"
    using known_action_string [OF v(2)] by blast
  obtain r where r: "parse_confidence (dict_get f ''confidence'') = Inr r" "d = parse_fields std f r"
    using d by (cases "parse_confidence (dict_get f ''confidence'')") auto
  with k parse_confidence_range [OF r(1)] show ?thesis
    by (simp add: well_formed_decision_def parse_fields_def py_str_def)
qed

lemma fallback_well_formed: "well_formed_decision (fallback_decision rx signals ws words)"
  by (auto simp: fallback_decision_def fallback_runtime_def fallback_rest_def fallback_topics_def Let_def
      well_formed_decision_def decision_def with_signal_def manager_actions_def split: option.split list.split)

lemma preference_well_formed [simp]: "well_formed_decision (with_backtest_preference rx d words) = well_formed_decision d"
  by (simp add: with_backtest_preference_def well_formed_decision_def split: option.split)

lemma bounded_well_formed [simp]: "well_formed_decision (bounded_fallback why d) = well_formed_decision d"
  by (simp add: bounded_fallback_def well_formed_decision_def)

text \<open>
  Every decision on a message is one of the known actions with a confidence between 0 and 1, if
  what the semantic router returned came from its parser, whatever the JSON value was.
\<close>

theorem routed_decision_known:
  assumes "route_instruction rx signals ws words answer = Inr d"
    and "\<And>r. answer = Routed r \<Longrightarrow> \<exists>std v. parse_decision std v = Inr r"
  shows "de_action d \<in> set manager_actions \<and> 0 \<le> de_confidence d \<and> de_confidence d \<le> 1"
proof -
  have "well_formed_decision r" if "answer = Routed r" for r
    using assms(2) [OF that] parsed_well_formed by blast
  with assms(1) fallback_well_formed have "well_formed_decision d"
    by (auto simp: route_instruction_def semantic_decision_def hard_safety_decision_def cancel_active_decision_def
      Let_def router_unavailable_def split: option.splits router_answer.splits if_splits)
      (auto simp: well_formed_decision_def decision_def manager_actions_def)
  then show ?thesis by (simp add: well_formed_decision_def)
qed

definition sample_answer :: pyval where
  "sample_answer = PDict [(''action'', PStr ''start_signal''), (''strategy_id'', PStr ''x''), (''confidence'', PFloat NaN)]"

lemma sample_parsed: "parse_decision sample_std sample_answer = Inr (start_x\<lparr>de_target_agent := None\<rparr>)"
  by code_simp

theorem routed_decision_known_witness:
  "start_x\<lparr>de_target_agent := None\<rparr> = the (case route_instruction no_words [] [] ''go'' (Routed (start_x\<lparr>de_target_agent := None\<rparr>))
     of Inr d \<Rightarrow> Some d | _ \<Rightarrow> None) \<and> de_action start_x \<in> set manager_actions"
proof -
  have "route_instruction no_words [] [] ''go'' (Routed (start_x\<lparr>de_target_agent := None\<rparr>)) = Inr (start_x\<lparr>de_target_agent := None\<rparr>)"
    by (simp add: route_instruction_def hard_safety_decision_def cancel_active_decision_def semantic_decision_def
      no_words_def with_backtest_preference_def artifact_actions_def start_x_def decision_def with_signal_def Let_def)
  with routed_decision_known [OF this] sample_parsed show ?thesis by auto
qed

section \<open>A start while another signal runs\<close>

text \<open>
  While the runtime runs, a request to start another approved signal launches nothing, and the
  running process keeps its file, but the answer says that the requested signal was started, with
  the process of the other one.
\<close>

theorem running_signal_answers_for_another:
  assumes "map_of (approved_now env n v s) i = Some ver" and "i \<noteq> []"
    and "signal_name (or_else (de_strategy_id d) (de_artifact_id d)) = i"
    and "is_running (sv_os env) (pause (sv_os env) (select_signal i (Some ver) (st_runtime s)))"
  shows "\<exists>t. start_signal env n v d s =
       (Inr (result (SignalStarted i (known_pid (pause (sv_os env) (select_signal i (Some ver) (st_runtime s)))))
          ''signal'' ''start_signal''), t) \<and>
     ct_launches (st_runtime t) = ct_launches (st_runtime s) \<and>
     ct_file (st_runtime t) = ct_file (pause (sv_os env) (select_signal i (Some ver) (st_runtime s)))"
  using assms start_running [OF assms(4)]
  by (simp add: start_signal_def bindE_def thenE_def getE_def on_runtime_def modifyE_def ret_def Let_def status_of_def)
    (simp add: status_def Let_def select_signal_def)

definition running_other :: studio where
  "running_other = (sample_studio [approved_sample])\<lparr>st_runtime := (new_controller (Some (no_metadata
     \<lparr>md_state := Some ''running'', md_pid := Some 7, md_signal_id := Some ''y''\<rparr>)) False 0)
       \<lparr>ct_process := Some \<lparr>pr_pid = 7, pr_code = None\<rparr>, ct_selected := Some ''y''\<rparr>\<rparr>"

lemma other_approved:
  "map_of (approved_now (sample_service_env no_words NoRouter) 0 (document (sample_studio [approved_sample])) running_other)
     ''x'' = Some ''1''"
  by code_simp

theorem running_signal_answers_for_another_witness:
  "\<exists>t. start_signal (sample_service_env no_words NoRouter) 0 (document (sample_studio [approved_sample])) start_x running_other =
       (Inr (result (SignalStarted ''x'' (Some 7)) ''signal'' ''start_signal''), t) \<and>
     ct_launches (st_runtime t) = [] \<and> map_option md_signal_id (ct_file (st_runtime t)) = Some (Some ''y'')"
proof -
  let ?c = "pause (sv_os (sample_service_env no_words NoRouter)) (select_signal ''x'' (Some ''1'') (st_runtime running_other))"
  have c: "?c = (st_runtime running_other)\<lparr>ct_selected := Some ''x'', ct_version := Some ''1'', ct_ticks := 1\<rparr>"
    by (simp add: pause_def watch_process_def select_signal_def sample_service_env_def sample_os_def running_other_def
      new_controller_def Let_def)
  have name: "signal_name (or_else (de_strategy_id start_x) (de_artifact_id start_x)) = ''x''" by code_simp
  have run: "is_running (sv_os (sample_service_env no_words NoRouter)) ?c"
    unfolding c by (simp add: is_running_def running_other_def)
  have "known_pid ?c = Some 7" "map_option md_signal_id (ct_file ?c) = Some (Some ''y'')"
    "ct_launches (st_runtime running_other) = []"
    unfolding c by (simp_all add: known_pid_def running_other_def new_controller_def)
  with running_signal_answers_for_another [OF other_approved _ name run] show ?thesis by fastforce
qed

section \<open>The end of a stop\<close>

lemma status_process: "ct_process (snd (status os c)) = ct_process c"
  by simp

definition process_ids :: "controller \<Rightarrow> int option" where
  "process_ids c = map_option pr_pid (ct_process c)"

lemma process_frame [simp]:
  "process_ids (snd (status os c)) = process_ids c" "process_ids (pause os c) = process_ids c"
  "process_ids (sleep os d c) = process_ids c"
proof -
  have sel: "ct_process (fold (\<lambda>(i, v). select_signal i v) xs c) = ct_process c" for xs c
    by (induction xs arbitrary: c) (auto simp: select_signal_def)
  have w: "process_ids (watch_process os n c) = process_ids c" for n c
    by (cases "ct_process c"; cases "os_exit os n"; simp add: watch_process_def process_ids_def)
  have p: "process_ids (pause os c) = process_ids c" for c
    by (simp add: pause_def Let_def w) (simp add: process_ids_def sel)
  show "process_ids (snd (status os c)) = process_ids c" "process_ids (pause os c) = process_ids c"
    by (simp add: process_ids_def, rule p)
  show "process_ids (sleep os d c) = process_ids c" by (simp add: sleep_def p) (simp add: process_ids_def)
qed

lemma poll_end:
  "poll os deadline c = (r, c') \<Longrightarrow> process_ids c' = process_ids c \<and> ct_launches c' = ct_launches c \<and>
     (\<forall>e. r = Inl e \<longrightarrow> deadline \<le> ct_time c' \<and> ct_shutdown c' = ct_shutdown c)"
proof (induction os deadline c rule: poll.induct)
  case (1 os deadline c)
  show ?case
  proof (cases "ct_time c < deadline \<and> rs_running (fst (status os c))")
    case True
    with 1(2) have "poll os deadline (sleep os (1 / 4) (snd (status os c))) = (r, c')"
      by (subst (asm) poll.simps) simp
    from 1(1) [OF _ _ this] True show ?thesis by simp
  next
    case False
    with 1(2) show ?thesis by (subst (asm) poll.simps) (auto split: if_splits)
  qed
qed


definition hung_process :: "(exn + runtime_status) \<times> controller" where
  "hung_process = stop (sample_os\<lparr>os_late := (\<lambda>n. 45)\<rparr>) (st_runtime running_other)"

lemma hung_times_out: "case fst hung_process of Inl e \<Rightarrow> True | Inr st \<Rightarrow> False"
  by code_simp


end
