(* ===== verification/Spec_Table.thy ===== *)
theory Spec_Table
  imports Feature_Dsl Py_Values
begin

text \<open>
  src/src/quant_signal_agent/backtesting/spec.py, first part: the TOML block of a specification
  document and the typed access to its tables, which generic_spec.py repeats as local functions.

  \<open>tomllib\<close> is a parameter: a parsed document is a \<open>toml\<close> value, whose floats have the type \<open>'f\<close>
  of the feature language. A \<open>datetime\<close> is its wall-clock time in microseconds, with its offset
  from UTC if it has one; \<open>TOther\<close> is a date or a time of day.
\<close>

section \<open>Values\<close>

datatype stamp = Local int | Offset int timedelta

datatype 'f toml =
    TStr string
  | TInt int
  | TFloat 'f
  | TBool bool
  | TStamp stamp
  | TOther
  | TArr "'f toml list"
  | TTab "(string \<times> 'f toml) list"

type_synonym 'f tbl = "(string \<times> 'f toml) list"

text \<open>
  \<open>se_iso\<close> is \<open>datetime.fromisoformat\<close> (\<open>None\<close> where it raises), \<open>se_repr\<close> the text of a string in
  an enum's error, \<open>se_encode\<close> \<open>json.dumps\<close> with sorted keys, \<open>se_iso_of\<close> \<open>isoformat\<close> of a UTC time.
\<close>

record 'f spec_env =
  se_arith :: "'f arith"
  se_tiny :: 'f
  se_iso :: "string \<Rightarrow> stamp option"
  se_iso_of :: "datetime \<Rightarrow> string"
  se_repr :: "string \<Rightarrow> string"
  se_encode :: "'f toml \<Rightarrow> string"
  se_sha256 :: "string \<Rightarrow> string"
  se_toml :: "string \<Rightarrow> string + 'f tbl"

definition and_then :: "exn + 'a \<Rightarrow> ('a \<Rightarrow> exn + 'b) \<Rightarrow> exn + 'b" where
  "and_then m f = (case m of Inl e \<Rightarrow> Inl e | Inr a \<Rightarrow> f a)"

lemma and_then_Inr [simp]: "and_then m f = Inr b \<longleftrightarrow> (\<exists>a. m = Inr a \<and> f a = Inr b)"
  by (simp add: and_then_def split: sum.split)

lemma and_then_simps [simp]: "and_then (Inr a) f = f a" "and_then (Inl e) f = Inl e"
  by (simp_all add: and_then_def)

definition refuse :: "string \<Rightarrow> exn + 'a" where
  "refuse message = Inl (SpecValidationError message)"

lemma refuse_Inr [simp]: "refuse m = Inr a \<longleftrightarrow> False"
  by (simp add: refuse_def)

section \<open>The executable block\<close>

text \<open>
  \<open>EXECUTABLE_BLOCK.findall\<close>, line by line: universal newlines have left \<open>\n\<close> as the only line end.
  The opening line must have one; the block ends at the first closing line, where the search goes on.
\<close>

definition blanks :: "string \<Rightarrow> bool" where
  "blanks s \<longleftrightarrow> list_all (\<lambda>c. c = CHR '' '' \<or> c = CHR 0x09) s"

definition fence :: string where
  "fence = ''```''"

definition opens_block :: "string \<Rightarrow> bool" where
  "opens_block line \<longleftrightarrow> (let head = fence @ ''toml''; rest = drop (length head) line;
       after = dropWhile (\<lambda>c. c = CHR '' '' \<or> c = CHR 0x09) rest; word = ''qsa-backtest'' in
     take (length head) line = head \<and> rest \<noteq> after \<and> take (length word) after = word \<and>
     blanks (drop (length word) after))"

definition closes_block :: "string \<Rightarrow> bool" where
  "closes_block line \<longleftrightarrow> take 3 line = fence \<and> blanks (drop 3 line)"

fun find_close :: "string list \<Rightarrow> (string \<times> string list) option" where
  "find_close [] = None"
| "find_close (l # ls) = (if closes_block l then Some ([], ls)
     else (case find_close ls of None \<Rightarrow> None | Some (body, rest) \<Rightarrow> Some (l @ [CHR 0x0A] @ body, rest)))"

lemma find_close_shorter: "find_close ls = Some (body, rest) \<Longrightarrow> length rest < length ls"
  by (induction ls arbitrary: body) (auto split: if_splits option.splits simp: less_Suc_eq)

function blocks_of :: "string list \<Rightarrow> string list" where
  "blocks_of [] = []"
| "blocks_of (l # ls) = (if \<not> opens_block l then blocks_of ls
     else (case find_close ls of None \<Rightarrow> blocks_of ls | Some (body, rest) \<Rightarrow> body # blocks_of rest))"
  by pat_completeness auto

termination
  by (relation "measure length") (auto dest: find_close_shorter)

definition executable_blocks :: "string \<Rightarrow> string list" where
  "executable_blocks doc = blocks_of (str_split (CHR 0x0A) doc)"

section \<open>Access to tables\<close>

definition sub_table :: "'f tbl \<Rightarrow> string \<Rightarrow> exn + 'f tbl" where
  "sub_table t k = (case map_of t k of
       Some (TTab u) \<Rightarrow> Inr u
     | _ \<Rightarrow> refuse (''missing or invalid ['' @ k @ ''] table''))"

definition unknown_keys :: "'f tbl \<Rightarrow> string list \<Rightarrow> string list" where
  "unknown_keys t allowed = sort (filter (\<lambda>k. k \<notin> set allowed) (map fst t))"

definition reject_unknown :: "'f tbl \<Rightarrow> string list \<Rightarrow> string \<Rightarrow> exn + unit" where
  "reject_unknown t allowed name = (if unknown_keys t allowed = [] then Inr ()
     else refuse (''unknown keys in '' @ name @ '': '' @ str_join '', '' (unknown_keys t allowed)))"

definition required_str :: "'f tbl \<Rightarrow> string \<Rightarrow> exn + string" where
  "required_str t k = (case map_of t k of Some (TStr s) \<Rightarrow> Inr s | _ \<Rightarrow> refuse (k @ '' must be str''))"

definition required_int :: "'f tbl \<Rightarrow> string \<Rightarrow> exn + int" where
  "required_int t k = (case map_of t k of Some (TInt i) \<Rightarrow> Inr i | _ \<Rightarrow> refuse (k @ '' must be int''))"

definition required_bool :: "'f tbl \<Rightarrow> string \<Rightarrow> exn + bool" where
  "required_bool t k = (case map_of t k of Some (TBool b) \<Rightarrow> Inr b | _ \<Rightarrow> refuse (k @ '' must be bool''))"

definition to_float :: "'f spec_env \<Rightarrow> int \<Rightarrow> exn + 'f" where
  "to_float env i = (if float_overflows i then Inl (OverflowError ''int too large to convert to float'')
     else Inr (of_int_f (se_arith env) i))"

definition number_of :: "'f spec_env \<Rightarrow> string \<Rightarrow> 'f toml option \<Rightarrow> exn + 'f" where
  "number_of env message v = (case v of
       Some (TInt i) \<Rightarrow> to_float env i
     | Some (TFloat x) \<Rightarrow> Inr x
     | _ \<Rightarrow> refuse message)"

definition number :: "'f spec_env \<Rightarrow> 'f tbl \<Rightarrow> string \<Rightarrow> exn + 'f" where
  "number env t k = number_of env (k @ '' must be numeric'') (map_of t k)"

definition string_array :: "'f tbl \<Rightarrow> string \<Rightarrow> exn + string list" where
  "string_array t k = (let bad = refuse (k @ '' must be an array of strings'') in
     case map_of t k of
       Some (TArr vs) \<Rightarrow> if list_all (\<lambda>v. case v of TStr s \<Rightarrow> True | _ \<Rightarrow> False) vs
         then Inr (map (\<lambda>v. case v of TStr s \<Rightarrow> s | _ \<Rightarrow> []) vs) else bad
     | _ \<Rightarrow> bad)"

definition int_array :: "'f tbl \<Rightarrow> string \<Rightarrow> exn + int list" where
  "int_array t k = (let bad = refuse (k @ '' must be an array of integers'') in
     case map_of t k of
       Some (TArr vs) \<Rightarrow> if list_all (\<lambda>v. case v of TInt i \<Rightarrow> True | _ \<Rightarrow> False) vs
         then Inr (map (\<lambda>v. case v of TInt i \<Rightarrow> i | _ \<Rightarrow> 0) vs) else bad
     | _ \<Rightarrow> bad)"

text \<open>\<open>value.replace("Z", "+00:00")\<close>\<close>

definition explicit_offset :: "string \<Rightarrow> string" where
  "explicit_offset s = concat (map (\<lambda>c. if c = CHR ''Z'' then ''+00:00'' else [c]) s)"

definition utc_stamp :: "'f spec_env \<Rightarrow> string \<Rightarrow> string \<Rightarrow> 'f tbl \<Rightarrow> string \<Rightarrow> exn + datetime" where
  "utc_stamp env not_iso not_utc t k = and_then
     (case map_of t k of
        Some (TStr s) \<Rightarrow> (case se_iso env (explicit_offset s) of None \<Rightarrow> refuse (k @ not_iso) | Some st \<Rightarrow> Inr st)
      | Some (TStamp st) \<Rightarrow> Inr st
      | _ \<Rightarrow> refuse (k @ not_iso))
     (\<lambda>st. case st of Offset wall off \<Rightarrow> if off = 0 then Inr (Datetime wall) else refuse (k @ not_utc)
        | Local wall \<Rightarrow> refuse (k @ not_utc))"

definition utc_datetime :: "'f spec_env \<Rightarrow> 'f tbl \<Rightarrow> string \<Rightarrow> exn + datetime" where
  "utc_datetime env = utc_stamp env '' must be an ISO-8601 datetime'' '' must use UTC''"

end
