(* ===== verification/Backtest_Spec.thy ===== *)
theory Backtest_Spec
  imports Spec_Table
begin

text \<open>
  src/src/quant_signal_agent/backtesting/models.py: the contracts of a back-test specification and
  the checks of \<open>BacktestSpec\<close>; backtesting/spec.py: \<open>load_spec\<close> for schema version 1.

  A \<open>frozenset\<close> of strings is a \<open>string set\<close>. The contract's dates are UTC instants: the only
  constructor calls of the package pass what \<open>_utc_datetime\<close> returns.
\<close>

section \<open>Contracts\<close>

datatype backtest_mode = SIGNAL_RESEARCH

datatype backtest_horizon = SHORT_TERM | MEDIUM_TERM | LONG_TERM

fun mode_value :: "backtest_mode \<Rightarrow> string" where
  "mode_value SIGNAL_RESEARCH = ''signal_research''"

fun horizon_value :: "backtest_horizon \<Rightarrow> string" where
  "horizon_value SHORT_TERM = ''short_term''"
| "horizon_value MEDIUM_TERM = ''medium_term''"
| "horizon_value LONG_TERM = ''long_term''"

definition mode_of :: "string \<Rightarrow> backtest_mode option" where
  "mode_of s = find (\<lambda>m. mode_value m = s) [SIGNAL_RESEARCH]"

definition horizon_of :: "string \<Rightarrow> backtest_horizon option" where
  "horizon_of s = find (\<lambda>h. horizon_value h = s) [SHORT_TERM, MEDIUM_TERM, LONG_TERM]"

record strategy_contract =
  sc_id :: string
  sc_version :: string
  sc_horizon :: backtest_horizon
  sc_direction :: string

record data_contract =
  dc_provider :: string
  dc_start :: datetime
  dc_end :: datetime
  dc_timezone :: string
  dc_timeframes :: "string list"
  dc_trigger_inputs :: "string set"
  dc_supplemental_inputs :: "string set"
  dc_closed_candles_only :: bool
  dc_public_only :: bool

record universe_contract =
  uc_kind :: string
  uc_top_volume :: int
  uc_top_gainers :: int
  uc_exclude_bases :: "string list"
  uc_classification :: string

record 'f parameter_range =
  pr_start :: 'f
  pr_stop :: 'f
  pr_step :: 'f

record 'f research_contract =
  rc_label :: string
  rc_horizon_hours :: int
  rc_move_threshold :: 'f
  rc_event_policy :: string
  rc_cooldown_seconds :: int
  rc_selection_days :: int
  rc_holdout_days :: int
  rc_primary_metric :: string
  rc_max_signals_per_symbol_day :: 'f
  rc_lookback_hours :: "int list"
  rc_volume_ratio :: "'f parameter_range"

record safety_contract =
  sy_signal_only :: bool
  sy_allow_execution :: bool
  sy_allow_authenticated_exchange_api :: bool
  sy_auto_promote_parameters :: bool

record 'f backtest_spec =
  bs_schema_version :: int
  bs_engine :: string
  bs_mode :: backtest_mode
  bs_strategy :: strategy_contract
  bs_data :: data_contract
  bs_universe :: universe_contract
  bs_research :: "'f research_contract"
  bs_safety :: safety_contract
  bs_source_path :: string
  bs_extensions :: "'f tbl"

text \<open>\<open>SAFE_BASE.fullmatch\<close>: \<open>^[A-Z0-9]{2,20}$\<close>\<close>

definition safe_base :: "string \<Rightarrow> bool" where
  "safe_base s \<longleftrightarrow> list_all (\<lambda>c. is_upper_ascii c \<or> is_digit_ascii c) s \<and> 2 \<le> length s \<and> length s \<le> 20"

definition forbidden_trigger_inputs :: "string set" where
  "forbidden_trigger_inputs = {''open_interest'', ''coinglass''}"

section \<open>Checks of a specification\<close>

text \<open>\<open>errors.append(message)\<close> if a condition holds\<close>

definition complaint :: "bool \<Rightarrow> string \<Rightarrow> string list" where
  "complaint wrong message = (if wrong then [message] else [])"

lemma complaint_empty [simp]: "complaint wrong m = [] \<longleftrightarrow> \<not> wrong"
  by (simp add: complaint_def)

text \<open>\<open>ParameterRange.count\<close>; a division by zero is excluded by the check before it.\<close>

definition range_count :: "'f arith \<Rightarrow> 'f parameter_range \<Rightarrow> exn + int" where
  "range_count fl r = and_then (round_f fl (div_f fl (sub_f fl (pr_stop r) (pr_start r)) (pr_step r))) (\<lambda>n. Inr (n + 1))"

definition range_invalid :: "'f arith \<Rightarrow> 'f parameter_range \<Rightarrow> exn + bool" where
  "range_invalid fl r =
     (if le_f fl (pr_start r) (of_int_f fl 0) \<or> lt_f fl (pr_stop r) (pr_start r) \<or>
         le_f fl (pr_step r) (of_int_f fl 0)
      then Inr True
      else and_then (range_count fl r) (\<lambda>n. Inr (1000 < n)))"

definition strictly_between :: "'f arith \<Rightarrow> 'f \<Rightarrow> bool" where
  "strictly_between fl x \<longleftrightarrow> lt_f fl (of_int_f fl 0) x \<and> lt_f fl x (of_int_f fl 1)"

definition directions :: "string set" where
  "directions = {''neutral'', ''bullish'', ''bearish''}"

definition day :: timedelta where
  "day = 86400000000"

text \<open>\<open>int(seconds / 86400)\<close> truncates.\<close>

definition evaluation_days :: "data_contract \<Rightarrow> int" where
  "evaluation_days d = (let w = dt_diff (dc_end d) (dc_start d) in
     if 0 \<le> w then w div day else - ((- w) div day))"

definition identity_errors :: "'f backtest_spec \<Rightarrow> string list" where
  "identity_errors s =
     complaint (bs_schema_version s \<noteq> 1) ''schema_version must be 1'' @
     complaint (\<not> safe_id (bs_engine s)) ''engine must be a safe stable identifier'' @
     complaint (\<not> safe_id (sc_id (bs_strategy s))) ''strategy.id must be a safe stable identifier'' @
     complaint (sc_version (bs_strategy s) = []) ''strategy.version is required'' @
     complaint (sc_direction (bs_strategy s) \<notin> directions) ''strategy.direction must be neutral, bullish, or bearish''"

definition data_errors :: "data_contract \<Rightarrow> string list" where
  "data_errors d = (let forbidden = dc_trigger_inputs d \<inter> forbidden_trigger_inputs in
     complaint (forbidden \<noteq> {}) (''trigger_inputs cannot contain supplemental-only inputs: '' @
       str_join '', '' (sorted_list_of_set forbidden)) @
     complaint (dc_timezone d \<noteq> ''UTC'') ''data.timezone must be UTC'' @
     complaint (dc_end d \<le> dc_start d) ''data.start must be earlier than data.end'' @
     complaint (dc_timeframes d = [] \<or> \<not> distinct (dc_timeframes d)) ''data.timeframes must be non-empty and unique'' @
     complaint (dc_trigger_inputs d = {}) ''data.trigger_inputs must be non-empty'' @
     complaint (dc_trigger_inputs d \<inter> dc_supplemental_inputs d \<noteq> {}) ''trigger and supplemental inputs must be disjoint'' @
     complaint (\<not> dc_closed_candles_only d) ''backtests must use closed candles only'' @
     complaint (\<not> dc_public_only d) ''only public market data is allowed'')"

definition window_errors :: "data_contract \<Rightarrow> 'f research_contract \<Rightarrow> string list" where
  "window_errors d r =
     complaint (dt_diff (dc_end d) (dc_start d) mod day \<noteq> 0) ''data window must contain complete UTC days'' @
     complaint (evaluation_days d \<noteq> rc_selection_days r + rc_holdout_days r)
       ''selection_days + holdout_days must equal the UTC data window'' @
     complaint (rc_selection_days r < 1 \<or> rc_holdout_days r < 1) ''selection_days and holdout_days must be positive''"

definition research_errors :: "'f arith \<Rightarrow> 'f research_contract \<Rightarrow> string list" where
  "research_errors fl r =
     complaint (rc_horizon_hours r < 1 \<or> \<not> strictly_between fl (rc_move_threshold r))
       ''research label horizon/threshold are invalid'' @
     complaint (rc_event_policy r \<noteq> ''onset'') ''only false-to-true onset event policy is supported'' @
     complaint (rc_cooldown_seconds r < 0) ''cooldown_seconds cannot be negative'' @
     complaint (rc_lookback_hours r = [] \<or> (\<exists>h \<in> set (rc_lookback_hours r). h < 1))
       ''lookback_hours must contain positive values'' @
     complaint (64 < length (rc_lookback_hours r)) ''lookback_hours cannot contain more than 64 values'' @
     complaint (\<not> distinct (rc_lookback_hours r)) ''lookback_hours must be unique''"

definition ranking_invalid :: "int \<Rightarrow> int \<Rightarrow> bool" where
  "ranking_invalid top_volume top_gainers \<longleftrightarrow>
     \<not> (1 \<le> top_volume \<and> top_volume \<le> 100) \<or> \<not> (1 \<le> top_gainers \<and> top_gainers \<le> 100)"

definition limit_errors :: "'f arith \<Rightarrow> 'f backtest_spec \<Rightarrow> string list" where
  "limit_errors fl s =
     complaint (le_f fl (rc_max_signals_per_symbol_day (bs_research s)) (of_int_f fl 0))
       ''max_signals_per_symbol_day must be positive'' @
     complaint (ranking_invalid (uc_top_volume (bs_universe s)) (uc_top_gainers (bs_universe s)))
       ''universe ranking sizes must be between 1 and 100'' @
     complaint (\<not> list_all safe_base (uc_exclude_bases (bs_universe s)))
       ''universe.exclude_bases contains an invalid base asset'' @
     complaint (bs_extensions s \<noteq> []) ''schema version 1 does not support [extensions]''"

definition safety_errors :: "safety_contract \<Rightarrow> string list" where
  "safety_errors y =
     complaint (\<not> sy_signal_only y) ''safety.signal_only must be true'' @
     complaint (sy_allow_execution y) ''execution is forbidden'' @
     complaint (sy_allow_authenticated_exchange_api y) ''authenticated exchange APIs are forbidden'' @
     complaint (sy_auto_promote_parameters y) ''research parameters cannot be auto-promoted''"

text \<open>\<open>BacktestSpec.__post_init__\<close>\<close>

definition raise_errors :: "string list \<Rightarrow> 'a \<Rightarrow> exn + 'a" where
  "raise_errors errors x = (if errors = [] then Inr x else refuse (str_join ''; '' errors))"

lemma raise_errors_Inr [simp]: "raise_errors errors x = Inr y \<longleftrightarrow> errors = [] \<and> y = x"
  by (auto simp: raise_errors_def)

definition check_spec :: "'f arith \<Rightarrow> 'f backtest_spec \<Rightarrow> exn + 'f backtest_spec" where
  "check_spec fl s = and_then (range_invalid fl (rc_volume_ratio (bs_research s))) (\<lambda>invalid.
     raise_errors
      (identity_errors s @ data_errors (bs_data s) @ window_errors (bs_data s) (bs_research s) @
       research_errors fl (bs_research s) @
       complaint invalid ''research.parameters.volume_ratio range is invalid or too large'' @
       limit_errors fl s @ safety_errors (bs_safety s)) s)"

section \<open>The normalized form\<close>

definition str_list :: "string list \<Rightarrow> 'f toml" where
  "str_list xs = TArr (map TStr xs)"

definition sorted_strings :: "string set \<Rightarrow> 'f toml" where
  "sorted_strings xs = str_list (sorted_list_of_set xs)"

definition strategy_dict :: "strategy_contract \<Rightarrow> 'f toml" where
  "strategy_dict c = TTab [(''strategy_id'', TStr (sc_id c)), (''version'', TStr (sc_version c)),
     (''horizon'', TStr (horizon_value (sc_horizon c))), (''direction'', TStr (sc_direction c))]"

definition safety_dict :: "safety_contract \<Rightarrow> 'f toml" where
  "safety_dict y = TTab [(''signal_only'', TBool (sy_signal_only y)), (''allow_execution'', TBool (sy_allow_execution y)),
     (''allow_authenticated_exchange_api'', TBool (sy_allow_authenticated_exchange_api y)),
     (''auto_promote_parameters'', TBool (sy_auto_promote_parameters y))]"

definition data_dict :: "'f spec_env \<Rightarrow> data_contract \<Rightarrow> 'f toml" where
  "data_dict env d = TTab [(''provider'', TStr (dc_provider d)), (''start'', TStr (se_iso_of env (dc_start d))),
     (''end'', TStr (se_iso_of env (dc_end d))), (''timezone'', TStr (dc_timezone d)),
     (''timeframes'', str_list (dc_timeframes d)), (''trigger_inputs'', sorted_strings (dc_trigger_inputs d)),
     (''supplemental_inputs'', sorted_strings (dc_supplemental_inputs d)),
     (''closed_candles_only'', TBool (dc_closed_candles_only d)), (''public_only'', TBool (dc_public_only d))]"

definition universe_dict :: "universe_contract \<Rightarrow> 'f toml" where
  "universe_dict u = TTab [(''kind'', TStr (uc_kind u)), (''top_volume'', TInt (uc_top_volume u)),
     (''top_gainers'', TInt (uc_top_gainers u)), (''exclude_bases'', str_list (uc_exclude_bases u)),
     (''classification'', TStr (uc_classification u))]"

definition research_dict :: "'f research_contract \<Rightarrow> 'f toml" where
  "research_dict r = TTab [(''label'', TStr (rc_label r)), (''horizon_hours'', TInt (rc_horizon_hours r)),
     (''move_threshold'', TFloat (rc_move_threshold r)), (''event_policy'', TStr (rc_event_policy r)),
     (''cooldown_seconds'', TInt (rc_cooldown_seconds r)), (''selection_days'', TInt (rc_selection_days r)),
     (''holdout_days'', TInt (rc_holdout_days r)), (''primary_metric'', TStr (rc_primary_metric r)),
     (''max_signals_per_symbol_day'', TFloat (rc_max_signals_per_symbol_day r)),
     (''lookback_hours'', TArr (map TInt (rc_lookback_hours r))),
     (''volume_ratio'', TTab [(''start'', TFloat (pr_start (rc_volume_ratio r))),
        (''stop'', TFloat (pr_stop (rc_volume_ratio r))), (''step'', TFloat (pr_step (rc_volume_ratio r)))])]"

definition normalized_spec :: "'f spec_env \<Rightarrow> 'f backtest_spec \<Rightarrow> 'f toml" where
  "normalized_spec env s = TTab [(''schema_version'', TInt (bs_schema_version s)), (''engine'', TStr (bs_engine s)),
     (''mode'', TStr (mode_value (bs_mode s))), (''strategy'', strategy_dict (bs_strategy s)),
     (''data'', data_dict env (bs_data s)), (''universe'', universe_dict (bs_universe s)),
     (''research'', research_dict (bs_research s)), (''safety'', safety_dict (bs_safety s)),
     (''extensions'', TTab (bs_extensions s))]"

section \<open>Loading\<close>

text \<open>An enum's \<open>ValueError\<close> is raised again as a \<open>SpecValidationError\<close>.\<close>

definition enum_or_refuse :: "'f spec_env \<Rightarrow> string \<Rightarrow> (string \<Rightarrow> 'a option) \<Rightarrow> string \<Rightarrow> exn + 'a" where
  "enum_or_refuse env name parse s = (case parse s of
       Some a \<Rightarrow> Inr a
     | None \<Rightarrow> refuse (se_repr env s @ '' is not a valid '' @ name))"

definition load_strategy :: "backtest_horizon \<Rightarrow> 'f tbl \<Rightarrow> exn + strategy_contract" where
  "load_strategy h t = and_then (required_str t ''id'') (\<lambda>i.
     and_then (required_str t ''version'') (\<lambda>ver.
     and_then (required_str t ''direction'') (\<lambda>direction.
     Inr \<lparr>sc_id = i, sc_version = ver, sc_horizon = h, sc_direction = direction\<rparr>)))"

definition load_safety :: "'f tbl \<Rightarrow> exn + safety_contract" where
  "load_safety t = and_then (required_bool t ''signal_only'') (\<lambda>only.
     and_then (required_bool t ''allow_execution'') (\<lambda>execution.
     and_then (required_bool t ''allow_authenticated_exchange_api'') (\<lambda>api.
     and_then (required_bool t ''auto_promote_parameters'') (\<lambda>promote.
     Inr \<lparr>sy_signal_only = only, sy_allow_execution = execution,
       sy_allow_authenticated_exchange_api = api, sy_auto_promote_parameters = promote\<rparr>))))"

definition load_data :: "'f spec_env \<Rightarrow> 'f tbl \<Rightarrow> exn + data_contract" where
  "load_data env t = and_then (required_str t ''provider'') (\<lambda>provider.
     and_then (utc_datetime env t ''start'') (\<lambda>start.
     and_then (utc_datetime env t ''end'') (\<lambda>stop.
     and_then (required_str t ''timezone'') (\<lambda>zone.
     and_then (string_array t ''timeframes'') (\<lambda>frames.
     and_then (string_array t ''trigger_inputs'') (\<lambda>trigger.
     and_then (string_array t ''supplemental_inputs'') (\<lambda>supplemental.
     and_then (required_bool t ''closed_candles_only'') (\<lambda>closed.
     and_then (required_bool t ''public_only'') (\<lambda>public.
     Inr \<lparr>dc_provider = provider, dc_start = start, dc_end = stop, dc_timezone = zone,
       dc_timeframes = frames, dc_trigger_inputs = set trigger, dc_supplemental_inputs = set supplemental,
       dc_closed_candles_only = closed, dc_public_only = public\<rparr>)))))))))"

definition load_universe :: "'f tbl \<Rightarrow> exn + universe_contract" where
  "load_universe t = and_then (required_str t ''kind'') (\<lambda>kind.
     and_then (required_int t ''top_volume'') (\<lambda>volume.
     and_then (required_int t ''top_gainers'') (\<lambda>gainers.
     and_then (string_array t ''exclude_bases'') (\<lambda>bases.
     and_then (required_str t ''classification'') (\<lambda>classification.
     Inr \<lparr>uc_kind = kind, uc_top_volume = volume, uc_top_gainers = gainers, uc_exclude_bases = bases,
       uc_classification = classification\<rparr>)))))"

definition load_range :: "'f spec_env \<Rightarrow> 'f tbl \<Rightarrow> exn + 'f parameter_range" where
  "load_range env t = and_then (number env t ''start'') (\<lambda>start.
     and_then (number env t ''stop'') (\<lambda>stop.
     and_then (number env t ''step'') (\<lambda>step.
     Inr \<lparr>pr_start = start, pr_stop = stop, pr_step = step\<rparr>)))"

definition load_research :: "'f spec_env \<Rightarrow> 'f tbl \<Rightarrow> 'f tbl \<Rightarrow> exn + 'f research_contract" where
  "load_research env t ratio = and_then (required_str t ''label'') (\<lambda>label.
     and_then (required_int t ''horizon_hours'') (\<lambda>hours.
     and_then (number env t ''move_threshold'') (\<lambda>threshold.
     and_then (required_str t ''event_policy'') (\<lambda>policy.
     and_then (required_int t ''cooldown_seconds'') (\<lambda>cooldown.
     and_then (required_int t ''selection_days'') (\<lambda>selection.
     and_then (required_int t ''holdout_days'') (\<lambda>holdout.
     and_then (required_str t ''primary_metric'') (\<lambda>metric.
     and_then (number env t ''max_signals_per_symbol_day'') (\<lambda>limit.
     and_then (int_array t ''lookback_hours'') (\<lambda>lookback.
     and_then (load_range env ratio) (\<lambda>range.
     Inr \<lparr>rc_label = label, rc_horizon_hours = hours, rc_move_threshold = threshold, rc_event_policy = policy,
       rc_cooldown_seconds = cooldown, rc_selection_days = selection, rc_holdout_days = holdout,
       rc_primary_metric = metric, rc_max_signals_per_symbol_day = limit, rc_lookback_hours = lookback,
       rc_volume_ratio = range\<rparr>)))))))))))"

definition load_v1 :: "'f spec_env \<Rightarrow> 'f tbl \<Rightarrow> string \<Rightarrow> exn + 'f backtest_spec" where
  "load_v1 env raw path =
     and_then (sub_table raw ''strategy'') (\<lambda>strategy.
     and_then (sub_table raw ''data'') (\<lambda>dat.
     and_then (sub_table raw ''universe'') (\<lambda>universe.
     and_then (sub_table raw ''research'') (\<lambda>research.
     and_then (sub_table research ''parameters'') (\<lambda>parameters.
     and_then (sub_table parameters ''volume_ratio'') (\<lambda>ratio.
     and_then (sub_table raw ''safety'') (\<lambda>safety.
     and_then (case map_of raw ''extensions'' of None \<Rightarrow> Inr [] | Some (TTab t) \<Rightarrow> Inr t
         | _ \<Rightarrow> refuse ''[extensions] must be a table'') (\<lambda>extensions.
     and_then (reject_unknown raw [''schema_version'', ''engine'', ''mode'', ''strategy'', ''data'', ''universe'',
         ''research'', ''safety'', ''extensions''] ''root'') (\<lambda>_.
     and_then (reject_unknown strategy [''id'', ''version'', ''horizon'', ''direction''] ''strategy'') (\<lambda>_.
     and_then (reject_unknown dat [''provider'', ''start'', ''end'', ''timezone'', ''timeframes'', ''trigger_inputs'',
         ''supplemental_inputs'', ''closed_candles_only'', ''public_only''] ''data'') (\<lambda>_.
     and_then (reject_unknown universe [''kind'', ''top_volume'', ''top_gainers'', ''exclude_bases'',
         ''classification''] ''universe'') (\<lambda>_.
     and_then (reject_unknown research [''label'', ''horizon_hours'', ''move_threshold'', ''event_policy'',
         ''cooldown_seconds'', ''selection_days'', ''holdout_days'', ''primary_metric'',
         ''max_signals_per_symbol_day'', ''lookback_hours'', ''parameters''] ''research'') (\<lambda>_.
     and_then (reject_unknown parameters [''volume_ratio''] ''research.parameters'') (\<lambda>_.
     and_then (reject_unknown ratio [''start'', ''stop'', ''step''] ''volume_ratio'') (\<lambda>_.
     and_then (reject_unknown safety [''signal_only'', ''allow_execution'', ''allow_authenticated_exchange_api'',
         ''auto_promote_parameters''] ''safety'') (\<lambda>_.
     and_then (and_then (required_str strategy ''horizon'') (enum_or_refuse env ''BacktestHorizon'' horizon_of)) (\<lambda>horizon.
     and_then (and_then (required_str raw ''mode'') (enum_or_refuse env ''BacktestMode'' mode_of)) (\<lambda>mode.
     and_then (required_int raw ''schema_version'') (\<lambda>ver.
     and_then (required_str raw ''engine'') (\<lambda>engine.
     and_then (load_strategy horizon strategy) (\<lambda>sc.
     and_then (load_data env dat) (\<lambda>dc.
     and_then (load_universe universe) (\<lambda>uc.
     and_then (load_research env research ratio) (\<lambda>rc.
     and_then (load_safety safety) (\<lambda>sy.
     check_spec (se_arith env)
       \<lparr>bs_schema_version = ver, bs_engine = engine, bs_mode = mode, bs_strategy = sc, bs_data = dc,
        bs_universe = uc, bs_research = rc, bs_safety = sy, bs_source_path = path,
        bs_extensions = extensions\<rparr>)))))))))))))))))))))))))"

end
