(* ===== verification/Generic_Spec.thy ===== *)
theory Generic_Spec
  imports Backtest_Spec
begin

text \<open>
  src/src/quant_signal_agent/backtesting/generic_spec.py: specifications of schema version 2, their
  checks, their normalized form and hash, and \<open>load_generic_spec\<close>; \<open>load_spec\<close> of backtesting/spec.py,
  which chooses the version.

  The loader does not check the type of a feature's parameter references; a value that is no string
  refers to no parameter here (the empty name, which is no safe identifier). Python agrees that such a
  feature is refused, but for an array or a table it is with a \<open>TypeError\<close> of the set lookup.
\<close>

section \<open>Contracts\<close>

record generic_data = data_contract +
  gd_catalog_path :: string
  gd_source_columns :: "string list"

record generic_universe = universe_contract +
  gu_symbols :: "string list"
  gu_ranking_days :: int

record 'f search_parameter =
  sp_id :: string
  sp_values :: "'f list"

record signal_contract =
  sg_condition :: string
  sg_event_policy :: string
  sg_cooldown_seconds :: int

record 'f label_contract =
  lc_operator :: string
  lc_high_column :: string
  lc_low_column :: string
  lc_close_column :: string
  lc_horizon_hours :: int
  lc_threshold :: 'f

record 'f validation_contract =
  vc_method :: string
  vc_selection_fraction :: 'f
  vc_holdout_fraction :: 'f
  vc_primary_metric :: string
  vc_max_signals_per_symbol_day :: 'f

record 'f generic_spec =
  gs_schema_version :: int
  gs_engine :: string
  gs_mode :: backtest_mode
  gs_strategy :: strategy_contract
  gs_data :: generic_data
  gs_universe :: generic_universe
  gs_parameters :: "'f search_parameter list"
  gs_features :: "'f feature_node list"
  gs_signal :: signal_contract
  gs_label :: "'f label_contract"
  gs_validation :: "'f validation_contract"
  gs_safety :: safety_contract
  gs_source_path :: string

section \<open>Checks\<close>

text \<open>\<open>Path(p).is_absolute() or ".." in Path(p).parts\<close>, on POSIX\<close>

definition unsafe_path :: "string \<Rightarrow> bool" where
  "unsafe_path p \<longleftrightarrow> str_startswith p ''/'' \<or> ''..'' \<in> set (str_split CHR ''/'' p)"

definition generic_identity_errors :: "'f generic_spec \<Rightarrow> string list" where
  "generic_identity_errors s =
     complaint (gs_schema_version s \<noteq> 2) ''generic spec schema_version must be 2'' @
     complaint (\<not> safe_id (gs_engine s) \<or> \<not> safe_id (sc_id (gs_strategy s)))
       ''engine and strategy.id must be safe identifiers'' @
     complaint (dc_trigger_inputs (gs_data s) \<inter> forbidden_trigger_inputs \<noteq> {})
       ''OI and CoinGlass inputs must remain supplemental'' @
     complaint (sc_direction (gs_strategy s) \<notin> directions) ''strategy.direction is invalid''"

definition generic_data_errors :: "generic_data \<Rightarrow> string list" where
  "generic_data_errors d =
     complaint (dc_provider d \<notin> {''normalized_csv'', ''binance_public''}) ''unsupported public data provider'' @
     complaint (unsafe_path (gd_catalog_path d)) ''data.catalog_path must be a safe project-relative path'' @
     complaint (dc_timezone d \<noteq> ''UTC'') ''data.timezone must be UTC'' @
     complaint (dc_end d \<le> dc_start d) ''data range must be increasing timezone-aware UTC'' @
     complaint (dc_timeframes d = [] \<or> \<not> distinct (dc_timeframes d)) ''data.timeframes must be non-empty and unique'' @
     complaint (\<not> dc_closed_candles_only d \<or> \<not> dc_public_only d) ''backtests require closed candles and public data'' @
     complaint (dc_trigger_inputs d = {}) ''data.trigger_inputs must be non-empty'' @
     complaint (dc_trigger_inputs d \<inter> dc_supplemental_inputs d \<noteq> {}) ''trigger and supplemental inputs must be disjoint''"

definition universe_kinds :: "string set" where
  "universe_kinds = {''fixed'', ''binance_ranked_altcoins''}"

definition generic_universe_errors :: "generic_universe \<Rightarrow> string list" where
  "generic_universe_errors u =
     complaint (uc_kind u \<notin> universe_kinds) ''unsupported universe kind'' @
     complaint (uc_kind u = ''fixed'' \<and> gu_symbols u = []) ''fixed universe requires symbols'' @
     complaint (gu_ranking_days u < 1) ''universe.ranking_days must be positive'' @
     complaint (ranking_invalid (uc_top_volume u) (uc_top_gainers u)) ''universe ranking sizes must be between 1 and 100'' @
     complaint (\<not> list_all safe_base (uc_exclude_bases u)) ''universe.exclude_bases contains an invalid base asset''"

definition combinations :: "'f search_parameter list \<Rightarrow> nat" where
  "combinations ps = foldl (\<lambda>n p. n * length (sp_values p)) 1 ps"

definition grid_errors :: "'f search_parameter list \<Rightarrow> string list" where
  "grid_errors ps = (let ids = map sp_id ps in
     complaint (ids = [] \<or> \<not> distinct ids \<or> \<not> list_all safe_id ids)
       ''search parameter IDs must be safe, non-empty, and unique'' @
     concat (map (\<lambda>p. complaint (sp_values p = [] \<or> 1000 < length (sp_values p))
       (''parameter '' @ sp_id p @ '' has an invalid grid'')) ps) @
     complaint (100000 < combinations ps) ''parameter grid exceeds 100000 combinations'')"

definition label_errors :: "'f arith \<Rightarrow> signal_contract \<Rightarrow> 'f label_contract \<Rightarrow> string list" where
  "label_errors fl g l =
     complaint (sg_event_policy g \<noteq> ''onset'' \<or> sg_cooldown_seconds g < 0)
       ''only onset with a non-negative cooldown is supported'' @
     complaint (lc_operator l \<noteq> ''future_absolute_move'') ''only future_absolute_move labels are supported'' @
     complaint (lc_horizon_hours l < 1 \<or> \<not> strictly_between fl (lc_threshold l)) ''label horizon and threshold are invalid''"

definition primary_metrics :: "string set" where
  "primary_metrics = {''wilson_lower'', ''precision'', ''lift''}"

definition fractions_complete :: "'f spec_env \<Rightarrow> 'f validation_contract \<Rightarrow> bool" where
  "fractions_complete env v = (let fl = se_arith env in
     lt_f fl (abs_f fl (sub_f fl (add_f fl (vc_selection_fraction v) (vc_holdout_fraction v)) (of_int_f fl 1))) (se_tiny env))"

definition validation_errors :: "'f spec_env \<Rightarrow> 'f validation_contract \<Rightarrow> string list" where
  "validation_errors env v = (let fl = se_arith env in
     complaint (vc_method v \<noteq> ''chronological_holdout'') ''only chronological_holdout validation is supported'' @
     complaint (\<not> strictly_between fl (vc_selection_fraction v))
       ''validation.selection_fraction must be between zero and one'' @
     complaint (\<not> strictly_between fl (vc_holdout_fraction v) \<or> \<not> fractions_complete env v)
       ''selection and holdout fractions must sum to one'' @
     complaint (vc_primary_metric v \<notin> primary_metrics) ''unsupported primary metric'' @
     complaint (le_f fl (vc_max_signals_per_symbol_day v) (of_int_f fl 0)) ''max signals per symbol-day must be positive'')"

definition generic_safety_errors :: "safety_contract \<Rightarrow> string list" where
  "generic_safety_errors y =
     complaint (\<not> sy_signal_only y) ''safety.signal_only must be true'' @
     complaint (sy_allow_execution y \<or> sy_allow_authenticated_exchange_api y)
       ''execution and authenticated exchange APIs are forbidden'' @
     complaint (sy_auto_promote_parameters y) ''research parameters cannot be auto-promoted''"

definition generic_errors :: "'f spec_env \<Rightarrow> 'f generic_spec \<Rightarrow> string list" where
  "generic_errors env s =
     generic_identity_errors s @ generic_data_errors (gs_data s) @ generic_universe_errors (gs_universe s) @
     grid_errors (gs_parameters s) @ label_errors (se_arith env) (gs_signal s) (gs_label s) @
     validation_errors env (gs_validation s) @ generic_safety_errors (gs_safety s)"

text \<open>\<open>compile_graph\<close> and \<open>GenericBacktestSpec.__post_init__\<close>\<close>

definition spec_graph :: "'f generic_spec \<Rightarrow> exn + 'f feature_graph" where
  "spec_graph s = compile_feature_graph (gd_source_columns (gs_data s)) (gs_features s)
     (sg_condition (gs_signal s)) (set (map sp_id (gs_parameters s)))"

definition check_generic :: "'f spec_env \<Rightarrow> 'f generic_spec \<Rightarrow> exn + 'f generic_spec" where
  "check_generic env s = and_then (raise_errors (generic_errors env s) s) (\<lambda>_.
     and_then (spec_graph s) (\<lambda>_. Inr s))"

section \<open>The normalized form\<close>

definition generic_data_dict :: "'f spec_env \<Rightarrow> generic_data \<Rightarrow> 'f toml" where
  "generic_data_dict env d = TTab [(''provider'', TStr (dc_provider d)), (''catalog_path'', TStr (gd_catalog_path d)),
     (''start'', TStr (se_iso_of env (dc_start d))), (''end'', TStr (se_iso_of env (dc_end d))),
     (''timezone'', TStr (dc_timezone d)), (''timeframes'', str_list (dc_timeframes d)),
     (''source_columns'', str_list (gd_source_columns d)), (''trigger_inputs'', sorted_strings (dc_trigger_inputs d)),
     (''supplemental_inputs'', sorted_strings (dc_supplemental_inputs d)),
     (''closed_candles_only'', TBool (dc_closed_candles_only d)), (''public_only'', TBool (dc_public_only d))]"

definition generic_universe_dict :: "generic_universe \<Rightarrow> 'f toml" where
  "generic_universe_dict u = TTab [(''kind'', TStr (uc_kind u)), (''symbols'', str_list (gu_symbols u)),
     (''ranking_days'', TInt (gu_ranking_days u)), (''top_volume'', TInt (uc_top_volume u)),
     (''top_gainers'', TInt (uc_top_gainers u)), (''exclude_bases'', str_list (uc_exclude_bases u)),
     (''classification'', TStr (uc_classification u))]"

text \<open>An optional value of the payload; \<open>None\<close> is JSON's null (\<open>TOther\<close>).\<close>

definition nullable :: "('a \<Rightarrow> 'f toml) \<Rightarrow> 'a option \<Rightarrow> 'f toml" where
  "nullable f v = (case v of None \<Rightarrow> TOther | Some a \<Rightarrow> f a)"

definition feature_dict :: "'f feature_node \<Rightarrow> 'f toml" where
  "feature_dict n = TTab [(''feature_id'', TStr (feature_id n)), (''operator'', TStr (operator_value (operator n))),
     (''inputs'', str_list (inputs n)), (''window_parameter'', nullable TStr (window_parameter n)),
     (''threshold_parameter'', nullable TStr (threshold_parameter n)),
     (''constant'', nullable TFloat (constant_value n))]"

definition parameter_dict :: "'f search_parameter \<Rightarrow> 'f toml" where
  "parameter_dict p = TTab [(''parameter_id'', TStr (sp_id p)), (''values'', TArr (map TFloat (sp_values p)))]"

definition signal_dict :: "signal_contract \<Rightarrow> 'f toml" where
  "signal_dict g = TTab [(''condition'', TStr (sg_condition g)), (''event_policy'', TStr (sg_event_policy g)),
     (''cooldown_seconds'', TInt (sg_cooldown_seconds g))]"

definition label_dict :: "'f label_contract \<Rightarrow> 'f toml" where
  "label_dict l = TTab [(''operator'', TStr (lc_operator l)), (''high_column'', TStr (lc_high_column l)),
     (''low_column'', TStr (lc_low_column l)), (''close_column'', TStr (lc_close_column l)),
     (''horizon_hours'', TInt (lc_horizon_hours l)), (''threshold'', TFloat (lc_threshold l))]"

definition validation_dict :: "'f validation_contract \<Rightarrow> 'f toml" where
  "validation_dict v = TTab [(''method'', TStr (vc_method v)), (''selection_fraction'', TFloat (vc_selection_fraction v)),
     (''holdout_fraction'', TFloat (vc_holdout_fraction v)), (''primary_metric'', TStr (vc_primary_metric v)),
     (''max_signals_per_symbol_day'', TFloat (vc_max_signals_per_symbol_day v))]"

definition normalized_generic :: "'f spec_env \<Rightarrow> 'f generic_spec \<Rightarrow> 'f toml" where
  "normalized_generic env s = TTab [(''schema_version'', TInt (gs_schema_version s)), (''engine'', TStr (gs_engine s)),
     (''mode'', TStr (mode_value (gs_mode s))), (''strategy'', strategy_dict (gs_strategy s)),
     (''data'', generic_data_dict env (gs_data s)), (''universe'', generic_universe_dict (gs_universe s)),
     (''parameters'', TArr (map parameter_dict (gs_parameters s))), (''features'', TArr (map feature_dict (gs_features s))),
     (''signal'', signal_dict (gs_signal s)), (''label'', label_dict (gs_label s)),
     (''validation'', validation_dict (gs_validation s)), (''safety'', safety_dict (gs_safety s))]"

definition generic_sha256 :: "'f spec_env \<Rightarrow> 'f generic_spec \<Rightarrow> string" where
  "generic_sha256 env s = se_sha256 env (se_encode env (normalized_generic env s))"

section \<open>Loading\<close>

definition generic_utc :: "'f spec_env \<Rightarrow> 'f tbl \<Rightarrow> string \<Rightarrow> exn + datetime" where
  "generic_utc env = utc_stamp env '' must be ISO-8601 UTC'' '' must be timezone-aware UTC''"

definition table_rows :: "'f tbl \<Rightarrow> string \<Rightarrow> exn + 'f tbl list" where
  "table_rows raw k = (let bad = refuse (''[['' @ k @ '']] entries are required'') in
     case map_of raw k of
       Some (TArr vs) \<Rightarrow> if list_all (\<lambda>v. case v of TTab t \<Rightarrow> True | _ \<Rightarrow> False) vs
         then Inr (map (\<lambda>v. case v of TTab t \<Rightarrow> t | _ \<Rightarrow> []) vs) else bad
     | _ \<Rightarrow> bad)"

definition numeric_values :: "'f spec_env \<Rightarrow> 'f tbl \<Rightarrow> exn + 'f list" where
  "numeric_values env t = (let message = ''parameter values must be a numeric array'' in
     case map_of t ''values'' of
       Some (TArr vs) \<Rightarrow> if list_all (\<lambda>v. case v of TInt i \<Rightarrow> True | TFloat x \<Rightarrow> True | _ \<Rightarrow> False) vs
         then traverse (\<lambda>v. number_of env message (Some v)) vs else refuse message
     | _ \<Rightarrow> refuse message)"

definition operator_of :: "string \<Rightarrow> feature_operator option" where
  "operator_of s = find (\<lambda>op. operator_value op = s) [ROLLING_MEAN, ROLLING_RATIO, ROBUST_ZSCORE, PCT_CHANGE,
     MINIMUM, MAXIMUM, GREATER_EQUAL, LESS_EQUAL, ALL_OF, ANY_OF, ABS, LOG1P]"

definition reference :: "'f tbl \<Rightarrow> string \<Rightarrow> string option" where
  "reference t k = (case map_of t k of None \<Rightarrow> None | Some (TStr s) \<Rightarrow> Some s | Some _ \<Rightarrow> Some [])"

definition load_feature :: "'f spec_env \<Rightarrow> 'f tbl \<Rightarrow> exn + 'f feature_node" where
  "load_feature env t = and_then (required_str t ''id'') (\<lambda>i.
     and_then (and_then (required_str t ''operator'') (enum_or_refuse env ''FeatureOperator'' operator_of)) (\<lambda>op.
     and_then (string_array t ''inputs'') (\<lambda>ins.
     and_then (case map_of t ''constant'' of None \<Rightarrow> Inr None
         | Some v \<Rightarrow> and_then (number env t ''constant'') (\<lambda>x. Inr (Some x))) (\<lambda>c.
     Inr \<lparr>feature_id = i, operator = op, inputs = ins, window_parameter = reference t ''window_parameter'',
       threshold_parameter = reference t ''threshold_parameter'', constant_value = c\<rparr>))))"

definition load_generic_data :: "'f spec_env \<Rightarrow> 'f tbl \<Rightarrow> exn + generic_data" where
  "load_generic_data env t = and_then (required_str t ''provider'') (\<lambda>provider.
     and_then (required_str t ''catalog_path'') (\<lambda>catalog.
     and_then (generic_utc env t ''start'') (\<lambda>start.
     and_then (generic_utc env t ''end'') (\<lambda>stop.
     and_then (required_str t ''timezone'') (\<lambda>zone.
     and_then (string_array t ''timeframes'') (\<lambda>frames.
     and_then (string_array t ''source_columns'') (\<lambda>sources.
     and_then (string_array t ''trigger_inputs'') (\<lambda>trigger.
     and_then (string_array t ''supplemental_inputs'') (\<lambda>supplemental.
     and_then (required_bool t ''closed_candles_only'') (\<lambda>closed.
     and_then (required_bool t ''public_only'') (\<lambda>public.
     Inr \<lparr>dc_provider = provider, dc_start = start, dc_end = stop, dc_timezone = zone,
       dc_timeframes = frames, dc_trigger_inputs = set trigger, dc_supplemental_inputs = set supplemental,
       dc_closed_candles_only = closed, dc_public_only = public,
       gd_catalog_path = catalog, gd_source_columns = sources\<rparr>)))))))))))"

definition load_generic_universe :: "'f tbl \<Rightarrow> exn + generic_universe" where
  "load_generic_universe t = and_then (required_str t ''kind'') (\<lambda>kind.
     and_then (string_array t ''symbols'') (\<lambda>symbols.
     and_then (required_int t ''ranking_days'') (\<lambda>days.
     and_then (required_int t ''top_volume'') (\<lambda>volume.
     and_then (required_int t ''top_gainers'') (\<lambda>gainers.
     and_then (string_array t ''exclude_bases'') (\<lambda>bases.
     and_then (required_str t ''classification'') (\<lambda>classification.
     Inr \<lparr>uc_kind = kind, uc_top_volume = volume, uc_top_gainers = gainers, uc_exclude_bases = bases,
       uc_classification = classification, gu_symbols = symbols, gu_ranking_days = days\<rparr>)))))))"

definition load_parameter :: "'f spec_env \<Rightarrow> 'f tbl \<Rightarrow> exn + 'f search_parameter" where
  "load_parameter env t = and_then (required_str t ''id'') (\<lambda>i.
     and_then (numeric_values env t) (\<lambda>vs. Inr \<lparr>sp_id = i, sp_values = vs\<rparr>))"

definition load_signal :: "'f tbl \<Rightarrow> exn + signal_contract" where
  "load_signal t = and_then (required_str t ''condition'') (\<lambda>condition.
     and_then (required_str t ''event_policy'') (\<lambda>policy.
     and_then (required_int t ''cooldown_seconds'') (\<lambda>cooldown.
     Inr \<lparr>sg_condition = condition, sg_event_policy = policy, sg_cooldown_seconds = cooldown\<rparr>)))"

definition load_label :: "'f spec_env \<Rightarrow> 'f tbl \<Rightarrow> exn + 'f label_contract" where
  "load_label env t = and_then (required_str t ''operator'') (\<lambda>op.
     and_then (required_str t ''high_column'') (\<lambda>high.
     and_then (required_str t ''low_column'') (\<lambda>low.
     and_then (required_str t ''close_column'') (\<lambda>close.
     and_then (required_int t ''horizon_hours'') (\<lambda>hours.
     and_then (number env t ''threshold'') (\<lambda>threshold.
     Inr \<lparr>lc_operator = op, lc_high_column = high, lc_low_column = low, lc_close_column = close,
       lc_horizon_hours = hours, lc_threshold = threshold\<rparr>))))))"

definition load_validation :: "'f spec_env \<Rightarrow> 'f tbl \<Rightarrow> exn + 'f validation_contract" where
  "load_validation env t = and_then (required_str t ''method'') (\<lambda>method.
     and_then (number env t ''selection_fraction'') (\<lambda>selection.
     and_then (number env t ''holdout_fraction'') (\<lambda>holdout.
     and_then (required_str t ''primary_metric'') (\<lambda>metric.
     and_then (number env t ''max_signals_per_symbol_day'') (\<lambda>limit.
     Inr \<lparr>vc_method = method, vc_selection_fraction = selection, vc_holdout_fraction = holdout,
       vc_primary_metric = metric, vc_max_signals_per_symbol_day = limit\<rparr>)))))"

text \<open>The strict allow-list of keys\<close>

definition root_keys :: "string list" where
  "root_keys = [''schema_version'', ''engine'', ''mode'', ''strategy'', ''data'', ''universe'', ''parameters'',
     ''features'', ''signal'', ''label'', ''validation'', ''safety'']"

definition table_keys :: "(string \<times> string list) list" where
  "table_keys = [(''strategy'', [''id'', ''version'', ''horizon'', ''direction'']),
     (''data'', [''provider'', ''catalog_path'', ''start'', ''end'', ''timezone'', ''timeframes'', ''source_columns'',
        ''trigger_inputs'', ''supplemental_inputs'', ''closed_candles_only'', ''public_only'']),
     (''universe'', [''kind'', ''symbols'', ''ranking_days'', ''top_volume'', ''top_gainers'', ''exclude_bases'',
        ''classification'']),
     (''signal'', [''condition'', ''event_policy'', ''cooldown_seconds'']),
     (''label'', [''operator'', ''high_column'', ''low_column'', ''close_column'', ''horizon_hours'', ''threshold'']),
     (''validation'', [''method'', ''selection_fraction'', ''holdout_fraction'', ''primary_metric'',
        ''max_signals_per_symbol_day'']),
     (''safety'', [''signal_only'', ''allow_execution'', ''allow_authenticated_exchange_api'',
        ''auto_promote_parameters''])]"

definition parameter_keys :: "string list" where
  "parameter_keys = [''id'', ''values'']"

definition feature_keys :: "string list" where
  "feature_keys = [''id'', ''operator'', ''inputs'', ''window_parameter'', ''threshold_parameter'', ''constant'']"

definition generic_tables :: "'f tbl \<Rightarrow> exn + 'f tbl list" where
  "generic_tables raw = and_then (traverse (sub_table raw) (map fst table_keys)) (\<lambda>ts.
     and_then (reject_unknown raw root_keys ''root'') (\<lambda>_.
     and_then (traverse (\<lambda>(t, name, allowed). reject_unknown t allowed name) (zip ts table_keys)) (\<lambda>_.
     Inr ts)))"

definition generic_rows :: "'f tbl \<Rightarrow> exn + 'f tbl list \<times> 'f tbl list" where
  "generic_rows raw = and_then (table_rows raw ''parameters'') (\<lambda>ps.
     and_then (table_rows raw ''features'') (\<lambda>fs.
     and_then (traverse (\<lambda>t. reject_unknown t parameter_keys ''parameters'') ps) (\<lambda>_.
     and_then (traverse (\<lambda>t. reject_unknown t feature_keys ''features'') fs) (\<lambda>_.
     Inr (ps, fs)))))"

definition load_tables :: "'f spec_env \<Rightarrow> 'f tbl \<Rightarrow> string \<Rightarrow> 'f tbl list \<times> 'f tbl list \<Rightarrow> 'f tbl \<Rightarrow> 'f tbl \<Rightarrow>
    'f tbl \<Rightarrow> 'f tbl \<Rightarrow> 'f tbl \<Rightarrow> 'f tbl \<Rightarrow> 'f tbl \<Rightarrow> exn + 'f generic_spec" where
  "load_tables env raw path rows strategy dat universe signal label valid safety =
     and_then (and_then (required_str strategy ''horizon'') (enum_or_refuse env ''BacktestHorizon'' horizon_of)) (\<lambda>horizon.
     and_then (and_then (required_str raw ''mode'') (enum_or_refuse env ''BacktestMode'' mode_of)) (\<lambda>mode.
     and_then (traverse (load_feature env) (snd rows)) (\<lambda>features.
     and_then (required_int raw ''schema_version'') (\<lambda>ver.
     and_then (required_str raw ''engine'') (\<lambda>engine.
     and_then (load_strategy horizon strategy) (\<lambda>sc.
     and_then (load_generic_data env dat) (\<lambda>gd.
     and_then (load_generic_universe universe) (\<lambda>gu.
     and_then (traverse (load_parameter env) (fst rows)) (\<lambda>parameters.
     and_then (load_signal signal) (\<lambda>sg.
     and_then (load_label env label) (\<lambda>lc.
     and_then (load_validation env valid) (\<lambda>vc.
     and_then (load_safety safety) (\<lambda>sy.
     check_generic env \<lparr>gs_schema_version = ver, gs_engine = engine, gs_mode = mode, gs_strategy = sc, gs_data = gd,
       gs_universe = gu, gs_parameters = parameters, gs_features = features, gs_signal = sg, gs_label = lc,
       gs_validation = vc, gs_safety = sy, gs_source_path = path\<rparr>)))))))))))))"

definition load_generic_spec :: "'f spec_env \<Rightarrow> 'f tbl \<Rightarrow> string \<Rightarrow> exn + 'f generic_spec" where
  "load_generic_spec env raw path = and_then (generic_tables raw) (\<lambda>ts.
     and_then (generic_rows raw) (\<lambda>rows. case ts of
       [strategy, dat, universe, signal, label, valid, safety] \<Rightarrow>
         load_tables env raw path rows strategy dat universe signal label valid safety
     | _ \<Rightarrow> Inl (AssertionError [])))"

section \<open>Documents\<close>

datatype 'f loaded_spec = Version1 "'f backtest_spec" | Version2 "'f generic_spec"

definition is_version_2 :: "'f arith \<Rightarrow> 'f toml option \<Rightarrow> bool" where
  "is_version_2 fl v = (case v of
       Some (TInt i) \<Rightarrow> i = 2
     | Some (TFloat x) \<Rightarrow> le_f fl x (of_int_f fl 2) \<and> le_f fl (of_int_f fl 2) x
     | _ \<Rightarrow> False)"

definition load_spec :: "'f spec_env \<Rightarrow> string \<Rightarrow> string \<Rightarrow> exn + 'f loaded_spec" where
  "load_spec env doc path = (case executable_blocks doc of
       [block] \<Rightarrow> (case se_toml env block of
           Inl e \<Rightarrow> refuse (''invalid qsa-backtest TOML: '' @ e)
         | Inr raw \<Rightarrow>
             if is_version_2 (se_arith env) (map_of raw ''schema_version'')
             then and_then (load_generic_spec env raw path) (\<lambda>s. Inr (Version2 s))
             else and_then (load_v1 env raw path) (\<lambda>s. Inr (Version1 s)))
     | _ \<Rightarrow> refuse ''spec.md must contain exactly one ```toml qsa-backtest executable block'')"

end
