(* ===== verification/Generic_Engine.thy ===== *)
theory Generic_Engine
  imports Generic_Spec Market_Data
begin

text \<open>
  src/src/quant_signal_agent/backtesting/generic_engine.py: \<open>VectorizedFeatureDslEngine\<close>, which
  searches a grid of parameters for the one whose signals predict large moves best on the selection
  part of a data set, and reports its metrics on the rest.

  Floats are the type \<open>'f\<close> of the feature language, with four more operations: \<open>ee_ratio\<close> is
  the division of two integers, \<open>ee_trunc\<close> is \<open>int(x)\<close>, \<open>ee_sqrt\<close> is \<open>math.sqrt\<close> and \<open>ee_z\<close> is 1.96.
  Files are parameters: the parts of a resolved path, \<open>universe.json\<close> behind \<open>json.loads\<close>, and a
  series, plain or compressed, behind \<open>csv.DictReader\<close> (\<open>None\<close> in a row is a missing cell).
  \<open>ee_local\<close> is the instant of a time without offset, which \<open>astimezone\<close> takes for local time.
\<close>

record csv_file =
  cf_name :: string
  cf_fields :: "string list option"
  cf_rows :: "(string \<times> string option) list list"

record 'f engine_env =
  ee_arith :: "'f arith"
  ee_ratio :: "int \<Rightarrow> int \<Rightarrow> 'f"
  ee_trunc :: "'f \<Rightarrow> exn + int"
  ee_sqrt :: "'f \<Rightarrow> exn + 'f"
  ee_z :: 'f
  ee_float :: "string \<Rightarrow> 'f option"
  ee_iso :: "string \<Rightarrow> stamp option"
  ee_local :: "int \<Rightarrow> datetime"
  ee_iso_of :: "datetime \<Rightarrow> string"
  ee_resolve :: "string \<Rightarrow> string list"
  ee_data_root :: "string list"
  ee_universe :: "string list \<Rightarrow> (exn + pyval) option"
  ee_series :: "string list \<Rightarrow> string \<Rightarrow> string \<Rightarrow> csv_file option"

section \<open>Validation\<close>

definition engine_id :: string where
  "engine_id = ''vectorized-feature-dsl-v1''"

definition engine_version :: string where
  "engine_version = ''1''"

definition label_columns :: "'f label_contract \<Rightarrow> string list" where
  "label_columns l = [lc_high_column l, lc_low_column l, lc_close_column l]"

definition validate_engine :: "'f loaded_spec \<Rightarrow> exn + 'f generic_spec" where
  "validate_engine spec = (case spec of
       Version1 _ \<Rightarrow> refuse ''vectorized feature DSL requires schema_version 2''
     | Version2 s \<Rightarrow>
         if dc_provider (gs_data s) \<noteq> ''normalized_csv''
         then refuse ''vectorized feature DSL currently requires normalized_csv research data''
         else if uc_kind (gs_universe s) \<notin> universe_kinds then refuse ''unsupported vectorized universe''
         else if \<not> set (label_columns (gs_label s)) \<subseteq> set (gd_source_columns (gs_data s))
         then refuse ''label columns must be declared source columns''
         else Inr s)"

section \<open>Data\<close>

definition resolve_symbols :: "'f engine_env \<Rightarrow> 'f generic_spec \<Rightarrow> string list \<Rightarrow> exn + string list" where
  "resolve_symbols env s catalog =
     (if gu_symbols (gs_universe s) \<noteq> [] then Inr (gu_symbols (gs_universe s))
      else case ee_universe env catalog of
        None \<Rightarrow> Inl (OSError ''ranked universe requires catalog/universe.json'')
      | Some (Inl e) \<Rightarrow> Inl e
      | Some (Inr v) \<Rightarrow> (case (case v of PDict d \<Rightarrow> dict_get d ''symbols'' | _ \<Rightarrow> PNone) of
            PList vs \<Rightarrow> if vs \<noteq> [] \<and> list_all (\<lambda>x. case x of PStr t \<Rightarrow> True | _ \<Rightarrow> False) vs
              then Inr (map (\<lambda>x. case x of PStr t \<Rightarrow> t | _ \<Rightarrow> []) vs)
              else Inl (ValueError ''universe.json must contain a non-empty symbols array'')
          | _ \<Rightarrow> Inl (ValueError ''universe.json must contain a non-empty symbols array'')))"

record 'f dataset =
  ds_timestamps :: "datetime list"
  ds_columns :: "'f source_table"

definition slug_of :: "string \<Rightarrow> string" where
  "slug_of symbol = map (\<lambda>c. if c = CHR ''/'' \<or> c = CHR '':'' then CHR ''_'' else c) symbol"

definition slug_safe :: "string \<Rightarrow> bool" where
  "slug_safe slug \<longleftrightarrow> slug \<noteq> [] \<and>
     list_all (\<lambda>c. is_upper_ascii c \<or> is_digit_ascii c \<or> c = CHR ''_'' \<or> c = CHR ''-'') slug"

definition instant_of :: "'f engine_env \<Rightarrow> stamp \<Rightarrow> datetime" where
  "instant_of env st = (case st of Local wall \<Rightarrow> ee_local env wall | Offset wall off \<Rightarrow> Datetime (wall - off))"

definition row_time :: "'f engine_env \<Rightarrow> (string \<times> string option) list \<Rightarrow> exn + datetime" where
  "row_time env row = (case map_of row ''timestamp'' of
       None \<Rightarrow> Inl (KeyError ''timestamp'')
     | Some None \<Rightarrow> Inl (AttributeError ''replace'')
     | Some (Some t) \<Rightarrow> (case ee_iso env (explicit_offset t) of
         None \<Rightarrow> Inl (ValueError ''Invalid isoformat string'')
       | Some st \<Rightarrow> Inr (instant_of env st)))"

definition cell :: "'f engine_env \<Rightarrow> (string \<times> string option) list \<Rightarrow> string \<Rightarrow> exn + 'f" where
  "cell env row name = (case map_of row name of
       None \<Rightarrow> Inl (KeyError name)
     | Some None \<Rightarrow> Inl (TypeError ''float() argument must be a string or a real number'')
     | Some (Some t) \<Rightarrow> (case ee_float env t of
         None \<Rightarrow> Inl (ValueError ''could not convert string to float'')
       | Some x \<Rightarrow> Inr x))"

text \<open>The rows of the requested range, with the values of the source columns.\<close>

fun load_rows ::
  "'f engine_env \<Rightarrow> generic_data \<Rightarrow> datetime option \<Rightarrow> (string \<times> string option) list list \<Rightarrow>
    exn + (datetime \<times> 'f list) list"
where
  "load_rows env d previous [] = Inr []"
| "load_rows env d previous (row # rows) = and_then (row_time env row) (\<lambda>t.
     if \<not> (dc_start d \<le> t \<and> t < dc_end d) then load_rows env d previous rows
     else if (case previous of None \<Rightarrow> False | Some p \<Rightarrow> t \<le> p)
     then Inl (ValueError ''normalized CSV timestamps must be strictly increasing'')
     else and_then (traverse (cell env row) (gd_source_columns d)) (\<lambda>vs.
       and_then (load_rows env d (Some t) rows) (\<lambda>rest. Inr ((t, vs) # rest))))"

definition dataset_of :: "string list \<Rightarrow> (datetime \<times> 'f list) list \<Rightarrow> 'f dataset" where
  "dataset_of names rows = \<lparr>ds_timestamps = map fst rows,
     ds_columns = map (\<lambda>k. (names ! k, map (\<lambda>r. snd r ! k) rows)) [0..<length names]\<rparr>"

definition load_dataset :: "'f engine_env \<Rightarrow> generic_data \<Rightarrow> string list \<Rightarrow> string \<Rightarrow> string \<Rightarrow> exn + 'f dataset" where
  "load_dataset env d catalog timeframe symbol = (let slug = slug_of symbol in
     if \<not> slug_safe slug then refuse (''unsafe catalog symbol: '' @ symbol)
     else case ee_series env catalog slug timeframe of
       None \<Rightarrow> Inl (OSError (''normalized research series is missing: '' @ slug @ ''/'' @ timeframe @ ''.csv[.gz]''))
     | Some f \<Rightarrow>
         if (case cf_fields f of None \<Rightarrow> True
             | Some names \<Rightarrow> \<not> set (''timestamp'' # gd_source_columns d) \<subseteq> set names)
         then Inl (ValueError (''normalized CSV is missing required columns: '' @ cf_name f))
         else and_then (load_rows env d None (cf_rows f)) (\<lambda>rows.
           if rows = [] then Inl (ValueError (''normalized CSV has no rows in the requested UTC range: '' @ cf_name f))
           else Inr (dataset_of (gd_source_columns d) rows)))"

section \<open>Labels and signals\<close>

definition candle_seconds :: "string \<Rightarrow> exn + int" where
  "candle_seconds timeframe = and_then (interval_duration timeframe) (\<lambda>d. Inr (d div seconds 1))"

definition column :: "'f dataset \<Rightarrow> string \<Rightarrow> exn + 'f list" where
  "column ds name = (case map_of (ds_columns ds) name of None \<Rightarrow> Inl (KeyError name) | Some c \<Rightarrow> Inr c)"

definition py_max :: "'f arith \<Rightarrow> 'f list \<Rightarrow> exn + 'f" where
  "py_max fl xs = (case xs of [] \<Rightarrow> Inl (ValueError ''max() iterable argument is empty'')
     | y # ys \<Rightarrow> Inr (extreme (\<lambda>a b. lt_f fl b a) y ys))"

definition py_min :: "'f arith \<Rightarrow> 'f list \<Rightarrow> exn + 'f" where
  "py_min fl xs = (case xs of [] \<Rightarrow> Inl (ValueError ''min() iterable argument is empty'')
     | y # ys \<Rightarrow> Inr (extreme (lt_f fl) y ys))"

definition window_after :: "nat \<Rightarrow> nat \<Rightarrow> 'a list \<Rightarrow> 'a list" where
  "window_after bars index xs = take bars (drop (index + 1) xs)"

definition label_at ::
  "'f arith \<Rightarrow> 'f \<Rightarrow> nat \<Rightarrow> 'f list \<Rightarrow> 'f list \<Rightarrow> 'f list \<Rightarrow> nat \<Rightarrow> exn + bool option"
where
  "label_at fl threshold bars highs lows closes index =
     (let future_high = window_after bars index highs; future_low = window_after bars index lows;
          current = closes ! index; one = of_int_f fl 1 in
      if length future_high \<noteq> bars \<or> le_f fl current (of_int_f fl 0) then Inr None
      else and_then (py_max fl future_high) (\<lambda>top.
        if le_f fl threshold (sub_f fl (div_f fl top current) one) then Inr (Some True)
        else and_then (py_min fl future_low) (\<lambda>bottom.
          Inr (Some (le_f fl threshold (sub_f fl one (div_f fl bottom current)))))))"

definition future_labels :: "'f arith \<Rightarrow> 'f label_contract \<Rightarrow> 'f dataset \<Rightarrow> int \<Rightarrow> exn + bool option list" where
  "future_labels fl l ds seconds_of =
     and_then (column ds (lc_high_column l)) (\<lambda>highs.
     and_then (column ds (lc_low_column l)) (\<lambda>lows.
     and_then (column ds (lc_close_column l)) (\<lambda>closes.
     traverse (label_at fl (lc_threshold l) (nat (lc_horizon_hours l * 3600 div seconds_of)) highs lows closes)
       [0..<length closes])))"

text \<open>\<open>math.ceil(a / b)\<close>, exact as long as the quotient has less than 53 bits\<close>

definition ceiling_ratio :: "int \<Rightarrow> int \<Rightarrow> int" where
  "ceiling_ratio a b = - ((- a) div b)"

fun cooled_from :: "int \<Rightarrow> int \<Rightarrow> int \<Rightarrow> bool list \<Rightarrow> bool list" where
  "cooled_from bars last_at index [] = []"
| "cooled_from bars last_at index (v # vs) = (let accepted = v \<and> bars < index - last_at in
     accepted # cooled_from bars (if accepted then index else last_at) (index + 1) vs)"

definition apply_cooldown :: "int \<Rightarrow> int \<Rightarrow> bool list \<Rightarrow> bool list" where
  "apply_cooldown cooldown seconds_of signal =
     (if cooldown = 0 then signal
      else let bars = ceiling_ratio cooldown seconds_of in cooled_from bars (- bars - 1) 0 signal)"

section \<open>Metrics\<close>

record 'f metric_set =
  ms_signals :: int
  ms_hits :: int
  ms_observations :: int
  ms_positives :: int
  ms_precision :: 'f
  ms_baseline :: 'f
  ms_lift :: 'f
  ms_wilson_lower :: 'f
  ms_signals_per_symbol_day :: 'f

record tally =
  ta_signals :: int
  ta_hits :: int
  ta_observations :: int
  ta_positives :: int
  ta_bars :: int

definition no_tally :: tally where
  "no_tally = \<lparr>ta_signals = 0, ta_hits = 0, ta_observations = 0, ta_positives = 0, ta_bars = 0\<rparr>"

definition count_one :: "bool \<times> bool option \<Rightarrow> tally \<Rightarrow> tally" where
  "count_one = (\<lambda>(triggered, label) t. case label of
       None \<Rightarrow> t
     | Some b \<Rightarrow> (let u = t\<lparr>ta_observations := ta_observations t + 1, ta_positives := ta_positives t + of_bool b\<rparr> in
         if triggered then u\<lparr>ta_signals := ta_signals u + 1, ta_hits := ta_hits u + of_bool b\<rparr> else u))"

fun count_parts :: "(bool list \<times> bool option list) list \<Rightarrow> tally \<Rightarrow> exn + tally" where
  "count_parts [] t = Inr t"
| "count_parts ((signal, labels) # parts) t =
     (if length signal \<noteq> length labels then Inl (ValueError ''zip() arguments have different lengths'')
      else count_parts parts (fold count_one (zip signal labels) (t\<lparr>ta_bars := ta_bars t + int (length signal)\<rparr>)))"

definition wilson_lower :: "'f engine_env \<Rightarrow> int \<Rightarrow> int \<Rightarrow> exn + 'f" where
  "wilson_lower env hits n = (let fl = ee_arith env; z = ee_z env; one = of_int_f fl 1 in
     if n = 0 then Inr (of_int_f fl 0)
     else let p = ee_ratio env hits n;
              zz = mul_f fl z z;
              denominator = add_f fl one (div_f fl zz (of_int_f fl n));
              center = add_f fl p (div_f fl zz (of_int_f fl (2 * n))) in
       and_then (ee_sqrt env (add_f fl (div_f fl (mul_f fl p (sub_f fl one p)) (of_int_f fl n))
           (div_f fl zz (of_int_f fl (4 * n * n))))) (\<lambda>root.
       Inr (div_f fl (sub_f fl center (mul_f fl z root)) denominator)))"

definition ratio_or_zero :: "'f engine_env \<Rightarrow> int \<Rightarrow> int \<Rightarrow> 'f" where
  "ratio_or_zero env a b = (if b \<noteq> 0 then ee_ratio env a b else of_int_f (ee_arith env) 0)"

definition metrics_of :: "'f engine_env \<Rightarrow> int \<Rightarrow> tally \<Rightarrow> exn + 'f metric_set" where
  "metrics_of env seconds_of t = (let fl = ee_arith env;
       precision = ratio_or_zero env (ta_hits t) (ta_signals t);
       baseline = ratio_or_zero env (ta_positives t) (ta_observations t);
       symbol_days = ee_ratio env (ta_bars t * seconds_of) 86400 in
     and_then (wilson_lower env (ta_hits t) (ta_signals t)) (\<lambda>wilson.
     Inr \<lparr>ms_signals = ta_signals t, ms_hits = ta_hits t, ms_observations = ta_observations t,
       ms_positives = ta_positives t, ms_precision = precision, ms_baseline = baseline,
       ms_lift = (if is_zero fl baseline then of_int_f fl 0 else div_f fl precision baseline),
       ms_wilson_lower = wilson,
       ms_signals_per_symbol_day = (if is_zero fl symbol_days then of_int_f fl 0
         else div_f fl (of_int_f fl (ta_signals t)) symbol_days)\<rparr>))"

definition metrics :: "'f engine_env \<Rightarrow> (bool list \<times> bool option list) list \<Rightarrow> int \<Rightarrow> exn + 'f metric_set" where
  "metrics env parts seconds_of = and_then (count_parts parts no_tally) (metrics_of env seconds_of)"

section \<open>The search\<close>

text \<open>\<open>sequence[:k]\<close> and \<open>sequence[k:]\<close>\<close>

definition slice_end :: "int \<Rightarrow> 'a list \<Rightarrow> nat" where
  "slice_end k xs = nat (if k < 0 then int (length xs) + k else k)"

definition slice_to :: "int \<Rightarrow> 'a list \<Rightarrow> 'a list" where
  "slice_to k xs = take (slice_end k xs) xs"

definition slice_from :: "int \<Rightarrow> 'a list \<Rightarrow> 'a list" where
  "slice_from k xs = drop (slice_end k xs) xs"

type_synonym 'f grid_point = "(string \<times> 'f) list"

definition grid_points :: "'f search_parameter list \<Rightarrow> 'f grid_point list" where
  "grid_points ps = map (zip (map sp_id ps)) (product_lists (map sp_values ps))"

text \<open>The signals and the labels of one data set, split into selection and holdout.\<close>

type_synonym part = "bool list \<times> bool option list"

definition evaluate_part ::
  "'f engine_env \<Rightarrow> 'f generic_spec \<Rightarrow> 'f feature_graph \<Rightarrow> int \<Rightarrow> 'f grid_point \<Rightarrow> 'f dataset \<Rightarrow> exn + part \<times> part"
where
  "evaluate_part env s g seconds_of params ds = (let fl = ee_arith env in
     and_then (evaluate_graph fl g (ds_columns ds) (map_of params) (seconds_of div 60)) (\<lambda>values.
     and_then (lookup_column values (signal_condition g)) (\<lambda>c.
     let signal = apply_cooldown (sg_cooldown_seconds (gs_signal s)) seconds_of (onset fl c) in
     and_then (future_labels fl (gs_label s) ds seconds_of) (\<lambda>labels.
     and_then (ee_trunc env (mul_f fl (of_int_f fl (int (length signal))) (vc_selection_fraction (gs_validation s)))) (\<lambda>k.
     Inr ((slice_to k signal, slice_to k labels), (slice_from k signal, slice_from k labels)))))))"

record 'f candidate =
  cd_score :: 'f
  cd_parameters :: "'f grid_point"
  cd_selection :: "'f metric_set"
  cd_holdout :: "'f metric_set"

definition primary_value :: "string \<Rightarrow> 'f metric_set \<Rightarrow> 'f" where
  "primary_value name m = (if name = ''precision'' then ms_precision m
     else if name = ''lift'' then ms_lift m else ms_wilson_lower m)"

definition eligible :: "'f arith \<Rightarrow> 'f validation_contract \<Rightarrow> 'f metric_set \<Rightarrow> bool" where
  "eligible fl v m \<longleftrightarrow> ms_signals m \<noteq> 0 \<and>
     \<not> lt_f fl (vc_max_signals_per_symbol_day v) (ms_signals_per_symbol_day m)"

definition try_point ::
  "'f engine_env \<Rightarrow> 'f generic_spec \<Rightarrow> 'f feature_graph \<Rightarrow> int \<Rightarrow> 'f dataset list \<Rightarrow> 'f grid_point \<Rightarrow>
    exn + 'f candidate option"
where
  "try_point env s g seconds_of dss params =
     and_then (traverse (evaluate_part env s g seconds_of params) dss) (\<lambda>parts.
     and_then (metrics env (map fst parts) seconds_of) (\<lambda>selection.
     and_then (metrics env (map snd parts) seconds_of) (\<lambda>holdout.
     Inr (if \<not> eligible (ee_arith env) (gs_validation s) selection then None
       else Some \<lparr>cd_score = primary_value (vc_primary_metric (gs_validation s)) selection,
         cd_parameters = params, cd_selection = selection, cd_holdout = holdout\<rparr>))))"

text \<open>The key \<open>(score, lift, precision, signals)\<close> under the order of tuples, and \<open>max\<close>, which keeps the first.\<close>

definition same_f :: "'f arith \<Rightarrow> 'f \<Rightarrow> 'f \<Rightarrow> bool" where
  "same_f fl a b \<longleftrightarrow> le_f fl a b \<and> le_f fl b a"

definition better :: "'f arith \<Rightarrow> 'f candidate \<Rightarrow> 'f candidate \<Rightarrow> bool" where
  "better fl a b = (let m = cd_selection a; n = cd_selection b in
     if \<not> same_f fl (cd_score a) (cd_score b) then lt_f fl (cd_score b) (cd_score a)
     else if \<not> same_f fl (ms_lift m) (ms_lift n) then lt_f fl (ms_lift n) (ms_lift m)
     else if \<not> same_f fl (ms_precision m) (ms_precision n) then lt_f fl (ms_precision n) (ms_precision m)
     else ms_signals n < ms_signals m)"

definition best_candidate :: "'f arith \<Rightarrow> 'f candidate list \<Rightarrow> 'f candidate option" where
  "best_candidate fl cs = (case cs of [] \<Rightarrow> None | c # rest \<Rightarrow> Some (extreme (better fl) c rest))"

text \<open>A dictionary by symbol holds a repeated symbol's data once.\<close>

definition load_all :: "'f engine_env \<Rightarrow> generic_data \<Rightarrow> string list \<Rightarrow> string list \<Rightarrow> string \<Rightarrow> exn + 'f dataset list" where
  "load_all env d catalog symbols timeframe =
     and_then (traverse (load_dataset env d catalog timeframe) symbols) (\<lambda>dss.
     Inr (map snd (fold (\<lambda>(sym, ds) t. AList.update sym ds t) (zip symbols dss) [])))"

record 'f frame_result =
  fr_timeframe :: string
  fr_candidate :: "'f candidate"

definition search_frame ::
  "'f engine_env \<Rightarrow> 'f generic_spec \<Rightarrow> 'f feature_graph \<Rightarrow> string list \<Rightarrow> string list \<Rightarrow> string \<Rightarrow> exn + 'f frame_result"
where
  "search_frame env s g catalog symbols timeframe =
     and_then (candle_seconds timeframe) (\<lambda>seconds_of.
     and_then (load_all env (gs_data s) catalog symbols timeframe) (\<lambda>dss.
     and_then (traverse (try_point env s g seconds_of dss) (grid_points (gs_parameters s))) (\<lambda>tried.
     case best_candidate (ee_arith env) (List.map_filter id tried) of
       None \<Rightarrow> Inl (RuntimeError (''no eligible parameter candidate for '' @ timeframe))
     | Some c \<Rightarrow> Inr \<lparr>fr_timeframe = timeframe, fr_candidate = c\<rparr>)))"

section \<open>The run\<close>

definition metric_dict :: "'f metric_set \<Rightarrow> 'f toml" where
  "metric_dict m = TTab [(''signals'', TInt (ms_signals m)), (''hits'', TInt (ms_hits m)),
     (''observations'', TInt (ms_observations m)), (''positives'', TInt (ms_positives m)),
     (''precision'', TFloat (ms_precision m)), (''baseline'', TFloat (ms_baseline m)), (''lift'', TFloat (ms_lift m)),
     (''wilson_lower'', TFloat (ms_wilson_lower m)),
     (''signals_per_symbol_day'', TFloat (ms_signals_per_symbol_day m))]"

definition frame_dict :: "'f frame_result \<Rightarrow> 'f toml" where
  "frame_dict r = (let c = fr_candidate r in TTab [(''timeframe'', TStr (fr_timeframe r)),
     (''parameters'', TTab (map (\<lambda>(k, x). (k, TFloat x)) (cd_parameters c))),
     (''selection'', metric_dict (cd_selection c)), (''holdout'', metric_dict (cd_holdout c)),
     (''selection_score'', TFloat (cd_score c))])"

record 'f engine_result =
  er_summary :: "'f tbl"
  er_artifacts :: "(string \<times> string) list"

text \<open>\<open>run\<close> writes the payload to \<open>result.json\<close> and returns the engine's result.\<close>

definition inside_data_root :: "'f engine_env \<Rightarrow> string list \<Rightarrow> bool" where
  "inside_data_root env catalog \<longleftrightarrow> take (length (ee_data_root env)) catalog = ee_data_root env"

definition result_payload :: "'f engine_env \<Rightarrow> 'f generic_spec \<Rightarrow> string list \<Rightarrow> 'f frame_result list \<Rightarrow> 'f toml" where
  "result_payload env s symbols results = TTab [(''strategy_id'', TStr (sc_id (gs_strategy s))),
     (''horizon'', TStr (horizon_value (sc_horizon (gs_strategy s)))),
     (''data_start'', TStr (ee_iso_of env (dc_start (gs_data s)))), (''data_end'', TStr (ee_iso_of env (dc_end (gs_data s)))),
     (''symbols'', str_list symbols), (''results'', TArr (map frame_dict results)),
     (''production_thresholds_changed'', TBool False)]"

definition run_engine ::
  "'f engine_env \<Rightarrow> 'f loaded_spec \<Rightarrow> exn + 'f toml \<times> 'f engine_result"
where
  "run_engine env spec = and_then (validate_engine spec) (\<lambda>s.
     let catalog = ee_resolve env (gd_catalog_path (gs_data s)) in
     if \<not> inside_data_root env catalog then refuse ''normalized catalog must stay under data/backtest''
     else and_then (resolve_symbols env s catalog) (\<lambda>symbols.
       and_then (spec_graph s) (\<lambda>g.
       and_then (traverse (search_frame env s g catalog symbols) (dc_timeframes (gs_data s))) (\<lambda>results.
       Inr (result_payload env s symbols results,
         \<lparr>er_summary = [(''universe_count'', TInt (int (length symbols))), (''timeframe_count'', TInt (int (length results))),
            (''production_thresholds_changed'', TBool False)],
          er_artifacts = [(''result'', ''result.json'')]\<rparr>)))))"

end
