(* ===== verification/Backtest_Run.thy ===== *)
theory Backtest_Run
  imports Generic_Engine
begin

text \<open>
  src/src/quant_signal_agent/backtesting/engine.py: the registry of allow-listed engines;
  backtesting/runner.py: \<open>BacktestRunner\<close>, which plans and runs a back test and keeps its manifest.

  The files below the artifact root are the state. The clock, the revision and the state of the
  working tree (git), \<open>strftime\<close> and the names of exception classes are the environment's. An engine
  is its identity with its two methods; what \<open>run\<close> returns contains the files it wrote.
\<close>

section \<open>Engines\<close>

record 'f bt_engine =
  be_id :: string
  be_version :: string
  be_validate :: "'f loaded_spec \<Rightarrow> exn + unit"
  be_run :: "'f loaded_spec \<Rightarrow> exn + (string \<times> 'f toml) list \<times> 'f engine_result"

type_synonym 'f registry = "(string \<times> 'f bt_engine) list"

definition register_engine :: "'f bt_engine \<Rightarrow> ('f registry, unit) eff" where
  "register_engine e =
     thenE (guardE (be_id e \<noteq> [] \<and> be_version e \<noteq> []) (ValueError ''Engine ID and version are required''))
    (bindE (getE (\<lambda>r. map_of r (be_id e) = None)) (\<lambda>fresh.
     thenE (guardE fresh (ValueError (''Backtest engine already registered: '' @ be_id e)))
           (modifyE (\<lambda>r. r @ [(be_id e, e)]))))"

definition new_registry :: "'f bt_engine list \<Rightarrow> (exn + unit) \<times> 'f registry" where
  "new_registry es = mapE register_engine es []"

definition resolve_engine :: "'f registry \<Rightarrow> string \<Rightarrow> exn + 'f bt_engine" where
  "resolve_engine r i = (case map_of r i of
       None \<Rightarrow> refuse (''backtest engine is not allowlisted: '' @ i)
     | Some e \<Rightarrow> Inr e)"

definition engine_names :: "'f registry \<Rightarrow> string list" where
  "engine_names r = map fst r"

definition vectorized_engine :: "'f engine_env \<Rightarrow> 'f bt_engine" where
  "vectorized_engine env = \<lparr>be_id = engine_id, be_version = engine_version,
     be_validate = (\<lambda>s. map_sum id (\<lambda>_. ()) (validate_engine s)),
     be_run = (\<lambda>s. map_sum id (\<lambda>(payload, r). ([(''result.json'', payload)], r)) (run_engine env s))\<rparr>"

section \<open>Specifications\<close>

fun loaded_engine :: "'f loaded_spec \<Rightarrow> string" where
  "loaded_engine (Version1 s) = bs_engine s"
| "loaded_engine (Version2 s) = gs_engine s"

fun loaded_strategy :: "'f loaded_spec \<Rightarrow> strategy_contract" where
  "loaded_strategy (Version1 s) = bs_strategy s"
| "loaded_strategy (Version2 s) = gs_strategy s"

fun loaded_data :: "'f loaded_spec \<Rightarrow> data_contract" where
  "loaded_data (Version1 s) = bs_data s"
| "loaded_data (Version2 s) = data_contract.truncate (gs_data s)"

fun loaded_version :: "'f loaded_spec \<Rightarrow> int" where
  "loaded_version (Version1 s) = bs_schema_version s"
| "loaded_version (Version2 s) = gs_schema_version s"

fun normalized :: "'f spec_env \<Rightarrow> 'f loaded_spec \<Rightarrow> 'f toml" where
  "normalized env (Version1 s) = normalized_spec env s"
| "normalized env (Version2 s) = normalized_generic env s"

definition spec_sha256 :: "'f spec_env \<Rightarrow> 'f loaded_spec \<Rightarrow> string" where
  "spec_sha256 env s = se_sha256 env (se_encode env (normalized env s))"

section \<open>The runner\<close>

record 'f runner_env =
  br_spec :: "'f spec_env"
  br_now :: "nat \<Rightarrow> datetime"
  br_stamp :: "datetime \<Rightarrow> string"
  br_revision :: string
  br_dirty :: "bool option"
  br_name :: "exn \<Rightarrow> string"
  br_root :: string

text \<open>
  The manifest's strategy identifier, version and horizon are those of the contract; its constant entry
  \<open>normalized_spec\<close> is left out.
\<close>

record 'f manifest =
  mn_schema_version :: int
  mn_run_id :: string
  mn_status :: string
  mn_started_at :: datetime
  mn_completed_at :: "datetime option"
  mn_strategy :: strategy_contract
  mn_spec_sha256 :: string
  mn_engine :: string
  mn_engine_version :: string
  mn_code_revision :: string
  mn_working_tree_dirty :: "bool option"
  mn_artifacts :: "(string \<times> string) list"
  mn_summary :: "'f tbl"
  mn_failure_type :: "string option"

text \<open>What is below the artifact root: directories, manifests, normalized specifications, results.\<close>

record 'f artifacts =
  at_dirs :: "string list"
  at_manifests :: "(string \<times> 'f manifest) list"
  at_specs :: "(string \<times> 'f toml) list"
  at_results :: "(string \<times> (string \<times> 'f toml) list) list"
  at_ticks :: nat

definition plan :: "'f spec_env \<Rightarrow> 'f registry \<Rightarrow> 'f loaded_spec \<Rightarrow> exn + 'f tbl" where
  "plan env r s = and_then (resolve_engine r (loaded_engine s)) (\<lambda>e.
     and_then (be_validate e s) (\<lambda>_. let d = loaded_data s; c = loaded_strategy s in
     Inr [(''status'', TStr ''valid''), (''spec_sha256'', TStr (spec_sha256 env s)), (''strategy_id'', TStr (sc_id c)),
       (''horizon'', TStr (horizon_value (sc_horizon c))), (''engine'', TStr (be_id e)),
       (''engine_version'', TStr (be_version e)), (''data_start'', TStr (se_iso_of env (dc_start d))),
       (''data_end'', TStr (se_iso_of env (dc_end d))), (''timeframes'', str_list (dc_timeframes d)),
       (''trigger_inputs'', sorted_strings (dc_trigger_inputs d)),
       (''supplemental_inputs'', sorted_strings (dc_supplemental_inputs d)),
       (''network_required'', TBool (dc_provider d \<noteq> ''normalized_csv'')), (''auto_promote_parameters'', TBool False)]))"

definition run_id :: "'f runner_env \<Rightarrow> datetime \<Rightarrow> 'f loaded_spec \<Rightarrow> string" where
  "run_id env started s = br_stamp env started @ ''-'' @ take 12 (spec_sha256 (br_spec env) s)"

definition artifact_dir :: "'f runner_env \<Rightarrow> datetime \<Rightarrow> 'f loaded_spec \<Rightarrow> string" where
  "artifact_dir env started s =
     br_root env @ ''/'' @ sc_id (loaded_strategy s) @ ''/'' @ run_id env started s"

definition first_manifest :: "'f runner_env \<Rightarrow> 'f bt_engine \<Rightarrow> datetime \<Rightarrow> 'f loaded_spec \<Rightarrow> 'f manifest" where
  "first_manifest env e started s = \<lparr>mn_schema_version = loaded_version s, mn_run_id = run_id env started s,
     mn_status = ''running'', mn_started_at = started, mn_completed_at = None, mn_strategy = loaded_strategy s,
     mn_spec_sha256 = spec_sha256 (br_spec env) s, mn_engine = be_id e, mn_engine_version = be_version e,
     mn_code_revision = br_revision env, mn_working_tree_dirty = br_dirty env, mn_artifacts = [], mn_summary = [],
     mn_failure_type = None\<rparr>"

definition run_clock :: "'f runner_env \<Rightarrow> ('f artifacts, datetime) eff" where
  "run_clock env = bindE (getE at_ticks) (\<lambda>n.
     thenE (modifyE (\<lambda>t. t\<lparr>at_ticks := n + 1\<rparr>)) (ret (br_now env n)))"

definition make_dir :: "string \<Rightarrow> ('f artifacts, unit) eff" where
  "make_dir dir = bindE (getE (\<lambda>t. dir \<in> set (at_dirs t))) (\<lambda>exists.
     thenE (guardE (\<not> exists) (OSError ''File exists''))
           (modifyE (\<lambda>t. t\<lparr>at_dirs := dir # at_dirs t\<rparr>)))"

definition write_manifest :: "string \<Rightarrow> 'f manifest \<Rightarrow> ('f artifacts, unit) eff" where
  "write_manifest dir m = modifyE (\<lambda>t. t\<lparr>at_manifests := AList.update dir m (at_manifests t)\<rparr>)"

text \<open>\<open>except Exception\<close>: a cancellation is none and leaves the manifest as it is.\<close>

definition run_failed :: "'f runner_env \<Rightarrow> string \<Rightarrow> 'f manifest \<Rightarrow> exn \<Rightarrow> ('f artifacts, 'a) eff" where
  "run_failed env dir m e =
     (if e = CancelledError then raise e
      else bindE (run_clock env) (\<lambda>now.
        thenE (write_manifest dir (m\<lparr>mn_status := ''failed'', mn_completed_at := Some now,
            mn_failure_type := Some (br_name env e)\<rparr>))
          (raise e)))"

definition run_completed ::
  "'f runner_env \<Rightarrow> string \<Rightarrow> 'f manifest \<Rightarrow> (string \<times> 'f toml) list \<Rightarrow> 'f engine_result \<Rightarrow> ('f artifacts, unit) eff"
where
  "run_completed env dir m files r =
     thenE (modifyE (\<lambda>t. t\<lparr>at_results := AList.update dir files (at_results t)\<rparr>))
    (bindE (run_clock env) (\<lambda>now.
     write_manifest dir (m\<lparr>mn_status := ''complete'', mn_completed_at := Some now,
       mn_artifacts := er_artifacts r, mn_summary := er_summary r\<rparr>)))"

record run_outcome =
  ro_run_id :: string
  ro_dir :: string
  ro_status :: string

definition lift_sum :: "exn + 'a \<Rightarrow> ('s, 'a) eff" where
  "lift_sum v = (case v of Inl e \<Rightarrow> raise e | Inr a \<Rightarrow> ret a)"

definition run_backtest :: "'f runner_env \<Rightarrow> 'f registry \<Rightarrow> 'f loaded_spec \<Rightarrow> ('f artifacts, run_outcome) eff" where
  "run_backtest env reg s =
     bindE (lift_sum (resolve_engine reg (loaded_engine s))) (\<lambda>e.
     bindE (lift_sum (be_validate e s)) (\<lambda>_.
     bindE (run_clock env) (\<lambda>started. let dir = artifact_dir env started s; m = first_manifest env e started s in
     thenE (make_dir dir)
    (thenE (modifyE (\<lambda>t. t\<lparr>at_specs := AList.update dir (normalized (br_spec env) s) (at_specs t)\<rparr>))
    (thenE (write_manifest dir m)
    (case be_run e s of
       Inl x \<Rightarrow> run_failed env dir m x
     | Inr (files, r) \<Rightarrow> thenE (run_completed env dir m files r)
         (ret \<lparr>ro_run_id = run_id env started s, ro_dir = dir, ro_status = ''complete''\<rparr>)))))))"

section \<open>What a run leaves behind\<close>

lemma wp_lift_sum [wp_rules]:
  "wp (lift_sum v) Q E s = (case v of Inl e \<Rightarrow> E e s | Inr a \<Rightarrow> Q a s)"
  by (simp add: lift_sum_def wp_rules split: sum.split)

lemma wp_run_clock [wp_rules]:
  "wp (run_clock env) Q E t = Q (br_now env (at_ticks t)) (t\<lparr>at_ticks := at_ticks t + 1\<rparr>)"
  by (simp add: run_clock_def wp_rules)

lemma wp_make_dir [wp_rules]:
  "wp (make_dir dir) Q E t = (if dir \<in> set (at_dirs t) then E (OSError ''File exists'') t
     else Q () (t\<lparr>at_dirs := dir # at_dirs t\<rparr>))"
  by (simp add: make_dir_def wp_rules)

lemma wp_write_manifest [wp_rules]:
  "wp (write_manifest dir m) Q E t = Q () (t\<lparr>at_manifests := AList.update dir m (at_manifests t)\<rparr>)"
  by (simp add: write_manifest_def wp_rules)

text \<open>\<open>others_kept dir t u\<close>: nothing outside the directory changed from \<open>t\<close> to \<open>u\<close>.\<close>

definition others_kept :: "string \<Rightarrow> 'f artifacts \<Rightarrow> 'f artifacts \<Rightarrow> bool" where
  "others_kept dir t u \<longleftrightarrow> (\<forall>d. d \<noteq> dir \<longrightarrow> map_of (at_manifests u) d = map_of (at_manifests t) d \<and>
     map_of (at_specs u) d = map_of (at_specs t) d \<and> map_of (at_results u) d = map_of (at_results t) d \<and>
     (d \<in> set (at_dirs u) \<longleftrightarrow> d \<in> set (at_dirs t)))"

text \<open>\<open>files_kept t u\<close>: no file changed.\<close>

definition files_kept :: "'f artifacts \<Rightarrow> 'f artifacts \<Rightarrow> bool" where
  "files_kept t u \<longleftrightarrow> at_manifests u = at_manifests t \<and> at_specs u = at_specs t \<and>
     at_results u = at_results t \<and> at_dirs u = at_dirs t"

end
