(* ===== verification/Backtest_Samples.thy ===== *)
theory Backtest_Samples
  imports Backtest_Run Feature_Properties
begin

text \<open>
  A small back test over exact rationals, on which the witnesses evaluate: a document of schema
  version 2, its specification, three price series of four hours and the environments that provide them.
\<close>

section \<open>A document and its specification\<close>

definition sample_table :: "rat tbl" where
  "sample_table = [(''schema_version'', TInt 2), (''engine'', TStr ''vectorized-feature-dsl-v1''),
     (''mode'', TStr ''signal_research''),
     (''strategy'', TTab [(''id'', TStr ''demo''), (''version'', TStr ''1''), (''horizon'', TStr ''short_term''),
        (''direction'', TStr ''neutral'')]),
     (''data'', TTab [(''provider'', TStr ''normalized_csv''), (''catalog_path'', TStr ''data/backtest''),
        (''start'', TStamp (Offset 0 0)), (''end'', TStamp (Offset 86400000000 0)), (''timezone'', TStr ''UTC''),
        (''timeframes'', TArr [TStr ''1h'']), (''source_columns'', TArr [TStr ''hi'', TStr ''lo'', TStr ''close'']),
        (''trigger_inputs'', TArr [TStr ''close'']), (''supplemental_inputs'', TArr []),
        (''closed_candles_only'', TBool True), (''public_only'', TBool True)]),
     (''universe'', TTab [(''kind'', TStr ''fixed''), (''symbols'', TArr [TStr ''BTC'']), (''ranking_days'', TInt 1),
        (''top_volume'', TInt 1), (''top_gainers'', TInt 1), (''exclude_bases'', TArr []), (''classification'', TStr [])]),
     (''parameters'', TArr [TTab [(''id'', TStr ''window''), (''values'', TArr [TInt 1, TInt 2])]]),
     (''features'', TArr [TTab [(''id'', TStr ''ratio''), (''operator'', TStr ''rolling_ratio''),
          (''inputs'', TArr [TStr ''close'']), (''window_parameter'', TStr ''window'')],
        TTab [(''id'', TStr ''high''), (''operator'', TStr ''greater_equal''), (''inputs'', TArr [TStr ''ratio'']),
          (''constant'', TInt 2)]]),
     (''signal'', TTab [(''condition'', TStr ''high''), (''event_policy'', TStr ''onset''), (''cooldown_seconds'', TInt 3600)]),
     (''label'', TTab [(''operator'', TStr ''future_absolute_move''), (''high_column'', TStr ''hi''),
        (''low_column'', TStr ''lo''), (''close_column'', TStr ''close''), (''horizon_hours'', TInt 1),
        (''threshold'', TFloat (1 / 2))]),
     (''validation'', TTab [(''method'', TStr ''chronological_holdout''), (''selection_fraction'', TFloat (1 / 2)),
        (''holdout_fraction'', TFloat (1 / 2)), (''primary_metric'', TStr ''precision''),
        (''max_signals_per_symbol_day'', TInt 100)]),
     (''safety'', TTab [(''signal_only'', TBool True), (''allow_execution'', TBool False),
        (''allow_authenticated_exchange_api'', TBool False), (''auto_promote_parameters'', TBool False)])]"

definition sample_env :: "rat spec_env" where
  "sample_env = \<lparr>se_arith = rat_arith, se_tiny = 1 / 1000000000, se_iso = (\<lambda>_. None), se_iso_of = (\<lambda>_. []),
     se_repr = id, se_encode = (\<lambda>_. []), se_sha256 = id, se_toml = (\<lambda>_. Inr sample_table)\<rparr>"

definition sample_document :: string where
  "sample_document = fence @ ''toml qsa-backtest'' @ [CHR 0x0A] @ ''x'' @ [CHR 0x0A] @ fence"

definition sample_data :: generic_data where
  "sample_data = \<lparr>dc_provider = ''normalized_csv'', dc_start = Datetime 0, dc_end = Datetime 86400000000,
     dc_timezone = ''UTC'', dc_timeframes = [''1h''], dc_trigger_inputs = {''close''}, dc_supplemental_inputs = {},
     dc_closed_candles_only = True, dc_public_only = True, gd_catalog_path = ''data/backtest'',
     gd_source_columns = [''hi'', ''lo'', ''close'']\<rparr>"

definition sample_label :: "rat label_contract" where
  "sample_label = \<lparr>lc_operator = ''future_absolute_move'', lc_high_column = ''hi'', lc_low_column = ''lo'',
     lc_close_column = ''close'', lc_horizon_hours = 1, lc_threshold = 1 / 2\<rparr>"

definition sample_validation :: "rat validation_contract" where
  "sample_validation = \<lparr>vc_method = ''chronological_holdout'', vc_selection_fraction = 1 / 2,
     vc_holdout_fraction = 1 / 2, vc_primary_metric = ''precision'', vc_max_signals_per_symbol_day = 100\<rparr>"

definition sample_spec :: "rat generic_spec" where
  "sample_spec = \<lparr>gs_schema_version = 2, gs_engine = ''vectorized-feature-dsl-v1'', gs_mode = SIGNAL_RESEARCH,
     gs_strategy = \<lparr>sc_id = ''demo'', sc_version = ''1'', sc_horizon = SHORT_TERM, sc_direction = ''neutral''\<rparr>,
     gs_data = sample_data,
     gs_universe = \<lparr>uc_kind = ''fixed'', uc_top_volume = 1, uc_top_gainers = 1, uc_exclude_bases = [],
        uc_classification = [], gu_symbols = [''BTC''], gu_ranking_days = 1\<rparr>,
     gs_parameters = [\<lparr>sp_id = ''window'', sp_values = [1, 2]\<rparr>], gs_features = sample_nodes,
     gs_signal = \<lparr>sg_condition = ''high'', sg_event_policy = ''onset'', sg_cooldown_seconds = 3600\<rparr>,
     gs_label = sample_label, gs_validation = sample_validation,
     gs_safety = \<lparr>sy_signal_only = True, sy_allow_execution = False, sy_allow_authenticated_exchange_api = False,
       sy_auto_promote_parameters = False\<rparr>, gs_source_path = ''spec.md''\<rparr>"

lemma sample_block: "executable_blocks sample_document = [''x'' @ [CHR 0x0A]]"
  by (simp add: executable_blocks_def sample_document_def fence_def opens_block_def closes_block_def blanks_def Let_def)

text \<open>Access to a table evaluates by these equations.\<close>

lemmas table_access = required_str_def required_int_def required_bool_def string_array_def number_def number_of_def
  to_float_def utc_stamp_def generic_utc_def enum_or_refuse_def horizon_of_def mode_of_def operator_of_def
  reference_def sub_table_def reject_unknown_def unknown_keys_def table_rows_def numeric_values_def

definition three_columns :: "rat feature_graph" where
  "three_columns = sample_graph\<lparr>source_columns := [''hi'', ''lo'', ''close'']\<rparr>"

lemma sample_graph_compiles: "spec_graph sample_spec = Inr three_columns"
  by (simp add: three_columns_def spec_graph_def sample_spec_def sample_data_def compile_feature_graph_def sample_nodes_def sample_graph_def
      safe_id_def safe_char_def
      is_lower_ascii_def is_digit_ascii_def check_node_def validate_node_def spec_guard_def Let_def
      source_types_def windowed_operator_def comparison_operator_def boolean_operator_def
      unary_operator_def in_parameters_def result_type_def)

lemma sample_spec_parameters_ok:
  "parameters_ok rat_arith (gs_features sample_spec) (set (map sp_id (gs_parameters sample_spec))) (map_of [(''window'', 1)]) 60"
  by (simp add: parameters_ok_def sample_spec_def sample_nodes_def windowed_operator_def window_bars_def rat_arith_def)

lemma sample_accepted: "check_generic sample_env sample_spec = Inr sample_spec"
proof -
  have "generic_errors sample_env sample_spec = []"
    by (simp add: generic_errors_def generic_identity_errors_def generic_data_errors_def generic_universe_errors_def
        grid_errors_def label_errors_def validation_errors_def generic_safety_errors_def sample_spec_def sample_data_def
        sample_label_def sample_validation_def sample_env_def rat_arith_def safe_id_def safe_char_def is_lower_ascii_def
        is_digit_ascii_def forbidden_trigger_inputs_def directions_def unsafe_path_def universe_kinds_def
        ranking_invalid_def combinations_def primary_metrics_def strictly_between_def fractions_complete_def Let_def
        str_startswith_def less_eq_datetime_def)
  then show ?thesis by (simp add: check_generic_def sample_graph_compiles)
qed

lemma sample_generic: "load_generic_spec sample_env sample_table ''spec.md'' = Inr sample_spec"
proof -
  have "\<not> float_overflows 1" "\<not> float_overflows 2" "\<not> float_overflows 100" by (simp_all add: float_overflows_def)
  with sample_accepted show ?thesis
    by (simp add: load_generic_spec_def generic_tables_def generic_rows_def sample_table_def table_keys_def
        root_keys_def parameter_keys_def feature_keys_def load_tables_def load_feature_def load_generic_data_def
        load_generic_universe_def load_parameter_def load_signal_def load_label_def load_validation_def load_safety_def
        load_strategy_def table_access sample_spec_def sample_data_def sample_label_def sample_validation_def
        sample_nodes_def sample_env_def rat_arith_def)
qed

lemma sample_loads: "load_spec sample_env sample_document ''spec.md'' = Inr (Version2 sample_spec)"
proof -
  have "se_toml sample_env b = Inr sample_table" "is_version_2 a (map_of sample_table ''schema_version'')" for b a
    by (simp_all add: sample_env_def sample_table_def is_version_2_def)
  then show ?thesis by (simp add: load_spec_def sample_block sample_generic)
qed

section \<open>Price series\<close>

text \<open>
  Four hours of prices. The selection is the first two; the highest prices of the third and of the
  fourth hour are left open.
\<close>

definition sample_file :: csv_file where
  "sample_file = \<lparr>cf_name = ''1h.csv'', cf_fields = Some [''timestamp'', ''hi'', ''lo'', ''close''],
     cf_rows = [
       [(''timestamp'', Some ''0''), (''hi'', Some ''1''), (''lo'', Some ''1''), (''close'', Some ''1'')],
       [(''timestamp'', Some ''1''), (''hi'', Some ''4''), (''lo'', Some ''4''), (''close'', Some ''4'')],
       [(''timestamp'', Some ''2''), (''hi'', Some ''a''), (''lo'', Some ''4''), (''close'', Some ''4'')],
       [(''timestamp'', Some ''3''), (''hi'', Some ''b''), (''lo'', Some ''4''), (''close'', Some ''4'')]]\<rparr>"

definition sample_engine :: "rat \<Rightarrow> rat \<Rightarrow> rat engine_env" where
  "sample_engine a b = \<lparr>ee_arith = rat_arith, ee_ratio = (\<lambda>x y. of_int x / of_int y), ee_trunc = (\<lambda>x. Inr \<lfloor>x\<rfloor>),
     ee_sqrt = (\<lambda>x. Inr x), ee_z = 196 / 100,
     ee_float = map_of [(''1'', 1), (''4'', 4), (''a'', a), (''b'', b)],
     ee_iso = map_of [(''0'', Offset 0 0), (''1'', Offset 3600000000 0), (''2'', Offset 7200000000 0),
       (''3'', Offset 10800000000 0)],
     ee_local = Datetime, ee_iso_of = (\<lambda>_. []), ee_resolve = (\<lambda>_. [''data'', ''backtest'']),
     ee_data_root = [''data'', ''backtest''], ee_universe = (\<lambda>_. None), ee_series = (\<lambda>_ _ _. Some sample_file)\<rparr>"

definition sample_series :: "rat \<Rightarrow> rat \<Rightarrow> rat dataset" where
  "sample_series a b = \<lparr>ds_timestamps = [Datetime 0, Datetime 3600000000, Datetime 7200000000, Datetime 10800000000],
     ds_columns = [(''hi'', [1, 4, a, b]), (''lo'', [1, 4, 4, 4]), (''close'', [1, 4, 4, 4])]\<rparr>"

lemma sample_dataset: "load_dataset (sample_engine a b) sample_data catalog ''1h'' ''BTC'' = Inr (sample_series a b)"
  by (simp add: load_dataset_def slug_of_def slug_safe_def is_upper_ascii_def sample_engine_def sample_file_def sample_data_def
      row_time_def explicit_offset_def instant_of_def cell_def datetime_order dataset_of_def sample_series_def upt_rec Let_def)

lemma sample_hour: "candle_seconds ''1h'' = Inr 3600"
  by (simp add: candle_seconds_def interval_duration_def CANDLE_INTERVAL_DURATIONS_def seconds_def)

lemma sample_labels:
  "future_labels rat_arith sample_label (sample_series a b) 3600 = Inr [Some True, Some (6 \<le> a), Some (6 \<le> b), None]"
  by (simp add: future_labels_def column_def sample_label_def sample_series_def label_at_def window_after_def py_max_def py_min_def
      rat_arith_def upt_rec Let_def field_simps)

lemma sample_part_of: "evaluate_part (sample_engine x y) sample_spec three_columns 3600 [(''window'', 1)] (sample_series a b) =
   Inr (([False, True], [Some True, Some (6 \<le> a)]), ([False, False], [Some (6 \<le> b), None]))"
proof -
  have "evaluate_graph rat_arith three_columns (ds_columns (sample_series a b)) (map_of [(''window'', 1)]) 60 =
      Inr [(''hi'', [Num 1, Num 4, Num a, Num b]), (''lo'', [Num 1, Num 4, Num 4, Num 4]), (''close'', [Num 1, Num 4, Num 4, Num 4]),
           (''ratio'', [Missing, Num 4, Num 1, Num 1]), (''high'', [Flag False, Flag True, Flag False, Flag False])]"
    by (simp add: evaluate_graph_def three_columns_def sample_graph_def sample_series_def sample_nodes_def
        equally_sized_def missing_sources_def source_values_def lookup_column_def
        evaluate_node_def windowed_operator_def comparison_operator_def window_bars_def rat_arith_def
        windowed_def windowed_at_def windowed_value_def numeric_def threshold_of_def compare_value_def
        upt_rec Let_def)
  with sample_labels [of a b] show ?thesis
    by (simp add: evaluate_part_def lookup_column_def sample_spec_def sample_engine_def sample_graph_def three_columns_def
        sample_validation_def rat_arith_def onset_def truthy_def apply_cooldown_def ceiling_ratio_def slice_to_def
        slice_from_def slice_end_def Let_def)
qed

lemmas sample_part = sample_part_of [of a b a b for a b]

lemma sample_idle_part: "evaluate_part (sample_engine a b) sample_spec three_columns 3600 [(''window'', 2)] (sample_series a b) =
   Inr (([False, False], [Some True, Some (6 \<le> a)]), ([False, False], [Some (6 \<le> b), None]))"
proof -
  have "evaluate_graph rat_arith three_columns (ds_columns (sample_series a b)) (map_of [(''window'', 2)]) 60 =
      Inr [(''hi'', [Num 1, Num 4, Num a, Num b]), (''lo'', [Num 1, Num 4, Num 4, Num 4]), (''close'', [Num 1, Num 4, Num 4, Num 4]),
           (''ratio'', [Missing, Missing, Num (8 / 5), Num 1]), (''high'', [Flag False, Flag False, Flag False, Flag False])]"
    by (simp add: evaluate_graph_def three_columns_def sample_graph_def sample_series_def sample_nodes_def
        equally_sized_def missing_sources_def source_values_def lookup_column_def
        evaluate_node_def windowed_operator_def comparison_operator_def window_bars_def rat_arith_def
        windowed_def windowed_at_def windowed_value_def numeric_def threshold_of_def compare_value_def
        upt_rec Let_def)
  with sample_labels [of a b] show ?thesis
    by (simp add: evaluate_part_def lookup_column_def sample_spec_def sample_engine_def sample_graph_def three_columns_def
        sample_validation_def rat_arith_def onset_def truthy_def apply_cooldown_def ceiling_ratio_def slice_to_def
        slice_from_def slice_end_def Let_def)
qed

lemma sample_loaded_all:
  "load_all (sample_engine a b) (gs_data sample_spec) catalog [''BTC''] ''1h'' = Inr [sample_series a b]"
  by (simp add: load_all_def sample_dataset sample_spec_def)

lemma sample_tried:
  "\<exists>c. try_point (sample_engine 8 4) sample_spec three_columns 3600 [sample_series 8 4] [(''window'', 1)] = Inr (Some c)"
  "try_point (sample_engine 8 4) sample_spec three_columns 3600 [sample_series 8 4] [(''window'', 2)] = Inr None"
proof -
  note metric_defs = metrics_def metrics_of_def no_tally_def count_one_def wilson_lower_def ratio_or_zero_def eligible_def
    sample_engine_def sample_spec_def sample_validation_def rat_arith_def Let_def
  show "\<exists>c. try_point (sample_engine 8 4) sample_spec three_columns 3600 [sample_series 8 4] [(''window'', 1)] = Inr (Some c)"
    using sample_part [of 8 4] by (simp add: try_point_def) (simp add: metric_defs)
  show "try_point (sample_engine 8 4) sample_spec three_columns 3600 [sample_series 8 4] [(''window'', 2)] = Inr None"
    using sample_idle_part [of 8 4] by (simp add: try_point_def) (simp add: metric_defs)
qed

lemma sample_searched: "\<exists>r. search_frame (sample_engine 8 4) sample_spec three_columns catalog [''BTC''] ''1h'' = Inr r"
proof -
  have "grid_points (gs_parameters sample_spec) = [[(''window'', 1)], [(''window'', 2)]]"
    by (simp add: grid_points_def sample_spec_def)
  with sample_tried show ?thesis
    by (auto simp: search_frame_def sample_hour sample_loaded_all best_candidate_def List.map_filter_def)
qed

end
