(* ===== verification/Backtest_Properties.thy ===== *)
theory Backtest_Properties
  imports Backtest_Samples
begin

text \<open>
  The properties of the back tests: what an accepted specification guarantees, that loaded data fits
  the compiled features, the spacing of signals, what the search selects and on which data, and what
  a run's manifest says about its end.
\<close>

section \<open>Accepted specifications\<close>

fun loaded_safety :: "'f loaded_spec \<Rightarrow> safety_contract" where
  "loaded_safety (Version1 s) = bs_safety s"
| "loaded_safety (Version2 s) = gs_safety s"

definition research_only :: "safety_contract \<Rightarrow> bool" where
  "research_only y \<longleftrightarrow> sy_signal_only y \<and> \<not> sy_allow_execution y \<and>
     \<not> sy_allow_authenticated_exchange_api y \<and> \<not> sy_auto_promote_parameters y"

definition sound_data :: "data_contract \<Rightarrow> bool" where
  "sound_data d \<longleftrightarrow> dc_start d < dc_end d \<and> distinct (dc_timeframes d) \<and> dc_timeframes d \<noteq> [] \<and>
     dc_closed_candles_only d \<and> dc_public_only d \<and> dc_trigger_inputs d \<inter> forbidden_trigger_inputs = {} \<and>
     dc_trigger_inputs d \<inter> dc_supplemental_inputs d = {}"

lemma check_spec_sound:
  "check_spec fl s = Inr t \<Longrightarrow> t = s \<and> research_only (bs_safety s) \<and> sound_data (bs_data s)"
  by (auto simp: check_spec_def safety_errors_def data_errors_def research_only_def sound_data_def Let_def not_le)

lemma load_v1_checked: "load_v1 env raw path = Inr s \<Longrightarrow> \<exists>t. check_spec (se_arith env) t = Inr s"
  by (auto simp: load_v1_def)

lemma load_tables_checked:
  "load_tables env raw path rows a b c d e f g = Inr s \<Longrightarrow> \<exists>t. check_generic env t = Inr s"
  by (auto simp: load_tables_def)

lemma load_generic_checked:
  assumes "load_generic_spec env raw path = Inr s"
  shows "\<exists>t. check_generic env t = Inr s"
proof -
  obtain ts rows where "(case ts of [strategy, dat, universe, signal, label, valid, safety] \<Rightarrow>
         load_tables env raw path rows strategy dat universe signal label valid safety
       | _ \<Rightarrow> Inl (AssertionError [])) = Inr s"
    using assms by (auto simp: load_generic_spec_def)
  then obtain a b c d e f g where "load_tables env raw path rows a b c d e f g = Inr s"
    by (auto split: list.splits)
  then show ?thesis by (rule load_tables_checked)
qed

lemma check_generic_sound:
  "check_generic env s = Inr t \<Longrightarrow> t = s \<and> generic_errors env s = [] \<and> (\<exists>g. spec_graph s = Inr g)"
  by (auto simp: check_generic_def)

lemma generic_errors_sound:
  "generic_errors env s = [] \<Longrightarrow> research_only (gs_safety s) \<and> sound_data (data_contract.truncate (gs_data s)) \<and>
     combinations (gs_parameters s) \<le> 100000 \<and> (\<forall>p \<in> set (gs_parameters s). sp_values p \<noteq> [])"
  by (auto simp: generic_errors_def generic_safety_errors_def generic_data_errors_def generic_identity_errors_def
      grid_errors_def research_only_def sound_data_def Let_def not_le data_contract.defs)

lemma foldl_times: "foldl (\<lambda>n p. n * k p) (m :: nat) ps = m * foldr (\<lambda>p n. k p * n) ps 1"
  by (induction ps arbitrary: m) (simp_all add: algebra_simps)

lemma grid_size: "length (grid_points ps) = combinations ps"
proof -
  have "length (product_lists (map sp_values ps)) = foldr (\<lambda>p n. length (sp_values p) * n) ps 1"
    by (induction ps) (simp_all add: length_concat o_def sum_list_triv)
  then show ?thesis by (simp add: grid_points_def combinations_def foldl_times)
qed

lemma grid_nonempty: "\<forall>p \<in> set ps. sp_values p \<noteq> [] \<Longrightarrow> combinations ps \<noteq> 0"
  unfolding combinations_def foldl_times by (induction ps) auto

text \<open>
  C27. A specification that loads is research only (signals only, no execution, no authenticated
  exchange, no promotion of parameters), on closed, public candles of a proper range, triggered by
  no supplemental input; one of version 2 has a graph that compiles, and its search has between one
  and 100000 points.
\<close>

theorem loaded_spec_is_safe:
  assumes "load_spec env doc path = Inr l"
  shows "research_only (loaded_safety l) \<and> sound_data (loaded_data l) \<and>
    (\<forall>s. l = Version2 s \<longrightarrow> (\<exists>g. spec_graph s = Inr g) \<and>
       1 \<le> length (grid_points (gs_parameters s)) \<and> length (grid_points (gs_parameters s)) \<le> 100000)"
proof (cases l)
  case (Version1 s)
  with assms obtain t where "check_spec (se_arith env) t = Inr s"
    by (auto simp: load_spec_def split: list.splits sum.splits if_splits dest: load_v1_checked)
  from check_spec_sound [OF this] Version1 show ?thesis by auto
next
  case (Version2 s)
  with assms obtain t where "check_generic env t = Inr s"
    by (auto simp: load_spec_def split: list.splits sum.splits if_splits dest: load_generic_checked)
  from check_generic_sound [OF this] have "generic_errors env s = []" "\<exists>g. spec_graph s = Inr g" by auto
  with generic_errors_sound [OF this(1)] grid_nonempty [of "gs_parameters s"] Version2
  show ?thesis by (auto simp: grid_size Suc_le_eq)
qed

lemma loaded_spec_is_safe_witness: "research_only (loaded_safety (Version2 sample_spec))"
  using loaded_spec_is_safe [OF sample_loads] by blast

section \<open>Loaded data\<close>

lemma load_rows_sound:
  "load_rows env d previous rows = Inr out \<Longrightarrow> sorted_wrt (<) (map fst out) \<and>
     (\<forall>(t, vs) \<in> set out. dc_start d \<le> t \<and> t < dc_end d \<and> length vs = length (gd_source_columns d) \<and>
        (\<forall>p. previous = Some p \<longrightarrow> p < t))"
proof (induction rows arbitrary: previous out)
  case (Cons row rows)
  from Cons.prems obtain t where t: "row_time env row = Inr t" by auto
  show ?case
  proof (cases "dc_start d \<le> t \<and> t < dc_end d")
    case False
    with Cons t show ?thesis by auto
  next
    case True
    with Cons.prems t obtain vs rest where later: "\<And>p. previous = Some p \<Longrightarrow> p < t"
      and vs: "traverse (cell env row) (gd_source_columns d) = Inr vs"
      and rest: "load_rows env d (Some t) rows = Inr rest" and out: "out = (t, vs) # rest"
      by (auto split: if_splits option.splits simp: not_le)
    have "length vs = length (gd_source_columns d)" using traverse_length [OF vs] .
    with Cons.IH [OF rest] True later out show ?thesis by (fastforce dest: less_trans)
  qed
qed simp

lemma checked_names:
  "check_nodes nds ids av = Inr final \<Longrightarrow> fst ` set final = fst ` set av \<union> feature_id ` set nds"
  by (induction nds arbitrary: av) (auto split: sum.splits)

lemma compiled_shape:
  assumes "compile_feature_graph sources nds condition ids = Inr g"
  shows "sources \<noteq> [] \<and> distinct sources \<and> signal_condition g = condition \<and>
     condition \<in> set sources \<union> feature_id ` set nds"
proof -
  from assms obtain final where c: "check_nodes nds ids (source_types sources) = Inr final"
    "map_of final condition = Some BOOLEAN" "distinct sources" "sources \<noteq> []" "signal_condition g = condition"
    by (auto simp: compile_feature_graph_def split: if_splits sum.splits option.splits value_type.splits)
  from c(2) have "condition \<in> fst ` set final" by (force dest: map_of_SomeD)
  with checked_names [OF c(1)] c show ?thesis by (force simp: source_types_def)
qed

lemma dataset_columns:
  "map fst (ds_columns (dataset_of names rows)) = names"
  "p \<in> set (ds_columns (dataset_of names rows)) \<Longrightarrow> length (snd p) = length rows"
  by (auto simp: dataset_of_def o_def map_nth)

lemma load_dataset_rows:
  "load_dataset env d catalog timeframe symbol = Inr ds \<Longrightarrow>
     \<exists>(f :: csv_file) rows. load_rows env d None (cf_rows f) = Inr rows \<and> rows \<noteq> [] \<and> ds = dataset_of (gd_source_columns d) rows"
  by (auto simp: load_dataset_def Let_def split: if_splits option.splits)



section \<open>Spacing of signals\<close>

lemma cooled_length [simp]: "length (cooled_from b last_at i vs) = length vs"
  by (induction vs arbitrary: last_at i) (simp_all add: Let_def)

lemma cooled_sound:
  "k < length vs \<Longrightarrow> cooled_from b last_at i vs ! k \<Longrightarrow> 0 \<le> b \<Longrightarrow> vs ! k \<and> b < i + int k - last_at"
proof (induction vs arbitrary: last_at i k)
  case (Cons v vs)
  show ?case
  proof (cases k)
    case (Suc n)
    let ?acc = "v \<and> b < i - last_at"
    from Suc Cons.prems have n: "n < length vs" "cooled_from b (if ?acc then i else last_at) (i + 1) vs ! n"
      by (simp_all add: Let_def)
    from Cons.IH [OF n Cons.prems(3)] Suc Cons.prems(3) show ?thesis by (auto split: if_splits)
  qed (use Cons.prems in \<open>simp add: Let_def\<close>)
qed simp

lemma cooled_spaced:
  "j < k \<Longrightarrow> k < length vs \<Longrightarrow> cooled_from b last_at i vs ! j \<Longrightarrow> cooled_from b last_at i vs ! k \<Longrightarrow> 0 \<le> b \<Longrightarrow>
     b < int k - int j"
proof (induction vs arbitrary: last_at i j k)
  case (Cons v vs)
  let ?acc = "v \<and> b < i - last_at"
  obtain n where k: "k = Suc n" using Cons.prems(1) by (cases k) auto
  with Cons.prems have n: "n < length vs" "cooled_from b (if ?acc then i else last_at) (i + 1) vs ! n"
    by (simp_all add: Let_def)
  show ?case
  proof (cases j)
    case 0
    with Cons.prems(3) have "?acc" by (simp add: Let_def)
    with cooled_sound [OF n Cons.prems(5)] k 0 show ?thesis by simp
  next
    case (Suc m)
    with Cons.IH [of m n "if ?acc then i else last_at" "i + 1"] Cons.prems k show ?thesis by (simp add: Let_def)
  qed
qed simp

lemma cooled_complete:
  "k < length vs \<Longrightarrow> vs ! k \<Longrightarrow> \<not> cooled_from b last_at i vs ! k \<Longrightarrow>
     (\<exists>j < k. cooled_from b last_at i vs ! j \<and> int k - int j \<le> b) \<or> i + int k - last_at \<le> b"
proof (induction vs arbitrary: last_at i k)
  case (Cons v vs)
  let ?acc = "v \<and> b < i - last_at"
  let ?rest = "cooled_from b (if ?acc then i else last_at) (i + 1) vs"
  show ?case
  proof (cases k)
    case (Suc n)
    with Cons.prems have n: "n < length vs" "vs ! n" "\<not> ?rest ! n" by (simp_all add: Let_def)
    from Cons.IH [OF n] show ?thesis
    proof
      assume "\<exists>j < n. ?rest ! j \<and> int n - int j \<le> b"
      then obtain j where "j < n" "?rest ! j" "int n - int j \<le> b" by blast
      then have "Suc j < k \<and> cooled_from b last_at i (v # vs) ! Suc j \<and> int k - int (Suc j) \<le> b"
        using Suc by (simp add: Let_def)
      then show ?thesis by blast
    next
      assume "i + 1 + int n - (if ?acc then i else last_at) \<le> b"
      with Suc show ?thesis by (cases ?acc) (auto simp: Let_def intro!: exI [of _ 0])
    qed
  qed (use Cons.prems in \<open>auto simp: Let_def\<close>)
qed simp

lemma ceiling_ratio_bound: "0 < b \<Longrightarrow> a \<le> ceiling_ratio a b * b"
  using div_mult_mod_eq [of "- a" b] pos_mod_sign [of b "- a"] unfolding ceiling_ratio_def by linarith

lemma ceiling_ratio_nonneg: "0 < b \<Longrightarrow> 0 \<le> a \<Longrightarrow> 0 \<le> ceiling_ratio a b"
  by (simp add: ceiling_ratio_def div_nonpos_pos_le0)

text \<open>
  The cooldown of a back test accepts only raw signals, any two of them more than the cooldown
  apart, and drops a raw signal only within the cooldown's candles after an accepted one.
\<close>

theorem cooled_signals_are_spaced:
  assumes "0 \<le> cooldown" and "0 < seconds_of" and "out = apply_cooldown cooldown seconds_of signal"
  shows "length out = length signal \<and> (\<forall>k < length signal. out ! k \<longrightarrow> signal ! k) \<and>
    (\<forall>j k. j < k \<and> k < length signal \<and> out ! j \<and> out ! k \<longrightarrow> cooldown < (int k - int j) * seconds_of) \<and>
    (\<forall>k < length signal. signal ! k \<and> \<not> out ! k \<longrightarrow>
       (\<exists>j < k. out ! j \<and> int k - int j \<le> ceiling_ratio cooldown seconds_of))"
proof (cases "cooldown = 0")
  case True
  with assms show ?thesis by (simp add: apply_cooldown_def)
next
  case False
  let ?b = "ceiling_ratio cooldown seconds_of"
  have out: "out = cooled_from ?b (- ?b - 1) 0 signal" using assms(3) False by (simp add: apply_cooldown_def Let_def)
  have b: "0 \<le> ?b" "cooldown \<le> ?b * seconds_of"
    using assms(1,2) by (simp_all add: ceiling_ratio_nonneg ceiling_ratio_bound)
  have "cooldown < (int k - int j) * seconds_of" if "j < k" "k < length signal" "out ! j" "out ! k" for j k
  proof -
    have "?b < int k - int j" using cooled_spaced [OF that(1,2) _ _ b(1)] that(3,4) out by blast
    with assms(2) have "?b * seconds_of < (int k - int j) * seconds_of" by (simp add: mult_strict_right_mono)
    with b(2) show ?thesis by simp
  qed
  moreover have "\<exists>j < k. out ! j \<and> int k - int j \<le> ?b" if "k < length signal" "signal ! k" "\<not> out ! k" for k
    using cooled_complete [OF that(1,2), of ?b "- ?b - 1" 0] that(3) out by simp
  ultimately show ?thesis using cooled_sound [OF _ _ b(1)] out by auto
qed

lemma cooled_signals_are_spaced_witness: "\<not> apply_cooldown 5400 3600 [True, True, True, True] ! 2"
  using cooled_signals_are_spaced [of 5400 3600 "apply_cooldown 5400 3600 [True, True, True, True]" "[True, True, True, True]"]
  by (simp add: apply_cooldown_def ceiling_ratio_def Let_def)

text \<open>A signal exactly at the end of the cooldown is dropped, where the live deduplicator accepts it.\<close>

lemma signal_at_cooldown_dropped: "apply_cooldown 3600 3600 [True, True, True] = [True, False, True]"
  by (simp add: apply_cooldown_def ceiling_ratio_def Let_def)

section \<open>The search\<close>

lemma extreme_member: "extreme before x xs \<in> set (x # xs)"
proof (induction xs arbitrary: x)
  case (Cons z zs)
  from Cons [of "if before z x then z else x"] show ?case by (auto split: if_splits)
qed simp

text \<open>A fold that replaces the best by a better one ends with a maximal one, under a strict weak order.\<close>

lemma extreme_maximal:
  assumes "\<And>a b. a \<in> S \<Longrightarrow> b \<in> S \<Longrightarrow> before a b \<Longrightarrow> \<not> before b a"
    and "\<And>a b c. a \<in> S \<Longrightarrow> b \<in> S \<Longrightarrow> c \<in> S \<Longrightarrow> \<not> before a b \<Longrightarrow> \<not> before b c \<Longrightarrow> \<not> before a c"
  shows "set (x # xs) \<subseteq> S \<Longrightarrow> y \<in> set (x # xs) \<Longrightarrow> \<not> before y (extreme before x xs)"
proof (induction xs arbitrary: x y)
  case Nil
  with assms(1) [of x x] show ?case by auto
next
  case (Cons z zs)
  let ?best = "if before z x then z else x"
  let ?r = "extreme before ?best zs"
  have sub: "set (?best # zs) \<subseteq> S" and xz: "x \<in> S" "z \<in> S" using Cons.prems(1) by auto
  have "?r \<in> set (?best # zs)" by (rule extreme_member)
  with sub have r: "?r \<in> S" by blast
  have best: "\<not> before ?best ?r" using Cons.IH [OF sub, of ?best] by simp
  have "\<not> before x ?best" "\<not> before z ?best" using assms(1) [OF xz(2,1)] assms(1) [OF xz(1,1)] assms(1) [OF xz(2,2)] by auto
  moreover have "?best \<in> S" using xz by simp
  ultimately have "\<not> before x ?r" "\<not> before z ?r"
    using assms(2) [OF xz(1) _ r _ best] assms(2) [OF xz(2) _ r _ best] by blast+
  moreover have "\<not> before w ?r" if "w \<in> set zs" for w using Cons.IH [OF sub] that by simp
  ultimately show ?case using Cons.prems(2) by auto
qed

text \<open>\<open>comparable fl V\<close>: on these floats the arithmetic's order is total (no not-a-number).\<close>

definition comparable :: "'f arith \<Rightarrow> 'f set \<Rightarrow> bool" where
  "comparable fl V \<longleftrightarrow> (\<forall>a \<in> V. \<forall>b \<in> V. (le_f fl a b \<or> le_f fl b a) \<and> lt_f fl a b = (\<not> le_f fl b a) \<and>
     (\<forall>c \<in> V. le_f fl a b \<and> le_f fl b c \<longrightarrow> le_f fl a c))"

definition candidate_values :: "'f candidate \<Rightarrow> 'f set" where
  "candidate_values c = {cd_score c, ms_lift (cd_selection c), ms_precision (cd_selection c)}"

lemma comparableD:
  assumes "comparable fl V" and "a \<in> V" and "b \<in> V"
  shows "le_f fl a b \<or> le_f fl b a" and "lt_f fl a b = (\<not> le_f fl b a)"
  using assms unfolding comparable_def by blast+

lemma comparable_trans: "comparable fl V \<Longrightarrow> a \<in> V \<Longrightarrow> b \<in> V \<Longrightarrow> c \<in> V \<Longrightarrow> le_f fl a b \<Longrightarrow> le_f fl b c \<Longrightarrow> le_f fl a c"
  unfolding comparable_def by blast

text \<open>One level of the comparison of tuples\<close>

definition level :: "'f arith \<Rightarrow> 'f \<Rightarrow> 'f \<Rightarrow> bool \<Rightarrow> bool" where
  "level fl a b rest \<longleftrightarrow> (if \<not> same_f fl a b then lt_f fl b a else rest)"

lemma better_levels: "better fl a b = level fl (cd_score a) (cd_score b)
    (level fl (ms_lift (cd_selection a)) (ms_lift (cd_selection b))
      (level fl (ms_precision (cd_selection a)) (ms_precision (cd_selection b))
        (ms_signals (cd_selection b) < ms_signals (cd_selection a))))"
  by (simp add: better_def level_def Let_def)

lemma level_total:
  assumes "comparable fl V" and "a \<in> V" and "b \<in> V"
  shows "level fl a b p \<longleftrightarrow> \<not> le_f fl a b \<or> le_f fl b a \<and> p"
  using comparableD [OF assms] comparableD [OF assms(1,3,2)] by (auto simp: level_def same_f_def)

lemma level_asym:
  assumes "comparable fl V" and "a \<in> V" and "b \<in> V" and "\<not> (p \<and> q)"
  shows "\<not> (level fl a b p \<and> level fl b a q)"
  using assms(4) comparableD(1) [OF assms(1-3)]
  unfolding level_total [OF assms(1-3)] level_total [OF assms(1,3,2)] by blast

lemma level_trans:
  assumes "comparable fl V" and "a \<in> V" and "b \<in> V" and "c \<in> V"
    and "\<not> level fl a b p" and "\<not> level fl b c q" and "\<not> p \<Longrightarrow> \<not> q \<Longrightarrow> \<not> r"
  shows "\<not> level fl a c r"
proof -
  have ab: "le_f fl a b" "le_f fl b a \<Longrightarrow> \<not> p" using assms(5) unfolding level_total [OF assms(1-3)] by blast+
  have bc: "le_f fl b c" "le_f fl c b \<Longrightarrow> \<not> q" using assms(6) unfolding level_total [OF assms(1,3,4)] by blast+
  have ac: "le_f fl a c" by (rule comparable_trans [OF assms(1-4) ab(1) bc(1)])
  moreover have "\<not> r" if "le_f fl c a"
  proof (rule assms(7))
    show "\<not> p" by (rule ab(2), rule comparable_trans [OF assms(1,3,4,2) bc(1) that])
    show "\<not> q" by (rule bc(2), rule comparable_trans [OF assms(1,4,2,3) that ab(1)])
  qed
  ultimately show ?thesis unfolding level_total [OF assms(1,2,4)] by blast
qed

lemma candidate_valuesD:
  assumes "candidate_values c \<subseteq> V"
  shows "cd_score c \<in> V" and "ms_lift (cd_selection c) \<in> V" and "ms_precision (cd_selection c) \<in> V"
  using assms by (auto simp: candidate_values_def)

lemma better_asym:
  assumes "comparable fl V" and "candidate_values a \<subseteq> V" and "candidate_values b \<subseteq> V"
  shows "\<not> (better fl a b \<and> better fl b a)"
  unfolding better_levels
  by (intro level_asym [OF assms(1)] candidate_valuesD assms(2,3)) simp

lemma better_trans:
  assumes "comparable fl V" and "candidate_values a \<subseteq> V" and "candidate_values b \<subseteq> V" and "candidate_values c \<subseteq> V"
    and "\<not> better fl a b" and "\<not> better fl b c"
  shows "\<not> better fl a c"
proof -
  note V = candidate_valuesD [OF assms(2)] candidate_valuesD [OF assms(3)] candidate_valuesD [OF assms(4)]
  let ?s = "\<lambda>x y. ms_signals (cd_selection y) < ms_signals (cd_selection x)"
  let ?p = "\<lambda>x y. level fl (ms_precision (cd_selection x)) (ms_precision (cd_selection y)) (?s x y)"
  let ?l = "\<lambda>x y. level fl (ms_lift (cd_selection x)) (ms_lift (cd_selection y)) (?p x y)"
  have s: "\<not> ?s a b \<Longrightarrow> \<not> ?s b c \<Longrightarrow> \<not> ?s a c" by simp
  have p: "\<not> ?p a c" if "\<not> ?p a b" "\<not> ?p b c" by (rule level_trans [OF assms(1) V(3,6,9) that s])
  have l: "\<not> ?l a c" if "\<not> ?l a b" "\<not> ?l b c" by (rule level_trans [OF assms(1) V(2,5,8) that p])
  show ?thesis unfolding better_levels
    by (rule level_trans [OF assms(1) V(1,4,7) assms(5,6) [unfolded better_levels] l])
qed

text \<open>The candidates of a search\<close>

lemma best_candidate_member: "best_candidate fl cs = Some c \<Longrightarrow> c \<in> set cs"
  using extreme_member [of "better fl" "hd cs" "tl cs"] by (cases cs) (auto simp: best_candidate_def)

lemma best_candidate_maximal:
  assumes "best_candidate fl cs = Some c" and "comparable fl (\<Union> (candidate_values ` set cs))" and "d \<in> set cs"
  shows "\<not> better fl d c"
proof -
  let ?V = "\<Union> (candidate_values ` set cs)"
  obtain x xs where cs: "cs = x # xs" and c: "c = extreme (better fl) x xs"
    using assms(1) by (auto simp: best_candidate_def split: list.splits)
  have sub: "candidate_values a \<subseteq> ?V" if "a \<in> set cs" for a using that by blast
  have "\<not> better fl b a" if "a \<in> set cs" "b \<in> set cs" "better fl a b" for a b
    using better_asym [OF assms(2) sub [OF that(1)] sub [OF that(2)]] that(3) by blast
  moreover have "\<not> better fl a e"
    if "a \<in> set cs" "b \<in> set cs" "e \<in> set cs" "\<not> better fl a b" "\<not> better fl b e" for a b e
    by (rule better_trans [OF assms(2) sub [OF that(1)] sub [OF that(2)] sub [OF that(3)] that(4,5)])
  ultimately show ?thesis
    unfolding c using extreme_maximal [of "set cs" "better fl" x xs d] cs assms(3) by blast
qed

lemma try_point_eligible:
  "try_point env s g secs dss params = Inr (Some c) \<Longrightarrow>
     cd_parameters c = params \<and> eligible (ee_arith env) (gs_validation s) (cd_selection c) \<and>
     cd_score c = primary_value (vc_primary_metric (gs_validation s)) (cd_selection c)"
  by (auto simp: try_point_def split: if_splits)

text \<open>
  C29. When a search of a timeframe succeeds, every point of the grid was tried without an exception;
  the chosen candidate is that of a grid point, it has a signal on the selection part and no more a
  day than allowed, and no other eligible point has a better one, if the metrics are numbers.
\<close>

theorem best_point_is_chosen:
  assumes "search_frame env s g catalog symbols timeframe = Inr r"
    and "candle_seconds timeframe = Inr secs" and "load_all env (gs_data s) catalog symbols timeframe = Inr dss"
    and "comparable (ee_arith env) (\<Union>p \<in> set (grid_points (gs_parameters s)).
           \<Union>c \<in> {c. try_point env s g secs dss p = Inr (Some c)}. candidate_values c)"
  shows "cd_parameters (fr_candidate r) \<in> set (grid_points (gs_parameters s)) \<and>
    try_point env s g secs dss (cd_parameters (fr_candidate r)) = Inr (Some (fr_candidate r)) \<and>
    eligible (ee_arith env) (gs_validation s) (cd_selection (fr_candidate r)) \<and>
    (\<forall>p \<in> set (grid_points (gs_parameters s)). \<exists>o_c. try_point env s g secs dss p = Inr o_c \<and>
       (\<forall>c. o_c = Some c \<longrightarrow> \<not> better (ee_arith env) c (fr_candidate r)))"
proof -
  let ?grid = "grid_points (gs_parameters s)" and ?point = "try_point env s g secs dss"
  from assms(1-3) obtain tried where tried: "traverse ?point ?grid = Inr tried"
    and best: "best_candidate (ee_arith env) (List.map_filter id tried) = Some (fr_candidate r)"
    by (auto simp: search_frame_def split: option.splits)
  let ?cs = "List.map_filter id tried"
  have pts: "list_all2 (\<lambda>p y. ?point p = Inr y) ?grid tried" using tried by (simp add: traverse_Inr)
  have cs: "set ?cs = {c. \<exists>p \<in> set ?grid. ?point p = Inr (Some c)}"
  proof -
    have "c \<in> set ?cs \<longleftrightarrow> Some c \<in> set tried" for c by (force simp: List.map_filter_def)
    moreover have "Some c \<in> set tried \<longleftrightarrow> (\<exists>p \<in> set ?grid. ?point p = Inr (Some c))" for c
      using pts by (fastforce simp: list_all2_conv_all_nth in_set_conv_nth)
    ultimately show ?thesis by blast
  qed
  have V: "(\<Union>p \<in> set ?grid. \<Union>c \<in> {c. ?point p = Inr (Some c)}. candidate_values c) = \<Union> (candidate_values ` set ?cs)"
    using cs by auto
  have "fr_candidate r \<in> set ?cs"
    by (rule best_candidate_member [OF best])
  with cs obtain p where p: "p \<in> set ?grid" "?point p = Inr (Some (fr_candidate r))" by blast
  moreover have "\<exists>o_c. ?point q = Inr o_c \<and> (\<forall>c. o_c = Some c \<longrightarrow> \<not> better (ee_arith env) c (fr_candidate r))"
    if "q \<in> set ?grid" for q
  proof -
    from that pts obtain y where y: "?point q = Inr y" by (auto simp: list_all2_conv_all_nth in_set_conv_nth)
    moreover have "c \<in> set ?cs" if "y = Some c" for c using that y \<open>q \<in> set ?grid\<close> cs by blast
    ultimately show ?thesis using best_candidate_maximal [OF best assms(4) [unfolded V]] by blast
  qed
  ultimately show ?thesis using try_point_eligible [OF p(2)] by auto
qed

lemma comparable_rat: "comparable rat_arith V"
  by (auto simp: comparable_def rat_arith_def)

lemma best_point_is_chosen_witness:
  "\<exists>r. search_frame (sample_engine 8 4) sample_spec three_columns [] [''BTC''] ''1h'' = Inr r \<and>
     eligible rat_arith sample_validation (cd_selection (fr_candidate r))"
proof -
  obtain r where r: "search_frame (sample_engine 8 4) sample_spec three_columns [] [''BTC''] ''1h'' = Inr r"
    using sample_searched by blast
  have "comparable (ee_arith (sample_engine 8 4)) V" for V using comparable_rat by (simp add: sample_engine_def)
  from best_point_is_chosen [OF r sample_hour sample_loaded_all this] r show ?thesis
    by (auto simp: sample_engine_def sample_spec_def)
qed

section \<open>What the selection reads\<close>

lemma take_onset: "take m (onset fl vs) = onset fl (take m vs)"
proof -
  have "take m (onset_from fl p vs) = onset_from fl p (take m vs)" for p
    by (induction vs arbitrary: m p) (simp_all add: take_Cons')
  then show ?thesis by (simp add: onset_def)
qed

lemma take_cooldown: "take m (apply_cooldown c secs vs) = apply_cooldown c secs (take m vs)"
proof -
  have "take m (cooled_from b l i vs) = cooled_from b l i (take m vs)" for b l i
    by (induction vs arbitrary: m l i) (simp_all add: take_Cons' Let_def)
  then show ?thesis by (simp add: apply_cooldown_def Let_def)
qed

lemma onset_length [simp]: "length (onset fl vs) = length vs"
proof -
  have "length (onset_from fl p vs) = length vs" for p by (induction vs arbitrary: p) auto
  then show ?thesis by (simp add: onset_def)
qed

lemma cooldown_length [simp]: "length (apply_cooldown c secs vs) = length vs"
  by (simp add: apply_cooldown_def Let_def)

lemma window_after_take:
  assumes "index + 1 + bars \<le> m" and "take m xs = take m ys"
  shows "window_after bars index xs = window_after bars index ys"
proof -
  have "take bars (drop (index + 1) xs) = take bars (drop (index + 1) (take m xs))" for xs :: "'a list"
    using assms(1) by (simp add: drop_take)
  with assms(2) show ?thesis by (metis window_after_def)
qed

lemma label_at_take:
  assumes "index + 1 + bars \<le> m" and "take m highs = take m highs'" and "take m lows = take m lows'"
    and "take m closes = take m closes'"
  shows "label_at fl threshold bars highs lows closes index = label_at fl threshold bars highs' lows' closes' index"
proof -
  have "closes ! index = closes' ! index" using assms(1) nth_take [of index m closes] nth_take [of index m closes'] assms(4) by simp
  then show ?thesis
    using window_after_take [OF assms(1,2)] window_after_take [OF assms(1,3)] unfolding label_at_def by simp
qed

lemma map_of_truncate: "map_of (truncate m cols) name = map_option (take m) (map_of cols name)"
  by (simp add: truncate_def map_of_map)

lemma truncate_column:
  assumes "truncate m cols = truncate m cols'" and "map_of cols name = Some c" and "map_of cols' name = Some c'"
  shows "take m c = take m c'"
  using map_of_truncate [of m cols name] map_of_truncate [of m cols' name] assms by simp

lemma column_Inr: "column ds name = Inr c \<longleftrightarrow> map_of (ds_columns ds) name = Some c"
  by (simp add: column_def split: option.split)

lemma future_labelsD:
  "future_labels fl l ds secs = Inr labels \<Longrightarrow>
     \<exists>hs ls cs. map_of (ds_columns ds) (lc_high_column l) = Some hs \<and> map_of (ds_columns ds) (lc_low_column l) = Some ls \<and>
       map_of (ds_columns ds) (lc_close_column l) = Some cs \<and>
       traverse (label_at fl (lc_threshold l) (nat (lc_horizon_hours l * 3600 div secs)) hs ls cs) [0..<length cs] = Inr labels"
  unfolding future_labels_def and_then_Inr column_Inr by blast

lemma traverse_at: "traverse f [0..<n] = Inr ys \<Longrightarrow> i < length ys \<Longrightarrow> f i = Inr (ys ! i)"
  by (simp add: traverse_Inr list_all2_conv_all_nth)

text \<open>The first labels depend on the rows up to the horizon of the last of them.\<close>

lemma future_labels_take:
  assumes "future_labels fl l ds secs = Inr labels" and "future_labels fl l ds' secs = Inr labels'"
    and "truncate m (ds_columns ds) = truncate m (ds_columns ds')"
    and "k + nat (lc_horizon_hours l * 3600 div secs) \<le> m"
    and "length labels = length labels'"
  shows "take k labels = take k labels'"
proof -
  let ?bars = "nat (lc_horizon_hours l * 3600 div secs)"
  obtain hs ls cs where c: "map_of (ds_columns ds) (lc_high_column l) = Some hs" "map_of (ds_columns ds) (lc_low_column l) = Some ls"
      "map_of (ds_columns ds) (lc_close_column l) = Some cs"
    and run: "traverse (label_at fl (lc_threshold l) ?bars hs ls cs) [0..<length cs] = Inr labels"
    using future_labelsD [OF assms(1)] by blast
  obtain hs' ls' cs' where c': "map_of (ds_columns ds') (lc_high_column l) = Some hs'" "map_of (ds_columns ds') (lc_low_column l) = Some ls'"
      "map_of (ds_columns ds') (lc_close_column l) = Some cs'"
    and run': "traverse (label_at fl (lc_threshold l) ?bars hs' ls' cs') [0..<length cs'] = Inr labels'"
    using future_labelsD [OF assms(2)] by blast
  note same = truncate_column [OF assms(3) c(1) c'(1)] truncate_column [OF assms(3) c(2) c'(2)]
    truncate_column [OF assms(3) c(3) c'(3)]
  have "labels ! i = labels' ! i" if "i < k" "i < length labels" for i
  proof -
    have "i + 1 + ?bars \<le> m" using that(1) assms(4) by simp
    from label_at_take [OF this same, of fl "lc_threshold l"] traverse_at [OF run, of i] traverse_at [OF run', of i] that(2) assms(5)
    show ?thesis by simp
  qed
  with assms(5) show ?thesis by (simp add: list_eq_iff_nth_eq)
qed

lemma take_cut: "length xs = n \<Longrightarrow> take (min k n) xs = take k xs"
  by (auto simp: min_def)

lemma truncate_cut: "\<forall>p \<in> set cols. length (snd p) = n \<Longrightarrow> truncate (min m n) cols = truncate m cols"
  by (force simp: truncate_def take_cut)

lemma evaluated_columns:
  assumes "evaluate_graph fl g cols params minutes = Inr tbl"
  shows "cols \<noteq> []" and "\<forall>p \<in> set cols. length (snd p) = length (snd (hd cols))"
proof -
  have "equally_sized cols" using assms by (simp add: evaluate_graph_def split: if_splits)
  then show "cols \<noteq> []" and "\<forall>p \<in> set cols. length (snd p) = length (snd (hd cols))"
    unfolding equally_sized_def by blast+
qed

lemma evaluated_signal:
  assumes "evaluate_graph fl g cols params minutes = Inr tbl" and "lookup_column tbl name = Inr c"
  shows "length c = length (snd (hd cols))" and "map_of tbl name = Some c"
proof -
  show m: "map_of tbl name = Some c" using assms(2) by (simp add: lookup_column_def split: option.splits)
  with evaluate_graph_truncate [OF assms(1), of 0] show "length c = length (snd (hd cols))" by (simp add: sized_def)
qed

lemma signal_take:
  assumes "evaluate_graph fl g cols params minutes = Inr tbl" and "lookup_column tbl (signal_condition g) = Inr c"
    and "evaluate_graph fl g cols' params minutes = Inr tbl'" and "lookup_column tbl' (signal_condition g) = Inr c'"
    and "truncate m cols = truncate m cols'" and "map (length \<circ> snd) cols = map (length \<circ> snd) cols'"
  shows "length c = length c' \<and> take m c = take m c'"
proof -
  let ?n = "length (snd (hd cols))"
  have len: "length (snd (hd cols')) = ?n"
    using assms(6) evaluated_columns(1) [OF assms(1)] evaluated_columns(1) [OF assms(3)] by (cases cols; cases cols') auto
  have "truncate (min m ?n) cols = truncate (min m ?n) cols'"
    using assms(5) truncate_cut [OF evaluated_columns(2) [OF assms(1)]]
      truncate_cut [OF evaluated_columns(2) [OF assms(3)]] unfolding len by simp
  moreover have "evaluate_graph fl g (truncate (min m ?n) cols) params minutes = Inr (take_table (min m ?n) tbl)"
    using evaluate_graph_truncate [OF assms(1), of "min m ?n"] by simp
  moreover have "evaluate_graph fl g (truncate (min m ?n) cols') params minutes = Inr (take_table (min m ?n) tbl')"
    using evaluate_graph_truncate [OF assms(3), of "min m ?n"] unfolding len by simp
  ultimately have "take_table (min m ?n) tbl = take_table (min m ?n) tbl'" by simp
  with map_of_take_table [of "min m ?n" tbl "signal_condition g"] map_of_take_table [of "min m ?n" tbl' "signal_condition g"]
    evaluated_signal(2) [OF assms(1,2)] evaluated_signal(2) [OF assms(3,4)]
  have eq: "take (min m ?n) c = take (min m ?n) c'" by simp
  have sizes: "length c = ?n" "length c' = ?n"
    using evaluated_signal(1) [OF assms(1,2)] evaluated_signal(1) [OF assms(3,4)] unfolding len by simp_all
  show ?thesis using eq unfolding take_cut [OF sizes(1)] take_cut [OF sizes(2)] sizes by simp
qed

lemma labels_sized:
  assumes "evaluate_graph fl g (ds_columns ds) params minutes = Inr tbl" and "lookup_column tbl (signal_condition g) = Inr c"
    and "future_labels fl l ds secs = Inr labels"
  shows "length labels = length c"
proof -
  obtain hs ls cs where cs: "map_of (ds_columns ds) (lc_close_column l) = Some cs"
    and run: "traverse (label_at fl (lc_threshold l) (nat (lc_horizon_hours l * 3600 div secs)) hs ls cs) [0..<length cs] = Inr labels"
    using future_labelsD [OF assms(3)] by blast
  have "length labels = length cs" using traverse_length [OF run] by simp
  moreover have "length cs = length (snd (hd (ds_columns ds)))"
    using evaluated_columns(2) [OF assms(1)] map_of_SomeD [OF cs] by (metis snd_conv)
  ultimately show ?thesis using evaluated_signal(1) [OF assms(1,2)] by simp
qed

text \<open>
  C30. The selection part of a data set, its signals and its labels, is decided by the selected rows
  and as many rows after them as the label's horizon has candles: two data sets of the same size that
  agree up to there have the same selection part.
\<close>

theorem selection_reads_one_horizon:
  assumes "evaluate_part env s g secs params ds = Inr ((signal, labels), rest)"
    and "evaluate_part env s g secs params ds' = Inr ((signal', labels'), rest')"
    and "map (length \<circ> snd) (ds_columns ds) = map (length \<circ> snd) (ds_columns ds')"
    and "m = length signal + nat (lc_horizon_hours (gs_label s) * 3600 div secs)"
    and "truncate m (ds_columns ds) = truncate m (ds_columns ds')"
  shows "signal' = signal \<and> labels' = labels"
proof -
  let ?fl = "ee_arith env"
  let ?cool = "apply_cooldown (sg_cooldown_seconds (gs_signal s)) secs"
  obtain tbl c ls k where
    d: "evaluate_graph ?fl g (ds_columns ds) (map_of params) (secs div 60) = Inr tbl"
      "lookup_column tbl (signal_condition g) = Inr c" "future_labels ?fl (gs_label s) ds secs = Inr ls"
      "ee_trunc env (mul_f ?fl (of_int_f ?fl (int (length c))) (vc_selection_fraction (gs_validation s))) = Inr k"
      "signal = slice_to k (?cool (onset ?fl c))" "labels = slice_to k ls"
    using assms(1) by (auto simp: evaluate_part_def Let_def)
  obtain tbl' c' ls' k' where
    d': "evaluate_graph ?fl g (ds_columns ds') (map_of params) (secs div 60) = Inr tbl'"
      "lookup_column tbl' (signal_condition g) = Inr c'" "future_labels ?fl (gs_label s) ds' secs = Inr ls'"
      "ee_trunc env (mul_f ?fl (of_int_f ?fl (int (length c'))) (vc_selection_fraction (gs_validation s))) = Inr k'"
      "signal' = slice_to k' (?cool (onset ?fl c'))" "labels' = slice_to k' ls'"
    using assms(2) by (auto simp: evaluate_part_def Let_def)
  have cols: "length c' = length c" "take m c' = take m c"
    using signal_take [OF d(1,2) d'(1,2) assms(5,3)] by simp_all
  have sized: "length ls = length c" "length ls' = length c"
    using labels_sized [OF d(1-3)] labels_sized [OF d'(1-3)] cols(1) by simp_all
  let ?K = "slice_end k c"
  have k: "k' = k" using d(4) d'(4) cols(1) by simp
  have slices: "signal = take ?K (?cool (onset ?fl c))" "labels = take ?K ls"
    "signal' = take ?K (?cool (onset ?fl c'))" "labels' = take ?K ls'"
    using d(5,6) d'(5,6) sized cols(1) unfolding k slice_to_def slice_end_def by simp_all
  let ?n = "length signal"
  have n: "?n = min ?K (length c)" using slices(1) by simp
  have cut: "take ?n xs = take ?K xs" if "length xs = length c" for xs :: "bool list"
    unfolding n using that by (rule take_cut)
  have cut': "take ?n xs = take ?K xs" if "length xs = length c" for xs :: "bool option list"
    unfolding n using that by (rule take_cut)
  have "take ?n c' = take ?n c" using arg_cong [OF cols(2), of "take ?n"] assms(4) by (simp add: min_def)
  then have "take ?n (?cool (onset ?fl c')) = take ?n (?cool (onset ?fl c))"
    by (simp add: take_cooldown take_onset)
  then have "signal' = signal" using cut [of "?cool (onset ?fl c')"] cut [of "?cool (onset ?fl c)"] slices(1,3) cols(1) by simp
  moreover have "take ?n ls' = take ?n ls"
    by (rule future_labels_take [OF d(3) d'(3) assms(5), symmetric]) (use assms(4) sized in simp_all)
  then have "labels' = labels" using cut' [OF sized(1)] cut' [OF sized(2)] slices(2,4) by simp
  ultimately show ?thesis ..
qed

lemma selection_reads_one_horizon_witness:
  "sample_series 8 9 \<noteq> sample_series 8 4 \<and>
   fst (projr (evaluate_part (sample_engine 8 9) sample_spec three_columns 3600 [(''window'', 1)] (sample_series 8 9))) =
   fst (projr (evaluate_part (sample_engine 8 9) sample_spec three_columns 3600 [(''window'', 1)] (sample_series 8 4)))"
proof -
  have "map (length \<circ> snd) (ds_columns (sample_series 8 9)) = map (length \<circ> snd) (ds_columns (sample_series 8 4))"
    "truncate 3 (ds_columns (sample_series 8 9)) = truncate 3 (ds_columns (sample_series 8 4))"
    "3 = length [False, True] + nat (lc_horizon_hours (gs_label sample_spec) * 3600 div 3600)"
    by (simp_all add: sample_series_def truncate_def sample_spec_def sample_label_def)
  from selection_reads_one_horizon [OF sample_part_of [of 8 9 8 9] sample_part_of [of 8 9 8 4] this(1,3,2)]
  have "fst (projr (evaluate_part (sample_engine 8 9) sample_spec three_columns 3600 [(''window'', 1)] (sample_series 8 9))) =
      fst (projr (evaluate_part (sample_engine 8 9) sample_spec three_columns 3600 [(''window'', 1)] (sample_series 8 4)))"
    unfolding sample_part_of by simp
  moreover have "sample_series 8 9 \<noteq> sample_series 8 4" by (simp add: sample_series_def)
  ultimately show ?thesis by blast
qed

text \<open>
  So the selection of parameters reads the holdout: two series that agree on all of the selection differ
  in its labels, because the highest price of the first holdout hour differs.
\<close>

lemma selection_reads_holdout:
  "truncate 2 (ds_columns (sample_series 8 4)) = truncate 2 (ds_columns (sample_series 4 4)) \<and>
   fst (projr (evaluate_part (sample_engine 8 4) sample_spec three_columns 3600 [(''window'', 1)] (sample_series 8 4))) =
     ([False, True], [Some True, Some True]) \<and>
   fst (projr (evaluate_part (sample_engine 8 4) sample_spec three_columns 3600 [(''window'', 1)] (sample_series 4 4))) =
     ([False, True], [Some True, Some False])"
proof (intro conjI)
  show "truncate 2 (ds_columns (sample_series 8 4)) = truncate 2 (ds_columns (sample_series 4 4))"
    by (simp add: sample_series_def truncate_def)
qed (simp_all add: sample_part_of)

section \<open>Runs\<close>

text \<open>
  \<open>run_recorded\<close>: how a run ends and what it leaves. Before its directory exists nothing is written;
  after, the manifest tells the end, except for a cancelled run, whose manifest stays as it was.
\<close>

definition failure_recorded :: "'f runner_env \<Rightarrow> exn \<Rightarrow> 'f manifest \<Rightarrow> bool" where
  "failure_recorded env x m = (if x = CancelledError
     then mn_status m = ''running'' \<and> mn_completed_at m = None
     else mn_status m = ''failed'' \<and> mn_completed_at m \<noteq> None \<and> mn_failure_type m = Some (br_name env x))"

definition run_recorded ::
  "'f runner_env \<Rightarrow> 'f bt_engine \<Rightarrow> 'f loaded_spec \<Rightarrow> string \<Rightarrow> 'f artifacts \<Rightarrow> exn + run_outcome \<Rightarrow> 'f artifacts \<Rightarrow> bool"
where
  "run_recorded env e s dir t res u = (case map_of (at_manifests u) dir of
       None \<Rightarrow> False
     | Some m \<Rightarrow> mn_spec_sha256 m = spec_sha256 (br_spec env) s \<and> mn_engine m = be_id e \<and>
         map_of (at_specs u) dir = Some (normalized (br_spec env) s) \<and>
         (case be_run e s of
            Inl x \<Rightarrow> res = Inl x \<and> failure_recorded env x m
          | Inr (files, r) \<Rightarrow> map_sum id ro_dir res = Inr dir \<and> mn_status m = ''complete'' \<and> mn_completed_at m \<noteq> None \<and>
              mn_artifacts m = er_artifacts r \<and> mn_summary m = er_summary r \<and> mn_failure_type m = None \<and>
              map_of (at_results u) dir = Some files))"

definition run_ended :: "'f runner_env \<Rightarrow> 'f registry \<Rightarrow> 'f loaded_spec \<Rightarrow> 'f artifacts \<Rightarrow> exn + run_outcome \<Rightarrow> 'f artifacts \<Rightarrow> bool" where
  "run_ended env reg s t res u = (case resolve_engine reg (loaded_engine s) of
       Inl x \<Rightarrow> res = Inl x \<and> u = t
     | Inr e \<Rightarrow> (case be_validate e s of
         Inl x \<Rightarrow> res = Inl x \<and> u = t
       | Inr _ \<Rightarrow> (let dir = artifact_dir env (br_now env (at_ticks t)) s in
           if dir \<in> set (at_dirs t) then res = Inl (OSError ''File exists'') \<and> files_kept t u
           else others_kept dir t u \<and> dir \<in> set (at_dirs u) \<and> run_recorded env e s dir t res u)))"

lemma wp_run_failed [wp_rules]:
  "wp (run_failed env dir m e) Q E t = (if e = CancelledError then E e t
     else E e (t\<lparr>at_ticks := at_ticks t + 1, at_manifests := AList.update dir (m\<lparr>mn_status := ''failed'',
       mn_completed_at := Some (br_now env (at_ticks t)), mn_failure_type := Some (br_name env e)\<rparr>) (at_manifests t)\<rparr>))"
  by (simp add: run_failed_def wp_rules)

lemma wp_run_completed [wp_rules]:
  "wp (run_completed env dir m files r) Q E t = Q () (t\<lparr>at_results := AList.update dir files (at_results t),
     at_ticks := at_ticks t + 1, at_manifests := AList.update dir (m\<lparr>mn_status := ''complete'',
       mn_completed_at := Some (br_now env (at_ticks t)), mn_artifacts := er_artifacts r, mn_summary := er_summary r\<rparr>)
       (at_manifests t)\<rparr>)"
  by (simp add: run_completed_def wp_rules)

lemma run_backtest_ends:
  "wp (run_backtest env reg s) (\<lambda>a. run_ended env reg s t (Inr a)) (\<lambda>x. run_ended env reg s t (Inl x)) t"
  by (simp add: run_backtest_def wp_rules run_ended_def run_recorded_def failure_recorded_def files_kept_def
      others_kept_def first_manifest_def update_conv Let_def split: sum.split prod.split)

text \<open>
  C31. A run that is refused or whose directory exists changes no file. Any other leaves the other runs'
  directories alone and records its end: complete with the engine's artifacts exactly if the engine
  returned, failed with the exception's name if it raised, but still running if it was cancelled.
\<close>

theorem run_manifest_tells_outcome:
  "case run_backtest env reg s t of (res, u) \<Rightarrow> run_ended env reg s t res u"
  using run_backtest_ends [of env reg s t] by (simp add: wp_def split: prod.splits sum.splits)

end
