(* ===== verification/Venue_Values.thy ===== *)
theory Venue_Values
  imports Py_Numerals Delivery
begin

text \<open>
  What the exchange adapters share: access to a venue's JSON, the helpers of
  src/src/quant_signal_agent/exchanges/common/normalization.py, and a public request with its retries.

  \<open>ExchangeResponseError\<close> is a \<open>RuntimeError\<close>, its base class, by which nothing in the package tells
  it apart; a \<open>RetryableExchangeError\<close> is a \<open>Transient\<close> outcome of the transport and the
  \<open>RuntimeError\<close> below when the last attempt has failed. The rate limiter only delays a request. A field
  that the code stores without conversion, such as a candle's interval, is text in the model; Python
  would store any other JSON value as it is.
\<close>

text \<open>A function of the source that may raise, used where there is state\<close>

definition from_sum :: "exn + 'a \<Rightarrow> ('s, 'a) eff" where
  "from_sum v = (case v of Inl e \<Rightarrow> raise e | Inr a \<Rightarrow> ret a)"

section \<open>Access to JSON\<close>

text \<open>\<open>v[k]\<close> for a string \<open>k\<close> and \<open>v[i]\<close> for a position \<open>i\<close>\<close>

definition item_of :: "pyval \<Rightarrow> string \<Rightarrow> exn + pyval" where
  "item_of v k = (case v of PDict d \<Rightarrow> dict_item d k | _ \<Rightarrow> Inl (TypeError ''indices must be integers''))"

definition nth_of :: "pyval \<Rightarrow> nat \<Rightarrow> exn + pyval" where
  "nth_of v i = (case v of
       PList xs \<Rightarrow> if i < length xs then Inr (xs ! i) else Inl (IndexError ''list index out of range'')
     | PStr s \<Rightarrow> if i < length s then Inr (PStr [s ! i]) else Inl (IndexError ''string index out of range'')
     | PDict d \<Rightarrow> Inl (KeyError (str_of_int (int i)))
     | _ \<Rightarrow> Inl (TypeError ''object is not subscriptable''))"

text \<open>\<open>symbol in d\<close> and \<open>d[symbol]\<close> for a dynamic \<open>symbol\<close>, which must be hashable\<close>

definition known :: "(string \<times> 'a) list \<Rightarrow> pyval \<Rightarrow> exn + 'a option" where
  "known d v = (case v of
       PStr s \<Rightarrow> Inr (map_of d s)
     | PList _ \<Rightarrow> Inl (TypeError ''unhashable type'')
     | PDict _ \<Rightarrow> Inl (TypeError ''unhashable type'')
     | _ \<Rightarrow> Inr None)"

definition text_of_value :: "pyval \<Rightarrow> exn + string" where
  "text_of_value v = (case v of PStr s \<Rightarrow> Inr s | _ \<Rightarrow> Inl (TypeError ''text expected''))"

section \<open>Numbers\<close>

text \<open>\<open>Decimal(v)\<close>; a float is converted exactly.\<close>

definition decimal_of_value :: "pyval \<Rightarrow> exn + decimal" where
  "decimal_of_value v = (case v of
       PStr s \<Rightarrow> decimal_of_string s
     | PInt i \<Rightarrow> Inr (of_int i)
     | PBool b \<Rightarrow> Inr (of_bool b)
     | PFloat f \<Rightarrow> (case f of Fin r \<Rightarrow> Inr r | _ \<Rightarrow> Inl (InvalidOperation ''not a finite number''))
     | PList _ \<Rightarrow> Inl (ValueError ''argument must be a sequence of length 3'')
     | _ \<Rightarrow> Inl (TypeError ''conversion to Decimal is not supported''))"

definition decimal_of_text :: "(pyval \<Rightarrow> string) \<Rightarrow> pyval \<Rightarrow> exn + decimal" where
  "decimal_of_text repr v = decimal_of_string (str_of_value repr v)"

definition decimal_or_none :: "(pyval \<Rightarrow> string) \<Rightarrow> pyval \<Rightarrow> exn + decimal option" where
  "decimal_or_none repr v = (if v = PNone \<or> v = PStr [] then Inr None
     else bind_sum (decimal_of_text repr v) (\<lambda>x. Inr (Some x)))"

text \<open>\<open>rows[:depth]\<close>, and one level of a book\<close>

definition first_rows :: "nat option \<Rightarrow> pyval \<Rightarrow> exn + pyval list" where
  "first_rows depth v = (case depth of
       None \<Rightarrow> iterate v
     | Some n \<Rightarrow> (case v of
         PList xs \<Rightarrow> Inr (take n xs)
       | PStr s \<Rightarrow> iterate (PStr (take n s))
       | _ \<Rightarrow> Inl (TypeError ''object is not subscriptable'')))"

definition level_of_row :: "pyval \<Rightarrow> exn + book_level" where
  "level_of_row row = bind_sum (bind_sum (nth_of row 0) decimal_of_value) (\<lambda>p.
     bind_sum (bind_sum (nth_of row 1) decimal_of_value) (mk_book_level p))"

definition book_levels :: "nat option \<Rightarrow> pyval \<Rightarrow> exn + book_level list" where
  "book_levels depth v = bind_sum (first_rows depth v) (traverse level_of_row)"

section \<open>Fields\<close>

definition dec :: "(string \<times> pyval) list \<Rightarrow> string \<Rightarrow> exn + decimal" where
  "dec d k = bind_sum (dict_item d k) decimal_of_value"

definition opt_dec :: "(pyval \<Rightarrow> string) \<Rightarrow> (string \<times> pyval) list \<Rightarrow> string \<Rightarrow> exn + decimal option" where
  "opt_dec repr d k = decimal_or_none repr (dict_get d k)"

definition num :: "(string \<times> pyval) list \<Rightarrow> string \<Rightarrow> exn + int" where
  "num d k = bind_sum (dict_item d k) int_of_value"

definition ms :: "(string \<times> pyval) list \<Rightarrow> string \<Rightarrow> exn + datetime" where
  "ms d k = bind_sum (dict_item d k) from_milliseconds"

definition levels :: "nat option \<Rightarrow> (string \<times> pyval) list \<Rightarrow> string \<Rightarrow> exn + book_level list" where
  "levels depth d k = bind_sum (dict_item d k) (book_levels depth)"

text \<open>A dict that is subscripted first, and elements by position\<close>

definition as_dict :: "pyval \<Rightarrow> exn + (string \<times> pyval) list" where
  "as_dict v = (case v of PDict d \<Rightarrow> Inr d | _ \<Rightarrow> Inl (TypeError ''indices must be integers''))"

definition dec_at :: "pyval \<Rightarrow> nat \<Rightarrow> exn + decimal" where
  "dec_at v i = bind_sum (nth_of v i) decimal_of_value"

definition ms_at :: "pyval \<Rightarrow> nat \<Rightarrow> exn + datetime" where
  "ms_at v i = bind_sum (nth_of v i) from_milliseconds"

definition length_of :: "pyval \<Rightarrow> exn + nat" where
  "length_of v = (case v of PList xs \<Rightarrow> Inr (length xs) | PStr s \<Rightarrow> Inr (length s) | PDict d \<Rightarrow> Inr (length d)
     | _ \<Rightarrow> Inl (TypeError ''object has no len()''))"

definition metadata :: "instrument \<Rightarrow> datetime \<Rightarrow> datetime \<Rightarrow> int option \<Rightarrow> event_metadata" where
  "metadata ins t received seq = \<lparr>md_instrument = ins, exchange_timestamp = t, received_at = received,
     md_sequence_id = seq, timestamp_quality = EXCHANGE_TIME\<rparr>"

definition received_only :: "instrument \<Rightarrow> datetime \<Rightarrow> event_metadata" where
  "received_only ins received = (metadata ins received received None)\<lparr>timestamp_quality := RECEIVE_ONLY\<rparr>"

section \<open>Requests\<close>

text \<open>
  \<open>hx_answer\<close> is what the transport answers on the n-th attempt of a request, \<open>hx_now\<close> the clock when
  the answer is read, \<open>hx_ms\<close> is \<open>int(t.timestamp() * 1000)\<close>, which goes through floats.
\<close>

type_synonym params = "(string \<times> pyval) list"

record venue_env =
  hx_repr :: "pyval \<Rightarrow> string"
  hx_ms :: "datetime \<Rightarrow> int"
  hx_now :: datetime
  hx_policy :: retry_policy
  hx_jitter :: "rat \<Rightarrow> rat \<Rightarrow> rat"
  hx_answer :: "string \<Rightarrow> params \<Rightarrow> int \<Rightarrow> pyval call_outcome"

definition response_error :: "string \<Rightarrow> exn" where
  "response_error m = RuntimeError m"

definition outcome_sum :: "'a call_result \<Rightarrow> exn + 'a" where
  "outcome_sum r = (case r of
       CallReturned x \<Rightarrow> Inr x
     | CallRaised (Failed e) \<Rightarrow> Inl e
     | CallRaised _ \<Rightarrow> Inl (RuntimeError ''RetryableExchangeError'')
     | LoopEnded \<Rightarrow> Inl (AssertionError ''Retry loop ended unexpectedly''))"

definition on_return :: "('a \<Rightarrow> 'a call_outcome) \<Rightarrow> 'a call_outcome \<Rightarrow> 'a call_outcome" where
  "on_return check res = (case res of Returned x \<Rightarrow> check x | Transient r \<Rightarrow> Transient r | Failed e \<Rightarrow> Failed e)"

definition request :: "venue_env \<Rightarrow> (pyval \<Rightarrow> pyval call_outcome) \<Rightarrow> string \<Rightarrow> params \<Rightarrow> exn + pyval" where
  "request env check path ps = outcome_sum (fst (retry_exchange_call (hx_policy env) (hx_jitter env)
     (\<lambda>attempt. on_return check (hx_answer env path ps attempt))))"

text \<open>\<open>a.get(k, b)\<close> of a clock's milliseconds\<close>

definition now_ms :: "venue_env \<Rightarrow> pyval" where
  "now_ms env = PInt (hx_ms env (hx_now env))"

section \<open>Instruments\<close>

definition str_remove :: "char \<Rightarrow> string \<Rightarrow> string" where
  "str_remove c s = filter (\<lambda>d. d \<noteq> c) s"

text \<open>\<open>base, quote = symbol.split("/", maxsplit=1)\<close>\<close>

definition split_pair :: "string \<Rightarrow> exn + string \<times> string" where
  "split_pair s = (let base = takeWhile (\<lambda>c. c \<noteq> CHR ''/'') s; rest = drop (length base) s in
     case rest of [] \<Rightarrow> Inl (ValueError ''not enough values to unpack'') | _ # quote \<Rightarrow> Inr (base, quote))"

text \<open>The subset of the known instruments that a venue's list names, in the order of the list\<close>

definition listed ::
  "(string \<times> instrument) list \<Rightarrow> string \<Rightarrow> ((string \<times> pyval) list \<Rightarrow> bool) \<Rightarrow> pyval \<Rightarrow> exn + instrument list"
where
  "listed ins key ok row = bind_sum (as_dict row) (\<lambda>d. bind_sum (dict_item d key) (\<lambda>v.
     bind_sum (known ins v) (\<lambda>found. Inr (case found of Some i \<Rightarrow> if ok d then [i] else [] | None \<Rightarrow> []))))"

definition all_listed ::
  "(string \<times> instrument) list \<Rightarrow> string \<Rightarrow> ((string \<times> pyval) list \<Rightarrow> bool) \<Rightarrow> pyval \<Rightarrow> exn + instrument list"
where
  "all_listed ins key ok rows = bind_sum (iterate rows) (\<lambda>xs.
     bind_sum (traverse (listed ins key ok) xs) (\<lambda>found. Inr (concat found)))"

end
