(* ===== verification/Binance_Futures.thy ===== *)
theory Binance_Futures
  imports Venue_Values "HOL-Library.List_Lexorder"
begin

text \<open>
  src/src/quant_signal_agent/exchanges/binance/adapter.py: \<open>BinanceFuturesAdapter\<close>, which turns the
  answers and the messages of Binance's USD-M futures into normalized events and keeps the
  subscriptions of its stream in step with the instruments it is given.

  A subscription queue is the list of the requests the connection has not sent yet; an asynchronous
  generator is the function from one message to the events it yields.
\<close>

section \<open>State\<close>

record update =
  up_method :: string
  up_params :: "string list"
  up_id :: int

record binance =
  bn_poll_seconds :: int
  bn_candle_only :: bool
  bn_dynamic :: bool
  bn_intervals :: "string set"
  bn_instruments :: "(string \<times> instrument) list"
  bn_active :: "string set"
  bn_queues :: "(string \<times> update list) list"
  bn_request_id :: int
  bn_last_funding :: "(string \<times> int) list"
  bn_oi_failures :: int

definition all_intervals :: "string set" where
  "all_intervals = {''5m'', ''15m'', ''1h'', ''4h'', ''1d''}"

definition make_instrument :: "string \<Rightarrow> exn + instrument" where
  "make_instrument symbol = bind_sum (split_pair symbol) (\<lambda>(base, quote).
     Inr \<lparr>exchange = BINANCE, market_type = LINEAR_PERPETUAL, exchange_symbol = base @ quote,
       canonical_symbol = symbol, base_asset = base, quote_asset = quote, settlement_asset = ''USDT''\<rparr>)"

definition instruments_of :: "(string \<Rightarrow> exn + instrument) \<Rightarrow> string list \<Rightarrow> exn + (string \<times> instrument) list" where
  "instruments_of mk symbols = bind_sum (traverse mk symbols) (\<lambda>inss.
     Inr (fold (\<lambda>(s, i) d. AList.update (str_remove CHR ''/'' s) i d) (zip symbols inss) []))"

definition new_binance :: "string list \<Rightarrow> int \<Rightarrow> bool \<Rightarrow> bool \<Rightarrow> string list option \<Rightarrow> exn + binance" where
  "new_binance symbols poll candle_only dynamic chosen =
     (let intervals = (case chosen of None \<Rightarrow> all_intervals | Some [] \<Rightarrow> all_intervals | Some is \<Rightarrow> set is) in
      if \<not> (5 \<le> poll \<and> poll \<le> 15)
      then Inl (ValueError ''Funding/OI polling must be between 5 and 15 seconds'')
      else if \<not> intervals \<subseteq> all_intervals then Inl (ValueError ''Unsupported Binance stream intervals'')
      else if dynamic \<and> \<not> candle_only
      then Inl (ValueError ''Dynamic Binance candidate subscriptions require candle-only mode'')
      else bind_sum (instruments_of make_instrument symbols) (\<lambda>inss.
        Inr \<lparr>bn_poll_seconds = poll, bn_candle_only = candle_only, bn_dynamic = dynamic, bn_intervals = intervals,
          bn_instruments = inss, bn_active = fst ` set inss, bn_queues = [], bn_request_id = 10,
          bn_last_funding = [], bn_oi_failures = 0\<rparr>))"

definition instrument_for_symbol :: "string \<Rightarrow> (binance, instrument) eff" where
  "instrument_for_symbol symbol = (let key = str_remove CHR ''/'' symbol in
     bindE (getE (\<lambda>b. map_of (bn_instruments b) key)) (\<lambda>found. case found of
       Some i \<Rightarrow> ret i
     | None \<Rightarrow> (case make_instrument symbol of
         Inl e \<Rightarrow> raise e
       | Inr i \<Rightarrow> thenE (modifyE (\<lambda>b. b\<lparr>bn_instruments := AList.update key i (bn_instruments b)\<rparr>)) (ret i))))"

text \<open>\<open>self._instruments[symbol]\<close> for the symbols of a set, sorted\<close>

definition instruments_at :: "(string \<times> instrument) list \<Rightarrow> string set \<Rightarrow> exn + instrument list" where
  "instruments_at inss symbols = traverse (\<lambda>s. case map_of inss s of None \<Rightarrow> Inl (KeyError s) | Some i \<Rightarrow> Inr i)
     (sorted_list_of_set symbols)"

definition active_instruments :: "binance \<Rightarrow> exn + instrument list" where
  "active_instruments b = instruments_at (bn_instruments b) (bn_active b)"

section \<open>Requests\<close>

definition check_answer :: "string \<Rightarrow> (pyval \<Rightarrow> string) \<Rightarrow> pyval \<Rightarrow> pyval call_outcome" where
  "check_answer venue repr payload = (case payload of
       PDict d \<Rightarrow> (if \<not> dict_has d ''code'' then Returned payload
         else case int_of_value (dict_get d ''code'') of
           Inl (TypeError _) \<Rightarrow> Failed (response_error (''Invalid '' @ venue @ '' error code''))
         | Inl (ValueError _) \<Rightarrow> Failed (response_error (''Invalid '' @ venue @ '' error code''))
         | Inl e \<Rightarrow> Failed e
         | Inr code \<Rightarrow>
             if code = - 1003 then Transient None
             else if code < 0 then Failed (response_error (venue @ '' error '' @ str_of_int code @ '': '' @
               str_of_value repr (dict_get_or d ''msg'' (PStr []))))
             else Returned payload)
     | _ \<Rightarrow> Returned payload)"

definition get :: "venue_env \<Rightarrow> string \<Rightarrow> params \<Rightarrow> exn + pyval" where
  "get env = request env (check_answer ''Binance'' (hx_repr env))"

definition symbol_of :: "instrument \<Rightarrow> string \<times> pyval" where
  "symbol_of ins = (''symbol'', PStr (exchange_symbol ins))"

definition get_instruments :: "venue_env \<Rightarrow> binance \<Rightarrow> exn + instrument list" where
  "get_instruments env b =
     (if bn_dynamic b then active_instruments b
      else bind_sum (get env ''/fapi/v1/exchangeInfo'' []) (\<lambda>payload. bind_sum (item_of payload ''symbols'')
        (all_listed (bn_instruments b) ''symbol''
          (\<lambda>row. dict_get row ''contractType'' = PStr ''PERPETUAL'' \<and> dict_get row ''status'' = PStr ''TRADING''))))"

text \<open>\<open>Decimal(row[i]) if len(row) > i else None\<close>\<close>

definition opt_dec_at :: "pyval \<Rightarrow> nat \<Rightarrow> exn + decimal option" where
  "opt_dec_at row i = bind_sum (length_of row) (\<lambda>n.
     if i < n then bind_sum (dec_at row i) (\<lambda>x. Inr (Some x)) else Inr None)"

definition parse_rest_candle :: "instrument \<Rightarrow> string \<Rightarrow> datetime \<Rightarrow> pyval \<Rightarrow> exn + candle" where
  "parse_rest_candle ins iv received row =
     bind_sum (ms_at row 6) (\<lambda>closed_at. bind_sum (ms_at row 0) (\<lambda>opened_at.
     bind_sum (dec_at row 1) (\<lambda>o1. bind_sum (dec_at row 2) (\<lambda>h. bind_sum (dec_at row 3) (\<lambda>l.
     bind_sum (dec_at row 4) (\<lambda>c. bind_sum (dec_at row 5) (\<lambda>v. bind_sum (dec_at row 7) (\<lambda>q.
     bind_sum (opt_dec_at row 9) (\<lambda>tb. bind_sum (opt_dec_at row 10) (\<lambda>tq.
       check_candle \<lparr>cd_metadata = metadata ins closed_at received None, interval = iv, open_time = opened_at,
         close_time = closed_at, c_open = o1, high = h, low = l, close = c, base_volume = v, quote_volume = Some q,
         is_closed = closed_at \<le> received, taker_buy_base_volume = tb, taker_buy_quote_volume = tq\<rparr>))))))))))"

definition candles_of :: "venue_env \<Rightarrow> instrument \<Rightarrow> string \<Rightarrow> pyval \<Rightarrow> exn + candle list" where
  "candles_of env ins iv rows = bind_sum (iterate rows) (traverse (parse_rest_candle ins iv (hx_now env)))"

definition get_candles :: "venue_env \<Rightarrow> instrument \<Rightarrow> string \<Rightarrow> int \<Rightarrow> exn + candle list" where
  "get_candles env ins iv limit =
     (if iv \<notin> all_intervals then Inl (ValueError (''Unsupported Binance interval: '' @ iv))
      else if \<not> (1 \<le> limit \<and> limit \<le> 1500)
      then Inl (ValueError ''Binance candle limit must be between 1 and 1500'')
      else bind_sum (get env ''/fapi/v1/klines'' [symbol_of ins, (''interval'', PStr iv), (''limit'', PInt limit)])
        (candles_of env ins iv))"

definition snapshot_of ::
  "instrument \<Rightarrow> datetime \<Rightarrow> datetime \<Rightarrow> int \<Rightarrow> (string \<times> pyval) list \<Rightarrow> exn + order_book_snapshot"
where
  "snapshot_of ins t received d row =
     bind_sum (num row ''lastUpdateId'') (\<lambda>seq. bind_sum (levels (Some (nat d)) row ''bids'') (\<lambda>bs.
     bind_sum (levels (Some (nat d)) row ''asks'') (\<lambda>xs.
       Inr \<lparr>sn_metadata = metadata ins t received (Some seq), sn_bids = bs, sn_asks = xs, sn_depth = d\<rparr>)))"

definition get_order_book_snapshot :: "venue_env \<Rightarrow> instrument \<Rightarrow> int \<Rightarrow> exn + order_book_snapshot" where
  "get_order_book_snapshot env ins d =
     (if d \<noteq> 100 then Inl (ValueError ''Configured order book depth must be 100'')
      else bind_sum (get env ''/fapi/v1/depth'' [symbol_of ins, (''limit'', PInt d)]) (\<lambda>payload.
        bind_sum (as_mapping payload) (\<lambda>row.
        bind_sum (from_milliseconds (dict_get_or row ''E'' (dict_get_or row ''T'' (now_ms env)))) (\<lambda>t.
          snapshot_of ins t (hx_now env) d row))))"

definition day_ticker :: "venue_env \<Rightarrow> event_metadata \<Rightarrow> (string \<times> pyval) list \<Rightarrow> decimal \<Rightarrow>
    string \<Rightarrow> string \<Rightarrow> string \<Rightarrow> string \<Rightarrow> exn + ticker" where
  "day_ticker env md row last_value bid ask volume quote_v =
     bind_sum (opt_dec (hx_repr env) row bid) (\<lambda>b. bind_sum (opt_dec (hx_repr env) row ask) (\<lambda>a.
     bind_sum (opt_dec (hx_repr env) row volume) (\<lambda>v. bind_sum (opt_dec (hx_repr env) row quote_v) (\<lambda>q.
       Inr \<lparr>tk_metadata = md, last_price = Some last_value, mark_price = None, index_price = None,
         tk_mid_price = None, tk_best_bid = b, tk_best_ask = a, base_volume_24h = v, quote_volume_24h = q\<rparr>))))"

definition get_ticker :: "venue_env \<Rightarrow> instrument \<Rightarrow> exn + ticker" where
  "get_ticker env ins = bind_sum (get env ''/fapi/v1/ticker/24hr'' [symbol_of ins]) (\<lambda>payload.
     bind_sum (as_dict payload) (\<lambda>row. bind_sum (ms row ''closeTime'') (\<lambda>t. bind_sum (dec row ''lastPrice'') (\<lambda>p.
       day_ticker env (metadata ins t (hx_now env) None) row p ''bidPrice'' ''askPrice'' ''volume'' ''quoteVolume''))))"

definition rest_trade :: "venue_env \<Rightarrow> instrument \<Rightarrow> pyval \<Rightarrow> exn + trade" where
  "rest_trade env ins v = bind_sum (as_dict v) (\<lambda>row.
     bind_sum (ms row ''time'') (\<lambda>t. bind_sum (dict_item row ''id'') (\<lambda>i. bind_sum (dec row ''price'') (\<lambda>p.
     bind_sum (dec row ''qty'') (\<lambda>q. bind_sum (dict_item row ''isBuyerMaker'') (\<lambda>maker.
       Inr \<lparr>tr_metadata = metadata ins t (hx_now env) None, trade_id = str_of_value (hx_repr env) i, tr_price = p,
         tr_quantity = q, tr_side = (if truthy_value maker then SELL else BUY), quantity_unit = BASE_UNIT\<rparr>))))))"

definition get_recent_trades :: "venue_env \<Rightarrow> instrument \<Rightarrow> int \<Rightarrow> exn + trade list" where
  "get_recent_trades env ins limit =
     (if \<not> (1 \<le> limit \<and> limit \<le> 1000) then Inl (ValueError ''Binance trade limit must be between 1 and 1000'')
      else bind_sum (get env ''/fapi/v1/trades'' [symbol_of ins, (''limit'', PInt limit)]) (\<lambda>rows.
        bind_sum (iterate rows) (traverse (rest_trade env ins))))"

definition get_funding_rate :: "venue_env \<Rightarrow> instrument \<Rightarrow> exn + funding_rate" where
  "get_funding_rate env ins = bind_sum (get env ''/fapi/v1/premiumIndex'' [symbol_of ins]) (\<lambda>payload.
     bind_sum (as_dict payload) (\<lambda>row. bind_sum (ms row ''time'') (\<lambda>t. bind_sum (dec row ''lastFundingRate'') (\<lambda>r.
     bind_sum (ms row ''nextFundingTime'') (\<lambda>next_at.
       Inr \<lparr>fr_metadata = metadata ins t (hx_now env) None, rate = r, next_funding_at = Some next_at\<rparr>)))))"

definition parse_open_interest :: "venue_env \<Rightarrow> instrument \<Rightarrow> pyval \<Rightarrow> exn + open_interest" where
  "parse_open_interest env ins payload = bind_sum (as_dict payload) (\<lambda>row. bind_sum (dec row ''openInterest'') (\<lambda>v.
     bind_sum (ms row ''time'') (\<lambda>t.
       Inr \<lparr>oi_metadata = metadata ins t (hx_now env) None, contracts = v, base_quantity = Some v,
         quote_notional = None\<rparr>)))"

definition get_open_interest :: "venue_env \<Rightarrow> instrument \<Rightarrow> exn + open_interest" where
  "get_open_interest env ins =
     bind_sum (get env ''/fapi/v1/openInterest'' [symbol_of ins]) (parse_open_interest env ins)"

section \<open>Subscriptions\<close>

definition stream_symbol :: "instrument \<Rightarrow> string" where
  "stream_symbol ins = str_lower (exchange_symbol ins)"

definition public_subscriptions :: "binance \<Rightarrow> instrument list \<Rightarrow> string list" where
  "public_subscriptions b inss = (if bn_candle_only b then []
     else concat (map (\<lambda>i. [stream_symbol i @ ''@depth@100ms'', stream_symbol i @ ''@bookTicker'']) inss))"

definition critical_subscriptions :: "binance \<Rightarrow> instrument list \<Rightarrow> string list" where
  "critical_subscriptions b inss = concat (map (\<lambda>i. map (\<lambda>iv. stream_symbol i @ ''@kline_'' @ iv)
     (sorted_list_of_set (if bn_candle_only b then bn_intervals b else all_intervals))) inss)"

definition market_context_subscriptions :: "binance \<Rightarrow> instrument list \<Rightarrow> string list" where
  "market_context_subscriptions b inss = (if bn_candle_only b then []
     else concat (map (\<lambda>i. [stream_symbol i @ ''@ticker'', stream_symbol i @ ''@aggTrade'',
       stream_symbol i @ ''@markPrice@1s'']) inss))"

definition subscriptions :: "binance \<Rightarrow> instrument list \<Rightarrow> string list" where
  "subscriptions b inss = public_subscriptions b inss @ critical_subscriptions b inss @ market_context_subscriptions b inss"

text \<open>\<open>await queue.put({...})\<close> unless there is nothing to ask for\<close>

definition put_update :: "string \<Rightarrow> string \<Rightarrow> string list \<Rightarrow> binance \<Rightarrow> binance" where
  "put_update lane method params b = (if params = [] then b
     else let i = bn_request_id b + 1; q = (case map_of (bn_queues b) lane of None \<Rightarrow> [] | Some waiting \<Rightarrow> waiting) in
       b\<lparr>bn_request_id := i,
         bn_queues := AList.update lane (q @ [\<lparr>up_method = method, up_params = params, up_id = i\<rparr>]) (bn_queues b)\<rparr>)"

definition register_all :: "instrument list \<Rightarrow> (string \<times> instrument) list \<Rightarrow> (string \<times> instrument) list" where
  "register_all inss d = fold (\<lambda>i. AList.update (exchange_symbol i) i) inss d"

definition pick_instruments :: "(string \<times> instrument) list \<Rightarrow> string set \<Rightarrow> (binance, instrument list) eff" where
  "pick_instruments d symbols = from_sum (instruments_at d symbols)"

definition reconcile_instruments :: "instrument list \<Rightarrow> (binance, unit) eff" where
  "reconcile_instruments inss =
     bindE (getE bn_dynamic) (\<lambda>dynamic.
     thenE (guardE dynamic (RuntimeError ''Adapter does not support dynamic subscriptions''))
    (thenE (modifyE (\<lambda>b. b\<lparr>bn_instruments := register_all inss (bn_instruments b)\<rparr>))
    (bindE (getE (\<lambda>b. b)) (\<lambda>b. let target = exchange_symbol ` set inss; previous = bn_active b in
     bindE (from_sum (active_instruments b)) (\<lambda>previous_instruments.
     thenE (modifyE (\<lambda>b. b\<lparr>bn_active := target\<rparr>))
    (if map_of (bn_queues b) ''critical'' = None then ret ()
     else bindE (pick_instruments (bn_instruments b) (target - previous)) (\<lambda>added.
       bindE (pick_instruments (map (\<lambda>i. (exchange_symbol i, i)) (rev previous_instruments)) (previous - target)) (\<lambda>removed.
       modifyE (put_update ''critical'' ''UNSUBSCRIBE'' (critical_subscriptions b removed) \<circ>
         put_update ''critical'' ''SUBSCRIBE'' (critical_subscriptions b added))))))))))"

text \<open>
  \<open>_stream_endpoint\<close>: what it does before the connection opens, returning the first requests, the
  connection's taking of a pending request, and the end.
\<close>

definition open_endpoint :: "string \<Rightarrow> string list \<Rightarrow> (binance, update list) eff" where
  "open_endpoint lane wanted =
     bindE (getE bn_dynamic) (\<lambda>dynamic.
     bindE (if \<not> dynamic then ret wanted
            else thenE (modifyE (\<lambda>b. b\<lparr>bn_queues := AList.update lane [] (bn_queues b)\<rparr>))
              (bindE (getE (\<lambda>b. b)) (\<lambda>b. bindE (from_sum (active_instruments b)) (\<lambda>active.
                 ret (critical_subscriptions b active))))) (\<lambda>streams.
     ret (if streams = [] then [] else [\<lparr>up_method = ''SUBSCRIBE'', up_params = streams, up_id = 1\<rparr>])))"

definition take_update :: "string \<Rightarrow> (binance, update option) eff" where
  "take_update lane = bindE (getE (\<lambda>b. map_of (bn_queues b) lane)) (\<lambda>q. case q of
       Some (u # waiting) \<Rightarrow> thenE (modifyE (\<lambda>b. b\<lparr>bn_queues := AList.update lane waiting (bn_queues b)\<rparr>)) (ret (Some u))
     | _ \<Rightarrow> ret None)"

definition close_endpoint :: "string \<Rightarrow> (binance, unit) eff" where
  "close_endpoint lane = modifyE (\<lambda>b. if bn_dynamic b then b\<lparr>bn_queues := AList.delete lane (bn_queues b)\<rparr> else b)"

section \<open>Messages\<close>

definition quote_ticker :: "event_metadata \<Rightarrow> decimal option \<Rightarrow> decimal option \<Rightarrow> decimal option \<Rightarrow> decimal option \<Rightarrow> ticker" where
  "quote_ticker md mark index bid ask = \<lparr>tk_metadata = md, last_price = None, mark_price = mark, index_price = index,
     tk_mid_price = None, tk_best_bid = bid, tk_best_ask = ask, base_volume_24h = None, quote_volume_24h = None\<rparr>"

definition agg_trade :: "venue_env \<Rightarrow> instrument \<Rightarrow> datetime \<Rightarrow> (string \<times> pyval) list \<Rightarrow> exn + trade" where
  "agg_trade env ins t d = bind_sum (num d ''a'') (\<lambda>seq. bind_sum (dict_item d ''a'') (\<lambda>i.
     bind_sum (dec d ''p'') (\<lambda>p. bind_sum (dec d ''q'') (\<lambda>q. bind_sum (dict_item d ''m'') (\<lambda>maker.
       Inr \<lparr>tr_metadata = metadata ins t (hx_now env) (Some seq), trade_id = str_of_value (hx_repr env) i, tr_price = p,
         tr_quantity = q, tr_side = (if truthy_value maker then SELL else BUY), quantity_unit = BASE_UNIT\<rparr>)))))"

definition depth_delta :: "event_metadata \<Rightarrow> (string \<times> pyval) list \<Rightarrow> exn + order_book_delta" where
  "depth_delta md d = bind_sum (num d ''u'') (\<lambda>final. bind_sum (levels None d ''b'') (\<lambda>bs.
     bind_sum (levels None d ''a'') (\<lambda>xs. bind_sum (num d ''U'') (\<lambda>first. bind_sum (num d ''pu'') (\<lambda>prev.
       Inr \<lparr>dl_metadata = md\<lparr>md_sequence_id := Some final\<rparr>, dl_bids = bs, dl_asks = xs,
         first_sequence_id = Some first, previous_sequence_id = Some prev\<rparr>)))))"

definition kline :: "venue_env \<Rightarrow> event_metadata \<Rightarrow> (string \<times> pyval) list \<Rightarrow> exn + candle" where
  "kline env md d = bind_sum (bind_sum (dict_item d ''k'') as_dict) (\<lambda>row.
     bind_sum (bind_sum (dict_item row ''i'') text_of_value) (\<lambda>iv. bind_sum (ms row ''t'') (\<lambda>opened_at.
     bind_sum (ms row ''T'') (\<lambda>closed_at. bind_sum (dec row ''o'') (\<lambda>o1. bind_sum (dec row ''h'') (\<lambda>h.
     bind_sum (dec row ''l'') (\<lambda>l. bind_sum (dec row ''c'') (\<lambda>c. bind_sum (dec row ''v'') (\<lambda>v.
     bind_sum (dec row ''q'') (\<lambda>q. bind_sum (dict_item row ''x'') (\<lambda>closed.
     bind_sum (opt_dec (hx_repr env) row ''V'') (\<lambda>tb. bind_sum (opt_dec (hx_repr env) row ''Q'') (\<lambda>tq.
       check_candle \<lparr>cd_metadata = md, interval = iv, open_time = opened_at, close_time = closed_at, c_open = o1,
         high = h, low = l, close = c, base_volume = v, quote_volume = Some q, is_closed = truthy_value closed,
         taker_buy_base_volume = tb, taker_buy_quote_volume = tq\<rparr>)))))))))))))"

text \<open>A mark price, with the funding rate if the last one is old enough\<close>

definition funding_due :: "venue_env \<Rightarrow> string \<Rightarrow> datetime \<Rightarrow> binance \<Rightarrow> bool" where
  "funding_due env symbol t b \<longleftrightarrow> bn_poll_seconds b * 1000 \<le>
     hx_ms env t - (case map_of (bn_last_funding b) symbol of None \<Rightarrow> 0 | Some n \<Rightarrow> n)"

definition mark_price_update ::
  "venue_env \<Rightarrow> event_metadata \<Rightarrow> string \<Rightarrow> datetime \<Rightarrow> (string \<times> pyval) list \<Rightarrow> (binance, market_event list) eff"
where
  "mark_price_update env md symbol t d =
     bindE (from_sum (bind_sum (dec d ''p'') (\<lambda>mark. bind_sum (dec d ''i'') (\<lambda>index.
       Inr (quote_ticker md (Some mark) (Some index) None None))))) (\<lambda>tk.
     bindE (getE (funding_due env symbol t)) (\<lambda>due.
     if \<not> due then ret [TickerEvent tk]
     else bindE (from_sum (bind_sum (dec d ''r'') (\<lambda>r. bind_sum (ms d ''T'') (\<lambda>next_at.
         Inr \<lparr>fr_metadata = md, rate = r, next_funding_at = Some next_at\<rparr>)))) (\<lambda>fr.
       thenE (modifyE (\<lambda>b. b\<lparr>bn_last_funding := AList.update symbol (hx_ms env t) (bn_last_funding b)\<rparr>))
         (ret [TickerEvent tk, FundingEvent fr]))))"

definition one :: "('a \<Rightarrow> market_event) \<Rightarrow> exn + 'a \<Rightarrow> ('s, market_event list) eff" where
  "one wrap v = from_sum (bind_sum v (\<lambda>x. Inr [wrap x]))"

definition parse_event ::
  "venue_env \<Rightarrow> instrument \<Rightarrow> string \<Rightarrow> pyval \<Rightarrow> datetime \<Rightarrow> (string \<times> pyval) list \<Rightarrow> (binance, market_event list) eff"
where
  "parse_event env ins symbol kind t d = (let md = metadata ins t (hx_now env) None in
     if kind = PStr ''24hrTicker'' then one TickerEvent (bind_sum (dec d ''c'') (\<lambda>p. day_ticker env md d p ''b'' ''a'' ''v'' ''q''))
     else if kind = PStr ''aggTrade'' then one TradeEvent (agg_trade env ins t d)
     else if kind = PStr ''depthUpdate'' then one DeltaEvent (depth_delta md d)
     else if kind = PStr ''bookTicker'' then one TickerEvent (bind_sum (dec d ''b'') (\<lambda>bid. bind_sum (dec d ''a'') (\<lambda>ask.
       Inr (quote_ticker md None None (Some bid) (Some ask)))))
     else if kind = PStr ''markPriceUpdate'' then mark_price_update env md symbol t d
     else if kind = PStr ''kline'' then one CandleEvent (kline env md d)
     else ret [])"

text \<open>The message's body, and the instrument it is about\<close>

definition body_of :: "(string \<times> pyval) list \<Rightarrow> exn + (string \<times> pyval) list" where
  "body_of payload = as_mapping (dict_get_or payload ''data'' (PDict payload))"

definition subject_of :: "(string \<times> instrument) list \<Rightarrow> pyval \<Rightarrow> pyval \<Rightarrow> exn + (string \<times> instrument) option" where
  "subject_of inss kind symbol =
     (if \<not> truthy_value kind \<or> \<not> truthy_value symbol then Inr None
      else bind_sum (known (map (\<lambda>(s, i). (s, (s, i))) inss) symbol) Inr)"

definition parse_ws_message :: "venue_env \<Rightarrow> (string \<times> pyval) list \<Rightarrow> (binance, market_event list) eff" where
  "parse_ws_message env payload =
     bindE (from_sum (body_of payload)) (\<lambda>d.
     bindE (getE bn_instruments) (\<lambda>inss.
     bindE (from_sum (subject_of inss (dict_get d ''e'') (dict_get d ''s''))) (\<lambda>subject. case subject of
       None \<Rightarrow> ret []
     | Some (symbol, ins) \<Rightarrow>
         bindE (from_sum (from_milliseconds (dict_get_or d ''E'' (now_ms env)))) (\<lambda>t.
           parse_event env ins symbol (dict_get d ''e'') t d))))"

text \<open>What each stream lets through\<close>

definition critical_event :: "market_event \<Rightarrow> bool" where
  "critical_event e = (case e of CandleEvent c \<Rightarrow> is_closed c | _ \<Rightarrow> False)"

definition context_event :: "market_event \<Rightarrow> bool" where
  "context_event e = (case e of CandleEvent _ \<Rightarrow> False | _ \<Rightarrow> True)"

definition lane_message :: "(market_event \<Rightarrow> bool) \<Rightarrow> venue_env \<Rightarrow> (string \<times> pyval) list \<Rightarrow> (binance, market_event list) eff" where
  "lane_message keep env payload = bindE (parse_ws_message env payload) (\<lambda>es. ret (filter keep es))"

section \<open>Polling of the open interest\<close>

text \<open>\<open>_get_once\<close>, one attempt; a retryable error is an exception like any other here.\<close>

definition get_once :: "venue_env \<Rightarrow> string \<Rightarrow> params \<Rightarrow> exn + pyval" where
  "get_once env path ps = (case on_return (check_answer ''Binance'' (hx_repr env)) (hx_answer env path ps 1) of
       Returned x \<Rightarrow> Inr x
     | Failed e \<Rightarrow> Inl e
     | Transient _ \<Rightarrow> Inl (RuntimeError ''RetryableExchangeError''))"

fun poll_each :: "(instrument \<Rightarrow> exn + open_interest) \<Rightarrow> instrument list \<Rightarrow> exn + open_interest list \<times> exn list" where
  "poll_each poll [] = Inr ([], [])"
| "poll_each poll (i # inss) = (case poll i of
       Inr e \<Rightarrow> bind_sum (poll_each poll inss) (\<lambda>(es, fs). Inr (e # es, fs))
     | Inl x \<Rightarrow> if x = CancelledError then Inl x
         else bind_sum (poll_each poll inss) (\<lambda>(es, fs). Inr (es, x # fs)))"

definition poll_backoff :: "int \<Rightarrow> int \<Rightarrow> rat" where
  "poll_backoff poll_seconds attempt = min 300 (of_int poll_seconds * 2 ^ nat (min (attempt - 1) 5))"

text \<open>One round of \<open>_poll_open_interest\<close>: the events and the delay before the next one\<close>

definition poll_one :: "venue_env \<Rightarrow> instrument \<Rightarrow> exn + open_interest" where
  "poll_one env i = bind_sum (get_once env ''/fapi/v1/openInterest'' [symbol_of i]) (parse_open_interest env i)"

definition poll_round :: "venue_env \<Rightarrow> instrument list \<Rightarrow> (binance, market_event list \<times> rat) eff" where
  "poll_round env inss = bindE (from_sum (poll_each (poll_one env) inss)) (\<lambda>(es, fs).
     if fs \<noteq> [] then
       bindE (getE (\<lambda>b. (bn_poll_seconds b, bn_oi_failures b + 1))) (\<lambda>(poll, attempt).
       thenE (modifyE (\<lambda>b. b\<lparr>bn_oi_failures := attempt\<rparr>))
         (ret (map OpenInterestEvent es, poll_backoff poll attempt)))
     else bindE (getE bn_poll_seconds) (\<lambda>poll.
       thenE (modifyE (\<lambda>b. b\<lparr>bn_oi_failures := 0\<rparr>))
         (ret (map OpenInterestEvent es, of_int poll))))"

end
