(* ===== verification/Binance_Spot.thy ===== *)
theory Binance_Spot
  imports Binance_Futures
begin

text \<open>
  src/src/quant_signal_agent/exchanges/binance/spot.py: \<open>BinanceSpotAdapter\<close>, the counterpart of the futures
  adapter for spot pairs. What the two files spell out in the same words is taken from \<open>Binance_Futures\<close>.
\<close>

section \<open>State\<close>

record spot =
  st_candle_only :: bool
  st_dynamic :: bool
  st_intervals :: "string set"
  st_instruments :: "(string \<times> instrument) list"
  st_active :: "string set"
  st_updates :: "(string \<times> update list) list"
  st_request_id :: int

definition default_intervals :: "string set" where
  "default_intervals = {''5m'', ''15m'', ''1h'', ''4h'', ''1d''}"

definition spot_intervals :: "string set" where
  "spot_intervals = default_intervals \<union> {''2h'', ''1w''}"

definition make_spot_instrument :: "string \<Rightarrow> exn + instrument" where
  "make_spot_instrument symbol = bind_sum (split_pair symbol) (\<lambda>(base, quote).
     Inr \<lparr>exchange = BINANCE, market_type = SPOT, exchange_symbol = base @ quote,
       canonical_symbol = symbol, base_asset = base, quote_asset = quote, settlement_asset = quote\<rparr>)"

definition new_spot :: "string list \<Rightarrow> bool \<Rightarrow> bool \<Rightarrow> string list option \<Rightarrow> exn + spot" where
  "new_spot symbols candle_only dynamic chosen =
     (let intervals = (case chosen of None \<Rightarrow> default_intervals | Some [] \<Rightarrow> default_intervals | Some is \<Rightarrow> set is) in
      if \<not> intervals \<subseteq> spot_intervals then Inl (ValueError ''Unsupported Binance Spot stream intervals'')
      else bind_sum (instruments_of make_spot_instrument symbols) (\<lambda>inss.
        Inr \<lparr>st_candle_only = candle_only, st_dynamic = dynamic, st_intervals = intervals, st_instruments = inss,
          st_active = fst ` set inss, st_updates = [], st_request_id = 10\<rparr>))"

definition spot_for_symbol :: "string \<Rightarrow> (spot, instrument) eff" where
  "spot_for_symbol symbol = (let key = str_remove CHR ''/'' symbol in
     bindE (getE (\<lambda>b. map_of (st_instruments b) key)) (\<lambda>found. case found of
       Some i \<Rightarrow> ret i
     | None \<Rightarrow> (case make_spot_instrument symbol of
         Inl e \<Rightarrow> raise e
       | Inr i \<Rightarrow> thenE (modifyE (\<lambda>b. b\<lparr>st_instruments := AList.update key i (st_instruments b)\<rparr>)) (ret i))))"

definition active_spots :: "spot \<Rightarrow> exn + instrument list" where
  "active_spots b = instruments_at (st_instruments b) (st_active b)"

section \<open>Requests\<close>

definition spot_get :: "venue_env \<Rightarrow> string \<Rightarrow> params \<Rightarrow> exn + pyval" where
  "spot_get env = request env (check_answer ''Binance Spot'' (hx_repr env))"

definition get_spot_instruments :: "venue_env \<Rightarrow> spot \<Rightarrow> exn + instrument list" where
  "get_spot_instruments env b =
     (if st_dynamic b then active_spots b
      else bind_sum (spot_get env ''/api/v3/exchangeInfo'' []) (\<lambda>payload. bind_sum (item_of payload ''symbols'')
        (all_listed (st_instruments b) ''symbol'' (\<lambda>row. dict_get row ''status'' = PStr ''TRADING''))))"

definition char_upper :: "char \<Rightarrow> char" where
  "char_upper c = (if is_lower_ascii c then char_of ((of_char c :: nat) - 32) else c)"

definition tradable_base :: "(pyval \<Rightarrow> string) \<Rightarrow> pyval \<Rightarrow> string list" where
  "tradable_base repr row = (case row of
       PDict d \<Rightarrow> if dict_get d ''status'' = PStr ''TRADING'' \<and> dict_get d ''quoteAsset'' = PStr ''USDT'' \<and>
           truthy_value (dict_get_or d ''isSpotTradingAllowed'' (PBool True)) \<and> truthy_value (dict_get d ''baseAsset'')
         then [map char_upper (str_of_value repr (dict_get d ''baseAsset''))] else []
     | _ \<Rightarrow> [])"

definition get_tradable_usdt_bases :: "venue_env \<Rightarrow> exn + string set" where
  "get_tradable_usdt_bases env = bind_sum (spot_get env ''/api/v3/exchangeInfo'' []) (\<lambda>payload.
     case payload of
       PDict d \<Rightarrow> (case dict_get d ''symbols'' of
           PList rows \<Rightarrow> Inr (set (concat (map (tradable_base (hx_repr env)) rows)))
         | _ \<Rightarrow> Inl (response_error ''Binance Spot exchange info must contain symbols''))
     | _ \<Rightarrow> Inl (response_error ''Binance Spot exchange info must contain symbols''))"

definition get_spot_candles :: "venue_env \<Rightarrow> instrument \<Rightarrow> string \<Rightarrow> int \<Rightarrow> exn + candle list" where
  "get_spot_candles env ins iv limit =
     (if iv \<notin> spot_intervals then Inl (ValueError (''Unsupported Binance Spot interval: '' @ iv))
      else if \<not> (1 \<le> limit \<and> limit \<le> 1000)
      then Inl (ValueError ''Binance Spot candle limit must be between 1 and 1000'')
      else bind_sum (spot_get env ''/api/v3/klines'' [symbol_of ins, (''interval'', PStr iv), (''limit'', PInt limit)])
        (candles_of env ins iv))"

definition get_spot_snapshot :: "venue_env \<Rightarrow> instrument \<Rightarrow> int \<Rightarrow> exn + order_book_snapshot" where
  "get_spot_snapshot env ins d =
     (if d \<noteq> 100 then Inl (ValueError ''Configured order book depth must be 100'')
      else bind_sum (spot_get env ''/api/v3/depth'' [symbol_of ins, (''limit'', PInt d)]) (\<lambda>payload.
        bind_sum (as_dict payload) (snapshot_of ins (hx_now env) (hx_now env) d)))"

definition get_spot_ticker :: "venue_env \<Rightarrow> instrument \<Rightarrow> exn + ticker" where
  "get_spot_ticker env ins = bind_sum (spot_get env ''/api/v3/ticker/24hr'' [symbol_of ins]) (\<lambda>payload.
     bind_sum (as_mapping payload) (\<lambda>row.
     bind_sum (from_milliseconds (dict_get_or row ''closeTime'' (now_ms env))) (\<lambda>t. bind_sum (dec row ''lastPrice'') (\<lambda>p.
       day_ticker env (metadata ins t (hx_now env) None) row p ''bidPrice'' ''askPrice'' ''volume'' ''quoteVolume''))))"

definition get_spot_trades :: "venue_env \<Rightarrow> instrument \<Rightarrow> int \<Rightarrow> exn + trade list" where
  "get_spot_trades env ins limit =
     (if \<not> (1 \<le> limit \<and> limit \<le> 1000) then Inl (ValueError ''Binance Spot trade limit must be between 1 and 1000'')
      else bind_sum (spot_get env ''/api/v3/trades'' [symbol_of ins, (''limit'', PInt limit)]) (\<lambda>rows.
        bind_sum (iterate rows) (traverse (rest_trade env ins))))"

definition get_spot_funding :: "instrument \<Rightarrow> exn + funding_rate option" where
  "get_spot_funding ins = Inr None"

definition get_spot_open_interest :: "instrument \<Rightarrow> exn + open_interest option" where
  "get_spot_open_interest ins = Inr None"

section \<open>Subscriptions\<close>

definition spot_critical :: "spot \<Rightarrow> instrument list \<Rightarrow> string list" where
  "spot_critical b inss =
     concat (map (\<lambda>i. map (\<lambda>iv. stream_symbol i @ ''@kline_'' @ iv) (sorted_list_of_set (st_intervals b))) inss)"

definition spot_market :: "spot \<Rightarrow> instrument list \<Rightarrow> string list" where
  "spot_market b inss = (if st_candle_only b then []
     else concat (map (\<lambda>i. [stream_symbol i @ ''@ticker'', stream_symbol i @ ''@aggTrade'']) inss))"

definition spot_public :: "spot \<Rightarrow> instrument list \<Rightarrow> string list" where
  "spot_public b inss = (if st_candle_only b then []
     else concat (map (\<lambda>i. [stream_symbol i @ ''@depth@100ms'', stream_symbol i @ ''@bookTicker'']) inss))"

definition spot_subscriptions :: "spot \<Rightarrow> instrument list \<Rightarrow> string list" where
  "spot_subscriptions b inss = spot_critical b inss @ spot_market b inss @ spot_public b inss"

definition stream_groups :: "(string \<times> (spot \<Rightarrow> instrument list \<Rightarrow> string list)) list" where
  "stream_groups = [(''critical'', spot_critical), (''market'', spot_market), (''public'', spot_public)]"

definition put_spot_update :: "string \<Rightarrow> string \<Rightarrow> string list \<Rightarrow> spot \<Rightarrow> spot" where
  "put_spot_update lane method params b = (if params = [] then b
     else let i = st_request_id b + 1; q = (case map_of (st_updates b) lane of None \<Rightarrow> [] | Some waiting \<Rightarrow> waiting) in
       b\<lparr>st_request_id := i,
         st_updates := AList.update lane (q @ [\<lparr>up_method = method, up_params = params, up_id = i\<rparr>]) (st_updates b)\<rparr>)"

definition update_group ::
  "instrument list \<Rightarrow> instrument list \<Rightarrow> string \<times> (spot \<Rightarrow> instrument list \<Rightarrow> string list) \<Rightarrow> spot \<Rightarrow> spot"
where
  "update_group added removed = (\<lambda>(lane, streams) b. if map_of (st_updates b) lane = None then b
     else put_spot_update lane ''UNSUBSCRIBE'' (streams b removed) (put_spot_update lane ''SUBSCRIBE'' (streams b added) b))"

definition reconcile_spots :: "instrument list \<Rightarrow> (spot, unit) eff" where
  "reconcile_spots inss =
     bindE (getE st_dynamic) (\<lambda>dynamic.
     thenE (guardE dynamic (RuntimeError ''Adapter does not support dynamic subscriptions''))
    (thenE (modifyE (\<lambda>b. b\<lparr>st_instruments := register_all inss (st_instruments b)\<rparr>))
    (bindE (getE (\<lambda>b. b)) (\<lambda>b. let target = exchange_symbol ` set inss; previous = st_active b in
     bindE (from_sum (instruments_at (st_instruments b) (target - previous))) (\<lambda>added.
     bindE (from_sum (instruments_at (st_instruments b) (previous - target))) (\<lambda>removed.
     modifyE (\<lambda>b. fold (update_group added removed) stream_groups (b\<lparr>st_active := target\<rparr>))))))))"

text \<open>The three streams before their connection opens, with the streams they ask for first\<close>

definition open_spot_stream ::
  "string \<Rightarrow> (spot \<Rightarrow> instrument list \<Rightarrow> string list) \<Rightarrow> instrument list \<Rightarrow> (spot, update list) eff"
where
  "open_spot_stream lane streams inss =
     bindE (getE (\<lambda>b. b)) (\<lambda>b.
     bindE (if st_dynamic b then from_sum (active_spots b) else ret inss) (\<lambda>inss.
     thenE (modifyE (\<lambda>b. if st_dynamic b then b\<lparr>st_updates := AList.update lane [] (st_updates b)\<rparr> else b))
       (ret (if streams b inss = [] then []
         else [\<lparr>up_method = ''SUBSCRIBE'', up_params = streams b inss, up_id = 1\<rparr>]))))"

definition take_spot_update :: "string \<Rightarrow> (spot, update option) eff" where
  "take_spot_update lane = bindE (getE (\<lambda>b. map_of (st_updates b) lane)) (\<lambda>q. case q of
       Some (u # waiting) \<Rightarrow> thenE (modifyE (\<lambda>b. b\<lparr>st_updates := AList.update lane waiting (st_updates b)\<rparr>)) (ret (Some u))
     | _ \<Rightarrow> ret None)"

definition close_spot_stream :: "string \<Rightarrow> (spot, unit) eff" where
  "close_spot_stream lane =
     modifyE (\<lambda>b. if st_dynamic b then b\<lparr>st_updates := AList.delete lane (st_updates b)\<rparr> else b)"

section \<open>Messages\<close>

definition ticker_keys :: "string list" where
  "ticker_keys = [''u'', ''s'', ''b'', ''B'', ''a'', ''A'']"

definition spot_kind :: "(string \<times> pyval) list \<Rightarrow> pyval" where
  "spot_kind d = (if dict_get d ''e'' = PNone \<and> list_all (dict_has d) ticker_keys then PStr ''bookTicker'' else dict_get d ''e'')"

definition spot_depth_update :: "event_metadata \<Rightarrow> (string \<times> pyval) list \<Rightarrow> exn + order_book_delta" where
  "spot_depth_update md d = bind_sum (num d ''u'') (\<lambda>final. bind_sum (levels None d ''b'') (\<lambda>bs.
     bind_sum (levels None d ''a'') (\<lambda>xs. bind_sum (num d ''U'') (\<lambda>first.
       Inr \<lparr>dl_metadata = md\<lparr>md_sequence_id := Some final\<rparr>, dl_bids = bs, dl_asks = xs,
         first_sequence_id = Some first, previous_sequence_id = None\<rparr>))))"

definition spot_event :: "venue_env \<Rightarrow> instrument \<Rightarrow> pyval \<Rightarrow> datetime \<Rightarrow> (string \<times> pyval) list \<Rightarrow> exn + market_event list" where
  "spot_event env ins kind t d = (let md = metadata ins t (hx_now env) None in
     if kind = PStr ''24hrTicker'' then bind_sum (dec d ''c'') (\<lambda>p.
       bind_sum (day_ticker env md d p ''b'' ''a'' ''v'' ''q'') (\<lambda>x. Inr [TickerEvent x]))
     else if kind = PStr ''aggTrade'' then bind_sum (agg_trade env ins t d) (\<lambda>x. Inr [TradeEvent x])
     else if kind = PStr ''depthUpdate'' then bind_sum (spot_depth_update md d) (\<lambda>x. Inr [DeltaEvent x])
     else if kind = PStr ''bookTicker'' then bind_sum (dec d ''b'') (\<lambda>bid. bind_sum (dec d ''a'') (\<lambda>ask.
       Inr [TickerEvent (quote_ticker md None None (Some bid) (Some ask))]))
     else if kind = PStr ''kline'' then bind_sum (kline env md d) (\<lambda>x. Inr [CandleEvent x])
     else Inr [])"

definition parse_spot_message :: "venue_env \<Rightarrow> spot \<Rightarrow> (string \<times> pyval) list \<Rightarrow> exn + market_event list" where
  "parse_spot_message env b payload =
     bind_sum (body_of payload) (\<lambda>d.
     bind_sum (subject_of (st_instruments b) (spot_kind d) (dict_get d ''s'')) (\<lambda>subject. case subject of
       None \<Rightarrow> Inr []
     | Some (symbol, ins) \<Rightarrow>
         bind_sum (from_milliseconds (dict_get_or d ''E'' (now_ms env))) (\<lambda>t.
           spot_event env ins (spot_kind d) t d)))"

end
