(* ===== verification/Binance_Subscriptions.thy ===== *)
theory Binance_Subscriptions
  imports Binance_Spot
begin

text \<open>
  The subscriptions of the Binance adapters over time. \<open>requested\<close> is what a request asks for; the streams
  a connection has asked for so far, together with the requests that still wait in its queue, are those of
  the active instruments. The two adapters share the lemmas on the net effect of a reconciliation.
\<close>

section \<open>Symbols and streams\<close>

definition venue_symbol :: "string \<Rightarrow> bool" where
  "venue_symbol s \<longleftrightarrow> list_all (\<lambda>c. is_upper_ascii c \<or> is_digit_ascii c) s"

definition pair_symbol :: "string \<Rightarrow> bool" where
  "pair_symbol s \<longleftrightarrow> venue_symbol (str_remove CHR ''/'' s) \<and> length (filter (\<lambda>c. c = CHR ''/'') s) = 1"

definition named_well :: "(string \<times> instrument) list \<Rightarrow> bool" where
  "named_well d \<longleftrightarrow> (\<forall>(k, i) \<in> set d. exchange_symbol i = k \<and> venue_symbol k)"

definition before_at :: "string \<Rightarrow> string" where
  "before_at stream = takeWhile (\<lambda>c. c \<noteq> CHR ''@'') stream"

lemma char_lower_cases:
  assumes "is_upper_ascii c \<or> is_digit_ascii c"
  shows "(of_char (char_lower c) :: nat) = (if is_upper_ascii c then of_char c + 32 else of_char c)"
proof -
  have "(of_char c :: nat) < 256" by simp
  with assms show ?thesis
    by (auto simp: char_lower_def is_upper_ascii_def is_digit_ascii_def Let_def)
qed

lemma char_lower_inj:
  assumes "is_upper_ascii c \<or> is_digit_ascii c" and "is_upper_ascii d \<or> is_digit_ascii d"
    and "char_lower c = char_lower d"
  shows "c = d"
proof -
  have "(of_char (char_lower c) :: nat) = of_char (char_lower d)" using assms(3) by simp
  then have "(of_char c :: nat) = of_char d"
    using assms(1,2) char_lower_cases [OF assms(1)] char_lower_cases [OF assms(2)]
    by (auto simp: is_upper_ascii_def is_digit_ascii_def Let_def split: if_splits)
  then show ?thesis by (simp add: of_char_eq_iff)
qed

lemma str_lower_inj: "venue_symbol s \<Longrightarrow> venue_symbol t \<Longrightarrow> str_lower s = str_lower t \<Longrightarrow> s = t"
proof (induction s arbitrary: t)
  case (Cons c s)
  then obtain d t' where t: "t = d # t'" by (cases t) (auto simp: str_lower_def)
  have cd: "char_lower c = char_lower d" "str_lower s = str_lower t'"
    using Cons.prems(3) t by (simp_all add: str_lower_def)
  have ok: "venue_symbol s" "venue_symbol t'" "is_upper_ascii c \<or> is_digit_ascii c" "is_upper_ascii d \<or> is_digit_ascii d"
    using Cons.prems(1,2) t by (simp_all add: venue_symbol_def)
  show ?case using char_lower_inj [OF ok(3,4) cd(1)] Cons.IH [OF ok(1,2) cd(2)] t by simp
qed (simp add: str_lower_def)

lemma char_lower_not_at:
  assumes "is_upper_ascii c \<or> is_digit_ascii c" shows "char_lower c \<noteq> CHR ''@''"
proof
  assume "char_lower c = CHR ''@''"
  then have "(of_char (char_lower c) :: nat) = 64" by simp
  with char_lower_cases [OF assms] assms show False
    by (auto simp: is_upper_ascii_def is_digit_ascii_def Let_def split: if_splits)
qed

lemma before_at_stream: "venue_symbol s \<Longrightarrow> before_at (str_lower s @ CHR ''@'' # rest) = str_lower s"
  by (induction s) (auto simp: before_at_def str_lower_def venue_symbol_def char_lower_not_at)

section \<open>Requests and their net effect\<close>

definition requested :: "update \<Rightarrow> string set \<Rightarrow> string set" where
  "requested u S = (if up_method u = ''SUBSCRIBE'' then S \<union> set (up_params u) else S - set (up_params u))"

text \<open>The streams of a set of symbols; every stream of a symbol begins with it, in lower case.\<close>

definition spread :: "(string \<Rightarrow> string set) \<Rightarrow> string set \<Rightarrow> string set" where
  "spread F A = (\<Union>s \<in> A. F s)"

definition prefixed :: "(string \<Rightarrow> string set) \<Rightarrow> bool" where
  "prefixed F \<longleftrightarrow> (\<forall>s. venue_symbol s \<longrightarrow> (\<forall>x \<in> F s. before_at x = str_lower s))"

lemma spread_disjoint:
  assumes "prefixed F" and "\<forall>s \<in> A \<union> B. venue_symbol s" and "A \<inter> B = {}"
  shows "spread F A \<inter> spread F B = {}"
proof -
  have same: "s = t" if st: "s \<in> A" "t \<in> B" and x: "x \<in> F s" "x \<in> F t" for s t x
  proof -
    have ok: "venue_symbol s" "venue_symbol t" using st assms(2) by simp_all
    have "before_at x = str_lower s" using assms(1) ok(1) x(1) unfolding prefixed_def by blast
    moreover have "before_at x = str_lower t" using assms(1) ok(2) x(2) unfolding prefixed_def by blast
    ultimately show ?thesis using str_lower_inj [OF ok] by simp
  qed
  show ?thesis
  proof (rule equals0I)
    fix x
    assume "x \<in> spread F A \<inter> spread F B"
    then obtain s t where "s \<in> A" "t \<in> B" "x \<in> F s" "x \<in> F t" unfolding spread_def by blast
    with same assms(3) show False by blast
  qed
qed

lemma net_reconciliation:
  assumes "prefixed F" and "\<forall>s \<in> A \<union> B. venue_symbol s"
  shows "(spread F A \<union> spread F (B - A)) - spread F (A - B) = spread F B"
proof -
  have apart: "spread F (A - B) \<inter> spread F B = {}"
    by (rule spread_disjoint [OF assms(1)]) (use assms(2) in auto)
  have "spread F A \<union> spread F (B - A) = spread F (A \<union> (B - A))"
    unfolding spread_def by (rule UN_Un [symmetric])
  also have "A \<union> (B - A) = B \<union> (A - B)" by auto
  also have "spread F (B \<union> (A - B)) = spread F B \<union> spread F (A - B)"
    unfolding spread_def by (rule UN_Un)
  finally show ?thesis using apart by (simp add: Un_Diff Diff_triv Int_commute)
qed

text \<open>The requests that a reconciliation appends to a queue\<close>

definition asks :: "string \<Rightarrow> string list \<Rightarrow> int \<Rightarrow> update list" where
  "asks method streams i = (if streams = [] then [] else [\<lparr>up_method = method, up_params = streams, up_id = i\<rparr>])"

lemma fold_asks:
  "fold requested (asks ''SUBSCRIBE'' xs i @ asks ''UNSUBSCRIBE'' ys j) S = (S \<union> set xs) - set ys"
  by (auto simp: asks_def requested_def)

section \<open>Registered instruments\<close>

lemma in_update: "x \<in> set (AList.update k v d) \<Longrightarrow> x = (k, v) \<or> x \<in> set d"
  by (induction d) (auto split: if_splits)

lemma keys_update: "fst ` set (AList.update k v d) = insert k (fst ` set d)"
  by (simp add: dom_map_of_conv_image_fst [symmetric] update_conv')

lemma named_well_update:
  "named_well d \<Longrightarrow> exchange_symbol i = k \<Longrightarrow> venue_symbol k \<Longrightarrow> named_well (AList.update k i d)"
  by (auto simp: named_well_def dest!: in_update)

lemma named_well_register:
  assumes "named_well d" and "\<forall>i \<in> set inss. venue_symbol (exchange_symbol i)"
  shows "named_well (register_all inss d) \<and> fst ` set (register_all inss d) = fst ` set d \<union> exchange_symbol ` set inss"
  using assms
proof (induction inss arbitrary: d)
  case (Cons i inss)
  then show ?case
    using Cons.IH [of "AList.update (exchange_symbol i) i d"] by (simp add: register_all_def named_well_update keys_update)
qed (simp add: register_all_def)

lemma named_well_get: "named_well d \<Longrightarrow> map_of d s = Some i \<Longrightarrow> exchange_symbol i = s \<and> venue_symbol s"
  by (auto simp: named_well_def dest!: map_of_SomeD)

lemma named_symbols: "named_well d \<Longrightarrow> s \<in> fst ` set d \<Longrightarrow> venue_symbol s"
  by (auto simp: named_well_def)

lemma instruments_at_named:
  assumes "named_well d" and "A \<subseteq> fst ` set d"
  shows "\<exists>inss. instruments_at d A = Inr inss \<and> exchange_symbol ` set inss = A"
proof -
  have fin: "finite A" using assms(2) finite_subset by blast
  have "\<exists>inss. traverse (\<lambda>s. case map_of d s of None \<Rightarrow> Inl (KeyError s) | Some i \<Rightarrow> Inr i) xs = Inr inss \<and>
      exchange_symbol ` set inss = set xs" if "set xs \<subseteq> fst ` set d" for xs
    using that
  proof (induction xs)
    case (Cons s xs)
    then obtain inss where inss: "traverse (\<lambda>s. case map_of d s of None \<Rightarrow> Inl (KeyError s) | Some i \<Rightarrow> Inr i) xs = Inr inss"
      "exchange_symbol ` set inss = set xs" by auto
    from Cons.prems obtain i where "map_of d s = Some i"
      by (metis list.set_intros(1) map_of_eq_None_iff option.exhaust subsetD)
    with inss named_well_get [OF assms(1)] show ?case by auto
  qed simp
  from this [of "sorted_list_of_set A"] assms(2) fin show ?thesis by (simp add: instruments_at_def)
qed

text \<open>
  A configuration of an adapter that matters here: its registered instruments, the active symbols, and a queue
  whose requests, after what the connection has asked for, ask for the streams \<open>F\<close> of the active symbols.
\<close>

definition in_step ::
  "(string \<Rightarrow> string set) \<Rightarrow> (string \<times> instrument) list \<Rightarrow> string set \<Rightarrow> update list option \<Rightarrow> string set \<Rightarrow> bool"
where
  "in_step F d A q S \<longleftrightarrow> named_well d \<and> A \<subseteq> fst ` set d \<and>
     (\<forall>waiting. q = Some waiting \<longrightarrow> fold requested waiting S = spread F A)"

lemma in_step_target:
  assumes "in_step F d A q S" and "prefixed F" and "\<forall>i \<in> set inss. venue_symbol (exchange_symbol i)"
    and "T = exchange_symbol ` set inss" and "set xs = spread F (T - A)" and "set ys = spread F (A - T)"
    and "q' = map_option (\<lambda>waiting. waiting @ asks ''SUBSCRIBE'' xs i @ asks ''UNSUBSCRIBE'' ys j) q"
  shows "in_step F (register_all inss d) T q' S"
proof -
  note reg = named_well_register [OF _ assms(3), of d]
  have d: "named_well d" "A \<subseteq> fst ` set d" using assms(1) by (simp_all add: in_step_def)
  have "\<forall>s \<in> A \<union> T. venue_symbol s" using named_symbols d assms(3,4) by blast
  from net_reconciliation [OF assms(2) this]
  have "fold requested (asks ''SUBSCRIBE'' xs i @ asks ''UNSUBSCRIBE'' ys j) (spread F A) = spread F T"
    by (simp add: fold_asks assms(5,6) del: fold_append)
  then show ?thesis using reg d assms(1,4,7) by (auto simp: in_step_def)
qed

lemma in_step_register:
  assumes "in_step F d A q S" and "exchange_symbol i = k" and "venue_symbol k"
  shows "in_step F (AList.update k i d) A q S"
  using assms named_well_update by (auto simp: in_step_def keys_update)

lemma in_step_take: "in_step F d A (Some (u # waiting)) S \<Longrightarrow> in_step F d A (Some waiting) (requested u S)"
  by (simp add: in_step_def)

lemma in_step_open: "named_well d \<Longrightarrow> A \<subseteq> fst ` set d \<Longrightarrow> set xs = spread F A \<Longrightarrow>
    in_step F d A (Some []) (fold requested (asks ''SUBSCRIBE'' xs i) {})"
  by (auto simp: in_step_def asks_def requested_def)

lemma in_step_closed: "in_step F d A q S \<Longrightarrow> in_step F d A None T"
  by (simp add: in_step_def)

section \<open>Streams of a symbol\<close>

definition kline_streams :: "string set \<Rightarrow> string \<Rightarrow> string set" where
  "kline_streams intervals s = (\<lambda>iv. str_lower s @ ''@kline_'' @ iv) ` intervals"

definition suffixed :: "string list \<Rightarrow> string \<Rightarrow> string set" where
  "suffixed xs s = (\<lambda>x. str_lower s @ CHR ''@'' # x) ` set xs"

lemma prefixed_kline: "prefixed (kline_streams intervals)"
  by (auto simp: prefixed_def kline_streams_def before_at_stream)

lemma prefixed_suffixed: "prefixed (suffixed xs)"
  by (auto simp: prefixed_def suffixed_def before_at_stream)

lemma spread_image: "(\<Union>i \<in> set inss. F (exchange_symbol i)) = spread F (exchange_symbol ` set inss)"
  by (auto simp: spread_def)

end
