(* ===== verification/Binance_Invariant.thy ===== *)
theory Binance_Invariant
  imports Binance_Subscriptions
begin

text \<open>
  The histories of the two Binance adapters with dynamic subscriptions: what a supervisor calls, what the
  connection takes from the queue and sends, and the opening and the end of a connection, in any order. The
  second component of a configuration is what the open connection has asked for so far.
\<close>

section \<open>Futures\<close>

inductive futures_run :: "binance \<Rightarrow> string set \<Rightarrow> bool" where
  created: "new_binance symbols poll candle_only True chosen = Inr b \<Longrightarrow> \<forall>s \<in> set symbols. pair_symbol s \<Longrightarrow>
     futures_run b {}"
| named: "futures_run b S \<Longrightarrow> pair_symbol s \<Longrightarrow> futures_run (snd (instrument_for_symbol s b)) S"
| reconciled: "futures_run b S \<Longrightarrow> \<forall>i \<in> set inss. venue_symbol (exchange_symbol i) \<Longrightarrow>
     futures_run (snd (reconcile_instruments inss b)) S"
| opened: "futures_run b S \<Longrightarrow> open_endpoint ''critical'' wanted b = (Inr first, b') \<Longrightarrow>
     futures_run b' (fold requested first {})"
| sent: "futures_run b S \<Longrightarrow> take_update ''critical'' b = (Inr (Some u), b') \<Longrightarrow> futures_run b' (requested u S)"
| closed: "futures_run b S \<Longrightarrow> futures_run (snd (close_endpoint ''critical'' b)) {}"
| received: "futures_run b S \<Longrightarrow> futures_run (snd (parse_ws_message env payload b)) S"

definition futures_good :: "binance \<Rightarrow> string set \<Rightarrow> bool" where
  "futures_good b S \<longleftrightarrow> bn_dynamic b \<and> bn_candle_only b \<and> bn_intervals b \<subseteq> all_intervals \<and>
     in_step (kline_streams (bn_intervals b)) (bn_instruments b) (bn_active b) (map_of (bn_queues b) ''critical'') S"

lemma make_instrument_pair:
  assumes "make_instrument s = Inr i" and "pair_symbol s"
  shows "exchange_symbol i = str_remove CHR ''/'' s \<and> venue_symbol (exchange_symbol i)"
proof -
  define base where "base = takeWhile (\<lambda>c. c \<noteq> CHR ''/'') s"
  from assms(1) obtain c quote where rest: "drop (length base) s = c # quote" and i: "exchange_symbol i = base @ quote"
    by (auto simp: make_instrument_def split_pair_def Let_def base_def split: list.splits)
  have "c # quote = dropWhile (\<lambda>c. c \<noteq> CHR ''/'') s"
    using rest by (metis append_eq_conv_conj base_def takeWhile_dropWhile_id)
  then have c: "c = CHR ''/''" by (metis (full_types) dropWhile_eq_Cons_conv)
  have s: "s = base @ CHR ''/'' # quote" using rest c by (metis append_take_drop_id base_def takeWhile_eq_take)
  have "\<forall>d \<in> set base. d \<noteq> CHR ''/''" by (auto simp: base_def dest: set_takeWhileD)
  moreover have "\<forall>d \<in> set quote. d \<noteq> CHR ''/''"
    using assms(2) by (auto simp: pair_symbol_def s filter_empty_conv)
  ultimately have "str_remove CHR ''/'' s = base @ quote" by (simp add: s str_remove_def filter_id_conv)
  with i assms(2) show ?thesis by (simp add: pair_symbol_def)
qed

lemma instruments_of_named:
  assumes "instruments_of make_one symbols = Inr d"
    and "\<And>s i. make_one s = Inr i \<Longrightarrow> pair_symbol s \<Longrightarrow> exchange_symbol i = str_remove CHR ''/'' s \<and> venue_symbol (exchange_symbol i)"
    and "\<forall>s \<in> set symbols. pair_symbol s"
  shows "named_well d"
proof -
  from assms(1) obtain inss where inss: "list_all2 (\<lambda>s i. make_one s = Inr i) symbols inss"
    and d: "d = fold (\<lambda>(s, i) d. AList.update (str_remove CHR ''/'' s) i d) (zip symbols inss) []"
    by (auto simp: instruments_of_def bind_sum_Inr traverse_Inr)
  have "named_well (fold (\<lambda>(s, i) d. AList.update (str_remove CHR ''/'' s) i d) ps e)"
    if "named_well e" and "\<forall>(s, i) \<in> set ps. exchange_symbol i = str_remove CHR ''/'' s \<and> venue_symbol (exchange_symbol i)" for ps e
    using that
  proof (induction ps arbitrary: e)
    case (Cons p ps)
    obtain s i where p: "p = (s, i)" by force
    have "named_well (AList.update (str_remove CHR ''/'' s) i e)"
      by (rule named_well_update) (use Cons.prems p in auto)
    with Cons p show ?case by simp
  qed simp
  moreover have "\<forall>(s, i) \<in> set (zip symbols inss). exchange_symbol i = str_remove CHR ''/'' s \<and> venue_symbol (exchange_symbol i)"
    using inss assms(2,3) by (fastforce simp: list_all2_iff dest: set_zip_leftD)
  moreover have "named_well []" by (simp add: named_well_def)
  ultimately show ?thesis unfolding d by blast
qed

lemma critical_streams:
  assumes "bn_candle_only b" and "bn_intervals b \<subseteq> all_intervals"
  shows "set (critical_subscriptions b inss) = spread (kline_streams (bn_intervals b)) (exchange_symbol ` set inss)"
proof -
  have "finite (bn_intervals b)" using assms(2) finite_subset by (fastforce simp: all_intervals_def)
  then show ?thesis
    by (simp add: assms(1) critical_subscriptions_def stream_symbol_def kline_streams_def spread_def image_image)
qed

lemma futures_created:
  assumes "new_binance symbols poll candle_only True chosen = Inr b" and "\<forall>s \<in> set symbols. pair_symbol s"
  shows "futures_good b {}"
proof -
  from assms(1) obtain d where d: "instruments_of make_instrument symbols = Inr d"
    and b: "bn_instruments b = d" "bn_active b = fst ` set d" "bn_queues b = []"
    and flags: "bn_dynamic b" "bn_candle_only b" "bn_intervals b \<subseteq> all_intervals"
    by (auto simp: new_binance_def Let_def bind_sum_Inr split: if_splits)
  show ?thesis
    using instruments_of_named [OF d make_instrument_pair assms(2)] b flags by (simp add: futures_good_def in_step_def)
qed

lemma futures_named:
  assumes "futures_good b S" and "pair_symbol s"
  shows "futures_good (snd (instrument_for_symbol s b)) S"
  using assms make_instrument_pair [OF _ assms(2)]
  by (auto simp: instrument_for_symbol_def eff_defs futures_good_def Let_def in_step_register split: option.splits sum.splits)

lemma put_update_asks:
  "map_of (bn_queues (put_update lane m xs b)) lane' =
     (if lane = lane' \<and> xs \<noteq> [] then Some ((case map_of (bn_queues b) lane of None \<Rightarrow> [] | Some q \<Rightarrow> q) @ asks m xs (bn_request_id b + 1))
      else map_of (bn_queues b) lane')"
  "bn_instruments (put_update lane m xs b) = bn_instruments b" "bn_active (put_update lane m xs b) = bn_active b"
  "bn_dynamic (put_update lane m xs b) = bn_dynamic b" "bn_candle_only (put_update lane m xs b) = bn_candle_only b"
  "bn_intervals (put_update lane m xs b) = bn_intervals b"
  by (simp_all add: put_update_def Let_def asks_def update_conv')

lemma previous_by_symbol:
  assumes "exchange_symbol ` set inss = A" and "\<forall>s \<in> A. venue_symbol s" and "B \<subseteq> A"
  shows "\<exists>zs. instruments_at (map (\<lambda>i. (exchange_symbol i, i)) (rev inss)) B = Inr zs \<and> exchange_symbol ` set zs = B"
  by (rule instruments_at_named) (use assms in \<open>auto simp: named_well_def image_image\<close>)

lemma futures_reconciled:
  assumes good: "futures_good b S" and names: "\<forall>i \<in> set inss. venue_symbol (exchange_symbol i)"
  shows "futures_good (snd (reconcile_instruments inss b)) S"
proof -
  let ?T = "exchange_symbol ` set inss" let ?A = "bn_active b" let ?F = "kline_streams (bn_intervals b)"
  define d where "d = register_all inss (bn_instruments b)"
  define b1 where "b1 = b\<lparr>bn_instruments := d\<rparr>"
  define b2 where "b2 = b1\<lparr>bn_active := ?T\<rparr>"
  have flags: "bn_dynamic b" "bn_candle_only b" "bn_intervals b \<subseteq> all_intervals"
    and step: "in_step ?F (bn_instruments b) ?A (map_of (bn_queues b) ''critical'') S"
    using good by (simp_all add: futures_good_def)
  then have base: "named_well (bn_instruments b)" "?A \<subseteq> fst ` set (bn_instruments b)" by (simp_all add: in_step_def)
  have d: "named_well d" "fst ` set d = fst ` set (bn_instruments b) \<union> ?T"
    using named_well_register [OF base(1) names] by (simp_all add: d_def)
  from instruments_at_named [OF d(1), of ?A] base(2) d(2)
  obtain prev where prev: "instruments_at d ?A = Inr prev" "exchange_symbol ` set prev = ?A" by blast
  from instruments_at_named [OF d(1), of "?T - ?A"] d(2)
  obtain added where added: "instruments_at d (?T - ?A) = Inr added" "exchange_symbol ` set added = ?T - ?A" by blast
  have "\<forall>s \<in> ?A. venue_symbol s" using base named_symbols by blast
  from previous_by_symbol [OF prev(2) this, of "?A - ?T"]
  obtain removed where removed: "instruments_at (map (\<lambda>i. (exchange_symbol i, i)) (rev prev)) (?A - ?T) = Inr removed"
    "exchange_symbol ` set removed = ?A - ?T" by blast
  let ?xs = "critical_subscriptions b1 added" let ?ys = "critical_subscriptions b1 removed"
  have result: "snd (reconcile_instruments inss b) = (if map_of (bn_queues b) ''critical'' = None then b2
      else put_update ''critical'' ''UNSUBSCRIBE'' ?ys (put_update ''critical'' ''SUBSCRIBE'' ?xs b2))"
    using prev(1) added(1) removed(1) flags(1)
    by (simp add: reconcile_instruments_def eff_defs from_sum_def pick_instruments_def active_instruments_def
        d_def b1_def b2_def Let_def)
  have streams: "set ?xs = spread ?F (?T - ?A)" "set ?ys = spread ?F (?A - ?T)"
    using critical_streams [of b1] flags added(2) removed(2) by (simp_all add: b1_def)
  show ?thesis
  proof (cases "map_of (bn_queues b) ''critical''")
    case None
    then have "in_step ?F d ?T None S" using d(2) by (auto simp: in_step_def d(1))
    then show ?thesis using None flags by (simp add: result futures_good_def b2_def b1_def)
  next
    case (Some q)
    let ?b = "put_update ''critical'' ''UNSUBSCRIBE'' ?ys (put_update ''critical'' ''SUBSCRIBE'' ?xs b2)"
    have "map_of (bn_queues ?b) ''critical'' = map_option (\<lambda>waiting. waiting @ asks ''SUBSCRIBE'' ?xs (bn_request_id b2 + 1) @
        asks ''UNSUBSCRIBE'' ?ys (bn_request_id (put_update ''critical'' ''SUBSCRIBE'' ?xs b2) + 1)) (map_of (bn_queues b) ''critical'')"
      using Some by (simp add: put_update_asks) (simp add: b2_def b1_def asks_def)
    from in_step_target [OF step prefixed_kline names refl streams this] Some flags
    show ?thesis by (simp add: result futures_good_def put_update_asks b2_def b1_def d_def)
  qed
qed

lemma futures_opened:
  assumes "futures_good b S" and "open_endpoint ''critical'' wanted b = (Inr first, b')"
  shows "futures_good b' (fold requested first {})"
proof -
  define b1 where "b1 = b\<lparr>bn_queues := AList.update ''critical'' [] (bn_queues b)\<rparr>"
  have flags: "bn_dynamic b" "bn_candle_only b" "bn_intervals b \<subseteq> all_intervals"
    and base: "named_well (bn_instruments b)" "bn_active b \<subseteq> fst ` set (bn_instruments b)"
    using assms(1) by (simp_all add: futures_good_def in_step_def)
  from instruments_at_named [OF base] obtain inss
    where inss: "instruments_at (bn_instruments b) (bn_active b) = Inr inss" "exchange_symbol ` set inss = bn_active b" by blast
  have b': "b' = b1 \<and> first = asks ''SUBSCRIBE'' (critical_subscriptions b1 inss) 1"
    using assms(2) flags(1) inss(1)
    by (auto simp: open_endpoint_def eff_defs from_sum_def active_instruments_def b1_def asks_def split: if_splits)
  have "set (critical_subscriptions b1 inss) = spread (kline_streams (bn_intervals b)) (bn_active b)"
    using critical_streams [of b1] flags inss(2) by (simp add: b1_def)
  from in_step_open [OF base this, of 1] flags show ?thesis
    using b' by (simp add: futures_good_def b1_def update_conv')
qed

lemma futures_sent:
  assumes "futures_good b S" and "take_update ''critical'' b = (Inr (Some u), b')"
  shows "futures_good b' (requested u S)"
  using assms in_step_take
  by (auto simp: take_update_def eff_defs futures_good_def update_conv' split: option.splits list.splits)

lemma futures_closed: "futures_good b S \<Longrightarrow> futures_good (snd (close_endpoint ''critical'' b)) {}"
  by (auto simp: close_endpoint_def eff_defs futures_good_def in_step_def delete_conv' split: if_splits)

text \<open>A message touches nothing of this.\<close>

definition same_streams :: "binance \<Rightarrow> binance \<Rightarrow> bool" where
  "same_streams b c \<longleftrightarrow> bn_dynamic c = bn_dynamic b \<and> bn_candle_only c = bn_candle_only b \<and>
     bn_intervals c = bn_intervals b \<and> bn_instruments c = bn_instruments b \<and> bn_active c = bn_active b \<and> bn_queues c = bn_queues b"

lemma keeps_from_sum [keeps_rules]: "keeps I (from_sum v)"
  by (cases v) (simp_all add: from_sum_def keeps_rules)

lemma message_keeps_streams: "keeps (same_streams b) (parse_ws_message env payload)"
  unfolding parse_ws_message_def parse_event_def mark_price_update_def one_def Let_def
  by (intro keeps_rules keeps_modifyE) (auto simp: same_streams_def)

lemma futures_received: "futures_good b S \<Longrightarrow> futures_good (snd (parse_ws_message env payload b)) S"
  using message_keeps_streams [of b env payload] by (auto simp: keeps_def same_streams_def futures_good_def)

lemma futures_run_good: "futures_run b S \<Longrightarrow> futures_good b S"
  by (induction rule: futures_run.induct)
    (simp_all add: futures_created futures_named futures_reconciled futures_opened futures_sent futures_closed futures_received)

end
