(* ===== verification/Bybit_Adapter.thy ===== *)
theory Bybit_Adapter
  imports Venue_Values
begin

text \<open>
  src/src/quant_signal_agent/exchanges/bybit/adapter.py: \<open>BybitPerpetualAdapter\<close>, which turns the answers
  and the messages of Bybit's linear perpetuals into normalized events. Ticker messages carry only what has
  changed, so the adapter keeps the last value of every field of a symbol.
\<close>

section \<open>State\<close>

record bybit =
  by_poll_seconds :: int
  by_ticker_cache :: "(string \<times> (string \<times> pyval) list) list"
  by_last_emit :: "(string \<times> int) list"
  by_instruments :: "(string \<times> instrument) list"

definition interval_to_bybit :: "(string \<times> string) list" where
  "interval_to_bybit = [(''5m'', ''5''), (''15m'', ''15''), (''1h'', ''60''), (''4h'', ''240''), (''1d'', ''D'')]"

definition bybit_to_interval :: "(string \<times> string) list" where
  "bybit_to_interval = map (\<lambda>(k, v). (v, k)) interval_to_bybit"

definition interval_duration_of :: "(string \<times> timedelta) list" where
  "interval_duration_of = [(''5m'', seconds 300), (''15m'', seconds 900), (''1h'', seconds 3600), (''4h'', seconds 14400),
     (''1d'', seconds 86400)]"

text \<open>\<open>symbol.split("/")[0]\<close> and \<open>[1]\<close>\<close>

definition bybit_instrument :: "string \<Rightarrow> exn + instrument" where
  "bybit_instrument symbol = (case str_split CHR ''/'' symbol of
       base # quote # _ \<Rightarrow> Inr \<lparr>exchange = BYBIT, market_type = LINEAR_PERPETUAL,
         exchange_symbol = str_remove CHR ''/'' symbol, canonical_symbol = symbol, base_asset = base,
         quote_asset = quote, settlement_asset = ''USDT''\<rparr>
     | _ \<Rightarrow> Inl (IndexError ''list index out of range''))"

definition new_bybit :: "string list \<Rightarrow> int \<Rightarrow> exn + bybit" where
  "new_bybit symbols poll =
     (if \<not> (5 \<le> poll \<and> poll \<le> 15) then Inl (ValueError ''Funding/OI polling must be between 5 and 15 seconds'')
      else bind_sum (traverse bybit_instrument symbols) (\<lambda>inss.
        Inr \<lparr>by_poll_seconds = poll, by_ticker_cache = [], by_last_emit = [],
          by_instruments = fold (\<lambda>i d. AList.update (exchange_symbol i) i d) inss []\<rparr>))"

section \<open>Requests\<close>

text \<open>\<open>v == n\<close> for an integer \<open>n\<close>\<close>

definition equals_int :: "int \<Rightarrow> pyval \<Rightarrow> bool" where
  "equals_int n v \<longleftrightarrow> v = PInt n \<or> v = PFloat (Fin (of_int n)) \<or> n = 0 \<and> v = PBool False \<or> n = 1 \<and> v = PBool True"

definition check_bybit :: "(pyval \<Rightarrow> string) \<Rightarrow> pyval \<Rightarrow> pyval call_outcome" where
  "check_bybit repr payload = (case payload of
       PDict d \<Rightarrow>
         if equals_int 10006 (dict_get d ''retCode'') then Transient None
         else if \<not> equals_int 0 (dict_get d ''retCode'')
         then Failed (response_error (''Bybit error '' @ str_of_value repr (dict_get d ''retCode'') @ '': '' @
           str_of_value repr (dict_get_or d ''retMsg'' (PStr []))))
         else Returned payload
     | _ \<Rightarrow> Failed (response_error ''Invalid Bybit response envelope''))"

definition get :: "venue_env \<Rightarrow> string \<Rightarrow> params \<Rightarrow> exn + pyval" where
  "get env = request env (check_bybit (hx_repr env))"

definition linear :: "instrument \<Rightarrow> params" where
  "linear ins = [(''category'', PStr ''linear''), (''symbol'', PStr (exchange_symbol ins))]"

text \<open>\<open>payload["result"]["list"]\<close>\<close>

definition result_of :: "pyval \<Rightarrow> exn + pyval" where
  "result_of payload = item_of payload ''result''"

definition result_list :: "pyval \<Rightarrow> exn + pyval" where
  "result_list payload = bind_sum (result_of payload) (\<lambda>r. item_of r ''list'')"

definition get_instruments :: "venue_env \<Rightarrow> bybit \<Rightarrow> exn + instrument list" where
  "get_instruments env b =
     bind_sum (get env ''/v5/market/instruments-info'' [(''category'', PStr ''linear''), (''limit'', PInt 1000)]) (\<lambda>payload.
     bind_sum (result_list payload) (all_listed (by_instruments b) ''symbol''
       (\<lambda>row. dict_get row ''contractType'' = PStr ''LinearPerpetual'' \<and> dict_get row ''status'' = PStr ''Trading'')))"

text \<open>\<open>close_time = open_time + INTERVAL_DURATION[interval] - timedelta(milliseconds=1)\<close>\<close>

definition last_millisecond :: "string \<Rightarrow> datetime \<Rightarrow> exn + datetime" where
  "last_millisecond iv opened_at = (case map_of interval_duration_of iv of
       None \<Rightarrow> Inl (KeyError iv)
     | Some d \<Rightarrow> Inr (dt_add opened_at (d - 1000)))"

definition parse_rest_candle :: "instrument \<Rightarrow> string \<Rightarrow> datetime \<Rightarrow> pyval \<Rightarrow> exn + candle" where
  "parse_rest_candle ins iv received row =
     bind_sum (ms_at row 0) (\<lambda>opened_at. bind_sum (last_millisecond iv opened_at) (\<lambda>closed_at.
     bind_sum (dec_at row 1) (\<lambda>o1. bind_sum (dec_at row 2) (\<lambda>h. bind_sum (dec_at row 3) (\<lambda>l.
     bind_sum (dec_at row 4) (\<lambda>c. bind_sum (dec_at row 5) (\<lambda>v. bind_sum (dec_at row 6) (\<lambda>q.
       check_candle \<lparr>cd_metadata = metadata ins opened_at received None, interval = iv, open_time = opened_at,
         close_time = closed_at, c_open = o1, high = h, low = l, close = c, base_volume = v, quote_volume = Some q,
         is_closed = closed_at \<le> received, taker_buy_base_volume = None, taker_buy_quote_volume = None\<rparr>))))))))"

definition get_candles :: "venue_env \<Rightarrow> instrument \<Rightarrow> string \<Rightarrow> int \<Rightarrow> exn + candle list" where
  "get_candles env ins iv limit = (case map_of interval_to_bybit iv of
       None \<Rightarrow> Inl (ValueError (''Unsupported Bybit interval: '' @ iv))
     | Some code \<Rightarrow>
         if \<not> (1 \<le> limit \<and> limit \<le> 1000) then Inl (ValueError ''Bybit candle limit must be between 1 and 1000'')
         else bind_sum (get env ''/v5/market/kline'' (linear ins @ [(''interval'', PStr code), (''limit'', PInt limit)])) (\<lambda>payload.
           bind_sum (result_list payload) (\<lambda>rows. bind_sum (iterate rows) (\<lambda>xs.
           bind_sum (traverse (parse_rest_candle ins iv (hx_now env)) xs) (\<lambda>cs. Inr (rev cs))))))"

definition sequence_of :: "(string \<times> pyval) list \<Rightarrow> exn + int" where
  "sequence_of row = bind_sum (dict_item row ''u'') (\<lambda>u. int_of_value (dict_get_or row ''seq'' u))"

definition book_snapshot ::
  "instrument \<Rightarrow> datetime \<Rightarrow> datetime \<Rightarrow> int \<Rightarrow> int \<Rightarrow> (string \<times> pyval) list \<Rightarrow> exn + order_book_snapshot"
where
  "book_snapshot ins t received seq d row =
     bind_sum (levels (Some (nat d)) row ''b'') (\<lambda>bs. bind_sum (levels (Some (nat d)) row ''a'') (\<lambda>xs.
       Inr \<lparr>sn_metadata = metadata ins t received (Some seq), sn_bids = bs, sn_asks = xs, sn_depth = d\<rparr>))"

definition get_order_book_snapshot :: "venue_env \<Rightarrow> instrument \<Rightarrow> int \<Rightarrow> exn + order_book_snapshot" where
  "get_order_book_snapshot env ins d =
     (if d \<noteq> 100 then Inl (ValueError ''Configured order book depth must be 100'')
      else bind_sum (get env ''/v5/market/orderbook'' (linear ins @ [(''limit'', PInt d)])) (\<lambda>payload.
        bind_sum (result_of payload) (\<lambda>r. bind_sum (as_dict r) (\<lambda>row. bind_sum (ms row ''ts'') (\<lambda>t.
        bind_sum (sequence_of row) (\<lambda>seq. book_snapshot ins t (hx_now env) seq d row))))))"

definition ticker_row :: "venue_env \<Rightarrow> instrument \<Rightarrow> exn + pyval \<times> datetime" where
  "ticker_row env ins = bind_sum (get env ''/v5/market/tickers'' (linear ins)) (\<lambda>payload.
     bind_sum (result_list payload) (\<lambda>rows.
     if \<not> truthy_value rows then Inl (response_error (''No Bybit ticker for '' @ exchange_symbol ins))
     else bind_sum (nth_of rows 0) (\<lambda>row. bind_sum (bind_sum (item_of payload ''time'') from_milliseconds) (\<lambda>t. Inr (row, t)))))"

definition parse_ticker :: "venue_env \<Rightarrow> event_metadata \<Rightarrow> (string \<times> pyval) list \<Rightarrow> exn + ticker" where
  "parse_ticker env md row = bind_sum (dec row ''lastPrice'') (\<lambda>p.
     bind_sum (opt_dec (hx_repr env) row ''markPrice'') (\<lambda>m. bind_sum (opt_dec (hx_repr env) row ''indexPrice'') (\<lambda>i.
     bind_sum (opt_dec (hx_repr env) row ''bid1Price'') (\<lambda>b. bind_sum (opt_dec (hx_repr env) row ''ask1Price'') (\<lambda>a.
     bind_sum (opt_dec (hx_repr env) row ''volume24h'') (\<lambda>v. bind_sum (opt_dec (hx_repr env) row ''turnover24h'') (\<lambda>q.
       Inr \<lparr>tk_metadata = md, last_price = Some p, mark_price = m, index_price = i, tk_mid_price = None,
         tk_best_bid = b, tk_best_ask = a, base_volume_24h = v, quote_volume_24h = q\<rparr>)))))))"

definition get_ticker :: "venue_env \<Rightarrow> instrument \<Rightarrow> exn + ticker" where
  "get_ticker env ins = bind_sum (ticker_row env ins) (\<lambda>(v, t). bind_sum (as_dict v) (\<lambda>row.
     parse_ticker env (metadata ins t (hx_now env) None) row))"

text \<open>A trade of the REST answer or of the stream, whose fields have other names\<close>

definition parse_trade :: "venue_env \<Rightarrow> instrument \<Rightarrow> pyval \<Rightarrow> exn + trade" where
  "parse_trade env ins v = bind_sum (as_mapping v) (\<lambda>row.
     let either = (\<lambda>a b. dict_get_or row a (dict_get row b)); text_of = str_of_value (hx_repr env);
         event_time = either ''time'' ''T''; trade_id = either ''execId'' ''i''; p = either ''price'' ''p'';
         q = either ''size'' ''v''; side = either ''side'' ''S'' in
     if PNone \<in> {event_time, trade_id, p, q, side}
     then Inl (response_error ''Incomplete Bybit public trade payload'')
     else bind_sum (from_milliseconds (PStr (text_of event_time))) (\<lambda>t.
       bind_sum (decimal_of_text (hx_repr env) p) (\<lambda>x. bind_sum (decimal_of_text (hx_repr env) q) (\<lambda>y.
         Inr \<lparr>tr_metadata = metadata ins t (hx_now env) None, trade_id = text_of trade_id, tr_price = x,
           tr_quantity = y, tr_side = (if side = PStr ''Buy'' then BUY else SELL), quantity_unit = BASE_UNIT\<rparr>))))"

definition get_recent_trades :: "venue_env \<Rightarrow> instrument \<Rightarrow> int \<Rightarrow> exn + trade list" where
  "get_recent_trades env ins limit =
     (if \<not> (1 \<le> limit \<and> limit \<le> 1000) then Inl (ValueError ''Bybit trade limit must be between 1 and 1000'')
      else bind_sum (get env ''/v5/market/recent-trade'' (linear ins @ [(''limit'', PInt limit)])) (\<lambda>payload.
        bind_sum (result_list payload) (\<lambda>rows. bind_sum (iterate rows) (traverse (parse_trade env ins)))))"

definition funding_of :: "event_metadata \<Rightarrow> (string \<times> pyval) list \<Rightarrow> exn + funding_rate" where
  "funding_of md row = bind_sum (dec row ''fundingRate'') (\<lambda>r. bind_sum (ms row ''nextFundingTime'') (\<lambda>next_at.
     Inr \<lparr>fr_metadata = md, rate = r, next_funding_at = Some next_at\<rparr>))"

definition get_funding_rate :: "venue_env \<Rightarrow> instrument \<Rightarrow> exn + funding_rate" where
  "get_funding_rate env ins = bind_sum (ticker_row env ins) (\<lambda>(v, t). bind_sum (as_dict v)
     (funding_of (metadata ins t (hx_now env) None)))"

definition get_open_interest :: "venue_env \<Rightarrow> instrument \<Rightarrow> exn + open_interest" where
  "get_open_interest env ins =
     bind_sum (get env ''/v5/market/open-interest''
       (linear ins @ [(''intervalTime'', PStr ''5min''), (''limit'', PInt 1)])) (\<lambda>payload.
     bind_sum (result_list payload) (\<lambda>rows. bind_sum (bind_sum (nth_of rows 0) as_dict) (\<lambda>row.
     bind_sum (dec row ''openInterest'') (\<lambda>v. bind_sum (ms row ''timestamp'') (\<lambda>t.
       Inr \<lparr>oi_metadata = metadata ins t (hx_now env) None, contracts = v, base_quantity = Some v, quote_notional = None\<rparr>)))))"

section \<open>Messages\<close>

definition topics_of :: "instrument \<Rightarrow> string list" where
  "topics_of i = [''tickers.'' @ exchange_symbol i, ''publicTrade.'' @ exchange_symbol i, ''orderbook.200.'' @ exchange_symbol i] @
     map (\<lambda>(_, v). ''kline.'' @ v @ ''.'' @ exchange_symbol i) interval_to_bybit"

definition topics :: "instrument list \<Rightarrow> string list" where
  "topics inss = concat (map topics_of inss)"

text \<open>\<open>cache.update(payload["data"])\<close>\<close>

definition merge :: "(string \<times> pyval) list \<Rightarrow> (string \<times> pyval) list \<Rightarrow> (string \<times> pyval) list" where
  "merge news cache = fold (\<lambda>(k, v). AList.update k v) news cache"

definition cache_of :: "bybit \<Rightarrow> string \<Rightarrow> (string \<times> pyval) list" where
  "cache_of b symbol = (case map_of (by_ticker_cache b) symbol of None \<Rightarrow> [] | Some c \<Rightarrow> c)"

definition set_cache :: "string \<Rightarrow> (string \<times> pyval) list \<Rightarrow> (bybit, unit) eff" where
  "set_cache symbol c = modifyE (\<lambda>b. b\<lparr>by_ticker_cache := AList.update symbol c (by_ticker_cache b)\<rparr>)"

definition given :: "(string \<times> pyval) list \<Rightarrow> string \<Rightarrow> bool" where
  "given row k \<longleftrightarrow> dict_get row k \<noteq> PNone \<and> dict_get row k \<noteq> PStr []"

definition cached_open_interest :: "venue_env \<Rightarrow> event_metadata \<Rightarrow> (string \<times> pyval) list \<Rightarrow> exn + open_interest" where
  "cached_open_interest env md cache = bind_sum (dec cache ''openInterest'') (\<lambda>v.
     bind_sum (opt_dec (hx_repr env) cache ''openInterestValue'') (\<lambda>n.
       Inr \<lparr>oi_metadata = md, contracts = v, base_quantity = Some v, quote_notional = n\<rparr>))"

definition when_given :: "(string \<times> pyval) list \<Rightarrow> string \<Rightarrow> exn + 'a \<Rightarrow> exn + 'a list" where
  "when_given row k v = (if given row k then bind_sum v (\<lambda>x. Inr [x]) else Inr [])"

definition derivatives :: "venue_env \<Rightarrow> event_metadata \<Rightarrow> (string \<times> pyval) list \<Rightarrow> exn + market_event list" where
  "derivatives env md cache = bind_sum (when_given cache ''fundingRate'' (funding_of md cache)) (\<lambda>fs.
     bind_sum (when_given cache ''openInterest'' (cached_open_interest env md cache)) (\<lambda>ois.
       Inr (map FundingEvent fs @ map OpenInterestEvent ois)))"

definition derivatives_due :: "venue_env \<Rightarrow> string \<Rightarrow> datetime \<Rightarrow> bybit \<Rightarrow> bool" where
  "derivatives_due env symbol t b \<longleftrightarrow> by_poll_seconds b * 1000 \<le>
     hx_ms env t - (case map_of (by_last_emit b) symbol of None \<Rightarrow> 0 | Some n \<Rightarrow> n)"

definition ticker_message ::
  "venue_env \<Rightarrow> instrument \<Rightarrow> string \<Rightarrow> datetime \<Rightarrow> (string \<times> pyval) list \<Rightarrow> (bybit, market_event list) eff"
where
  "ticker_message env ins symbol t news = (let md = metadata ins t (hx_now env) None in
     bindE (getE (\<lambda>b. merge news (cache_of b symbol))) (\<lambda>cache.
     thenE (set_cache symbol cache)
    (if \<not> dict_has cache ''lastPrice'' then ret []
     else bindE (from_sum (parse_ticker env md cache)) (\<lambda>tk.
       bindE (getE (derivatives_due env symbol t)) (\<lambda>due.
       if \<not> due then ret [TickerEvent tk]
       else bindE (from_sum (derivatives env md cache)) (\<lambda>es.
         thenE (modifyE (\<lambda>b. b\<lparr>by_last_emit := AList.update symbol (hx_ms env t) (by_last_emit b)\<rparr>))
           (ret (TickerEvent tk # es))))))))"

text \<open>
  The update of the cache with what is no object fails after the cache of the symbol was created. (A list of
  pairs, which \<open>dict.update\<close> would take, counts as a failure here.)
\<close>

definition parse_tickers ::
  "venue_env \<Rightarrow> instrument \<Rightarrow> string \<Rightarrow> datetime \<Rightarrow> pyval \<Rightarrow> (bybit, market_event list) eff"
where
  "parse_tickers env ins symbol t data = (case data of
       PDict news \<Rightarrow> ticker_message env ins symbol t news
     | _ \<Rightarrow> bindE (getE (\<lambda>b. cache_of b symbol)) (\<lambda>c. thenE (set_cache symbol c) (raise (TypeError ''cannot update''))))"

definition book_message :: "venue_env \<Rightarrow> (string \<times> instrument) list \<Rightarrow> (string \<times> pyval) list \<Rightarrow> exn + market_event list" where
  "book_message env inss payload =
     bind_sum (bind_sum (dict_item payload ''data'') as_dict) (\<lambda>row.
     bind_sum (bind_sum (dict_item row ''s'') (known inss)) (\<lambda>found. case found of
       None \<Rightarrow> Inr []
     | Some ins \<Rightarrow>
         bind_sum (dict_item payload ''ts'') (\<lambda>ts. bind_sum (from_milliseconds (dict_get_or payload ''cts'' ts)) (\<lambda>t.
         bind_sum (sequence_of row) (\<lambda>seq.
         bind_sum (if dict_get payload ''type'' = PStr ''snapshot'' then Inr True
             else bind_sum (num row ''u'') (\<lambda>u. Inr (u = 1))) (\<lambda>whole.
         if whole
         then bind_sum (book_snapshot ins t (hx_now env) seq 100 row) (\<lambda>s. Inr [SnapshotEvent s])
         else bind_sum (levels None row ''b'') (\<lambda>bs. bind_sum (levels None row ''a'') (\<lambda>xs.
           Inr [DeltaEvent \<lparr>dl_metadata = metadata ins t (hx_now env) (Some seq), dl_bids = bs, dl_asks = xs,
             first_sequence_id = None, previous_sequence_id = None\<rparr>]))))))))"

definition kline_message :: "venue_env \<Rightarrow> (string \<times> instrument) list \<Rightarrow> string list \<Rightarrow> pyval \<Rightarrow> exn + market_event list" where
  "kline_message env inss parts data = (case parts of
       _ # code # symbol # _ \<Rightarrow> (case map_of inss symbol of
           None \<Rightarrow> Inr []
         | Some ins \<Rightarrow>
             bind_sum (bind_sum (nth_of data 0) as_dict) (\<lambda>row. bind_sum (ms row ''timestamp'') (\<lambda>t.
             bind_sum (case map_of bybit_to_interval code of None \<Rightarrow> Inl (KeyError code) | Some iv \<Rightarrow> Inr iv) (\<lambda>iv.
             bind_sum (ms row ''start'') (\<lambda>opened_at. bind_sum (ms row ''end'') (\<lambda>closed_at.
             bind_sum (dec row ''open'') (\<lambda>o1. bind_sum (dec row ''high'') (\<lambda>h. bind_sum (dec row ''low'') (\<lambda>l.
             bind_sum (dec row ''close'') (\<lambda>c. bind_sum (dec row ''volume'') (\<lambda>v. bind_sum (dec row ''turnover'') (\<lambda>q.
             bind_sum (dict_item row ''confirm'') (\<lambda>closed.
             bind_sum (check_candle \<lparr>cd_metadata = metadata ins t (hx_now env) None, interval = iv, open_time = opened_at,
               close_time = closed_at, c_open = o1, high = h, low = l, close = c, base_volume = v, quote_volume = Some q,
               is_closed = truthy_value closed, taker_buy_base_volume = None, taker_buy_quote_volume = None\<rparr>) (\<lambda>x.
               Inr [CandleEvent x]))))))))))))))
     | _ \<Rightarrow> Inl (IndexError ''list index out of range''))"

text \<open>\<open>topic.rsplit(".", 1)[1]\<close>\<close>

definition last_part :: "string \<Rightarrow> string" where
  "last_part topic = last (str_split CHR ''.'' topic)"

definition parse_topic ::
  "venue_env \<Rightarrow> string \<Rightarrow> pyval \<Rightarrow> datetime \<Rightarrow> (string \<times> pyval) list \<Rightarrow> (bybit, market_event list) eff"
where
  "parse_topic env topic data t payload = bindE (getE by_instruments) (\<lambda>inss.
     if str_startswith topic ''tickers.'' then
       (case map_of inss (last_part topic) of
          None \<Rightarrow> ret [] | Some ins \<Rightarrow> parse_tickers env ins (last_part topic) t data)
     else if str_startswith topic ''publicTrade.'' then
       (case map_of inss (last_part topic) of
          None \<Rightarrow> ret []
        | Some ins \<Rightarrow> from_sum (bind_sum (iterate data) (\<lambda>rows.
            bind_sum (traverse (parse_trade env ins) rows) (\<lambda>ts. Inr (map TradeEvent ts)))))
     else if str_startswith topic ''orderbook.'' then from_sum (book_message env inss payload)
     else if str_startswith topic ''kline.'' then from_sum (kline_message env inss (str_split CHR ''.'' topic) data)
     else ret [])"

definition parse_ws_message :: "venue_env \<Rightarrow> (string \<times> pyval) list \<Rightarrow> (bybit, market_event list) eff" where
  "parse_ws_message env payload =
     (let topic = str_of_value (hx_repr env) (dict_get_or payload ''topic'' (PStr [])) in
      if topic = [] \<or> \<not> dict_has payload ''data'' then ret []
      else bindE (from_sum (from_milliseconds (dict_get_or payload ''ts'' (now_ms env)))) (\<lambda>t.
        parse_topic env topic (dict_get payload ''data'') t payload))"

end
