(* ===== verification/Okx_Adapter.thy ===== *)
theory Okx_Adapter
  imports Venue_Values
begin

text \<open>
  src/src/quant_signal_agent/exchanges/okx/adapter.py: \<open>OkxSwapAdapter\<close>, which turns the answers and the
  messages of OKX's USDT swaps into normalized events.
\<close>

section \<open>State\<close>

record okx =
  ox_poll_seconds :: int
  ox_last_emit :: "(string \<times> int) list"
  ox_instruments :: "(string \<times> instrument) list"

definition interval_to_okx :: "(string \<times> string) list" where
  "interval_to_okx = [(''5m'', ''5m''), (''15m'', ''15m''), (''1h'', ''1H''), (''4h'', ''4H''), (''1d'', ''1Dutc'')]"

definition okx_to_interval :: "(string \<times> string) list" where
  "okx_to_interval = map (\<lambda>(k, v). (v, k)) interval_to_okx"

definition okx_durations :: "(string \<times> timedelta) list" where
  "okx_durations = [(''5m'', seconds 300), (''15m'', seconds 900), (''1h'', seconds 3600), (''4h'', seconds 14400),
     (''1d'', seconds 86400)]"

definition swap_symbol :: "string \<Rightarrow> string" where
  "swap_symbol symbol = map (\<lambda>c. if c = CHR ''/'' then CHR ''-'' else c) symbol @ ''-SWAP''"

definition swap_instrument :: "string \<Rightarrow> exn + instrument" where
  "swap_instrument symbol = (case str_split CHR ''/'' symbol of
       base # quote # _ \<Rightarrow> Inr \<lparr>exchange = OKX, market_type = LINEAR_PERPETUAL,
         exchange_symbol = swap_symbol symbol, canonical_symbol = symbol, base_asset = base,
         quote_asset = quote, settlement_asset = ''USDT''\<rparr>
     | _ \<Rightarrow> Inl (IndexError ''list index out of range''))"

definition new_okx :: "string list \<Rightarrow> int \<Rightarrow> exn + okx" where
  "new_okx symbols poll =
     (if \<not> (5 \<le> poll \<and> poll \<le> 15) then Inl (ValueError ''Funding/OI polling must be between 5 and 15 seconds'')
      else bind_sum (traverse swap_instrument symbols) (\<lambda>inss.
        Inr \<lparr>ox_poll_seconds = poll, ox_last_emit = [],
          ox_instruments = fold (\<lambda>i d. AList.update (exchange_symbol i) i d) inss []\<rparr>))"

section \<open>Requests\<close>

definition check_okx :: "(pyval \<Rightarrow> string) \<Rightarrow> pyval \<Rightarrow> pyval call_outcome" where
  "check_okx repr payload = (case payload of
       PDict d \<Rightarrow>
         if dict_get d ''code'' = PStr ''50011'' then Transient None
         else if dict_get d ''code'' \<noteq> PStr ''0''
         then Failed (response_error (''OKX error '' @ str_of_value repr (dict_get d ''code'') @ '': '' @
           str_of_value repr (dict_get_or d ''msg'' (PStr []))))
         else Returned payload
     | _ \<Rightarrow> Failed (response_error ''Invalid OKX response envelope''))"

definition get :: "venue_env \<Rightarrow> string \<Rightarrow> params \<Rightarrow> exn + pyval" where
  "get env = request env (check_okx (hx_repr env))"

definition inst_id :: "instrument \<Rightarrow> string \<times> pyval" where
  "inst_id ins = (''instId'', PStr (exchange_symbol ins))"

text \<open>\<open>payload["data"]\<close> and \<open>payload["data"][0]\<close>\<close>

definition data_of :: "pyval \<Rightarrow> exn + pyval" where
  "data_of payload = item_of payload ''data''"

definition first_row :: "pyval \<Rightarrow> exn + (string \<times> pyval) list" where
  "first_row payload = bind_sum (data_of payload) (\<lambda>rows. bind_sum (nth_of rows 0) as_dict)"

definition get_instruments :: "venue_env \<Rightarrow> okx \<Rightarrow> exn + instrument list" where
  "get_instruments env b = bind_sum (get env ''/api/v5/public/instruments'' [(''instType'', PStr ''SWAP'')]) (\<lambda>payload.
     bind_sum (data_of payload) (all_listed (ox_instruments b) ''instId''
       (\<lambda>row. dict_get row ''ctType'' = PStr ''linear'' \<and> dict_get row ''state'' = PStr ''live'')))"

definition parse_candle :: "instrument \<Rightarrow> string \<Rightarrow> datetime \<Rightarrow> pyval \<Rightarrow> exn + candle" where
  "parse_candle ins iv received row =
     bind_sum (ms_at row 0) (\<lambda>opened_at.
     bind_sum (case map_of okx_durations iv of None \<Rightarrow> Inl (KeyError iv) | Some d \<Rightarrow> Inr (dt_add opened_at (d - 1000))) (\<lambda>closed_at.
     bind_sum (dec_at row 1) (\<lambda>o1. bind_sum (dec_at row 2) (\<lambda>h. bind_sum (dec_at row 3) (\<lambda>l.
     bind_sum (dec_at row 4) (\<lambda>c. bind_sum (dec_at row 6) (\<lambda>v. bind_sum (dec_at row 7) (\<lambda>q.
     bind_sum (nth_of row 8) (\<lambda>confirm.
       check_candle \<lparr>cd_metadata = metadata ins opened_at received None, interval = iv, open_time = opened_at,
         close_time = closed_at, c_open = o1, high = h, low = l, close = c, base_volume = v, quote_volume = Some q,
         is_closed = (confirm = PStr ''1''), taker_buy_base_volume = None, taker_buy_quote_volume = None\<rparr>)))))))))"

definition get_candles :: "venue_env \<Rightarrow> instrument \<Rightarrow> string \<Rightarrow> int \<Rightarrow> exn + candle list" where
  "get_candles env ins iv limit = (case map_of interval_to_okx iv of
       None \<Rightarrow> Inl (ValueError (''Unsupported OKX interval: '' @ iv))
     | Some bar \<Rightarrow>
         if \<not> (1 \<le> limit \<and> limit \<le> 300) then Inl (ValueError ''OKX candle limit must be between 1 and 300'')
         else bind_sum (get env ''/api/v5/market/candles'' [inst_id ins, (''bar'', PStr bar), (''limit'', PInt limit)]) (\<lambda>payload.
           bind_sum (data_of payload) (\<lambda>rows. bind_sum (iterate rows) (\<lambda>xs.
           bind_sum (traverse (parse_candle ins iv (hx_now env)) xs) (\<lambda>cs. Inr (rev cs))))))"

definition book_metadata :: "instrument \<Rightarrow> datetime \<Rightarrow> (string \<times> pyval) list \<Rightarrow> exn + event_metadata" where
  "book_metadata ins received row = bind_sum (ms row ''ts'') (\<lambda>t. bind_sum (num row ''seqId'') (\<lambda>seq.
     Inr (metadata ins t received (Some seq))))"

definition book_snapshot :: "event_metadata \<Rightarrow> int \<Rightarrow> (string \<times> pyval) list \<Rightarrow> exn + order_book_snapshot" where
  "book_snapshot md d row =
     bind_sum (levels (Some (nat d)) row ''bids'') (\<lambda>bs. bind_sum (levels (Some (nat d)) row ''asks'') (\<lambda>xs.
       Inr \<lparr>sn_metadata = md, sn_bids = bs, sn_asks = xs, sn_depth = d\<rparr>))"

definition get_order_book_snapshot :: "venue_env \<Rightarrow> instrument \<Rightarrow> int \<Rightarrow> exn + order_book_snapshot" where
  "get_order_book_snapshot env ins d =
     (if d \<noteq> 100 then Inl (ValueError ''Configured order book depth must be 100'')
      else bind_sum (get env ''/api/v5/market/books'' [inst_id ins, (''sz'', PInt d)]) (\<lambda>payload.
        bind_sum (first_row payload) (\<lambda>row. bind_sum (book_metadata ins (hx_now env) row) (\<lambda>md. book_snapshot md d row))))"

definition parse_ticker :: "venue_env \<Rightarrow> instrument \<Rightarrow> (string \<times> pyval) list \<Rightarrow> exn + ticker" where
  "parse_ticker env ins row = bind_sum (ms row ''ts'') (\<lambda>t. bind_sum (dec row ''last'') (\<lambda>p.
     bind_sum (opt_dec (hx_repr env) row ''bidPx'') (\<lambda>b. bind_sum (opt_dec (hx_repr env) row ''askPx'') (\<lambda>a.
     bind_sum (opt_dec (hx_repr env) row ''volCcy24h'') (\<lambda>v. bind_sum (opt_dec (hx_repr env) row ''volCcyQuote24h'') (\<lambda>q.
       Inr \<lparr>tk_metadata = metadata ins t (hx_now env) None, last_price = Some p, mark_price = None, index_price = None,
         tk_mid_price = None, tk_best_bid = b, tk_best_ask = a, base_volume_24h = v, quote_volume_24h = q\<rparr>))))))"

definition get_ticker :: "venue_env \<Rightarrow> instrument \<Rightarrow> exn + ticker" where
  "get_ticker env ins = bind_sum (get env ''/api/v5/market/ticker'' [inst_id ins]) (\<lambda>payload.
     bind_sum (first_row payload) (parse_ticker env ins))"

definition parse_trade :: "venue_env \<Rightarrow> instrument \<Rightarrow> pyval \<Rightarrow> exn + trade" where
  "parse_trade env ins v = bind_sum (as_dict v) (\<lambda>row. bind_sum (ms row ''ts'') (\<lambda>t.
     bind_sum (dict_item row ''tradeId'') (\<lambda>i. bind_sum (dec row ''px'') (\<lambda>p. bind_sum (dec row ''sz'') (\<lambda>q.
     bind_sum (dict_item row ''side'') (\<lambda>side.
       Inr \<lparr>tr_metadata = metadata ins t (hx_now env) None, trade_id = str_of_value (hx_repr env) i, tr_price = p,
         tr_quantity = q, tr_side = (if side = PStr ''buy'' then BUY else SELL), quantity_unit = CONTRACTS_UNIT\<rparr>))))))"

definition get_recent_trades :: "venue_env \<Rightarrow> instrument \<Rightarrow> int \<Rightarrow> exn + trade list" where
  "get_recent_trades env ins limit =
     (if \<not> (1 \<le> limit \<and> limit \<le> 500) then Inl (ValueError ''OKX trade limit must be between 1 and 500'')
      else bind_sum (get env ''/api/v5/market/trades'' [inst_id ins, (''limit'', PInt limit)]) (\<lambda>payload.
        bind_sum (data_of payload) (\<lambda>rows. bind_sum (iterate rows) (traverse (parse_trade env ins)))))"

definition parse_funding :: "venue_env \<Rightarrow> instrument \<Rightarrow> (string \<times> pyval) list \<Rightarrow> exn + funding_rate" where
  "parse_funding env ins row = bind_sum (ms row ''ts'') (\<lambda>t. bind_sum (dec row ''fundingRate'') (\<lambda>r.
     bind_sum (ms row ''nextFundingTime'') (\<lambda>next_at.
       Inr \<lparr>fr_metadata = metadata ins t (hx_now env) None, rate = r, next_funding_at = Some next_at\<rparr>)))"

definition get_funding_rate :: "venue_env \<Rightarrow> instrument \<Rightarrow> exn + funding_rate" where
  "get_funding_rate env ins = bind_sum (get env ''/api/v5/public/funding-rate'' [inst_id ins]) (\<lambda>payload.
     bind_sum (first_row payload) (parse_funding env ins))"

definition parse_open_interest :: "venue_env \<Rightarrow> instrument \<Rightarrow> (string \<times> pyval) list \<Rightarrow> exn + open_interest" where
  "parse_open_interest env ins row = bind_sum (ms row ''ts'') (\<lambda>t. bind_sum (dec row ''oi'') (\<lambda>v.
     bind_sum (opt_dec (hx_repr env) row ''oiCcy'') (\<lambda>b. bind_sum (opt_dec (hx_repr env) row ''oiUsd'') (\<lambda>n.
       Inr \<lparr>oi_metadata = metadata ins t (hx_now env) None, contracts = v, base_quantity = b, quote_notional = n\<rparr>))))"

definition get_open_interest :: "venue_env \<Rightarrow> instrument \<Rightarrow> exn + open_interest" where
  "get_open_interest env ins =
     bind_sum (get env ''/api/v5/public/open-interest'' [(''instType'', PStr ''SWAP''), inst_id ins]) (\<lambda>payload.
     bind_sum (first_row payload) (parse_open_interest env ins))"

section \<open>Messages\<close>

type_synonym topic = "(string \<times> pyval) list"

definition public_topics :: "instrument list \<Rightarrow> topic list" where
  "public_topics inss = concat (map (\<lambda>i. map (\<lambda>channel. [(''channel'', PStr channel), inst_id i])
     [''tickers'', ''trades'', ''books'', ''funding-rate'', ''open-interest'']) inss)"

definition business_topics :: "instrument list \<Rightarrow> topic list" where
  "business_topics inss = concat (map (\<lambda>i. map (\<lambda>(_, bar). [(''channel'', PStr (''candle'' @ bar)), inst_id i])
     interval_to_okx) inss)"

definition subscription_message :: "topic list \<Rightarrow> pyval" where
  "subscription_message topics = PDict [(''id'', PStr ''qsapublic''), (''op'', PStr ''subscribe''),
     (''args'', PList (map PDict topics))]"

text \<open>The emission is recorded before the row is parsed.\<close>

definition emission_key :: "string \<Rightarrow> string \<Rightarrow> string" where
  "emission_key channel symbol = channel @ '':'' @ symbol"

definition should_emit_derivative :: "string \<Rightarrow> string \<Rightarrow> pyval \<Rightarrow> (okx, bool) eff" where
  "should_emit_derivative channel symbol timestamp = (let key = emission_key channel symbol in
     bindE (from_sum (int_of_value timestamp)) (\<lambda>current.
     bindE (getE (\<lambda>b. current - (case map_of (ox_last_emit b) key of None \<Rightarrow> 0 | Some n \<Rightarrow> n) < ox_poll_seconds b * 1000)) (\<lambda>early.
     if early then ret False
     else thenE (modifyE (\<lambda>b. b\<lparr>ox_last_emit := AList.update key current (ox_last_emit b)\<rparr>)) (ret True))))"

definition derivative_message ::
  "string \<Rightarrow> string \<Rightarrow> (string \<times> pyval) list \<Rightarrow> exn + market_event \<Rightarrow> (okx, market_event list) eff"
where
  "derivative_message channel symbol row event =
     bindE (from_sum (dict_item row ''ts'')) (\<lambda>ts.
     bindE (should_emit_derivative channel symbol ts) (\<lambda>emit.
     if \<not> emit then ret [] else bindE (from_sum event) (\<lambda>e. ret [e])))"

definition books_message :: "venue_env \<Rightarrow> instrument \<Rightarrow> (string \<times> pyval) list \<Rightarrow> (string \<times> pyval) list \<Rightarrow> exn + market_event list" where
  "books_message env ins payload row = bind_sum (book_metadata ins (hx_now env) row) (\<lambda>md.
     if dict_get payload ''action'' = PStr ''snapshot''
     then bind_sum (book_snapshot md 100 row) (\<lambda>s. Inr [SnapshotEvent s])
     else bind_sum (levels None row ''bids'') (\<lambda>bs. bind_sum (levels None row ''asks'') (\<lambda>xs.
       bind_sum (num row ''prevSeqId'') (\<lambda>prev.
         Inr [DeltaEvent \<lparr>dl_metadata = md, dl_bids = bs, dl_asks = xs, first_sequence_id = None,
           previous_sequence_id = Some prev\<rparr>]))))"

definition candles_message :: "venue_env \<Rightarrow> instrument \<Rightarrow> string \<Rightarrow> pyval list \<Rightarrow> exn + market_event list" where
  "candles_message env ins code rows = (case map_of okx_to_interval code of
       None \<Rightarrow> Inl (KeyError code)
     | Some iv \<Rightarrow> bind_sum (traverse (parse_candle ins iv (hx_now env)) rows) (\<lambda>cs. Inr (map CandleEvent cs)))"

definition parse_channel ::
  "venue_env \<Rightarrow> instrument \<Rightarrow> string \<Rightarrow> string \<Rightarrow> pyval list \<Rightarrow> (string \<times> pyval) list \<Rightarrow> (okx, market_event list) eff"
where
  "parse_channel env ins channel symbol rows payload = (let head = as_dict (hd rows) in
     if channel = ''tickers'' then from_sum (bind_sum head (\<lambda>r. bind_sum (parse_ticker env ins r) (\<lambda>x. Inr [TickerEvent x])))
     else if channel = ''trades'' then from_sum (bind_sum (traverse (parse_trade env ins) rows) (\<lambda>ts. Inr (map TradeEvent ts)))
     else if channel = ''funding-rate'' then bindE (from_sum head) (\<lambda>r.
       derivative_message channel symbol r (bind_sum (parse_funding env ins r) (\<lambda>x. Inr (FundingEvent x))))
     else if channel = ''open-interest'' then bindE (from_sum head) (\<lambda>r.
       derivative_message channel symbol r (bind_sum (parse_open_interest env ins r) (\<lambda>x. Inr (OpenInterestEvent x))))
     else if channel = ''books'' then from_sum (bind_sum head (books_message env ins payload))
     else if str_startswith channel ''candle'' then from_sum (candles_message env ins (drop 6 channel) rows)
     else ret [])"

definition parse_ws_message :: "venue_env \<Rightarrow> (string \<times> pyval) list \<Rightarrow> (okx, market_event list) eff" where
  "parse_ws_message env payload = (case (dict_get payload ''arg'', dict_get payload ''data'') of
       (PDict arg, PList rows) \<Rightarrow>
         if rows = [] then ret []
         else (let text = (\<lambda>k. str_of_value (hx_repr env) (dict_get_or arg k (PStr []))) in
           bindE (getE (\<lambda>b. map_of (ox_instruments b) (text ''instId''))) (\<lambda>found. case found of
             None \<Rightarrow> ret []
           | Some ins \<Rightarrow> parse_channel env ins (text ''channel'') (text ''instId'') rows payload))
     | _ \<Rightarrow> ret [])"

end
