(* ===== verification/Hyperliquid_Adapter.thy ===== *)
theory Hyperliquid_Adapter
  imports Venue_Values
begin

text \<open>
  src/src/quant_signal_agent/exchanges/hyperliquid/adapter.py: \<open>HyperliquidPerpetualAdapter\<close>, which turns the
  answers and the messages of Hyperliquid's perpetuals into normalized events. A request is its body; the
  fields of the body are the request's parameters, its type the path.
\<close>

section \<open>State\<close>

record hyperliquid =
  hl_poll_seconds :: int
  hl_last_emit :: "(string \<times> int) list"
  hl_instruments :: "(string \<times> instrument) list"

definition interval_hours :: "(string \<times> int) list" where
  "interval_hours = [(''1h'', 1), (''4h'', 4)]"

definition max_book_depth :: nat where
  "max_book_depth = 20"

definition coin_of :: "string \<Rightarrow> string" where
  "coin_of symbol = hd (str_split CHR ''/'' symbol)"

definition coin_instrument :: "string \<Rightarrow> instrument" where
  "coin_instrument symbol = \<lparr>exchange = HYPERLIQUID, market_type = LINEAR_PERPETUAL, exchange_symbol = coin_of symbol,
     canonical_symbol = symbol, base_asset = coin_of symbol, quote_asset = ''USDT'', settlement_asset = ''USDC''\<rparr>"

definition new_hyperliquid :: "string list \<Rightarrow> int \<Rightarrow> exn + hyperliquid" where
  "new_hyperliquid symbols poll =
     (if \<not> (5 \<le> poll \<and> poll \<le> 15) then Inl (ValueError ''Funding/OI polling must be between 5 and 15 seconds'')
      else Inr \<lparr>hl_poll_seconds = poll, hl_last_emit = [],
        hl_instruments = fold (\<lambda>s d. AList.update (coin_of s) (coin_instrument s) d) symbols []\<rparr>)"

section \<open>Parsing\<close>

definition parse_candle :: "venue_env \<Rightarrow> datetime \<Rightarrow> instrument \<Rightarrow> pyval \<Rightarrow> exn + candle" where
  "parse_candle env received ins v = bind_sum (as_dict v) (\<lambda>row. bind_sum (ms row ''T'') (\<lambda>closed_at.
     let txt = (\<lambda>k. bind_sum (dict_item row k) (decimal_of_text (hx_repr env)));
         md = (if closed_at \<le> received then metadata ins closed_at received None else received_only ins received) in
     bind_sum (dict_item row ''i'') (\<lambda>iv. bind_sum (ms row ''t'') (\<lambda>opened_at.
     bind_sum (txt ''o'') (\<lambda>o1. bind_sum (txt ''h'') (\<lambda>h. bind_sum (txt ''l'') (\<lambda>l. bind_sum (txt ''c'') (\<lambda>c.
     bind_sum (txt ''v'') (\<lambda>vol.
       check_candle \<lparr>cd_metadata = md, interval = str_of_value (hx_repr env) iv, open_time = opened_at,
         close_time = closed_at, c_open = o1, high = h, low = l, close = c, base_volume = vol, quote_volume = None,
         is_closed = (closed_at \<le> received), taker_buy_base_volume = None, taker_buy_quote_volume = None\<rparr>)))))))))"

text \<open>\<open>[[item["px"], item["sz"]] for item in side if isinstance(item, dict)]\<close>\<close>

fun side_rows :: "pyval list \<Rightarrow> exn + pyval list" where
  "side_rows [] = Inr []"
| "side_rows (PDict d # items) = bind_sum (dict_item d ''px'') (\<lambda>p. bind_sum (dict_item d ''sz'') (\<lambda>s.
     bind_sum (side_rows items) (\<lambda>rows. Inr (PList [p, s] # rows))))"
| "side_rows (_ # items) = side_rows items"

definition book_time :: "venue_env \<Rightarrow> (string \<times> pyval) list \<Rightarrow> datetime \<Rightarrow> exn + int" where
  "book_time env row received = int_of_value (dict_get_or row ''time'' (PInt (hx_ms env received)))"

definition parse_book :: "venue_env \<Rightarrow> datetime \<Rightarrow> instrument \<Rightarrow> (string \<times> pyval) list \<Rightarrow> exn + order_book_snapshot" where
  "parse_book env received ins row = (case dict_get row ''levels'' of
       PList [buyers, sellers] \<Rightarrow>
         bind_sum (book_time env row received) (\<lambda>stamp.
         bind_sum (bind_sum (iterate buyers) side_rows) (\<lambda>bids. bind_sum (bind_sum (iterate sellers) side_rows) (\<lambda>asks.
         bind_sum (from_milliseconds (PInt stamp)) (\<lambda>t.
         bind_sum (book_levels (Some max_book_depth) (PList bids)) (\<lambda>bs.
         bind_sum (book_levels (Some max_book_depth) (PList asks)) (\<lambda>xs.
           Inr \<lparr>sn_metadata = metadata ins t received (Some stamp), sn_bids = bs, sn_asks = xs,
             sn_depth = int max_book_depth\<rparr>))))))
     | _ \<Rightarrow> Inl (response_error ''Invalid Hyperliquid order-book levels''))"

definition parse_trade :: "venue_env \<Rightarrow> datetime \<Rightarrow> instrument \<Rightarrow> pyval \<Rightarrow> exn + trade" where
  "parse_trade env received ins v = bind_sum (as_dict v) (\<lambda>row. bind_sum (num row ''time'') (\<lambda>stamp.
     bind_sum (from_milliseconds (PInt stamp)) (\<lambda>t. bind_sum (dict_item row ''tid'') (\<lambda>i.
     bind_sum (bind_sum (dict_item row ''px'') (decimal_of_text (hx_repr env))) (\<lambda>p.
     bind_sum (bind_sum (dict_item row ''sz'') (decimal_of_text (hx_repr env))) (\<lambda>q.
     bind_sum (dict_item row ''side'') (\<lambda>side.
       Inr \<lparr>tr_metadata = metadata ins t received None,
         trade_id = str_of_int stamp @ '':'' @ exchange_symbol ins @ '':'' @ str_of_value (hx_repr env) i,
         tr_price = p, tr_quantity = q, tr_side = (if side = PStr ''B'' then BUY else SELL), quantity_unit = BASE_UNIT\<rparr>)))))))"

definition parse_ticker :: "venue_env \<Rightarrow> datetime \<Rightarrow> instrument \<Rightarrow> (string \<times> pyval) list \<Rightarrow> exn + ticker" where
  "parse_ticker env received ins context =
     bind_sum (opt_dec (hx_repr env) context ''markPx'') (\<lambda>mark. bind_sum (opt_dec (hx_repr env) context ''midPx'') (\<lambda>mid.
     bind_sum (opt_dec (hx_repr env) context ''oraclePx'') (\<lambda>oracle.
     bind_sum (opt_dec (hx_repr env) context ''dayNtlVlm'') (\<lambda>volume.
       Inr \<lparr>tk_metadata = received_only ins received, last_price = None, mark_price = mark, index_price = oracle,
         tk_mid_price = mid, tk_best_bid = None, tk_best_ask = None, base_volume_24h = None,
         quote_volume_24h = volume\<rparr>))))"

text \<open>\<open>received.replace(minute=0, second=0, microsecond=0) + timedelta(hours=1)\<close>, in UTC\<close>

definition next_hour :: "datetime \<Rightarrow> datetime" where
  "next_hour t = Datetime (us t - us t mod seconds 3600 + seconds 3600)"

definition parse_funding :: "venue_env \<Rightarrow> datetime \<Rightarrow> instrument \<Rightarrow> (string \<times> pyval) list \<Rightarrow> exn + funding_rate" where
  "parse_funding env received ins context =
     bind_sum (bind_sum (dict_item context ''funding'') (decimal_of_text (hx_repr env))) (\<lambda>r.
       Inr \<lparr>fr_metadata = received_only ins received, rate = r, next_funding_at = Some (next_hour received)\<rparr>)"

definition parse_open_interest :: "venue_env \<Rightarrow> datetime \<Rightarrow> instrument \<Rightarrow> (string \<times> pyval) list \<Rightarrow> exn + open_interest" where
  "parse_open_interest env received ins context =
     bind_sum (bind_sum (dict_item context ''openInterest'') (decimal_of_text (hx_repr env))) (\<lambda>v.
     bind_sum (opt_dec (hx_repr env) context ''markPx'') (\<lambda>mark.
       Inr \<lparr>oi_metadata = received_only ins received, contracts = v, base_quantity = Some v,
         quote_notional = map_option (dmul v) mark\<rparr>))"

section \<open>Requests\<close>

definition check_info :: "pyval \<Rightarrow> pyval call_outcome" where
  "check_info payload = (case payload of
       PDict d \<Rightarrow> if dict_get d ''status'' = PStr ''err''
         then Failed (response_error ''Hyperliquid public info request failed'') else Returned payload
     | _ \<Rightarrow> Returned payload)"

definition info :: "venue_env \<Rightarrow> string \<Rightarrow> params \<Rightarrow> exn + pyval" where
  "info env = request env check_info"

definition list_or :: "string \<Rightarrow> pyval \<Rightarrow> exn + pyval list" where
  "list_or message v = (case v of PList xs \<Rightarrow> Inr xs | _ \<Rightarrow> Inl (response_error message))"

definition listed_coin :: "(pyval \<Rightarrow> string) \<Rightarrow> pyval \<Rightarrow> string list" where
  "listed_coin repr row = (case row of
       PDict d \<Rightarrow> if truthy_value (dict_get_or d ''isDelisted'' (PBool False)) then []
         else [str_of_value repr (dict_get d ''name'')]
     | _ \<Rightarrow> [])"

definition field_of :: "pyval \<Rightarrow> string \<Rightarrow> pyval" where
  "field_of v k = (case v of PDict d \<Rightarrow> dict_get d k | _ \<Rightarrow> PNone)"

definition get_instruments :: "venue_env \<Rightarrow> hyperliquid \<Rightarrow> exn + instrument list" where
  "get_instruments env b = bind_sum (info env ''meta'' []) (\<lambda>payload.
     bind_sum (list_or ''Invalid Hyperliquid metadata response'' (field_of payload ''universe'')) (\<lambda>universe.
     let available = set (concat (map (listed_coin (hx_repr env)) universe)) in
     Inr (map snd (filter (\<lambda>(coin, _). coin \<in> available) (hl_instruments b)))))"

text \<open>\<open>candles[-limit:]\<close> for a positive limit\<close>

definition last_items :: "int \<Rightarrow> 'a list \<Rightarrow> 'a list" where
  "last_items n xs = drop (length xs - nat n) xs"

definition get_candles :: "venue_env \<Rightarrow> instrument \<Rightarrow> string \<Rightarrow> int \<Rightarrow> exn + candle list" where
  "get_candles env ins iv limit = (case map_of interval_hours iv of
       None \<Rightarrow> Inl (ValueError (''Unsupported Hyperliquid interval: '' @ iv))
     | Some h \<Rightarrow>
         if \<not> (1 \<le> limit \<and> limit \<le> 5000)
         then Inl (ValueError ''Hyperliquid candle limit must be between 1 and 5000'')
         else (let stop = hx_now env; start = dt_add stop (- seconds (3600 * h * (limit + 1))) in
           bind_sum (info env ''candleSnapshot'' [(''req'', PDict [(''coin'', PStr (exchange_symbol ins)),
             (''interval'', PStr iv), (''startTime'', PInt (hx_ms env start)), (''endTime'', PInt (hx_ms env stop))])]) (\<lambda>payload.
           bind_sum (list_or ''Invalid Hyperliquid candle response'' payload) (\<lambda>rows.
           bind_sum (traverse (parse_candle env stop ins) rows) (\<lambda>cs. Inr (last_items limit cs))))))"

definition coin :: "instrument \<Rightarrow> params" where
  "coin ins = [(''coin'', PStr (exchange_symbol ins))]"

definition get_order_book_snapshot :: "venue_env \<Rightarrow> instrument \<Rightarrow> int \<Rightarrow> exn + order_book_snapshot" where
  "get_order_book_snapshot env ins d =
     (if d \<noteq> 100 then Inl (ValueError ''Configured cross-exchange order book depth must be 100'')
      else bind_sum (info env ''l2Book'' (coin ins)) (\<lambda>payload. case payload of
        PDict row \<Rightarrow> parse_book env (hx_now env) ins row
      | _ \<Rightarrow> Inl (response_error ''Invalid Hyperliquid order-book response'')))"

text \<open>The first pair of the lists zipped with \<open>strict=True\<close> that names the instrument\<close>

fun find_context :: "string \<Rightarrow> pyval list \<Rightarrow> pyval list \<Rightarrow> exn + (string \<times> pyval) list option" where
  "find_context name (row # rows) (context # contexts) =
     (if (case row of PDict d \<Rightarrow> dict_get d ''name'' = PStr name | _ \<Rightarrow> False)
      then Inr (case context of PDict c \<Rightarrow> Some c | _ \<Rightarrow> None)
      else find_context name rows contexts)"
| "find_context name [] [] = Inr None"
| "find_context name _ _ = Inl (ValueError ''zip() arguments have different lengths'')"

definition asset_context :: "venue_env \<Rightarrow> instrument \<Rightarrow> exn + (string \<times> pyval) list" where
  "asset_context env ins = bind_sum (info env ''metaAndAssetCtxs'' []) (\<lambda>payload. case payload of
       PList [meta_data, contexts] \<Rightarrow> (case (field_of meta_data ''universe'', contexts) of
           (PList universe, PList cs) \<Rightarrow> bind_sum (find_context (exchange_symbol ins) universe cs) (\<lambda>found. case found of
               Some c \<Rightarrow> Inr c
             | None \<Rightarrow> Inl (response_error (''Missing Hyperliquid context for '' @ exchange_symbol ins)))
         | _ \<Rightarrow> Inl (response_error ''Invalid Hyperliquid asset-context schema''))
     | _ \<Rightarrow> Inl (response_error ''Invalid Hyperliquid asset-context response''))"

definition get_ticker :: "venue_env \<Rightarrow> instrument \<Rightarrow> exn + ticker" where
  "get_ticker env ins = bind_sum (asset_context env ins) (parse_ticker env (hx_now env) ins)"

definition get_recent_trades :: "venue_env \<Rightarrow> instrument \<Rightarrow> int \<Rightarrow> exn + trade list" where
  "get_recent_trades env ins limit =
     (if \<not> (1 \<le> limit \<and> limit \<le> 2000) then Inl (ValueError ''Hyperliquid trade limit must be between 1 and 2000'')
      else bind_sum (info env ''recentTrades'' (coin ins)) (\<lambda>payload.
        bind_sum (list_or ''Invalid Hyperliquid recent-trades response'' payload) (\<lambda>rows.
          traverse (parse_trade env (hx_now env) ins) (last_items limit rows))))"

definition get_funding_rate :: "venue_env \<Rightarrow> instrument \<Rightarrow> exn + funding_rate" where
  "get_funding_rate env ins = bind_sum (asset_context env ins) (parse_funding env (hx_now env) ins)"

definition get_open_interest :: "venue_env \<Rightarrow> instrument \<Rightarrow> exn + open_interest" where
  "get_open_interest env ins = bind_sum (asset_context env ins) (parse_open_interest env (hx_now env) ins)"

section \<open>Messages\<close>

definition subscriptions_of :: "instrument \<Rightarrow> params list" where
  "subscriptions_of ins = [(''type'', PStr ''trades'') # coin ins, (''type'', PStr ''l2Book'') # coin ins,
       (''type'', PStr ''activeAssetCtx'') # coin ins] @
     map (\<lambda>(iv, _). ((''type'', PStr ''candle'') # coin ins) @ [(''interval'', PStr iv)]) interval_hours"

definition subscriptions :: "instrument list \<Rightarrow> pyval list" where
  "subscriptions inss = concat (map (\<lambda>i. map (\<lambda>s. PDict [(''method'', PStr ''subscribe''), (''subscription'', PDict s)])
     (subscriptions_of i)) inss)"

text \<open>
  The rows that are dicts and name, under a key, a known coin, parsed in order. \<open>str(row.get(k))\<close> and
  \<open>str(row[k])\<close> agree where the coin is known, except that a coin named None may be meant by a missing key.
\<close>

fun parse_rows ::
  "(pyval \<Rightarrow> string) \<Rightarrow> (string \<times> instrument) list \<Rightarrow> string \<Rightarrow> (instrument \<Rightarrow> pyval \<Rightarrow> exn + 'a) \<Rightarrow> pyval list \<Rightarrow> exn + 'a list"
where
  "parse_rows repr inss k parse [] = Inr []"
| "parse_rows repr inss k parse (PDict d # rows) = (case map_of inss (str_of_value repr (dict_get d k)) of
       None \<Rightarrow> parse_rows repr inss k parse rows
     | Some ins \<Rightarrow> bind_sum (dict_item d k) (\<lambda>_. bind_sum (parse ins (PDict d)) (\<lambda>x.
         bind_sum (parse_rows repr inss k parse rows) (\<lambda>xs. Inr (x # xs)))))"
| "parse_rows repr inss k parse (_ # rows) = parse_rows repr inss k parse rows"

definition context_due :: "venue_env \<Rightarrow> string \<Rightarrow> hyperliquid \<Rightarrow> bool" where
  "context_due env name b \<longleftrightarrow> hl_poll_seconds b * 1000 \<le>
     hx_ms env (hx_now env) - (case map_of (hl_last_emit b) name of None \<Rightarrow> 0 | Some n \<Rightarrow> n)"

definition asset_message ::
  "venue_env \<Rightarrow> instrument \<Rightarrow> string \<Rightarrow> (string \<times> pyval) list \<Rightarrow> (hyperliquid, market_event list) eff"
where
  "asset_message env ins name context =
     bindE (from_sum (parse_ticker env (hx_now env) ins context)) (\<lambda>tk.
     bindE (getE (context_due env name)) (\<lambda>due.
     if \<not> due then ret [TickerEvent tk]
     else bindE (from_sum (bind_sum (parse_funding env (hx_now env) ins context) (\<lambda>fr.
         bind_sum (parse_open_interest env (hx_now env) ins context) (\<lambda>oi. Inr [FundingEvent fr, OpenInterestEvent oi])))) (\<lambda>es.
       thenE (modifyE (\<lambda>b. b\<lparr>hl_last_emit := AList.update name (hx_ms env (hx_now env)) (hl_last_emit b)\<rparr>))
         (ret (TickerEvent tk # es)))))"

definition parse_data ::
  "venue_env \<Rightarrow> (string \<times> instrument) list \<Rightarrow> pyval \<Rightarrow> pyval \<Rightarrow> (hyperliquid, market_event list) eff"
where
  "parse_data env inss channel data =
     (let name = (\<lambda>d. str_of_value (hx_repr env) (dict_get_or d ''coin'' (PStr []))) in
      case (channel, data) of
        (PStr ch, PList rows) \<Rightarrow>
          if ch = ''trades'' then from_sum (bind_sum
            (parse_rows (hx_repr env) inss ''coin'' (parse_trade env (hx_now env)) rows) (\<lambda>ts. Inr (map TradeEvent ts)))
          else if ch = ''candle'' then from_sum (bind_sum
            (parse_rows (hx_repr env) inss ''s'' (parse_candle env (hx_now env)) rows) (\<lambda>cs. Inr (map CandleEvent cs)))
          else ret []
      | (PStr ch, PDict d) \<Rightarrow>
          if ch = ''l2Book'' then (case map_of inss (name d) of
              None \<Rightarrow> ret []
            | Some ins \<Rightarrow> from_sum (bind_sum (parse_book env (hx_now env) ins d) (\<lambda>s. Inr [SnapshotEvent s])))
          else if ch = ''candle'' then from_sum (bind_sum
            (parse_rows (hx_repr env) inss ''s'' (parse_candle env (hx_now env)) [data]) (\<lambda>cs. Inr (map CandleEvent cs)))
          else if ch = ''activeAssetCtx'' then (case (map_of inss (name d), dict_get d ''ctx'') of
              (Some ins, PDict context) \<Rightarrow> asset_message env ins (name d) context
            | _ \<Rightarrow> ret [])
          else ret []
      | _ \<Rightarrow> ret [])"

text \<open>\<open>channel in {...}\<close> hashes the channel first.\<close>

definition parse_ws_message :: "venue_env \<Rightarrow> (string \<times> pyval) list \<Rightarrow> (hyperliquid, market_event list) eff" where
  "parse_ws_message env payload = (let channel = dict_get payload ''channel''; data = dict_get payload ''data'' in
     bindE (from_sum (known [(''subscriptionResponse'', ()), (''pong'', ())] channel)) (\<lambda>control.
     if control \<noteq> None \<or> data = PNone then ret []
     else bindE (getE hl_instruments) (\<lambda>inss. parse_data env inss channel data)))"

end
