(* ===== verification/Emission_Gate.thy ===== *)
theory Emission_Gate
  imports Binance_Invariant Bybit_Adapter Okx_Adapter Hyperliquid_Adapter
begin

text \<open>
  Every derivatives adapter lets a funding rate or an open interest of a symbol through only when the last
  one it let through is old enough. The locale states what one message does to the recorded time, and shows
  that the emissions of any run are apart; each adapter interprets it for its own record.
\<close>

section \<open>Runs\<close>

definition is_funding :: "market_event \<Rightarrow> bool" where
  "is_funding e = (case e of FundingEvent _ \<Rightarrow> True | _ \<Rightarrow> False)"

definition is_interest :: "market_event \<Rightarrow> bool" where
  "is_interest e = (case e of OpenInterestEvent _ \<Rightarrow> True | _ \<Rightarrow> False)"

definition about :: "(market_event \<Rightarrow> bool) \<Rightarrow> string \<Rightarrow> market_event \<Rightarrow> bool" where
  "about kind k e \<longleftrightarrow> kind e \<and> exchange_symbol (event_instrument e) = k"

definition event_time :: "market_event \<Rightarrow> datetime" where
  "event_time e = exchange_timestamp (event_meta e)"

definition yielded :: "exn + market_event list \<Rightarrow> market_event list" where
  "yielded r = (case r of Inl _ \<Rightarrow> [] | Inr es \<Rightarrow> es)"

fun emitted :: "('m \<Rightarrow> ('s, market_event list) eff) \<Rightarrow> (market_event \<Rightarrow> bool) \<Rightarrow> 'm list \<Rightarrow> 's \<Rightarrow> market_event list" where
  "emitted step chosen [] s = []"
| "emitted step chosen (m # inputs) s =
     filter chosen (yielded (fst (step m s))) @ emitted step chosen inputs (snd (step m s))"

definition apart :: "int \<Rightarrow> (datetime \<Rightarrow> int) \<Rightarrow> market_event \<Rightarrow> market_event \<Rightarrow> bool" where
  "apart gap millis d e \<longleftrightarrow> millis (event_time d) + gap \<le> millis (event_time e)"

text \<open>What one message may do: leave the record alone and emit nothing, or advance it and emit at most once.\<close>

definition gated ::
  "int \<Rightarrow> (datetime \<Rightarrow> int) \<Rightarrow> (market_event \<Rightarrow> bool) \<Rightarrow> int \<Rightarrow> int \<Rightarrow> market_event list \<Rightarrow> bool"
where
  "gated gap millis chosen before after es \<longleftrightarrow>
     filter chosen es = [] \<and> after = before \<or>
     before + gap \<le> after \<and> (filter chosen es = [] \<or> (\<exists>e. filter chosen es = [e] \<and> millis (event_time e) = after))"

locale emission_gate =
  fixes step :: "'m \<Rightarrow> ('s, market_event list) eff"
    and last_at :: "'s \<Rightarrow> int"
    and millis :: "datetime \<Rightarrow> int"
    and gap :: int
    and chosen :: "market_event \<Rightarrow> bool"
    and good :: "'s \<Rightarrow> bool"
  assumes good_step: "good s \<Longrightarrow> good (snd (step m s))"
    and gated_step: "good s \<Longrightarrow>
      gated gap millis chosen (last_at s) (last_at (snd (step m s))) (yielded (fst (step m s)))"
begin

lemma emitted_apart:
  assumes "good s" and "0 \<le> gap"
  shows "sorted_wrt (apart gap millis) (emitted step chosen inputs s) \<and>
    (\<forall>e \<in> set (emitted step chosen inputs s). last_at s + gap \<le> millis (event_time e))"
  using assms(1)
proof (induction inputs arbitrary: s)
  case (Cons m inputs)
  let ?t = "snd (step m s)" let ?now = "filter chosen (yielded (fst (step m s)))"
  have IH: "sorted_wrt (apart gap millis) (emitted step chosen inputs ?t)"
    "\<forall>e \<in> set (emitted step chosen inputs ?t). last_at ?t + gap \<le> millis (event_time e)"
    using Cons.IH [OF good_step [OF Cons.prems]] by simp_all
  from gated_step [OF Cons.prems] consider
      "?now = []" "last_at ?t = last_at s"
    | "?now = []" "last_at s + gap \<le> last_at ?t"
    | e where "?now = [e]" "millis (event_time e) = last_at ?t" "last_at s + gap \<le> last_at ?t"
    unfolding gated_def by blast
  then show ?case
  proof cases
    case 2
    then have "last_at s + gap \<le> last_at ?t + gap" using assms(2) by simp
    with IH 2 show ?thesis by fastforce
  next
    case 3
    have "last_at s + gap \<le> millis (event_time d)" if "d \<in> set (emitted step chosen inputs ?t)" for d
      using IH(2) that 3(3) assms(2) by fastforce
    with IH 3 show ?thesis by (simp add: apart_def [of _ _ e])
  qed (use IH in simp)
qed simp

end

section \<open>Shared facts\<close>

definition self_named :: "(string \<times> instrument) list \<Rightarrow> bool" where
  "self_named d \<longleftrightarrow> (\<forall>(k, i) \<in> set d. exchange_symbol i = k)"

lemma self_named_get: "self_named d \<Longrightarrow> map_of d k = Some i \<Longrightarrow> exchange_symbol i = k"
  by (auto simp: self_named_def dest!: map_of_SomeD)

lemma self_named_update: "self_named d \<Longrightarrow> exchange_symbol i = k \<Longrightarrow> self_named (AList.update k i d)"
  by (auto simp: self_named_def dest!: in_update)

lemma self_named_fold: "self_named d \<Longrightarrow> self_named (fold (\<lambda>i. AList.update (exchange_symbol i) i) inss d)"
  by (induction inss arbitrary: d) (simp_all add: self_named_update)

lemma named_well_self_named: "named_well d \<Longrightarrow> self_named d"
  by (auto simp: named_well_def self_named_def)

lemma wp_from_sum [wp_rules]: "wp (from_sum v) Q E s = (case v of Inl e \<Rightarrow> E e s | Inr a \<Rightarrow> Q a s)"
  by (cases v) (simp_all add: from_sum_def wp_rules)

lemma gated_quiet: "filter chosen es = [] \<Longrightarrow> gated gap millis chosen t t es"
  by (simp add: gated_def)

lemma wp_gated:
  "wp m (\<lambda>es t. G (yielded (Inr es)) t) (\<lambda>e t. G [] t) s \<Longrightarrow> G (yielded (fst (m s))) (snd (m s))"
  by (auto simp: wp_def yielded_def split: prod.splits sum.splits)

definition recorded :: "(string \<times> int) list \<Rightarrow> string \<Rightarrow> int" where
  "recorded d k = (case map_of d k of None \<Rightarrow> 0 | Some n \<Rightarrow> n)"

lemma recorded_update: "recorded (AList.update k t d) k' = (if k = k' then t else recorded d k')"
  by (simp add: recorded_def update_conv')

text \<open>A message with the clock at which it is read\<close>

definition at_clock :: "(venue_env \<Rightarrow> 'p \<Rightarrow> 'r) \<Rightarrow> venue_env \<Rightarrow> datetime \<times> 'p \<Rightarrow> 'r" where
  "at_clock parse env m = (case m of (now, payload) \<Rightarrow> parse (env\<lparr>hx_now := now\<rparr>) payload)"

section \<open>Binance\<close>

definition futures_gate :: "int \<Rightarrow> binance \<Rightarrow> bool" where
  "futures_gate poll b \<longleftrightarrow> bn_poll_seconds b = poll \<and> self_named (bn_instruments b)"

lemma futures_gate_step: "keeps (futures_gate poll) (Binance_Futures.parse_ws_message env payload)"
  unfolding Binance_Futures.parse_ws_message_def parse_event_def mark_price_update_def one_def Let_def
  by (intro keeps_rules keeps_modifyE) (auto simp: futures_gate_def)

lemma wp_one [wp_rules]: "wp (one wrap v) Q E s = (case v of Inl e \<Rightarrow> E e s | Inr x \<Rightarrow> Q [wrap x] s)"
  by (cases v) (simp_all add: one_def wp_rules)

text \<open>\<open>gate_post\<close> is the law, \<open>b\<close> the adapter before the message, over the record of the emissions \<open>last\<close>.\<close>

definition gate_post ::
  "int \<Rightarrow> (datetime \<Rightarrow> int) \<Rightarrow> (market_event \<Rightarrow> bool) \<Rightarrow> ('s \<Rightarrow> int) \<Rightarrow> 's \<Rightarrow> market_event list \<Rightarrow> 's \<Rightarrow> bool"
where
  "gate_post gap millis chosen last_at b es t \<longleftrightarrow> gated gap millis chosen (last_at b) (last_at t) es"

definition gates ::
  "int \<Rightarrow> (datetime \<Rightarrow> int) \<Rightarrow> (market_event \<Rightarrow> bool) \<Rightarrow> ('s \<Rightarrow> int) \<Rightarrow> 's \<Rightarrow> ('s, market_event list) eff \<Rightarrow> bool"
where
  "gates gap millis chosen last_at b m \<longleftrightarrow>
     wp m (gate_post gap millis chosen last_at b) (\<lambda>_. gate_post gap millis chosen last_at b []) b"

lemma gates_ret: "filter chosen es = [] \<Longrightarrow> gates gap millis chosen last_at b (ret es)"
  by (simp add: gates_def wp_rules gate_post_def gated_quiet)

lemma gates_raise: "gates gap millis chosen last_at b (raise e)"
  by (simp add: gates_def wp_rules gate_post_def gated_quiet)

lemma gates_from_sum:
  "(\<And>es. v = Inr es \<Longrightarrow> filter chosen es = []) \<Longrightarrow> gates gap millis chosen last_at b (from_sum v)"
  by (cases v) (simp_all add: from_sum_def gates_ret gates_raise)

lemma gates_one: "(\<And>x. \<not> chosen (wrap x)) \<Longrightarrow> gates gap millis chosen last_at b (one wrap v)"
  unfolding one_def by (rule gates_from_sum) (auto simp: bind_sum_Inr)

lemma gates_bind_sum: "(\<And>a. v = Inr a \<Longrightarrow> gates gap millis chosen last_at b (f a)) \<Longrightarrow>
    gates gap millis chosen last_at b (bindE (from_sum v) f)"
  by (cases v) (simp_all add: gates_def wp_rules gate_post_def gated_quiet)

lemma gates_bind_get: "gates gap millis chosen last_at b (f (g b)) \<Longrightarrow> gates gap millis chosen last_at b (bindE (getE g) f)"
  by (simp add: gates_def wp_rules)

lemma gates_if: "(c \<Longrightarrow> gates gap millis chosen last_at b m) \<Longrightarrow> (\<not> c \<Longrightarrow> gates gap millis chosen last_at b n) \<Longrightarrow>
    gates gap millis chosen last_at b (if c then m else n)"
  by simp

lemma gates_law: "gates gap millis chosen last_at b m \<Longrightarrow>
    gated gap millis chosen (last_at b) (last_at (snd (m b))) (yielded (fst (m b)))"
  by (auto simp: gates_def wp_def gate_post_def yielded_def split: prod.splits sum.splits)

lemma about_wrap [simp]:
  "\<not> about is_funding k (TickerEvent x)" "\<not> about is_funding k (TradeEvent t)" "\<not> about is_funding k (DeltaEvent d)"
  "\<not> about is_funding k (CandleEvent c)" "\<not> about is_funding k (SnapshotEvent n)" "\<not> about is_funding k (OpenInterestEvent q)"
  "\<not> about is_interest k (TickerEvent x)" "\<not> about is_interest k (TradeEvent t)" "\<not> about is_interest k (DeltaEvent d)"
  "\<not> about is_interest k (CandleEvent c)" "\<not> about is_interest k (SnapshotEvent n)" "\<not> about is_interest k (FundingEvent f)"
  by (simp_all add: about_def is_funding_def is_interest_def)

text \<open>
  An emission: the record of one key is set to the time of the events. For another key nothing changes and
  nothing is emitted.
\<close>

lemma gates_record:
  assumes "gated gap millis chosen (last_at b) (last_at (f b)) es"
  shows "gates gap millis chosen last_at b (thenE (modifyE f) (ret es))"
  using assms by (simp add: gates_def wp_rules gate_post_def)

lemma gated_emission:
  assumes "k = symbol \<Longrightarrow> before + gap \<le> t" and "\<forall>e \<in> set es. chosen e \<longrightarrow> k = symbol \<and> millis (event_time e) = t"
    and "length (filter chosen es) \<le> 1" and "after = (if symbol = k then t else before)"
  shows "gated gap millis chosen before after es"
proof (cases "symbol = k")
  case True
  from assms(3) consider "filter chosen es = []" | e where "filter chosen es = [e]"
    by (cases "filter chosen es") auto
  then show ?thesis
  proof cases
    case 2
    then have "e \<in> set es \<and> chosen e" by (metis list.set_intros(1) mem_Collect_eq set_filter)
    with 2 assms True show ?thesis by (auto simp: gated_def)
  qed (use assms True in \<open>auto simp: gated_def\<close>)
next
  case False
  then have "filter chosen es = []" using assms(2) by (auto simp: filter_empty_conv)
  with False assms(4) show ?thesis by (simp add: gated_def)
qed

lemma funding_due_recorded:
  "funding_due env symbol t b \<longleftrightarrow> recorded (bn_last_funding b) symbol + 1000 * bn_poll_seconds b \<le> hx_ms env t"
  by (auto simp: funding_due_def recorded_def)

lemma funding_updates:
  assumes "bn_poll_seconds b = poll" and "exchange_symbol ins = symbol"
  shows "gates (1000 * poll) (hx_ms env) (about is_funding k) (\<lambda>b. recorded (bn_last_funding b) k) b
    (mark_price_update env (metadata ins t r None) symbol t d)"
proof -
  have emits: "gates (1000 * poll) (hx_ms env) (about is_funding k) (\<lambda>b. recorded (bn_last_funding b) k) b
      (thenE (modifyE (\<lambda>b. b\<lparr>bn_last_funding := AList.update symbol (hx_ms env t) (bn_last_funding b)\<rparr>))
        (ret [TickerEvent tk, FundingEvent fr]))"
    if "funding_due env symbol t b" and "fr_metadata fr = metadata ins t r None" for tk fr
    by (rule gates_record, rule gated_emission [where symbol = symbol and t = "hx_ms env t" and k = k])
      (use that assms in \<open>auto simp: funding_due_recorded recorded_update about_def event_instrument_def event_time_def metadata_def is_funding_def\<close>)
  show ?thesis unfolding mark_price_update_def
  proof (intro gates_bind_sum gates_bind_get gates_if)
    fix tk
    show "gates (1000 * poll) (hx_ms env) (about is_funding k) (\<lambda>b. recorded (bn_last_funding b) k) b (ret [TickerEvent tk])"
      by (rule gates_ret) simp
  next
    fix tk fr
    assume due: "\<not> \<not> funding_due env symbol t b"
      and fr: "bind_sum (dec d ''r'') (\<lambda>x. bind_sum (Venue_Values.ms d ''T'') (\<lambda>next_at.
        Inr \<lparr>fr_metadata = metadata ins t r None, rate = x, next_funding_at = Some next_at\<rparr>)) = Inr fr"
    from fr have "fr_metadata fr = metadata ins t r None" unfolding bind_sum_Inr by auto
    with due show "gates (1000 * poll) (hx_ms env) (about is_funding k) (\<lambda>b. recorded (bn_last_funding b) k) b
      (thenE (modifyE (\<lambda>b. b\<lparr>bn_last_funding := AList.update symbol (hx_ms env t) (bn_last_funding b)\<rparr>))
        (ret [TickerEvent tk, FundingEvent fr]))" by (intro emits) simp_all
  qed
qed

lemma subject_of_named:
  assumes "subject_of d kind v = Inr (Some (symbol, ins))" and "self_named d"
  shows "exchange_symbol ins = symbol"
proof -
  have *: "map_of (map (\<lambda>(s, i). (s, (s, i))) d) s = map_option (Pair s) (map_of d s)" for s
    by (induction d) auto
  from assms(1) show ?thesis
    by (auto simp: subject_of_def known_def * split: if_splits pyval.splits intro: self_named_get [OF assms(2)])
qed

lemma futures_gated:
  assumes "futures_gate poll b"
  shows "gates (1000 * poll) (hx_ms env) (about is_funding k) (\<lambda>b. recorded (bn_last_funding b) k) b
    (Binance_Futures.parse_ws_message env payload)"
proof -
  have poll: "bn_poll_seconds b = poll" "self_named (bn_instruments b)" using assms by (simp_all add: futures_gate_def)
  have event: "gates (1000 * poll) (hx_ms env) (about is_funding k) (\<lambda>b. recorded (bn_last_funding b) k) b
      (parse_event env ins symbol kind t d)" if "exchange_symbol ins = symbol" for ins symbol kind t d
    unfolding parse_event_def Let_def
    by (intro gates_if gates_one gates_ret funding_updates poll(1) that) simp_all
  show ?thesis unfolding Binance_Futures.parse_ws_message_def
  proof (intro gates_bind_sum gates_bind_get)
    fix d subject
    assume "subject_of (bn_instruments b) (dict_get d ''e'') (dict_get d ''s'') = Inr subject"
    then show "gates (1000 * poll) (hx_ms env) (about is_funding k) (\<lambda>b. recorded (bn_last_funding b) k) b
      (case subject of None \<Rightarrow> ret [] | Some (symbol, ins) \<Rightarrow>
        bindE (from_sum (from_milliseconds (dict_get_or d ''E'' (now_ms env)))) (\<lambda>t. parse_event env ins symbol (dict_get d ''e'') t d))"
      by (auto split: option.splits intro!: gates_ret gates_bind_sum event dest: subject_of_named [OF _ poll(2)])
  qed
qed

section \<open>Bybit\<close>

definition bybit_gate :: "int \<Rightarrow> bybit \<Rightarrow> bool" where
  "bybit_gate poll b \<longleftrightarrow> by_poll_seconds b = poll \<and> self_named (by_instruments b)"

lemma bybit_gate_step: "keeps (bybit_gate poll) (Bybit_Adapter.parse_ws_message env payload)"
  unfolding Bybit_Adapter.parse_ws_message_def parse_topic_def parse_tickers_def ticker_message_def set_cache_def Let_def
  by (auto intro!: keeps_rules keeps_modifyE simp: bybit_gate_def split: option.splits pyval.splits)

lemma gates_then_modify:
  "last_at (f b) = last_at b \<Longrightarrow> gates gap millis chosen last_at (f b) m \<Longrightarrow> gates gap millis chosen last_at b (thenE (modifyE f) m)"
  by (simp add: gates_def wp_rules gate_post_def [abs_def])

lemma when_given_short: "when_given c k v = Inr xs \<Longrightarrow> length xs \<le> 1 \<and> (\<forall>x \<in> set xs. v = Inr x)"
  by (auto simp: when_given_def bind_sum_Inr split: if_splits)

lemma derivatives_events:
  assumes "derivatives env md cache = Inr es" and "kind = is_funding \<or> kind = is_interest"
  shows "length (filter (about kind k) es) \<le> 1" and "\<forall>e \<in> set es. event_meta e = md"
proof -
  from assms(1) obtain fs qs where es: "es = map FundingEvent fs @ map OpenInterestEvent qs"
    and fs: "when_given cache ''fundingRate'' (funding_of md cache) = Inr fs"
    and qs: "when_given cache ''openInterest'' (cached_open_interest env md cache) = Inr qs"
    by (auto simp: derivatives_def bind_sum_Inr)
  note short = when_given_short [OF fs] when_given_short [OF qs]
  have "\<forall>x \<in> set fs. fr_metadata x = md" using short by (auto simp: funding_of_def bind_sum_Inr)
  moreover have "\<forall>x \<in> set qs. oi_metadata x = md" using short by (auto simp: cached_open_interest_def bind_sum_Inr)
  ultimately show "\<forall>e \<in> set es. event_meta e = md" by (auto simp: es)
  have "filter (about is_funding k) (map OpenInterestEvent xs) = []" "filter (about is_interest k) (map FundingEvent ys) = []"
    for xs ys by (auto simp: filter_empty_conv)
  moreover have "length (filter P (map FundingEvent fs)) \<le> 1" "length (filter P (map OpenInterestEvent qs)) \<le> 1" for P
    using short by (auto intro: order_trans [OF length_filter_le])
  ultimately show "length (filter (about kind k) es) \<le> 1" using assms(2) by (auto simp: es)
qed

lemma derivatives_due_recorded:
  "derivatives_due env symbol t b \<longleftrightarrow> recorded (by_last_emit b) symbol + 1000 * by_poll_seconds b \<le> hx_ms env t"
  by (auto simp: derivatives_due_def recorded_def)

lemma about_meta: "event_meta e = metadata ins t r q \<Longrightarrow> about kind k e \<Longrightarrow> k = exchange_symbol ins \<and> event_time e = t"
  by (simp add: about_def event_instrument_def event_time_def metadata_def)

lemma ticker_gated:
  assumes "by_poll_seconds b = poll" and "exchange_symbol ins = symbol" and kind: "kind = is_funding \<or> kind = is_interest"
  shows "gates (1000 * poll) (hx_ms env) (about kind k) (\<lambda>b. recorded (by_last_emit b) k) b (ticker_message env ins symbol t news)"
proof -
  define cache where "cache = merge news (cache_of b symbol)"
  define c where "c = b\<lparr>by_ticker_cache := AList.update symbol cache (by_ticker_cache b)\<rparr>"
  let ?gates = "gates (1000 * poll) (hx_ms env) (about kind k) (\<lambda>b. recorded (by_last_emit b) k)"
  have silent: "\<not> about kind k (TickerEvent tk)" for tk using kind by auto
  have emits: "?gates c (thenE (modifyE (\<lambda>b. b\<lparr>by_last_emit := AList.update symbol (hx_ms env t) (by_last_emit b)\<rparr>)) (ret (TickerEvent tk # es)))"
    if es: "derivatives env (metadata ins t (hx_now env) None) cache = Inr es" and due: "derivatives_due env symbol t c" for tk es
  proof (rule gates_record, rule gated_emission [where symbol = symbol and t = "hx_ms env t" and k = k])
    show "recorded (by_last_emit c) k + 1000 * poll \<le> hx_ms env t" if "k = symbol"
      using due assms(1) that by (simp add: derivatives_due_recorded c_def)
    show "\<forall>e \<in> set (TickerEvent tk # es). about kind k e \<longrightarrow> k = symbol \<and> hx_ms env (event_time e) = hx_ms env t"
      using derivatives_events(2) [OF es kind] about_meta assms(2) silent by fastforce
    show "length (filter (about kind k) (TickerEvent tk # es)) \<le> 1" using derivatives_events(1) [OF es kind] silent by simp
  qed (simp add: recorded_update)
  have body: "?gates c (if \<not> dict_has cache ''lastPrice'' then ret []
      else bindE (from_sum (parse_ticker env (metadata ins t (hx_now env) None) cache)) (\<lambda>tk.
        bindE (getE (derivatives_due env symbol t)) (\<lambda>due.
        if \<not> due then ret [TickerEvent tk]
        else bindE (from_sum (derivatives env (metadata ins t (hx_now env) None) cache)) (\<lambda>es.
          thenE (modifyE (\<lambda>b. b\<lparr>by_last_emit := AList.update symbol (hx_ms env t) (by_last_emit b)\<rparr>)) (ret (TickerEvent tk # es))))))" for parse_ticker :: "venue_env \<Rightarrow> event_metadata \<Rightarrow> (string \<times> pyval) list \<Rightarrow> exn + ticker"
    by (intro gates_if gates_bind_sum gates_bind_get gates_ret emits) (simp_all add: silent)
  then show ?thesis unfolding ticker_message_def Let_def set_cache_def
    by (intro gates_bind_get gates_then_modify) (simp, rule body [unfolded cache_def c_def])
qed

lemma bybit_gated:
  assumes "bybit_gate poll b" and kind: "kind = is_funding \<or> kind = is_interest"
  shows "gates (1000 * poll) (hx_ms env) (about kind k) (\<lambda>b. recorded (by_last_emit b) k) b (Bybit_Adapter.parse_ws_message env payload)"
proof -
  let ?gates = "gates (1000 * poll) (hx_ms env) (about kind k) (\<lambda>b. recorded (by_last_emit b) k) b"
  have b: "by_poll_seconds b = poll" "self_named (by_instruments b)" using assms(1) by (simp_all add: bybit_gate_def)
  have silent: "\<not> about kind k (TradeEvent tr)" "\<not> about kind k (CandleEvent c)" "\<not> about kind k (SnapshotEvent sn)"
    "\<not> about kind k (DeltaEvent dl)" for tr c sn dl using kind by auto
  have tickers: "?gates (parse_tickers env ins symbol t data)" if "exchange_symbol ins = symbol" for ins symbol t data
    using ticker_gated [OF b(1) that kind]
    by (auto simp: parse_tickers_def set_cache_def split: pyval.splits intro!: gates_bind_get gates_then_modify gates_raise)
  have trades: "?gates (from_sum (bind_sum v (\<lambda>rows. bind_sum (f rows) (\<lambda>ts. Inr (map TradeEvent ts)))))" for v f
    by (rule gates_from_sum) (auto simp: bind_sum_Inr filter_empty_conv silent)
  have book: "?gates (from_sum (book_message env inss payload))" for inss
    by (rule gates_from_sum) (auto simp: book_message_def bind_sum_Inr silent split: option.splits if_splits)
  have klines: "?gates (from_sum (kline_message env inss parts data))" for inss parts data
    by (rule gates_from_sum) (auto simp: kline_message_def bind_sum_Inr silent split: option.splits list.splits)
  have topic: "?gates (parse_topic env topic data t payload)" for topic data t
    unfolding parse_topic_def
    by (intro gates_bind_get gates_if)
      (auto split: option.splits intro!: gates_ret tickers trades book klines self_named_get [OF b(2)])
  show ?thesis unfolding Bybit_Adapter.parse_ws_message_def Let_def
    by (intro gates_if gates_ret gates_bind_sum topic) simp
qed

section \<open>OKX\<close>

definition okx_gate :: "int \<Rightarrow> okx \<Rightarrow> bool" where
  "okx_gate poll b \<longleftrightarrow> ox_poll_seconds b = poll \<and> self_named (ox_instruments b)"

definition whole_millis :: "datetime \<Rightarrow> int" where
  "whole_millis t = us t div 1000"

lemma okx_gate_step: "keeps (okx_gate poll) (Okx_Adapter.parse_ws_message env payload)"
  unfolding Okx_Adapter.parse_ws_message_def parse_channel_def derivative_message_def should_emit_derivative_def Let_def
  by (auto intro!: keeps_rules keeps_modifyE simp: okx_gate_def split: option.splits pyval.splits)

lemma from_milliseconds_int:
  "from_milliseconds v = Inr t \<Longrightarrow> int_of_value v = Inr n \<Longrightarrow> whole_millis t = n"
  by (auto simp: from_milliseconds_def whole_millis_def bind_sum_Inr split: if_splits)

lemma derivative_gated:
  assumes b: "ox_poll_seconds b = poll"
    and event: "\<And>e. event = Inr e \<Longrightarrow> (about kind k e \<longrightarrow> channel = key \<and> k = symbol) \<and>
      (\<exists>v n. dict_item row ''ts'' = Inr v \<and> from_milliseconds v = Inr (event_time e))"
  shows "gates (1000 * poll) whole_millis (about kind k) (\<lambda>b. recorded (ox_last_emit b) (emission_key key k)) b
    (derivative_message channel symbol row event)"
proof -
  let ?gates = "gates (1000 * poll) whole_millis (about kind k) (\<lambda>b. recorded (ox_last_emit b) (emission_key key k))"
  have early: "current - (case map_of (ox_last_emit c) ky of None \<Rightarrow> 0 | Some n \<Rightarrow> n) < ox_poll_seconds c * 1000 \<longleftrightarrow>
      \<not> recorded (ox_last_emit c) ky + 1000 * ox_poll_seconds c \<le> current" for current c ky
    by (auto simp: recorded_def)
  have law: "gated (1000 * poll) whole_millis (about kind k) (recorded (ox_last_emit b) (emission_key key k))
      (recorded (AList.update (emission_key channel symbol) n (ox_last_emit b)) (emission_key key k)) es"
    if ts: "dict_item row ''ts'' = Inr v" "int_of_value v = Inr n"
      and due: "recorded (ox_last_emit b) (emission_key channel symbol) + 1000 * poll \<le> n"
      and es: "es = [] \<or> (\<exists>e. event = Inr e \<and> es = [e])" for v n es
  proof (rule gated_emission [where symbol = "emission_key channel symbol" and t = n and k = "emission_key key k"])
    show "\<forall>e \<in> set es. about kind k e \<longrightarrow> emission_key key k = emission_key channel symbol \<and> whole_millis (event_time e) = n"
      using es event ts from_milliseconds_int by fastforce
  qed (use due es in \<open>auto simp: recorded_update\<close>)
  show ?thesis unfolding derivative_message_def
  proof (rule gates_bind_sum)
    fix v
    assume ts: "dict_item row ''ts'' = Inr v"
    show "?gates b (bindE (should_emit_derivative channel symbol v)
        (\<lambda>emit. if \<not> emit then ret [] else bindE (from_sum event) (\<lambda>e. ret [e])))"
    proof (cases "int_of_value v")
      case (Inl x)
      then show ?thesis by (simp add: gates_def should_emit_derivative_def wp_rules Let_def gate_post_def gated_quiet)
    next
      case (Inr n)
      show ?thesis
      proof (cases "recorded (ox_last_emit b) (emission_key channel symbol) + 1000 * poll \<le> n")
        case False
        with Inr b show ?thesis
          by (simp add: gates_def should_emit_derivative_def wp_rules Let_def early gate_post_def gated_quiet)
      next
        case True
        with Inr b law [OF ts Inr True] show ?thesis
          by (cases event) (simp_all add: gates_def should_emit_derivative_def wp_rules Let_def early gate_post_def)
      qed
    qed
  qed
qed

text \<open>The kinds of event and the channel under which OKX records their emissions\<close>

definition okx_kind :: "(market_event \<Rightarrow> bool) \<Rightarrow> string \<Rightarrow> bool" where
  "okx_kind kind key \<longleftrightarrow> kind = is_funding \<and> key = ''funding-rate'' \<or> kind = is_interest \<and> key = ''open-interest''"

lemma okx_kind_events:
  "okx_kind kind key \<Longrightarrow> about kind k (FundingEvent f) \<longleftrightarrow> key = ''funding-rate'' \<and> exchange_symbol (md_instrument (fr_metadata f)) = k"
  "okx_kind kind key \<Longrightarrow> about kind k (OpenInterestEvent q) \<longleftrightarrow> key = ''open-interest'' \<and> exchange_symbol (md_instrument (oi_metadata q)) = k"
  "okx_kind kind key \<Longrightarrow> \<not> about kind k (TickerEvent t)" "okx_kind kind key \<Longrightarrow> \<not> about kind k (TradeEvent tr)"
  "okx_kind kind key \<Longrightarrow> \<not> about kind k (CandleEvent c)" "okx_kind kind key \<Longrightarrow> \<not> about kind k (SnapshotEvent sn)"
  "okx_kind kind key \<Longrightarrow> \<not> about kind k (DeltaEvent dl)"
  by (auto simp: okx_kind_def about_def is_funding_def is_interest_def event_instrument_def)

lemma okx_gated:
  assumes "okx_gate poll b" and kind: "okx_kind kind key"
  shows "gates (1000 * poll) whole_millis (about kind k) (\<lambda>b. recorded (ox_last_emit b) (emission_key key k)) b
    (Okx_Adapter.parse_ws_message env payload)"
proof -
  let ?gates = "gates (1000 * poll) whole_millis (about kind k) (\<lambda>b. recorded (ox_last_emit b) (emission_key key k)) b"
  have b: "ox_poll_seconds b = poll" "self_named (ox_instruments b)" using assms(1) by (simp_all add: okx_gate_def)
  note silent = okx_kind_events [OF kind]
  have ticker: "?gates (from_sum (bind_sum v (\<lambda>r. bind_sum (f r) (\<lambda>x. Inr [TickerEvent x]))))" for v f
    by (rule gates_from_sum) (auto simp: bind_sum_Inr silent)
  have trades: "?gates (from_sum (bind_sum v (\<lambda>ts. Inr (map TradeEvent ts))))" for v
    by (rule gates_from_sum) (auto simp: bind_sum_Inr filter_empty_conv silent)
  have candles: "?gates (from_sum (candles_message env ins code rows))" for ins code rows
    by (rule gates_from_sum) (auto simp: candles_message_def bind_sum_Inr filter_empty_conv silent split: option.splits)
  have books: "?gates (from_sum (bind_sum v (books_message env ins payload)))" for v ins
    by (rule gates_from_sum) (auto simp: books_message_def bind_sum_Inr silent split: if_splits)
  have funding: "?gates (derivative_message ''funding-rate'' symbol r (bind_sum (Okx_Adapter.parse_funding env ins r) (\<lambda>x. Inr (FundingEvent x))))"
    if "exchange_symbol ins = symbol" for ins symbol r
    by (rule derivative_gated [OF b(1)])
      (use that in \<open>auto simp: silent bind_sum_Inr Okx_Adapter.parse_funding_def Venue_Values.ms_def metadata_def event_time_def\<close>)
  have interest: "?gates (derivative_message ''open-interest'' symbol r (bind_sum (Okx_Adapter.parse_open_interest env ins r) (\<lambda>x. Inr (OpenInterestEvent x))))"
    if "exchange_symbol ins = symbol" for ins symbol r
    by (rule derivative_gated [OF b(1)])
      (use that in \<open>auto simp: silent bind_sum_Inr Okx_Adapter.parse_open_interest_def Venue_Values.ms_def metadata_def event_time_def\<close>)
  have channel: "?gates (parse_channel env ins channel symbol rows payload)" if ins: "exchange_symbol ins = symbol" for ins channel symbol rows
    unfolding parse_channel_def Let_def
    by (intro gates_if gates_bind_sum gates_ret ticker trades candles books) (simp_all add: funding [OF ins] interest [OF ins])
  show ?thesis unfolding Okx_Adapter.parse_ws_message_def Let_def
    by (auto split: pyval.splits option.splits intro!: gates_ret gates_bind_get channel self_named_get [OF b(2)])
qed

section \<open>Hyperliquid\<close>

definition hyperliquid_gate :: "int \<Rightarrow> hyperliquid \<Rightarrow> bool" where
  "hyperliquid_gate poll b \<longleftrightarrow> hl_poll_seconds b = poll \<and> self_named (hl_instruments b)"

lemma hyperliquid_gate_step: "keeps (hyperliquid_gate poll) (Hyperliquid_Adapter.parse_ws_message env payload)"
  unfolding Hyperliquid_Adapter.parse_ws_message_def parse_data_def asset_message_def Let_def
  by (auto intro!: keeps_rules keeps_modifyE simp: hyperliquid_gate_def split: option.splits pyval.splits)

lemma context_due_recorded:
  "context_due env name b \<longleftrightarrow> recorded (hl_last_emit b) name + 1000 * hl_poll_seconds b \<le> hx_ms env (hx_now env)"
  by (auto simp: context_due_def recorded_def)

lemma asset_gated:
  assumes "hl_poll_seconds b = poll" and "exchange_symbol ins = name" and kind: "kind = is_funding \<or> kind = is_interest"
  shows "gates (1000 * poll) (hx_ms env) (about kind k) (\<lambda>b. recorded (hl_last_emit b) k) b (asset_message env ins name context)"
proof -
  let ?gates = "gates (1000 * poll) (hx_ms env) (about kind k) (\<lambda>b. recorded (hl_last_emit b) k) b"
  have silent: "\<not> about kind k (TickerEvent tk)" for tk using kind by auto
  have emits: "?gates (thenE (modifyE (\<lambda>b. b\<lparr>hl_last_emit := AList.update name (hx_ms env (hx_now env)) (hl_last_emit b)\<rparr>)) (ret (TickerEvent tk # es)))"
    if es: "bind_sum (Hyperliquid_Adapter.parse_funding env (hx_now env) ins context) (\<lambda>fr.
         bind_sum (Hyperliquid_Adapter.parse_open_interest env (hx_now env) ins context) (\<lambda>oi. Inr [FundingEvent fr, OpenInterestEvent oi])) = Inr es"
      and due: "context_due env name b" for tk es
  proof (rule gates_record, rule gated_emission [where symbol = name and t = "hx_ms env (hx_now env)" and k = k])
    from es obtain fr q where es': "es = [FundingEvent fr, OpenInterestEvent q]"
      and md: "fr_metadata fr = received_only ins (hx_now env)" "oi_metadata q = received_only ins (hx_now env)"
      by (auto simp: bind_sum_Inr Hyperliquid_Adapter.parse_funding_def Hyperliquid_Adapter.parse_open_interest_def)
    show "recorded (hl_last_emit b) k + 1000 * poll \<le> hx_ms env (hx_now env)" if "k = name"
      using due assms(1) that by (simp add: context_due_recorded)
    show "\<forall>e \<in> set (TickerEvent tk # es). about kind k e \<longrightarrow> k = name \<and> hx_ms env (event_time e) = hx_ms env (hx_now env)"
      using silent assms(2) md by (auto simp: es' about_def event_instrument_def event_time_def received_only_def metadata_def)
    show "length (filter (about kind k) (TickerEvent tk # es)) \<le> 1" using silent kind by (auto simp: es')
  qed (simp add: recorded_update)
  show ?thesis unfolding asset_message_def
    by (intro gates_if gates_bind_sum gates_bind_get gates_ret emits) (simp_all add: silent)
qed

lemma hyperliquid_gated:
  assumes "hyperliquid_gate poll b" and kind: "kind = is_funding \<or> kind = is_interest"
  shows "gates (1000 * poll) (hx_ms env) (about kind k) (\<lambda>b. recorded (hl_last_emit b) k) b
    (Hyperliquid_Adapter.parse_ws_message env payload)"
proof -
  let ?gates = "gates (1000 * poll) (hx_ms env) (about kind k) (\<lambda>b. recorded (hl_last_emit b) k) b"
  have b: "hl_poll_seconds b = poll" "self_named (hl_instruments b)" using assms(1) by (simp_all add: hyperliquid_gate_def)
  have silent: "\<not> about kind k (TradeEvent tr)" "\<not> about kind k (CandleEvent c)" "\<not> about kind k (SnapshotEvent sn)" for tr c sn
    using kind by auto
  have trades: "?gates (from_sum (bind_sum v (\<lambda>ts. Inr (map TradeEvent ts))))" for v
    by (rule gates_from_sum) (auto simp: bind_sum_Inr filter_empty_conv silent)
  have candles: "?gates (from_sum (bind_sum v (\<lambda>ts. Inr (map CandleEvent ts))))" for v
    by (rule gates_from_sum) (auto simp: bind_sum_Inr filter_empty_conv silent)
  have book: "?gates (from_sum (bind_sum v (\<lambda>s. Inr [SnapshotEvent s])))" for v
    by (rule gates_from_sum) (auto simp: bind_sum_Inr silent)
  have named: "?gates (case map_of (hl_instruments b) name of None \<Rightarrow> ret [] | Some ins \<Rightarrow> from_sum (bind_sum (f ins) (\<lambda>s. Inr [SnapshotEvent s])))" for name f
    by (cases "map_of (hl_instruments b) name") (simp_all add: gates_ret book)
  have asset: "?gates (case map_of (hl_instruments b) name of None \<Rightarrow> ret [] | Some ins \<Rightarrow>
      (case v of PDict context \<Rightarrow> asset_message env ins name context | _ \<Rightarrow> ret []))" for name v
  proof (cases "map_of (hl_instruments b) name")
    case (Some ins)
    with asset_gated [OF b(1) self_named_get [OF b(2) Some] kind] show ?thesis by (cases v) (simp_all add: gates_ret)
  qed (simp add: gates_ret)
  have data: "?gates (parse_data env (hl_instruments b) channel data)" for channel data
  proof (cases channel)
    case (PStr ch)
    show ?thesis
    proof (cases data)
      case (PList rows)
      show ?thesis unfolding parse_data_def Let_def PStr PList
        by (simp only: prod.case pyval.case) (intro gates_if trades candles gates_ret, simp)
    next
      case (PDict d)
      show ?thesis unfolding parse_data_def Let_def PStr PDict
        by (simp only: prod.case pyval.case) (intro gates_if named candles asset gates_ret, simp)
    qed (simp_all add: parse_data_def PStr gates_ret Let_def)
  qed (simp_all add: parse_data_def gates_ret Let_def)
  show ?thesis unfolding Hyperliquid_Adapter.parse_ws_message_def Let_def
    by (intro gates_bind_sum gates_if gates_ret gates_bind_get data) simp
qed

section \<open>Interpretations\<close>

lemma new_binance_gate:
  assumes "new_binance symbols poll candle_only dynamic chosen = Inr b" and "\<forall>s \<in> set symbols. pair_symbol s"
  shows "futures_gate poll b"
proof -
  from assms(1) obtain d where d: "instruments_of make_instrument symbols = Inr d"
    and b: "bn_instruments b = d" "bn_poll_seconds b = poll"
    by (auto simp: new_binance_def Let_def bind_sum_Inr split: if_splits)
  show ?thesis
    using named_well_self_named [OF instruments_of_named [OF d make_instrument_pair assms(2)]] b
    by (simp add: futures_gate_def)
qed

lemma self_named_new: "self_named (fold (\<lambda>i. AList.update (exchange_symbol i) i) inss [])"
  by (rule self_named_fold) (simp add: self_named_def)

lemma new_bybit_gate: "new_bybit symbols poll = Inr y \<Longrightarrow> bybit_gate poll y \<and> 0 \<le> poll"
  by (auto simp: new_bybit_def bind_sum_Inr bybit_gate_def self_named_new split: if_splits)

lemma new_okx_gate: "new_okx symbols poll = Inr x \<Longrightarrow> okx_gate poll x"
  by (auto simp: new_okx_def bind_sum_Inr okx_gate_def self_named_new split: if_splits)

lemma new_hyperliquid_gate:
  assumes "new_hyperliquid symbols poll = Inr h" shows "hyperliquid_gate poll h"
proof -
  have "self_named (fold (\<lambda>s. AList.update (coin_of s) (coin_instrument s)) ss d)" if "self_named d" for ss d
    using that by (induction ss arbitrary: d) (simp_all add: self_named_update coin_instrument_def)
  moreover have "self_named []" by (simp add: self_named_def)
  ultimately show ?thesis using assms by (auto simp: new_hyperliquid_def hyperliquid_gate_def split: if_splits)
qed

lemma clocked_gate:
  assumes "\<And>env payload. keeps good (parse env payload)"
    and "\<And>now payload s. good s \<Longrightarrow> gates gap millis chosen last_at s (parse (env\<lparr>hx_now := now\<rparr>) payload)"
  shows "emission_gate (at_clock parse env) last_at millis gap chosen good"
proof (unfold_locales, goal_cases)
  case (1 s m)
  then show ?case using assms(1) by (cases m) (auto simp: at_clock_def keeps_def)
next
  case (2 s m)
  then show ?case using gates_law [OF assms(2) [OF 2, of "fst m" "snd m"]] by (cases m) (simp add: at_clock_def)
qed

interpretation futures_funding: emission_gate "at_clock Binance_Futures.parse_ws_message env"
  "\<lambda>b. recorded (bn_last_funding b) k" "hx_ms env" "1000 * poll" "about is_funding k" "futures_gate poll"
  for env k poll
  by (rule clocked_gate, rule futures_gate_step) (use futures_gated [of poll _ "env\<lparr>hx_now := now\<rparr>" for now] in simp)

interpretation bybit_funding: emission_gate "at_clock Bybit_Adapter.parse_ws_message env"
  "\<lambda>b. recorded (by_last_emit b) k" "hx_ms env" "1000 * poll" "about is_funding k" "bybit_gate poll"
  for env k poll
  by (rule clocked_gate, rule bybit_gate_step) (use bybit_gated [of poll _ is_funding "env\<lparr>hx_now := now\<rparr>" for now] in simp)

interpretation hyperliquid_funding: emission_gate "at_clock Hyperliquid_Adapter.parse_ws_message env"
  "\<lambda>b. recorded (hl_last_emit b) k" "hx_ms env" "1000 * poll" "about is_funding k" "hyperliquid_gate poll"
  for env k poll
  by (rule clocked_gate, rule hyperliquid_gate_step) (use hyperliquid_gated [of poll _ is_funding "env\<lparr>hx_now := now\<rparr>" for now] in simp)

interpretation okx_funding: emission_gate "at_clock Okx_Adapter.parse_ws_message env"
  "\<lambda>b. recorded (ox_last_emit b) (emission_key ''funding-rate'' k)" whole_millis "1000 * poll" "about is_funding k" "okx_gate poll"
  for env k poll
  by (rule clocked_gate, rule okx_gate_step) (simp add: okx_gated okx_kind_def)

interpretation bybit_interest: emission_gate "at_clock Bybit_Adapter.parse_ws_message env"
  "\<lambda>b. recorded (by_last_emit b) k" "hx_ms env" "1000 * poll" "about is_interest k" "bybit_gate poll"
  for env k poll
  by (rule clocked_gate, rule bybit_gate_step) (use bybit_gated [of poll _ is_interest "env\<lparr>hx_now := now\<rparr>" for now] in simp)

interpretation hyperliquid_interest: emission_gate "at_clock Hyperliquid_Adapter.parse_ws_message env"
  "\<lambda>b. recorded (hl_last_emit b) k" "hx_ms env" "1000 * poll" "about is_interest k" "hyperliquid_gate poll"
  for env k poll
  by (rule clocked_gate, rule hyperliquid_gate_step) (use hyperliquid_gated [of poll _ is_interest "env\<lparr>hx_now := now\<rparr>" for now] in simp)

interpretation okx_interest: emission_gate "at_clock Okx_Adapter.parse_ws_message env"
  "\<lambda>b. recorded (ox_last_emit b) (emission_key ''open-interest'' k)" whole_millis "1000 * poll" "about is_interest k" "okx_gate poll"
  for env k poll
  by (rule clocked_gate, rule okx_gate_step) (simp add: okx_gated okx_kind_def)

end
