(* ===== verification/Venue_Feed.thy ===== *)
theory Venue_Feed
  imports Emission_Gate Order_Book_Tracking
begin

text \<open>
  From the venue's JSON to the local book: the depth messages and the depth answers of Binance's futures, read
  by the adapter and delivered to the book of one instrument. A message is honest when it is about another
  symbol or writes down, in numerals that denote its prices and quantities, a delta faithful to the venue's book.
\<close>

section \<open>What the venue writes\<close>

definition renders :: "(decimal \<Rightarrow> string) \<Rightarrow> book_level \<Rightarrow> bool" where
  "renders r l \<longleftrightarrow> level_ok l \<and> decimal_of_string (r (price l)) = Inr (price l) \<and>
     decimal_of_string (r (quantity l)) = Inr (quantity l)"

definition level_row :: "(decimal \<Rightarrow> string) \<Rightarrow> book_level \<Rightarrow> pyval" where
  "level_row r l = PList [PStr (r (price l)), PStr (r (quantity l))]"

definition shown :: "(decimal \<Rightarrow> string) \<Rightarrow> (string \<times> pyval) list \<Rightarrow> string \<Rightarrow> book_level list \<Rightarrow> bool" where
  "shown r row k ls \<longleftrightarrow> map_of row k = Some (PList (map (level_row r) ls)) \<and> (\<forall>l \<in> set ls. renders r l)"

definition delta_shown :: "(decimal \<Rightarrow> string) \<Rightarrow> (string \<times> pyval) list \<Rightarrow> order_book_delta \<Rightarrow> bool" where
  "delta_shown r row d \<longleftrightarrow> shown r row ''b'' (dl_bids d) \<and> shown r row ''a'' (dl_asks d) \<and>
     map_of row ''u'' = map_option PInt (md_sequence_id (dl_metadata d)) \<and>
     map_of row ''U'' = map_option PInt (first_sequence_id d) \<and>
     map_of row ''pu'' = map_option PInt (previous_sequence_id d)"

definition snapshot_shown :: "(decimal \<Rightarrow> string) \<Rightarrow> (string \<times> pyval) list \<Rightarrow> order_book_snapshot \<Rightarrow> bool" where
  "snapshot_shown r row s \<longleftrightarrow> shown r row ''bids'' (sn_bids s) \<and> shown r row ''asks'' (sn_asks s) \<and>
     length (sn_bids s) \<le> 100 \<and> length (sn_asks s) \<le> 100 \<and>
     map_of row ''lastUpdateId'' = map_option PInt (md_sequence_id (sn_metadata s))"

section \<open>What the adapter reads\<close>

lemma level_of_shown: "renders r l \<Longrightarrow> level_of_row (level_row r l) = Inr l"
  by (simp add: renders_def level_of_row_def level_row_def nth_of_def decimal_of_value_def mk_book_level_iff)

lemma traverse_shown: "\<forall>l \<in> set ls. renders r l \<Longrightarrow> traverse level_of_row (map (level_row r) ls) = Inr ls"
  by (induction ls) (simp_all add: level_of_shown)

lemma levels_shown: "shown r row k ls \<Longrightarrow> levels None row k = Inr ls"
  by (simp add: shown_def levels_def dict_item_def book_levels_def first_rows_def iterate_def traverse_shown)

lemma levels_shown_depth: "shown r row k ls \<Longrightarrow> length ls \<le> n \<Longrightarrow> levels (Some n) row k = Inr ls"
  by (simp add: shown_def levels_def dict_item_def book_levels_def first_rows_def traverse_shown)

lemma num_int: "num row k = Inr n \<Longrightarrow> map_of row k = map_option PInt x \<Longrightarrow> x = Some n"
  by (cases x) (auto simp: num_def dict_item_def int_of_value_def)

lemma depth_delta_shown:
  assumes "depth_delta md row = Inr e" and "delta_shown r row d"
  shows "dl_bids e = dl_bids d \<and> dl_asks e = dl_asks d \<and> md_sequence_id (dl_metadata e) = md_sequence_id (dl_metadata d) \<and>
    first_sequence_id e = first_sequence_id d \<and> previous_sequence_id e = previous_sequence_id d"
proof -
  have "levels None row ''b'' = Inr (dl_bids d)" "levels None row ''a'' = Inr (dl_asks d)"
    using assms(2) levels_shown by (auto simp: delta_shown_def)
  with assms num_int show ?thesis by (auto simp: depth_delta_def bind_sum_Inr delta_shown_def)
qed

lemma snapshot_of_shown:
  assumes "snapshot_of ins t received 100 row = Inr e" and "snapshot_shown r row s"
  shows "sn_bids e = sn_bids s \<and> sn_asks e = sn_asks s \<and> md_sequence_id (sn_metadata e) = md_sequence_id (sn_metadata s)"
proof -
  have "levels (Some 100) row ''bids'' = Inr (sn_bids s)" "levels (Some 100) row ''asks'' = Inr (sn_asks s)"
    using assms(2) levels_shown_depth by (auto simp: snapshot_shown_def)
  with assms num_int show ?thesis by (auto simp: snapshot_of_def bind_sum_Inr snapshot_shown_def metadata_def)
qed

lemma faithful_delta_cong:
  assumes "faithful_delta Sb Sa d" and "dl_bids e = dl_bids d" and "dl_asks e = dl_asks d"
    and "md_sequence_id (dl_metadata e) = md_sequence_id (dl_metadata d)"
    and "first_sequence_id e = first_sequence_id d" and "previous_sequence_id e = previous_sequence_id d"
  shows "faithful_delta Sb Sa e"
  using assms by (simp add: faithful_delta_def first_or_final_def)

text \<open>Which events touch a book, and where they come from\<close>

definition book_event :: "market_event \<Rightarrow> bool" where
  "book_event e = (case e of SnapshotEvent _ \<Rightarrow> True | DeltaEvent _ \<Rightarrow> True | _ \<Rightarrow> False)"

lemma one_quiet:
  "one TickerEvent v b = (Inr es, b') \<Longrightarrow> \<forall>e \<in> set es. \<not> book_event e"
  "one TradeEvent w b = (Inr es, b') \<Longrightarrow> \<forall>e \<in> set es. \<not> book_event e"
  "one CandleEvent x b = (Inr es, b') \<Longrightarrow> \<forall>e \<in> set es. \<not> book_event e"
  by (auto simp: one_def from_sum_def eff_defs bind_sum_def book_event_def split: sum.splits)

lemma mark_quiet: "mark_price_update env md symbol t d b = (Inr es, b') \<Longrightarrow> \<forall>e \<in> set es. \<not> book_event e"
  by (auto simp: mark_price_update_def bindE_def thenE_def getE_def modifyE_def ret_def from_sum_def raise_def book_event_def
      split: sum.splits if_splits)

lemma parse_event_book:
  assumes "parse_event env ins symbol kind t d b = (Inr es, b')" and "e \<in> set es" and "book_event e"
  shows "\<exists>x. e = DeltaEvent x \<and> kind = PStr ''depthUpdate'' \<and> depth_delta (metadata ins t (hx_now env) None) d = Inr x"
proof (cases "kind = PStr ''depthUpdate''")
  case True
  with assms(1,2) show ?thesis
    by (cases "depth_delta (metadata ins t (hx_now env) None) d") (auto simp: parse_event_def one_def from_sum_def eff_defs Let_def)
next
  case False
  have "\<forall>e \<in> set es. \<not> book_event e"
    using assms(1) False unfolding parse_event_def Let_def
    by (auto simp: ret_def split: if_splits dest!: one_quiet mark_quiet)
  with assms(2,3) show ?thesis by blast
qed

lemma message_subject:
  assumes "Binance_Futures.parse_ws_message env payload b = (Inr es, b')" and "es \<noteq> []"
  shows "\<exists>d symbol ins t. body_of payload = Inr d \<and>
    subject_of (bn_instruments b) (dict_get d ''e'') (dict_get d ''s'') = Inr (Some (symbol, ins)) \<and>
    parse_event env ins symbol (dict_get d ''e'') t d b = (Inr es, b')"
  using assms
  by (auto simp: Binance_Futures.parse_ws_message_def bindE_def getE_def from_sum_def ret_def raise_def
      split: sum.splits option.splits)

section \<open>The feed of one book\<close>

datatype venue_input =
    Message venue_env "(string \<times> pyval) list"
  | Answer venue_env bool
  | Reset

fun book_messages :: "market_event \<Rightarrow> book_message list" where
  "book_messages (SnapshotEvent s) = [BookSnapshot s False]"
| "book_messages (DeltaEvent d) = [BookDelta d]"
| "book_messages _ = []"

text \<open>
  A message goes through \<open>parse_ws_message\<close>, and what it yields about the instrument to the book; an answer is
  that of \<open>get_order_book_snapshot\<close>; \<open>Reset\<close> is the invalidation when a stream is replaced.
\<close>

definition read_message :: "instrument \<Rightarrow> exn + market_event list \<Rightarrow> book_message list" where
  "read_message ins r = concat (map book_messages (filter (\<lambda>e. event_instrument e = ins) (yielded r)))"

definition read_answer :: "bool \<Rightarrow> exn + order_book_snapshot \<Rightarrow> book_message list" where
  "read_answer bridge r = (case r of Inl _ \<Rightarrow> [] | Inr s \<Rightarrow> [BookSnapshot s bridge])"

fun feed :: "instrument \<Rightarrow> venue_input \<Rightarrow> binance \<times> local_order_book \<Rightarrow> binance \<times> local_order_book" where
  "feed ins (Message env payload) (b, book) = (snd (Binance_Futures.parse_ws_message env payload b),
     fold deliver (read_message ins (fst (Binance_Futures.parse_ws_message env payload b))) book)"
| "feed ins (Answer env bridge) (b, book) =
     (b, fold deliver (read_answer bridge (Binance_Futures.get_order_book_snapshot env ins 100)) book)"
| "feed ins Reset (b, book) = (b, deliver BookInvalidate book)"

fun honest :: "(decimal \<Rightarrow> string) \<Rightarrow> (int \<Rightarrow> book_map) \<Rightarrow> (int \<Rightarrow> book_map) \<Rightarrow> instrument \<Rightarrow> venue_input \<Rightarrow> bool" where
  "honest r Sb Sa ins (Message env payload) \<longleftrightarrow>
     (\<forall>row. body_of payload = Inr row \<and> dict_get row ''e'' = PStr ''depthUpdate'' \<and>
        dict_get row ''s'' = PStr (exchange_symbol ins) \<longrightarrow> (\<exists>d. delta_shown r row d \<and> faithful_delta Sb Sa d))"
| "honest r Sb Sa ins (Answer env bridge) \<longleftrightarrow>
     (\<forall>row. Binance_Futures.get env ''/fapi/v1/depth'' [symbol_of ins, (''limit'', PInt 100)] = Inr (PDict row) \<longrightarrow>
        (\<exists>s. snapshot_shown r row s \<and> faithful_snapshot Sb Sa s))"
| "honest r Sb Sa ins Reset \<longleftrightarrow> True"

lemma subject_symbol: "subject_of d kind v = Inr (Some (symbol, ins)) \<Longrightarrow> v = PStr symbol"
proof -
  have *: "map_of (map (\<lambda>(s, i). (s, (s, i))) d) s = map_option (Pair s) (map_of d s)" for s
    by (induction d) auto
  show "subject_of d kind v = Inr (Some (symbol, ins)) \<Longrightarrow> v = PStr symbol"
    by (auto simp: subject_of_def known_def * split: if_splits pyval.splits)
qed

lemma read_message_faithful:
  assumes "honest r Sb Sa ins (Message env payload)" and "futures_gate poll b"
    and "m \<in> set (read_message ins (fst (Binance_Futures.parse_ws_message env payload b)))"
  shows "faithful Sb Sa m"
proof -
  from assms(3) obtain es b' e where es: "Binance_Futures.parse_ws_message env payload b = (Inr es, b')"
    and e: "e \<in> set es" "event_instrument e = ins" "m \<in> set (book_messages e)"
    by (cases "Binance_Futures.parse_ws_message env payload b") (auto simp: read_message_def yielded_def split: sum.splits)
  then have "es \<noteq> []" by auto
  from message_subject [OF es this] obtain row symbol i t where row: "body_of payload = Inr row"
    and subject: "subject_of (bn_instruments b) (dict_get row ''e'') (dict_get row ''s'') = Inr (Some (symbol, i))"
    and event: "parse_event env i symbol (dict_get row ''e'') t row b = (Inr es, b')" by blast
  have "book_event e" using e(3) by (cases e) (simp_all add: book_event_def)
  from parse_event_book [OF event e(1) this] obtain x where x: "e = DeltaEvent x" "dict_get row ''e'' = PStr ''depthUpdate''"
    "depth_delta (metadata i t (hx_now env) None) row = Inr x" by blast
  then have "i = ins" using e(2) by (auto simp: depth_delta_def bind_sum_Inr event_instrument_def metadata_def)
  moreover have "exchange_symbol i = symbol"
    by (rule subject_of_named [OF subject]) (use assms(2) in \<open>simp add: futures_gate_def\<close>)
  ultimately have "dict_get row ''s'' = PStr (exchange_symbol ins)" using subject_symbol [OF subject] by simp
  with assms(1) row x(2) obtain d where "delta_shown r row d" "faithful_delta Sb Sa d" by auto
  with depth_delta_shown [OF x(3)] faithful_delta_cong have "faithful_delta Sb Sa x" by blast
  with e(3) x(1) show ?thesis by simp
qed

lemma faithful_snapshot_cong:
  assumes "faithful_snapshot Sb Sa s" and "sn_bids e = sn_bids s" and "sn_asks e = sn_asks s"
    and "md_sequence_id (sn_metadata e) = md_sequence_id (sn_metadata s)"
  shows "faithful_snapshot Sb Sa e"
  using assms by (simp add: faithful_snapshot_def)

lemma as_mapping_dict: "as_mapping v = Inr d \<longleftrightarrow> v = PDict d"
  by (cases v) (simp_all add: as_mapping_def)

lemma read_answer_faithful:
  assumes "honest r Sb Sa ins (Answer env bridge)"
    and "m \<in> set (read_answer bridge (Binance_Futures.get_order_book_snapshot env ins 100))"
  shows "faithful Sb Sa m"
proof -
  from assms(2) obtain s where s: "Binance_Futures.get_order_book_snapshot env ins 100 = Inr s" and m: "m = BookSnapshot s bridge"
    by (cases "Binance_Futures.get_order_book_snapshot env ins 100") (auto simp: read_answer_def)
  from s obtain row t where got: "Binance_Futures.get env ''/fapi/v1/depth'' [symbol_of ins, (''limit'', PInt 100)] = Inr (PDict row)"
    and snap: "snapshot_of ins t (hx_now env) 100 row = Inr s"
    by (auto simp: Binance_Futures.get_order_book_snapshot_def bind_sum_Inr as_mapping_dict)
  from assms(1) got obtain s' where "snapshot_shown r row s'" "faithful_snapshot Sb Sa s'" by auto
  with snapshot_of_shown [OF snap] faithful_snapshot_cong have "faithful_snapshot Sb Sa s" by blast
  with m show ?thesis by simp
qed

lemma of_instrument_fold: "of_instrument ins book \<Longrightarrow> of_instrument ins (fold deliver xs book)"
  by (induction xs arbitrary: book) (simp_all add: of_instrument_deliver)

lemma feed_tracks:
  assumes "tracks Sb Sa book" and "of_instrument ins book" and "checked_venue ins" and "futures_gate poll b"
    and "honest r Sb Sa ins x" and "feed ins x (b, book) = (b', book')"
  shows "tracks Sb Sa book' \<and> of_instrument ins book' \<and> futures_gate poll b'"
proof (cases x)
  case (Message env payload)
  have b': "b' = snd (Binance_Futures.parse_ws_message env payload b)"
    and book': "book' = fold deliver (read_message ins (fst (Binance_Futures.parse_ws_message env payload b))) book"
    using assms(6) Message by simp_all
  have "futures_gate poll b'" using futures_gate_step assms(4) unfolding b' by (simp add: keeps_def)
  moreover have "tracks Sb Sa book'" unfolding book'
    by (rule tracks_run [OF assms(1-3)]) (use read_message_faithful assms(4,5) Message in blast)
  ultimately show ?thesis using of_instrument_fold assms(2) book' by blast
next
  case (Answer env bridge)
  have "b' = b" and book': "book' = fold deliver (read_answer bridge (Binance_Futures.get_order_book_snapshot env ins 100)) book"
    using assms(6) Answer by simp_all
  moreover have "tracks Sb Sa book'" unfolding book'
    by (rule tracks_run [OF assms(1-3)]) (use read_answer_faithful assms(5) Answer in blast)
  ultimately show ?thesis using of_instrument_fold assms(2,4) by blast
next
  case Reset
  then have b': "b' = b" and book': "book' = fold deliver [BookInvalidate] book" using assms(6) by simp_all
  have "tracks Sb Sa book'" unfolding book' by (rule tracks_run [OF assms(1-3)]) simp
  then show ?thesis using of_instrument_fold assms(2,4) unfolding b' book' by blast
qed

lemma feed_run_tracks:
  assumes "tracks Sb Sa book" and "of_instrument ins book" and "checked_venue ins" and "futures_gate poll b"
    and "\<forall>x \<in> set xs. honest r Sb Sa ins x"
  shows "tracks Sb Sa (snd (fold (feed ins) xs (b, book)))"
  using assms
proof (induction xs arbitrary: b book)
  case (Cons x xs)
  obtain b' book' where f: "feed ins x (b, book) = (b', book')" by force
  have "tracks Sb Sa book' \<and> of_instrument ins book' \<and> futures_gate poll b'"
    by (rule feed_tracks [where r = r, OF Cons.prems(1-4) _ f]) (use Cons.prems(5) in simp)
  with Cons f show ?case by simp
qed simp

end
