(* ===== verification/Binance_Spot_Invariant.thy ===== *)
theory Binance_Spot_Invariant
  imports Binance_Invariant
begin

text \<open>
  The histories of the spot adapter, whose three streams have a queue each. The second component gives what
  the open connection of each lane has asked for so far.
\<close>

inductive spot_run :: "spot \<Rightarrow> (string \<Rightarrow> string set) \<Rightarrow> bool" where
  created: "new_spot symbols candle_only True chosen = Inr b \<Longrightarrow> \<forall>s \<in> set symbols. pair_symbol s \<Longrightarrow>
     spot_run b (\<lambda>_. {})"
| named: "spot_run b S \<Longrightarrow> pair_symbol s \<Longrightarrow> spot_run (snd (spot_for_symbol s b)) S"
| reconciled: "spot_run b S \<Longrightarrow> \<forall>i \<in> set inss. venue_symbol (exchange_symbol i) \<Longrightarrow>
     spot_run (snd (reconcile_spots inss b)) S"
| opened: "spot_run b S \<Longrightarrow> (lane, streams) \<in> set stream_groups \<Longrightarrow>
     open_spot_stream lane streams wanted b = (Inr first, b') \<Longrightarrow> spot_run b' (S(lane := fold requested first {}))"
| sent: "spot_run b S \<Longrightarrow> lane \<in> fst ` set stream_groups \<Longrightarrow> take_spot_update lane b = (Inr (Some u), b') \<Longrightarrow>
     spot_run b' (S(lane := requested u (S lane)))"
| closed: "spot_run b S \<Longrightarrow> lane \<in> fst ` set stream_groups \<Longrightarrow>
     spot_run (snd (close_spot_stream lane b)) (S(lane := {}))"

definition spot_lane :: "spot \<Rightarrow> string \<Rightarrow> string \<Rightarrow> string set" where
  "spot_lane b lane = (if lane = ''critical'' then kline_streams (st_intervals b)
     else if st_candle_only b then (\<lambda>_. {})
     else if lane = ''market'' then suffixed [''ticker'', ''aggTrade''] else suffixed [''depth@100ms'', ''bookTicker''])"

definition spot_good :: "spot \<Rightarrow> (string \<Rightarrow> string set) \<Rightarrow> bool" where
  "spot_good b S \<longleftrightarrow> st_dynamic b \<and> st_intervals b \<subseteq> spot_intervals \<and> named_well (st_instruments b) \<and>
     st_active b \<subseteq> fst ` set (st_instruments b) \<and> (\<forall>lane \<in> fst ` set stream_groups.
       in_step (spot_lane b lane) (st_instruments b) (st_active b) (map_of (st_updates b) lane) (S lane))"

lemma prefixed_lane: "prefixed (spot_lane b lane)"
  by (simp add: spot_lane_def prefixed_kline prefixed_suffixed) (simp add: prefixed_def)

lemma group_streams:
  assumes "(lane, streams) \<in> set stream_groups" and "st_intervals b \<subseteq> spot_intervals"
  shows "set (streams b inss) = spread (spot_lane b lane) (exchange_symbol ` set inss)"
proof -
  have "finite (st_intervals b)"
    using assms(2) finite_subset by (fastforce simp: spot_intervals_def default_intervals_def)
  then have critical: "set (spot_critical b inss) = spread (kline_streams (st_intervals b)) (exchange_symbol ` set inss)"
    by (simp add: spot_critical_def stream_symbol_def kline_streams_def spread_def image_image)
  have nothing: "spread (\<lambda>_. {}) A = {}" for A by (simp add: spread_def)
  have market: "set (spot_market b inss) = spread (if st_candle_only b then (\<lambda>_. {}) else suffixed [''ticker'', ''aggTrade''])
      (exchange_symbol ` set inss)"
    by (simp add: spot_market_def stream_symbol_def nothing) (simp add: suffixed_def spread_def)
  have public: "set (spot_public b inss) = spread (if st_candle_only b then (\<lambda>_. {}) else suffixed [''depth@100ms'', ''bookTicker''])
      (exchange_symbol ` set inss)"
    by (simp add: spot_public_def stream_symbol_def nothing) (simp add: suffixed_def spread_def)
  consider "lane = ''critical''" "streams = spot_critical" | "lane = ''market''" "streams = spot_market"
    | "lane = ''public''" "streams = spot_public"
    using assms(1) by (auto simp: stream_groups_def)
  then show ?thesis
    by cases (simp_all add: spot_lane_def critical market public)
qed

lemma spot_created:
  assumes "new_spot symbols candle_only True chosen = Inr b" and "\<forall>s \<in> set symbols. pair_symbol s"
  shows "spot_good b (\<lambda>_. {})"
proof -
  have make: "exchange_symbol i = str_remove CHR ''/'' s \<and> venue_symbol (exchange_symbol i)"
    if "make_spot_instrument s = Inr i" "pair_symbol s" for s i
  proof -
    from that(1) obtain j where "make_instrument s = Inr j" "exchange_symbol j = exchange_symbol i"
      by (auto simp: make_spot_instrument_def make_instrument_def bind_sum_Inr)
    with make_instrument_pair that(2) show ?thesis by metis
  qed
  from assms(1) obtain d where d: "instruments_of make_spot_instrument symbols = Inr d"
    and b: "st_instruments b = d" "st_active b = fst ` set d" "st_updates b = []"
    and flags: "st_dynamic b" "st_intervals b \<subseteq> spot_intervals"
    by (auto simp: new_spot_def Let_def bind_sum_Inr split: if_splits)
  show ?thesis
    using instruments_of_named [OF d make assms(2)] b flags by (simp add: spot_good_def in_step_def)
qed

lemma spot_lane_cong:
  "st_intervals c = st_intervals b \<Longrightarrow> st_candle_only c = st_candle_only b \<Longrightarrow> spot_lane c = spot_lane b"
  by (simp add: spot_lane_def fun_eq_iff)

lemma spot_named:
  assumes "spot_good b S" and "pair_symbol s"
  shows "spot_good (snd (spot_for_symbol s b)) S"
proof (cases "map_of (st_instruments b) (str_remove CHR ''/'' s)")
  case None
  show ?thesis
  proof (cases "make_spot_instrument s")
    case (Inr i)
    then obtain j where "make_instrument s = Inr j" "exchange_symbol j = exchange_symbol i"
      by (auto simp: make_spot_instrument_def make_instrument_def bind_sum_Inr)
    with make_instrument_pair assms(2) have i: "exchange_symbol i = str_remove CHR ''/'' s" "venue_symbol (str_remove CHR ''/'' s)"
      by metis+
    then have "named_well (AList.update (str_remove CHR ''/'' s) i (st_instruments b))"
      using assms(1) by (simp add: spot_good_def named_well_update)
    moreover have "snd (spot_for_symbol s b) = b\<lparr>st_instruments := AList.update (str_remove CHR ''/'' s) i (st_instruments b)\<rparr>"
      using None Inr by (simp add: spot_for_symbol_def eff_defs Let_def)
    ultimately show ?thesis
      using assms(1) i in_step_register spot_lane_cong [of "snd (spot_for_symbol s b)" b]
      by (auto simp: spot_good_def keys_update)
  qed (use None assms(1) in \<open>simp add: spot_for_symbol_def eff_defs Let_def\<close>)
qed (use assms(1) in \<open>simp add: spot_for_symbol_def eff_defs Let_def\<close>)

lemma put_spot_asks:
  "map_of (st_updates (put_spot_update lane m xs b)) lane' =
     (if lane = lane' \<and> xs \<noteq> [] then Some ((case map_of (st_updates b) lane of None \<Rightarrow> [] | Some q \<Rightarrow> q) @ asks m xs (st_request_id b + 1))
      else map_of (st_updates b) lane')"
  by (simp add: put_spot_update_def Let_def asks_def update_conv')

text \<open>The part of the adapter that a group's update leaves alone\<close>

definition same_spot :: "spot \<Rightarrow> spot \<Rightarrow> bool" where
  "same_spot b c \<longleftrightarrow> st_dynamic c = st_dynamic b \<and> st_intervals c = st_intervals b \<and> st_candle_only c = st_candle_only b \<and>
     st_instruments c = st_instruments b \<and> st_active c = st_active b"

lemma update_group_same: "same_spot b c \<Longrightarrow> same_spot b (update_group added removed g c)"
  by (cases g) (simp add: update_group_def put_spot_update_def same_spot_def Let_def)

lemma update_group_queue:
  "\<exists>i j. \<forall>l. map_of (st_updates (update_group added removed (lane, f) b)) l =
     (if l = lane then map_option (\<lambda>q. q @ asks ''SUBSCRIBE'' (f b added) i @ asks ''UNSUBSCRIBE'' (f b removed) j) (map_of (st_updates b) lane)
      else map_of (st_updates b) l)"
proof (cases "map_of (st_updates b) lane")
  case (Some q)
  then show ?thesis
    by (intro exI [of _ "st_request_id b + 1"]
        exI [of _ "st_request_id (put_spot_update lane ''SUBSCRIBE'' (f b added) b) + 1"])
      (simp add: update_group_def put_spot_asks, simp add: asks_def)
qed (simp add: update_group_def)

lemma fold_groups_queue:
  assumes "distinct (map fst gs)" and "(lane, f) \<in> set gs"
    and "same_spot b c" and "\<forall>(l, g) \<in> set gs. \<forall>d inss. same_spot b d \<longrightarrow> set (g d inss) = spread (F l) (exchange_symbol ` set inss)"
  shows "\<exists>xs ys i j. set xs = spread (F lane) (exchange_symbol ` set added) \<and> set ys = spread (F lane) (exchange_symbol ` set removed) \<and>
    map_of (st_updates (fold (update_group added removed) gs c)) lane =
      map_option (\<lambda>q. q @ asks ''SUBSCRIBE'' xs i @ asks ''UNSUBSCRIBE'' ys j) (map_of (st_updates c) lane)"
  using assms
proof (induction gs arbitrary: c)
  case (Cons g gs)
  obtain l h where g: "g = (l, h)" by force
  from update_group_queue [of added removed l h c] obtain i j where q:
    "\<And>k. map_of (st_updates (update_group added removed g c)) k =
      (if k = l then map_option (\<lambda>q. q @ asks ''SUBSCRIBE'' (h c added) i @ asks ''UNSUBSCRIBE'' (h c removed) j) (map_of (st_updates c) l)
       else map_of (st_updates c) k)"
    unfolding g by blast
  have same: "same_spot b (update_group added removed g c)" by (rule update_group_same) (rule Cons.prems(3))
  have other: "map_of (st_updates (fold (update_group added removed) hs c')) k = map_of (st_updates c') k"
    if "k \<notin> fst ` set hs" for hs c' k
    using that
  proof (induction hs arbitrary: c')
    case (Cons p hs)
    from update_group_queue [of added removed "fst p" "snd p" c'] Cons show ?case by fastforce
  qed simp
  show ?case
  proof (cases "lane = l")
    case True
    then have "lane \<notin> fst ` set gs" using Cons.prems(1) g by simp
    from other [OF this, of "update_group added removed g c"] have fin:
      "map_of (st_updates (fold (update_group added removed) (g # gs) c)) lane = map_of (st_updates (update_group added removed g c)) lane"
      by simp
    have "set (h c added) = spread (F lane) (exchange_symbol ` set added)" "set (h c removed) = spread (F lane) (exchange_symbol ` set removed)"
      using Cons.prems(3,4) g True by auto
    with fin q [of lane] True show ?thesis by metis
  next
    case False
    with Cons.prems(2) g have "(lane, f) \<in> set gs" by simp
    from Cons.IH [OF _ this same] Cons.prems(1,4) q [of lane] False show ?thesis by simp
  qed
qed simp

lemma fold_groups_same: "same_spot b c \<Longrightarrow> same_spot b (fold (update_group added removed) gs c)"
  by (induction gs arbitrary: c) (simp_all add: update_group_same)

lemma distinct_groups: "distinct (map fst stream_groups)"
  by (simp add: stream_groups_def)

lemma spot_reconciled:
  assumes good: "spot_good b S" and names: "\<forall>i \<in> set inss. venue_symbol (exchange_symbol i)"
  shows "spot_good (snd (reconcile_spots inss b)) S"
proof -
  let ?T = "exchange_symbol ` set inss" let ?A = "st_active b"
  define d where "d = register_all inss (st_instruments b)"
  define b2 where "b2 = b\<lparr>st_instruments := d, st_active := ?T\<rparr>"
  have flags: "st_dynamic b" "st_intervals b \<subseteq> spot_intervals"
    and base: "named_well (st_instruments b)" "?A \<subseteq> fst ` set (st_instruments b)"
    using good by (simp_all add: spot_good_def)
  have d: "named_well d" "fst ` set d = fst ` set (st_instruments b) \<union> ?T"
    using named_well_register [OF base(1) names] by (simp_all add: d_def)
  from instruments_at_named [OF d(1), of "?T - ?A"] d(2)
  obtain added where added: "instruments_at d (?T - ?A) = Inr added" "exchange_symbol ` set added = ?T - ?A" by blast
  from instruments_at_named [OF d(1), of "?A - ?T"] base(2) d(2)
  obtain removed where removed: "instruments_at d (?A - ?T) = Inr removed" "exchange_symbol ` set removed = ?A - ?T" by blast
  define b3 where "b3 = fold (update_group added removed) stream_groups b2"
  have result: "snd (reconcile_spots inss b) = b3"
    using added(1) removed(1) flags(1)
    by (simp add: reconcile_spots_def eff_defs from_sum_def d_def b2_def b3_def Let_def)
  have same: "same_spot b2 b3" unfolding b3_def by (rule fold_groups_same) (simp add: same_spot_def)
  have lanes: "spot_lane b3 = spot_lane b"
    using same by (intro spot_lane_cong) (simp_all add: same_spot_def b2_def)
  have groups: "\<forall>(l, g) \<in> set stream_groups. \<forall>c xs. same_spot b2 c \<longrightarrow> set (g c xs) = spread (spot_lane b l) (exchange_symbol ` set xs)"
  proof (clarify)
    fix l g c xs
    assume lg: "(l, g) \<in> set stream_groups" and c: "same_spot b2 c"
    then have "st_intervals c \<subseteq> spot_intervals" "spot_lane c = spot_lane b"
      using flags(2) spot_lane_cong [of c b] by (simp_all add: same_spot_def b2_def)
    then show "set (g c xs) = spread (spot_lane b l) (exchange_symbol ` set xs)" using group_streams [OF lg, of c xs] by simp
  qed
  have "in_step (spot_lane b lane) d ?T (map_of (st_updates b3) lane) (S lane)" if lane: "lane \<in> fst ` set stream_groups" for lane
  proof -
    from lane obtain f where f: "(lane, f) \<in> set stream_groups" by force
    have step: "in_step (spot_lane b lane) (st_instruments b) ?A (map_of (st_updates b) lane) (S lane)"
      using good lane unfolding spot_good_def by blast
    from fold_groups_queue [OF distinct_groups f _ groups, of b2 added removed] obtain xs ys i j
      where xs: "set xs = spread (spot_lane b lane) (?T - ?A)" and ys: "set ys = spread (spot_lane b lane) (?A - ?T)"
        and q: "map_of (st_updates b3) lane =
          map_option (\<lambda>q. q @ asks ''SUBSCRIBE'' xs i @ asks ''UNSUBSCRIBE'' ys j) (map_of (st_updates b) lane)"
      by (auto simp: same_spot_def added(2) removed(2) b3_def b2_def)
    from in_step_target [OF step prefixed_lane names refl xs ys q] show ?thesis by (simp add: d_def)
  qed
  with same flags d show ?thesis unfolding result
    by (auto simp: spot_good_def same_spot_def lanes b2_def)
qed

lemma spot_opened:
  assumes "spot_good b S" and "(lane, streams) \<in> set stream_groups"
    and "open_spot_stream lane streams wanted b = (Inr first, b')"
  shows "spot_good b' (S(lane := fold requested first {}))"
proof -
  have flags: "st_dynamic b" "st_intervals b \<subseteq> spot_intervals"
    and base: "named_well (st_instruments b)" "st_active b \<subseteq> fst ` set (st_instruments b)"
    using assms(1) by (simp_all add: spot_good_def)
  from instruments_at_named [OF base] obtain inss
    where inss: "instruments_at (st_instruments b) (st_active b) = Inr inss" "exchange_symbol ` set inss = st_active b" by blast
  have b': "b' = b\<lparr>st_updates := AList.update lane [] (st_updates b)\<rparr> \<and> first = asks ''SUBSCRIBE'' (streams b inss) 1"
    using assms(3) flags(1) inss(1)
    by (auto simp: open_spot_stream_def eff_defs from_sum_def active_spots_def asks_def split: if_splits)
  have "set (streams b inss) = spread (spot_lane b lane) (st_active b)"
    using group_streams [OF assms(2) flags(2)] inss(2) by simp
  from in_step_open [OF base this, of 1] assms(1) b' spot_lane_cong [of b' b]
  show ?thesis by (simp add: spot_good_def update_conv')
qed

lemma spot_sent:
  assumes "spot_good b S" and "lane \<in> fst ` set stream_groups" and "take_spot_update lane b = (Inr (Some u), b')"
  shows "spot_good b' (S(lane := requested u (S lane)))"
proof -
  from assms(3) obtain waiting where q: "map_of (st_updates b) lane = Some (u # waiting)"
    and b': "b' = b\<lparr>st_updates := AList.update lane waiting (st_updates b)\<rparr>"
    by (auto simp: take_spot_update_def eff_defs split: option.splits list.splits)
  have "in_step (spot_lane b lane) (st_instruments b) (st_active b) (Some (u # waiting)) (S lane)"
    using assms(1,2) q by (auto simp: spot_good_def)
  from in_step_take [OF this] assms(1) b' spot_lane_cong [of b' b] show ?thesis by (simp add: spot_good_def update_conv')
qed

lemma spot_closed:
  assumes "spot_good b S" shows "spot_good (snd (close_spot_stream lane b)) (S(lane := {}))"
proof -
  let ?b = "b\<lparr>st_updates := AList.delete lane (st_updates b)\<rparr>"
  have b': "snd (close_spot_stream lane b) = ?b" using assms by (simp add: close_spot_stream_def eff_defs spot_good_def)
  have "spot_lane ?b = spot_lane b" by (rule spot_lane_cong) simp_all
  moreover have "in_step (spot_lane b lane) (st_instruments b) (st_active b) None {}"
    using assms by (simp add: spot_good_def in_step_def)
  ultimately show ?thesis using assms unfolding b' by (simp add: spot_good_def delete_conv')
qed

lemma spot_run_good: "spot_run b S \<Longrightarrow> spot_good b S"
  by (induction rule: spot_run.induct)
    (simp_all add: spot_created spot_named spot_reconciled spot_opened spot_sent spot_closed del: fun_upd_apply)

end
