(* ===== verification/Venue_Properties.thy ===== *)
theory Venue_Properties
  imports Venue_Feed Binance_Spot_Invariant
begin

text \<open>
  The properties of the exchange adapters: the book that Binance's adapter feeds, the subscriptions of its two
  markets, the spacing of the derivatives' emissions on every venue, and the polling of the open interest.
\<close>

section \<open>The fed book\<close>


text \<open>The venue of the witness: a delta is read before the snapshot, an answer fails, the delta comes again.\<close>

definition quiet_env :: venue_env where
  "quiet_env = \<lparr>hx_repr = (\<lambda>_. []), hx_ms = whole_millis, hx_now = Datetime 0,
     hx_policy = \<lparr>max_attempts = 1, base_delay_seconds = 1, max_delay_seconds = 2, jitter_ratio = 0\<rparr>,
     hx_jitter = (\<lambda>_ _. 0), hx_answer = (\<lambda>_ _ _. Transient None)\<rparr>"

definition plain :: "decimal \<Rightarrow> string" where
  "plain q = str_of_int \<lfloor>q\<rfloor>"

definition level_of :: "decimal \<Rightarrow> decimal \<Rightarrow> book_level" where
  "level_of p q = \<lparr>price = p, quantity = q\<rparr>"

definition depth_answer :: "(string \<times> pyval) list" where
  "depth_answer = [(''lastUpdateId'', PInt 100), (''bids'', PList (map (level_row plain) [level_of 99 2, level_of 98 3])),
     (''asks'', PList (map (level_row plain) [level_of 101 1]))]"

definition answering :: venue_env where
  "answering = quiet_env\<lparr>hx_answer := \<lambda>_ _ _. Returned (PDict depth_answer)\<rparr>"

definition depth_row :: "(string \<times> pyval) list" where
  "depth_row = [(''e'', PStr ''depthUpdate''), (''E'', PInt 5), (''s'', PStr ''BTCUSDT''), (''U'', PInt 100), (''u'', PInt 102),
     (''pu'', PInt 99), (''b'', PList (map (level_row plain) [level_of 98 0])), (''a'', PList [])]"

definition venue_inputs :: "venue_input list" where
  "venue_inputs = [Message quiet_env depth_row, Answer answering False, Answer quiet_env False,
     Message quiet_env [(''data'', PDict depth_row)], Message quiet_env [(''e'', PStr ''kline'')]]"

definition sample_symbol :: instrument where
  "sample_symbol = \<lparr>exchange = BINANCE, market_type = LINEAR_PERPETUAL, exchange_symbol = ''BTCUSDT'',
     canonical_symbol = ''BTC/USDT'', base_asset = ''BTC'', quote_asset = ''USDT'', settlement_asset = ''USDT''\<rparr>"

definition sample_futures :: binance where
  "sample_futures = \<lparr>bn_poll_seconds = 10, bn_candle_only = False, bn_dynamic = False, bn_intervals = all_intervals,
     bn_instruments = [(''BTCUSDT'', sample_symbol)], bn_active = {''BTCUSDT''}, bn_queues = [], bn_request_id = 10,
     bn_last_funding = [], bn_oi_failures = 0\<rparr>"

definition empty_book :: local_order_book where
  "empty_book = (case new_order_book sample_symbol 100 of Inr b \<Rightarrow> b)"

definition true_bids :: "int \<Rightarrow> book_map" where
  "true_bids n = (if n < 102 then [99 \<mapsto> 2, 98 \<mapsto> 3] else [99 \<mapsto> 2])"

definition true_asks :: "int \<Rightarrow> book_map" where
  "true_asks n = [101 \<mapsto> 1]"

lemma sample_futures_new: "new_binance [''BTC/USDT''] 10 False False None = Inr sample_futures"
  by (simp add: new_binance_def instruments_of_def make_instrument_def split_pair_def str_remove_def sample_futures_def
      sample_symbol_def Let_def)

lemma sample_pair: "\<forall>s \<in> set [''BTC/USDT'']. pair_symbol s"
  by code_simp

lemma empty_book_new: "new_order_book sample_symbol 100 = Inr empty_book"
  by (simp add: empty_book_def new_order_book_def)

lemma fed_synchronized: "is_synchronized (snd (fold (feed sample_symbol) venue_inputs (sample_futures, empty_book)))"
  by code_simp

lemma rendered: "list_all (renders plain) [level_of 99 2, level_of 98 3, level_of 101 1, level_of 98 0]"
  by (simp add: renders_def level_ok_def level_of_def, code_simp)

lemma answers:
  "Binance_Futures.get answering ''/fapi/v1/depth'' [symbol_of sample_symbol, (''limit'', PInt 100)] = Inr (PDict depth_answer)"
  "\<exists>e. Binance_Futures.get quiet_env ''/fapi/v1/depth'' [symbol_of sample_symbol, (''limit'', PInt 100)] = Inl e"
  by (code_simp, rule exI, code_simp)

lemma depth_row_shown: "\<exists>d. delta_shown plain depth_row d \<and> faithful_delta true_bids true_asks d"
proof -
  let ?d = "\<lparr>dl_metadata = metadata sample_symbol (Datetime 0) (Datetime 0) (Some 102), dl_bids = [level_of 98 0], dl_asks = [],
    first_sequence_id = Some 100, previous_sequence_id = Some 99\<rparr>"
  have "delta_shown plain depth_row ?d"
    using rendered by (simp add: delta_shown_def shown_def depth_row_def metadata_def)
  moreover have "faithful_delta true_bids true_asks ?d"
    by (auto simp: faithful_delta_def covers_def true_bids_def true_asks_def first_or_final_def metadata_def level_of_def)
  ultimately show ?thesis by blast
qed

lemma depth_answer_shown: "\<exists>s. snapshot_shown plain depth_answer s \<and> faithful_snapshot true_bids true_asks s"
proof -
  let ?s = "\<lparr>sn_metadata = metadata sample_symbol (Datetime 0) (Datetime 0) (Some 100),
    sn_bids = [level_of 99 2, level_of 98 3], sn_asks = [level_of 101 1], sn_depth = 100\<rparr>"
  have "snapshot_shown plain depth_answer ?s"
    using rendered by (simp add: snapshot_shown_def shown_def depth_answer_def metadata_def)
  moreover have "faithful_snapshot true_bids true_asks ?s"
    by (auto simp: faithful_snapshot_def true_bids_def true_asks_def metadata_def level_of_def levels_dict_def)
  ultimately show ?thesis by blast
qed

lemma venue_inputs_honest: "\<forall>x \<in> set venue_inputs. honest plain true_bids true_asks sample_symbol x"
proof -
  have "body_of depth_row = Inr depth_row" "body_of [(''data'', PDict depth_row)] = Inr depth_row"
    "body_of [(''e'', PStr ''kline'')] = Inr [(''e'', PStr ''kline'')]"
    by (simp_all add: body_of_def depth_row_def dict_get_or_def as_mapping_def)
  then show ?thesis
    using depth_row_shown depth_answer_shown answers by (auto simp: venue_inputs_def dict_get_def)
qed


section \<open>Subscriptions\<close>

text \<open>
  C19. In every history of the two Binance adapters with dynamic subscriptions, whatever the order of
  reconciliations, new symbols, openings and ends of connections, messages and sent requests: the requests that
  still wait in the queue of an open stream turn what its connection has asked for so far into exactly the
  streams of the active instruments.
\<close>

theorem binance_subscriptions_in_step:
  assumes "futures_run b S" and "spot_run c R"
  shows "(\<forall>q. map_of (bn_queues b) ''critical'' = Some q \<longrightarrow> (\<exists>inss. active_instruments b = Inr inss \<and>
      exchange_symbol ` set inss = bn_active b \<and> fold requested q S = set (critical_subscriptions b inss))) \<and>
    (\<forall>(lane, streams) \<in> set stream_groups. \<forall>q. map_of (st_updates c) lane = Some q \<longrightarrow>
      (\<exists>inss. active_spots c = Inr inss \<and> exchange_symbol ` set inss = st_active c \<and>
        fold requested q (R lane) = set (streams c inss)))"
proof -
  note b = futures_run_good [OF assms(1), unfolded futures_good_def]
  then have "named_well (bn_instruments b)" "bn_active b \<subseteq> fst ` set (bn_instruments b)" by (simp_all add: in_step_def)
  from instruments_at_named [OF this] obtain inss where inss: "active_instruments b = Inr inss"
    "exchange_symbol ` set inss = bn_active b" by (auto simp: active_instruments_def)
  have futures: "fold requested q S = set (critical_subscriptions b inss)" if "map_of (bn_queues b) ''critical'' = Some q" for q
    using b critical_streams [of b inss] inss(2) that by (simp add: in_step_def)
  note c = spot_run_good [OF assms(2), unfolded spot_good_def]
  then obtain inss' where inss': "active_spots c = Inr inss'" "exchange_symbol ` set inss' = st_active c"
    using instruments_at_named [of "st_instruments c" "st_active c"] by (auto simp: active_spots_def)
  have spot: "fold requested q (R lane) = set (streams c inss')"
    if "(lane, streams) \<in> set stream_groups" "map_of (st_updates c) lane = Some q" for lane streams q
  proof -
    have "in_step (spot_lane c lane) (st_instruments c) (st_active c) (map_of (st_updates c) lane) (R lane)"
      using c that(1) by force
    with that inss'(2) group_streams [OF that(1), of c inss'] c show ?thesis by (simp add: in_step_def)
  qed
  show ?thesis
    by (rule conjI, use inss futures in blast, clarify, rule exI [of _ inss'], simp add: inss' spot)
qed

text \<open>The history of the witness: the stream of one symbol is open when the supervisor asks for another one instead.\<close>

definition other_symbol :: instrument where
  "other_symbol = sample_symbol\<lparr>exchange_symbol := ''ETHUSDT'', canonical_symbol := ''ETH/USDT'', base_asset := ''ETH''\<rparr>"

definition dynamic_futures :: binance where
  "dynamic_futures = sample_futures\<lparr>bn_candle_only := True, bn_dynamic := True, bn_intervals := {''5m''}\<rparr>"

definition moved_futures :: binance where
  "moved_futures = snd (reconcile_instruments [other_symbol] (snd (open_endpoint ''critical'' [] dynamic_futures)))"

definition dynamic_spot :: spot where
  "dynamic_spot = \<lparr>st_candle_only = False, st_dynamic = True, st_intervals = {''5m''},
     st_instruments = [(''BTCUSDT'', sample_symbol\<lparr>market_type := SPOT\<rparr>)], st_active = {''BTCUSDT''}, st_updates = [], st_request_id = 10\<rparr>"

definition moved_spot :: spot where
  "moved_spot = snd (reconcile_spots [other_symbol] (snd (open_spot_stream ''market'' spot_market [] dynamic_spot)))"

definition moved_requests :: "string \<Rightarrow> string \<Rightarrow> update list" where
  "moved_requests new old = [\<lparr>up_method = ''SUBSCRIBE'', up_params = map (append ''ethusdt'') [new, old], up_id = 11\<rparr>,
     \<lparr>up_method = ''UNSUBSCRIBE'', up_params = map (append ''btcusdt'') [new, old], up_id = 12\<rparr>]"

lemma dynamic_new:
  "new_binance [''BTC/USDT''] 10 True True (Some [''5m'']) = Inr dynamic_futures"
  "new_spot [''BTC/USDT''] False True (Some [''5m'']) = Inr dynamic_spot"
  by (simp_all add: new_binance_def new_spot_def instruments_of_def make_instrument_def make_spot_instrument_def
      split_pair_def str_remove_def sample_futures_def dynamic_futures_def dynamic_spot_def sample_symbol_def
      all_intervals_def spot_intervals_def default_intervals_def Let_def)

lemma streams_opened:
  "fst (open_endpoint ''critical'' [] dynamic_futures) =
     Inr [\<lparr>up_method = ''SUBSCRIBE'', up_params = [''btcusdt@kline_5m''], up_id = 1\<rparr>]"
  "fst (open_spot_stream ''market'' spot_market [] dynamic_spot) =
     Inr [\<lparr>up_method = ''SUBSCRIBE'', up_params = [''btcusdt@ticker'', ''btcusdt@aggTrade''], up_id = 1\<rparr>]"
  by code_simp+

lemma moved_queues:
  "map_of (bn_queues moved_futures) ''critical'' = Some
     [\<lparr>up_method = ''SUBSCRIBE'', up_params = [''ethusdt@kline_5m''], up_id = 11\<rparr>,
      \<lparr>up_method = ''UNSUBSCRIBE'', up_params = [''btcusdt@kline_5m''], up_id = 12\<rparr>]"
  "map_of (st_updates moved_spot) ''market'' = Some (moved_requests ''@ticker'' ''@aggTrade'')"
  by code_simp+

lemma moved_runs:
  "futures_run moved_futures {''btcusdt@kline_5m''}"
  "spot_run moved_spot ((\<lambda>_. {})(''market'' := {''btcusdt@ticker'', ''btcusdt@aggTrade''}))"
proof -
  have other: "\<forall>i \<in> set [other_symbol]. venue_symbol (exchange_symbol i)" by code_simp
  have "futures_run (snd (open_endpoint ''critical'' [] dynamic_futures)) (fold requested (projr (fst (open_endpoint ''critical'' [] dynamic_futures))) {})"
    by (rule futures_run.opened [OF futures_run.created [OF dynamic_new(1) sample_pair], of "[]"])
      (simp add: streams_opened prod_eq_iff)
  from futures_run.reconciled [OF this other] show "futures_run moved_futures {''btcusdt@kline_5m''}"
    by (simp add: moved_futures_def streams_opened requested_def)
  have "spot_run (snd (open_spot_stream ''market'' spot_market [] dynamic_spot))
      ((\<lambda>_. {})(''market'' := fold requested (projr (fst (open_spot_stream ''market'' spot_market [] dynamic_spot))) {}))"
    by (rule spot_run.opened [OF spot_run.created [OF dynamic_new(2) sample_pair], of "''market''" spot_market "[]"])
      (simp_all add: streams_opened prod_eq_iff stream_groups_def)
  from spot_run.reconciled [OF this other]
  show "spot_run moved_spot ((\<lambda>_. {})(''market'' := {''btcusdt@ticker'', ''btcusdt@aggTrade''}))"
    by (simp add: moved_spot_def streams_opened requested_def)
qed

lemma binance_subscriptions_in_step_witness:
  "(\<exists>inss. active_instruments moved_futures = Inr inss \<and> set (critical_subscriptions moved_futures inss) = {''ethusdt@kline_5m''}) \<and>
   (\<exists>inss. active_spots moved_spot = Inr inss \<and> set (spot_market moved_spot inss) = {''ethusdt@ticker'', ''ethusdt@aggTrade''})"
proof -
  note law = binance_subscriptions_in_step [OF moved_runs]
  from law [THEN conjunct1] moved_queues(1) obtain inss where "active_instruments moved_futures = Inr inss"
    "fold requested [\<lparr>up_method = ''SUBSCRIBE'', up_params = [''ethusdt@kline_5m''], up_id = 11\<rparr>,
      \<lparr>up_method = ''UNSUBSCRIBE'', up_params = [''btcusdt@kline_5m''], up_id = 12\<rparr>] {''btcusdt@kline_5m''} =
      set (critical_subscriptions moved_futures inss)" by blast
  then have futures: "active_instruments moved_futures = Inr inss \<and> set (critical_subscriptions moved_futures inss) = {''ethusdt@kline_5m''}"
    by (auto simp: requested_def)
  have "(''market'', spot_market) \<in> set stream_groups" by (simp add: stream_groups_def)
  with law [THEN conjunct2] moved_queues(2) obtain inss' where "active_spots moved_spot = Inr inss'"
    "fold requested (moved_requests ''@ticker'' ''@aggTrade'') {''btcusdt@ticker'', ''btcusdt@aggTrade''} =
      set (spot_market moved_spot inss')" by fastforce
  then have "active_spots moved_spot = Inr inss' \<and> set (spot_market moved_spot inss') = {''ethusdt@ticker'', ''ethusdt@aggTrade''}"
    by (auto simp: requested_def moved_requests_def)
  with futures show ?thesis by blast
qed

section \<open>Emissions\<close>


definition sample_bybit :: bybit where
  "sample_bybit = (case new_bybit [''BTC/USDT''] 10 of Inr y \<Rightarrow> y)"

definition sample_okx :: okx where
  "sample_okx = (case new_okx [''BTC/USDT''] 10 of Inr x \<Rightarrow> x)"

definition sample_hyperliquid :: hyperliquid where
  "sample_hyperliquid = (case new_hyperliquid [''BTC/USDT''] 10 of Inr h \<Rightarrow> h)"

lemma sample_adapters:
  "new_bybit [''BTC/USDT''] 10 = Inr sample_bybit" "new_okx [''BTC/USDT''] 10 = Inr sample_okx"
  "new_hyperliquid [''BTC/USDT''] 10 = Inr sample_hyperliquid"
  by (simp_all add: sample_bybit_def sample_okx_def sample_hyperliquid_def new_bybit_def new_okx_def new_hyperliquid_def
      bybit_instrument_def swap_instrument_def)

text \<open>Three mark prices of Binance, of which the second comes too early, and three funding rates of OKX\<close>

definition mark_price :: "int \<Rightarrow> datetime \<times> (string \<times> pyval) list" where
  "mark_price t = (Datetime 0, [(''e'', PStr ''markPriceUpdate''), (''E'', PInt t), (''s'', PStr ''BTCUSDT''),
     (''p'', PStr ''10''), (''i'', PStr ''11''), (''r'', PStr ''0.0001''), (''T'', PInt 99000)])"

definition okx_rate :: "int \<Rightarrow> datetime \<times> (string \<times> pyval) list" where
  "okx_rate t = (Datetime 0, [(''arg'', PDict [(''channel'', PStr ''funding-rate''), (''instId'', PStr ''BTC-USDT-SWAP'')]),
     (''data'', PList [PDict [(''ts'', PInt t), (''fundingRate'', PStr ''0.0001''), (''nextFundingTime'', PInt 99000)]])])"

definition rate_inputs :: "(datetime \<times> (string \<times> pyval) list) list" where
  "rate_inputs = map mark_price [20000, 25000, 31000] @ map okx_rate [20000, 25000, 30000]"

lemma rates_emitted:
  "map event_time (emitted (at_clock Binance_Futures.parse_ws_message quiet_env) (about is_funding ''BTCUSDT'') rate_inputs sample_futures) =
     [Datetime 20000000, Datetime 31000000]"
  "map event_time (emitted (at_clock Okx_Adapter.parse_ws_message quiet_env) (about is_funding ''BTC-USDT-SWAP'') rate_inputs sample_okx) =
     [Datetime 20000000, Datetime 30000000]"
  by code_simp+


section \<open>Polling\<close>

definition interests :: "venue_env \<Rightarrow> instrument list \<Rightarrow> market_event list" where
  "interests env inss = concat (map (\<lambda>i. case poll_one env i of Inl _ \<Rightarrow> [] | Inr q \<Rightarrow> [OpenInterestEvent q]) inss)"

definition round_fails :: "instrument list \<Rightarrow> venue_env \<Rightarrow> bool" where
  "round_fails inss env \<longleftrightarrow> (\<exists>i \<in> set inss. \<exists>e. poll_one env i = Inl e)"

definition uncancelled :: "instrument list \<Rightarrow> venue_env \<Rightarrow> bool" where
  "uncancelled inss env \<longleftrightarrow> (\<forall>i \<in> set inss. poll_one env i \<noteq> Inl CancelledError)"

definition polled :: "instrument list \<Rightarrow> venue_env list \<Rightarrow> binance \<Rightarrow> binance" where
  "polled inss envs b = fold (\<lambda>env b. snd (poll_round env inss b)) envs b"

text \<open>The failing rounds at the end of a list of rounds\<close>

definition failing_in_a_row :: "instrument list \<Rightarrow> venue_env list \<Rightarrow> nat" where
  "failing_in_a_row inss envs = length (takeWhile (round_fails inss) (rev envs))"

lemma poll_each_outcome:
  assumes "uncancelled inss env"
  shows "\<exists>qs fs. poll_each (poll_one env) inss = Inr (qs, fs) \<and> map OpenInterestEvent qs = interests env inss \<and>
    (fs \<noteq> [] \<longleftrightarrow> round_fails inss env)"
  using assms
proof (induction inss)
  case (Cons i inss)
  then obtain qs fs where "poll_each (poll_one env) inss = Inr (qs, fs)" "map OpenInterestEvent qs = interests env inss"
    "fs \<noteq> [] \<longleftrightarrow> round_fails inss env" by (auto simp: uncancelled_def)
  with Cons.prems show ?case
    by (cases "poll_one env i") (auto simp: interests_def round_fails_def uncancelled_def)
qed (simp add: interests_def round_fails_def)

lemma poll_round_outcome:
  assumes "uncancelled inss env"
  shows "poll_round env inss b =
    (Inr (interests env inss, if round_fails inss env then poll_backoff (bn_poll_seconds b) (bn_oi_failures b + 1)
       else of_int (bn_poll_seconds b)),
     b\<lparr>bn_oi_failures := if round_fails inss env then bn_oi_failures b + 1 else 0\<rparr>)"
  using poll_each_outcome [OF assms] by (auto simp: poll_round_def from_sum_def eff_defs)

lemma polled_counter:
  assumes "\<forall>env \<in> set envs. uncancelled inss env" and "bn_oi_failures b = 0"
  shows "bn_oi_failures (polled inss envs b) = int (failing_in_a_row inss envs) \<and>
    bn_poll_seconds (polled inss envs b) = bn_poll_seconds b"
  using assms
proof (induction envs rule: rev_induct)
  case (snoc env envs)
  then have "bn_oi_failures (polled inss envs b) = int (failing_in_a_row inss envs)"
    "bn_poll_seconds (polled inss envs b) = bn_poll_seconds b" by simp_all
  with snoc.prems show ?case
    by (simp add: polled_def poll_round_outcome failing_in_a_row_def)
qed (simp add: polled_def failing_in_a_row_def)

text \<open>
  C21. A round of open interest polls that is not cancelled yields what the instruments that answered have, in
  order, whatever the others raise. The time to the next round is the polling time after a round without a failure,
  and doubles from there with every failing round in a row, up to 32 times the polling time or 300 seconds.
\<close>

theorem interest_polls_back_off:
  assumes "new_binance symbols poll candle_only dynamic chosen = Inr b"
    and "\<forall>e \<in> set (envs @ [env]). uncancelled inss e"
  shows "\<exists>delay. fst (poll_round env inss (polled inss envs b)) = Inr (interests env inss, delay) \<and>
    (let n = failing_in_a_row inss (envs @ [env]) in
       delay = (if n = 0 then of_int poll else min 300 (of_int poll * 2 ^ min (n - 1) 5))) \<and>
    of_int poll \<le> delay \<and> delay \<le> 300"
proof -
  have b: "bn_oi_failures b = 0" "bn_poll_seconds b = poll" "5 \<le> poll" "poll \<le> 15"
    using assms(1) by (auto simp: new_binance_def Let_def bind_sum_Inr split: if_splits)
  have count: "bn_oi_failures (polled inss envs b) = int (failing_in_a_row inss envs)"
    "bn_poll_seconds (polled inss envs b) = poll"
    using polled_counter [of envs inss b] assms(2) b(1,2) by simp_all
  have exponent: "nat (min (int n) 5) = min n 5" for n by simp
  have more: "(of_int poll :: rat) \<le> of_int poll * 2 ^ k" for k
    using b(3) by (simp add: mult_le_cancel_left1)
  show ?thesis
    using assms(2) b(3,4) more
    by (auto simp: poll_round_outcome count failing_in_a_row_def poll_backoff_def exponent Let_def)
qed

lemma quiet_fails: "\<exists>e. poll_one quiet_env sample_symbol = Inl e \<and> e \<noteq> CancelledError"
  by (rule exI [of _ "RuntimeError ''RetryableExchangeError''"], code_simp)

lemma interest_polls_back_off_witness:
  "fst (poll_round quiet_env [sample_symbol] (polled [sample_symbol] [quiet_env, quiet_env] sample_futures)) = Inr ([], 40)"
proof -
  have fails: "round_fails [sample_symbol] quiet_env" "uncancelled [sample_symbol] quiet_env" "interests quiet_env [sample_symbol] = []"
    using quiet_fails by (auto simp: round_fails_def uncancelled_def interests_def)
  then show ?thesis
    using interest_polls_back_off [OF sample_futures_new, of "[quiet_env, quiet_env]" quiet_env "[sample_symbol]"]
    by (auto simp: failing_in_a_row_def)
qed

end
