(* ===== verification/Spec2Isabelle.thy ===== *)
theory Spec2Isabelle
  imports Studio_Properties Market_Properties Signal_Properties Feature_Properties
    Delivery_Properties Orchestration_Properties Supervisor_Properties Universe_Properties
    Candidate_Properties Order_Properties Service_Properties Backtest_Properties
    Venue_Properties
begin

text \<open>
  A model of ChainQuantStudio's Python package src/src/quant_signal_agent: a studio of agents
  that carries a trading signal or a strategy from its submission to its live runtime, and the
  runtime itself, which turns the events of several exchanges into a market state, evaluates
  signal definitions on it and notifies the user.

  \<^bold>\<open>How the program is put together.\<close> Exchange adapters normalize venue messages to the
  events of data/models.py. A supervisor warms up and feeds \<open>MarketState.apply\<close>, the single writer
  of candles, order books, trades, tickers, funding and open interest, after an
  \<open>IngestionPolicy\<close> has judged their age; a scanner and a pool choose the symbols it follows.
  \<open>SignalEngine.evaluate_event\<close> runs the registered definitions the event triggers, once their data
  is fresh, validates what they return and offers it to the \<open>SignalDeduplicator\<close>; what is accepted
  is published to the \<open>NotificationDispatcher\<close>. Beside that path, \<open>ManagerAgent\<close> is the user's
  facade to \<open>QuantStudio\<close>, the approval workflow of the studio; its research DAG and dataset cache
  are in studio/orchestration.py. A back test (backtesting/) loads a specification document, compiles its
  features, searches their parameters on one part of a data set and reports the other.
  The gateway (studio/gateway.py) is the same idea as a web service: chat messages become work orders
  in a JSON document, a runner lets agents work on them stage by stage behind the user's approvals,
  and an approved signal may be started as a process.

  \<^bold>\<open>Conventions.\<close> Exceptions are values of \<open>exn\<close>; a method that mutates its object is an
  \<open>('s, 'a) eff\<close>, from the object's state to \<open>Inl\<close> of an exception or \<open>Inr\<close> of the result,
  each with the state at that moment: raising rolls nothing back, as in Python. Instants are
  integers of microseconds, naive and aware ones apart (\<open>pydt\<close>). A dict is an association list
  in insertion order where order or serialization matters, and a map otherwise. Decimals are
  rationals with the context's rounding to 28 digits; the floats of the feature language are a
  type \<open>'f\<close> with the operations of a record, so that its theorems hold of every arithmetic.
  Strings are Latin-1: a text that users see in Chinese is a constructor with the values it inserts.
  An \<open>await\<close> is a suspension at which an environment lets other tasks run.

  \<^bold>\<open>Theories and the code they model\<close>, under src/src/quant_signal_agent:

  \<^item> \<open>Py_Prelude\<close>: exceptions, \<open>eff\<close> with its weakest precondition \<open>wp\<close>, instants, dicts, the
    shared lemmas; \<open>_require_aware\<close> of data/models.py. \<open>Py_Values\<close>: dynamic values, \<open>float(x)\<close>,
    the evidence check of backtesting/performance.py. \<open>Py_Decimal\<close>: decimals. \<open>Py_Numerals\<close>: the
    syntax of numerals, instants from milliseconds.
  \<^item> \<open>Studio_Models\<close> (studio/models.py), \<open>Studio_Workflow\<close> (\<open>QuantStudio\<close>, studio/workflow.py),
    \<open>Studio_Manager\<close> (\<open>ManagerAgent\<close>, studio/manager.py). \<open>Studio_Gates\<close> states the interface
    of a studio operation's frame as a locale and interprets it on every operation;
    \<open>Studio_Automaton\<close> is the abstract machine of one project that the workflow refines.
  \<^item> \<open>Market_Data\<close> (data/models.py, data/timeframes.py), \<open>Order_Book\<close> (state/order_book.py),
    \<open>Candle_Store\<close> (state/candles.py), \<open>Freshness\<close> (state/freshness.py, state/ingestion.py),
    \<open>Market_State\<close> (state/market.py). \<open>Bounded_Window\<close> is the contract of a
    \<open>deque(maxlen=n)\<close> as a locale; \<open>Order_Book_Tracking\<close> relates a local book to the venue's;
    \<open>Market_Invariant\<close> holds the invariant of the state and its preservation.
  \<^item> \<open>Signal_Policy\<close> (signals/models.py, signals/policy.py), \<open>Signal_Engine\<close>
    (signals/definitions.py, registry.py, engine.py, replay.py), \<open>Signal_Invariant\<close>.
  \<^item> \<open>Feature_Dsl\<close> (backtesting/dsl.py), \<open>Spec_Table\<close> and \<open>Backtest_Spec\<close> (backtesting/spec.py, models.py:
    the executable block, the typed access to it, version 1), \<open>Generic_Spec\<close> (generic_spec.py: version 2),
    \<open>Generic_Engine\<close> (generic_engine.py), \<open>Backtest_Run\<close> (engine.py, runner.py); \<open>Backtest_Samples\<close> is a
    small back test on which the witnesses evaluate.
  \<^item> \<open>Delivery\<close> (exchanges/common/retry.py and rate_limiter.py, notifications/base.py and
    dispatcher.py).
  \<^item> The exchange adapters, from the venue's JSON to events: \<open>Venue_Values\<close> (exchanges/common/normalization.py
    and a request with its retries), \<open>Binance_Futures\<close> (exchanges/binance/adapter.py), \<open>Binance_Spot\<close>
    (exchanges/binance/spot.py), \<open>Bybit_Adapter\<close>, \<open>Okx_Adapter\<close>, \<open>Hyperliquid_Adapter\<close> (adapter.py of
    each). \<open>Binance_Subscriptions\<close>, \<open>Binance_Invariant\<close> and \<open>Binance_Spot_Invariant\<close> hold the histories of the
    subscriptions and their invariant; \<open>Emission_Gate\<close> is the law of the derivatives' emissions as a locale,
    interpreted for every venue; \<open>Venue_Feed\<close> composes the adapter with the local book.
  \<^item> \<open>Orchestration\<close> (studio/orchestration.py).
  \<^item> \<open>Supervisor\<close>, \<open>Supervisor_Control\<close> (state/supervisor.py: warm-up, events, recovery, streams;
    reconciliation, health), \<open>Supervisor_Invariant\<close>.
  \<^item> \<open>Universe\<close> (universe/binance.py, universe/pool.py), \<open>Candidate_Runtime\<close> (universe/runtime.py).
  \<^item> studio/gateway.py: \<open>Review_Report\<close> (how an agent's report is read), \<open>Work_Order\<close> (the document
    \<open>JsonStateStore\<close> keeps, and the runner's mutations of it), \<open>Order_Recovery\<close> (migrations,
    recoveries and operator requests), \<open>Artifact_Evidence\<close> (manifests, evidence, the artifact
    record), \<open>Order_Approval\<close> (creation, approval gates, adoption, the versions approved for the
    runtime), \<open>Order_Runner\<close> (\<open>CodexWorkOrderRunner\<close> as a task: stages, error handling, loop and
    start), \<open>Signal_Process\<close> (\<open>SignalRuntimeController\<close>), \<open>Manager_Routing\<close> (from a chat message to
    a decision), \<open>Studio_Service\<close> (\<open>StudioService.handle_manager_message\<close>). \<open>Order_Invariant\<close> and
    \<open>Order_Worker\<close> hold the invariant of the document and its preservation by every request,
    mutation and turn.

  \<^bold>\<open>What the lemmas show.\<close>

  \<^item> \<open>Studio_Properties\<close> (C1 to C4): in every reachable state a live signal has passed every
    approval and review its kind needs; each call moves a project along an edge of the abstract
    machine or not at all; no history skips the approval stages; a Trading
    Strategy never runs. Also that only the user's decisions set approvals, when a start succeeds, the evidence of an accepted
    back test, the message log, the allow-list and one mis-delegation in the Manager's log.
  \<^item> \<open>Order_Properties\<close> and \<open>Review_Rendering\<close> (C5 to C11): an approved work order passed every
    gate, in every reachable state and whatever requests come while the worker is suspended; failing
    orders leave the queue; a report in the prompt's format is read back; and ways in which the
    code falls short of its intent.
  \<^item> \<open>Service_Properties\<close> (C12 to C14): the runtime is only launched for such orders, whatever the
    messages and the router say; the safety rules come first; a stop never kills. Also that decisions are
    well formed and what a start answers while another signal runs.
  \<^item> \<open>Market_Properties\<close> (C15 to C17): a synchronized book is the venue's book at its sequence
    number for messages in any order; gaps desynchronize and withdraw the book; the view's best
    levels; the invariant of the state; the candle store against a reference window; the newest
    contiguous run of candles; the ingestion decision.
  \<^item> \<open>Venue_Properties\<close> (C18 to C21): the book that Binance's adapter feeds from JSON messages and answers is
    the venue's; a Binance connection's requests amount to the streams of the active instruments in every
    history; the derivatives' emissions of every venue are spaced; failing polls back off.
  \<^item> \<open>Signal_Properties\<close> (C22 to C24): cooldown spacing over whole runs, validity of whatever is
    emitted, isolation of failing definitions; occurrences accepted once, replay accounting.
  \<^item> \<open>Feature_Properties\<close> (C25, C26): a compiled graph evaluates without an exception, and no
    row depends on a later one.
  \<^item> \<open>Backtest_Properties\<close> (C27 to C31): what an accepted specification guarantees; loaded data fits the
    compiled features; the search chooses a best eligible point; the selection reads one horizon of the
    holdout and not more; the spacing of signals; what a run's manifest says about its end.
  \<^item> \<open>Delivery_Properties\<close> (C32 to C34): bounded retries, the sliding window of the rate limiter,
    accounting and spacing of notifications.
  \<^item> \<open>Orchestration_Properties\<close> (C35): the integrity of cached datasets and its limit; the gated
    chain of the research DAG, one record for each work order, the circuit breaker.
  \<^item> \<open>Supervisor_Properties\<close> (C36, C37): the books under every interleaving of the supervisor's
    calls with other tasks, and the reconnect loop, which survives every failure.
  \<^item> \<open>Universe_Properties\<close> and \<open>Candidate_Properties\<close> (C38 to C40): residents of the pool, what a
    snapshot of the scanner ranks, and that the runtime stays in step with its supervisor.

  \<^bold>\<open>Parameters.\<close> What the package only calls is an argument: a definition's \<open>evaluate\<close> (the
  engine meets every behaviour of it, raising and timing out included), the notifier's \<open>send\<close>,
  the exchange operation that is retried, for the supervisor the streams and snapshots of the adapters, for the adapters what the
  transport answers, the clock and its floating milliseconds (\<open>venue_env\<close>), the clocks, the jitter, CPython's parser of floats and of dates, tomllib, SHA-256 and the JSON encoder, for the back tests
  float arithmetic, the files of the catalog and the revision (\<open>spec_env\<close>, \<open>engine_env\<close>, \<open>runner_env\<close>); for the gateway the agents' answers,
  the files of the workspace, the requests that come while a task is suspended (\<open>gateway_env\<close>), the
  operating system's answers about processes (\<open>os_env\<close>), the semantic router, and the predicates
  of the regular expressions over Chinese and English words (\<open>recognizers\<close>). The assumptions on them are
  premises of the theorems that need them: jitter is non-negative, a digest is a string of
  hexadecimal digits, clocks are aware, sleeps do not end early.

  \<^bold>\<open>Fuel.\<close> \<open>acquire\<close> of the rate limiter is the one loop with fuel: with two turns it always
  returns, which C33 shows as part of its conclusion. Every other loop is a structural recursion over
  the data it consumes or over the attempts that are left, or has a measure: \<open>poll\<close> of a stop the
  time to its deadline, the scans of \<open>Artifact_Evidence\<close> and \<open>Review_Report\<close> the text that remains.
  The endless loops are step relations with one turn as a step.

  \<^bold>\<open>What is not modelled\<close>: the transports of the exchanges and the merging of an adapter's
  concurrent streams, the archives and the context features, the gateway's HTTP layer,
  snapshot view, uploads and login, the prompts and the client of the agents, the providers, the
  trading charts and numerics, subprocess tooling, the Telegram client and formatter, logging, the environment and the command lines. The
  mutual exclusion of locks is not modelled: what a lock protects is one step. A feature whose parameter
  reference is an array or a table ends loading with a \<open>TypeError\<close>, in the model with the refusal of the
  reference.
\<close>

end
